(* ===== verification/Prelude.thy ===== *)
theory Prelude
  imports Complex_Main "HOL-Library.Multiset"
begin

text \<open>
  Shared vocabulary of the development: the service monad (explicit state, HTTP
  exceptions as values, effects that survive a later exception unless they ran inside a
  transaction), the proof rules for it, and the list lemmas the components share.

  A service method of \<open>src/src/modules\<close> is a function into \<open>('s, 'a) act\<close>: from the
  state before the call it yields either the exception it threw (\<open>Inl\<close>) or its result
  (\<open>Inr\<close>), together with the state it left behind.  Writes made before a \<open>throw\<close> stay,
  as they do in the code, where only \<open>$transaction\<close> rolls back.
\<close>

section \<open>Exceptions and actions\<close>

text \<open>
  The exceptions of \<open>@nestjs/common\<close> that the services throw, with their message
  (transliterated to ASCII), and the errors of the database client with their code.
\<close>

datatype http_error =
    BadRequest string
  | Unauthorized string
  | Forbidden string
  | NotFound string
  | Conflict string
  | Unavailable string
  | DbError string

type_synonym ('s, 'a) act = "'s \<Rightarrow> (http_error + 'a) \<times> 's"

named_theorems act_defs "definitions of the actions, to run one"
named_theorems ok_iff "when an action returns a result"
named_theorems err_iff "when an action throws"
named_theorems keeps_intro "rules that an action keeps an invariant"

definition ret :: "'a \<Rightarrow> ('s, 'a) act" where
  [act_defs]: "ret x = (\<lambda>s. (Inr x, s))"

definition throw :: "http_error \<Rightarrow> ('s, 'a) act" where
  [act_defs]: "throw e = (\<lambda>s. (Inl e, s))"

definition bind :: "('s, 'a) act \<Rightarrow> ('a \<Rightarrow> ('s, 'b) act) \<Rightarrow> ('s, 'b) act" where
  "bind m f = (\<lambda>s. case m s of (Inl e, t) \<Rightarrow> (Inl e, t) | (Inr x, t) \<Rightarrow> f x t)"

definition query :: "('s \<Rightarrow> 'a) \<Rightarrow> ('s, 'a) act" where
  [act_defs]: "query q = (\<lambda>s. (Inr (q s), s))"

definition exec :: "('s \<Rightarrow> 's) \<Rightarrow> ('s, unit) act" where
  [act_defs]: "exec f = (\<lambda>s. (Inr (), f s))"

text \<open>\<open>if (!b) throw e\<close>, and \<open>if (!x) throw e\<close> on an optional value.\<close>

definition require :: "bool \<Rightarrow> http_error \<Rightarrow> ('s, unit) act" where
  "require b e = (if b then ret () else throw e)"

definition or_fail :: "http_error \<Rightarrow> 'a option \<Rightarrow> ('s, 'a) act" where
  "or_fail e x = (case x of None \<Rightarrow> throw e | Some v \<Rightarrow> ret v)"

text \<open>A call of a pure function that may throw.\<close>

definition from_result :: "http_error + 'a \<Rightarrow> ('s, 'a) act" where
  "from_result r = (\<lambda>s. (r, s))"

text \<open>\<open>if (b) await m\<close>; \<open>try { m } catch { h }\<close>; \<open>prisma.$transaction(m)\<close>.\<close>

definition whenever :: "bool \<Rightarrow> ('s, unit) act \<Rightarrow> ('s, unit) act" where
  "whenever b m = (if b then m else ret ())"

definition catch :: "('s, 'a) act \<Rightarrow> (http_error \<Rightarrow> ('s, 'a) act) \<Rightarrow> ('s, 'a) act" where
  "catch m h = (\<lambda>s. case m s of (Inl e, t) \<Rightarrow> h e t | (Inr x, t) \<Rightarrow> (Inr x, t))"

definition transaction :: "('s, 'a) act \<Rightarrow> ('s, 'a) act" where
  "transaction m = (\<lambda>s. case m s of (Inl e, t) \<Rightarrow> (Inl e, s) | (Inr x, t) \<Rightarrow> (Inr x, t))"

text \<open>\<open>for (const x of xs) await f(x)\<close>.\<close>

fun for_each :: "'a list \<Rightarrow> ('a \<Rightarrow> ('s, unit) act) \<Rightarrow> ('s, unit) act" where
  "for_each [] f = ret ()"
| "for_each (x # xs) f = bind (f x) (\<lambda>_. for_each xs f)"

text \<open>The results of an action on each element, in order, up to the first exception.\<close>

fun map_act :: "('a \<Rightarrow> ('s, 'b) act) \<Rightarrow> 'a list \<Rightarrow> ('s, 'b list) act" where
  "map_act f [] = ret []"
| "map_act f (x # xs) = bind (f x) (\<lambda>y. bind (map_act f xs) (\<lambda>ys. ret (y # ys)))"

section \<open>Running an action\<close>

lemma ret_run [simp]: "ret x s = (Inr x, s)"
  by (simp add: ret_def)

lemma throw_run [simp]: "throw e s = (Inl e, s)"
  by (simp add: throw_def)

lemma query_run [simp]: "query q s = (Inr (q s), s)"
  by (simp add: query_def)

lemma exec_run [simp]: "exec f s = (Inr (), f s)"
  by (simp add: exec_def)

lemma require_run [simp]:
  "require b e s = (if b then (Inr (), s) else (Inl e, s))"
  by (simp add: require_def)

lemma or_fail_run [simp]:
  "or_fail e None s = (Inl e, s)"
  "or_fail e (Some v) s = (Inr v, s)"
  by (simp_all add: or_fail_def)

lemma from_result_run [simp]: "from_result r s = (r, s)"
  by (simp add: from_result_def)

lemma whenever_run [simp]:
  "whenever True m = m"
  "whenever False m = ret ()"
  by (simp_all add: whenever_def)

lemma bind_run_Inr [simp]: "m s = (Inr x, t) \<Longrightarrow> bind m f s = f x t"
  by (simp add: bind_def)

lemma bind_run_Inl [simp]: "m s = (Inl e, t) \<Longrightarrow> bind m f s = (Inl e, t)"
  by (simp add: bind_def)

lemma bind_if [simp]:
  "bind (if b then m else n) f s = (if b then bind m f s else bind n f s)"
  by simp

lemma bind_assoc: "bind (bind m f) g = bind m (\<lambda>x. bind (f x) g)"
  by (rule ext) (simp add: bind_def split: sum.splits prod.splits)

lemma bind_ret [simp]: "bind (ret x) f = f x"
  by (rule ext) (simp add: bind_def)

lemma bind_throw [simp]: "bind (throw e) f = throw e"
  by (rule ext) (simp add: bind_def)

section \<open>When an action returns, when it throws\<close>

lemma bind_ok [ok_iff]:
  "bind m f s = (Inr y, t) \<longleftrightarrow> (\<exists>x u. m s = (Inr x, u) \<and> f x u = (Inr y, t))"
  by (auto simp: bind_def split: sum.splits prod.splits)

lemma bind_err [err_iff]:
  "bind m f s = (Inl e, t) \<longleftrightarrow>
     m s = (Inl e, t) \<or> (\<exists>x u. m s = (Inr x, u) \<and> f x u = (Inl e, t))"
  by (auto simp: bind_def split: sum.splits prod.splits)

lemma require_ok [ok_iff]: "require b e s = (Inr u, t) \<longleftrightarrow> b \<and> t = s"
  by auto

lemma require_err [err_iff]: "require b e s = (Inl e', t) \<longleftrightarrow> \<not> b \<and> e' = e \<and> t = s"
  by auto

lemma or_fail_ok [ok_iff]: "or_fail e x s = (Inr v, t) \<longleftrightarrow> x = Some v \<and> t = s"
  by (cases x) auto

lemma or_fail_err [err_iff]: "or_fail e x s = (Inl e', t) \<longleftrightarrow> x = None \<and> e' = e \<and> t = s"
  by (cases x) auto

lemma from_result_ok [ok_iff]: "from_result r s = (Inr v, t) \<longleftrightarrow> r = Inr v \<and> t = s"
  by auto

lemma from_result_err [err_iff]: "from_result r s = (Inl e, t) \<longleftrightarrow> r = Inl e \<and> t = s"
  by auto

lemma query_ok [ok_iff]: "query q s = (Inr v, t) \<longleftrightarrow> v = q s \<and> t = s"
  by auto

lemma query_err [err_iff]: "\<not> query q s = (Inl e, t)"
  by simp

lemma exec_ok [ok_iff]: "exec f s = (Inr u, t) \<longleftrightarrow> t = f s"
  by auto

lemma exec_err [err_iff]: "\<not> exec f s = (Inl e, t)"
  by simp

lemma catch_ok [ok_iff]:
  "catch m h s = (Inr x, t) \<longleftrightarrow>
     m s = (Inr x, t) \<or> (\<exists>e u. m s = (Inl e, u) \<and> h e u = (Inr x, t))"
  by (auto simp: catch_def split: sum.splits prod.splits)

lemma transaction_ok [ok_iff]:
  "transaction m s = (Inr x, t) \<longleftrightarrow> m s = (Inr x, t)"
  by (auto simp: transaction_def split: sum.splits prod.splits)

lemma transaction_err [err_iff]:
  "transaction m s = (Inl e, t) \<longleftrightarrow> t = s \<and> (\<exists>u. m s = (Inl e, u))"
  by (auto simp: transaction_def split: sum.splits prod.splits)

section \<open>Reading actions and kept invariants\<close>

text \<open>
  An action that only reads leaves the state as it found it, whatever its outcome; an
  action keeps \<open>I\<close> when \<open>I\<close> survives it, whatever its outcome.
\<close>

definition reads_only :: "('s, 'a) act \<Rightarrow> bool" where
  "reads_only m \<longleftrightarrow> (\<forall>s. snd (m s) = s)"

definition keeps :: "('s \<Rightarrow> bool) \<Rightarrow> ('s, 'a) act \<Rightarrow> bool" where
  "keeps I m \<longleftrightarrow> (\<forall>s. I s \<longrightarrow> I (snd (m s)))"

named_theorems reads_intro "rules that an action only reads"

lemma reads_onlyD: "reads_only m \<Longrightarrow> m s = (r, t) \<Longrightarrow> t = s"
  by (metis reads_only_def snd_conv)

lemma keepsD: "keeps I m \<Longrightarrow> I s \<Longrightarrow> m s = (r, t) \<Longrightarrow> I t"
  by (metis keeps_def snd_conv)

lemma keepsI: "(\<And>s r t. I s \<Longrightarrow> m s = (r, t) \<Longrightarrow> I t) \<Longrightarrow> keeps I m"
  by (metis keeps_def prod.collapse)

lemma reads_basic [reads_intro]:
  "reads_only (ret x)" "reads_only (throw e)" "reads_only (query q)"
  "reads_only (require b e)" "reads_only (or_fail e x')" "reads_only (from_result r)"
  by (simp_all add: reads_only_def require_def or_fail_def split: option.split)

lemma reads_bind [reads_intro]:
  "reads_only m \<Longrightarrow> (\<And>x. reads_only (f x)) \<Longrightarrow> reads_only (bind m f)"
  by (auto simp: reads_only_def bind_def split: sum.splits prod.splits) (metis snd_conv)+

lemma reads_if [reads_intro]:
  "(b \<Longrightarrow> reads_only m) \<Longrightarrow> (\<not> b \<Longrightarrow> reads_only n) \<Longrightarrow> reads_only (if b then m else n)"
  by simp

lemma reads_option [reads_intro]:
  "reads_only m \<Longrightarrow> (\<And>x. reads_only (f x)) \<Longrightarrow>
     reads_only (case o' of None \<Rightarrow> m | Some x \<Rightarrow> f x)"
  by (cases o') auto

lemma keeps_reads: "reads_only m \<Longrightarrow> keeps I m"
  by (simp add: reads_only_def keeps_def)

lemma keeps_basic [keeps_intro]:
  "keeps I (ret x)" "keeps I (throw e)" "keeps I (query q)"
  "keeps I (require b e)" "keeps I (or_fail e x')" "keeps I (from_result r)"
  by (rule keeps_reads, rule reads_basic)+

lemma keeps_bind [keeps_intro]:
  "keeps I m \<Longrightarrow> (\<And>x. keeps I (f x)) \<Longrightarrow> keeps I (bind m f)"
  by (auto simp: keeps_def bind_def split: sum.splits prod.splits)

lemma keeps_exec [keeps_intro]: "(\<And>s. I s \<Longrightarrow> I (f s)) \<Longrightarrow> keeps I (exec f)"
  by (simp add: keeps_def)

lemma keeps_if [keeps_intro]:
  "(b \<Longrightarrow> keeps I m) \<Longrightarrow> (\<not> b \<Longrightarrow> keeps I n) \<Longrightarrow> keeps I (if b then m else n)"
  by simp

lemma keeps_option [keeps_intro]:
  "keeps I m \<Longrightarrow> (\<And>x. keeps I (f x)) \<Longrightarrow>
     keeps I (case o' of None \<Rightarrow> m | Some x \<Rightarrow> f x)"
  by (cases o') auto

lemma keeps_whenever [keeps_intro]: "keeps I m \<Longrightarrow> keeps I (whenever b m)"
  by (simp add: whenever_def keeps_basic)

lemma keeps_catch [keeps_intro]:
  "keeps I m \<Longrightarrow> (\<And>e. keeps I (h e)) \<Longrightarrow> keeps I (catch m h)"
  by (auto simp: keeps_def catch_def split: sum.splits prod.splits)

lemma keeps_transaction [keeps_intro]: "keeps I m \<Longrightarrow> keeps I (transaction m)"
  by (auto simp: keeps_def transaction_def split: sum.splits prod.splits)

lemma keeps_for_each [keeps_intro]:
  "(\<And>x. keeps I (f x)) \<Longrightarrow> keeps I (for_each xs f)"
  by (induction xs) (auto intro: keeps_intro)

text \<open>A call whose first part only reads, and a check before the rest.\<close>

lemma keeps_after_read:
  assumes "reads_only m" and "\<And>s x. I s \<Longrightarrow> m s = (Inr x, s) \<Longrightarrow> I (snd (f x s))"
  shows "keeps I (bind m f)"
proof (rule keepsI)
  fix s r t
  assume I: "I s" and run: "bind m f s = (r, t)"
  obtain y u where y: "m s = (y, u)" by fastforce
  have u: "u = s" using assms(1) y by (rule reads_onlyD)
  show "I t"
  proof (cases y)
    case (Inl e)
    then show ?thesis using I run y u by simp
  next
    case (Inr x)
    then have "I (snd (f x s))" using assms(2) I y u by blast
    then show ?thesis using run y u Inr by simp
  qed
qed

lemma keeps_checked:
  assumes "reads_only m" and "\<And>s x. m s = (Inr x, s) \<Longrightarrow> keeps I (f x)"
  shows "keeps I (bind m f)"
  using assms(1)
proof (rule keeps_after_read)
  fix s x
  assume "I s" and "m s = (Inr x, s)"
  then show "I (snd (f x s))" using assms(2) by (auto simp: keeps_def)
qed

lemma bind_require: "bind (require b e) f s = (if b then f () s else (Inl e, s))"
  by simp

section \<open>Sequences of calls\<close>

text \<open>
  A component as a machine: calls \<open>'c\<close> run one after the other over a state, each to its
  end, each allowed in the state it runs in.  What every allowed call keeps, every such
  sequence keeps.
\<close>

fun allowed_run :: "('c \<Rightarrow> 's \<Rightarrow> 's) \<Rightarrow> ('c \<Rightarrow> 's \<Rightarrow> bool) \<Rightarrow> 's \<Rightarrow> 'c list \<Rightarrow> bool" where
  "allowed_run step allowed s [] \<longleftrightarrow> True"
| "allowed_run step allowed s (c # cs) \<longleftrightarrow>
     allowed c s \<and> allowed_run step allowed (step c s) cs"

locale machine =
  fixes step :: "'c \<Rightarrow> 's \<Rightarrow> 's" and allowed :: "'c \<Rightarrow> 's \<Rightarrow> bool" and inv :: "'s \<Rightarrow> bool"
  assumes step_inv: "allowed c s \<Longrightarrow> inv s \<Longrightarrow> inv (step c s)"
begin

lemma run_inv: "allowed_run step allowed s cs \<Longrightarrow> inv s \<Longrightarrow> inv (fold step cs s)"
  by (induction cs arbitrary: s) (auto intro: step_inv)

end

lemma all_allowed: "allowed_run step (\<lambda>_ _. True) s cs"
  by (induction cs arbitrary: s) auto

section \<open>Lists as tables\<close>

lemma find_Some_set: "List.find P xs = Some x \<Longrightarrow> x \<in> set xs \<and> P x"
  by (auto simp: find_Some_iff)

lemma find_map_update:
  assumes "\<And>x. P x \<Longrightarrow> Q (f x) = Q x" and "\<And>x. P x \<Longrightarrow> Q x"
  shows "List.find Q (map (\<lambda>x. if P x then f x else x) xs) =
    map_option (\<lambda>x. if P x then f x else x) (List.find Q xs)"
  using assms by (induction xs) auto

lemma find_map_other:
  assumes "\<And>x. P x \<Longrightarrow> Q (f x) = Q x"
  shows "List.find Q (map (\<lambda>x. if P x then f x else x) xs) =
    map_option (\<lambda>x. if P x then f x else x) (List.find Q xs)"
  using assms by (induction xs) auto

lemma find_append: "List.find P (xs @ ys) =
    (case List.find P xs of None \<Rightarrow> List.find P ys | Some x \<Rightarrow> Some x)"
  by (induction xs) auto

lemma find_distinct_key:
  "distinct (map k xs) \<Longrightarrow> x \<in> set xs \<Longrightarrow> List.find (\<lambda>y. k y = k x) xs = Some x"
proof (induction xs)
  case (Cons a xs)
  then show ?case by (cases "a = x") (auto simp: image_iff)
qed simp

lemma distinct_key_unique:
  "distinct (map k xs) \<Longrightarrow> x \<in> set xs \<Longrightarrow> y \<in> set xs \<Longrightarrow> k x = k y \<Longrightarrow> x = y"
  by (auto simp: distinct_map inj_on_def)

lemma length_filter_sum: "int (length (filter P xs)) = sum_list (map (\<lambda>x. if P x then 1 else 0) xs)"
  by (induction xs) auto

lemma sum_list_map_if_key:
  fixes g :: "'a \<Rightarrow> 'b::ab_group_add"
  assumes "distinct (map k xs)" and "x \<in> set xs"
  shows "sum_list (map g (map (\<lambda>y. if k y = k x then f y else y) xs)) =
    sum_list (map g xs) - g x + g (f x)"
  using assms
proof (induction xs)
  case Nil
  then show ?case by simp
next
  case (Cons a xs)
  show ?case
  proof (cases "a = x")
    case True
    then have "map (\<lambda>y. if k y = k x then f y else y) xs = xs"
      using Cons.prems by (intro map_idI) (auto simp: image_iff)
    then show ?thesis using True by simp
  next
    case False
    then have "x \<in> set xs" and "k a \<noteq> k x" using Cons.prems by (auto simp: image_iff)
    then show ?thesis using Cons by (simp add: algebra_simps)
  qed
qed

lemma map_key_update:
  "(\<And>x. P x \<Longrightarrow> k (f x) = k x) \<Longrightarrow> map k (map (\<lambda>x. if P x then f x else x) xs) = map k xs"
  by (induction xs) auto

lemma distinct_key_update:
  assumes "distinct (map k xs)" and "\<And>x. P x \<Longrightarrow> k (f x) = k x"
  shows "distinct (map k (map (\<lambda>x. if P x then f x else x) xs))"
proof -
  have "map k (map (\<lambda>x. if P x then f x else x) xs) = map k xs"
    by (rule map_key_update) (rule assms(2))
  then show ?thesis using assms(1) by (simp only:)
qed

lemma list_all_update:
  "list_all Q xs \<Longrightarrow> (\<And>x. x \<in> set xs \<Longrightarrow> P x \<Longrightarrow> Q x \<Longrightarrow> Q (f x)) \<Longrightarrow>
     list_all Q (map (\<lambda>x. if P x then f x else x) xs)"
  by (induction xs) auto

lemma map_update_cong:
  assumes "distinct (map k xs)" and "x \<in> set xs" and "k x = i" and "f x = g x"
  shows "map (\<lambda>y. if k y = i then f y else y) xs = map (\<lambda>y. if k y = i then g y else y) xs"
proof (rule map_cong [OF refl])
  fix y
  assume "y \<in> set xs"
  then show "(if k y = i then f y else y) = (if k y = i then g y else y)"
    using distinct_key_unique [OF assms(1) _ assms(2)] assms(3,4) by metis
qed

lemma sort_key_set [simp]: "set (sort_key f xs) = set xs"
  by simp

lemma sort_key_hd_min:
  "sort_key f xs = y # ys \<Longrightarrow> x \<in> set xs \<Longrightarrow> f y \<le> f x"
proof -
  assume eq: "sort_key f xs = y # ys" and x: "x \<in> set xs"
  have "sorted (map f (sort_key f xs))" by simp
  moreover have "x \<in> set (y # ys)" using x eq by (metis set_sort)
  ultimately show "f y \<le> f x" unfolding eq by auto
qed

text \<open>Counting the rows that match after one row changed.\<close>

lemma count_after_update:
  assumes "distinct (map k xs)" and "x \<in> set xs"
  shows "int (length (filter P (map (\<lambda>y. if k y = k x then f y else y) xs))) =
    int (length (filter P xs)) - (if P x then 1 else 0) + (if P (f x) then 1 else 0)"
  unfolding length_filter_sum by (rule sum_list_map_if_key [OF assms])

end
