(* ===== verification/JsDate.thy ===== *)
theory JsDate
  imports Prelude
begin

text \<open>
  The \<open>Date\<close> of JavaScript as the services use it: a time is a number of milliseconds
  since 1970-01-01T00:00Z, and \<open>getFullYear\<close>, \<open>getMonth\<close>, \<open>getDate\<close>, \<open>setMonth\<close> and
  \<open>setDate\<close> read and rebuild it through the day arithmetic of ECMA-262 (\<open>DayFromYear\<close>,
  \<open>YearFromTime\<close>, \<open>MonthFromTime\<close>, \<open>MakeDay\<close>).  The server runs in UTC, so the local and
  the UTC accessors agree.  A \<open>setMonth\<close> past the end of the month rolls over, as in
  JavaScript (31 January plus one month is in March).
\<close>

type_synonym time = int

definition day_ms :: int where
  "day_ms = 24 * 60 * 60 * 1000"

section \<open>Years\<close>

definition day_from_year :: "int \<Rightarrow> int" where
  "day_from_year y =
     365 * (y - 1970) + (y - 1969) div 4 - (y - 1901) div 100 + (y - 1601) div 400"

definition leap :: "int \<Rightarrow> bool" where
  "leap y \<longleftrightarrow> y mod 4 = 0 \<and> (y mod 100 \<noteq> 0 \<or> y mod 400 = 0)"

definition leap_day :: "int \<Rightarrow> int" where
  "leap_day y = (if leap y then 1 else 0)"

text \<open>The year of a day number, by the 400, 100, 4 and 1 year cycles.\<close>

definition year_of_day :: "int \<Rightarrow> int" where
  "year_of_day n =
     (let z = n + 719162; a = z div 146097; r = z mod 146097;
          b = min 3 (r div 36524); r1 = r - b * 36524;
          c = r1 div 1461; r2 = r1 mod 1461; d = min 3 (r2 div 365)
      in 400 * a + 100 * b + 4 * c + d + 1)"

lemma day_from_year_cycles:
  assumes "0 \<le> b" "b \<le> 3" "0 \<le> c" "c \<le> 24" "0 \<le> d" "d \<le> (3::int)"
  shows "day_from_year (400 * a + 100 * b + 4 * c + d + 1) =
    146097 * a + 36524 * b + 1461 * c + 365 * d - 719162"
proof -
  have 4: "(400 * a + 100 * b + 4 * c + d + 1 - 1969) div 4 = 100 * a + 25 * b + c - 492"
    by (rule int_div_pos_eq [where r = d]) (use assms in auto)
  have 100: "(400 * a + 100 * b + 4 * c + d + 1 - 1901) div 100 = 4 * a + b - 19"
    by (rule int_div_pos_eq [where r = "4 * c + d"]) (use assms in auto)
  have 400: "(400 * a + 100 * b + 4 * c + d + 1 - 1601) div 400 = a - 4"
    by (rule int_div_pos_eq [where r = "100 * b + 4 * c + d"]) (use assms in auto)
  show ?thesis unfolding day_from_year_def 4 100 400 by simp
qed

lemma div_plus_one:
  assumes k: "0 < (k::int)"
  shows "(x + 1) div k = x div k + (if (x + 1) mod k = 0 then 1 else 0)"
proof -
  define q where "q = x div k"
  define r where "r = x mod k"
  have x: "x = k * q + r" and r: "0 \<le> r" "r < k"
    using k unfolding q_def r_def by simp_all
  show ?thesis
  proof (cases "r + 1 = k")
    case True
    then have "x + 1 = k * (q + 1)" using x by (simp add: distrib_left)
    then show ?thesis unfolding q_def [symmetric] using k by simp
  next
    case False
    then have lt: "r + 1 < k" and e: "x + 1 = k * q + (r + 1)" using r x by auto
    have "(x + 1) div k = q" by (rule int_div_pos_eq [OF e _ lt]) (use r in simp)
    moreover have "(x + 1) mod k = r + 1" by (rule int_mod_pos_eq [OF e _ lt]) (use r in simp)
    moreover have "r + 1 \<noteq> 0" using r by simp
    ultimately show ?thesis unfolding q_def [symmetric] by simp
  qed
qed

lemma mod_shift_multiple: "(x - k * c) mod k = x mod (k::int)"
  using mod_mult_self1 [of x "- c" k] by (simp add: mult.commute)

lemma day_from_year_Suc: "day_from_year (y + 1) = day_from_year y + 365 + leap_day y"
proof -
  define p4 where "p4 \<longleftrightarrow> y mod 4 = 0"
  define p100 where "p100 \<longleftrightarrow> y mod 100 = 0"
  define p400 where "p400 \<longleftrightarrow> y mod 400 = 0"
  have e: "y - 1969 + 1 = y - 4 * 492" "y - 1901 + 1 = y - 100 * 19"
      "y - 1601 + 1 = y - 400 * 4" "y + 1 - 1969 = y - 1969 + 1" "y + 1 - 1901 = y - 1901 + 1"
      "y + 1 - 1601 = y - 1601 + 1"
    by simp_all
  have 4: "(y + 1 - 1969) div 4 = (y - 1969) div 4 + (if p4 then 1 else 0)"
    unfolding e(4) p4_def using div_plus_one [of 4 "y - 1969"]
    by (simp only: e mod_shift_multiple zero_less_numeral simp_thms)
  have 100: "(y + 1 - 1901) div 100 = (y - 1901) div 100 + (if p100 then 1 else 0)"
    unfolding e(5) p100_def using div_plus_one [of 100 "y - 1901"]
    by (simp only: e mod_shift_multiple zero_less_numeral simp_thms)
  have 400: "(y + 1 - 1601) div 400 = (y - 1601) div 400 + (if p400 then 1 else 0)"
    unfolding e(6) p400_def using div_plus_one [of 400 "y - 1601"]
    by (simp only: e mod_shift_multiple zero_less_numeral simp_thms)
  have "p100 \<Longrightarrow> p4"
    unfolding p4_def p100_def mod_eq_0_iff_dvd by (rule dvd_trans [of _ 100]) simp_all
  moreover have "p400 \<Longrightarrow> p100"
    unfolding p400_def p100_def mod_eq_0_iff_dvd by (rule dvd_trans [of _ 400]) simp_all
  moreover have "leap_day y = (if p4 \<and> (\<not> p100 \<or> p400) then 1 else 0)"
    by (simp add: leap_day_def leap_def p4_def p100_def p400_def)
  ultimately show ?thesis
    unfolding day_from_year_def 4 100 400
    by (cases p4; cases p100; cases p400; simp)
qed

text \<open>\<open>YearFromTime\<close>: the year whose days contain the day number.\<close>

lemma year_of_day_bounds:
  "day_from_year (year_of_day n) \<le> n \<and> n < day_from_year (year_of_day n + 1)"
proof -
  define z where "z = n + 719162"
  define a where "a = z div 146097"
  define r where "r = z mod 146097"
  define b where "b = min 3 (r div 36524)"
  define r1 where "r1 = r - b * 36524"
  define c where "c = r1 div 1461"
  define r2 where "r2 = r1 mod 1461"
  define d where "d = min 3 (r2 div 365)"
  have y: "year_of_day n = 400 * a + 100 * b + 4 * c + d + 1"
    unfolding year_of_day_def Let_def a_def b_def c_def d_def r_def r1_def r2_def z_def
    by (rule refl)
  have r: "0 \<le> r" "r < 146097" "z = 146097 * a + r"
    unfolding r_def a_def by auto
  have b: "0 \<le> b" "b \<le> 3" "0 \<le> r1" "r1 < 36525" "b < 3 \<Longrightarrow> r1 < 36524"
    using r unfolding b_def r1_def by (auto simp: min_def)
  have c: "0 \<le> c" "c \<le> 24" "0 \<le> r2" "r2 < 1461" "r1 = 1461 * c + r2"
    using b unfolding c_def r2_def by auto
  have d: "0 \<le> d" "d \<le> 3" "365 * d \<le> r2" "r2 < 365 * d + 366" "d < 3 \<Longrightarrow> r2 < 365 * d + 365"
    using c unfolding d_def by (auto simp: min_def)
  have low: "day_from_year (year_of_day n) =
      146097 * a + 36524 * b + 1461 * c + 365 * d - 719162"
    unfolding y by (rule day_from_year_cycles) (use b c d in auto)
  have n: "n = 146097 * a + 36524 * b + 1461 * c + r2 - 719162"
    using r(3) c(5) unfolding z_def r1_def by simp
  have "n < day_from_year (year_of_day n + 1)"
  proof (cases "d = 3")
    case False
    then have "r2 < 365 * d + 365" using d by auto
    moreover have "0 \<le> leap_day (year_of_day n)" by (simp add: leap_day_def)
    ultimately show ?thesis
      unfolding day_from_year_Suc using low n by linarith
  next
    case True
    have "leap_day (year_of_day n) = 1 \<or> c = 24 \<and> b < 3"
    proof (cases "c = 24 \<and> b < 3")
      case False
      have y4: "year_of_day n = 4 * (100 * a + 25 * b + c + 1)" unfolding y using True by simp
      then have "year_of_day n mod 4 = 0" by simp
      moreover have "year_of_day n mod 100 = 0 \<Longrightarrow> year_of_day n mod 400 = 0"
      proof -
        assume "year_of_day n mod 100 = 0"
        moreover have "year_of_day n = 100 * (4 * a + b) + 4 * (c + 1)" using y4 by simp
        moreover have "(100 * (4 * a + b) + 4 * (c + 1)) mod 100 = (4 * (c + 1)) mod 100"
          by (rule mod_mult_self4)
        ultimately have "(4 * (c + 1)) mod 100 = 0" by (simp only:)
        then have "100 \<le> 4 * (c + 1)" using c(1) by (auto simp: mod_eq_0_iff_dvd dest: zdvd_imp_le)
        then have "c = 24" using c(2) by simp
        then have "b = 3" using False b(2) by simp
        then have "year_of_day n = 400 * (a + 1)" using y4 \<open>c = 24\<close> by simp
        then show ?thesis by simp
      qed
      ultimately show ?thesis by (auto simp: leap_day_def leap_def)
    qed simp
    then show ?thesis
    proof
      assume "leap_day (year_of_day n) = 1"
      then show ?thesis unfolding day_from_year_Suc using low n d by linarith
    next
      assume "c = 24 \<and> b < 3"
      moreover have "0 \<le> leap_day (year_of_day n)" by (simp add: leap_day_def)
      ultimately show ?thesis
        unfolding day_from_year_Suc using low n c(5) b(5) True by linarith
    qed
  qed
  with low n d show ?thesis by linarith
qed

section \<open>Months\<close>

text \<open>Months count from 0, as in JavaScript.\<close>

definition days_before_month :: "int \<Rightarrow> int \<Rightarrow> int" where
  "days_before_month y m =
     (if m \<le> 0 then 0 else if m = 1 then 31
      else leap_day y +
        (if m = 2 then 59 else if m = 3 then 90 else if m = 4 then 120
         else if m = 5 then 151 else if m = 6 then 181 else if m = 7 then 212
         else if m = 8 then 243 else if m = 9 then 273 else if m = 10 then 304 else 334))"

definition month_of_year_day :: "int \<Rightarrow> int \<Rightarrow> int" where
  "month_of_year_day y k =
     (if k < 31 then 0 else if k < 59 + leap_day y then 1 else if k < 90 + leap_day y then 2
      else if k < 120 + leap_day y then 3 else if k < 151 + leap_day y then 4
      else if k < 181 + leap_day y then 5 else if k < 212 + leap_day y then 6
      else if k < 243 + leap_day y then 7 else if k < 273 + leap_day y then 8
      else if k < 304 + leap_day y then 9 else if k < 334 + leap_day y then 10 else 11)"

definition make_day :: "int \<Rightarrow> int \<Rightarrow> int \<Rightarrow> int" where
  "make_day y m d =
     (let y' = y + m div 12
      in day_from_year y' + days_before_month y' (m mod 12) + d - 1)"

definition day_of :: "time \<Rightarrow> int" where
  "day_of t = t div day_ms"

definition get_year :: "time \<Rightarrow> int" where
  "get_year t = year_of_day (day_of t)"

definition get_month :: "time \<Rightarrow> int" where
  "get_month t =
     month_of_year_day (get_year t) (day_of t - day_from_year (get_year t))"

definition get_date :: "time \<Rightarrow> int" where
  "get_date t =
     day_of t - day_from_year (get_year t) - days_before_month (get_year t) (get_month t) + 1"

definition date_utc :: "int \<Rightarrow> int \<Rightarrow> int \<Rightarrow> time" where
  "date_utc y m d = make_day y m d * day_ms"

text \<open>\<open>d.setDate(n)\<close> and \<open>d.setMonth(n)\<close>: the day is rebuilt, the time of day kept.\<close>

definition set_date :: "time \<Rightarrow> int \<Rightarrow> time" where
  "set_date t d = make_day (get_year t) (get_month t) d * day_ms + t mod day_ms"

definition set_month :: "time \<Rightarrow> int \<Rightarrow> time" where
  "set_month t m = make_day (get_year t) m (get_date t) * day_ms + t mod day_ms"

lemma day_ms_pos [simp]: "0 < day_ms" "day_ms \<noteq> 0"
  by (simp_all add: day_ms_def)

lemma get_month_range: "0 \<le> get_month t \<and> get_month t \<le> 11"
  by (simp add: get_month_def month_of_year_day_def)

lemma make_day_get: "make_day (get_year t) (get_month t) (get_date t) = day_of t"
  using get_month_range [of t] by (simp add: make_day_def get_date_def)

lemma make_day_shift: "make_day y m (d + k) = make_day y m d + k"
  by (simp add: make_day_def Let_def)

text \<open>\<open>d.setDate(d.getDate() + k)\<close> moves by \<open>k\<close> days, across months and years.\<close>

lemma set_date_shift: "set_date t (get_date t + k) = t + k * day_ms"
proof -
  have "set_date t (get_date t + k) = (day_of t + k) * day_ms + t mod day_ms"
    by (simp add: set_date_def make_day_shift make_day_get)
  also have "\<dots> = t + k * day_ms"
    by (simp add: day_of_def distrib_right)
  finally show ?thesis .
qed

lemma make_day_next_month:
  assumes "0 \<le> m" "m \<le> 11"
  shows "make_day y m d + 28 \<le> make_day y (m + 1) d"
proof (cases "m = 11")
  case True
  then show ?thesis
    by (simp add: make_day_def days_before_month_def day_from_year_Suc)
next
  case False
  then have "m = 0 \<or> m = 1 \<or> m = 2 \<or> m = 3 \<or> m = 4 \<or> m = 5 \<or> m = 6 \<or>
      m = 7 \<or> m = 8 \<or> m = 9 \<or> m = 10"
    using assms by arith
  moreover have "leap_day y = 0 \<or> leap_day y = 1" by (simp add: leap_day_def)
  ultimately show ?thesis
    by (elim disjE) (simp_all add: make_day_def days_before_month_def)
qed

text \<open>\<open>d.setMonth(d.getMonth() + 1)\<close> moves forward, by 28 days at least.\<close>

lemma set_month_forward: "t + 28 * day_ms \<le> set_month t (get_month t + 1)"
proof -
  have "day_of t + 28 \<le> make_day (get_year t) (get_month t + 1) (get_date t)"
    using make_day_next_month [of "get_month t" "get_year t" "get_date t"]
      get_month_range [of t] make_day_get [of t] by simp
  then have "(day_of t + 28) * day_ms \<le>
      make_day (get_year t) (get_month t + 1) (get_date t) * day_ms"
    by (intro mult_right_mono) (auto simp: day_ms_def)
  then have "(day_of t + 28) * day_ms + t mod day_ms \<le> set_month t (get_month t + 1)"
    by (simp add: set_month_def)
  moreover have "day_of t * day_ms + t mod day_ms = t"
    by (simp add: day_of_def)
  ultimately show ?thesis by (simp add: distrib_right)
qed

end
