(* ===== verification/JsText.thy ===== *)
theory JsText
  imports JsDate
begin

text \<open>
  Text as the services build it.  A string is a list of code units below 256 (the
  \<open>char\<close> of HOL), enough for every character the code tests; user text beyond it only
  passes through.  Here: \<open>String(n)\<close>, \<open>padStart\<close>, \<open>join\<close>, the CSV cell of
  \<open>src/src/common/utils/csv.ts\<close> with the reader of RFC 4180 it is meant for, the
  RFC 5545 escaping of \<open>src/src/modules/calendar/calendar.service.ts\<close>, and the
  \<open>AAAA-MM\<close> and \<open>AAAA-MM-JJ\<close> keys made from dates.
\<close>

section \<open>Numbers as text\<close>

definition digit_char :: "nat \<Rightarrow> char" where
  "digit_char d = char_of (48 + d)"

fun show_nat :: "nat \<Rightarrow> string" where
  "show_nat n =
     (if n < 10 then [digit_char n] else show_nat (n div 10) @ [digit_char (n mod 10)])"

declare show_nat.simps [simp del]

definition show_int :: "int \<Rightarrow> string" where
  "show_int i = (if i < 0 then ''-'' @ show_nat (nat (- i)) else show_nat (nat i))"

text \<open>
  \<open>Math.round(x)\<close>, \<open>Math.round(x * 100) / 100\<close>, and \<open>String(x)\<close> for a number with at
  most two decimals.
\<close>

definition js_round :: "rat \<Rightarrow> int" where
  "js_round x = \<lfloor>x + 1 / 2\<rfloor>"

definition round_cents :: "rat \<Rightarrow> rat" where
  "round_cents x = of_int (js_round (x * 100)) / 100"

text \<open>At most two decimals, as \<open>@IsNumber({ maxDecimalPlaces: 2 })\<close> asks.\<close>

definition two_decimals :: "rat \<Rightarrow> bool" where
  "two_decimals x \<longleftrightarrow> of_int \<lfloor>x * 100\<rfloor> = x * 100"

definition show_amount :: "rat \<Rightarrow> string" where
  "show_amount x =
     (let cents = js_round (\<bar>x\<bar> * 100); d = cents mod 100
      in (if x < 0 then ''-'' else []) @ show_int (cents div 100) @
         (if d = 0 then []
          else if d mod 10 = 0 then ''.'' @ show_int (d div 10)
          else ''.'' @ (if d < 10 then ''0'' else []) @ show_int d))"

lemma js_round_of_int [simp]: "js_round (of_int n) = n"
  by (simp add: js_round_def floor_unique)

lemma js_round_mono: "x \<le> y \<Longrightarrow> js_round x \<le> js_round y"
  by (simp add: js_round_def floor_mono)

lemma round_cents_mono: "x \<le> y \<Longrightarrow> round_cents x \<le> round_cents y"
  by (simp add: round_cents_def divide_right_mono js_round_mono)

lemma round_cents_whole: "x * 100 = of_int n \<Longrightarrow> round_cents x = x"
  by (simp add: round_cents_def)

lemma round_cents_zero [simp]: "round_cents 0 = 0"
  using js_round_of_int [of 0] by (simp add: round_cents_def)

lemma round_cents_error: "\<bar>round_cents x - x\<bar> \<le> 1 / 200"
proof -
  define n where "n = js_round (x * 100)"
  have "of_int n \<le> x * 100 + 1 / 2" "x * 100 + 1 / 2 < of_int n + 1"
    unfolding n_def js_round_def by (rule of_int_floor_le, linarith)
  then have "\<bar>of_int n - x * 100\<bar> \<le> 1 / 2" by linarith
  moreover have "round_cents x * 100 = of_int n"
    unfolding round_cents_def n_def [symmetric] by simp
  ultimately show ?thesis by linarith
qed

definition digit_value :: "char \<Rightarrow> nat" where
  "digit_value c = of_char c - 48"

definition read_nat :: "string \<Rightarrow> nat" where
  "read_nat s = foldl (\<lambda>n c. 10 * n + digit_value c) 0 s"

definition pad_start :: "nat \<Rightarrow> char \<Rightarrow> string \<Rightarrow> string" where
  "pad_start w c s = replicate (w - length s) c @ s"

lemma digit_value_char [simp]: "d < 10 \<Longrightarrow> digit_value (digit_char d) = d"
  by (simp add: digit_value_def digit_char_def)

lemma read_nat_snoc: "read_nat (s @ [c]) = 10 * read_nat s + digit_value c"
  by (simp add: read_nat_def)

lemma read_show_nat [simp]: "read_nat (show_nat n) = n"
proof (induction n rule: show_nat.induct)
  case (1 n)
  show ?case
  proof (cases "n < 10")
    case True
    then show ?thesis by (subst show_nat.simps) (simp add: read_nat_def)
  next
    case False
    then show ?thesis
      by (subst show_nat.simps) (simp add: read_nat_snoc "1.IH")
  qed
qed

lemma read_pad_start_zero [simp]: "read_nat (pad_start w (CHR ''0'') s) = read_nat s"
proof -
  have "foldl (\<lambda>n c. 10 * n + digit_value c) 0 (replicate k (CHR ''0'')) = 0" for k
    by (induction k) (simp_all add: digit_value_def)
  then show ?thesis by (simp add: read_nat_def pad_start_def)
qed

lemma show_nat_inj: "show_nat m = show_nat n \<Longrightarrow> m = n"
  by (metis read_show_nat)

lemma show_nat_digits: "c \<in> set (show_nat n) \<Longrightarrow> c \<in> digit_char ` {0..<10}"
proof (induction n rule: show_nat.induct)
  case (1 n)
  then show ?case
    by (subst (asm) show_nat.simps) (auto split: if_splits)
qed

lemma dash_no_digit: "CHR ''-'' \<notin> set (show_nat n)"
proof
  assume "CHR ''-'' \<in> set (show_nat n)"
  then obtain d where "d < 10" "CHR ''-'' = digit_char d"
    by (auto dest: show_nat_digits)
  then have "of_char (CHR ''-'') = (48 + d :: nat)" by (simp add: digit_char_def)
  then show False by simp
qed

section \<open>CSV\<close>

text \<open>\<open>/^[=@\t\r]|^[+-](?![\d\s]+$)/\<close>: does a spreadsheet read the text as a formula?\<close>

definition is_digit_or_space :: "char \<Rightarrow> bool" where
  "is_digit_or_space c \<longleftrightarrow>
     (let n = of_char c :: nat
      in 48 \<le> n \<and> n \<le> 57 \<or> 9 \<le> n \<and> n \<le> 13 \<or> n = 32 \<or> n = 160)"

definition formula_start :: "string \<Rightarrow> bool" where
  "formula_start s =
     (case s of [] \<Rightarrow> False
      | c # rest \<Rightarrow>
          c = CHR ''='' \<or> c = CHR ''@'' \<or> c = CHR 0x09 \<or> c = CHR 0x0D \<or>
          (c = CHR ''+'' \<or> c = CHR ''-'') \<and>
            \<not> (rest \<noteq> [] \<and> list_all is_digit_or_space rest))"

definition double_quotes :: "string \<Rightarrow> string" where
  "double_quotes s = concat (map (\<lambda>c. if c = CHR 0x22 then [CHR 0x22, CHR 0x22] else [c]) s)"

definition neutralise :: "string \<Rightarrow> string" where
  "neutralise s = (if formula_start s then CHR 0x27 # s else s)"

definition cellule_csv :: "string option \<Rightarrow> string" where
  "cellule_csv valeur =
     (let texte = (case valeur of None \<Rightarrow> [] | Some v \<Rightarrow> v)
      in [CHR 0x22] @ double_quotes (neutralise texte) @ [CHR 0x22])"

text \<open>\<open>xs.join(sep)\<close>.\<close>

fun join :: "string \<Rightarrow> string list \<Rightarrow> string" where
  "join sep [] = []"
| "join sep [x] = x"
| "join sep (x # y # ys) = x @ sep @ join sep (y # ys)"

text \<open>
  The reader of RFC 4180 for a document all of whose cells are quoted, which is what the
  exports write: cells separated by one character, records by CR LF or LF.  It is the
  specification the writer is checked against, not code of the repository.
\<close>

datatype csv_mode = Start | Inside | Quote

fun csv_read ::
  "char \<Rightarrow> csv_mode \<Rightarrow> string \<Rightarrow> string list \<Rightarrow> string \<Rightarrow> string list list option" where
  "csv_read sep Start cell row [] = None"
| "csv_read sep Start cell row (c # cs) =
     (if c = CHR 0x22 then csv_read sep Inside [] row cs else None)"
| "csv_read sep Inside cell row [] = None"
| "csv_read sep Inside cell row (c # cs) =
     (if c = CHR 0x22 then csv_read sep Quote cell row cs
      else csv_read sep Inside (cell @ [c]) row cs)"
| "csv_read sep Quote cell row [] = Some [row @ [cell]]"
| "csv_read sep Quote cell row (c # cs) =
     (if c = CHR 0x22 then csv_read sep Inside (cell @ [c]) row cs
      else if c = sep then csv_read sep Start [] (row @ [cell]) cs
      else if c = CHR 0x0A then map_option (\<lambda>rs. (row @ [cell]) # rs) (csv_read sep Start [] [] cs)
      else if c = CHR 0x0D then
        (case cs of [] \<Rightarrow> None
         | d # ds \<Rightarrow>
             if d = CHR 0x0A
             then map_option (\<lambda>rs. (row @ [cell]) # rs) (csv_read sep Start [] [] ds)
             else None)
      else None)"

definition csv_parse :: "char \<Rightarrow> string \<Rightarrow> string list list option" where
  "csv_parse sep s = csv_read sep Start [] [] s"

lemma csv_read_inside:
  "csv_read sep Inside cell row (double_quotes s @ CHR 0x22 # rest) =
     csv_read sep Quote (cell @ s) row rest"
  by (induction s arbitrary: cell) (auto simp: double_quotes_def)

lemma csv_read_cell:
  "csv_read sep Start [] row (cellule_csv v @ rest) =
     csv_read sep Quote (neutralise (case v of None \<Rightarrow> [] | Some t \<Rightarrow> t)) row rest"
  using csv_read_inside [of sep "[]" row "neutralise (case v of None \<Rightarrow> [] | Some t \<Rightarrow> t)" rest]
  by (simp add: cellule_csv_def)

definition csv_value :: "string option \<Rightarrow> string" where
  "csv_value v = neutralise (case v of None \<Rightarrow> [] | Some t \<Rightarrow> t)"

lemma csv_read_row:
  assumes "cells \<noteq> []" and "sep \<noteq> CHR 0x22"
  shows "csv_read sep Start [] row (join [sep] (map cellule_csv cells) @ rest) =
    csv_read sep Quote (csv_value (last cells)) (row @ map csv_value (butlast cells)) rest"
  using assms
proof (induction cells arbitrary: row)
  case Nil
  then show ?case by simp
next
  case (Cons v vs)
  show ?case
  proof (cases vs)
    case Nil
    then show ?thesis by (simp add: csv_read_cell csv_value_def)
  next
    case (Cons w ws)
    have "csv_read sep Start [] row (join [sep] (map cellule_csv (v # vs)) @ rest) =
        csv_read sep Start [] (row @ [csv_value v]) (join [sep] (map cellule_csv vs) @ rest)"
      using Cons assms(2) by (simp add: csv_read_cell csv_value_def)
    then show ?thesis
      using Cons.IH [of "row @ [csv_value v]"] Cons assms(2) by simp
  qed
qed

text \<open>A whole document reads back as the (neutralised) values it was written from.\<close>

lemma csv_parse_document:
  assumes "rows \<noteq> []" and "\<And>r. r \<in> set rows \<Longrightarrow> r \<noteq> []"
    and "sep \<notin> {CHR 0x22, CHR 0x0A, CHR 0x0D}" and "nl = [CHR 0x0A] \<or> nl = [CHR 0x0D, CHR 0x0A]"
  shows "csv_parse sep (join nl (map (\<lambda>r. join [sep] (map cellule_csv r)) rows)) =
    Some (map (map csv_value) rows)"
  unfolding csv_parse_def using assms
proof (induction rows)
  case Nil
  then show ?case by simp
next
  case (Cons r rs)
  have r: "r \<noteq> []" and sep: "sep \<noteq> CHR 0x22" "sep \<noteq> CHR 0x0A" "sep \<noteq> CHR 0x0D"
    using Cons.prems by auto
  have end_row: "map csv_value (butlast r) @ [csv_value (last r)] = map csv_value r"
    using r by (metis append_butlast_last_id list.simps(8,9) map_append)
  show ?case
  proof (cases rs)
    case Nil
    then show ?thesis
      using csv_read_row [OF r sep(1), of "[]" "[]"] end_row by simp
  next
    case (Cons r' rs')
    have "csv_read sep Start [] [] (join nl (map (\<lambda>r. join [sep] (map cellule_csv r)) rs)) =
        Some (map (map csv_value) rs)"
      using Cons.IH Cons.prems Cons by auto
    then show ?thesis
      using csv_read_row [OF r sep(1), of "[]"] end_row Cons.prems(4) Cons sep
      by auto
  qed
qed

text \<open>No cell a spreadsheet shows starts a formula.\<close>

lemma csv_value_no_formula: "\<not> formula_start (csv_value v)"
  by (auto simp: csv_value_def neutralise_def formula_start_def)

section \<open>iCalendar\<close>

text \<open>\<open>s.replace(/c/g, r)\<close> for one character.\<close>

definition replace_all :: "char \<Rightarrow> string \<Rightarrow> string \<Rightarrow> string" where
  "replace_all c r s = concat (map (\<lambda>x. if x = c then r else [x]) s)"

definition escape_ics_text :: "string \<Rightarrow> string" where
  "escape_ics_text value =
     replace_all (CHR 0x0A) [CHR 0x5C, CHR ''n'']
      (replace_all (CHR '';'') [CHR 0x5C, CHR '';'']
       (replace_all (CHR '','') [CHR 0x5C, CHR '','']
        (replace_all (CHR 0x5C) [CHR 0x5C, CHR 0x5C] value)))"

text \<open>What an RFC 5545 reader makes of an escaped TEXT value.\<close>

fun unescape_ics_text :: "string \<Rightarrow> string" where
  "unescape_ics_text [] = []"
| "unescape_ics_text [c] = [c]"
| "unescape_ics_text (c # d # cs) =
     (if c = CHR 0x5C
      then (if d = CHR ''n'' \<or> d = CHR ''N'' then CHR 0x0A else d) # unescape_ics_text cs
      else c # unescape_ics_text (d # cs))"

definition escape_ics_char :: "char \<Rightarrow> string" where
  "escape_ics_char c =
     (if c = CHR 0x5C then [CHR 0x5C, CHR 0x5C] else if c = CHR '','' then [CHR 0x5C, c]
      else if c = CHR '';'' then [CHR 0x5C, c] else if c = CHR 0x0A then [CHR 0x5C, CHR ''n'']
      else [c])"

text \<open>The four passes of the code amount to one pass over the characters.\<close>

lemma escape_ics_by_char: "escape_ics_text s = concat (map escape_ics_char s)"
  by (induction s) (auto simp: escape_ics_text_def replace_all_def escape_ics_char_def)

lemma unescape_escape_cons:
  "unescape_ics_text (escape_ics_char c @ rest) = c # unescape_ics_text rest"
  by (cases rest) (auto simp: escape_ics_char_def)

lemma unescape_escape: "unescape_ics_text (escape_ics_text s) = s"
  by (induction s) (simp_all add: escape_ics_by_char unescape_escape_cons)

lemma escape_ics_one_line: "CHR 0x0A \<notin> set (escape_ics_text s)"
  by (induction s) (auto simp: escape_ics_by_char escape_ics_char_def split: if_splits)

section \<open>Dates as text\<close>

definition pad2 :: "int \<Rightarrow> string" where
  "pad2 n = pad_start 2 (CHR ''0'') (show_int n)"

text \<open>\<open>`${d.getFullYear()}-${String(d.getMonth() + 1).padStart(2, '0')}`\<close>.\<close>

definition month_key :: "time \<Rightarrow> string" where
  "month_key t = show_int (get_year t) @ ''-'' @ pad2 (get_month t + 1)"

text \<open>\<open>d.toISOString().slice(0, 10)\<close>, for the years 0 to 9999.\<close>

definition vers_jour :: "time \<Rightarrow> string" where
  "vers_jour t =
     pad_start 4 (CHR ''0'') (show_int (get_year t)) @ ''-'' @
     pad2 (get_month t + 1) @ ''-'' @ pad2 (get_date t)"

text \<open>\<open>d.toISOString()\<close>, for the same years.\<close>

definition iso_string :: "time \<Rightarrow> string" where
  "iso_string t =
     (let ms = t mod day_ms
      in vers_jour t @ ''T'' @ pad2 (ms div 3600000) @ '':'' @ pad2 (ms div 60000 mod 60) @ '':'' @
         pad2 (ms div 1000 mod 60) @ ''.'' @ pad_start 3 (CHR ''0'') (show_int (ms mod 1000)) @ ''Z'')"

text \<open>
  The parser of the engine on \<open>AAAA-MM-JJT00:00:00.000Z\<close>: a month over 12 or a day over 31 is
  no date, and a day past the end of its month is one of the next.
\<close>

definition parse_day :: "string \<Rightarrow> time option" where
  "parse_day valeur =
     (let y = int (read_nat (take 4 valeur)); m = int (read_nat (take 2 (drop 5 valeur)));
          d = int (read_nat (take 2 (drop 8 valeur)))
      in if 1 \<le> m \<and> m \<le> 12 \<and> 1 \<le> d \<and> d \<le> 31 then Some (date_utc y (m - 1) d) else None)"

end
