(* ===== verification/Schema.thy ===== *)
theory Schema
  imports JsText
begin

text \<open>
  The data model: the enumerations of \<open>src/src/common/enums\<close>, the rows of
  \<open>src/prisma/schema.prisma\<close> the services read and write, and the database \<open>db\<close> that
  holds one list of rows per table, in insertion order.

  Identifiers are natural numbers drawn from the counter \<open>db_next\<close>, which stands for the
  generator of fresh UUIDs.  Amounts are rationals: the arithmetic of the code without the
  rounding of IEEE doubles.  A nullable column is an option, and \<open>null\<close> and \<open>undefined\<close>
  are the same absent value.  Child rows that are only reached through their parent
  (dossier steps, package stages, group members, legal documents, dispute messages) are a
  list in the parent row.
\<close>

type_synonym uid = nat
type_synonym money = rat

section \<open>Enumerations\<close>

datatype role = PILGRIM | AGENCY | GUIDE | ADMIN

datatype agency_validation_status = AVS_PENDING | AVS_APPROVED | AVS_REJECTED

datatype pilgrimage_type = OUMRA | HADJ

datatype package_status = OPEN | FULL | CLOSED

datatype booking_status = PENDING_PAYMENT | CONFIRMED | CANCELLED | COMPLETED

datatype dossier_step_key = STEP_PAYMENT | STEP_VISA | STEP_FLIGHT | STEP_VACCINATION | STEP_DOCUMENTS

datatype dossier_step_status = STEP_PENDING | STEP_IN_PROGRESS | STEP_DONE

datatype payment_method = MOBILE_MONEY_ORANGE | MOBILE_MONEY_MTN | CARD

datatype payment_status = PAY_PENDING | SUCCEEDED | FAILED | REFUNDED

datatype pilgrim_document_type = PASSPORT | VISA | FLIGHT_TICKET | VACCINATION_CERTIFICATE

datatype pilgrim_document_status = DOC_PENDING | DOC_VALIDATED | DOC_REJECTED

datatype notification_type =
    NT_BOOKING_STATUS | NT_PAYMENT | NT_DOCUMENT | NT_RITE_REMINDER | NT_SOS
  | NT_GROUP_MESSAGE | NT_MODERATION | NT_OTHER

datatype rite_pilgrimage_type = RT_OUMRA | RT_HADJ | RT_BOTH

datatype messaging_channel = CH_AGENCY | CH_GUIDE

datatype dispute_status = DS_OPEN | DS_AGENCY_RESPONDED | DS_ESCALATED | DS_RESOLVED | DS_CLOSED

text \<open>
  \<open>Object.values(E)\<close> is the library's \<open>enum\<close> of the type, in the order of the source.
\<close>

instantiation booking_status :: enum
begin

definition enum_booking_status :: "booking_status list" where
  "enum_booking_status = [PENDING_PAYMENT, CONFIRMED, CANCELLED, COMPLETED]"

definition enum_all_booking_status :: "(booking_status \<Rightarrow> bool) \<Rightarrow> bool" where
  "enum_all_booking_status P \<longleftrightarrow> P PENDING_PAYMENT \<and> P CONFIRMED \<and> P CANCELLED \<and> P COMPLETED"

definition enum_ex_booking_status :: "(booking_status \<Rightarrow> bool) \<Rightarrow> bool" where
  "enum_ex_booking_status P \<longleftrightarrow> P PENDING_PAYMENT \<or> P CONFIRMED \<or> P CANCELLED \<or> P COMPLETED"

instance
proof
  show "(UNIV :: booking_status set) = set enum_class.enum"
    by (auto simp: enum_booking_status_def) (metis booking_status.exhaust)
  show "distinct (enum_class.enum :: booking_status list)"
    by (simp add: enum_booking_status_def)
  show "enum_class.enum_all P \<longleftrightarrow> Ball UNIV P" for P :: "booking_status \<Rightarrow> bool"
    by (auto simp: enum_all_booking_status_def) (metis booking_status.exhaust)
  show "enum_class.enum_ex P \<longleftrightarrow> Bex UNIV P" for P :: "booking_status \<Rightarrow> bool"
    by (auto simp: enum_ex_booking_status_def) (metis booking_status.exhaust)
qed

end

instantiation pilgrim_document_type :: enum
begin

definition enum_pilgrim_document_type :: "pilgrim_document_type list" where
  "enum_pilgrim_document_type = [PASSPORT, VISA, FLIGHT_TICKET, VACCINATION_CERTIFICATE]"

definition enum_all_pilgrim_document_type :: "(pilgrim_document_type \<Rightarrow> bool) \<Rightarrow> bool" where
  "enum_all_pilgrim_document_type P \<longleftrightarrow>
     P PASSPORT \<and> P VISA \<and> P FLIGHT_TICKET \<and> P VACCINATION_CERTIFICATE"

definition enum_ex_pilgrim_document_type :: "(pilgrim_document_type \<Rightarrow> bool) \<Rightarrow> bool" where
  "enum_ex_pilgrim_document_type P \<longleftrightarrow>
     P PASSPORT \<or> P VISA \<or> P FLIGHT_TICKET \<or> P VACCINATION_CERTIFICATE"

instance
proof
  show "(UNIV :: pilgrim_document_type set) = set enum_class.enum"
    by (auto simp: enum_pilgrim_document_type_def) (metis pilgrim_document_type.exhaust)
  show "distinct (enum_class.enum :: pilgrim_document_type list)"
    by (simp add: enum_pilgrim_document_type_def)
  show "enum_class.enum_all P \<longleftrightarrow> Ball UNIV P" for P :: "pilgrim_document_type \<Rightarrow> bool"
    by (auto simp: enum_all_pilgrim_document_type_def) (metis pilgrim_document_type.exhaust)
  show "enum_class.enum_ex P \<longleftrightarrow> Bex UNIV P" for P :: "pilgrim_document_type \<Rightarrow> bool"
    by (auto simp: enum_ex_pilgrim_document_type_def) (metis pilgrim_document_type.exhaust)
qed

end

text \<open>A JSON value, for the columns of type \<open>Json\<close>.\<close>

datatype json =
    JNull
  | JBool bool
  | JNumber rat
  | JString string
  | JArray "json list"
  | JObject "(string \<times> json) list"

section \<open>Rows\<close>

record user =
  u_id :: uid
  u_fullName :: string
  u_phone :: "string option"
  u_email :: "string option"
  u_passwordHash :: "string option"
  u_role :: role
  u_preferredLanguage :: string
  u_bloodType :: "string option"
  u_passportNumber :: "string option"
  u_isActive :: bool
  u_emergencyFullName :: "string option"
  u_emergencyPhone :: "string option"
  u_emergencyRelationship :: "string option"
  u_agencyId :: "uid option"
  u_createdAt :: time
  u_updatedAt :: time

record special_needs =
  sn_userId :: uid
  sn_mobility :: string
  sn_dietary :: "string option"
  sn_medical :: "string option"
  sn_assistance :: "string option"
  sn_updatedAt :: time

record otp =
  o_id :: uid
  o_phone :: "string option"
  o_email :: "string option"
  o_codeHash :: string
  o_expiresAt :: time
  o_attempts :: nat
  o_createdAt :: time

record refresh_token =
  rt_id :: uid
  rt_userId :: uid
  rt_tokenHash :: string
  rt_expiresAt :: time
  rt_revoked :: bool

record reset_token =
  pt_id :: uid
  pt_userId :: uid
  pt_tokenHash :: string
  pt_expiresAt :: time

record legal_document =
  ld_id :: uid
  ld_label :: string
  ld_storageRef :: string
  ld_uploadedAt :: time
  ld_expiresAt :: "time option"

record agency =
  a_id :: uid
  a_legalName :: string
  a_ownerId :: uid
  a_contactEmail :: string
  a_contactPhone :: string
  a_address :: "string option"
  a_taxId :: "string option"
  a_tradeRegister :: "string option"
  a_validationStatus :: agency_validation_status
  a_rejectionReason :: "string option"
  a_validatedById :: "uid option"
  a_validatedAt :: "time option"
  a_commissionRate :: rat
  a_bankAccountName :: "string option"
  a_bankAccountNumber :: "string option"
  a_bankName :: "string option"
  a_calendarToken :: "string option"
  a_legalDocuments :: "legal_document list"

record package_stage =
  st_id :: uid
  st_city :: string
  st_hotelName :: string
  st_distanceToMosqueMeters :: "int option"
  st_startDate :: time
  st_endDate :: time

record package =
  p_id :: uid
  p_agencyId :: uid
  p_type :: pilgrimage_type
  p_title :: string
  p_description :: "string option"
  p_startDate :: time
  p_endDate :: time
  p_price :: money
  p_currency :: string
  p_capacity :: int
  p_seatsTaken :: int
  p_inclusions :: "string list"
  p_status :: package_status
  p_stages :: "package_stage list"

record checklist_item =
  ci_id :: uid
  ci_bookingId :: uid
  ci_title :: string
  ci_category :: string
  ci_isCompleted :: bool
  ci_reminderDate :: "time option"
  ci_reminderSent :: bool

record itinerary_step =
  it_label :: string
  it_date :: time
  it_location :: "string option"

record member_location =
  gl_userId :: uid
  gl_lat :: rat
  gl_lng :: rat
  gl_updatedAt :: time

record group =
  g_id :: uid
  g_packageId :: uid
  g_agencyId :: uid
  g_title :: string
  g_guideId :: "uid option"
  g_members :: "uid list"
  g_itinerary :: "itinerary_step list"
  g_locations :: "member_location list"

record booking_step =
  s_key :: dossier_step_key
  s_status :: dossier_step_status
  s_updatedAt :: time

record booking =
  b_id :: uid
  b_pilgrimId :: uid
  b_packageId :: uid
  b_agencyId :: uid
  b_groupId :: "uid option"
  b_status :: booking_status
  b_familyViewToken :: "string option"
  b_refundPolicySnapshot :: "json option"
  b_createdAt :: time
  b_steps :: "booking_step list"

record payment =
  pay_id :: uid
  pay_bookingId :: uid
  pay_amount :: money
  pay_currency :: string
  pay_installmentNumber :: nat
  pay_method :: payment_method
  pay_status :: payment_status
  pay_providerReference :: string
  pay_receiptRef :: "string option"
  pay_confirmedAt :: "time option"
  pay_refundedAmount :: "money option"
  pay_refundedAt :: "time option"
  pay_createdAt :: time

record savings_plan =
  sp_id :: uid
  sp_bookingId :: uid
  sp_targetAmount :: money
  sp_autoDeduct :: bool
  sp_deductAmount :: "money option"
  sp_frequency :: "string option"
  sp_nextDeductDate :: "time option"

record pilgrim_document =
  d_id :: uid
  d_bookingId :: uid
  d_pilgrimId :: uid
  d_type :: pilgrim_document_type
  d_storageRef :: string
  d_status :: pilgrim_document_status
  d_rejectionReason :: "string option"
  d_expiresAt :: "time option"

record notification =
  n_id :: uid
  n_recipientId :: uid
  n_type :: notification_type
  n_title :: string
  n_content :: string
  n_isCritical :: bool
  n_readAt :: "time option"
  n_createdAt :: time

record room_block =
  rb_id :: uid
  rb_agencyId :: uid
  rb_packageId :: uid
  rb_stageId :: "uid option"
  rb_hotelName :: string
  rb_city :: string
  rb_roomType :: string
  rb_roomCount :: int
  rb_releaseDate :: "time option"
  rb_notes :: "string option"

record room_assignment =
  ra_id :: uid
  ra_roomBlockId :: uid
  ra_bookingId :: uid
  ra_roomNumber :: int

record dispute_message =
  dm_id :: uid
  dm_authorId :: uid
  dm_authorRole :: role
  dm_content :: string
  dm_createdAt :: time

record dispute =
  di_id :: uid
  di_bookingId :: uid
  di_pilgrimId :: uid
  di_agencyId :: uid
  di_category :: string
  di_subject :: string
  di_status :: dispute_status
  di_decision :: "string option"
  di_decidedById :: "uid option"
  di_escalatedAt :: "time option"
  di_closedAt :: "time option"
  di_createdAt :: time
  di_updatedAt :: time
  di_messages :: "dispute_message list"

record refund_tier =
  tr_agencyId :: uid
  tr_minDaysBeforeDeparture :: int
  tr_rate :: rat

record invoice =
  in_id :: uid
  in_agencyId :: uid
  in_bookingId :: uid
  in_year :: int
  in_sequence :: nat
  in_number :: string
  in_totalAmount :: money
  in_currency :: string
  in_issuedAt :: time

record guide_unavailability =
  un_id :: uid
  un_agencyId :: uid
  un_guideId :: uid
  un_startDate :: time
  un_endDate :: time
  un_reason :: "string option"

record on_call_shift =
  oc_id :: uid
  oc_agencyId :: uid
  oc_packageId :: "uid option"
  oc_staffName :: string
  oc_staffRole :: string
  oc_phone :: string
  oc_startsAt :: time
  oc_endsAt :: time
  oc_notes :: "string option"

record review =
  rv_id :: uid
  rv_pilgrimId :: uid
  rv_agencyId :: uid
  rv_bookingId :: uid
  rv_rating :: int
  rv_comment :: "string option"
  rv_createdAt :: time

record rite_sheet =
  ri_id :: uid
  ri_key :: string
  ri_title :: string
  ri_pilgrimageType :: rite_pilgrimage_type
  ri_order :: int
  ri_content :: string
  ri_audioRef :: "string option"
  ri_language :: string
  ri_version :: nat
  ri_isValidated :: bool
  ri_validatedById :: "uid option"
  ri_validatedAt :: "time option"

record rite_progress =
  rgp_id :: uid
  rgp_pilgrimId :: uid
  rgp_riteKey :: string
  rgp_completed :: bool
  rgp_tawafCount :: int
  rgp_saiCount :: int
  rgp_clientUpdatedAt :: time

record micro_course =
  mc_id :: uid
  mc_title :: string
  mc_description :: "string option"
  mc_videoUrl :: string
  mc_durationSeconds :: int
  mc_order :: int
  mc_category :: string
  mc_createdAt :: time

record micro_course_progress =
  mcp_id :: uid
  mcp_pilgrimId :: uid
  mcp_courseId :: uid
  mcp_isCompleted :: bool
  mcp_clientUpdatedAt :: time

record quiz_question =
  qq_id :: uid
  qq_riteSheetId :: uid
  qq_question :: string
  qq_options :: json
  qq_correctOption :: int
  qq_explanation :: "string option"
  qq_isValidated :: bool
  qq_validatedById :: "uid option"
  qq_validatedAt :: "time option"
  qq_createdAt :: time

record quiz_attempt =
  qa_id :: uid
  qa_pilgrimId :: uid
  qa_questionId :: uid
  qa_selectedOption :: int
  qa_isCorrect :: bool
  qa_createdAt :: time

record conversation =
  cv_id :: uid
  cv_bookingId :: uid
  cv_channel :: messaging_channel

record message =
  mg_id :: uid
  mg_conversationId :: uid
  mg_senderId :: uid
  mg_content :: string
  mg_clientSentAt :: time
  mg_readAt :: "time option"
  mg_createdAt :: time

record community_message =
  cm_id :: uid
  cm_groupId :: uid
  cm_senderId :: uid
  cm_content :: string
  cm_clientSentAt :: time
  cm_createdAt :: time

record emergency_number =
  en_id :: uid
  en_label :: string
  en_category :: string
  en_phone :: string
  en_country :: string
  en_city :: "string option"
  en_notes :: "string option"
  en_order :: int

record budget_simulation =
  bg_id :: uid
  bg_pilgrimId :: uid
  bg_packageId :: "uid option"
  bg_packagePrice :: money
  bg_pocketMoney :: money
  bg_gifts :: money
  bg_sacrifice :: money
  bg_insurance :: money
  bg_otherExpenses :: money
  bg_currency :: string

record audit_log =
  al_id :: uid
  al_actorId :: "uid option"
  al_actorRole :: "role option"
  al_action :: string
  al_entityType :: string
  al_entityId :: "uid option"
  al_metadata :: "json option"
  al_createdAt :: time

section \<open>The database\<close>

text \<open>
  \<open>db_sms\<close>, \<open>db_push\<close> and \<open>db_refunds\<close> are what the two senders and the payment
  provider (its refunds) were handed, oldest first.
\<close>

record db =
  db_next :: nat
  db_users :: "user list"
  db_specialNeeds :: "special_needs list"
  db_otps :: "otp list"
  db_refreshTokens :: "refresh_token list"
  db_resetTokens :: "reset_token list"
  db_agencies :: "agency list"
  db_packages :: "package list"
  db_checklistItems :: "checklist_item list"
  db_groups :: "group list"
  db_bookings :: "booking list"
  db_payments :: "payment list"
  db_savingsPlans :: "savings_plan list"
  db_documents :: "pilgrim_document list"
  db_notifications :: "notification list"
  db_roomBlocks :: "room_block list"
  db_roomAssignments :: "room_assignment list"
  db_disputes :: "dispute list"
  db_refundTiers :: "refund_tier list"
  db_invoices :: "invoice list"
  db_unavailabilities :: "guide_unavailability list"
  db_shifts :: "on_call_shift list"
  db_reviews :: "review list"
  db_riteSheets :: "rite_sheet list"
  db_riteProgress :: "rite_progress list"
  db_microCourses :: "micro_course list"
  db_courseProgress :: "micro_course_progress list"
  db_quizQuestions :: "quiz_question list"
  db_quizAttempts :: "quiz_attempt list"
  db_conversations :: "conversation list"
  db_messages :: "message list"
  db_communityMessages :: "community_message list"
  db_emergencyNumbers :: "emergency_number list"
  db_budgets :: "budget_simulation list"
  db_auditLogs :: "audit_log list"
  db_sms :: "(string \<times> string) list"
  db_push :: "(uid \<times> string \<times> string) list"
  db_refunds :: "(string \<times> money) list"

definition empty_db :: db where
  "empty_db = \<lparr>db_next = 1, db_users = [], db_specialNeeds = [], db_otps = [],
     db_refreshTokens = [], db_resetTokens = [], db_agencies = [], db_packages = [],
     db_checklistItems = [], db_groups = [], db_bookings = [], db_payments = [],
     db_savingsPlans = [], db_documents = [], db_notifications = [], db_roomBlocks = [],
     db_roomAssignments = [], db_disputes = [], db_refundTiers = [], db_invoices = [],
     db_unavailabilities = [], db_shifts = [], db_reviews = [],
     db_riteSheets = [], db_riteProgress = [], db_microCourses = [], db_courseProgress = [],
     db_quizQuestions = [], db_quizAttempts = [], db_conversations = [], db_messages = [],
     db_communityMessages = [], db_emergencyNumbers = [], db_budgets = [], db_auditLogs = [],
     db_sms = [], db_push = [],
     db_refunds = []\<rparr>"

section \<open>Optional values\<close>

text \<open>
  \<open>x ?? d\<close>; a field of an \<open>update\<close> that may be absent (then the column keeps its value),
  for a required and for a nullable column; and the truth value of an optional string.
\<close>

definition or_else :: "'a option \<Rightarrow> 'a \<Rightarrow> 'a" where
  "or_else x d = (case x of None \<Rightarrow> d | Some v \<Rightarrow> v)"

definition or_keep :: "'a option \<Rightarrow> 'a option \<Rightarrow> 'a option" where
  "or_keep x old = (case x of None \<Rightarrow> old | Some v \<Rightarrow> Some v)"

definition truthy :: "string option \<Rightarrow> bool" where
  "truthy x \<longleftrightarrow> (case x of None \<Rightarrow> False | Some s \<Rightarrow> s \<noteq> [])"

lemma or_else_simps [simp]: "or_else None d = d" "or_else (Some v) d = v"
  by (simp_all add: or_else_def)

lemma or_keep_simps [simp]: "or_keep None old = old" "or_keep (Some v) old = Some v"
  by (simp_all add: or_keep_def)

lemma truthy_simps [simp]: "\<not> truthy None" "truthy (Some s) \<longleftrightarrow> s \<noteq> []"
  by (simp_all add: truthy_def)

section \<open>Table operations\<close>

text \<open>
  What the calls of the database client mean on a table, given by the accessor of its
  rows and the update of its rows: \<open>findUnique\<close> and \<open>findFirst\<close> (the first match),
  \<open>findMany\<close> (the matches in order), \<open>create\<close> (a row with a fresh identifier),
  \<open>update\<close> (error P2025 when no row matches), \<open>updateMany\<close> and \<open>deleteMany\<close>.
\<close>

definition find_first :: "(db \<Rightarrow> 'r list) \<Rightarrow> ('r \<Rightarrow> bool) \<Rightarrow> (db, 'r option) act" where
  "find_first rows p = query (\<lambda>s. List.find p (rows s))"

definition find_many :: "(db \<Rightarrow> 'r list) \<Rightarrow> ('r \<Rightarrow> bool) \<Rightarrow> (db, 'r list) act" where
  "find_many rows p = query (\<lambda>s. filter p (rows s))"

definition create_row ::
  "(('r list \<Rightarrow> 'r list) \<Rightarrow> db \<Rightarrow> db) \<Rightarrow> (uid \<Rightarrow> 'r) \<Rightarrow> (db, 'r) act" where
  "create_row put mk =
     (\<lambda>s. let r = mk (db_next s)
          in (Inr r, put (\<lambda>rs. rs @ [r]) (s\<lparr>db_next := Suc (db_next s)\<rparr>)))"

fun create_rows ::
  "(('r list \<Rightarrow> 'r list) \<Rightarrow> db \<Rightarrow> db) \<Rightarrow> (uid \<Rightarrow> 'r) list \<Rightarrow> (db, 'r list) act" where
  "create_rows put [] = ret []"
| "create_rows put (mk # mks) =
     bind (create_row put mk) (\<lambda>r. bind (create_rows put mks) (\<lambda>rs. ret (r # rs)))"

text \<open>The identifiers of \<open>k\<close> child rows that are stored in their parent.\<close>

definition fresh_ids :: "nat \<Rightarrow> (db, uid list) act" where
  "fresh_ids k = (\<lambda>s. (Inr [db_next s ..< db_next s + k], s\<lparr>db_next := db_next s + k\<rparr>))"

definition update_row ::
  "(db \<Rightarrow> 'r list) \<Rightarrow> (('r list \<Rightarrow> 'r list) \<Rightarrow> db \<Rightarrow> db) \<Rightarrow> ('r \<Rightarrow> bool) \<Rightarrow> ('r \<Rightarrow> 'r) \<Rightarrow>
    (db, 'r) act" where
  "update_row rows put p f =
     (\<lambda>s. case List.find p (rows s) of
            None \<Rightarrow> (Inl (DbError ''P2025''), s)
          | Some r \<Rightarrow> (Inr (f r), put (map (\<lambda>x. if p x then f x else x)) s))"

definition update_many ::
  "(('r list \<Rightarrow> 'r list) \<Rightarrow> db \<Rightarrow> db) \<Rightarrow> ('r \<Rightarrow> bool) \<Rightarrow> ('r \<Rightarrow> 'r) \<Rightarrow> (db, unit) act" where
  "update_many put p f = exec (put (map (\<lambda>x. if p x then f x else x)))"

definition delete_many ::
  "(db \<Rightarrow> 'r list) \<Rightarrow> (('r list \<Rightarrow> 'r list) \<Rightarrow> db \<Rightarrow> db) \<Rightarrow> ('r \<Rightarrow> bool) \<Rightarrow> (db, nat) act" where
  "delete_many rows put p =
     (\<lambda>s. (Inr (length (filter p (rows s))), put (filter (\<lambda>x. \<not> p x)) s))"

lemma find_first_run [simp]: "find_first rows p s = (Inr (List.find p (rows s)), s)"
  by (simp add: find_first_def)

lemma find_many_run [simp]: "find_many rows p s = (Inr (filter p (rows s)), s)"
  by (simp add: find_many_def)

lemma find_first_ok [ok_iff]:
  "find_first rows p s = (Inr v, t) \<longleftrightarrow> v = List.find p (rows s) \<and> t = s"
  by auto

lemma find_many_ok [ok_iff]:
  "find_many rows p s = (Inr v, t) \<longleftrightarrow> v = filter p (rows s) \<and> t = s"
  by auto

lemma update_row_ok [ok_iff]:
  "update_row rows put p f s = (Inr v, t) \<longleftrightarrow>
     (\<exists>r. List.find p (rows s) = Some r \<and> v = f r \<and>
       t = put (map (\<lambda>x. if p x then f x else x)) s)"
  by (auto simp: update_row_def split: option.splits)

lemma update_row_err [err_iff]:
  "update_row rows put p f s = (Inl e, t) \<longleftrightarrow>
     List.find p (rows s) = None \<and> e = DbError ''P2025'' \<and> t = s"
  by (auto simp: update_row_def split: option.splits)

lemma create_row_ok [ok_iff]:
  "create_row put mk s = (Inr v, t) \<longleftrightarrow>
     v = mk (db_next s) \<and>
     t = put (\<lambda>rs. rs @ [mk (db_next s)]) (s\<lparr>db_next := Suc (db_next s)\<rparr>)"
  by (auto simp: create_row_def Let_def)

lemma create_row_err [err_iff]: "\<not> create_row put mk s = (Inl e, t)"
  by (simp add: create_row_def Let_def)

lemma fresh_ids_run [simp]:
  "fresh_ids k s = (Inr [db_next s ..< db_next s + k], s\<lparr>db_next := db_next s + k\<rparr>)"
  by (simp add: fresh_ids_def)

lemma fresh_ids_ok [ok_iff]:
  "fresh_ids k s = (Inr v, t) \<longleftrightarrow>
     v = [db_next s ..< db_next s + k] \<and> t = s\<lparr>db_next := db_next s + k\<rparr>"
  by auto

lemma fresh_ids_err [err_iff]: "\<not> fresh_ids k s = (Inl e, t)"
  by simp

lemma keeps_fresh_ids [keeps_intro]:
  "(\<And>s n. I s \<Longrightarrow> I (s\<lparr>db_next := db_next s + n\<rparr>)) \<Longrightarrow> keeps I (fresh_ids k)"
  by (simp add: keeps_def)

lemma reads_tables [reads_intro]:
  "reads_only (find_first rows p)" "reads_only (find_many rows p')"
  by (simp_all add: reads_only_def)

lemma keeps_tables_read [keeps_intro]:
  "keeps I (find_first rows p)" "keeps I (find_many rows p')"
  by (rule keeps_reads, rule reads_tables)+

lemma keeps_create_row [keeps_intro]:
  "(\<And>s. I s \<Longrightarrow> I (put (\<lambda>rs. rs @ [mk (db_next s)]) (s\<lparr>db_next := Suc (db_next s)\<rparr>))) \<Longrightarrow>
     keeps I (create_row put mk)"
  by (simp add: keeps_def create_row_def Let_def)

lemma keeps_create_rows:
  "(\<And>mk. mk \<in> set mks \<Longrightarrow> keeps I (create_row put mk)) \<Longrightarrow> keeps I (create_rows put mks)"
  by (induction mks) (auto intro!: keeps_bind keeps_basic)

lemma create_rows_total: "\<exists>rs t. create_rows put mks s = (Inr rs, t) \<and> length rs = length mks"
proof (induction mks arbitrary: s)
  case (Cons mk mks)
  obtain r u where r: "create_row put mk s = (Inr r, u)" by (simp add: create_row_def Let_def)
  obtain rs t where "create_rows put mks u = (Inr rs, t)" "length rs = length mks"
    using Cons.IH by blast
  then show ?case using r by simp
qed simp

lemma keeps_update_row [keeps_intro]:
  "(\<And>s. I s \<Longrightarrow> I (put (map (\<lambda>x. if p x then f x else x)) s)) \<Longrightarrow>
     keeps I (update_row rows put p f)"
  by (simp add: keeps_def update_row_def split: option.split)

lemma keeps_update_many [keeps_intro]:
  "(\<And>s. I s \<Longrightarrow> I (put (map (\<lambda>x. if p x then f x else x)) s)) \<Longrightarrow>
     keeps I (update_many put p f)"
  by (simp add: keeps_def update_many_def)

lemma keeps_delete_many [keeps_intro]:
  "(\<And>s. I s \<Longrightarrow> I (put (filter (\<lambda>x. \<not> p x)) s)) \<Longrightarrow> keeps I (delete_many rows put p)"
  by (simp add: keeps_def delete_many_def)

section \<open>The contract of a table with a primary key\<close>

text \<open>
  A table is well keyed when its keys are distinct and below the counter of fresh
  identifiers.  The locale states what a table's accessor and update promise, and proves
  once what the components use of a keyed table.
\<close>

definition well_keyed :: "('r \<Rightarrow> uid) \<Rightarrow> (db \<Rightarrow> 'r list) \<Rightarrow> db \<Rightarrow> bool" where
  "well_keyed key rows s \<longleftrightarrow>
     distinct (map key (rows s)) \<and> list_all (\<lambda>r. key r < db_next s) (rows s)"

locale keyed_table =
  fixes rows :: "db \<Rightarrow> 'r list"
    and put :: "('r list \<Rightarrow> 'r list) \<Rightarrow> db \<Rightarrow> db"
    and key :: "'r \<Rightarrow> uid"
  assumes rows_put: "rows (put f s) = f (rows s)"
    and next_put: "db_next (put f s) = db_next s"
    and rows_next: "rows (s\<lparr>db_next := n\<rparr>) = rows s"
begin

lemma find_by_key:
  "well_keyed key rows s \<Longrightarrow> r \<in> set (rows s) \<Longrightarrow>
     List.find (\<lambda>x. key x = key r) (rows s) = Some r"
  by (simp add: well_keyed_def find_distinct_key)

lemma key_unique:
  "well_keyed key rows s \<Longrightarrow> r \<in> set (rows s) \<Longrightarrow> r' \<in> set (rows s) \<Longrightarrow> key r = key r' \<Longrightarrow>
     r = r'"
  by (auto simp: well_keyed_def intro: distinct_key_unique)

lemma fresh_key: "well_keyed key rows s \<Longrightarrow> r \<in> set (rows s) \<Longrightarrow> key r \<noteq> db_next s"
  by (auto simp: well_keyed_def list_all_iff)

lemma keyed_create:
  assumes "\<And>n. key (mk n) = n"
  shows "keeps (well_keyed key rows) (create_row put mk)"
  by (rule keeps_create_row)
    (auto simp: well_keyed_def rows_put next_put rows_next assms list_all_iff less_Suc_eq)

lemma keyed_update:
  assumes "\<And>r. key (f r) = key r"
  shows "keeps (well_keyed key rows) (update_row rows put p f)"
proof (rule keeps_update_row)
  fix s
  have "map key (map (\<lambda>x. if p x then f x else x) (rows s)) = map key (rows s)"
    using assms by (simp add: comp_def if_distrib cong: if_cong)
  then have "distinct (map key (map (\<lambda>x. if p x then f x else x) (rows s))) \<longleftrightarrow>
      distinct (map key (rows s))"
    by (simp only:)
  then show "well_keyed key rows s \<Longrightarrow>
      well_keyed key rows (put (map (\<lambda>x. if p x then f x else x)) s)"
    by (simp only: well_keyed_def rows_put next_put) (auto simp: assms list_all_iff)
qed

lemma find_after_update:
  assumes "\<And>r. key (f r) = key r" and "List.find (\<lambda>x. key x = k) (rows s) = Some r"
  shows "List.find (\<lambda>x. key x = k) (rows (put (map (\<lambda>x. if key x = k then f x else x)) s)) =
    Some (f r)"
proof -
  have "key r = k" using assms(2) by (auto dest: find_Some_set)
  then show ?thesis using assms find_map_update [of "\<lambda>x. key x = k" "\<lambda>x. key x = k" f "rows s"]
    by (simp add: rows_put)
qed

lemma find_other_after_update:
  assumes "\<And>r. key (f r) = key r" and "k' \<noteq> k"
  shows "List.find (\<lambda>x. key x = k') (rows (put (map (\<lambda>x. if key x = k then f x else x)) s)) =
    List.find (\<lambda>x. key x = k') (rows s)"
proof -
  have "List.find (\<lambda>x. key x = k') (map (\<lambda>x. if key x = k then f x else x) xs) =
      List.find (\<lambda>x. key x = k') xs" for xs
    using assms by (induction xs) auto
  then show ?thesis by (simp add: rows_put)
qed

lemma find_created:
  assumes "\<And>n. key (mk n) = n" and "well_keyed key rows s"
    and "create_row put mk s = (Inr r, t)"
  shows "List.find (\<lambda>x. key x = key r) (rows t) = Some r"
proof -
  have "List.find (\<lambda>x. key x = db_next s) (rows s) = None"
    using assms(2) by (auto simp: find_None_iff well_keyed_def list_all_iff)
  then show ?thesis
    using assms(1,3) by (auto simp: create_row_def Let_def rows_put rows_next find_append)
qed

end

interpretation users: keyed_table db_users db_users_update u_id
  by unfold_locales simp_all

interpretation agencies: keyed_table db_agencies db_agencies_update a_id
  by unfold_locales simp_all

interpretation packages: keyed_table db_packages db_packages_update p_id
  by unfold_locales simp_all

interpretation groups: keyed_table db_groups db_groups_update g_id
  by unfold_locales simp_all

interpretation bookings: keyed_table db_bookings db_bookings_update b_id
  by unfold_locales simp_all

interpretation payments: keyed_table db_payments db_payments_update pay_id
  by unfold_locales simp_all

interpretation documents: keyed_table db_documents db_documents_update d_id
  by unfold_locales simp_all

interpretation room_blocks: keyed_table db_roomBlocks db_roomBlocks_update rb_id
  by unfold_locales simp_all

interpretation disputes: keyed_table db_disputes db_disputes_update di_id
  by unfold_locales simp_all

end
