(* ===== verification/Users.thy ===== *)
theory Users
  imports Schema
begin

text \<open>
  \<open>src/src/modules/users/users.service.ts\<close>: accounts and their public shapes, e-mail
  addresses kept in lower case, profile updates, suspension, and the special needs a
  pilgrim declares.
\<close>

section \<open>Shapes\<close>

record emergency_contact =
  ec_fullName :: string
  ec_phone :: string
  ec_relationship :: "string option"

record user_shape =
  us_id :: uid
  us_fullName :: string
  us_phone :: "string option"
  us_email :: "string option"
  us_role :: role
  us_preferredLanguage :: string
  us_emergencyContact :: "emergency_contact option"
  us_bloodType :: "string option"
  us_passportNumber :: "string option"
  us_agencyId :: "uid option"
  us_isActive :: bool
  us_createdAt :: time
  us_updatedAt :: time

record user_summary =
  um_id :: uid
  um_fullName :: string
  um_phone :: "string option"
  um_email :: "string option"
  um_role :: role
  um_agencyId :: "uid option"
  um_isActive :: bool
  um_createdAt :: time

definition to_user_shape :: "user \<Rightarrow> user_shape" where
  "to_user_shape u =
     \<lparr>us_id = u_id u, us_fullName = u_fullName u, us_phone = u_phone u, us_email = u_email u,
      us_role = u_role u, us_preferredLanguage = u_preferredLanguage u,
      us_emergencyContact =
        (if u_emergencyFullName u \<noteq> None \<or> u_emergencyPhone u \<noteq> None
         then Some \<lparr>ec_fullName = or_else (u_emergencyFullName u) [],
                    ec_phone = or_else (u_emergencyPhone u) [],
                    ec_relationship = u_emergencyRelationship u\<rparr>
         else None),
      us_bloodType = u_bloodType u, us_passportNumber = u_passportNumber u,
      us_agencyId = u_agencyId u, us_isActive = u_isActive u,
      us_createdAt = u_createdAt u, us_updatedAt = u_updatedAt u\<rparr>"

definition to_user_summary :: "user_shape \<Rightarrow> user_summary" where
  "to_user_summary u =
     \<lparr>um_id = us_id u, um_fullName = us_fullName u, um_phone = us_phone u,
      um_email = us_email u, um_role = us_role u, um_agencyId = us_agencyId u,
      um_isActive = us_isActive u, um_createdAt = us_createdAt u\<rparr>"

section \<open>Text of the language\<close>

text \<open>\<open>s.toLowerCase()\<close> and \<open>s.trim()\<close>, on code units below 256.\<close>

definition lower_char :: "char \<Rightarrow> char" where
  "lower_char c =
     (let n = of_char c :: nat
      in if 65 \<le> n \<and> n \<le> 90 \<or> 192 \<le> n \<and> n \<le> 222 \<and> n \<noteq> 215 then char_of (n + 32) else c)"

definition to_lower_case :: "string \<Rightarrow> string" where
  "to_lower_case s = map lower_char s"

definition is_space :: "char \<Rightarrow> bool" where
  "is_space c \<longleftrightarrow> (let n = of_char c :: nat in 9 \<le> n \<and> n \<le> 13 \<or> n = 32 \<or> n = 160)"

definition trim :: "string \<Rightarrow> string" where
  "trim s = rev (dropWhile is_space (rev (dropWhile is_space s)))"

definition texte_ou_null :: "string option \<Rightarrow> string option" where
  "texte_ou_null valeur =
     (case valeur of None \<Rightarrow> None
      | Some v \<Rightarrow> (let nettoye = trim v in if nettoye \<noteq> [] then Some nettoye else None))"

lemma lower_char_idem: "lower_char (lower_char c) = lower_char c"
proof -
  define n where "n = (of_char c :: nat)"
  define up where "up m \<longleftrightarrow> 65 \<le> m \<and> m \<le> 90 \<or> 192 \<le> m \<and> m \<le> 222 \<and> m \<noteq> 215" for m :: nat
  have low: "lower_char d = (if up (of_char d) then char_of (of_char d + 32 :: nat) else d)" for d
    unfolding lower_char_def up_def Let_def by (rule refl)
  show ?thesis
  proof (cases "up n")
    case True
    then have "n + 32 < 256" and no: "\<not> up (n + 32)" by (auto simp: up_def)
    then have "(of_char (char_of (n + 32) :: char) :: nat) = n + 32"
      by (simp only: of_char_of) simp
    then show ?thesis using True no by (simp add: low n_def)
  next
    case False
    then show ?thesis by (simp add: low n_def)
  qed
qed

lemma to_lower_case_idem [simp]: "to_lower_case (to_lower_case s) = to_lower_case s"
  by (simp add: to_lower_case_def lower_char_idem)

section \<open>Operations\<close>

record create_user_dto =
  cu_fullName :: string
  cu_phone :: "string option"
  cu_email :: "string option"
  cu_passwordHash :: "string option"
  cu_role :: role
  cu_agencyId :: "uid option"

definition find_user_row :: "(user \<Rightarrow> bool) \<Rightarrow> (db, user option) act" where
  "find_user_row p = find_first db_users p"

text \<open>The unique columns \<open>phone\<close> and \<open>email\<close>: absent values do not collide.\<close>

definition contact_taken :: "string option \<Rightarrow> string option \<Rightarrow> user \<Rightarrow> bool" where
  "contact_taken phone email u \<longleftrightarrow>
     phone \<noteq> None \<and> u_phone u = phone \<or> email \<noteq> None \<and> u_email u = email"

definition create_user :: "time \<Rightarrow> create_user_dto \<Rightarrow> (db, user_shape) act" where
  "create_user now dto =
     (let email = map_option to_lower_case (cu_email dto)
      in bind (find_user_row (contact_taken (cu_phone dto) email)) (\<lambda>dup.
         bind (require (dup = None) (DbError ''P2002'')) (\<lambda>_.
         bind (create_row db_users_update
           (\<lambda>i. \<lparr>u_id = i, u_fullName = cu_fullName dto, u_phone = cu_phone dto,
             u_email = email, u_passwordHash = cu_passwordHash dto, u_role = cu_role dto,
             u_preferredLanguage = ''fr'', u_bloodType = None, u_passportNumber = None,
             u_isActive = True, u_emergencyFullName = None, u_emergencyPhone = None,
             u_emergencyRelationship = None, u_agencyId = cu_agencyId dto,
             u_createdAt = now, u_updatedAt = now\<rparr>)) (\<lambda>user.
         ret (to_user_shape user)))))"

definition find_user_by_id :: "uid \<Rightarrow> (db, user_shape option) act" where
  "find_user_by_id i =
     bind (find_user_row (\<lambda>u. u_id u = i)) (\<lambda>user. ret (map_option to_user_shape user))"

definition find_user_by_id_or_fail :: "uid \<Rightarrow> (db, user_shape) act" where
  "find_user_by_id_or_fail i =
     bind (find_user_by_id i) (or_fail (NotFound ''Utilisateur introuvable''))"

definition find_user_by_phone :: "string \<Rightarrow> (db, user_shape option) act" where
  "find_user_by_phone phone =
     bind (find_user_row (\<lambda>u. u_phone u = Some phone)) (\<lambda>user.
     ret (map_option to_user_shape user))"

definition find_user_by_email :: "string \<Rightarrow> (db, user_shape option) act" where
  "find_user_by_email email =
     bind (find_user_row (\<lambda>u. u_email u = Some (to_lower_case email))) (\<lambda>user.
     ret (map_option to_user_shape user))"

definition find_user_by_email_with_password :: "string \<Rightarrow> (db, user option) act" where
  "find_user_by_email_with_password email =
     find_user_row (\<lambda>u. u_email u = Some (to_lower_case email))"

record update_profile_dto =
  up_fullName :: "string option"
  up_preferredLanguage :: "string option"
  up_emergencyContact :: "emergency_contact option"
  up_bloodType :: "string option"
  up_passportNumber :: "string option"

definition apply_profile :: "time \<Rightarrow> update_profile_dto \<Rightarrow> user \<Rightarrow> user" where
  "apply_profile now dto u =
     (let u' = u\<lparr>u_fullName := or_else (up_fullName dto) (u_fullName u),
          u_preferredLanguage := or_else (up_preferredLanguage dto) (u_preferredLanguage u),
          u_bloodType := or_keep (up_bloodType dto) (u_bloodType u),
          u_passportNumber := or_keep (up_passportNumber dto) (u_passportNumber u),
          u_updatedAt := now\<rparr>
      in case up_emergencyContact dto of
           None \<Rightarrow> u'
         | Some c \<Rightarrow>
             u'\<lparr>u_emergencyFullName := Some (ec_fullName c),
                u_emergencyPhone := Some (ec_phone c),
                u_emergencyRelationship :=
                  or_keep (ec_relationship c) (u_emergencyRelationship u)\<rparr>)"

definition update_user :: "uid \<Rightarrow> (user \<Rightarrow> user) \<Rightarrow> (db, user_shape) act" where
  "update_user userId f =
     bind (catch (update_row db_users db_users_update (\<lambda>u. u_id u = userId) f)
             (\<lambda>_. throw (NotFound ''Utilisateur introuvable''))) (\<lambda>user.
     ret (to_user_shape user))"

definition update_profile :: "time \<Rightarrow> uid \<Rightarrow> update_profile_dto \<Rightarrow> (db, user_shape) act" where
  "update_profile now userId dto = update_user userId (apply_profile now dto)"

definition set_active :: "time \<Rightarrow> uid \<Rightarrow> bool \<Rightarrow> (db, user_shape) act" where
  "set_active now userId isActive =
     update_user userId (\<lambda>u. u\<lparr>u_isActive := isActive, u_updatedAt := now\<rparr>)"

definition find_by_role :: "role \<Rightarrow> uid option \<Rightarrow> (db, user_shape list) act" where
  "find_by_role r agencyId =
     bind (find_many db_users
       (\<lambda>u. u_role u = r \<and> (case agencyId of None \<Rightarrow> True | Some a \<Rightarrow> u_agencyId u = Some a)))
       (\<lambda>us. ret (map to_user_shape us))"

definition list_for_admin :: "role \<Rightarrow> uid option \<Rightarrow> (db, user_summary list) act" where
  "list_for_admin r agencyId =
     bind (find_by_role r agencyId) (\<lambda>us. ret (map to_user_summary us))"

definition set_active_for_admin :: "time \<Rightarrow> uid \<Rightarrow> bool \<Rightarrow> (db, user_summary) act" where
  "set_active_for_admin now userId isActive =
     bind (set_active now userId isActive) (\<lambda>u. ret (to_user_summary u))"

subsection \<open>Special needs\<close>

record special_needs_shape =
  ss_mobility :: string
  ss_dietary :: "string option"
  ss_medical :: "string option"
  ss_assistance :: "string option"
  ss_updatedAt :: "time option"

definition to_special_needs_shape :: "special_needs \<Rightarrow> special_needs_shape" where
  "to_special_needs_shape b =
     \<lparr>ss_mobility = sn_mobility b, ss_dietary = sn_dietary b, ss_medical = sn_medical b,
      ss_assistance = sn_assistance b, ss_updatedAt = Some (sn_updatedAt b)\<rparr>"

record special_needs_dto =
  sd_mobility :: string
  sd_dietary :: "string option"
  sd_medical :: "string option"
  sd_assistance :: "string option"

definition get_special_needs :: "uid \<Rightarrow> (db, special_needs_shape) act" where
  "get_special_needs userId =
     bind (find_first db_specialNeeds (\<lambda>b. sn_userId b = userId)) (\<lambda>besoins.
     ret (case besoins of
            Some b \<Rightarrow> to_special_needs_shape b
          | None \<Rightarrow> \<lparr>ss_mobility = ''none'', ss_dietary = None, ss_medical = None,
                     ss_assistance = None, ss_updatedAt = None\<rparr>))"

definition replace_special_needs ::
  "time \<Rightarrow> uid \<Rightarrow> special_needs_dto \<Rightarrow> (db, special_needs_shape) act" where
  "replace_special_needs now userId dto =
     (let row = \<lparr>sn_userId = userId, sn_mobility = sd_mobility dto,
            sn_dietary = texte_ou_null (sd_dietary dto),
            sn_medical = texte_ou_null (sd_medical dto),
            sn_assistance = texte_ou_null (sd_assistance dto), sn_updatedAt = now\<rparr>
      in bind (find_first db_specialNeeds (\<lambda>b. sn_userId b = userId)) (\<lambda>existing.
         bind (exec (db_specialNeeds_update
           (\<lambda>bs. case existing of
              None \<Rightarrow> bs @ [row]
            | Some _ \<Rightarrow> map (\<lambda>b. if sn_userId b = userId then row else b) bs))) (\<lambda>_.
         ret (to_special_needs_shape row))))"

section \<open>Properties\<close>

lemma reads_users [reads_intro]:
  "reads_only (find_user_row p)" "reads_only (find_user_by_id i)"
  "reads_only (find_user_by_id_or_fail i)" "reads_only (find_user_by_phone ph)"
  "reads_only (find_user_by_email em)" "reads_only (find_user_by_email_with_password em)"
  "reads_only (find_by_role r ag)" "reads_only (list_for_admin r ag)"
  unfolding find_user_row_def find_user_by_id_def find_user_by_id_or_fail_def
    find_user_by_phone_def find_user_by_email_def find_user_by_email_with_password_def
    find_by_role_def list_for_admin_def
  by (intro reads_intro)+

lemmas keeps_users_read [keeps_intro] = reads_users [THEN keeps_reads]

lemma find_user_by_id_run [simp]:
  "find_user_by_id i s =
     (Inr (map_option to_user_shape (List.find (\<lambda>u. u_id u = i) (db_users s))), s)"
  by (simp add: find_user_by_id_def find_user_row_def bind_def)

lemma find_user_by_id_or_fail_run:
  "find_user_by_id_or_fail i s =
     (case List.find (\<lambda>u. u_id u = i) (db_users s) of
        None \<Rightarrow> (Inl (NotFound ''Utilisateur introuvable''), s)
      | Some u \<Rightarrow> (Inr (to_user_shape u), s))"
  by (simp add: find_user_by_id_or_fail_def bind_def split: option.split)

lemma find_user_by_id_or_fail_ok [ok_iff]:
  "find_user_by_id_or_fail i s = (Inr v, t) \<longleftrightarrow>
     t = s \<and> (\<exists>u. List.find (\<lambda>u. u_id u = i) (db_users s) = Some u \<and> v = to_user_shape u)"
  by (auto simp: find_user_by_id_or_fail_run split: option.split)

text \<open>Accounts are identified: no two share a phone number or an address.\<close>

definition contacts_unique :: "user list \<Rightarrow> bool" where
  "contacts_unique us \<longleftrightarrow>
     (\<forall>i < length us. \<forall>j < i. \<not> contact_taken (u_phone (us ! i)) (u_email (us ! i)) (us ! j))"

lemma contacts_unique_append:
  assumes "contacts_unique us" and "\<forall>v \<in> set us. \<not> contact_taken (u_phone u) (u_email u) v"
  shows "contacts_unique (us @ [u])"
  using assms by (auto simp: contacts_unique_def nth_append less_Suc_eq)

lemma contacts_unique_map:
  assumes "contacts_unique us" and "\<And>u. u_phone (f u) = u_phone u" and "\<And>u. u_email (f u) = u_email u"
  shows "contacts_unique (map (\<lambda>x. if P x then f x else x) us)"
  using assms by (auto simp: contacts_unique_def contact_taken_def)

lemma create_user_contacts:
  "keeps (\<lambda>s. contacts_unique (db_users s)) (create_user now dto)"
proof (rule keepsI)
  fix s r t
  assume u: "contacts_unique (db_users s)" and run: "create_user now dto s = (r, t)"
  let ?p = "contact_taken (cu_phone dto) (map_option to_lower_case (cu_email dto))"
  show "contacts_unique (db_users t)"
  proof (cases "List.find ?p (db_users s)")
    case None
    then have "\<forall>v \<in> set (db_users s). \<not> ?p v" by (simp add: find_None_iff)
    then show ?thesis
      using u run None
      by (auto simp: create_user_def find_user_row_def Let_def bind_def create_row_def
          intro!: contacts_unique_append)
  next
    case (Some v)
    then show ?thesis
      using u run by (auto simp: create_user_def find_user_row_def Let_def bind_def)
  qed
qed

lemma update_user_keeps [keeps_intro]:
  assumes "\<And>s. I s \<Longrightarrow> I (db_users_update (map (\<lambda>x. if u_id x = i then f x else x)) s)"
  shows "keeps I (update_user i f)"
  unfolding update_user_def by (intro keeps_intro assms)

lemma update_profile_contacts:
  "keeps (\<lambda>s. contacts_unique (db_users s)) (update_profile now i dto)"
  unfolding update_profile_def
  by (intro keeps_intro)
    (auto intro!: contacts_unique_map simp: apply_profile_def Let_def split: option.split)

end
