(* ===== verification/Notifications.thy ===== *)
theory Notifications
  imports Users
begin

text \<open>
  \<open>src/src/modules/notifications/notifications.service.ts\<close> with its two console senders:
  one stored notification per recipient, one push per recipient, and a text message to the
  recipients of a critical notification whose push was not delivered and whose phone is
  known.  The dispatch the service does not wait for runs right after the insertion here.
\<close>

record send_input =
  si_recipientIds :: "uid list"
  si_type :: notification_type
  si_title :: string
  si_content :: string
  si_isCritical :: bool

section \<open>Operations\<close>

text \<open>The console sender delivers nothing: it logs and answers \<open>delivered: false\<close>.\<close>

definition push_send :: "uid \<Rightarrow> string \<Rightarrow> string \<Rightarrow> (db, bool) act" where
  "push_send userId title content =
     bind (exec (db_push_update (\<lambda>ps. ps @ [(userId, title, content)]))) (\<lambda>_. ret False)"

definition sms_send :: "string \<Rightarrow> string \<Rightarrow> (db, unit) act" where
  "sms_send phone content = exec (db_sms_update (\<lambda>ms. ms @ [(phone, content)]))"

definition notification_row :: "time \<Rightarrow> send_input \<Rightarrow> uid \<Rightarrow> uid \<Rightarrow> notification" where
  "notification_row now input recipientId i =
     \<lparr>n_id = i, n_recipientId = recipientId, n_type = si_type input, n_title = si_title input,
      n_content = si_content input, n_isCritical = si_isCritical input, n_readAt = None,
      n_createdAt = now\<rparr>"

definition dispatch :: "send_input \<Rightarrow> uid \<Rightarrow> (db, unit) act" where
  "dispatch input recipientId =
     bind (push_send recipientId (si_title input) (si_content input)) (\<lambda>delivered.
     if \<not> delivered \<and> si_isCritical input then
       bind (find_user_by_id recipientId) (\<lambda>user.
       case Option.bind user us_phone of
         None \<Rightarrow> ret ()
       | Some phone \<Rightarrow>
           whenever (phone \<noteq> [])
             (sms_send phone (si_title input @ '' - '' @ si_content input)))
     else ret ())"

definition send :: "time \<Rightarrow> send_input \<Rightarrow> (db, notification list) act" where
  "send now input =
     bind (create_rows db_notifications_update
       (map (notification_row now input) (si_recipientIds input))) (\<lambda>notifications.
     bind (for_each (si_recipientIds input) (dispatch input)) (\<lambda>_.
     ret notifications))"

definition send_raw_sms :: "string \<Rightarrow> string \<Rightarrow> (db, unit) act" where
  "send_raw_sms phone content = sms_send phone content"

definition list_for_user :: "uid \<Rightarrow> bool \<Rightarrow> (db, notification list) act" where
  "list_for_user userId unreadOnly =
     bind (find_many db_notifications
       (\<lambda>n. n_recipientId n = userId \<and> (unreadOnly \<longrightarrow> n_readAt n = None))) (\<lambda>ns.
     ret (sort_key (\<lambda>n. - n_createdAt n) ns))"

definition mark_read :: "time \<Rightarrow> uid \<Rightarrow> uid \<Rightarrow> (db, notification) act" where
  "mark_read now userId notificationId =
     bind (find_first db_notifications
       (\<lambda>n. n_id n = notificationId \<and> n_recipientId n = userId)) (\<lambda>existing.
     bind (or_fail (NotFound ''Notification introuvable'') existing) (\<lambda>n.
     update_row db_notifications db_notifications_update (\<lambda>x. n_id x = n_id n)
       (\<lambda>x. x\<lparr>n_readAt := Some now\<rparr>)))"

section \<open>What a message can change\<close>

text \<open>
  Sending a message moves the counter of identifiers forward and touches the stored
  notifications and the two senders, nothing else.
\<close>

definition only_messages :: "db \<Rightarrow> db \<Rightarrow> bool" where
  "only_messages s t \<longleftrightarrow>
     db_next s \<le> db_next t \<and>
     t = s\<lparr>db_next := db_next t, db_notifications := db_notifications t, db_sms := db_sms t,
           db_push := db_push t\<rparr>"

definition ignores_messages :: "(db \<Rightarrow> bool) \<Rightarrow> bool" where
  "ignores_messages I \<longleftrightarrow> (\<forall>s t. I s \<longrightarrow> only_messages s t \<longrightarrow> I t)"

lemma only_messages_refl [simp]: "only_messages s s"
  by (simp add: only_messages_def)

lemma only_messages_trans: "only_messages s t \<Longrightarrow> only_messages t u \<Longrightarrow> only_messages s u"
  by (cases s; cases t; cases u) (auto simp: only_messages_def)

lemma only_messagesD:
  assumes "only_messages s t"
  shows "db_users t = db_users s" "db_agencies t = db_agencies s" "db_packages t = db_packages s"
    "db_groups t = db_groups s" "db_bookings t = db_bookings s" "db_payments t = db_payments s"
    "db_documents t = db_documents s" "db_checklistItems t = db_checklistItems s"
    "db_disputes t = db_disputes s" "db_refundTiers t = db_refundTiers s"
    "db_invoices t = db_invoices s" "db_roomBlocks t = db_roomBlocks s"
    "db_roomAssignments t = db_roomAssignments s" "db_next s \<le> db_next t"
    "db_savingsPlans t = db_savingsPlans s" "db_specialNeeds t = db_specialNeeds s"
proof -
  define n ns sm ps where "n = db_next t" and "ns = db_notifications t" and "sm = db_sms t"
    and "ps = db_push t"
  have "t = s\<lparr>db_next := n, db_notifications := ns, db_sms := sm, db_push := ps\<rparr>"
    using assms by (simp only: only_messages_def n_def ns_def sm_def ps_def)
  then show "db_users t = db_users s" "db_agencies t = db_agencies s"
    "db_packages t = db_packages s"
    "db_groups t = db_groups s" "db_bookings t = db_bookings s" "db_payments t = db_payments s"
    "db_documents t = db_documents s" "db_checklistItems t = db_checklistItems s"
    "db_disputes t = db_disputes s" "db_refundTiers t = db_refundTiers s"
    "db_invoices t = db_invoices s" "db_roomBlocks t = db_roomBlocks s"
    "db_roomAssignments t = db_roomAssignments s"
    "db_savingsPlans t = db_savingsPlans s" "db_specialNeeds t = db_specialNeeds s"
    by simp_all
  show "db_next s \<le> db_next t" using assms by (simp add: only_messages_def)
qed

lemma ignores_messagesD: "ignores_messages I \<Longrightarrow> I s \<Longrightarrow> only_messages s t \<Longrightarrow> I t"
  by (auto simp: ignores_messages_def)

lemma only_messages_keeps:
  assumes "\<And>s. only_messages s (snd (m s))" and "ignores_messages I"
  shows "keeps I m"
  using assms by (auto simp: keeps_def intro: ignores_messagesD)

lemma well_keyed_ignores_messages:
  assumes "\<And>s t. only_messages s t \<Longrightarrow> rows t = rows s"
  shows "ignores_messages (well_keyed key rows)"
  using assms by (fastforce simp: ignores_messages_def well_keyed_def list_all_iff only_messages_def)

section \<open>What each operation does\<close>

text \<open>The text message a recipient gets, if any.\<close>

definition sms_for :: "db \<Rightarrow> send_input \<Rightarrow> uid \<Rightarrow> (string \<times> string) list" where
  "sms_for s input r =
     (case Option.bind (List.find (\<lambda>u. u_id u = r) (db_users s)) u_phone of
        Some phone \<Rightarrow>
          if si_isCritical input \<and> phone \<noteq> []
          then [(phone, si_title input @ '' - '' @ si_content input)] else []
      | None \<Rightarrow> [])"

lemma dispatch_run:
  "dispatch input r s =
     (Inr (), s\<lparr>db_push := db_push s @ [(r, si_title input, si_content input)],
                db_sms := db_sms s @ sms_for s input r\<rparr>)"
  by (cases "List.find (\<lambda>u. u_id u = r) (db_users s)")
    (auto simp: dispatch_def push_send_def sms_send_def sms_for_def bind_def whenever_def
      to_user_shape_def split: option.split)

lemma for_each_dispatch_run:
  "for_each rs (dispatch input) s =
     (Inr (), s\<lparr>db_push := db_push s @ map (\<lambda>r. (r, si_title input, si_content input)) rs,
                db_sms := db_sms s @ concat (map (sms_for s input) rs)\<rparr>)"
proof (induction rs arbitrary: s)
  case (Cons r rs)
  have "sms_for (s\<lparr>db_push := p, db_sms := q\<rparr>) input = sms_for s input" for p q
    by (rule ext) (simp add: sms_for_def)
  then show ?case using Cons.IH by (simp add: dispatch_run)
qed simp

lemma create_notifications_run:
  "create_rows db_notifications_update (map (notification_row now input) rs) s =
     (Inr (map2 (notification_row now input) rs [db_next s ..< db_next s + length rs]),
      s\<lparr>db_next := db_next s + length rs,
        db_notifications := db_notifications s @
          map2 (notification_row now input) rs [db_next s ..< db_next s + length rs]\<rparr>)"
proof (induction rs arbitrary: s)
  case (Cons r rs)
  have upt: "[n ..< n + length (r # rs)] = n # [Suc n ..< Suc n + length rs]" for n
    using upt_conv_Cons [of n "n + length (r # rs)"] by simp
  show ?case
    unfolding upt
    by (simp add: create_row_def Let_def Cons.IH)
qed simp

text \<open>Sending, in one equation.\<close>

lemma send_run:
  "send now input s =
     (let rs = si_recipientIds input;
          ns = map2 (notification_row now input) rs [db_next s ..< db_next s + length rs]
      in (Inr ns,
          s\<lparr>db_next := db_next s + length rs,
            db_notifications := db_notifications s @ ns,
            db_push := db_push s @ map (\<lambda>r. (r, si_title input, si_content input)) rs,
            db_sms := db_sms s @ concat (map (sms_for s input) rs)\<rparr>))"
proof -
  have "sms_for (s\<lparr>db_next := n, db_notifications := ns\<rparr>) input = sms_for s input" for n ns
    by (rule ext) (simp add: sms_for_def)
  then show ?thesis
    by (simp add: send_def Let_def create_notifications_run for_each_dispatch_run)
qed

lemma send_total: "\<exists>ns t. send now input s = (Inr ns, t)"
  by (simp add: send_run Let_def)

lemma send_err [err_iff]: "\<not> send now input s = (Inl e, t)"
  by (simp add: send_run Let_def)

lemma send_only_messages: "only_messages s (snd (send now input s))"
  by (cases s) (simp add: send_run Let_def only_messages_def)

lemma send_ok_only_messages: "send now input s = (r, t) \<Longrightarrow> only_messages s t"
  by (metis send_only_messages snd_conv)

lemma send_keeps [keeps_intro]: "ignores_messages I \<Longrightarrow> keeps I (send now input)"
  by (rule only_messages_keeps [OF send_only_messages])

lemma send_raw_sms_keeps [keeps_intro]:
  "ignores_messages I \<Longrightarrow> keeps I (send_raw_sms phone content)"
  by (rule only_messages_keeps)
    (auto simp: send_raw_sms_def sms_send_def only_messages_def intro: db.equality)

lemma mark_read_keeps [keeps_intro]:
  assumes "ignores_messages I"
  shows "keeps I (mark_read now userId i)"
proof -
  have "only_messages s (db_notifications_update f s)" for f s
    by (cases s) (simp add: only_messages_def)
  then show ?thesis
    unfolding mark_read_def by (intro keeps_intro) (blast intro: ignores_messagesD [OF assms])
qed

lemma reads_notifications [reads_intro]: "reads_only (list_for_user userId unreadOnly)"
  unfolding list_for_user_def by (intro reads_intro)

lemma mark_read_owner_only:
  "mark_read now userId i s = (Inr n, t) \<Longrightarrow>
     \<exists>old \<in> set (db_notifications s). n_id old = i \<and> n_recipientId old = userId"
  unfolding mark_read_def bind_ok find_first_ok or_fail_ok by (blast dest: find_Some_set)

end
