(* ===== verification/Agencies.thy ===== *)
theory Agencies
  imports Notifications
begin

text \<open>
  \<open>src/src/modules/agencies/agencies.service.ts\<close>: registration with its owner account,
  validation by the administrator, legal documents and their expiry alerts, the guides of
  an agency, and the calendar link.

  The hash of the password, the reference the storage returned and the 24 random bytes of
  the calendar token (written in hexadecimal) are arguments.
\<close>

section \<open>Shapes\<close>

record bank_details =
  bk_accountName :: string
  bk_accountNumber :: string
  bk_bankName :: string

record agency_shape =
  as_id :: uid
  as_legalName :: string
  as_ownerId :: uid
  as_contactEmail :: string
  as_contactPhone :: string
  as_address :: "string option"
  as_taxId :: "string option"
  as_tradeRegister :: "string option"
  as_legalDocuments :: "legal_document list"
  as_validationStatus :: agency_validation_status
  as_rejectionReason :: "string option"
  as_validatedById :: "uid option"
  as_validatedAt :: "time option"
  as_commissionRate :: rat
  as_bankDetails :: "bank_details option"

definition to_agency_shape :: "agency \<Rightarrow> agency_shape" where
  "to_agency_shape a =
     \<lparr>as_id = a_id a, as_legalName = a_legalName a, as_ownerId = a_ownerId a,
      as_contactEmail = a_contactEmail a, as_contactPhone = a_contactPhone a,
      as_address = a_address a, as_taxId = a_taxId a, as_tradeRegister = a_tradeRegister a,
      as_legalDocuments = a_legalDocuments a, as_validationStatus = a_validationStatus a,
      as_rejectionReason = a_rejectionReason a, as_validatedById = a_validatedById a,
      as_validatedAt = a_validatedAt a, as_commissionRate = a_commissionRate a,
      as_bankDetails =
        (if a_bankAccountName a \<noteq> None \<or> a_bankAccountNumber a \<noteq> None \<or> a_bankName a \<noteq> None
         then Some \<lparr>bk_accountName = or_else (a_bankAccountName a) [],
                    bk_accountNumber = or_else (a_bankAccountNumber a) [],
                    bk_bankName = or_else (a_bankName a) []\<rparr>
         else None)\<rparr>"

record calendar_subscription =
  cs_token :: string
  cs_subscriptionUrl :: string

definition to_calendar_subscription_shape :: "string \<Rightarrow> calendar_subscription" where
  "to_calendar_subscription_shape token =
     \<lparr>cs_token = token,
      cs_subscriptionUrl = ''/api/v1/calendar/agency/'' @ token @ ''/calendar.ics''\<rparr>"

section \<open>Registration and validation\<close>

record register_agency_dto =
  ra_legalName :: string
  ra_contactEmail :: string
  ra_contactPhone :: string
  ra_address :: "string option"

definition find_agency :: "(agency \<Rightarrow> bool) \<Rightarrow> string \<Rightarrow> (db, agency_shape) act" where
  "find_agency p msg =
     bind (find_first db_agencies p) (\<lambda>a.
     bind (or_fail (NotFound msg) a) (\<lambda>agency. ret (to_agency_shape agency)))"

definition find_by_owner_or_fail :: "uid \<Rightarrow> (db, agency_shape) act" where
  "find_by_owner_or_fail ownerId = find_agency (\<lambda>a. a_ownerId a = ownerId) ''Agence introuvable''"

definition find_agency_by_id_or_fail :: "uid \<Rightarrow> (db, agency_shape) act" where
  "find_agency_by_id_or_fail i = find_agency (\<lambda>a. a_id a = i) ''Agence introuvable''"

definition find_by_status :: "agency_validation_status option \<Rightarrow> (db, agency_shape list) act" where
  "find_by_status status =
     bind (find_many db_agencies
       (\<lambda>a. case status of None \<Rightarrow> True | Some st \<Rightarrow> a_validationStatus a = st)) (\<lambda>agencies.
     ret (map to_agency_shape agencies))"

definition register_agency ::
  "time \<Rightarrow> string \<Rightarrow> register_agency_dto \<Rightarrow> (db, agency_shape) act" where
  "register_agency now passwordHash dto =
     bind (find_user_by_email (ra_contactEmail dto)) (\<lambda>existing.
     bind (require (existing = None) (Conflict ''Un compte existe deja avec cet email'')) (\<lambda>_.
     bind (create_user now
       \<lparr>cu_fullName = ra_legalName dto, cu_phone = None, cu_email = Some (ra_contactEmail dto),
        cu_passwordHash = Some passwordHash, cu_role = AGENCY, cu_agencyId = None\<rparr>) (\<lambda>owner.
     bind (create_row db_agencies_update
       (\<lambda>i. \<lparr>a_id = i, a_legalName = ra_legalName dto, a_ownerId = us_id owner,
         a_contactEmail = ra_contactEmail dto, a_contactPhone = ra_contactPhone dto,
         a_address = ra_address dto, a_taxId = None, a_tradeRegister = None,
         a_validationStatus = AVS_PENDING, a_rejectionReason = None, a_validatedById = None,
         a_validatedAt = None, a_commissionRate = 0, a_bankAccountName = None,
         a_bankAccountNumber = None, a_bankName = None, a_calendarToken = None,
         a_legalDocuments = []\<rparr>)) (\<lambda>agency.
     ret (to_agency_shape agency)))))"

record update_agency_dto =
  ua_address :: "string option"
  ua_taxId :: "string option"
  ua_tradeRegister :: "string option"
  ua_bankDetails :: "bank_details option"

definition apply_agency_update :: "update_agency_dto \<Rightarrow> agency \<Rightarrow> agency" where
  "apply_agency_update dto a =
     (let a' = a\<lparr>a_address := or_keep (ua_address dto) (a_address a),
          a_taxId := or_keep (ua_taxId dto) (a_taxId a),
          a_tradeRegister := or_keep (ua_tradeRegister dto) (a_tradeRegister a)\<rparr>
      in case ua_bankDetails dto of
           None \<Rightarrow> a'
         | Some b \<Rightarrow> a'\<lparr>a_bankAccountName := Some (bk_accountName b),
             a_bankAccountNumber := Some (bk_accountNumber b), a_bankName := Some (bk_bankName b)\<rparr>)"

definition update_own :: "uid \<Rightarrow> update_agency_dto \<Rightarrow> (db, agency_shape) act" where
  "update_own ownerId dto =
     bind (find_by_owner_or_fail ownerId) (\<lambda>owned.
     bind (update_row db_agencies db_agencies_update (\<lambda>a. a_id a = as_id owned)
       (apply_agency_update dto)) (\<lambda>agency.
     ret (to_agency_shape agency)))"

definition validate_agency :: "uid \<Rightarrow> (agency \<Rightarrow> agency) \<Rightarrow> (db, agency_shape) act" where
  "validate_agency i f =
     bind (catch (update_row db_agencies db_agencies_update (\<lambda>a. a_id a = i) f)
       (\<lambda>_. throw (NotFound ''Agence introuvable''))) (\<lambda>agency.
     ret (to_agency_shape agency))"

definition approve_agency :: "time \<Rightarrow> uid \<Rightarrow> uid \<Rightarrow> (db, agency_shape) act" where
  "approve_agency now i adminId =
     validate_agency i (\<lambda>a. a\<lparr>a_validationStatus := AVS_APPROVED,
       a_validatedById := Some adminId, a_validatedAt := Some now, a_rejectionReason := None\<rparr>)"

definition reject_agency :: "time \<Rightarrow> uid \<Rightarrow> uid \<Rightarrow> string \<Rightarrow> (db, agency_shape) act" where
  "reject_agency now i adminId reason =
     validate_agency i (\<lambda>a. a\<lparr>a_validationStatus := AVS_REJECTED,
       a_validatedById := Some adminId, a_validatedAt := Some now,
       a_rejectionReason := Some reason\<rparr>)"

definition count_by_status :: "(db, (agency_validation_status \<times> nat) list) act" where
  "count_by_status =
     query (\<lambda>s. map (\<lambda>st. (st, length (filter (\<lambda>a. a_validationStatus a = st) (db_agencies s))))
       [AVS_PENDING, AVS_APPROVED, AVS_REJECTED])"

definition assert_approved :: "uid \<Rightarrow> (db, unit) act" where
  "assert_approved agencyId =
     bind (find_agency_by_id_or_fail agencyId) (\<lambda>agency.
     require (as_validationStatus agency = AVS_APPROVED)
       (Conflict ''L'agence n'est pas encore validee par l'administrateur''))"

section \<open>Legal documents\<close>

definition legal_document_type :: string where
  "legal_document_type = ''agency_legal_document''"

definition compliance_alert_window_days :: int where
  "compliance_alert_window_days = 30"

definition add_legal_document ::
  "time \<Rightarrow> uid \<Rightarrow> string \<Rightarrow> time option \<Rightarrow> (uid \<Rightarrow> string \<Rightarrow> string) \<Rightarrow> (db, agency_shape) act" where
  "add_legal_document now ownerId label expiresAt store =
     bind (find_by_owner_or_fail ownerId) (\<lambda>owned.
     bind (fresh_ids 1) (\<lambda>ids.
     bind (update_row db_agencies db_agencies_update (\<lambda>a. a_id a = as_id owned)
       (\<lambda>a. a\<lparr>a_legalDocuments := a_legalDocuments a @
         [\<lparr>ld_id = hd ids, ld_label = label,
           ld_storageRef = store (as_id owned) legal_document_type,
           ld_uploadedAt = now, ld_expiresAt = expiresAt\<rparr>]\<rparr>)) (\<lambda>_.
     find_agency_by_id_or_fail (as_id owned))))"

datatype compliance_status = EXPIRED | EXPIRING_SOON

record legal_document_alert =
  la_id :: uid
  la_label :: string
  la_expiresAt :: time
  la_status :: compliance_status

definition to_alert :: "time \<Rightarrow> legal_document \<Rightarrow> time \<Rightarrow> legal_document_alert" where
  "to_alert now doc e =
     \<lparr>la_id = ld_id doc, la_label = ld_label doc, la_expiresAt = e,
      la_status = (if e < now then EXPIRED else EXPIRING_SOON)\<rparr>"

definition compliance_alerts :: "time \<Rightarrow> legal_document list \<Rightarrow> legal_document_alert list" where
  "compliance_alerts now docs =
     (let alertThreshold = now + compliance_alert_window_days * day_ms
      in filter (\<lambda>a. la_status a = EXPIRED \<or> la_expiresAt a \<le> alertThreshold)
           (List.map_filter
             (\<lambda>doc. case ld_expiresAt doc of None \<Rightarrow> None | Some e \<Rightarrow> Some (to_alert now doc e)) docs))"

definition get_compliance_alerts :: "time \<Rightarrow> uid \<Rightarrow> (db, legal_document_alert list) act" where
  "get_compliance_alerts now ownerId =
     bind (find_by_owner_or_fail ownerId) (\<lambda>owned.
     ret (compliance_alerts now (as_legalDocuments owned)))"

text \<open>The access URL of a document, as a function of its storage reference.\<close>

definition get_legal_document_access_url ::
  "(string \<Rightarrow> 'url) \<Rightarrow> uid \<Rightarrow> uid \<Rightarrow> (db, 'url) act" where
  "get_legal_document_access_url access_url ownerId documentId =
     bind (find_by_owner_or_fail ownerId) (\<lambda>owned.
     bind (or_fail (Forbidden ''Ce document ne vous appartient pas'')
       (List.find (\<lambda>d. ld_id d = documentId) (as_legalDocuments owned))) (\<lambda>doc.
     ret (access_url (ld_storageRef doc))))"

definition get_legal_document_access_url_for_admin ::
  "(string \<Rightarrow> 'url) \<Rightarrow> uid \<Rightarrow> uid \<Rightarrow> (db, 'url) act" where
  "get_legal_document_access_url_for_admin access_url agencyId documentId =
     bind (query (\<lambda>s. List.find (\<lambda>d. ld_id d = documentId)
       (concat (map a_legalDocuments (filter (\<lambda>a. a_id a = agencyId) (db_agencies s)))))) (\<lambda>d.
     bind (or_fail (NotFound ''Document introuvable pour cette agence'') d) (\<lambda>doc.
     ret (access_url (ld_storageRef doc))))"

section \<open>Guides and calendar link\<close>

record create_guide_dto =
  cg_fullName :: string
  cg_phone :: "string option"
  cg_email :: "string option"

definition list_own_guides :: "uid \<Rightarrow> (db, user_summary list) act" where
  "list_own_guides ownerId =
     bind (find_by_owner_or_fail ownerId) (\<lambda>owned. list_for_admin GUIDE (Some (as_id owned)))"

definition add_guide :: "time \<Rightarrow> uid \<Rightarrow> create_guide_dto \<Rightarrow> (db, user_summary) act" where
  "add_guide now ownerId dto =
     bind (find_by_owner_or_fail ownerId) (\<lambda>owned.
     bind (if truthy (cg_phone dto) then find_user_by_phone (or_else (cg_phone dto) [])
           else ret None) (\<lambda>parTelephone.
     bind (if truthy (cg_email dto) then find_user_by_email (or_else (cg_email dto) [])
           else ret None) (\<lambda>parEmail.
     bind (require (parTelephone = None \<and> parEmail = None)
       (Conflict ''Un compte existe deja avec ce contact'')) (\<lambda>_.
     bind (create_user now
       \<lparr>cu_fullName = cg_fullName dto, cu_phone = cg_phone dto, cu_email = cg_email dto,
        cu_passwordHash = None, cu_role = GUIDE, cu_agencyId = Some (as_id owned)\<rparr>) (\<lambda>guide.
     ret (to_user_summary guide))))))"

definition regenerate_calendar_subscription ::
  "string \<Rightarrow> uid \<Rightarrow> (db, calendar_subscription) act" where
  "regenerate_calendar_subscription token ownerId =
     bind (find_by_owner_or_fail ownerId) (\<lambda>owned.
     bind (update_row db_agencies db_agencies_update (\<lambda>a. a_id a = as_id owned)
       (\<lambda>a. a\<lparr>a_calendarToken := Some token\<rparr>)) (\<lambda>_.
     ret (to_calendar_subscription_shape token)))"

definition get_or_create_calendar_subscription ::
  "string \<Rightarrow> uid \<Rightarrow> (db, calendar_subscription) act" where
  "get_or_create_calendar_subscription token ownerId =
     bind (find_first db_agencies (\<lambda>a. a_ownerId a = ownerId)) (\<lambda>found.
     bind (or_fail (NotFound ''Agence introuvable'') found) (\<lambda>raw.
     if truthy (a_calendarToken raw)
     then ret (to_calendar_subscription_shape (or_else (a_calendarToken raw) []))
     else regenerate_calendar_subscription token ownerId))"

definition find_by_calendar_token_or_fail :: "string \<Rightarrow> (db, agency_shape) act" where
  "find_by_calendar_token_or_fail token =
     find_agency (\<lambda>a. a_calendarToken a = Some token) ''Lien de calendrier invalide''"

section \<open>Lemmas\<close>

lemma to_agency_shape_simps [simp]:
  "as_id (to_agency_shape a) = a_id a" "as_ownerId (to_agency_shape a) = a_ownerId a"
  "as_validationStatus (to_agency_shape a) = a_validationStatus a"
  "as_legalDocuments (to_agency_shape a) = a_legalDocuments a"
  "as_commissionRate (to_agency_shape a) = a_commissionRate a"
  "as_legalName (to_agency_shape a) = a_legalName a"
  "as_taxId (to_agency_shape a) = a_taxId a"
  "as_tradeRegister (to_agency_shape a) = a_tradeRegister a"
  by (simp_all add: to_agency_shape_def)

lemma reads_agencies [reads_intro]:
  "reads_only (find_by_owner_or_fail i)" "reads_only (find_agency_by_id_or_fail i)"
  "reads_only (find_by_status st)" "reads_only count_by_status" "reads_only (assert_approved i)"
  "reads_only (get_compliance_alerts now i)" "reads_only (list_own_guides i)"
  "reads_only (find_by_calendar_token_or_fail tok)"
  "reads_only (get_legal_document_access_url url i j)"
  "reads_only (get_legal_document_access_url_for_admin url i j)"
  unfolding find_by_owner_or_fail_def find_agency_by_id_or_fail_def find_agency_def
    find_by_status_def count_by_status_def assert_approved_def get_compliance_alerts_def
    list_own_guides_def find_by_calendar_token_or_fail_def get_legal_document_access_url_def
    get_legal_document_access_url_for_admin_def
  by (intro reads_intro)+

lemmas keeps_agencies_read [keeps_intro] = reads_agencies [THEN keeps_reads]

lemma find_by_owner_or_fail_run:
  "find_by_owner_or_fail i s =
     (case List.find (\<lambda>a. a_ownerId a = i) (db_agencies s) of
        None \<Rightarrow> (Inl (NotFound ''Agence introuvable''), s)
      | Some a \<Rightarrow> (Inr (to_agency_shape a), s))"
  by (simp add: find_by_owner_or_fail_def find_agency_def bind_def split: option.split)

lemma find_by_owner_or_fail_ok [ok_iff]:
  "find_by_owner_or_fail i s = (Inr v, t) \<longleftrightarrow>
     t = s \<and> (\<exists>a. List.find (\<lambda>a. a_ownerId a = i) (db_agencies s) = Some a \<and>
       v = to_agency_shape a)"
  by (auto simp: find_by_owner_or_fail_run split: option.splits)

lemma find_agency_by_id_or_fail_run:
  "find_agency_by_id_or_fail i s =
     (case List.find (\<lambda>a. a_id a = i) (db_agencies s) of
        None \<Rightarrow> (Inl (NotFound ''Agence introuvable''), s)
      | Some a \<Rightarrow> (Inr (to_agency_shape a), s))"
  by (simp add: find_agency_by_id_or_fail_def find_agency_def bind_def split: option.split)

lemma find_agency_by_id_or_fail_ok [ok_iff]:
  "find_agency_by_id_or_fail i s = (Inr v, t) \<longleftrightarrow>
     t = s \<and> (\<exists>a. List.find (\<lambda>a. a_id a = i) (db_agencies s) = Some a \<and>
       v = to_agency_shape a)"
  by (auto simp: find_agency_by_id_or_fail_run split: option.splits)

lemma assert_approved_ok [ok_iff]:
  "assert_approved i s = (Inr v, t) \<longleftrightarrow>
     t = s \<and> (\<exists>a. List.find (\<lambda>a. a_id a = i) (db_agencies s) = Some a \<and>
       a_validationStatus a = AVS_APPROVED)"
  by (auto simp: assert_approved_def ok_iff)

lemma to_alert_expiring:
  "la_status (to_alert now d e) = EXPIRED \<or> la_expiresAt (to_alert now d e) \<le> now + k \<longleftrightarrow> e \<le> now + k"
  if "0 \<le> k"
  using that by (auto simp: to_alert_def)

lemma compliance_alerts_set:
  "set (compliance_alerts now docs) =
     {to_alert now d e | d e. d \<in> set docs \<and> ld_expiresAt d = Some e \<and>
        e \<le> now + 30 * day_ms}"
proof -
  have "0 \<le> compliance_alert_window_days * day_ms"
    by (simp add: compliance_alert_window_days_def day_ms_def)
  note expiring = to_alert_expiring [OF this]
  have "set (List.map_filter (\<lambda>doc. case ld_expiresAt doc of None \<Rightarrow> None
      | Some e \<Rightarrow> Some (to_alert now doc e)) docs) =
    {to_alert now d e | d e. d \<in> set docs \<and> ld_expiresAt d = Some e}"
    by (induction docs) (auto simp: map_filter_simps split: option.splits)
  then have "set (compliance_alerts now docs) =
      {x. \<exists>d e. x = to_alert now d e \<and> d \<in> set docs \<and> ld_expiresAt d = Some e \<and>
        (la_status x = EXPIRED \<or> la_expiresAt x \<le> now + compliance_alert_window_days * day_ms)}"
    unfolding compliance_alerts_def Let_def set_filter by blast
  also have "\<dots> = {to_alert now d e | d e. d \<in> set docs \<and> ld_expiresAt d = Some e \<and>
      e \<le> now + compliance_alert_window_days * day_ms}"
    using expiring by blast
  finally show ?thesis by (simp only: compliance_alert_window_days_def)
qed

lemma approve_agency_ok:
  "approve_agency now i adminId s = (Inr v, t) \<Longrightarrow>
     as_validationStatus v = AVS_APPROVED \<and> as_rejectionReason v = None \<and>
     as_validatedById v = Some adminId"
  by (auto simp: approve_agency_def validate_agency_def ok_iff to_agency_shape_def)

lemma validate_agency_keeps [keeps_intro]:
  assumes "\<And>s. I s \<Longrightarrow> I (db_agencies_update (map (\<lambda>x. if a_id x = i then f x else x)) s)"
  shows "keeps I (validate_agency i f)"
  unfolding validate_agency_def by (intro keeps_intro assms)

lemma register_agency_new_owner:
  assumes "register_agency now h dto s = (Inr v, t)"
  shows "as_validationStatus v = AVS_PENDING"
    and "\<forall>u \<in> set (db_users s). u_email u \<noteq> Some (to_lower_case (ra_contactEmail dto))"
    and "\<exists>u \<in> set (db_users t). u_id u = as_ownerId v \<and> u_role u = AGENCY"
  using assms
  by (auto simp: register_agency_def ok_iff create_user_def find_user_by_email_def
      find_user_row_def find_None_iff Let_def to_user_shape_def to_agency_shape_def
      split: if_splits)

end
