(* ===== verification/Packages.thy ===== *)
theory Packages
  imports Agencies
begin

text \<open>
  \<open>src/src/modules/packages/packages.service.ts\<close>: the packages an agency sells, their
  stages in chronological order, the public search, and the seats that bookings take and
  give back.  The constraints of the request bodies are the predicates
  \<open>valid_create_package\<close>, \<open>valid_update_package\<close> and \<open>valid_query\<close>; dates arrive parsed.
\<close>

section \<open>Requests\<close>

record stage_dto =
  sg_city :: string
  sg_hotelName :: string
  sg_distanceToMosqueMeters :: "int option"
  sg_startDate :: time
  sg_endDate :: time

record create_package_dto =
  cp_type :: pilgrimage_type
  cp_title :: string
  cp_description :: "string option"
  cp_startDate :: time
  cp_endDate :: time
  cp_price :: money
  cp_currency :: "string option"
  cp_capacity :: int
  cp_stages :: "stage_dto list"
  cp_inclusions :: "string list option"

definition valid_create_package :: "create_package_dto \<Rightarrow> bool" where
  "valid_create_package dto \<longleftrightarrow>
     3 \<le> length (cp_title dto) \<and> 0 < cp_price dto \<and> 0 < cp_capacity dto \<and> cp_stages dto \<noteq> []"

record update_package_dto =
  uk_type :: "pilgrimage_type option"
  uk_title :: "string option"
  uk_description :: "string option"
  uk_startDate :: "time option"
  uk_endDate :: "time option"
  uk_price :: "money option"
  uk_currency :: "string option"
  uk_capacity :: "int option"
  uk_stages :: "stage_dto list option"
  uk_inclusions :: "string list option"

definition if_given :: "('a \<Rightarrow> bool) \<Rightarrow> 'a option \<Rightarrow> bool" where
  "if_given p x = (case x of None \<Rightarrow> True | Some v \<Rightarrow> p v)"

definition valid_update_package :: "update_package_dto \<Rightarrow> bool" where
  "valid_update_package dto \<longleftrightarrow>
     if_given (\<lambda>v. 3 \<le> length v) (uk_title dto) \<and> if_given (\<lambda>v. 0 < v) (uk_price dto) \<and>
     if_given (\<lambda>v. 0 < v) (uk_capacity dto) \<and> if_given (\<lambda>v. v \<noteq> []) (uk_stages dto)"

record package_query =
  pq_type :: "pilgrimage_type option"
  pq_agencyId :: "uid option"
  pq_maxBudget :: "money option"
  pq_familySize :: "int option"
  pq_startDateFrom :: "time option"
  pq_startDateTo :: "time option"

definition valid_query :: "package_query \<Rightarrow> bool" where
  "valid_query q \<longleftrightarrow>
     if_given (\<lambda>v. 0 < v) (pq_maxBudget q) \<and> if_given (\<lambda>v. 1 \<le> v) (pq_familySize q)"

section \<open>Shapes\<close>

text \<open>The shape has the columns of the row; \<open>WITH_STAGES\<close> sorts the stages.\<close>

type_synonym package_shape = package

definition to_package_shape :: "package \<Rightarrow> package_shape" where
  "to_package_shape p = p\<lparr>p_stages := sort_key st_startDate (p_stages p)\<rparr>"

definition to_stage_create_input :: "stage_dto \<Rightarrow> uid \<Rightarrow> package_stage" where
  "to_stage_create_input g i =
     \<lparr>st_id = i, st_city = sg_city g, st_hotelName = sg_hotelName g,
      st_distanceToMosqueMeters = sg_distanceToMosqueMeters g,
      st_startDate = sg_startDate g, st_endDate = sg_endDate g\<rparr>"

section \<open>Operations\<close>

definition create_package :: "uid \<Rightarrow> create_package_dto \<Rightarrow> (db, package_shape) act" where
  "create_package ownerId dto =
     bind (find_by_owner_or_fail ownerId) (\<lambda>agency.
     bind (assert_approved (as_id agency)) (\<lambda>_.
     bind (fresh_ids (length (cp_stages dto))) (\<lambda>ids.
     bind (create_row db_packages_update
       (\<lambda>i. \<lparr>p_id = i, p_agencyId = as_id agency, p_type = cp_type dto, p_title = cp_title dto,
         p_description = cp_description dto, p_startDate = cp_startDate dto,
         p_endDate = cp_endDate dto, p_price = cp_price dto,
         p_currency = or_else (cp_currency dto) ''GNF'', p_capacity = cp_capacity dto,
         p_seatsTaken = 0, p_inclusions = or_else (cp_inclusions dto) [], p_status = OPEN,
         p_stages = map2 to_stage_create_input (cp_stages dto) ids\<rparr>)) (\<lambda>pkg.
     ret (to_package_shape pkg)))))"

definition find_package_or_fail :: "uid \<Rightarrow> (db, package_shape) act" where
  "find_package_or_fail i =
     bind (find_first db_packages (\<lambda>p. p_id p = i)) (\<lambda>found.
     bind (or_fail (NotFound ''Forfait introuvable'') found) (\<lambda>pkg.
     ret (to_package_shape pkg)))"

definition assert_package_ownership :: "uid \<Rightarrow> package_shape \<Rightarrow> (db, unit) act" where
  "assert_package_ownership ownerId pkg =
     bind (find_by_owner_or_fail ownerId) (\<lambda>agency.
     require (p_agencyId pkg = as_id agency)
       (Forbidden ''Ce forfait n'appartient pas a votre agence''))"

definition update_package_row :: "uid \<Rightarrow> (package \<Rightarrow> package) \<Rightarrow> (db, package_shape) act" where
  "update_package_row i f =
     bind (update_row db_packages db_packages_update (\<lambda>p. p_id p = i) f) (\<lambda>updated.
     ret (to_package_shape updated))"

definition apply_package_update ::
  "update_package_dto \<Rightarrow> uid list \<Rightarrow> package \<Rightarrow> package" where
  "apply_package_update dto ids p =
     p\<lparr>p_type := or_else (uk_type dto) (p_type p),
       p_title := or_else (uk_title dto) (p_title p),
       p_description := or_keep (uk_description dto) (p_description p),
       p_startDate := or_else (uk_startDate dto) (p_startDate p),
       p_endDate := or_else (uk_endDate dto) (p_endDate p),
       p_price := or_else (uk_price dto) (p_price p),
       p_currency := or_else (uk_currency dto) (p_currency p),
       p_capacity := or_else (uk_capacity dto) (p_capacity p),
       p_inclusions := or_else (uk_inclusions dto) (p_inclusions p),
       p_stages := (case uk_stages dto of None \<Rightarrow> p_stages p
                    | Some gs \<Rightarrow> map2 to_stage_create_input gs ids)\<rparr>"

definition update_package ::
  "uid \<Rightarrow> uid \<Rightarrow> update_package_dto \<Rightarrow> (db, package_shape) act" where
  "update_package ownerId packageId dto =
     bind (find_package_or_fail packageId) (\<lambda>pkg.
     bind (assert_package_ownership ownerId pkg) (\<lambda>_.
     bind (fresh_ids (length (or_else (uk_stages dto) []))) (\<lambda>ids.
     update_package_row (p_id pkg) (apply_package_update dto ids))))"

definition close_package :: "uid \<Rightarrow> uid \<Rightarrow> (db, package_shape) act" where
  "close_package ownerId packageId =
     bind (find_package_or_fail packageId) (\<lambda>pkg.
     bind (assert_package_ownership ownerId pkg) (\<lambda>_.
     update_package_row (p_id pkg) (\<lambda>p. p\<lparr>p_status := CLOSED\<rparr>)))"

definition matches_query :: "package_query \<Rightarrow> package \<Rightarrow> bool" where
  "matches_query q p \<longleftrightarrow>
     p_status p = OPEN \<and> if_given (\<lambda>ty. p_type p = ty) (pq_type q) \<and>
     if_given (\<lambda>a. p_agencyId p = a) (pq_agencyId q) \<and>
     if_given (\<lambda>b. p_price p \<le> b) (pq_maxBudget q) \<and>
     if_given (\<lambda>d. d \<le> p_startDate p) (pq_startDateFrom q) \<and>
     if_given (\<lambda>d. p_startDate p \<le> d) (pq_startDateTo q)"

definition list_public :: "package_query \<Rightarrow> (db, package_shape list) act" where
  "list_public q =
     bind (find_many db_packages (matches_query q)) (\<lambda>found.
     let pkgs = (if pq_maxBudget q \<noteq> None then sort_key p_price found
                 else sort_key p_startDate found);
         filtered = (case pq_familySize q of
             Some n \<Rightarrow> filter (\<lambda>p. n \<le> p_capacity p - p_seatsTaken p) pkgs
           | None \<Rightarrow> pkgs)
     in ret (map to_package_shape filtered))"

definition find_all_by_agency_id :: "uid \<Rightarrow> (db, package_shape list) act" where
  "find_all_by_agency_id agencyId =
     bind (find_many db_packages (\<lambda>p. p_agencyId p = agencyId)) (\<lambda>pkgs.
     ret (map to_package_shape pkgs))"

definition list_my_packages :: "uid \<Rightarrow> (db, package_shape list) act" where
  "list_my_packages ownerId =
     bind (find_by_owner_or_fail ownerId) (\<lambda>agency. find_all_by_agency_id (as_id agency))"

definition reserve_seat :: "uid \<Rightarrow> (db, package_shape) act" where
  "reserve_seat packageId =
     bind (find_package_or_fail packageId) (\<lambda>pkg.
     bind (require (p_status pkg = OPEN) (Conflict ''Ce forfait n'accepte plus de reservation''))
       (\<lambda>_.
     if p_seatsTaken pkg \<ge> p_capacity pkg then
       bind (update_package_row (p_id pkg) (\<lambda>p. p\<lparr>p_status := FULL\<rparr>)) (\<lambda>_.
       throw (Conflict ''Ce forfait est complet''))
     else
       let seatsTaken = p_seatsTaken pkg + 1;
           status = (if seatsTaken \<ge> p_capacity pkg then FULL else p_status pkg)
       in update_package_row (p_id pkg) (\<lambda>p. p\<lparr>p_seatsTaken := seatsTaken, p_status := status\<rparr>)))"

definition release_seat :: "uid \<Rightarrow> (db, package_shape) act" where
  "release_seat packageId =
     bind (find_package_or_fail packageId) (\<lambda>pkg.
     let seatsTaken = max 0 (p_seatsTaken pkg - 1);
         status = (if p_status pkg = FULL \<and> seatsTaken < p_capacity pkg then OPEN
                   else p_status pkg)
     in update_package_row (p_id pkg) (\<lambda>p. p\<lparr>p_seatsTaken := seatsTaken, p_status := status\<rparr>))"

section \<open>Lemmas\<close>

lemma to_package_shape_simps [simp]:
  "p_id (to_package_shape p) = p_id p" "p_agencyId (to_package_shape p) = p_agencyId p"
  "p_status (to_package_shape p) = p_status p" "p_capacity (to_package_shape p) = p_capacity p"
  "p_seatsTaken (to_package_shape p) = p_seatsTaken p" "p_price (to_package_shape p) = p_price p"
  "p_startDate (to_package_shape p) = p_startDate p" "p_endDate (to_package_shape p) = p_endDate p"
  "p_title (to_package_shape p) = p_title p" "p_currency (to_package_shape p) = p_currency p"
  "p_type (to_package_shape p) = p_type p"
  by (simp_all add: to_package_shape_def)

lemma to_package_shape_stages:
  "set (p_stages (to_package_shape p)) = set (p_stages p)"
  "sorted (map st_startDate (p_stages (to_package_shape p)))"
  by (simp_all add: to_package_shape_def)

lemma reads_packages [reads_intro]:
  "reads_only (find_package_or_fail i)" "reads_only (assert_package_ownership i pkg)"
  "reads_only (list_public q)" "reads_only (find_all_by_agency_id i)"
  "reads_only (list_my_packages i)"
  unfolding find_package_or_fail_def assert_package_ownership_def list_public_def
    find_all_by_agency_id_def list_my_packages_def Let_def
  by (intro reads_intro)+

lemmas keeps_packages_read [keeps_intro] = reads_packages [THEN keeps_reads]

lemma find_package_or_fail_run:
  "find_package_or_fail i s =
     (case List.find (\<lambda>p. p_id p = i) (db_packages s) of
        None \<Rightarrow> (Inl (NotFound ''Forfait introuvable''), s)
      | Some p \<Rightarrow> (Inr (to_package_shape p), s))"
  by (simp add: find_package_or_fail_def bind_def split: option.split)

lemma find_package_or_fail_ok [ok_iff]:
  "find_package_or_fail i s = (Inr v, t) \<longleftrightarrow>
     t = s \<and> (\<exists>p. List.find (\<lambda>p. p_id p = i) (db_packages s) = Some p \<and> v = to_package_shape p)"
  by (auto simp: find_package_or_fail_run split: option.splits)

lemma update_package_row_keeps [keeps_intro]:
  assumes "\<And>s. I s \<Longrightarrow> I (db_packages_update (map (\<lambda>x. if p_id x = i then f x else x)) s)"
  shows "keeps I (update_package_row i f)"
  unfolding update_package_row_def by (intro keeps_intro assms)

text \<open>The update of one package of the table.\<close>

abbreviation put_package :: "uid \<Rightarrow> (package \<Rightarrow> package) \<Rightarrow> db \<Rightarrow> db" where
  "put_package i f \<equiv> db_packages_update (map (\<lambda>x. if p_id x = i then f x else x))"

lemma update_package_row_run:
  assumes "List.find (\<lambda>p. p_id p = i) (db_packages s) = Some p"
  shows "update_package_row i f s = (Inr (to_package_shape (f p)), put_package i f s)"
  using assms by (simp add: update_package_row_def update_row_def bind_def)

subsection \<open>Seats\<close>

text \<open>What a reservation and a release do to the package, on every branch.\<close>

definition reserved :: "package \<Rightarrow> package" where
  "reserved p = p\<lparr>p_seatsTaken := p_seatsTaken p + 1,
     p_status := (if p_seatsTaken p + 1 \<ge> p_capacity p then FULL else OPEN)\<rparr>"

definition released :: "package \<Rightarrow> package" where
  "released p = p\<lparr>p_seatsTaken := max 0 (p_seatsTaken p - 1),
     p_status := (if p_status p = FULL \<and> max 0 (p_seatsTaken p - 1) < p_capacity p then OPEN
                  else p_status p)\<rparr>"

lemma put_package_cong:
  assumes "distinct (map p_id (db_packages s))"
    and "List.find (\<lambda>p. p_id p = i) (db_packages s) = Some p" and "f p = g p"
  shows "put_package i f s = put_package i g s"
proof -
  have "p \<in> set (db_packages s)" "p_id p = i" using assms(2) by (auto dest: find_Some_set)
  then show ?thesis using map_update_cong [of p_id _ p i f g] assms(1,3) by simp
qed

lemma reserve_seat_run:
  assumes d: "distinct (map p_id (db_packages s))"
  shows "reserve_seat i s =
    (case List.find (\<lambda>p. p_id p = i) (db_packages s) of
       None \<Rightarrow> (Inl (NotFound ''Forfait introuvable''), s)
     | Some p \<Rightarrow>
         if p_status p \<noteq> OPEN then (Inl (Conflict ''Ce forfait n'accepte plus de reservation''), s)
         else if p_seatsTaken p \<ge> p_capacity p
         then (Inl (Conflict ''Ce forfait est complet''), put_package i (\<lambda>p. p\<lparr>p_status := FULL\<rparr>) s)
         else (Inr (to_package_shape (reserved p)), put_package i reserved s))"
proof (cases "List.find (\<lambda>p. p_id p = i) (db_packages s)")
  case None
  then show ?thesis by (simp add: reserve_seat_def find_package_or_fail_run bind_def)
next
  case (Some p)
  then have i: "p_id p = i" by (auto dest: find_Some_set)
  show ?thesis
  proof (cases "p_status p = OPEN \<and> \<not> p_seatsTaken p \<ge> p_capacity p")
    case True
    define f :: "package \<Rightarrow> package" where "f = (\<lambda>q. q\<lparr>p_seatsTaken := p_seatsTaken p + 1,
      p_status := (if p_seatsTaken p + 1 \<ge> p_capacity p then FULL else p_status p)\<rparr>)"
    have f: "f p = reserved p" using True by (simp add: f_def reserved_def)
    have "reserve_seat i s = update_package_row i f s"
      using True Some i by (simp add: reserve_seat_def find_package_or_fail_run f_def Let_def)
    also have "\<dots> = (Inr (to_package_shape (reserved p)), put_package i reserved s)"
      unfolding update_package_row_run [OF Some] f using put_package_cong [where f = f and g = reserved, OF d Some f] by simp
    finally show ?thesis using True Some by simp
  next
    case False
    then show ?thesis
      using Some i
      by (auto simp: reserve_seat_def find_package_or_fail_run update_package_row_run [OF Some])
  qed
qed

lemma release_seat_run:
  assumes d: "distinct (map p_id (db_packages s))"
  shows "release_seat i s =
    (case List.find (\<lambda>p. p_id p = i) (db_packages s) of
       None \<Rightarrow> (Inl (NotFound ''Forfait introuvable''), s)
     | Some p \<Rightarrow> (Inr (to_package_shape (released p)), put_package i released s))"
proof (cases "List.find (\<lambda>p. p_id p = i) (db_packages s)")
  case None
  then show ?thesis by (simp add: release_seat_def find_package_or_fail_run bind_def)
next
  case (Some p)
  then have i: "p_id p = i" by (auto dest: find_Some_set)
  define f :: "package \<Rightarrow> package" where "f = (\<lambda>q. q\<lparr>p_seatsTaken := max 0 (p_seatsTaken p - 1),
    p_status := (if p_status p = FULL \<and> max 0 (p_seatsTaken p - 1) < p_capacity p then OPEN
                 else p_status p)\<rparr>)"
  have f: "f p = released p" by (simp add: f_def released_def)
  have "release_seat i s = update_package_row i f s"
    using Some i by (simp add: release_seat_def find_package_or_fail_run f_def Let_def)
  then show ?thesis
    unfolding update_package_row_run [OF Some] f using put_package_cong [where f = f and g = released, OF d Some f] Some by simp
qed

text \<open>No package sells more seats than it has.\<close>

definition seats_ok :: "package \<Rightarrow> bool" where
  "seats_ok p \<longleftrightarrow> 0 \<le> p_seatsTaken p \<and> p_seatsTaken p \<le> p_capacity p"

definition packages_ok :: "db \<Rightarrow> bool" where
  "packages_ok s \<longleftrightarrow> well_keyed p_id db_packages s \<and> list_all seats_ok (db_packages s)"

lemma packages_ok_distinct: "packages_ok s \<Longrightarrow> distinct (map p_id (db_packages s))"
  by (simp add: packages_ok_def well_keyed_def)

lemma seats_ok_reserved: "seats_ok p \<Longrightarrow> p_seatsTaken p < p_capacity p \<Longrightarrow> seats_ok (reserved p)"
  by (auto simp: seats_ok_def reserved_def)

lemma seats_ok_released: "seats_ok p \<Longrightarrow> seats_ok (released p)"
  by (auto simp: seats_ok_def released_def)

lemma released_reserved:
  "seats_ok p \<Longrightarrow> p_status p = OPEN \<Longrightarrow> p_seatsTaken p < p_capacity p \<Longrightarrow>
     released (reserved p) = p"
  by (cases p) (auto simp: released_def reserved_def seats_ok_def)

lemma packages_ok_put:
  assumes "packages_ok s" and "\<And>p. p_id (f p) = p_id p"
    and "\<And>p. p \<in> set (db_packages s) \<Longrightarrow> p_id p = i \<Longrightarrow> seats_ok p \<Longrightarrow> seats_ok (f p)"
  shows "packages_ok (put_package i f s)"
proof -
  have "list_all (\<lambda>p. p_id p < db_next s) (map (\<lambda>x. if p_id x = i then f x else x) (db_packages s))"
    by (rule list_all_update) (use assms(1,2) in \<open>simp_all add: packages_ok_def well_keyed_def\<close>)
  moreover have "list_all seats_ok (map (\<lambda>x. if p_id x = i then f x else x) (db_packages s))"
    by (rule list_all_update) (use assms(1,3) in \<open>simp_all add: packages_ok_def\<close>)
  moreover have "distinct (map p_id (map (\<lambda>x. if p_id x = i then f x else x) (db_packages s)))"
    by (rule distinct_key_update) (use assms(1,2) in \<open>simp_all add: packages_ok_distinct\<close>)
  ultimately show ?thesis by (simp only: packages_ok_def well_keyed_def packages.rows_put packages.next_put)
qed

lemma reserve_seat_keeps: "keeps packages_ok (reserve_seat i)"
proof (rule keepsI)
  fix s r t
  assume ok: "packages_ok s" and run: "reserve_seat i s = (r, t)"
  then have d: "distinct (map p_id (db_packages s))" by (simp add: packages_ok_distinct)
  show "packages_ok t"
  proof (cases "List.find (\<lambda>p. p_id p = i) (db_packages s)")
    case None
    then show ?thesis using run ok by (simp add: reserve_seat_run [OF d])
  next
    case (Some p)
    then have p: "p \<in> set (db_packages s)" "p_id p = i" by (auto dest: find_Some_set)
    have only: "q = p" if "q \<in> set (db_packages s)" "p_id q = i" for q
      using distinct_key_unique [OF d that(1) p(1)] that(2) p(2) by simp
    have full: "packages_ok (put_package i (\<lambda>p. p\<lparr>p_status := FULL\<rparr>) s)"
      by (rule packages_ok_put [OF ok]) (simp_all add: seats_ok_def)
    have more: "packages_ok (put_package i reserved s)" if "p_seatsTaken p < p_capacity p"
      by (rule packages_ok_put [OF ok]) (use only that in \<open>auto simp: seats_ok_reserved, simp add: reserved_def\<close>)
    show ?thesis
      using run ok full more Some by (auto simp: reserve_seat_run [OF d] not_le split: if_splits)
  qed
qed

lemma release_seat_keeps: "keeps packages_ok (release_seat i)"
proof (rule keepsI)
  fix s r t
  assume ok: "packages_ok s" and run: "release_seat i s = (r, t)"
  then have d: "distinct (map p_id (db_packages s))" by (simp add: packages_ok_distinct)
  have "packages_ok (put_package i released s)"
    by (rule packages_ok_put [OF ok]) (simp_all add: seats_ok_released, simp add: released_def)
  then show "packages_ok t"
    using run ok by (auto simp: release_seat_run [OF d] split: option.splits)
qed

lemma packages_ok_ignores_messages: "ignores_messages packages_ok"
  unfolding ignores_messages_def
proof (intro allI impI)
  fix s t
  assume ok: "packages_ok s" and m: "only_messages s t"
  then have "well_keyed p_id db_packages t"
    using well_keyed_ignores_messages [of db_packages p_id]
    by (auto simp: packages_ok_def ignores_messages_def only_messagesD)
  then show "packages_ok t" using ok m by (simp add: packages_ok_def only_messagesD)
qed

lemma packages_ok_next: "packages_ok s \<Longrightarrow> packages_ok (s\<lparr>db_next := db_next s + n\<rparr>)"
  by (auto simp: packages_ok_def well_keyed_def list_all_iff)

lemma create_package_keeps:
  assumes "valid_create_package dto"
  shows "keeps packages_ok (create_package ownerId dto)"
  unfolding create_package_def
  by (intro keeps_intro packages_ok_next)
    (use assms in \<open>auto simp: packages_ok_def well_keyed_def list_all_iff seats_ok_def
      valid_create_package_def less_Suc_eq\<close>)

lemma close_package_keeps: "keeps packages_ok (close_package ownerId i)"
  unfolding close_package_def
  by (intro keeps_intro)
    (auto intro!: packages_ok_put simp: seats_ok_def)

lemma update_package_keeps:
  assumes ok: "packages_ok s"
    and cap: "\<And>p. p \<in> set (db_packages s) \<Longrightarrow> p_id p = i \<Longrightarrow> if_given (\<lambda>c. p_seatsTaken p \<le> c) (uk_capacity dto)"
  shows "packages_ok (snd (update_package ownerId i dto s))"
proof -
  let ?n = "length (or_else (uk_stages dto) [])"
  let ?s = "s\<lparr>db_next := db_next s + ?n\<rparr>"
  have ok': "packages_ok ?s" using ok by (rule packages_ok_next)
  have put: "packages_ok (put_package i (apply_package_update dto ids) ?s)" for ids
    by (rule packages_ok_put [OF ok'])
      (use cap in \<open>auto simp: apply_package_update_def seats_ok_def if_given_def or_else_def split: option.splits\<close>)
  show ?thesis
  proof (cases "List.find (\<lambda>p. p_id p = i) (db_packages s)")
    case None
    then show ?thesis using ok by (simp add: update_package_def find_package_or_fail_run bind_def)
  next
    case (Some p)
    then have pi: "p_id p = i" by (auto dest: find_Some_set)
    have f: "List.find (\<lambda>p. p_id p = i) (db_packages ?s) = Some p" using Some by simp
    show ?thesis
    proof (cases "assert_package_ownership ownerId (to_package_shape p) s")
      case (Pair r t)
      then have "t = s" using reads_packages(2) by (rule reads_onlyD [rotated])
      then show ?thesis
        using Pair Some ok pi put update_package_row_run [OF f]
        by (cases r) (simp_all add: update_package_def find_package_or_fail_run)
    qed
  qed
qed

subsection \<open>The seats of a package as a machine\<close>

datatype seat_call =
    SeatCreate uid create_package_dto
  | SeatUpdate uid uid update_package_dto
  | SeatClose uid uid
  | SeatReserve uid
  | SeatRelease uid

fun seat_step :: "seat_call \<Rightarrow> db \<Rightarrow> db" where
  "seat_step (SeatCreate ownerId dto) s = snd (create_package ownerId dto s)"
| "seat_step (SeatUpdate ownerId i dto) s = snd (update_package ownerId i dto s)"
| "seat_step (SeatClose ownerId i) s = snd (close_package ownerId i s)"
| "seat_step (SeatReserve i) s = snd (reserve_seat i s)"
| "seat_step (SeatRelease i) s = snd (release_seat i s)"

text \<open>
  A valid creation is allowed; so is an update that keeps the capacity at or above the
  seats taken; the other calls are always allowed.
\<close>

fun seat_allowed :: "seat_call \<Rightarrow> db \<Rightarrow> bool" where
  "seat_allowed (SeatCreate ownerId dto) s \<longleftrightarrow> valid_create_package dto"
| "seat_allowed (SeatUpdate ownerId i dto) s \<longleftrightarrow>
     list_all (\<lambda>p. p_id p = i \<longrightarrow> if_given (\<lambda>c. p_seatsTaken p \<le> c) (uk_capacity dto)) (db_packages s)"
| "seat_allowed c s \<longleftrightarrow> True"

lemma seat_step_ok: "seat_allowed c s \<Longrightarrow> packages_ok s \<Longrightarrow> packages_ok (seat_step c s)"
  using create_package_keeps update_package_keeps close_package_keeps reserve_seat_keeps
    release_seat_keeps
  by (cases c) (auto simp: keeps_def list_all_iff)

interpretation seats: machine seat_step seat_allowed packages_ok
  by unfold_locales (rule seat_step_ok)

section \<open>Properties\<close>

text \<open>A database with one approved agency and one package of two seats, one of them taken.\<close>

definition sample_owner :: user where
  "sample_owner = \<lparr>u_id = 1, u_fullName = ''Agence'', u_phone = None, u_email = Some ''a@b'',
     u_passwordHash = None, u_role = AGENCY, u_preferredLanguage = ''fr'', u_bloodType = None,
     u_passportNumber = None, u_isActive = True, u_emergencyFullName = None,
     u_emergencyPhone = None, u_emergencyRelationship = None, u_agencyId = None,
     u_createdAt = 0, u_updatedAt = 0\<rparr>"

definition sample_agency :: agency where
  "sample_agency = \<lparr>a_id = 2, a_legalName = ''Agence'', a_ownerId = 1, a_contactEmail = ''a@b'',
     a_contactPhone = [], a_address = None, a_taxId = None, a_tradeRegister = None,
     a_validationStatus = AVS_APPROVED, a_rejectionReason = None, a_validatedById = None,
     a_validatedAt = None, a_commissionRate = 1/10, a_bankAccountName = None,
     a_bankAccountNumber = None, a_bankName = None, a_calendarToken = None,
     a_legalDocuments = []\<rparr>"

definition sample_package :: package where
  "sample_package = \<lparr>p_id = 3, p_agencyId = 2, p_type = OUMRA, p_title = ''Oumra'',
     p_description = None, p_startDate = 100 * day_ms, p_endDate = 110 * day_ms, p_price = 1000,
     p_currency = ''GNF'', p_capacity = 2, p_seatsTaken = 1, p_inclusions = [], p_status = OPEN,
     p_stages = []\<rparr>"

definition sample_db :: db where
  "sample_db = empty_db\<lparr>db_next := 10, db_users := [sample_owner],
     db_agencies := [sample_agency], db_packages := [sample_package]\<rparr>"

lemmas sample_defs = sample_db_def sample_owner_def sample_agency_def sample_package_def
  empty_db_def

lemma sample_packages_ok: "packages_ok sample_db"
  by (simp add: sample_defs packages_ok_def well_keyed_def seats_ok_def)

text \<open>
  On every branch, a reservation answers 404 for an unknown package, refuses a package
  that is not open, refuses a package without a free seat after marking it FULL, and
  otherwise takes exactly one seat, marking the package FULL when it was the last one; no
  other package changes.
\<close>
theorem reserve_seat_spec:
  assumes "packages_ok s"
  shows "reserve_seat i s =
    (case List.find (\<lambda>p. p_id p = i) (db_packages s) of
       None \<Rightarrow> (Inl (NotFound ''Forfait introuvable''), s)
     | Some p \<Rightarrow>
         if p_status p \<noteq> OPEN then (Inl (Conflict ''Ce forfait n'accepte plus de reservation''), s)
         else if p_seatsTaken p \<ge> p_capacity p
         then (Inl (Conflict ''Ce forfait est complet''), put_package i (\<lambda>p. p\<lparr>p_status := FULL\<rparr>) s)
         else (Inr (to_package_shape (reserved p)), put_package i reserved s))"
  by (rule reserve_seat_run [OF packages_ok_distinct [OF assms]])

theorem reserve_seat_spec_witness:
  "reserve_seat 3 sample_db =
     (Inr (to_package_shape (sample_package\<lparr>p_seatsTaken := 2, p_status := FULL\<rparr>)),
      sample_db\<lparr>db_packages := [sample_package\<lparr>p_seatsTaken := 2, p_status := FULL\<rparr>]\<rparr>)"
  using reserve_seat_spec [OF sample_packages_ok, of 3]
  by (simp add: sample_defs reserved_def)

text \<open>
  Giving back a seat undoes a successful reservation: the whole database, the status
  of the package included, is as it was before.
\<close>
theorem reserve_then_release:
  assumes "packages_ok s" and "reserve_seat i s = (Inr p, t)"
  shows "\<exists>q. release_seat i t = (Inr q, s)"
proof -
  have d: "distinct (map p_id (db_packages s))" using assms(1) by (rule packages_ok_distinct)
  obtain r where r: "List.find (\<lambda>p. p_id p = i) (db_packages s) = Some r" "p_status r = OPEN"
      "p_seatsTaken r < p_capacity r" and t: "t = put_package i reserved s"
    using assms(2) by (auto simp: reserve_seat_run [OF d] split: option.splits if_splits)
  have r': "r \<in> set (db_packages s)" "p_id r = i" using r(1) by (auto dest: find_Some_set)
  then have "seats_ok r" using assms(1) by (auto simp: packages_ok_def list_all_iff)
  then have id: "released (reserved r) = r" using r by (simp add: released_reserved)
  have d': "distinct (map p_id (db_packages t))"
    using distinct_key_update [OF d, of "\<lambda>x. p_id x = i" reserved]
    by (simp add: t reserved_def)
  have f: "List.find (\<lambda>p. p_id p = i) (db_packages t) = Some (reserved r)"
    unfolding t using packages.find_after_update [of reserved i s r] r
    by (simp add: reserved_def)
  have "put_package i released t = put_package i (\<lambda>p. released (reserved p)) s"
  proof -
    have "(\<lambda>x. if p_id x = i then released x else x) \<circ> (\<lambda>x. if p_id x = i then reserved x else x) =
        (\<lambda>x. if p_id x = i then released (reserved x) else x)"
      by (rule ext) (simp add: reserved_def)
    then show ?thesis by (simp add: t)
  qed
  also have "\<dots> = put_package i (\<lambda>p. p) s"
    using put_package_cong [where f = "\<lambda>p. released (reserved p)" and g = "\<lambda>p. p", OF d r(1)] id by simp
  also have "\<dots> = s" by simp
  finally show ?thesis using f by (simp add: release_seat_run [OF d'])
qed

theorem reserve_then_release_witness:
  "\<exists>q. release_seat 3 (snd (reserve_seat 3 sample_db)) = (Inr q, sample_db)"
proof (rule reserve_then_release [OF sample_packages_ok])
  show "reserve_seat 3 sample_db =
      (Inr (to_package_shape (reserved sample_package)), snd (reserve_seat 3 sample_db))"
    using reserve_seat_run [OF packages_ok_distinct [OF sample_packages_ok], of 3]
    by (simp add: sample_defs)
qed

text \<open>
  C18: whatever sequence of package creations, updates that keep the capacity at or above
  the seats taken, closings, reservations and releases runs, every package keeps between
  zero and \<open>capacity\<close> seats taken.
\<close>
theorem seats_never_oversold:
  assumes "packages_ok s" and "allowed_run seat_step seat_allowed s calls"
  shows "list_all seats_ok (db_packages (fold seat_step calls s))"
  using seats.run_inv [OF assms(2,1)] by (simp add: packages_ok_def)

theorem seats_never_oversold_witness:
  "list_all seats_ok (db_packages (fold seat_step
     [SeatReserve 3, SeatReserve 3, SeatRelease 3, SeatClose 1 3] sample_db))"
  by (rule seats_never_oversold [OF sample_packages_ok]) simp

text \<open>
  An update of the capacity does not look at the seats taken: the request is accepted,
  and a capacity below the seats sold leaves an oversold package.
\<close>
theorem update_package_ignores_seats:
  assumes "List.find (\<lambda>a. a_ownerId a = ownerId) (db_agencies s) = Some a"
    and "List.find (\<lambda>p. p_id p = i) (db_packages s) = Some p"
    and "p_agencyId p = a_id a" and "uk_capacity dto = Some c" and "c < p_seatsTaken p"
  shows "\<exists>q t. update_package ownerId i dto s = (Inr q, t) \<and> p_id q = i \<and> \<not> seats_ok q"
proof -
  let ?s = "s\<lparr>db_next := db_next s + length (or_else (uk_stages dto) [])\<rparr>"
  have i: "p_id p = i" using assms(2) by (auto dest: find_Some_set)
  have f: "List.find (\<lambda>p. p_id p = i) (db_packages ?s) = Some p" using assms(2) by simp
  show ?thesis
    using assms i update_package_row_run [OF f]
    by (simp add: update_package_def find_package_or_fail_run assert_package_ownership_def
        find_by_owner_or_fail_run apply_package_update_def seats_ok_def bind_assoc)
qed

theorem update_package_ignores_seats_witness:
  "\<exists>q t. update_package 1 3 \<lparr>uk_type = None, uk_title = None, uk_description = None,
       uk_startDate = None, uk_endDate = None, uk_price = None, uk_currency = None,
       uk_capacity = Some 1, uk_stages = None, uk_inclusions = None\<rparr>
     (sample_db\<lparr>db_packages := [sample_package\<lparr>p_seatsTaken := 2\<rparr>]\<rparr>) = (Inr q, t) \<and>
     p_id q = 3 \<and> \<not> seats_ok q"
  by (rule update_package_ignores_seats [where a = sample_agency
        and p = "sample_package\<lparr>p_seatsTaken := 2\<rparr>" and c = 1])
    (simp_all add: sample_defs)

text \<open>
  The public search returns exactly the open packages that meet every criterion given,
  seats for the family included, cheapest first when a budget is given and earliest first
  otherwise.
\<close>
theorem list_public_spec:
  "\<exists>ps. list_public q s = (Inr ps, s) \<and>
     set ps = to_package_shape ` {p \<in> set (db_packages s). matches_query q p \<and>
       if_given (\<lambda>n. n \<le> p_capacity p - p_seatsTaken p) (pq_familySize q)} \<and>
     (if pq_maxBudget q \<noteq> None then sorted (map p_price ps) else sorted (map p_startDate ps))"
proof -
  have fl: "sorted (map f (filter P (sort_key f xs)))" for f :: "package \<Rightarrow> 'z::linorder" and P xs
    by (rule sorted_filter) simp
  have price: "map p_price (map to_package_shape ps) = map p_price ps"
    and date: "map p_startDate (map to_package_shape ps) = map p_startDate ps" for ps
    by simp_all
  show ?thesis
    unfolding list_public_def Let_def
    by (cases "pq_familySize q"; cases "pq_maxBudget q")
      (auto simp: if_given_def price date fl simp del: map_map)
qed

end
