(* ===== verification/RefundPolicy.thy ===== *)
theory RefundPolicy
  imports Packages
begin

text \<open>
  \<open>src/src/modules/payments/refund-policy.ts\<close> and \<open>refund-policy.service.ts\<close>: the refund
  scale an agency publishes, frozen on a booking as JSON, and the share of a payment that
  is refundable at a given time.  \<open>eligibilite\<close> is written for any ordered numbers, because
  a scale read back from JSON may hold thresholds that are not integers.
\<close>

section \<open>Pure rules\<close>

record 'n tier =
  t_minDays :: 'n
  t_rate :: rat

datatype refund_rule = UNPAID_BOOKING | AGENCY_TIER | PLATFORM_DEFAULT | NOT_REFUNDABLE

record refund_eligibility =
  re_rate :: rat
  re_rule :: refund_rule

definition default_confirmed_rate :: rat where
  "default_confirmed_rate = 1 / 2"

definition jours_avant_depart :: "time \<Rightarrow> time \<Rightarrow> int" where
  "jours_avant_depart depart maintenant = (depart - maintenant) div day_ms"

definition tiers_desc :: "('n::linordered_idom) tier list \<Rightarrow> 'n tier list" where
  "tiers_desc paliers = sort_key (\<lambda>p. - t_minDays p) paliers"

definition eligibilite ::
  "booking_status \<Rightarrow> ('n::linordered_idom) tier list \<Rightarrow> int \<Rightarrow> refund_eligibility" where
  "eligibilite statut paliers jours =
     (if statut = PENDING_PAYMENT then \<lparr>re_rate = 1, re_rule = UNPAID_BOOKING\<rparr>
      else if statut \<noteq> CONFIRMED then \<lparr>re_rate = 0, re_rule = NOT_REFUNDABLE\<rparr>
      else if paliers = [] then
        \<lparr>re_rate = default_confirmed_rate, re_rule = PLATFORM_DEFAULT\<rparr>
      else (case List.find (\<lambda>p. of_int jours \<ge> t_minDays p) (tiers_desc paliers) of
              Some palier \<Rightarrow> \<lparr>re_rate = t_rate palier, re_rule = AGENCY_TIER\<rparr>
            | None \<Rightarrow> \<lparr>re_rate = 0, re_rule = NOT_REFUNDABLE\<rparr>))"

text \<open>The frozen scale, read without trusting its shape.\<close>

fun lire_palier :: "json \<Rightarrow> rat tier list" where
  "lire_palier (JObject props) =
     (case (map_of props ''minDaysBeforeDeparture'', map_of props ''rate'') of
        (Some (JNumber m), Some (JNumber r)) \<Rightarrow> [\<lparr>t_minDays = m, t_rate = r\<rparr>]
      | _ \<Rightarrow> [])"
| "lire_palier _ = []"

fun lire_paliers :: "json option \<Rightarrow> rat tier list" where
  "lire_paliers (Some (JArray xs)) = concat (map lire_palier xs)"
| "lire_paliers _ = []"

definition snapshot :: "int tier list \<Rightarrow> json" where
  "snapshot paliers = JArray (map (\<lambda>p. JObject
     [(''minDaysBeforeDeparture'', JNumber (of_int (t_minDays p))), (''rate'', JNumber (t_rate p))])
     paliers)"

fun check_paliers :: "int tier list \<Rightarrow> http_error + unit" where
  "check_paliers (precedent # p # rest) =
     (if t_minDays precedent = t_minDays p then
        Inl (BadRequest (''Deux paliers a '' @ show_int (t_minDays p) @ '' jours du depart''))
      else if t_rate p > t_rate precedent then
        Inl (BadRequest ''Le taux rembourse ne peut pas augmenter a l'approche du depart'')
      else check_paliers (p # rest))"
| "check_paliers _ = Inr ()"

definition verifier_paliers :: "int tier list \<Rightarrow> http_error + int tier list" where
  "verifier_paliers paliers =
     (let tries = tiers_desc paliers
      in case check_paliers tries of Inl e \<Rightarrow> Inl e | Inr _ \<Rightarrow> Inr tries)"

section \<open>The service\<close>

definition valid_refund_policy :: "int tier list \<Rightarrow> bool" where
  "valid_refund_policy ts \<longleftrightarrow>
     length ts \<le> 10 \<and>
     list_all (\<lambda>t. 0 \<le> t_minDays t \<and> t_minDays t \<le> 730 \<and> two_decimals (t_rate t) \<and>
       0 \<le> t_rate t \<and> t_rate t \<le> 1) ts"

definition to_tier :: "refund_tier \<Rightarrow> int tier" where
  "to_tier p = \<lparr>t_minDays = tr_minDaysBeforeDeparture p, t_rate = tr_rate p\<rparr>"

definition get_for_agency :: "uid \<Rightarrow> (db, int tier list) act" where
  "get_for_agency agencyId =
     bind (find_many db_refundTiers (\<lambda>p. tr_agencyId p = agencyId)) (\<lambda>paliers.
     ret (tiers_desc (map to_tier paliers)))"

definition get_policy_for_owner :: "uid \<Rightarrow> (db, int tier list) act" where
  "get_policy_for_owner ownerId =
     bind (find_by_owner_or_fail ownerId) (\<lambda>agence. get_for_agency (as_id agence))"

definition replace_for_owner :: "uid \<Rightarrow> int tier list \<Rightarrow> (db, int tier list) act" where
  "replace_for_owner ownerId tiers =
     bind (find_by_owner_or_fail ownerId) (\<lambda>agence.
     bind (from_result (verifier_paliers tiers)) (\<lambda>paliers.
     bind (transaction (bind
       (delete_many db_refundTiers db_refundTiers_update (\<lambda>p. tr_agencyId p = as_id agence))
       (\<lambda>_. exec (db_refundTiers_update (\<lambda>ps. ps @ map (\<lambda>p. \<lparr>tr_agencyId = as_id agence,
          tr_minDaysBeforeDeparture = t_minDays p, tr_rate = t_rate p\<rparr>) paliers))))) (\<lambda>_.
     get_for_agency (as_id agence))))"

record refund_context =
  rc_rate :: rat
  rc_rule :: refund_rule
  rc_daysBeforeDeparture :: int
  rc_tiers :: "rat tier list"

text \<open>
  A relation a query includes: the row it points to, which the foreign keys of the
  database guarantee.
\<close>

definition related :: "(db \<Rightarrow> 'r list) \<Rightarrow> ('r \<Rightarrow> bool) \<Rightarrow> (db, 'r) act" where
  "related rows p = bind (find_first rows p) (or_fail (DbError ''P2025''))"

definition context_of :: "booking \<Rightarrow> package \<Rightarrow> time \<Rightarrow> refund_context" where
  "context_of b p maintenant =
     (let tiers = lire_paliers (b_refundPolicySnapshot b);
          jours = jours_avant_depart (p_startDate p) maintenant;
          e = eligibilite (b_status b) tiers jours
      in \<lparr>rc_rate = re_rate e, rc_rule = re_rule e, rc_daysBeforeDeparture = jours,
          rc_tiers = tiers\<rparr>)"

definition context_for :: "uid \<Rightarrow> time \<Rightarrow> (db, refund_context) act" where
  "context_for bookingId maintenant =
     bind (find_first db_bookings (\<lambda>b. b_id b = bookingId)) (\<lambda>found.
     bind (or_fail (NotFound ''Reservation introuvable'') found) (\<lambda>reservation.
     bind (related db_packages (\<lambda>p. p_id p = b_packageId reservation)) (\<lambda>pkg.
     ret (context_of reservation pkg maintenant))))"

section \<open>Lemmas\<close>

lemma related_run [simp]:
  "related rows p s =
     (case List.find p (rows s) of None \<Rightarrow> (Inl (DbError ''P2025''), s) | Some r \<Rightarrow> (Inr r, s))"
  by (simp add: related_def bind_def split: option.split)

lemma related_ok [ok_iff]:
  "related rows p s = (Inr r, t) \<longleftrightarrow> List.find p (rows s) = Some r \<and> t = s"
  by (auto split: option.splits)

lemma reads_refund [reads_intro]:
  "reads_only (related rows p)" "reads_only (get_for_agency i)"
  "reads_only (get_policy_for_owner i)" "reads_only (context_for i now)"
  unfolding related_def get_for_agency_def get_policy_for_owner_def context_for_def
  by (intro reads_intro)+

lemmas keeps_refund_read [keeps_intro] = reads_refund [THEN keeps_reads]

lemma tiers_desc_set [simp]: "set (tiers_desc ts) = set ts"
  by (simp add: tiers_desc_def)

lemma tiers_desc_sorted: "sorted_wrt (\<lambda>a b. t_minDays b \<le> t_minDays a) (tiers_desc ts)"
proof -
  have "sorted (map (\<lambda>p. - t_minDays p) (tiers_desc ts))" by (simp add: tiers_desc_def)
  then show ?thesis by (simp add: sorted_map)
qed

lemma find_sorted_max:
  assumes "sorted_wrt (\<lambda>a b. t_minDays b \<le> t_minDays a) ts"
    and "List.find (\<lambda>p. t_minDays p \<le> (j :: 'n::linordered_idom)) ts = Some t"
    and "u \<in> set ts" and "t_minDays u \<le> j"
  shows "t_minDays u \<le> t_minDays t"
  using assms by (induction ts) (auto split: if_splits)

lemma eligibilite_confirmed_tier:
  assumes "\<exists>t \<in> set ts. t_minDays t \<le> of_int j"
  obtains t where "t \<in> set ts" and "t_minDays t \<le> of_int j"
    and "\<And>u. u \<in> set ts \<Longrightarrow> t_minDays u \<le> of_int j \<Longrightarrow> t_minDays u \<le> t_minDays t"
    and "eligibilite CONFIRMED ts j = \<lparr>re_rate = t_rate t, re_rule = AGENCY_TIER\<rparr>"
proof -
  let ?P = "\<lambda>p. t_minDays p \<le> of_int j"
  obtain t where t: "List.find ?P (tiers_desc ts) = Some t"
    using assms by (cases "List.find ?P (tiers_desc ts)") (auto simp: find_None_iff)
  then have "t \<in> set ts" "?P t" by (auto dest!: find_Some_set)
  moreover have "t_minDays u \<le> t_minDays t" if "u \<in> set ts" "?P u" for u
    using find_sorted_max [OF tiers_desc_sorted t] that by simp
  moreover have "eligibilite CONFIRMED ts j = \<lparr>re_rate = t_rate t, re_rule = AGENCY_TIER\<rparr>"
    using t assms by (auto simp: eligibilite_def)
  ultimately show thesis using that by blast
qed

lemma eligibilite_below_tiers:
  "ts \<noteq> [] \<Longrightarrow> \<forall>t \<in> set ts. \<not> t_minDays t \<le> of_int j \<Longrightarrow>
     eligibilite CONFIRMED ts j = \<lparr>re_rate = 0, re_rule = NOT_REFUNDABLE\<rparr>"
  by (auto simp: eligibilite_def find_None_iff split: option.split dest!: find_Some_set)

lemma eligibilite_rate_range:
  assumes "\<forall>t \<in> set ts. 0 \<le> t_rate t \<and> t_rate t \<le> 1"
  shows "0 \<le> re_rate (eligibilite st ts j)" and "re_rate (eligibilite st ts j) \<le> 1"
  using assms
  by (auto simp: eligibilite_def default_confirmed_rate_def split: option.split
      dest!: find_Some_set)

text \<open>A scale that the verification accepts.\<close>

definition coherent :: "('n::linordered_idom) tier list \<Rightarrow> bool" where
  "coherent ts \<longleftrightarrow>
     (\<forall>t \<in> set ts. \<forall>u \<in> set ts. t_minDays t < t_minDays u \<longrightarrow> t_rate t \<le> t_rate u)"

lemma check_paliers_ok:
  assumes "sorted_wrt (\<lambda>a b. t_minDays b \<le> t_minDays a) ts"
  shows "check_paliers ts = Inr () \<longleftrightarrow>
    sorted_wrt (\<lambda>a b. t_minDays b < t_minDays a \<and> t_rate b \<le> t_rate a) ts"
  using assms
proof (induction ts rule: check_paliers.induct)
  case (1 a b rest)
  show ?case
  proof (cases "t_minDays a = t_minDays b \<or> t_rate b > t_rate a")
    case True
    then show ?thesis by (auto simp: not_le)
  next
    case False
    then have lt: "t_minDays b < t_minDays a" "t_rate b \<le> t_rate a" using "1.prems" by auto
    have "check_paliers (b # rest) = Inr () \<longleftrightarrow>
        sorted_wrt (\<lambda>a b. t_minDays b < t_minDays a \<and> t_rate b \<le> t_rate a) (b # rest)"
      using "1.IH" False "1.prems" by auto
    then show ?thesis using False lt by (auto intro: less_trans order_trans)
  qed
qed auto

lemma strict_tiers:
  assumes "sorted_wrt (\<lambda>a b. t_minDays b < t_minDays a \<and> t_rate b \<le> t_rate a) ts"
  shows "distinct (map t_minDays ts)" and "coherent ts"
proof -
  show "distinct (map t_minDays ts)" using assms by (induction ts) auto
  show "coherent ts" using assms by (induction ts) (auto simp: coherent_def)
qed

lemma tiers_strict:
  assumes "sorted_wrt (\<lambda>a b. t_minDays b \<le> t_minDays a) ts"
    and "distinct (map t_minDays ts)" and "coherent ts"
  shows "sorted_wrt (\<lambda>a b. t_minDays b < t_minDays a \<and> t_rate b \<le> t_rate a) ts"
  using assms
proof (induction ts)
  case (Cons t ts)
  have "coherent ts" using Cons.prems(3) by (simp add: coherent_def)
  then have "sorted_wrt (\<lambda>a b. t_minDays b < t_minDays a \<and> t_rate b \<le> t_rate a) ts"
    using Cons by simp
  moreover have "t_minDays u < t_minDays t \<and> t_rate u \<le> t_rate t" if u: "u \<in> set ts" for u
  proof -
    have "t_minDays u \<le> t_minDays t" "t_minDays u \<noteq> t_minDays t"
      using Cons.prems(1,2) u by (auto simp: image_iff)
    then have "t_minDays u < t_minDays t" by simp
    then show ?thesis using Cons.prems(3) u by (auto simp: coherent_def)
  qed
  ultimately show ?case by simp
qed simp

lemma tiers_desc_distinct [simp]:
  "distinct (map t_minDays (tiers_desc ts)) \<longleftrightarrow> distinct (map t_minDays ts)"
proof -
  have "mset (map t_minDays (tiers_desc ts)) = mset (map t_minDays ts)"
    unfolding tiers_desc_def mset_map mset_sort by (rule refl)
  then show ?thesis by (rule mset_eq_imp_distinct_iff)
qed

lemma coherent_tiers_desc [simp]: "coherent (tiers_desc ts) \<longleftrightarrow> coherent ts"
  by (simp add: coherent_def)

lemma verifier_paliers_ok:
  "verifier_paliers ts = Inr ts' \<longleftrightarrow>
     ts' = tiers_desc ts \<and> distinct (map t_minDays ts) \<and> coherent ts"
proof -
  have "check_paliers (tiers_desc ts) = Inr () \<longleftrightarrow> distinct (map t_minDays ts) \<and> coherent ts"
    using check_paliers_ok [OF tiers_desc_sorted, of ts] tiers_strict [OF tiers_desc_sorted, of ts]
      strict_tiers [of "tiers_desc ts"] by auto
  then show ?thesis
    by (auto simp: verifier_paliers_def Let_def split: sum.splits)
qed

lemma lire_paliers_snapshot:
  "lire_paliers (Some (snapshot ts)) =
     map (\<lambda>p. \<lparr>t_minDays = of_int (t_minDays p), t_rate = t_rate p\<rparr>) ts"
  by (induction ts) (auto simp: snapshot_def)

lemma to_tier_row [simp]:
  "to_tier \<lparr>tr_agencyId = a, tr_minDaysBeforeDeparture = t_minDays p, tr_rate = t_rate p\<rparr> = p"
  by (cases p) (simp add: to_tier_def)

lemma tiers_desc_idem: "tiers_desc (tiers_desc ts) = tiers_desc ts"
  by (simp add: tiers_desc_def sorted_sort_id sort_key_id_if_sorted)

lemma get_for_agency_run:
  "get_for_agency i s =
     (Inr (tiers_desc (map to_tier (filter (\<lambda>p. tr_agencyId p = i) (db_refundTiers s)))), s)"
  by (simp add: get_for_agency_def)

lemma context_for_run:
  assumes "List.find (\<lambda>b. b_id b = i) (db_bookings s) = Some b"
    and "List.find (\<lambda>p. p_id p = b_packageId b) (db_packages s) = Some p"
  shows "context_for i now s = (Inr (context_of b p now), s)"
  using assms by (simp add: context_for_def)

lemma context_for_ok [ok_iff]:
  "context_for i now s = (Inr c, t) \<longleftrightarrow>
     t = s \<and> (\<exists>b p. List.find (\<lambda>b. b_id b = i) (db_bookings s) = Some b \<and>
       List.find (\<lambda>p. p_id p = b_packageId b) (db_packages s) = Some p \<and> c = context_of b p now)"
  by (auto simp: context_for_def ok_iff simp del: related_run)

section \<open>Properties\<close>

text \<open>
  For a confirmed booking with a scale, the rate is that of the highest threshold the
  days left reach, whatever the order the tiers are stored in, and zero below the last one.
\<close>
theorem eligibilite_highest_tier:
  assumes "ts \<noteq> []"
  shows "(\<exists>t \<in> set ts. t_minDays t \<le> of_int j \<and>
      (\<forall>u \<in> set ts. t_minDays u \<le> of_int j \<longrightarrow> t_minDays u \<le> t_minDays t) \<and>
      eligibilite CONFIRMED ts j = \<lparr>re_rate = t_rate t, re_rule = AGENCY_TIER\<rparr>) \<or>
    (\<forall>t \<in> set ts. of_int j < t_minDays t) \<and>
      eligibilite CONFIRMED ts j = \<lparr>re_rate = 0, re_rule = NOT_REFUNDABLE\<rparr>"
proof (cases "\<exists>t \<in> set ts. t_minDays t \<le> of_int j")
  case True
  then show ?thesis by (rule eligibilite_confirmed_tier) blast
next
  case False
  then show ?thesis using eligibilite_below_tiers [OF assms] by (auto simp: not_le)
qed

theorem eligibilite_highest_tier_witness:
  "(\<exists>t \<in> set [\<lparr>t_minDays = 15, t_rate = 1/4\<rparr>, \<lparr>t_minDays = 60::int, t_rate = 3/4\<rparr>].
      t_minDays t \<le> of_int 20 \<and>
      (\<forall>u \<in> set [\<lparr>t_minDays = 15, t_rate = 1/4\<rparr>, \<lparr>t_minDays = 60, t_rate = 3/4\<rparr>].
         t_minDays u \<le> of_int 20 \<longrightarrow> t_minDays u \<le> t_minDays t) \<and>
      eligibilite CONFIRMED [\<lparr>t_minDays = 15::int, t_rate = 1/4\<rparr>, \<lparr>t_minDays = 60, t_rate = 3/4\<rparr>] 20 =
        \<lparr>re_rate = t_rate t, re_rule = AGENCY_TIER\<rparr>)"
  using eligibilite_highest_tier
    [of "[\<lparr>t_minDays = 15::int, t_rate = 1/4\<rparr>, \<lparr>t_minDays = 60, t_rate = 3/4\<rparr>]" 20]
  by auto

text \<open>
  The verification accepts a scale exactly when its thresholds are distinct and its
  rates never rise as the departure comes nearer, and then stores the same tiers, from the
  farthest threshold to the nearest.
\<close>
theorem verifier_paliers_spec:
  "(\<exists>ts'. verifier_paliers ts = Inr ts') = (distinct (map t_minDays ts) \<and> coherent ts) \<and>
   (case verifier_paliers ts of
      Inr ts' \<Rightarrow> mset ts' = mset ts \<and> sorted_wrt (\<lambda>a b. t_minDays b \<le> t_minDays a) ts'
    | Inl e \<Rightarrow> True)"
  using verifier_paliers_ok [of ts] tiers_desc_sorted [of ts]
  by (auto split: sum.split simp: tiers_desc_def)

text \<open>
  With a scale that the verification accepted, cancelling earlier never pays less: the
  rate of a booking grows with the days left before the departure.
\<close>
theorem earlier_refund_not_less:
  assumes "verifier_paliers ts = Inr ts'" and "\<forall>t \<in> set ts. 0 \<le> t_rate t" and "j \<le> k"
  shows "re_rate (eligibilite st ts' j) \<le> re_rate (eligibilite st ts' k)"
proof (cases "st = CONFIRMED \<and> ts' \<noteq> [] \<and> (\<exists>t \<in> set ts'. t_minDays t \<le> of_int j)")
  case True
  have ts': "ts' = tiers_desc ts" "coherent ts'" "distinct (map t_minDays ts')"
    using assms(1) by (auto simp: verifier_paliers_ok)
  from True have j: "\<exists>t \<in> set ts'. t_minDays t \<le> of_int j" by simp
  then have k: "\<exists>t \<in> set ts'. t_minDays t \<le> of_int k" using assms(3) by (auto intro: order_trans)
  from j obtain t where t: "t \<in> set ts'" "t_minDays t \<le> of_int j"
      "eligibilite CONFIRMED ts' j = \<lparr>re_rate = t_rate t, re_rule = AGENCY_TIER\<rparr>"
    by (rule eligibilite_confirmed_tier) blast
  from k obtain u where u: "u \<in> set ts'" "t_minDays u \<le> of_int k"
      "\<And>v. v \<in> set ts' \<Longrightarrow> t_minDays v \<le> of_int k \<Longrightarrow> t_minDays v \<le> t_minDays u"
      "eligibilite CONFIRMED ts' k = \<lparr>re_rate = t_rate u, re_rule = AGENCY_TIER\<rparr>"
    by (rule eligibilite_confirmed_tier) blast
  have "t_minDays t \<le> t_minDays u" using u(3) [OF t(1)] t(2) assms(3) by simp
  then have "t = u \<or> t_minDays t < t_minDays u"
    using distinct_key_unique [OF ts'(3) t(1) u(1)] by fastforce
  then have "t_rate t \<le> t_rate u" using ts'(2) t(1) u(1) by (auto simp: coherent_def)
  then show ?thesis using t(3) u(4) True by simp
next
  case False
  have "0 \<le> re_rate (eligibilite st ts' k)"
    using assms(1,2) by (auto simp: eligibilite_def default_confirmed_rate_def verifier_paliers_ok
        split: option.split dest!: find_Some_set)
  moreover have "st = CONFIRMED \<Longrightarrow> ts' \<noteq> [] \<Longrightarrow> re_rate (eligibilite st ts' j) = 0"
    using False eligibilite_below_tiers [of ts' j] by auto
  ultimately show ?thesis by (cases st; cases "ts' = []") (auto simp: eligibilite_def)
qed

theorem earlier_refund_not_less_witness:
  "re_rate (eligibilite CONFIRMED [\<lparr>t_minDays = 60::int, t_rate = 3/4\<rparr>, \<lparr>t_minDays = 15, t_rate = 1/4\<rparr>] 20)
   \<le> re_rate (eligibilite CONFIRMED [\<lparr>t_minDays = 60::int, t_rate = 3/4\<rparr>, \<lparr>t_minDays = 15, t_rate = 1/4\<rparr>] 70)"
  by (rule earlier_refund_not_less
      [where ts = "[\<lparr>t_minDays = 15, t_rate = 1/4\<rparr>, \<lparr>t_minDays = 60, t_rate = 3/4\<rparr>]"])
    (auto simp: verifier_paliers_ok tiers_desc_def coherent_def)

text \<open>
  The scale an owner replaces is the scale that is then read, for this agency; the
  scale of every other agency stays as it was, and the snapshot taken from the stored
  scale reads back as the same tiers.
\<close>
theorem replace_for_owner_spec:
  assumes "replace_for_owner ownerId ts s = (Inr ts', t)"
  shows "get_policy_for_owner ownerId t = (Inr ts', t) \<and> ts' = tiers_desc ts \<and>
    (\<exists>a. find_by_owner_or_fail ownerId s = (Inr a, s) \<and>
      (\<forall>other. other = as_id a \<or> get_for_agency other t = (fst (get_for_agency other s), t))) \<and>
    lire_paliers (Some (snapshot ts')) =
      map (\<lambda>p. \<lparr>t_minDays = of_int (t_minDays p), t_rate = t_rate p\<rparr>) ts'"
proof -
  obtain a where a: "List.find (\<lambda>a. a_ownerId a = ownerId) (db_agencies s) = Some a"
    and t: "t = db_refundTiers_update (\<lambda>ps. filter (\<lambda>p. tr_agencyId p \<noteq> a_id a) ps @
        map (\<lambda>p. \<lparr>tr_agencyId = a_id a, tr_minDaysBeforeDeparture = t_minDays p,
          tr_rate = t_rate p\<rparr>) (tiers_desc ts)) s"
    and ts': "get_for_agency (a_id a) t = (Inr ts', t)"
    using assms
    by (auto simp: replace_for_owner_def ok_iff delete_many_def verifier_paliers_ok
        get_for_agency_run comp_def)
  have own: "get_for_agency (a_id a) t = (Inr (tiers_desc ts), t)"
    by (simp add: get_for_agency_run t comp_def tiers_desc_idem)
  have other: "get_for_agency i t = (fst (get_for_agency i s), t)" if "i \<noteq> a_id a" for i
  proof -
    have "(tr_agencyId p \<noteq> a_id a \<and> tr_agencyId p = i) = (tr_agencyId p = i)" for p :: refund_tier
      using that by auto
    then show ?thesis using that by (simp add: get_for_agency_run t filter_map comp_def)
  qed
  show ?thesis
    using own other ts' a lire_paliers_snapshot [of ts']
    by (auto simp: get_policy_for_owner_def find_by_owner_or_fail_run t)
qed

theorem replace_for_owner_spec_witness:
  "get_policy_for_owner 1 (snd (replace_for_owner 1 [\<lparr>t_minDays = 15, t_rate = 1/4\<rparr>] sample_db)) =
     (Inr [\<lparr>t_minDays = 15, t_rate = 1/4\<rparr>],
      snd (replace_for_owner 1 [\<lparr>t_minDays = 15, t_rate = 1/4\<rparr>] sample_db))"
proof -
  have "replace_for_owner 1 [\<lparr>t_minDays = 15, t_rate = 1/4\<rparr>] sample_db =
     (Inr [\<lparr>t_minDays = 15, t_rate = 1/4\<rparr>],
      snd (replace_for_owner 1 [\<lparr>t_minDays = 15, t_rate = 1/4\<rparr>] sample_db))"
    by (simp add: replace_for_owner_def sample_defs find_by_owner_or_fail_run verifier_paliers_def
        tiers_desc_def Let_def bind_def transaction_def delete_many_def get_for_agency_def to_tier_def
        to_agency_shape_def)
  from replace_for_owner_spec [OF this] show ?thesis by simp
qed

end
