(* ===== verification/TravelGroups.thy ===== *)
theory TravelGroups
  imports RefundPolicy
begin

text \<open>
  \<open>src/src/modules/groups/groups.service.ts\<close> and \<open>group-roster.service.ts\<close>: the groups of a
  package, their guide, members, itinerary and shared positions, the SOS and lost alerts,
  and the roster with its CSV export.  The French collation that orders the roster is an
  argument; the byte order mark is given as the three bytes the response starts with.
\<close>

section \<open>Shapes\<close>

record location_shape =
  ls_userId :: uid
  ls_fullName :: string
  ls_lat :: rat
  ls_lng :: rat
  ls_updatedAt :: time

record group_shape =
  gs_id :: uid
  gs_packageId :: uid
  gs_agencyId :: uid
  gs_title :: string
  gs_guideId :: "uid option"
  gs_memberIds :: "uid list"
  gs_itinerary :: "itinerary_step list"
  gs_locations :: "location_shape list"

text \<open>The name of the user a row points to (the foreign key guarantees the user).\<close>

definition name_of :: "user list \<Rightarrow> uid \<Rightarrow> string" where
  "name_of us i = (case List.find (\<lambda>u. u_id u = i) us of None \<Rightarrow> [] | Some u \<Rightarrow> u_fullName u)"

definition to_group_shape :: "user list \<Rightarrow> group \<Rightarrow> group_shape" where
  "to_group_shape us g =
     \<lparr>gs_id = g_id g, gs_packageId = g_packageId g, gs_agencyId = g_agencyId g,
      gs_title = g_title g, gs_guideId = g_guideId g, gs_memberIds = g_members g,
      gs_itinerary = g_itinerary g,
      gs_locations = map (\<lambda>l. \<lparr>ls_userId = gl_userId l, ls_fullName = name_of us (gl_userId l),
        ls_lat = gl_lat l, ls_lng = gl_lng l, ls_updatedAt = gl_updatedAt l\<rparr>) (g_locations g)\<rparr>"

section \<open>Operations\<close>

text \<open>\<open>include: GROUP_INCLUDE\<close>: the shape of a row, with the names of its members.\<close>

definition shape_group :: "group \<Rightarrow> (db, group_shape) act" where
  "shape_group g = query (\<lambda>s. to_group_shape (db_users s) g)"

definition list_groups :: "(group \<Rightarrow> bool) \<Rightarrow> (db, group_shape list) act" where
  "list_groups p =
     bind (find_many db_groups p) (\<lambda>gs. query (\<lambda>s. map (to_group_shape (db_users s)) gs))"

definition create_group :: "uid \<Rightarrow> uid \<Rightarrow> string \<Rightarrow> (db, group_shape) act" where
  "create_group ownerId packageId title =
     bind (find_by_owner_or_fail ownerId) (\<lambda>agency.
     bind (find_first db_packages (\<lambda>p. p_id p = packageId)) (\<lambda>pkg.
     bind (require (pkg \<noteq> None) (DbError ''P2003'')) (\<lambda>_.
     bind (create_row db_groups_update
       (\<lambda>i. \<lparr>g_id = i, g_packageId = packageId, g_agencyId = as_id agency, g_title = title,
         g_guideId = None, g_members = [], g_itinerary = [], g_locations = []\<rparr>)) (\<lambda>g.
     shape_group g))))"

definition find_group_or_fail :: "uid \<Rightarrow> (db, group_shape) act" where
  "find_group_or_fail i =
     bind (find_first db_groups (\<lambda>g. g_id g = i)) (\<lambda>found.
     bind (or_fail (NotFound ''Groupe introuvable'') found) (\<lambda>g. shape_group g))"

definition list_groups_by_agency :: "uid \<Rightarrow> (db, group_shape list) act" where
  "list_groups_by_agency ownerId =
     bind (find_by_owner_or_fail ownerId) (\<lambda>agency.
     list_groups (\<lambda>g. g_agencyId g = as_id agency))"

definition list_groups_for_guide :: "uid \<Rightarrow> (db, group_shape list) act" where
  "list_groups_for_guide guideUserId = list_groups (\<lambda>g. g_guideId g = Some guideUserId)"

definition list_groups_for_pilgrim :: "uid \<Rightarrow> (db, group_shape list) act" where
  "list_groups_for_pilgrim pilgrimUserId =
     list_groups (\<lambda>g. pilgrimUserId \<in> set (g_members g))"

definition find_group_authorized :: "uid \<Rightarrow> role \<Rightarrow> uid \<Rightarrow> (db, group_shape) act" where
  "find_group_authorized requesterId requesterRole groupId =
     bind (find_group_or_fail groupId) (\<lambda>g.
     if requesterRole = ADMIN then ret g
     else if requesterId \<in> set (gs_memberIds g) \<or> gs_guideId g = Some requesterId then ret g
     else
       bind (if requesterRole = AGENCY
             then bind (find_by_owner_or_fail requesterId) (\<lambda>agency.
               ret (gs_agencyId g = as_id agency))
             else ret False) (\<lambda>own.
       bind (require own (Forbidden ''Vous n'avez pas acces a ce groupe'')) (\<lambda>_.
       ret g)))"

definition assert_group_ownership :: "uid \<Rightarrow> group_shape \<Rightarrow> (db, unit) act" where
  "assert_group_ownership ownerId g =
     bind (find_by_owner_or_fail ownerId) (\<lambda>agency.
     require (gs_agencyId g = as_id agency)
       (Forbidden ''Ce groupe n'appartient pas a votre agence''))"

text \<open>Two periods overlap: \<open>startDate <= end\<close> and \<open>endDate >= start\<close>, bounds included.\<close>

definition overlap :: "time \<Rightarrow> time \<Rightarrow> time \<Rightarrow> time \<Rightarrow> bool" where
  "overlap s1 e1 s2 e2 \<longleftrightarrow> s1 \<le> e2 \<and> s2 \<le> e1"

definition package_overlaps :: "package list \<Rightarrow> uid \<Rightarrow> package \<Rightarrow> bool" where
  "package_overlaps ps i forfait \<longleftrightarrow>
     (case List.find (\<lambda>p. p_id p = i) ps of
        None \<Rightarrow> False
      | Some p \<Rightarrow> overlap (p_startDate p) (p_endDate p) (p_startDate forfait) (p_endDate forfait))"

definition other_group_busy :: "package list \<Rightarrow> uid \<Rightarrow> uid \<Rightarrow> package \<Rightarrow> group \<Rightarrow> bool" where
  "other_group_busy ps guideId groupId forfait g \<longleftrightarrow>
     g_guideId g = Some guideId \<and> g_id g \<noteq> groupId \<and> package_overlaps ps (g_packageId g) forfait"

definition absence_busy :: "uid \<Rightarrow> package \<Rightarrow> guide_unavailability \<Rightarrow> bool" where
  "absence_busy guideId forfait a \<longleftrightarrow>
     un_guideId a = guideId \<and>
     overlap (un_startDate a) (un_endDate a) (p_startDate forfait) (p_endDate forfait)"

definition assert_guide_available :: "uid \<Rightarrow> group_shape \<Rightarrow> (db, unit) act" where
  "assert_guide_available guideId g =
     bind (find_first db_packages (\<lambda>p. p_id p = gs_packageId g)) (\<lambda>found.
     case found of
       None \<Rightarrow> ret ()
     | Some forfait \<Rightarrow>
         bind (query (\<lambda>s. List.find (other_group_busy (db_packages s) guideId (gs_id g) forfait)
           (db_groups s))) (\<lambda>autreGroupe.
         bind (case autreGroupe of
             None \<Rightarrow> ret ()
           | Some a \<Rightarrow> throw (Conflict (''Ce guide mene deja le groupe << '' @ g_title a @
               '' >> sur ces dates''))) (\<lambda>_.
         bind (find_first db_unavailabilities (absence_busy guideId forfait)) (\<lambda>absence.
         require (absence = None)
           (Conflict ''Ce guide est declare indisponible sur ces dates'')))))"

definition update_group_row :: "uid \<Rightarrow> (group \<Rightarrow> group) \<Rightarrow> (db, group_shape) act" where
  "update_group_row i f =
     bind (update_row db_groups db_groups_update (\<lambda>g. g_id g = i) f) (\<lambda>g. shape_group g)"

definition assign_guide :: "uid \<Rightarrow> uid \<Rightarrow> uid \<Rightarrow> (db, group_shape) act" where
  "assign_guide ownerId groupId guideUserId =
     bind (find_group_or_fail groupId) (\<lambda>g.
     bind (assert_group_ownership ownerId g) (\<lambda>_.
     bind (find_user_by_id_or_fail guideUserId) (\<lambda>guide.
     bind (require (us_role guide = GUIDE)
       (BadRequest ''L'utilisateur designe n'a pas le role guide'')) (\<lambda>_.
     bind (require (us_agencyId guide = Some (gs_agencyId g))
       (Forbidden ''Ce guide n'est pas rattache a votre agence'')) (\<lambda>_.
     bind (assert_guide_available (us_id guide) g) (\<lambda>_.
     update_group_row (gs_id g) (\<lambda>x. x\<lparr>g_guideId := Some (us_id guide)\<rparr>)))))))"

definition add_member :: "uid \<Rightarrow> uid \<Rightarrow> uid \<Rightarrow> (db, group_shape) act" where
  "add_member ownerId groupId pilgrimUserId =
     bind (find_group_or_fail groupId) (\<lambda>g.
     bind (assert_group_ownership ownerId g) (\<lambda>_.
     bind (whenever (pilgrimUserId \<notin> set (gs_memberIds g))
       (bind (find_user_by_id pilgrimUserId) (\<lambda>u.
        bind (require (u \<noteq> None) (DbError ''P2003'')) (\<lambda>_.
        bind (update_group_row (gs_id g)
          (\<lambda>x. x\<lparr>g_members := g_members x @ [pilgrimUserId]\<rparr>)) (\<lambda>_. ret ()))))) (\<lambda>_.
     find_group_or_fail groupId)))"

definition add_itinerary_step :: "uid \<Rightarrow> uid \<Rightarrow> itinerary_step \<Rightarrow> (db, group_shape) act" where
  "add_itinerary_step ownerId groupId step =
     bind (find_group_or_fail groupId) (\<lambda>g.
     bind (assert_group_ownership ownerId g) (\<lambda>_.
     bind (update_group_row (gs_id g) (\<lambda>x. x\<lparr>g_itinerary := g_itinerary x @ [step]\<rparr>)) (\<lambda>_.
     find_group_or_fail groupId)))"

definition upsert_location :: "time \<Rightarrow> uid \<Rightarrow> rat \<Rightarrow> rat \<Rightarrow> member_location list \<Rightarrow> member_location list"
  where
  "upsert_location now userId lat lng ls =
     (let l = \<lparr>gl_userId = userId, gl_lat = lat, gl_lng = lng, gl_updatedAt = now\<rparr>
      in if userId \<in> gl_userId ` set ls
         then map (\<lambda>x. if gl_userId x = userId then l else x) ls
         else ls @ [l])"

definition update_location :: "time \<Rightarrow> uid \<Rightarrow> uid \<Rightarrow> rat \<Rightarrow> rat \<Rightarrow> (db, group_shape) act" where
  "update_location now userId groupId lat lng =
     bind (find_group_or_fail groupId) (\<lambda>g.
     bind (require (userId \<in> set (gs_memberIds g) \<or> gs_guideId g = Some userId)
       (Forbidden ''Vous ne faites pas partie de ce groupe'')) (\<lambda>_.
     bind (update_group_row (gs_id g)
       (\<lambda>x. x\<lparr>g_locations := upsert_location now userId lat lng (g_locations x)\<rparr>)) (\<lambda>_.
     find_group_or_fail groupId)))"

definition clear_location :: "uid \<Rightarrow> uid \<Rightarrow> (db, unit) act" where
  "clear_location userId groupId =
     update_many db_groups_update (\<lambda>g. g_id g = groupId)
       (\<lambda>g. g\<lparr>g_locations := filter (\<lambda>l. gl_userId l \<noteq> userId) (g_locations g)\<rparr>)"

definition emergency_sms :: "user_shape \<Rightarrow> string \<Rightarrow> (db, unit) act" where
  "emergency_sms pilgrim content =
     (case us_emergencyContact pilgrim of
        None \<Rightarrow> ret ()
      | Some c \<Rightarrow> whenever (ec_phone c \<noteq> []) (send_raw_sms (ec_phone c) content))"

definition trigger_sos :: "time \<Rightarrow> uid \<Rightarrow> uid \<Rightarrow> (db, unit) act" where
  "trigger_sos now pilgrimUserId groupId =
     bind (find_group_or_fail groupId) (\<lambda>g.
     bind (require (pilgrimUserId \<in> set (gs_memberIds g))
       (Forbidden ''Vous ne faites pas partie de ce groupe'')) (\<lambda>_.
     bind (find_user_by_id_or_fail pilgrimUserId) (\<lambda>pilgrim.
     bind (case gs_guideId g of
         None \<Rightarrow> ret ()
       | Some guideId \<Rightarrow>
           bind (send now \<lparr>si_recipientIds = [guideId], si_type = NT_SOS,
             si_title = ''Alerte SOS'',
             si_content = us_fullName pilgrim @ '' a declenche une alerte SOS dans le groupe '' @
               [CHR 0x22] @ gs_title g @ [CHR 0x22] @ ''.'',
             si_isCritical = True\<rparr>) (\<lambda>_. ret ())) (\<lambda>_.
     emergency_sms pilgrim (''Alerte SOS : '' @ us_fullName pilgrim @
       '' a declenche une alerte d'urgence pendant son voyage.'')))))"

definition trigger_lost_alert :: "time \<Rightarrow> uid \<Rightarrow> uid \<Rightarrow> rat \<Rightarrow> rat \<Rightarrow> (db, unit) act" where
  "trigger_lost_alert now pilgrimUserId groupId lat lng =
     bind (find_group_or_fail groupId) (\<lambda>g.
     bind (require (pilgrimUserId \<in> set (gs_memberIds g))
       (Forbidden ''Vous ne faites pas partie de ce groupe'')) (\<lambda>_.
     bind (update_location now pilgrimUserId groupId lat lng) (\<lambda>_.
     bind (find_user_by_id_or_fail pilgrimUserId) (\<lambda>pilgrim.
     case gs_guideId g of
       None \<Rightarrow> ret ()
     | Some guideId \<Rightarrow>
         bind (send now \<lparr>si_recipientIds = [guideId], si_type = NT_OTHER,
           si_title = ''Pelerin perdu'',
           si_content = us_fullName pilgrim @
             '' a signale etre perdu. Sa position a ete mise a jour.'',
           si_isCritical = False\<rparr>) (\<lambda>_. ret ())))))"

section \<open>The roster\<close>

definition libelle_mobilite :: "string \<Rightarrow> string option" where
  "libelle_mobilite m =
     map_of [(''none'', []), (''reduced'', ''mobilite reduite''),
       (''wheelchair'', ''fauteuil roulant'')] m"

definition libelle_statut :: "booking_status \<Rightarrow> string" where
  "libelle_statut st =
     (case st of PENDING_PAYMENT \<Rightarrow> ''paiement en attente'' | CONFIRMED \<Rightarrow> ''confirmee''
      | CANCELLED \<Rightarrow> ''annulee'' | COMPLETED \<Rightarrow> ''terminee'')"

record roster_member =
  rm_userId :: uid
  rm_fullName :: string
  rm_phone :: "string option"
  rm_email :: "string option"
  rm_bookingId :: "uid option"
  rm_bookingStatus :: "booking_status option"
  rm_emergencyContact :: "emergency_contact option"
  rm_specialNeeds :: "special_needs_shape option"

record roster =
  ro_groupId :: uid
  ro_groupTitle :: string
  ro_generatedAt :: time
  ro_members :: "roster_member list"

text \<open>\<open>new Map(reservations.map(...))\<close>: the last reservation of a pilgrim wins.\<close>

definition roster_row ::
  "special_needs list \<Rightarrow> booking list \<Rightarrow> user \<Rightarrow> roster_member" where
  "roster_row needs reservations membre =
     (let reservation = List.find (\<lambda>r. b_pilgrimId r = u_id membre) (rev reservations)
      in \<lparr>rm_userId = u_id membre, rm_fullName = u_fullName membre, rm_phone = u_phone membre,
          rm_email = u_email membre, rm_bookingId = map_option b_id reservation,
          rm_bookingStatus = map_option b_status reservation,
          rm_emergencyContact =
            (if truthy (u_emergencyFullName membre) \<and> truthy (u_emergencyPhone membre)
             then Some \<lparr>ec_fullName = or_else (u_emergencyFullName membre) [],
               ec_phone = or_else (u_emergencyPhone membre) [],
               ec_relationship = u_emergencyRelationship membre\<rparr>
             else None),
          rm_specialNeeds = map_option to_special_needs_shape
            (List.find (\<lambda>n. sn_userId n = u_id membre) needs)\<rparr>)"

definition assert_can_read_roster :: "uid \<Rightarrow> role \<Rightarrow> group_shape \<Rightarrow> (db, unit) act" where
  "assert_can_read_roster requesterId requesterRole g =
     (if requesterRole = GUIDE \<and> gs_guideId g = Some requesterId then ret ()
      else
        bind (if requesterRole = AGENCY
              then bind (find_by_owner_or_fail requesterId) (\<lambda>agency.
                ret (as_id agency = gs_agencyId g))
              else ret False) (\<lambda>own.
        require own (Forbidden ''La liste du groupe est reservee a l'agence et au guide du groupe'')))"

definition get_roster ::
  "(string \<Rightarrow> 'k::linorder) \<Rightarrow> time \<Rightarrow> uid \<Rightarrow> role \<Rightarrow> uid \<Rightarrow> (db, roster) act" where
  "get_roster collation now requesterId requesterRole groupId =
     bind (find_group_or_fail groupId) (\<lambda>g.
     bind (assert_can_read_roster requesterId requesterRole g) (\<lambda>_.
     bind (find_many db_users (\<lambda>u. u_id u \<in> set (gs_memberIds g))) (\<lambda>membres.
     bind (find_many db_bookings (\<lambda>b. b_groupId b = Some (gs_id g))) (\<lambda>reservations.
     query (\<lambda>s. \<lparr>ro_groupId = gs_id g, ro_groupTitle = gs_title g, ro_generatedAt = now,
       ro_members = sort_key (\<lambda>m. collation (rm_fullName m))
         (map (roster_row (db_specialNeeds s) reservations) membres)\<rparr>)))))"

definition roster_header :: "string list" where
  "roster_header =
     [''nom'', ''telephone'', ''email'', ''reservation'', ''statut_reservation'',
      ''contact_urgence'', ''telephone_contact_urgence'', ''lien_contact_urgence'', ''mobilite'',
      ''regime_alimentaire'', ''information_medicale'', ''accompagnement'']"

definition roster_cells :: "roster_member \<Rightarrow> string option list" where
  "roster_cells m =
     [Some (rm_fullName m), rm_phone m, rm_email m, map_option show_nat (rm_bookingId m),
      map_option libelle_statut (rm_bookingStatus m),
      map_option ec_fullName (rm_emergencyContact m), map_option ec_phone (rm_emergencyContact m),
      Option.bind (rm_emergencyContact m) ec_relationship,
      Option.bind (rm_specialNeeds m) (\<lambda>n. libelle_mobilite (ss_mobility n)),
      Option.bind (rm_specialNeeds m) ss_dietary, Option.bind (rm_specialNeeds m) ss_medical,
      Option.bind (rm_specialNeeds m) ss_assistance]"

definition bom_utf8 :: string where
  "bom_utf8 = [CHR 0xEF, CHR 0xBB, CHR 0xBF]"

definition roster_csv :: "roster_member list \<Rightarrow> string" where
  "roster_csv members =
     bom_utf8 @ join [CHR 0x0A]
       (join '','' roster_header #
        map (\<lambda>m. join '','' (map cellule_csv (roster_cells m))) members)"

definition get_roster_csv ::
  "(string \<Rightarrow> 'k::linorder) \<Rightarrow> time \<Rightarrow> uid \<Rightarrow> role \<Rightarrow> uid \<Rightarrow> (db, string) act" where
  "get_roster_csv collation now requesterId requesterRole groupId =
     bind (get_roster collation now requesterId requesterRole groupId) (\<lambda>liste.
     ret (roster_csv (ro_members liste)))"

section \<open>Lemmas\<close>

lemma to_group_shape_simps [simp]:
  "gs_id (to_group_shape us g) = g_id g" "gs_packageId (to_group_shape us g) = g_packageId g"
  "gs_agencyId (to_group_shape us g) = g_agencyId g" "gs_guideId (to_group_shape us g) = g_guideId g"
  "gs_memberIds (to_group_shape us g) = g_members g" "gs_title (to_group_shape us g) = g_title g"
  by (simp_all add: to_group_shape_def)

lemma reads_groups [reads_intro]:
  "reads_only (shape_group g)" "reads_only (list_groups p)" "reads_only (find_group_or_fail i)"
  "reads_only (list_groups_by_agency i)" "reads_only (list_groups_for_guide i)"
  "reads_only (list_groups_for_pilgrim i)" "reads_only (find_group_authorized i r j)"
  "reads_only (assert_group_ownership i gs)" "reads_only (assert_guide_available i gs)"
  "reads_only (assert_can_read_roster i r gs)" "reads_only (get_roster col now i r j)"
  "reads_only (get_roster_csv col now i r j)"
  unfolding shape_group_def list_groups_def find_group_or_fail_def list_groups_by_agency_def
    list_groups_for_guide_def list_groups_for_pilgrim_def find_group_authorized_def
    assert_group_ownership_def assert_guide_available_def assert_can_read_roster_def
    get_roster_def get_roster_csv_def
  by (intro reads_intro)+

lemmas keeps_groups_read [keeps_intro] = reads_groups [THEN keeps_reads]

lemma shape_group_run [simp]: "shape_group g s = (Inr (to_group_shape (db_users s) g), s)"
  by (simp add: shape_group_def)

lemma find_group_or_fail_run:
  "find_group_or_fail i s =
     (case List.find (\<lambda>g. g_id g = i) (db_groups s) of
        None \<Rightarrow> (Inl (NotFound ''Groupe introuvable''), s)
      | Some g \<Rightarrow> (Inr (to_group_shape (db_users s) g), s))"
  by (simp add: find_group_or_fail_def bind_def split: option.split)

lemma find_group_or_fail_ok [ok_iff]:
  "find_group_or_fail i s = (Inr v, t) \<longleftrightarrow>
     t = s \<and> (\<exists>g. List.find (\<lambda>g. g_id g = i) (db_groups s) = Some g \<and>
       v = to_group_shape (db_users s) g)"
  by (auto simp: find_group_or_fail_run split: option.splits)

lemma update_group_row_ok [ok_iff]:
  "update_group_row i f s = (Inr v, t) \<longleftrightarrow>
     (\<exists>g. List.find (\<lambda>g. g_id g = i) (db_groups s) = Some g \<and>
       v = to_group_shape (db_users s) (f g) \<and>
       t = db_groups_update (map (\<lambda>x. if g_id x = i then f x else x)) s)"
  by (auto simp: update_group_row_def bind_ok update_row_ok)

lemma update_group_row_keeps [keeps_intro]:
  assumes "\<And>s. I s \<Longrightarrow> I (db_groups_update (map (\<lambda>x. if g_id x = i then f x else x)) s)"
  shows "keeps I (update_group_row i f)"
  unfolding update_group_row_def by (intro keeps_intro assms)

lemma assert_group_ownership_ok [ok_iff]:
  "assert_group_ownership ownerId g s = (Inr v, t) \<longleftrightarrow>
     t = s \<and> (\<exists>a. List.find (\<lambda>a. a_ownerId a = ownerId) (db_agencies s) = Some a \<and>
       gs_agencyId g = a_id a)"
  by (auto simp: assert_group_ownership_def bind_ok find_by_owner_or_fail_ok require_ok)

lemma assert_guide_available_ok:
  assumes "assert_guide_available guideId g s = (Inr v, t)"
    and "List.find (\<lambda>p. p_id p = gs_packageId g) (db_packages s) = Some forfait"
  shows "t = s" and "\<forall>h \<in> set (db_groups s). \<not> other_group_busy (db_packages s) guideId (gs_id g) forfait h"
    and "\<forall>a \<in> set (db_unavailabilities s). \<not> absence_busy guideId forfait a"
proof -
  show "t = s" using reads_groups(9) assms(1) by (rule reads_onlyD)
  show "\<forall>h \<in> set (db_groups s). \<not> other_group_busy (db_packages s) guideId (gs_id g) forfait h"
    "\<forall>a \<in> set (db_unavailabilities s). \<not> absence_busy guideId forfait a"
    using assms
    by (auto simp: assert_guide_available_def bind_ok find_first_ok query_ok require_ok
        find_None_iff split: option.splits if_splits)
qed

lemma emergency_sms_keeps [keeps_intro]: "ignores_messages I \<Longrightarrow> keeps I (emergency_sms p c)"
  unfolding emergency_sms_def by (intro keeps_intro)

lemma trigger_sos_keeps [keeps_intro]: "ignores_messages I \<Longrightarrow> keeps I (trigger_sos now i j)"
  unfolding trigger_sos_def by (intro keeps_intro)

lemma upsert_location_find:
  "List.find (\<lambda>l. gl_userId l = u) (upsert_location now u lat lng ls) =
     Some \<lparr>gl_userId = u, gl_lat = lat, gl_lng = lng, gl_updatedAt = now\<rparr>"
  by (induction ls) (auto simp: upsert_location_def Let_def split: if_splits)

lemma find_location_map_other:
  "v \<noteq> gl_userId l \<Longrightarrow>
     List.find (\<lambda>x. gl_userId x = v) (map (\<lambda>x. if gl_userId x = gl_userId l then l else x) ls) =
     List.find (\<lambda>x. gl_userId x = v) ls"
  by (induction ls) auto

lemma upsert_location_other:
  "v \<noteq> u \<Longrightarrow> List.find (\<lambda>l. gl_userId l = v) (upsert_location now u lat lng ls) =
     List.find (\<lambda>l. gl_userId l = v) ls"
  using find_location_map_other [of v "\<lparr>gl_userId = u, gl_lat = lat, gl_lng = lng, gl_updatedAt = now\<rparr>" ls]
  by (auto simp: upsert_location_def Let_def find_append split: option.split)

lemma roster_cells_row: "roster_cells m \<noteq> []"
  by (simp add: roster_cells_def)

lemma cellule_plain:
  assumes "\<not> formula_start h" and "CHR 0x22 \<notin> set h"
  shows "cellule_csv (Some h) = [CHR 0x22] @ h @ [CHR 0x22]"
proof -
  have "double_quotes h = h" using assms(2) by (induction h) (auto simp: double_quotes_def)
  then show ?thesis using assms(1) by (simp add: cellule_csv_def neutralise_def)
qed

section \<open>Properties\<close>

definition sample_guide :: user where
  "sample_guide = sample_owner\<lparr>u_id := 4, u_fullName := ''Guide'', u_email := None,
     u_phone := Some ''+224'', u_role := GUIDE, u_agencyId := Some 2\<rparr>"

definition sample_pilgrim :: user where
  "sample_pilgrim = sample_owner\<lparr>u_id := 5, u_fullName := ''Pelerin'', u_email := None,
     u_role := PILGRIM, u_emergencyFullName := Some ''Famille'', u_emergencyPhone := Some ''+1''\<rparr>"

definition sample_group :: group where
  "sample_group = \<lparr>g_id = 6, g_packageId = 3, g_agencyId = 2, g_title = ''G'',
     g_guideId = Some 4, g_members = [5], g_itinerary = [], g_locations = []\<rparr>"

definition sample_group_db :: db where
  "sample_group_db = sample_db\<lparr>db_users := [sample_owner, sample_guide, sample_pilgrim],
     db_groups := [sample_group]\<rparr>"

lemmas sample_group_defs = sample_group_db_def sample_guide_def sample_pilgrim_def
  sample_group_def sample_defs

text \<open>
  A guide that is assigned is a guide of the agency that owns the group, leads no other
  group whose package overlaps this one's dates, and has no declared absence on them; only
  the guide of this group changes.
\<close>
theorem assign_guide_no_double_booking:
  assumes "assign_guide ownerId groupId guideId s = (Inr v, t)"
    and "List.find (\<lambda>g. g_id g = groupId) (db_groups s) = Some g"
    and "List.find (\<lambda>p. p_id p = g_packageId g) (db_packages s) = Some forfait"
  shows "gs_guideId v = Some guideId \<and>
    (\<exists>u. List.find (\<lambda>u. u_id u = guideId) (db_users s) = Some u \<and>
      u_role u = GUIDE \<and> u_agencyId u = Some (g_agencyId g)) \<and>
    (\<forall>h \<in> set (db_groups s). \<not> other_group_busy (db_packages s) guideId groupId forfait h) \<and>
    (\<forall>a \<in> set (db_unavailabilities s). \<not> absence_busy guideId forfait a) \<and>
    t = db_groups_update (map (\<lambda>x. if g_id x = groupId then x\<lparr>g_guideId := Some guideId\<rparr> else x)) s"
proof -
  have gid: "g_id g = groupId" using assms(2) by (auto dest: find_Some_set)
  obtain u where u: "List.find (\<lambda>u. u_id u = guideId) (db_users s) = Some u" "u_role u = GUIDE"
      "u_agencyId u = Some (g_agencyId g)"
    and avail: "assert_guide_available (u_id u) (to_group_shape (db_users s) g) s = (Inr (), s)"
    and upd: "update_group_row groupId (\<lambda>x. x\<lparr>g_guideId := Some (u_id u)\<rparr>) s = (Inr v, t)"
    using assms(1,2) gid reads_onlyD [OF reads_groups(9)]
    by (fastforce simp: assign_guide_def bind_ok find_group_or_fail_ok assert_group_ownership_ok
        find_user_by_id_or_fail_ok to_user_shape_def split: if_splits)
  have ug: "u_id u = guideId" using u(1) by (auto dest: find_Some_set)
  have "gs_guideId v = Some guideId"
    "t = db_groups_update (map (\<lambda>x. if g_id x = groupId then x\<lparr>g_guideId := Some guideId\<rparr> else x)) s"
    using upd ug by (auto simp: update_group_row_ok)
  moreover have "\<forall>h \<in> set (db_groups s). \<not> other_group_busy (db_packages s) guideId groupId forfait h"
    "\<forall>a \<in> set (db_unavailabilities s). \<not> absence_busy guideId forfait a"
    using assert_guide_available_ok(2,3) [OF avail] assms(3) ug gid by simp_all
  ultimately show ?thesis using u by blast
qed

text \<open>
  C21: the CSV roster, read back by an RFC 4180 reader, has the header and one record of
  twelve cells per member, in the order of the roster, whatever the pilgrims typed; and no
  cell starts a spreadsheet formula.
\<close>
theorem roster_csv_reads_back:
  assumes "members \<noteq> []"
  shows "\<exists>body. roster_csv members = bom_utf8 @ join '','' roster_header @ [CHR 0x0A] @ body \<and>
    csv_parse (CHR '','') body = Some (map (\<lambda>m. map csv_value (roster_cells m)) members) \<and>
    (\<forall>m \<in> set members. length (roster_cells m) = length roster_header \<and>
      (\<forall>c \<in> set (roster_cells m). \<not> formula_start (csv_value c)))"
proof -
  let ?body = "join [CHR 0x0A] (map (\<lambda>r. join [CHR '',''] (map cellule_csv r)) (map roster_cells members))"
  have "csv_parse (CHR '','') ?body = Some (map (map csv_value) (map roster_cells members))"
    by (rule csv_parse_document) (use assms roster_cells_row in \<open>auto simp: eq_commute [of "[]"]\<close>)
  moreover have "roster_csv members = bom_utf8 @ join '','' roster_header @ [CHR 0x0A] @ ?body"
    using assms by (cases members) (simp_all add: roster_csv_def comp_def)
  ultimately show ?thesis
    by (auto simp: csv_value_no_formula comp_def roster_cells_def roster_header_def)
qed

theorem roster_csv_reads_back_witness:
  "\<exists>body. csv_parse (CHR '','') body =
     Some [map csv_value (roster_cells (roster_row [] [] (sample_pilgrim\<lparr>u_fullName := ''=1,2''\<rparr>)))]"
  using roster_csv_reads_back [of "[roster_row [] [] (sample_pilgrim\<lparr>u_fullName := ''=1,2''\<rparr>)]"]
  by auto

text \<open>
  An SOS of a member reaches both: the guide gets one critical notification, by text
  message too when the phone is known, and then the emergency contact gets a text message;
  nothing else is stored.
\<close>
theorem trigger_sos_reaches_guide_and_family:
  assumes "List.find (\<lambda>g. g_id g = groupId) (db_groups s) = Some g"
    and "pilgrimId \<in> set (g_members g)" and "g_guideId g = Some guideId"
    and "List.find (\<lambda>u. u_id u = pilgrimId) (db_users s) = Some u"
    and "u_emergencyPhone u = Some phone" and "phone \<noteq> []"
  shows "\<exists>t n texte. trigger_sos now pilgrimId groupId s = (Inr (), t) \<and> only_messages s t \<and>
      db_notifications t = db_notifications s @ [n] \<and> n_recipientId n = guideId \<and>
      n_isCritical n \<and> n_type n = NT_SOS \<and>
      (\<exists>guide_sms. db_sms t = db_sms s @ guide_sms @ [(phone, texte)] \<and>
        (\<forall>p \<in> set guide_sms. \<exists>v. List.find (\<lambda>x. u_id x = guideId) (db_users s) = Some v \<and>
           u_phone v = Some (fst p)))"
proof -
  define input where "input = \<lparr>si_recipientIds = [guideId], si_type = NT_SOS,
     si_title = ''Alerte SOS'',
     si_content = u_fullName u @ '' a declenche une alerte SOS dans le groupe '' @
       [CHR 0x22] @ g_title g @ [CHR 0x22] @ ''.'',
     si_isCritical = True\<rparr>"
  define texte where "texte = ''Alerte SOS : '' @ u_fullName u @
     '' a declenche une alerte d'urgence pendant son voyage.''"
  define t where "t = s\<lparr>db_next := db_next s + 1,
     db_notifications := db_notifications s @ [notification_row now input guideId (db_next s)],
     db_push := db_push s @ [(guideId, si_title input, si_content input)],
     db_sms := db_sms s @ sms_for s input guideId @ [(phone, texte)]\<rparr>"
  have "trigger_sos now pilgrimId groupId s = (Inr (), t)"
    using assms
    by (simp add: trigger_sos_def find_group_or_fail_run find_user_by_id_or_fail_run send_run
        to_user_shape_def emergency_sms_def send_raw_sms_def sms_send_def input_def texte_def
        t_def Let_def)
  moreover have "only_messages s t" by (cases s) (simp add: t_def only_messages_def)
  moreover have "\<forall>p \<in> set (sms_for s input guideId).
      \<exists>v. List.find (\<lambda>x. u_id x = guideId) (db_users s) = Some v \<and> u_phone v = Some (fst p)"
    by (cases "List.find (\<lambda>x. u_id x = guideId) (db_users s)") (auto simp: sms_for_def split: option.splits)
  ultimately show ?thesis
    by (intro exI [of _ t] exI [of _ "notification_row now input guideId (db_next s)"]
        exI [of _ texte]) (auto simp: t_def notification_row_def input_def)
qed

theorem trigger_sos_reaches_guide_and_family_witness:
  "\<exists>t n texte. trigger_sos 7 5 6 sample_group_db = (Inr (), t) \<and> only_messages sample_group_db t \<and>
      db_notifications t = db_notifications sample_group_db @ [n] \<and> n_recipientId n = 4 \<and>
      n_isCritical n \<and> n_type n = NT_SOS \<and>
      (\<exists>guide_sms. db_sms t = db_sms sample_group_db @ guide_sms @ [(''+1'', texte)] \<and>
        (\<forall>p \<in> set guide_sms. \<exists>v. List.find (\<lambda>x. u_id x = 4) (db_users sample_group_db) = Some v \<and>
           u_phone v = Some (fst p)))"
  by (rule trigger_sos_reaches_guide_and_family
      [where g = sample_group and u = sample_pilgrim]) (simp_all add: sample_group_defs)

theorem assign_guide_no_double_booking_witness:
  "\<exists>v t. assign_guide 1 6 4 (sample_group_db\<lparr>db_groups := [sample_group\<lparr>g_guideId := None\<rparr>]\<rparr>) = (Inr v, t) \<and>
     gs_guideId v = Some 4"
proof -
  let ?s = "sample_group_db\<lparr>db_groups := [sample_group\<lparr>g_guideId := None\<rparr>]\<rparr>"
  have run: "assign_guide 1 6 4 ?s =
    (Inr (to_group_shape [sample_owner, sample_guide, sample_pilgrim] sample_group), sample_group_db)"
    by (simp add: assign_guide_def find_group_or_fail_run assert_group_ownership_def
        find_by_owner_or_fail_run find_user_by_id_or_fail_run assert_guide_available_def
        update_group_row_def update_row_def sample_group_defs to_user_shape_def
        other_group_busy_def bind_def)
  have "List.find (\<lambda>g. g_id g = 6) (db_groups ?s) = Some (sample_group\<lparr>g_guideId := None\<rparr>)"
    "List.find (\<lambda>p. p_id p = g_packageId (sample_group\<lparr>g_guideId := None\<rparr>)) (db_packages ?s) =
      Some sample_package"
    by (simp_all add: sample_group_defs)
  from assign_guide_no_double_booking [OF run this] run show ?thesis by blast
qed

end
