(* ===== verification/Checklists.thy ===== *)
theory Checklists
  imports TravelGroups
begin

text \<open>
  \<open>src/src/modules/checklist\<close>: the preparation checklist generated when a booking is
  confirmed, its items ticked by the pilgrim, and the daily job that reminds of the items
  that are due.
\<close>

section \<open>Operations\<close>

text \<open>\<open>orderBy: { reminderDate: 'asc' }\<close>: PostgreSQL puts absent dates last.\<close>

definition by_reminder :: "checklist_item list \<Rightarrow> checklist_item list" where
  "by_reminder items =
     sort_key (\<lambda>c. or_else (ci_reminderDate c) 0) (filter (\<lambda>c. ci_reminderDate c \<noteq> None) items) @
     filter (\<lambda>c. ci_reminderDate c = None) items"

definition find_checklist_by_booking :: "uid \<Rightarrow> uid \<Rightarrow> (db, checklist_item list) act" where
  "find_checklist_by_booking pilgrimId bookingId =
     bind (find_first db_bookings (\<lambda>b. b_id b = bookingId)) (\<lambda>found.
     bind (or_fail (NotFound ''Reservation introuvable'') found) (\<lambda>booking.
     bind (require (b_pilgrimId booking = pilgrimId)
       (Forbidden ''Acces refuse a cette checklist'')) (\<lambda>_.
     bind (find_many db_checklistItems (\<lambda>c. ci_bookingId c = bookingId)) (\<lambda>items.
     ret (by_reminder items)))))"

definition update_checklist_status :: "uid \<Rightarrow> uid \<Rightarrow> bool \<Rightarrow> (db, checklist_item) act" where
  "update_checklist_status pilgrimId i isCompleted =
     bind (find_first db_checklistItems (\<lambda>c. ci_id c = i)) (\<lambda>found.
     bind (or_fail (NotFound ''Element de checklist introuvable'') found) (\<lambda>item.
     bind (related db_bookings (\<lambda>b. b_id b = ci_bookingId item)) (\<lambda>booking.
     bind (require (b_pilgrimId booking = pilgrimId)
       (Forbidden ''Vous ne pouvez pas modifier cet element'')) (\<lambda>_.
     update_row db_checklistItems db_checklistItems_update (\<lambda>c. ci_id c = i)
       (\<lambda>c. c\<lparr>ci_isCompleted := isCompleted\<rparr>)))))"

definition departure_date :: "time \<Rightarrow> package \<Rightarrow> time" where
  "departure_date now pkg =
     (case sort_key st_startDate (p_stages pkg) of
        [] \<Rightarrow> set_month now (get_month now + 2)
      | st # _ \<Rightarrow> st_startDate st)"

definition checklist_row :: "uid \<Rightarrow> string \<Rightarrow> string \<Rightarrow> time \<Rightarrow> uid \<Rightarrow> checklist_item" where
  "checklist_row bookingId title category reminderDate i =
     \<lparr>ci_id = i, ci_bookingId = bookingId, ci_title = title, ci_category = category,
      ci_isCompleted = False, ci_reminderDate = Some reminderDate, ci_reminderSent = False\<rparr>"

definition standard_items :: "uid \<Rightarrow> time \<Rightarrow> (uid \<Rightarrow> checklist_item) list" where
  "standard_items bookingId departure =
     (let mMinus30 = set_date departure (get_date departure - 30);
          mMinus15 = set_date departure (get_date departure - 15);
          mMinus7 = set_date departure (get_date departure - 7)
      in [checklist_row bookingId ''Verifier la validite du passeport (6 mois min)'' ''document'' mMinus30,
          checklist_row bookingId ''Effectuer le vaccin contre la meningite'' ''vaccine'' mMinus15,
          checklist_row bookingId ''Preparer la valise'' ''luggage'' mMinus7,
          checklist_row bookingId ''Faire ses adieux et prieres (salat al-safar)'' ''spiritual'' departure])"

definition generate_standard_checklist :: "time \<Rightarrow> uid \<Rightarrow> (db, unit) act" where
  "generate_standard_checklist now bookingId =
     bind (find_first db_bookings (\<lambda>b. b_id b = bookingId)) (\<lambda>found.
     case found of
       None \<Rightarrow> ret ()
     | Some booking \<Rightarrow>
         bind (related db_packages (\<lambda>p. p_id p = b_packageId booking)) (\<lambda>pkg.
         bind (create_rows db_checklistItems_update
           (standard_items bookingId (departure_date now pkg))) (\<lambda>_.
         ret ())))"

definition reminder_due :: "time \<Rightarrow> checklist_item \<Rightarrow> bool" where
  "reminder_due now c \<longleftrightarrow>
     \<not> ci_isCompleted c \<and> \<not> ci_reminderSent c \<and>
     (case ci_reminderDate c of None \<Rightarrow> False | Some d \<Rightarrow> d \<le> now)"

definition reminder_message :: "uid \<Rightarrow> checklist_item \<Rightarrow> send_input" where
  "reminder_message pilgrimId item =
     \<lparr>si_recipientIds = [pilgrimId], si_type = NT_DOCUMENT,
      si_title = ''Preparation : '' @ ci_category item,
      si_content = ''N'oubliez pas : '' @ ci_title item @
        ''. Cochez-le dans votre espace des que c'est fait !'',
      si_isCritical = False\<rparr>"

definition mark_reminded :: "uid \<Rightarrow> (db, checklist_item) act" where
  "mark_reminded i =
     update_row db_checklistItems db_checklistItems_update (\<lambda>c. ci_id c = i)
       (\<lambda>c. c\<lparr>ci_reminderSent := True\<rparr>)"

text \<open>The items are read once, with their booking; each is then handled in a \<open>try\<close>.\<close>

definition remind_one :: "time \<Rightarrow> checklist_item \<times> booking \<Rightarrow> (db, unit) act" where
  "remind_one now ib =
     catch (bind (send now (reminder_message (b_pilgrimId (snd ib)) (fst ib))) (\<lambda>_.
            bind (mark_reminded (ci_id (fst ib))) (\<lambda>_. ret ())))
       (\<lambda>_. ret ())"

definition due_items :: "time \<Rightarrow> db \<Rightarrow> (checklist_item \<times> booking) list" where
  "due_items now s =
     List.map_filter
       (\<lambda>c. map_option (\<lambda>b. (c, b)) (List.find (\<lambda>b. b_id b = ci_bookingId c) (db_bookings s)))
       (filter (reminder_due now) (db_checklistItems s))"

definition remind_checklist_items :: "time \<Rightarrow> (db, unit) act" where
  "remind_checklist_items now =
     bind (query (due_items now)) (\<lambda>items. for_each items (remind_one now))"

section \<open>Lemmas\<close>

lemma reads_checklists [reads_intro]: "reads_only (find_checklist_by_booking i j)"
  unfolding find_checklist_by_booking_def by (intro reads_intro)

lemmas keeps_checklists_read [keeps_intro] = reads_checklists [THEN keeps_reads]

text \<open>What generating a checklist may change: identifiers and checklist items.\<close>

definition ignores_checklists :: "(db \<Rightarrow> bool) \<Rightarrow> bool" where
  "ignores_checklists I \<longleftrightarrow>
     (\<forall>s n f. I s \<longrightarrow> db_next s \<le> n \<longrightarrow> I (db_checklistItems_update f (s\<lparr>db_next := n\<rparr>)))"

lemma keeps_create_items:
  assumes "ignores_checklists I"
  shows "keeps I (create_rows db_checklistItems_update mks)"
  using assms
  by (intro keeps_create_rows keeps_create_row) (simp add: ignores_checklists_def)

lemma generate_standard_checklist_keeps [keeps_intro]:
  "ignores_checklists I \<Longrightarrow> keeps I (generate_standard_checklist now i)"
  unfolding generate_standard_checklist_def
  by (intro keeps_intro keeps_create_items)

lemma upt_four: "[n ..< n + 4] = [n, Suc n, Suc (Suc n), Suc (Suc (Suc n))]"
  by (simp add: upt_rec eval_nat_numeral)

lemma generate_standard_checklist_run:
  assumes "List.find (\<lambda>b. b_id b = i) (db_bookings s) = Some b"
    and "List.find (\<lambda>p. p_id p = b_packageId b) (db_packages s) = Some p"
  shows "generate_standard_checklist now i s =
    (Inr (), db_checklistItems_update (\<lambda>cs. cs @
         map2 (\<lambda>mk n. mk n) (standard_items i (departure_date now p))
           [db_next s ..< db_next s + 4]) (s\<lparr>db_next := db_next s + 4\<rparr>))"
proof -
  have four: "db_next s + 4 = Suc (Suc (Suc (Suc (db_next s))))" by simp
  show ?thesis
    unfolding upt_four four using assms
    by (simp add: generate_standard_checklist_def standard_items_def Let_def create_row_def comp_def)
qed

lemma standard_items_dates:
  "map (\<lambda>mk. ci_reminderDate (mk n)) (standard_items i d) =
     [Some (d - 30 * day_ms), Some (d - 15 * day_ms), Some (d - 7 * day_ms), Some d]"
  using set_date_shift [of d "- 30"] set_date_shift [of d "- 15"] set_date_shift [of d "- 7"]
  by (simp add: standard_items_def Let_def checklist_row_def)

lemma departure_date_first_stage:
  "st \<in> set (p_stages p) \<Longrightarrow> departure_date now p \<le> st_startDate st"
proof -
  assume st: "st \<in> set (p_stages p)"
  obtain y ys where y: "sort_key st_startDate (p_stages p) = y # ys"
    using st by (metis list.exhaust list.set(1) empty_iff set_sort)
  then show ?thesis using sort_key_hd_min [OF y st] by (simp add: departure_date_def)
qed

subsection \<open>The reminder job\<close>

lemma remind_one_run:
  "remind_one now (c, b) s =
     (Inr (), let t = snd (send now (reminder_message (b_pilgrimId b) c) s)
        in t\<lparr>db_checklistItems := map (\<lambda>x. if ci_id x = ci_id c then x\<lparr>ci_reminderSent := True\<rparr> else x)
               (db_checklistItems t)\<rparr>)"
proof -
  obtain ns t where send: "send now (reminder_message (b_pilgrimId b) c) s = (Inr ns, t)"
    using send_total by blast
  have id: "map (\<lambda>x. if ci_id x = i then f x else x) xs = xs"
    if "List.find (\<lambda>x. ci_id x = i) xs = None" for f i and xs :: "checklist_item list"
    using that by (intro map_idI) (auto simp: find_None_iff)
  show ?thesis
    by (cases "List.find (\<lambda>x. ci_id x = ci_id c) (db_checklistItems t)")
      (simp_all add: remind_one_def catch_def send mark_reminded_def update_row_def id Let_def)
qed

definition reminded :: "uid set \<Rightarrow> checklist_item \<Rightarrow> checklist_item" where
  "reminded ids c = (if ci_id c \<in> ids then c\<lparr>ci_reminderSent := True\<rparr> else c)"

lemma for_each_remind:
  "for_each items (remind_one now) s = (Inr (), t) \<Longrightarrow>
     db_checklistItems t = map (reminded (ci_id ` fst ` set items)) (db_checklistItems s) \<and>
     db_bookings t = db_bookings s \<and>
     map n_recipientId (db_notifications t) =
       map n_recipientId (db_notifications s) @ map (b_pilgrimId \<circ> snd) items"
proof (induction items arbitrary: s)
  case Nil
  then show ?case by (simp add: reminded_def)
next
  case (Cons cb items)
  obtain c b where cb: "cb = (c, b)" by (cases cb)
  let ?u = "snd (remind_one now (c, b) s)"
  have u: "db_checklistItems ?u = map (reminded {ci_id c}) (db_checklistItems s)"
    "db_bookings ?u = db_bookings s"
    "map n_recipientId (db_notifications ?u) = map n_recipientId (db_notifications s) @ [b_pilgrimId b]"
    by (simp_all add: remind_one_run Let_def send_run reminder_message_def reminded_def
        notification_row_def)
  have "for_each items (remind_one now) ?u = (Inr (), t)"
    using Cons.prems by (simp add: cb remind_one_run)
  note IH = Cons.IH [OF this]
  have "reminded A (reminded B x) = reminded (A \<union> B) x" for A B x
    by (simp add: reminded_def)
  then show ?case using IH u by (simp add: cb comp_def)
qed

lemma for_each_remind_total: "\<exists>t. for_each items (remind_one now) s = (Inr (), t)"
proof (induction items arbitrary: s)
  case (Cons cb items)
  have "\<exists>u. remind_one now cb s = (Inr (), u)" by (cases cb) (simp add: remind_one_run)
  then show ?case using Cons.IH by fastforce
qed simp

lemma due_items_set:
  "(c, b) \<in> set (due_items now s) \<longleftrightarrow>
     c \<in> set (db_checklistItems s) \<and> reminder_due now c \<and>
     List.find (\<lambda>b. b_id b = ci_bookingId c) (db_bookings s) = Some b"
  by (auto simp: due_items_def List.map_filter_def image_iff)

section \<open>Properties\<close>

definition sample_booking :: booking where
  "sample_booking = \<lparr>b_id = 7, b_pilgrimId = 5, b_packageId = 3, b_agencyId = 2,
     b_groupId = None, b_status = PENDING_PAYMENT, b_familyViewToken = None,
     b_refundPolicySnapshot = None, b_createdAt = 0,
     b_steps = map (\<lambda>k. \<lparr>s_key = k, s_status = STEP_PENDING, s_updatedAt = 0\<rparr>)
       [STEP_PAYMENT, STEP_VISA, STEP_FLIGHT, STEP_VACCINATION, STEP_DOCUMENTS]\<rparr>"

text \<open>
  Confirming a booking creates four open items, due thirty, fifteen and seven days
  before the departure and on the day; the departure is the start of the earliest stage,
  whatever the order the stages were entered in.
\<close>
theorem standard_checklist_dates:
  assumes "List.find (\<lambda>b. b_id b = i) (db_bookings s) = Some b"
    and "List.find (\<lambda>p. p_id p = b_packageId b) (db_packages s) = Some p"
    and "p_stages p \<noteq> []"
  shows "\<exists>d items. generate_standard_checklist now i s =
      (Inr (), db_checklistItems_update (\<lambda>cs. cs @ items) (s\<lparr>db_next := db_next s + 4\<rparr>)) \<and>
    (\<forall>st \<in> set (p_stages p). d \<le> st_startDate st) \<and> d \<in> st_startDate ` set (p_stages p) \<and>
    map ci_reminderDate items =
      [Some (d - 30 * day_ms), Some (d - 15 * day_ms), Some (d - 7 * day_ms), Some d] \<and>
    (\<forall>c \<in> set items. ci_bookingId c = i \<and> \<not> ci_isCompleted c \<and> \<not> ci_reminderSent c)"
proof -
  let ?d = "departure_date now p"
  let ?items = "map2 (\<lambda>mk n. mk n) (standard_items i ?d) [db_next s ..< db_next s + 4]"
  have in_stages: "?d \<in> st_startDate ` set (p_stages p)"
  proof -
    obtain y ys where y: "sort_key st_startDate (p_stages p) = y # ys"
      using assms(3) by (cases "sort_key st_startDate (p_stages p)")
        (auto dest: arg_cong [of _ _ set])
    then have "y \<in> set (sort_key st_startDate (p_stages p))" by (simp only: list.set_intros)
    then have "y \<in> set (p_stages p)" by (simp only: set_sort)
    then show ?thesis using y by (simp add: departure_date_def)
  qed
  have "map ci_reminderDate ?items =
      [Some (?d - 30 * day_ms), Some (?d - 15 * day_ms), Some (?d - 7 * day_ms), Some ?d]"
    using standard_items_dates [of undefined i ?d]
    by (simp add: upt_four standard_items_def Let_def checklist_row_def)
  moreover have "\<forall>c \<in> set ?items. ci_bookingId c = i \<and> \<not> ci_isCompleted c \<and> \<not> ci_reminderSent c"
    by (simp add: upt_four standard_items_def Let_def checklist_row_def)
  moreover have "\<forall>st \<in> set (p_stages p). ?d \<le> st_startDate st"
    using departure_date_first_stage [of _ p now] by blast
  ultimately show ?thesis
    using in_stages
    by (intro exI [of _ ?d] exI [of _ ?items] conjI generate_standard_checklist_run [OF assms(1,2)])
qed

theorem standard_checklist_dates_witness:
  "\<exists>d items. generate_standard_checklist 0 7
        (sample_db\<lparr>db_packages := [sample_package\<lparr>p_stages := [\<lparr>st_id = 8, st_city = [],
           st_hotelName = [], st_distanceToMosqueMeters = None, st_startDate = 50 * day_ms,
           st_endDate = 60 * day_ms\<rparr>]\<rparr>],
         db_bookings := [sample_booking]\<rparr>) =
      (Inr (), db_checklistItems_update (\<lambda>cs. cs @ items)
        (sample_db\<lparr>db_packages := [sample_package\<lparr>p_stages := [\<lparr>st_id = 8, st_city = [],
           st_hotelName = [], st_distanceToMosqueMeters = None, st_startDate = 50 * day_ms,
           st_endDate = 60 * day_ms\<rparr>]\<rparr>],
         db_bookings := [sample_booking], db_next := 14\<rparr>)) \<and>
      map ci_reminderDate items = [Some (20 * day_ms), Some (35 * day_ms), Some (43 * day_ms), Some (50 * day_ms)]"
  (is "\<exists>d items. generate_standard_checklist 0 7 ?s = _ \<and> _")
proof -
  let ?p = "sample_package\<lparr>p_stages := [\<lparr>st_id = 8, st_city = [],
     st_hotelName = [], st_distanceToMosqueMeters = None, st_startDate = 50 * day_ms,
     st_endDate = 60 * day_ms\<rparr>]\<rparr>"
  have b: "List.find (\<lambda>b. b_id b = 7) (db_bookings ?s) = Some sample_booking"
    and p: "List.find (\<lambda>p. p_id p = b_packageId sample_booking) (db_packages ?s) = Some ?p"
    and st: "p_stages ?p \<noteq> []"
    by (simp_all add: sample_booking_def sample_defs)
  show ?thesis
    using standard_checklist_dates [OF b p st, of 0]
    by (auto simp: sample_defs)
qed

text \<open>
  The reminder job sends one notification per due item, to the pilgrim of its booking,
  and marks exactly these items; run again at the same time it sends nothing and changes
  nothing.
\<close>
theorem reminders_sent_once:
  assumes "remind_checklist_items now s = (r, t)"
  shows "r = Inr () \<and>
    map n_recipientId (db_notifications t) =
      map n_recipientId (db_notifications s) @ map (b_pilgrimId \<circ> snd) (due_items now s) \<and>
    db_checklistItems t = map (reminded (ci_id ` fst ` set (due_items now s))) (db_checklistItems s) \<and>
    remind_checklist_items now t = (Inr (), t)"
proof -
  obtain t' where run: "for_each (due_items now s) (remind_one now) s = (Inr (), t')"
    using for_each_remind_total by blast
  then have t: "r = Inr ()" "t' = t" using assms by (simp_all add: remind_checklist_items_def)
  note eff = for_each_remind [OF run, unfolded t(2)]
  have "due_items now t = []"
  proof (rule ccontr)
    assume "due_items now t \<noteq> []"
    then obtain c b where "(c, b) \<in> set (due_items now t)" by (cases "due_items now t") auto
    then have c: "c \<in> set (db_checklistItems t)" "reminder_due now c"
        "List.find (\<lambda>b. b_id b = ci_bookingId c) (db_bookings s) = Some b"
      using eff by (auto simp: due_items_set)
    then obtain c' where c': "c' \<in> set (db_checklistItems s)"
        "c = reminded (ci_id ` fst ` set (due_items now s)) c'" using eff by auto
    then have "ci_id c' \<notin> ci_id ` fst ` set (due_items now s)" and "c = c'"
      using c(2) by (auto simp: reminded_def reminder_due_def split: if_splits)
    then show False using c c'(1) due_items_set [of c b now s] by force
  qed
  then have "remind_checklist_items now t = (Inr (), t)"
    by (simp add: remind_checklist_items_def)
  then show ?thesis using eff t by simp
qed

theorem reminders_sent_once_witness:
  "remind_checklist_items 9 (snd (remind_checklist_items 9 sample_db)) =
     (Inr (), snd (remind_checklist_items 9 sample_db))"
  using reminders_sent_once [of 9 sample_db "fst (remind_checklist_items 9 sample_db)"
      "snd (remind_checklist_items 9 sample_db)"] by simp

end
