(* ===== verification/Bookings.thy ===== *)
theory Bookings
  imports Checklists
begin

text \<open>
  \<open>src/src/modules/bookings/bookings.service.ts\<close>: the dossier of a pilgrim on a package. A
  booking takes a seat, freezes the refund scale, and goes through five steps; it is
  confirmed when all are done, which notifies the pilgrim and the emergency contact and
  generates the checklist.  The 24 random bytes of a family link, in hexadecimal, are an
  argument.
\<close>

section \<open>Shapes\<close>

record booking_shape =
  bs_id :: uid
  bs_pilgrimId :: uid
  bs_packageId :: uid
  bs_agencyId :: uid
  bs_groupId :: "uid option"
  bs_status :: booking_status
  bs_steps :: "booking_step list"

definition to_booking_shape :: "booking \<Rightarrow> booking_shape" where
  "to_booking_shape b =
     \<lparr>bs_id = b_id b, bs_pilgrimId = b_pilgrimId b, bs_packageId = b_packageId b,
      bs_agencyId = b_agencyId b, bs_groupId = b_groupId b, bs_status = b_status b,
      bs_steps = b_steps b\<rparr>"

record family_view_link =
  fl_token :: string
  fl_viewUrl :: string

definition to_family_view_link_shape :: "string \<Rightarrow> family_view_link" where
  "to_family_view_link_shape token =
     \<lparr>fl_token = token, fl_viewUrl = ''/api/v1/family-view/'' @ token\<rparr>"

record family_view =
  fv_pilgrimFullName :: string
  fv_packageTitle :: string
  fv_status :: booking_status
  fv_steps :: "booking_step list"
  fv_location :: "(rat \<times> rat \<times> time) option"
  fv_latestItineraryStep :: "itinerary_step option"

definition default_steps :: "dossier_step_key list" where
  "default_steps = [STEP_PAYMENT, STEP_VISA, STEP_FLIGHT, STEP_VACCINATION, STEP_DOCUMENTS]"

definition step_label :: "dossier_step_key \<Rightarrow> string" where
  "step_label k =
     (case k of STEP_PAYMENT \<Rightarrow> ''Paiement'' | STEP_VISA \<Rightarrow> ''Visa''
      | STEP_FLIGHT \<Rightarrow> ''Billet d'avion'' | STEP_VACCINATION \<Rightarrow> ''Vaccination''
      | STEP_DOCUMENTS \<Rightarrow> ''Documents'')"

section \<open>Reading bookings\<close>

definition find_booking_or_fail :: "uid \<Rightarrow> (db, booking_shape) act" where
  "find_booking_or_fail i =
     bind (find_first db_bookings (\<lambda>b. b_id b = i)) (\<lambda>found.
     bind (or_fail (NotFound ''Reservation introuvable'') found) (\<lambda>booking.
     ret (to_booking_shape booking)))"

definition find_my_bookings :: "uid \<Rightarrow> (db, booking_shape list) act" where
  "find_my_bookings pilgrimId =
     bind (find_many db_bookings (\<lambda>b. b_pilgrimId b = pilgrimId)) (\<lambda>bs.
     ret (map to_booking_shape bs))"

definition find_bookings_by_agency :: "uid \<Rightarrow> (db, booking_shape list) act" where
  "find_bookings_by_agency ownerId =
     bind (find_by_owner_or_fail ownerId) (\<lambda>agency.
     bind (find_many db_bookings (\<lambda>b. b_agencyId b = as_id agency)) (\<lambda>bs.
     ret (map to_booking_shape bs)))"

definition count_by_agency_and_status :: "uid \<Rightarrow> (db, (booking_status \<times> nat) list) act" where
  "count_by_agency_and_status agencyId =
     query (\<lambda>s. map (\<lambda>st. (st, length (filter
       (\<lambda>b. b_agencyId b = agencyId \<and> b_status b = st) (db_bookings s)))) enum_class.enum)"

definition count_bookings_by_status :: "(db, (booking_status \<times> nat) list) act" where
  "count_bookings_by_status =
     query (\<lambda>s. map (\<lambda>st. (st, length (filter (\<lambda>b. b_status b = st) (db_bookings s))))
       enum_class.enum)"

definition find_booking_authorized :: "uid \<Rightarrow> role \<Rightarrow> uid \<Rightarrow> (db, booking_shape) act" where
  "find_booking_authorized requesterId requesterRole bookingId =
     bind (find_booking_or_fail bookingId) (\<lambda>booking.
     if requesterRole = ADMIN \<or> bs_pilgrimId booking = requesterId then ret booking
     else
       bind (if requesterRole = AGENCY
             then bind (find_by_owner_or_fail requesterId) (\<lambda>agency.
               ret (bs_agencyId booking = as_id agency))
             else ret False) (\<lambda>own.
       bind (require own (Forbidden ''Vous n'avez pas acces a cette reservation'')) (\<lambda>_.
       ret booking)))"

definition assert_booking_ownership :: "uid \<Rightarrow> booking_shape \<Rightarrow> (db, unit) act" where
  "assert_booking_ownership ownerId booking =
     bind (find_by_owner_or_fail ownerId) (\<lambda>agency.
     require (bs_agencyId booking = as_id agency)
       (Forbidden ''Cette reservation n'appartient pas a votre agence''))"

definition update_booking_row :: "uid \<Rightarrow> (booking \<Rightarrow> booking) \<Rightarrow> (db, booking_shape) act" where
  "update_booking_row i f =
     bind (update_row db_bookings db_bookings_update (\<lambda>b. b_id b = i) f) (\<lambda>b.
     ret (to_booking_shape b))"

section \<open>Creating a booking\<close>

definition new_booking ::
  "time \<Rightarrow> uid \<Rightarrow> package_shape \<Rightarrow> int tier list \<Rightarrow> uid \<Rightarrow> booking" where
  "new_booking now pilgrimId pkg paliers i =
     \<lparr>b_id = i, b_pilgrimId = pilgrimId, b_packageId = p_id pkg, b_agencyId = p_agencyId pkg,
      b_groupId = None, b_status = PENDING_PAYMENT, b_familyViewToken = None,
      b_refundPolicySnapshot = (if paliers \<noteq> [] then Some (snapshot paliers) else None),
      b_createdAt = now,
      b_steps = map (\<lambda>k. \<lparr>s_key = k, s_status = STEP_PENDING, s_updatedAt = now\<rparr>)
        default_steps\<rparr>"

definition create_booking :: "time \<Rightarrow> uid \<Rightarrow> uid \<Rightarrow> (db, booking_shape) act" where
  "create_booking now pilgrimId packageId =
     bind (find_package_or_fail packageId) (\<lambda>pkg.
     bind (get_for_agency (p_agencyId pkg)) (\<lambda>paliers.
     bind (reserve_seat packageId) (\<lambda>_.
     bind (create_row db_bookings_update (new_booking now pilgrimId pkg paliers)) (\<lambda>booking.
     ret (to_booking_shape booking)))))"

section \<open>Steps and confirmation\<close>

definition notify_pilgrim_and_family ::
  "time \<Rightarrow> uid \<Rightarrow> string \<Rightarrow> string \<Rightarrow> bool \<Rightarrow> (db, unit) act" where
  "notify_pilgrim_and_family now pilgrimId title content isCritical =
     bind (send now \<lparr>si_recipientIds = [pilgrimId], si_type = NT_BOOKING_STATUS,
       si_title = title, si_content = content, si_isCritical = isCritical\<rparr>) (\<lambda>_.
     bind (find_user_by_id_or_fail pilgrimId) (\<lambda>pilgrim.
     emergency_sms pilgrim (us_fullName pilgrim @ '' - '' @ content)))"

definition notify_step_done :: "time \<Rightarrow> booking_shape \<Rightarrow> dossier_step_key \<Rightarrow> (db, unit) act" where
  "notify_step_done now booking key =
     notify_pilgrim_and_family now (bs_pilgrimId booking)
       (''Etape << '' @ step_label key @ '' >> validee'')
       (''L'etape << '' @ step_label key @ '' >> de votre dossier vient d'etre validee.'') False"

definition notify_confirmed :: "time \<Rightarrow> booking_shape \<Rightarrow> (db, unit) act" where
  "notify_confirmed now booking =
     notify_pilgrim_and_family now (bs_pilgrimId booking) ''Dossier confirme''
       ''Toutes les etapes de votre dossier sont validees - votre reservation est confirmee.'' True"

definition maybe_confirm :: "time \<Rightarrow> uid \<Rightarrow> (db, booking_shape) act" where
  "maybe_confirm now bookingId =
     bind (find_booking_or_fail bookingId) (\<lambda>booking.
     let allDone = list_all (\<lambda>st. s_status st = STEP_DONE) (bs_steps booking)
     in if allDone \<and> bs_status booking \<noteq> CONFIRMED then
          bind (update_booking_row bookingId (\<lambda>b. b\<lparr>b_status := CONFIRMED\<rparr>)) (\<lambda>shape.
          bind (notify_confirmed now shape) (\<lambda>_.
          bind (generate_standard_checklist now (bs_id shape)) (\<lambda>_.
          ret shape)))
        else ret booking)"

text \<open>\<open>bookingStep.update({ where: { bookingId_key }, data: { status } })\<close>.\<close>

definition set_step :: "time \<Rightarrow> dossier_step_key \<Rightarrow> dossier_step_status \<Rightarrow> booking \<Rightarrow> booking" where
  "set_step now key status b =
     b\<lparr>b_steps := map (\<lambda>st. if s_key st = key then st\<lparr>s_status := status, s_updatedAt := now\<rparr> else st)
        (b_steps b)\<rparr>"

definition update_booking_step ::
  "time \<Rightarrow> uid \<Rightarrow> dossier_step_key \<Rightarrow> dossier_step_status \<Rightarrow> (db, booking) act" where
  "update_booking_step now bookingId key status =
     update_row db_bookings db_bookings_update
       (\<lambda>b. b_id b = bookingId \<and> key \<in> s_key ` set (b_steps b)) (set_step now key status)"

definition update_step ::
  "time \<Rightarrow> uid \<Rightarrow> uid \<Rightarrow> dossier_step_key \<Rightarrow> dossier_step_status \<Rightarrow> (db, booking_shape) act" where
  "update_step now ownerId bookingId key status =
     bind (find_booking_or_fail bookingId) (\<lambda>booking.
     bind (assert_booking_ownership ownerId booking) (\<lambda>_.
     bind (catch (update_booking_step now (bs_id booking) key status)
       (\<lambda>_. throw (NotFound ''Etape de dossier introuvable''))) (\<lambda>_.
     bind (maybe_confirm now (bs_id booking)) (\<lambda>updated.
     bind (whenever (status = STEP_DONE) (notify_step_done now updated key)) (\<lambda>_.
     ret updated)))))"

definition mark_step_done :: "time \<Rightarrow> uid \<Rightarrow> dossier_step_key \<Rightarrow> (db, booking_shape) act" where
  "mark_step_done now bookingId key =
     bind (update_booking_step now bookingId key STEP_DONE) (\<lambda>_.
     bind (maybe_confirm now bookingId) (\<lambda>updated.
     bind (notify_step_done now updated key) (\<lambda>_.
     ret updated)))"

section \<open>Group, cancellation, family view\<close>

definition assign_group :: "uid \<Rightarrow> uid \<Rightarrow> uid \<Rightarrow> (db, booking_shape) act" where
  "assign_group ownerId bookingId groupId =
     bind (find_booking_or_fail bookingId) (\<lambda>booking.
     bind (assert_booking_ownership ownerId booking) (\<lambda>_.
     bind (add_member ownerId groupId (bs_pilgrimId booking)) (\<lambda>_.
     update_booking_row (bs_id booking) (\<lambda>b. b\<lparr>b_groupId := Some groupId\<rparr>))))"

definition cancel_booking :: "uid \<Rightarrow> uid \<Rightarrow> (db, booking_shape) act" where
  "cancel_booking pilgrimId bookingId =
     bind (find_booking_or_fail bookingId) (\<lambda>booking.
     bind (require (bs_pilgrimId booking = pilgrimId)
       (Forbidden ''Cette reservation ne vous appartient pas'')) (\<lambda>_.
     bind (whenever (bs_status booking \<noteq> CANCELLED)
       (bind (release_seat (bs_packageId booking)) (\<lambda>_. ret ()))) (\<lambda>_.
     update_booking_row (bs_id booking) (\<lambda>b. b\<lparr>b_status := CANCELLED\<rparr>))))"

definition regenerate_family_view_link :: "string \<Rightarrow> uid \<Rightarrow> uid \<Rightarrow> (db, family_view_link) act" where
  "regenerate_family_view_link token pilgrimId bookingId =
     bind (find_booking_or_fail bookingId) (\<lambda>booking.
     bind (require (bs_pilgrimId booking = pilgrimId)
       (Forbidden ''Cette reservation ne vous appartient pas'')) (\<lambda>_.
     bind (update_booking_row (bs_id booking) (\<lambda>b. b\<lparr>b_familyViewToken := Some token\<rparr>)) (\<lambda>_.
     ret (to_family_view_link_shape token))))"

definition get_or_create_family_view_link ::
  "string \<Rightarrow> uid \<Rightarrow> uid \<Rightarrow> (db, family_view_link) act" where
  "get_or_create_family_view_link token pilgrimId bookingId =
     bind (find_booking_or_fail bookingId) (\<lambda>booking.
     bind (require (bs_pilgrimId booking = pilgrimId)
       (Forbidden ''Cette reservation ne vous appartient pas'')) (\<lambda>_.
     bind (find_first db_bookings (\<lambda>b. b_id b = bookingId)) (\<lambda>found.
     bind (or_fail (DbError ''P2025'') found) (\<lambda>raw.
     if truthy (b_familyViewToken raw)
     then ret (to_family_view_link_shape (or_else (b_familyViewToken raw) []))
     else regenerate_family_view_link token pilgrimId bookingId))))"

definition latest_itinerary_step :: "itinerary_step list \<Rightarrow> itinerary_step option" where
  "latest_itinerary_step steps =
     (case sort_key (\<lambda>x. - it_date x) steps of [] \<Rightarrow> None | st # _ \<Rightarrow> Some st)"

definition get_family_view :: "string \<Rightarrow> (db, family_view) act" where
  "get_family_view token =
     bind (find_first db_bookings (\<lambda>b. b_familyViewToken b = Some token)) (\<lambda>found.
     bind (or_fail (NotFound ''Lien de suivi invalide'') found) (\<lambda>raw.
     let booking = to_booking_shape raw in
     bind (find_package_or_fail (bs_packageId booking)) (\<lambda>pkg.
     bind (find_user_by_id_or_fail (bs_pilgrimId booking)) (\<lambda>pilgrim.
     bind (case bs_groupId booking of
             Some g \<Rightarrow> bind (find_group_or_fail g) (\<lambda>x. ret (Some x))
           | None \<Rightarrow> ret None) (\<lambda>grp.
     ret \<lparr>fv_pilgrimFullName = us_fullName pilgrim, fv_packageTitle = p_title pkg,
          fv_status = bs_status booking, fv_steps = bs_steps booking,
          fv_location = Option.bind grp (\<lambda>g. map_option (\<lambda>l. (ls_lat l, ls_lng l, ls_updatedAt l))
            (List.find (\<lambda>l. ls_userId l = bs_pilgrimId booking) (gs_locations g))),
          fv_latestItineraryStep = Option.bind grp (\<lambda>g. latest_itinerary_step (gs_itinerary g))\<rparr>)))))"

section \<open>Lemmas\<close>

lemma to_booking_shape_simps [simp]:
  "bs_id (to_booking_shape b) = b_id b" "bs_pilgrimId (to_booking_shape b) = b_pilgrimId b"
  "bs_packageId (to_booking_shape b) = b_packageId b" "bs_agencyId (to_booking_shape b) = b_agencyId b"
  "bs_groupId (to_booking_shape b) = b_groupId b" "bs_status (to_booking_shape b) = b_status b"
  "bs_steps (to_booking_shape b) = b_steps b"
  by (simp_all add: to_booking_shape_def)

lemma reads_bookings [reads_intro]:
  "reads_only (find_booking_or_fail i)" "reads_only (find_my_bookings i)"
  "reads_only (find_bookings_by_agency i)" "reads_only (count_by_agency_and_status i)"
  "reads_only count_bookings_by_status" "reads_only (find_booking_authorized i r j)"
  "reads_only (assert_booking_ownership i bs)" "reads_only (get_family_view token)"
  unfolding find_booking_or_fail_def find_my_bookings_def find_bookings_by_agency_def
    count_by_agency_and_status_def count_bookings_by_status_def find_booking_authorized_def
    assert_booking_ownership_def get_family_view_def Let_def
  by (intro reads_intro)+

lemmas keeps_bookings_read [keeps_intro] = reads_bookings [THEN keeps_reads]

lemma find_booking_or_fail_run:
  "find_booking_or_fail i s =
     (case List.find (\<lambda>b. b_id b = i) (db_bookings s) of
        None \<Rightarrow> (Inl (NotFound ''Reservation introuvable''), s)
      | Some b \<Rightarrow> (Inr (to_booking_shape b), s))"
  by (simp add: find_booking_or_fail_def bind_def split: option.split)

lemma find_booking_or_fail_ok [ok_iff]:
  "find_booking_or_fail i s = (Inr v, t) \<longleftrightarrow>
     t = s \<and> (\<exists>b. List.find (\<lambda>b. b_id b = i) (db_bookings s) = Some b \<and> v = to_booking_shape b)"
  by (auto simp: find_booking_or_fail_run split: option.splits)

lemma assert_booking_ownership_ok [ok_iff]:
  "assert_booking_ownership ownerId b s = (Inr v, t) \<longleftrightarrow>
     t = s \<and> (\<exists>a. List.find (\<lambda>a. a_ownerId a = ownerId) (db_agencies s) = Some a \<and>
       bs_agencyId b = a_id a)"
  by (auto simp: assert_booking_ownership_def bind_ok find_by_owner_or_fail_ok require_ok)

abbreviation put_booking :: "uid \<Rightarrow> (booking \<Rightarrow> booking) \<Rightarrow> db \<Rightarrow> db" where
  "put_booking i f \<equiv> db_bookings_update (map (\<lambda>x. if b_id x = i then f x else x))"

lemma update_booking_row_run:
  assumes "List.find (\<lambda>b. b_id b = i) (db_bookings s) = Some b"
  shows "update_booking_row i f s = (Inr (to_booking_shape (f b)), put_booking i f s)"
  using assms by (simp add: update_booking_row_def update_row_def bind_def)

lemma update_booking_row_keeps [keeps_intro]:
  assumes "\<And>s. I s \<Longrightarrow> I (put_booking i f s)"
  shows "keeps I (update_booking_row i f)"
  unfolding update_booking_row_def by (intro keeps_intro assms)

lemma notify_pilgrim_and_family_keeps [keeps_intro]:
  "ignores_messages I \<Longrightarrow> keeps I (notify_pilgrim_and_family now i t c cr)"
  unfolding notify_pilgrim_and_family_def by (intro keeps_intro)

lemma notify_keeps [keeps_intro]:
  "ignores_messages I \<Longrightarrow> keeps I (notify_step_done now b k)"
  "ignores_messages I \<Longrightarrow> keeps I (notify_confirmed now b)"
  unfolding notify_step_done_def notify_confirmed_def by (intro keeps_intro, assumption)+

text \<open>Telling the pilgrim and the family only sends messages, and succeeds for a known pilgrim.\<close>

lemma emergency_sms_run:
  "\<exists>t. emergency_sms p c s = (Inr (), t) \<and> only_messages s t \<and>
     db_notifications t = db_notifications s"
proof -
  have "only_messages s (db_sms_update f s)" for f by (cases s) (simp add: only_messages_def)
  then show ?thesis
    by (cases "us_emergencyContact p")
      (auto simp: emergency_sms_def whenever_def send_raw_sms_def sms_send_def)
qed

lemma notify_run:
  assumes "List.find (\<lambda>u. u_id u = i) (db_users s) = Some u"
  shows "\<exists>t. notify_pilgrim_and_family now i title content cr s = (Inr (), t) \<and> only_messages s t \<and>
    map (\<lambda>n. (n_recipientId n, n_title n)) (db_notifications t) =
      map (\<lambda>n. (n_recipientId n, n_title n)) (db_notifications s) @ [(i, title)]"
proof -
  let ?input = "\<lparr>si_recipientIds = [i], si_type = NT_BOOKING_STATUS, si_title = title,
    si_content = content, si_isCritical = cr\<rparr>"
  obtain ns v where send: "send now ?input s = (Inr ns, v)" using send_total by blast
  then have sv: "only_messages s v" by (rule send_ok_only_messages)
  have nv: "map (\<lambda>n. (n_recipientId n, n_title n)) (db_notifications v) =
      map (\<lambda>n. (n_recipientId n, n_title n)) (db_notifications s) @ [(i, title)]"
    using send by (auto simp: send_run Let_def notification_row_def)
  obtain t where "emergency_sms (to_user_shape u) (us_fullName (to_user_shape u) @ '' - '' @ content) v =
      (Inr (), t)" "only_messages v t" "db_notifications t = db_notifications v"
    using emergency_sms_run by blast
  then show ?thesis
    using assms send sv nv only_messages_trans [OF sv]
    by (auto simp: notify_pilgrim_and_family_def find_user_by_id_or_fail_run only_messagesD(1) [OF sv])
qed

lemma notify_step_done_run:
  assumes "List.find (\<lambda>u. u_id u = bs_pilgrimId b) (db_users s) = Some u"
  shows "\<exists>t. notify_step_done now b key s = (Inr (), t) \<and> only_messages s t \<and>
    map (\<lambda>n. (n_recipientId n, n_title n)) (db_notifications t) =
      map (\<lambda>n. (n_recipientId n, n_title n)) (db_notifications s) @
      [(bs_pilgrimId b, ''Etape << '' @ step_label key @ '' >> validee'')]"
  unfolding notify_step_done_def by (rule notify_run [OF assms])

subsection \<open>Confirmation\<close>

lemma maybe_confirm_idle:
  assumes "List.find (\<lambda>b. b_id b = i) (db_bookings s) = Some b"
    and "\<not> (list_all (\<lambda>st. s_status st = STEP_DONE) (b_steps b) \<and> b_status b \<noteq> CONFIRMED)"
  shows "maybe_confirm now i s = (Inr (to_booking_shape b), s)"
  using assms by (auto simp: maybe_confirm_def find_booking_or_fail_run)

lemma maybe_confirm_transition:
  assumes b: "List.find (\<lambda>b. b_id b = i) (db_bookings s) = Some b"
    and dn: "list_all (\<lambda>st. s_status st = STEP_DONE) (b_steps b)" "b_status b \<noteq> CONFIRMED"
    and p: "List.find (\<lambda>p. p_id p = b_packageId b) (db_packages s) = Some p"
    and u: "List.find (\<lambda>u. u_id u = b_pilgrimId b) (db_users s) = Some u"
  shows "\<exists>t. maybe_confirm now i s = (Inr (to_booking_shape (b\<lparr>b_status := CONFIRMED\<rparr>)), t) \<and>
    db_bookings t = map (\<lambda>x. if b_id x = i then x\<lparr>b_status := CONFIRMED\<rparr> else x) (db_bookings s) \<and>
    db_packages t = db_packages s \<and> db_users t = db_users s \<and>
    length (db_checklistItems t) = length (db_checklistItems s) + 4 \<and>
    map (\<lambda>n. (n_recipientId n, n_title n)) (db_notifications t) =
      map (\<lambda>n. (n_recipientId n, n_title n)) (db_notifications s) @
        [(b_pilgrimId b, ''Dossier confirme'')]"
proof -
  define f :: "booking \<Rightarrow> booking" where "f = (\<lambda>b. b\<lparr>b_status := CONFIRMED\<rparr>)"
  let ?s = "put_booking i f s"
  have bi: "b_id b = i" using b by (auto dest: find_Some_set)
  have upd: "update_booking_row i f s = (Inr (to_booking_shape (f b)), ?s)"
    by (rule update_booking_row_run [OF b])
  obtain v where v: "notify_confirmed now (to_booking_shape (f b)) ?s = (Inr (), v)"
      "only_messages ?s v"
      "map (\<lambda>n. (n_recipientId n, n_title n)) (db_notifications v) =
        map (\<lambda>n. (n_recipientId n, n_title n)) (db_notifications s) @
          [(b_pilgrimId b, ''Dossier confirme'')]"
    using notify_run [of "b_pilgrimId b" ?s u now "''Dossier confirme''"
      "''Toutes les etapes de votre dossier sont validees - votre reservation est confirmee.''" True] u by (auto simp: notify_confirmed_def f_def)
  have "List.find (\<lambda>b. b_id b = i) (db_bookings v) = Some (f b)"
    using bookings.find_after_update [of f i s b] b by (simp add: only_messagesD [OF v(2)] f_def)
  moreover have "List.find (\<lambda>p. p_id p = b_packageId (f b)) (db_packages v) = Some p"
    using p by (simp add: only_messagesD [OF v(2)] f_def)
  ultimately have gen: "generate_standard_checklist now i v =
    (Inr (), db_checklistItems_update (\<lambda>cs. cs @
         map2 (\<lambda>mk n. mk n) (standard_items i (departure_date now p))
           [db_next v ..< db_next v + 4]) (v\<lparr>db_next := db_next v + 4\<rparr>))"
    by (rule generate_standard_checklist_run)
  have "maybe_confirm now i s = (Inr (to_booking_shape (f b)), snd (generate_standard_checklist now i v))"
    using b dn upd v(1) gen bi
    by (simp add: maybe_confirm_def find_booking_or_fail_run f_def [symmetric])
      (simp add: f_def)
  then show ?thesis
    using v(3) by (simp add: gen only_messagesD [OF v(2)] f_def upt_four standard_items_def Let_def)
qed

subsection \<open>The seat ledger\<close>

text \<open>
  The contract between bookings and packages: the seats taken of a package are its bookings
  that are not cancelled.
\<close>

definition active_on :: "uid \<Rightarrow> booking \<Rightarrow> bool" where
  "active_on i b \<longleftrightarrow> b_packageId b = i \<and> b_status b \<noteq> CANCELLED"

definition sold :: "db \<Rightarrow> uid \<Rightarrow> int" where
  "sold s i = int (length (filter (active_on i) (db_bookings s)))"

definition seat_ledger :: "db \<Rightarrow> bool" where
  "seat_ledger s \<longleftrightarrow>
     packages_ok s \<and> well_keyed b_id db_bookings s \<and>
     list_all (\<lambda>p. p_seatsTaken p = sold s (p_id p)) (db_packages s) \<and>
     list_all (\<lambda>b. b_packageId b \<in> p_id ` set (db_packages s)) (db_bookings s)"

lemma seat_ledgerD:
  assumes "seat_ledger s"
  shows "packages_ok s" and "distinct (map b_id (db_bookings s))"
    and "distinct (map p_id (db_packages s))"
  using assms packages_ok_distinct by (auto simp: seat_ledger_def well_keyed_def)

lemma well_keyed_update:
  assumes "well_keyed b_id db_bookings s" and "\<And>b. P b \<Longrightarrow> b_id (f b) = b_id b"
  shows "well_keyed b_id db_bookings (db_bookings_update (map (\<lambda>x. if P x then f x else x)) s)"
proof -
  have "distinct (map b_id (map (\<lambda>x. if P x then f x else x) (db_bookings s)))"
    by (rule distinct_key_update) (use assms in \<open>auto simp: well_keyed_def\<close>)
  moreover have "list_all (\<lambda>b. b_id b < db_next s) (map (\<lambda>x. if P x then f x else x) (db_bookings s))"
    by (rule list_all_update) (use assms in \<open>auto simp: well_keyed_def\<close>)
  ultimately show ?thesis
    by (simp only: well_keyed_def bookings.rows_put bookings.next_put)
qed

text \<open>An update that keeps each booking on its package and in or out of the sold ones.\<close>

lemma ledger_put_booking:
  assumes "seat_ledger s"
    and "\<And>b. b \<in> set (db_bookings s) \<Longrightarrow> P b \<Longrightarrow> (b_status (f b) = CANCELLED) = (b_status b = CANCELLED)"
    and "\<And>b. P b \<Longrightarrow> b_id (f b) = b_id b" and "\<And>b. P b \<Longrightarrow> b_packageId (f b) = b_packageId b"
  shows "seat_ledger (db_bookings_update (map (\<lambda>x. if P x then f x else x)) s)"
proof -
  let ?g = "\<lambda>x. if P x then f x else x"
  have "length (filter (active_on i) (map ?g bs)) = length (filter (active_on i) bs)"
    if "set bs \<subseteq> set (db_bookings s)" for i bs
    using that by (induction bs) (auto simp: active_on_def assms(2,4))
  then have "sold (db_bookings_update (map ?g) s) i = sold s i" for i
    by (simp add: sold_def)
  moreover have "list_all (\<lambda>b. b_packageId b \<in> p_id ` set (db_packages s)) (map ?g (db_bookings s))"
    by (rule list_all_update) (use assms(1,4) in \<open>auto simp: seat_ledger_def\<close>)
  moreover have "well_keyed b_id db_bookings (db_bookings_update (map ?g) s)"
    by (rule well_keyed_update) (use assms(1,3) in \<open>auto simp: seat_ledger_def\<close>)
  ultimately show ?thesis
    using assms(1) by (simp add: seat_ledger_def packages_ok_def well_keyed_def)
qed

lemma seat_ledger_ignores_messages: "ignores_messages seat_ledger"
  unfolding ignores_messages_def
proof (intro allI impI)
  fix s t
  assume l: "seat_ledger s" and m: "only_messages s t"
  have "packages_ok t"
    using packages_ok_ignores_messages seat_ledgerD(1) [OF l] m by (rule ignores_messagesD)
  moreover have "well_keyed b_id db_bookings t"
    using well_keyed_ignores_messages [of db_bookings b_id] l m
    by (auto simp: seat_ledger_def ignores_messages_def only_messagesD)
  ultimately show "seat_ledger t"
    using l by (simp add: seat_ledger_def sold_def only_messagesD [OF m])
qed

lemma seat_ledger_ignores_checklists: "ignores_checklists seat_ledger"
  by (auto simp: ignores_checklists_def seat_ledger_def packages_ok_def well_keyed_def sold_def
      list_all_iff)

lemma seat_ledger_groups: "seat_ledger s \<Longrightarrow> seat_ledger (db_groups_update f s)"
  by (simp add: seat_ledger_def packages_ok_def well_keyed_def sold_def)

text \<open>Taking and giving back a seat, together with the booking row.\<close>

lemma find_in_ledger:
  assumes "seat_ledger s" and "b \<in> set (db_bookings s)"
  shows "List.find (\<lambda>x. b_id x = b_id b) (db_bookings s) = Some b"
  using assms by (intro bookings.find_by_key) (auto simp: seat_ledger_def)

lemma put_package_ids:
  assumes "\<And>p. p_id (f p) = p_id p"
  shows "p_id ` set (db_packages (put_package i f s)) = p_id ` set (db_packages s)"
proof -
  have "map p_id (db_packages (put_package i f s)) = map p_id (db_packages s)"
    unfolding packages.rows_put by (rule map_key_update) (rule assms)
  then show ?thesis by (metis list.set_map)
qed

lemma ledger_package:
  assumes "seat_ledger s" and "b \<in> set (db_bookings s)"
  obtains p where "p \<in> set (db_packages s)" and "p_id p = b_packageId b"
    and "List.find (\<lambda>p. p_id p = b_packageId b) (db_packages s) = Some p"
proof -
  obtain p where p: "p \<in> set (db_packages s)" "p_id p = b_packageId b"
    using assms by (auto simp: seat_ledger_def list_all_iff)
  have "well_keyed p_id db_packages s" using assms(1) by (simp add: seat_ledger_def packages_ok_def)
  from packages.find_by_key [OF this p(1)] show thesis using that p by simp
qed

lemma ledger_put_package:
  assumes l: "seat_ledger s" and ok: "packages_ok (put_package i f s)"
    and id: "\<And>p. p_id (f p) = p_id p" and taken: "\<And>p. p_seatsTaken (f p) = p_seatsTaken p"
  shows "seat_ledger (put_package i f s)"
proof -
  let ?t = "put_package i f s"
  have sold: "sold ?t = sold s" by (rule ext) (simp add: sold_def)
  have "list_all (\<lambda>p. p_seatsTaken p = sold s (p_id p))
      (map (\<lambda>x. if p_id x = i then f x else x) (db_packages s))"
    by (rule list_all_update) (use l id taken in \<open>auto simp: seat_ledger_def\<close>)
  then have "list_all (\<lambda>p. p_seatsTaken p = sold ?t (p_id p)) (db_packages ?t)"
    unfolding sold by (simp only: packages.rows_put)
  moreover have "list_all (\<lambda>b. b_packageId b \<in> p_id ` set (db_packages ?t)) (db_bookings ?t)"
    unfolding put_package_ids [of f i s, OF id] using l by (simp add: seat_ledger_def)
  ultimately show ?thesis
    using ok l by (simp only: seat_ledger_def) (simp add: well_keyed_def)
qed

lemma new_booking_simps [simp]:
  "b_id (new_booking now i p ts n) = n" "b_packageId (new_booking now i p ts n) = p_id p"
  "b_status (new_booking now i p ts n) = PENDING_PAYMENT"
  "b_pilgrimId (new_booking now i p ts n) = i" "b_agencyId (new_booking now i p ts n) = p_agencyId p"
  by (simp_all add: new_booking_def)

lemma create_booking_ledger: "keeps seat_ledger (create_booking now pilgrimId packageId)"
proof (rule keepsI)
  fix s r t
  assume l: "seat_ledger s" and run: "create_booking now pilgrimId packageId s = (r, t)"
  note d = seat_ledgerD(3) [OF l]
  show "seat_ledger t"
  proof (cases "List.find (\<lambda>p. p_id p = packageId) (db_packages s)")
    case None
    then show ?thesis using run l by (simp add: create_booking_def find_package_or_fail_run bind_def)
  next
    case (Some p)
    then have p: "p \<in> set (db_packages s)" "p_id p = packageId" by (auto dest: find_Some_set)
    have only: "q = p" if "q \<in> set (db_packages s)" "p_id q = packageId" for q
      using distinct_key_unique [OF d that(1) p(1)] that(2) p(2) by simp
    have full: "seat_ledger (put_package packageId (\<lambda>p. p\<lparr>p_status := FULL\<rparr>) s)"
      by (rule ledger_put_package [OF l])
        (rule packages_ok_put [OF seat_ledgerD(1) [OF l]], simp_all add: seats_ok_def)
    show ?thesis
    proof (cases "p_status p = OPEN \<and> p_seatsTaken p < p_capacity p")
      case False
      then show ?thesis
        using run l full Some
        by (auto simp: create_booking_def find_package_or_fail_run get_for_agency_run
            reserve_seat_run [OF d] bind_def not_less split: if_splits)
    next
      case True
      let ?s = "put_package packageId reserved s"
      let ?tiers = "tiers_desc (map to_tier (filter (\<lambda>q. tr_agencyId q = p_agencyId p) (db_refundTiers s)))"
      define b where "b = new_booking now pilgrimId (to_package_shape p) ?tiers (db_next s)"
      have t: "t = db_bookings_update (\<lambda>bs. bs @ [b]) (?s\<lparr>db_next := Suc (db_next s)\<rparr>)"
        using run True Some
        by (auto simp: create_booking_def find_package_or_fail_run get_for_agency_run
            reserve_seat_run [OF d] create_row_def Let_def b_def)
      have b: "b_packageId b = packageId" "b_status b = PENDING_PAYMENT" "b_id b = db_next s"
        using p(2) by (simp_all add: b_def)
      have ok: "packages_ok ?s"
        by (rule packages_ok_put [OF seat_ledgerD(1) [OF l]])
          (use only True in \<open>auto simp: seats_ok_reserved, simp add: reserved_def\<close>)
      have ids: "p_id ` set (db_packages t) = p_id ` set (db_packages s)"
        using put_package_ids [of reserved packageId s] by (simp add: t reserved_def)
      have pk: "db_packages t = map (\<lambda>x. if p_id x = packageId then reserved x else x) (db_packages s)"
        by (simp add: t)
      have sold_t: "sold t i = sold s i + (if i = packageId then 1 else 0)" for i
        by (simp add: sold_def t active_on_def b)
      have "list_all (\<lambda>q. p_seatsTaken q = sold t (p_id q)) (db_packages t)"
        unfolding pk using l by (auto simp: sold_t seat_ledger_def list_all_iff reserved_def)
      moreover have "packages_ok t"
        using packages_ok_next [OF ok, of 1] by (simp add: t packages_ok_def well_keyed_def)
      moreover have "well_keyed b_id db_bookings t"
        using l by (auto simp: t b seat_ledger_def well_keyed_def list_all_iff less_Suc_eq)
      moreover have "list_all (\<lambda>b. b_packageId b \<in> p_id ` set (db_packages t)) (db_bookings t)"
        unfolding ids using l p b by (auto simp: t seat_ledger_def list_all_iff)
      ultimately show ?thesis by (simp only: seat_ledger_def)
    qed
  qed
qed

lemma cancel_booking_run:
  assumes l: "seat_ledger s" and b: "List.find (\<lambda>b. b_id b = i) (db_bookings s) = Some b"
    and own: "b_pilgrimId b = pilgrimId"
  shows "cancel_booking pilgrimId i s =
    (Inr (to_booking_shape (b\<lparr>b_status := CANCELLED\<rparr>)),
     put_booking i (\<lambda>b. b\<lparr>b_status := CANCELLED\<rparr>)
       (if b_status b = CANCELLED then s else put_package (b_packageId b) released s))"
proof -
  note d = seat_ledgerD(3) [OF l]
  have i: "b_id b = i" and bin: "b \<in> set (db_bookings s)" using b by (auto dest: find_Some_set)
  obtain p where p: "List.find (\<lambda>p. p_id p = b_packageId b) (db_packages s) = Some p"
    using ledger_package [OF l bin] by blast
  have b': "List.find (\<lambda>b. b_id b = i) (db_bookings (put_package (b_packageId b) released s)) = Some b"
    using b by simp
  show ?thesis
    using b own i p
    by (auto simp: cancel_booking_def find_booking_or_fail_run release_seat_run [OF d] whenever_def
        update_booking_row_run [OF b] update_booking_row_run [OF b'])
qed

lemma cancel_booking_ledger: "keeps seat_ledger (cancel_booking pilgrimId i)"
proof (rule keepsI)
  fix s r t
  assume l: "seat_ledger s" and run: "cancel_booking pilgrimId i s = (r, t)"
  show "seat_ledger t"
  proof (cases "List.find (\<lambda>b. b_id b = i) (db_bookings s)")
    case None
    then show ?thesis using run l by (simp add: cancel_booking_def find_booking_or_fail_run bind_def)
  next
    case (Some b)
    then have b: "b \<in> set (db_bookings s)" "b_id b = i" by (auto dest: find_Some_set)
    show ?thesis
    proof (cases "b_pilgrimId b = pilgrimId")
      case False
      then show ?thesis using run l Some by (simp add: cancel_booking_def find_booking_or_fail_run)
    next
      case True
      let ?cancel = "\<lambda>b::booking. b\<lparr>b_status := CANCELLED\<rparr>"
      note cr = cancel_booking_run [OF l Some True]
      show ?thesis
      proof (cases "b_status b = CANCELLED")
        case True
        have "x = b" if "x \<in> set (db_bookings s)" "b_id x = i" for x
          using distinct_key_unique [OF seat_ledgerD(2) [OF l] that(1) b(1)] that(2) b(2) by simp
        then have "seat_ledger (put_booking i ?cancel s)"
          by (intro ledger_put_booking [OF l]) (use True in auto)
        then show ?thesis using run cr True by simp
      next
        case False
        let ?s = "put_package (b_packageId b) released s"
        have t: "t = put_booking i ?cancel ?s" using run cr False by simp
        have sold_t: "sold t j = sold s j - (if j = b_packageId b then 1 else 0)" for j
          using count_after_update [OF seat_ledgerD(2) [OF l] b(1), of "active_on j" ?cancel] False
          by (simp add: sold_def t b(2) active_on_def)
        have pos: "0 < sold s (b_packageId b)"
          using b False by (auto simp: sold_def active_on_def filter_empty_conv length_greater_0_conv
              simp del: length_greater_0_conv)
        have ok: "packages_ok ?s"
          by (rule packages_ok_put [OF seat_ledgerD(1) [OF l]])
            (simp_all add: seats_ok_released, simp add: released_def)
        have pk: "db_packages t = map (\<lambda>x. if p_id x = b_packageId b then released x else x) (db_packages s)"
          by (simp add: t)
        have "list_all (\<lambda>q. p_seatsTaken q = sold t (p_id q)) (db_packages t)"
          unfolding pk using l pos by (auto simp: sold_t seat_ledger_def list_all_iff released_def)
        moreover have "packages_ok t"
          using ok by (simp add: t packages_ok_def well_keyed_def)
        moreover have "well_keyed b_id db_bookings t"
          unfolding t by (rule well_keyed_update) (use l in \<open>auto simp: seat_ledger_def well_keyed_def\<close>)
        moreover have "p_id ` set (db_packages t) = p_id ` set (db_packages s)"
          using put_package_ids [of released "b_packageId b" s] by (simp add: t released_def)
        then have "list_all (\<lambda>b. b_packageId b \<in> p_id ` set (db_packages t)) (db_bookings t)"
          using l by (auto simp: t seat_ledger_def list_all_iff)
        ultimately show ?thesis by (simp only: seat_ledger_def)
      qed
    qed
  qed
qed

lemma update_booking_step_ledger:
  "seat_ledger s \<Longrightarrow> update_booking_step now i key st s = (r, t) \<Longrightarrow> seat_ledger t"
  by (auto simp: update_booking_step_def update_row_def set_step_def split: option.splits
      intro!: ledger_put_booking)

lemma find_after_set_step:
  assumes "distinct (map b_id (db_bookings s))"
    and "update_booking_step now i key st s = (Inr x, t)"
  shows "\<exists>b. List.find (\<lambda>b. b_id b = i) (db_bookings s) = Some b \<and> key \<in> s_key ` set (b_steps b) \<and>
    List.find (\<lambda>b. b_id b = i) (db_bookings t) = Some (set_step now key st b)"
proof -
  obtain b where b: "List.find (\<lambda>b. b_id b = i \<and> key \<in> s_key ` set (b_steps b)) (db_bookings s) = Some b"
    and t: "t = db_bookings_update (map (\<lambda>b. if b_id b = i \<and> key \<in> s_key ` set (b_steps b)
      then set_step now key st b else b)) s"
    using assms(2) by (auto simp: update_booking_step_def update_row_ok)
  then have bin: "b \<in> set (db_bookings s)" "b_id b = i" "key \<in> s_key ` set (b_steps b)"
    by (auto dest: find_Some_set)
  have f: "List.find (\<lambda>b. b_id b = i) (db_bookings s) = Some b"
    using find_distinct_key [OF assms(1) bin(1)] bin(2) by simp
  let ?P = "\<lambda>b. b_id b = i \<and> key \<in> s_key ` set (b_steps b)"
  have "List.find (\<lambda>b. b_id b = i) (map (\<lambda>b. if ?P b then set_step now key st b else b) (db_bookings s)) =
      map_option (\<lambda>b. if ?P b then set_step now key st b else b)
        (List.find (\<lambda>b. b_id b = i) (db_bookings s))"
    by (rule find_map_update) (simp_all add: set_step_def)
  then show ?thesis using f bin t by simp
qed

lemma step_not_done:
  "key \<in> s_key ` set (b_steps b) \<Longrightarrow> st \<noteq> STEP_DONE \<Longrightarrow>
     \<not> list_all (\<lambda>x. s_status x = STEP_DONE) (b_steps (set_step now key st b))"
proof -
  assume "key \<in> s_key ` set (b_steps b)" and st: "st \<noteq> STEP_DONE"
  then obtain x where "x \<in> set (b_steps b)" "s_key x = key" by auto
  then have "x\<lparr>s_status := st, s_updatedAt := now\<rparr> \<in> set (b_steps (set_step now key st b))"
    by (force simp: set_step_def)
  then show ?thesis
    using st bspec [of "set (b_steps (set_step now key st b))" "\<lambda>x. s_status x = STEP_DONE"]
    by (fastforce simp: list_all_iff)
qed

lemma maybe_confirm_ledger:
  assumes l: "seat_ledger s"
    and c: "\<And>b. List.find (\<lambda>b. b_id b = i) (db_bookings s) = Some b \<Longrightarrow> b_status b \<noteq> CANCELLED \<or>
      \<not> list_all (\<lambda>x. s_status x = STEP_DONE) (b_steps b)"
    and run: "maybe_confirm now i s = (r, t)"
  shows "seat_ledger t"
proof (cases "List.find (\<lambda>b. b_id b = i) (db_bookings s)")
  case None
  then show ?thesis using run l by (simp add: maybe_confirm_def find_booking_or_fail_run bind_def)
next
  case (Some b)
  then have b: "b \<in> set (db_bookings s)" "b_id b = i" by (auto dest: find_Some_set)
  show ?thesis
  proof (cases "list_all (\<lambda>x. s_status x = STEP_DONE) (b_steps b) \<and> b_status b \<noteq> CONFIRMED")
    case False
    then show ?thesis using run l maybe_confirm_idle [OF Some False] by simp
  next
    case True
    let ?f = "\<lambda>b::booking. b\<lparr>b_status := CONFIRMED\<rparr>"
    let ?s = "put_booking i ?f s"
    have only: "x = b" if "x \<in> set (db_bookings s)" "b_id x = i" for x
      using distinct_key_unique [OF seat_ledgerD(2) [OF l] that(1) b(1)] that(2) b(2) by simp
    have "b_status b \<noteq> CANCELLED" using c [OF Some] True by simp
    then have l': "seat_ledger ?s"
      by (intro ledger_put_booking [OF l]) (auto dest: only)
    let ?m = "\<lambda>shape. bind (notify_confirmed now shape) (\<lambda>_.
        bind (generate_standard_checklist now (bs_id shape)) (\<lambda>_. ret shape))"
    have kp: "keeps seat_ledger (?m shape)" for shape
      by (intro keeps_intro seat_ledger_ignores_messages seat_ledger_ignores_checklists)
    have "?m (to_booking_shape (?f b)) ?s = (r, t)"
      using run True Some
      by (simp add: maybe_confirm_def find_booking_or_fail_run update_booking_row_run [OF Some])
    then show ?thesis by (rule keepsD [OF kp l'])
  qed
qed

lemma set_then_confirm_ledger:
  assumes l: "seat_ledger s" and upd: "update_booking_step now i key st s = (Inr x, u)"
    and ok: "st \<noteq> STEP_DONE \<or>
      list_all (\<lambda>b. b_id b = i \<longrightarrow> b_status b \<noteq> CANCELLED) (db_bookings s)"
    and run: "maybe_confirm now i u = (r, t)"
  shows "seat_ledger t"
proof (rule maybe_confirm_ledger [OF _ _ run])
  show "seat_ledger u" using l upd by (rule update_booking_step_ledger)
  fix b
  assume "List.find (\<lambda>b. b_id b = i) (db_bookings u) = Some b"
  then obtain b' where b': "List.find (\<lambda>b. b_id b = i) (db_bookings s) = Some b'"
      "key \<in> s_key ` set (b_steps b')" "b = set_step now key st b'"
    using find_after_set_step [OF seat_ledgerD(2) [OF l] upd] by auto
  then have "b' \<in> set (db_bookings s)" "b_id b' = i" by (auto dest: find_Some_set)
  then show "b_status b \<noteq> CANCELLED \<or> \<not> list_all (\<lambda>x. s_status x = STEP_DONE) (b_steps b)"
    using ok step_not_done [OF b'(2), of st now] b'(3)
    by (auto simp: list_all_iff set_step_def)
qed

definition step_allowed :: "uid \<Rightarrow> dossier_step_status \<Rightarrow> db \<Rightarrow> bool" where
  "step_allowed i st s \<longleftrightarrow>
     st \<noteq> STEP_DONE \<or> list_all (\<lambda>b. b_id b = i \<longrightarrow> b_status b \<noteq> CANCELLED) (db_bookings s)"

lemma mark_step_done_ledger:
  assumes l: "seat_ledger s" and ok: "step_allowed i STEP_DONE s"
    and run: "mark_step_done now i key s = (r, t)"
  shows "seat_ledger t"
proof (cases "update_booking_step now i key STEP_DONE s")
  case (Pair r1 u)
  have lu: "seat_ledger u" using l Pair by (rule update_booking_step_ledger)
  show ?thesis
  proof (cases r1)
    case (Inl e)
    then show ?thesis using run Pair lu by (simp add: mark_step_done_def)
  next
    case (Inr x)
    obtain r2 v where v: "maybe_confirm now i u = (r2, v)" by fastforce
    have lv: "seat_ledger v"
      using set_then_confirm_ledger [OF l] Pair Inr ok v by (auto simp: step_allowed_def)
    have "keeps seat_ledger (bind (notify_step_done now b key) (\<lambda>_. ret b))" for b
      by (intro keeps_intro seat_ledger_ignores_messages)
    note notified = keepsD [OF this lv]
    show ?thesis
      using run Pair Inr v lv notified by (cases r2) (simp_all add: mark_step_done_def)
  qed
qed

lemma update_step_ledger:
  assumes l: "seat_ledger s" and ok: "step_allowed i st s"
    and run: "update_step now ownerId i key st s = (r, t)"
  shows "seat_ledger t"
proof (cases "List.find (\<lambda>b. b_id b = i) (db_bookings s)")
  case None
  then show ?thesis using run l by (simp add: update_step_def find_booking_or_fail_run bind_def)
next
  case (Some b)
  then have bi: "b_id b = i" by (auto dest: find_Some_set)
  obtain r0 s0 where own: "assert_booking_ownership ownerId (to_booking_shape b) s = (r0, s0)" by fastforce
  have s0: "s0 = s" using reads_bookings(7) own by (rule reads_onlyD)
  show ?thesis
  proof (cases r0)
    case (Inl e)
    then show ?thesis using run l Some own s0 by (simp add: update_step_def find_booking_or_fail_run)
  next
    case r0: (Inr _)
    obtain r1 u where u: "update_booking_step now i key st s = (r1, u)" by fastforce
    have lu: "seat_ledger u" using l u by (rule update_booking_step_ledger)
    show ?thesis
    proof (cases r1)
      case (Inl e)
      then show ?thesis
        using run lu Some own s0 r0 u bi
        by (simp add: update_step_def find_booking_or_fail_run catch_def)
    next
      case (Inr x)
      obtain r2 v where v: "maybe_confirm now i u = (r2, v)" by fastforce
      have lv: "seat_ledger v"
        using set_then_confirm_ledger [OF l] u Inr ok v by (auto simp: step_allowed_def)
      have "keeps seat_ledger (bind (whenever c (notify_step_done now b key)) (\<lambda>_. ret b))" for b c
        by (intro keeps_intro seat_ledger_ignores_messages)
      note notified = keepsD [OF this lv]
      show ?thesis
        using run Some own s0 r0 u bi Inr v lv notified
        by (cases r2) (simp_all add: update_step_def find_booking_or_fail_run catch_def)
    qed
  qed
qed

lemma update_booking_row_ledger:
  assumes "\<And>b. b_id (f b) = b_id b" "\<And>b. b_packageId (f b) = b_packageId b"
    "\<And>b. b_status (f b) = b_status b"
  shows "keeps seat_ledger (update_booking_row i f)"
  by (rule update_booking_row_keeps) (auto intro!: ledger_put_booking simp: assms)

lemma assign_group_ledger: "keeps seat_ledger (assign_group ownerId i groupId)"
  unfolding assign_group_def add_member_def
  by (intro keeps_intro update_booking_row_ledger seat_ledger_groups) simp_all

lemma family_link_ledger: "keeps seat_ledger (get_or_create_family_view_link token pilgrimId i)"
  unfolding get_or_create_family_view_link_def regenerate_family_view_link_def
  by (intro keeps_intro update_booking_row_ledger) simp_all

subsection \<open>Bookings and packages as one machine\<close>

datatype booking_call =
    BCreate time uid uid
  | BCancel uid uid
  | BUpdateStep time uid uid dossier_step_key dossier_step_status
  | BMarkStepDone time uid dossier_step_key
  | BAssignGroup uid uid uid
  | BFamilyLink string uid uid

fun dossier_step :: "booking_call \<Rightarrow> db \<Rightarrow> db" where
  "dossier_step (BCreate now pilgrimId packageId) s = snd (create_booking now pilgrimId packageId s)"
| "dossier_step (BCancel pilgrimId i) s = snd (cancel_booking pilgrimId i s)"
| "dossier_step (BUpdateStep now ownerId i key st) s = snd (update_step now ownerId i key st s)"
| "dossier_step (BMarkStepDone now i key) s = snd (mark_step_done now i key s)"
| "dossier_step (BAssignGroup ownerId i groupId) s = snd (assign_group ownerId i groupId s)"
| "dossier_step (BFamilyLink token pilgrimId i) s =
     snd (get_or_create_family_view_link token pilgrimId i s)"

text \<open>Every call is allowed, except to validate a step of a cancelled booking.\<close>

fun booking_allowed :: "booking_call \<Rightarrow> db \<Rightarrow> bool" where
  "booking_allowed (BUpdateStep now ownerId i key st) s \<longleftrightarrow> step_allowed i st s"
| "booking_allowed (BMarkStepDone now i key) s \<longleftrightarrow> step_allowed i STEP_DONE s"
| "booking_allowed c s \<longleftrightarrow> True"

lemma dossier_step_ledger: "booking_allowed c s \<Longrightarrow> seat_ledger s \<Longrightarrow> seat_ledger (dossier_step c s)"
  using create_booking_ledger cancel_booking_ledger assign_group_ledger family_link_ledger
    update_step_ledger [OF _ _ prod.collapse [symmetric]]
    mark_step_done_ledger [OF _ _ prod.collapse [symmetric]]
  by (cases c) (auto simp: keeps_def)

interpretation dossiers: machine dossier_step booking_allowed seat_ledger
  by unfold_locales (rule dossier_step_ledger)

section \<open>Properties\<close>

definition sample_booking_db :: db where
  "sample_booking_db = sample_group_db\<lparr>db_bookings := [sample_booking]\<rparr>"

lemmas sample_booking_defs = sample_booking_db_def sample_booking_def sample_group_defs

lemma sample_ledger: "seat_ledger sample_booking_db"
  by (simp add: seat_ledger_def packages_ok_def well_keyed_def sold_def active_on_def seats_ok_def
      sample_booking_defs)

text \<open>
  C16: whatever bookings are made, cancelled, moved to a group, shared with the family or
  moved through their steps (a step of a cancelled booking excepted), the seats taken of
  every package stay the number of its bookings that are not cancelled, and never exceed
  its capacity.
\<close>
theorem seats_match_bookings:
  assumes "seat_ledger s" and "allowed_run dossier_step booking_allowed s calls"
  shows "list_all (\<lambda>p. p_seatsTaken p = sold (fold dossier_step calls s) (p_id p) \<and>
      sold (fold dossier_step calls s) (p_id p) \<le> p_capacity p)
    (db_packages (fold dossier_step calls s))"
proof -
  have "seat_ledger (fold dossier_step calls s)"
    by (rule dossiers.run_inv [OF assms(2,1)])
  then show ?thesis
    by (auto simp: seat_ledger_def packages_ok_def seats_ok_def list_all_iff)
qed

theorem seats_match_bookings_witness:
  "list_all (\<lambda>p. p_seatsTaken p = sold (fold dossier_step [BCancel 5 7, BCreate 0 5 3, BCreate 0 5 3]
        sample_booking_db) (p_id p) \<and>
      sold (fold dossier_step [BCancel 5 7, BCreate 0 5 3, BCreate 0 5 3] sample_booking_db) (p_id p)
        \<le> p_capacity p)
    (db_packages (fold dossier_step [BCancel 5 7, BCreate 0 5 3, BCreate 0 5 3] sample_booking_db))"
  by (rule seats_match_bookings [OF sample_ledger]) simp

text \<open>
  C17: validating the last open step of a cancelled booking confirms it again, although its
  seat was given back: the package is not touched, and one more booking than seats taken is
  active on it.
\<close>
theorem revived_booking_has_no_seat:
  assumes l: "seat_ledger s"
    and b: "List.find (\<lambda>b. b_id b = i) (db_bookings s) = Some b" and c: "b_status b = CANCELLED"
    and key: "key \<in> s_key ` set (b_steps b)"
    and rest: "\<forall>st \<in> set (b_steps b). s_key st \<noteq> key \<longrightarrow> s_status st = STEP_DONE"
    and a: "List.find (\<lambda>a. a_ownerId a = ownerId) (db_agencies s) = Some a" "b_agencyId b = a_id a"
    and u: "List.find (\<lambda>u. u_id u = b_pilgrimId b) (db_users s) = Some u"
  shows "\<exists>v t. update_step now ownerId i key STEP_DONE s = (Inr v, t) \<and> bs_status v = CONFIRMED \<and>
    db_packages t = db_packages s \<and> sold t (b_packageId b) = sold s (b_packageId b) + 1 \<and>
    \<not> seat_ledger t"
proof -
  have bin: "b \<in> set (db_bookings s)" "b_id b = i" using b by (auto dest: find_Some_set)
  obtain p where p: "p \<in> set (db_packages s)" "p_id p = b_packageId b"
      "List.find (\<lambda>p. p_id p = b_packageId b) (db_packages s) = Some p"
    using ledger_package [OF l bin(1)] by blast
  have "\<exists>x u1. update_booking_step now i key STEP_DONE s = (Inr x, u1) \<and> db_packages u1 = db_packages s \<and>
      db_users u1 = db_users s"
    using b bin key
    by (cases "List.find (\<lambda>b. b_id b = i \<and> key \<in> s_key ` set (b_steps b)) (db_bookings s)")
      (auto simp: update_booking_step_def update_row_def find_None_iff)
  then obtain x u1 where u1: "update_booking_step now i key STEP_DONE s = (Inr x, u1)"
      "db_packages u1 = db_packages s" "db_users u1 = db_users s" by blast
  let ?b = "set_step now key STEP_DONE b"
  have l1: "seat_ledger u1" by (rule update_booking_step_ledger [OF l u1(1)])
  have b1: "List.find (\<lambda>b. b_id b = i) (db_bookings u1) = Some ?b"
    using find_after_set_step [OF seat_ledgerD(2) [OF l] u1(1)] b by auto
  have dn: "list_all (\<lambda>st. s_status st = STEP_DONE) (b_steps ?b)" "b_status ?b \<noteq> CONFIRMED"
    using rest c by (auto simp: set_step_def list_all_iff)
  obtain v where v: "maybe_confirm now i u1 = (Inr (to_booking_shape (?b\<lparr>b_status := CONFIRMED\<rparr>)), v)"
      "db_bookings v = map (\<lambda>x. if b_id x = i then x\<lparr>b_status := CONFIRMED\<rparr> else x) (db_bookings u1)"
      "db_packages v = db_packages u1" "db_users v = db_users u1"
    using maybe_confirm_transition [OF b1 dn, of p u now] p(3) u u1 by (auto simp: set_step_def)
  obtain t where t: "notify_step_done now (to_booking_shape (?b\<lparr>b_status := CONFIRMED\<rparr>)) key v = (Inr (), t)"
      "only_messages v t"
    using notify_step_done_run [of "to_booking_shape (?b\<lparr>b_status := CONFIRMED\<rparr>)" v u now key] u u1(3) v(4)
    by (auto simp: set_step_def)
  have run: "update_step now ownerId i key STEP_DONE s =
      (Inr (to_booking_shape (?b\<lparr>b_status := CONFIRMED\<rparr>)), t)"
    using b a u1 v t bin
    by (simp add: update_step_def find_booking_or_fail_run assert_booking_ownership_def
        find_by_owner_or_fail_run catch_def)
  have pk: "db_packages t = db_packages s" using v u1 by (simp add: only_messagesD [OF t(2)])
  have bin1: "?b \<in> set (db_bookings u1)" "b_id ?b = i" using b1 by (auto dest: find_Some_set)
  have "sold t (b_packageId b) = sold u1 (b_packageId b) + 1"
    using count_after_update [OF seat_ledgerD(2) [OF l1] bin1(1), of "active_on (b_packageId b)"
        "\<lambda>x. x\<lparr>b_status := CONFIRMED\<rparr>"] c bin1(2)
    by (simp add: sold_def only_messagesD [OF t(2)] v active_on_def set_step_def)
  moreover have "sold u1 (b_packageId b) = sold s (b_packageId b)"
    using l l1 p u1(2) by (auto simp: seat_ledger_def list_all_iff)
  ultimately have sold: "sold t (b_packageId b) = sold s (b_packageId b) + 1" by simp
  moreover have "\<not> seat_ledger t"
  proof
    assume "seat_ledger t"
    then have "p_seatsTaken p = sold t (p_id p)" using p pk by (auto simp: seat_ledger_def list_all_iff)
    moreover have "p_seatsTaken p = sold s (p_id p)" using l p by (auto simp: seat_ledger_def list_all_iff)
    ultimately show False using sold p(2) by simp
  qed
  ultimately show ?thesis using run pk by simp
qed

theorem revived_booking_has_no_seat_witness:
  "\<exists>v t. update_step 9 1 7 STEP_DOCUMENTS STEP_DONE
      (sample_booking_db\<lparr>db_packages := [sample_package\<lparr>p_seatsTaken := 0\<rparr>],
         db_bookings := [sample_booking\<lparr>b_status := CANCELLED, b_steps :=
           [\<lparr>s_key = STEP_PAYMENT, s_status = STEP_DONE, s_updatedAt = 0\<rparr>,
            \<lparr>s_key = STEP_DOCUMENTS, s_status = STEP_PENDING, s_updatedAt = 0\<rparr>]\<rparr>]\<rparr>) = (Inr v, t) \<and>
    bs_status v = CONFIRMED \<and> \<not> seat_ledger t" (is "\<exists>v t. update_step _ _ _ _ _ ?s = _ \<and> _ \<and> _")
proof -
  have "seat_ledger ?s"
    by (simp add: seat_ledger_def packages_ok_def well_keyed_def sold_def active_on_def seats_ok_def
        sample_booking_defs)
  then have "\<exists>v t. update_step 9 1 7 STEP_DOCUMENTS STEP_DONE ?s = (Inr v, t) \<and> bs_status v = CONFIRMED \<and>
    db_packages t = db_packages ?s \<and> sold t (b_packageId (hd (db_bookings ?s))) =
      sold ?s (b_packageId (hd (db_bookings ?s))) + 1 \<and> \<not> seat_ledger t"
    by (rule revived_booking_has_no_seat [where a = sample_agency and u = sample_pilgrim])
      (simp_all add: sample_booking_defs)
  then show ?thesis by blast
qed

text \<open>
  Cancelling is the pilgrim's own act and gives the seat back once: a second
  cancellation of the same booking answers the same and changes nothing more.
\<close>
theorem cancel_twice:
  assumes "seat_ledger s" and "cancel_booking pilgrimId i s = (Inr v, t)"
  shows "bs_pilgrimId v = pilgrimId \<and> bs_status v = CANCELLED \<and>
    cancel_booking pilgrimId i t = (Inr v, t)"
proof -
  obtain b where b: "List.find (\<lambda>b. b_id b = i) (db_bookings s) = Some b" "b_pilgrimId b = pilgrimId"
    using assms(2) by (auto simp: cancel_booking_def bind_ok find_booking_or_fail_ok split: if_splits)
  let ?cancel = "\<lambda>b::booking. b\<lparr>b_status := CANCELLED\<rparr>"
  define u where "u = (if b_status b = CANCELLED then s else put_package (b_packageId b) released s)"
  have t: "v = to_booking_shape (?cancel b)" "t = put_booking i ?cancel u"
    using cancel_booking_run [OF assms(1) b] assms(2) by (simp_all add: u_def)
  have lt: "seat_ledger t" using cancel_booking_ledger assms by (rule keepsD)
  have "List.find (\<lambda>b. b_id b = i) (db_bookings u) = Some b" using b by (simp add: u_def)
  then have "List.find (\<lambda>b. b_id b = i) (db_bookings t) = Some (?cancel b)"
    unfolding t(2) using bookings.find_after_update [of ?cancel i u b] by simp
  from cancel_booking_run [OF lt this] b(2) have "cancel_booking pilgrimId i t =
      (Inr (to_booking_shape (?cancel b)), put_booking i ?cancel t)" by simp
  moreover have "put_booking i ?cancel t = t"
  proof -
    have "(\<lambda>x. if b_id x = i then ?cancel x else x) \<circ> (\<lambda>x. if b_id x = i then ?cancel x else x) =
        (\<lambda>x. if b_id x = i then ?cancel x else x)" by (rule ext) simp
    then show ?thesis by (simp add: t(2))
  qed
  ultimately show ?thesis using b(2) t(1) by simp
qed

theorem cancel_twice_witness:
  "cancel_booking 5 7 (snd (cancel_booking 5 7 sample_booking_db)) =
     cancel_booking 5 7 sample_booking_db"
proof -
  have "cancel_booking 5 7 sample_booking_db =
      (Inr (to_booking_shape (sample_booking\<lparr>b_status := CANCELLED\<rparr>)),
       snd (cancel_booking 5 7 sample_booking_db))"
    using cancel_booking_run [OF sample_ledger, of 7 sample_booking 5]
    by (simp add: sample_booking_defs)
  from cancel_twice [OF sample_ledger this] this show ?thesis by simp
qed

text \<open>
  C19: when an agency validates a step of a booking that is not confirmed yet, the booking
  becomes CONFIRMED exactly when every step is done; the pilgrim then gets the confirmation
  before the notice of the step, and the four checklist items are created. Otherwise the
  status stays and only the notice of the step is sent.
\<close>
theorem update_step_confirms:
  assumes l: "seat_ledger s"
    and b: "List.find (\<lambda>b. b_id b = i) (db_bookings s) = Some b" "b_status b \<noteq> CONFIRMED"
    and u: "List.find (\<lambda>u. u_id u = b_pilgrimId b) (db_users s) = Some u"
    and run: "update_step now ownerId i key STEP_DONE s = (Inr v, t)"
  shows "(let complete = list_all (\<lambda>st. s_key st = key \<or> s_status st = STEP_DONE) (b_steps b)
     in bs_status v = (if complete then CONFIRMED else b_status b) \<and>
        length (db_checklistItems t) = length (db_checklistItems s) + (if complete then 4 else 0) \<and>
        map (\<lambda>n. (n_recipientId n, n_title n)) (db_notifications t) =
          map (\<lambda>n. (n_recipientId n, n_title n)) (db_notifications s) @
          (if complete then [(b_pilgrimId b, ''Dossier confirme'')] else []) @
          [(b_pilgrimId b, ''Etape << '' @ step_label key @ '' >> validee'')])"
proof -
  let ?b = "set_step now key STEP_DONE b"
  have bin: "b \<in> set (db_bookings s)" "b_id b = i" using b by (auto dest: find_Some_set)
  obtain p where p: "List.find (\<lambda>p. p_id p = b_packageId b) (db_packages s) = Some p"
    using ledger_package [OF l bin(1)] by blast
  obtain x u1 v1 v2 where u1: "update_booking_step now i key STEP_DONE s = (Inr x, u1)"
    and v1: "maybe_confirm now i u1 = (Inr v, v1)"
    and v2: "notify_step_done now v key v1 = (Inr (), t)"
    using run b bin
    by (auto simp: update_step_def bind_ok find_booking_or_fail_ok assert_booking_ownership_ok catch_ok)
  have same: "db_packages u1 = db_packages s" "db_users u1 = db_users s"
    "db_notifications u1 = db_notifications s" "db_checklistItems u1 = db_checklistItems s"
    using u1 by (auto simp: update_booking_step_def update_row_ok)
  have b1: "List.find (\<lambda>b. b_id b = i) (db_bookings u1) = Some ?b"
    using find_after_set_step [OF seat_ledgerD(2) [OF l] u1(1)] b by auto
  have complete: "list_all (\<lambda>st. s_status st = STEP_DONE) (b_steps ?b) =
      list_all (\<lambda>st. s_key st = key \<or> s_status st = STEP_DONE) (b_steps b)"
    by (auto simp: set_step_def list_all_iff)
  have nb: "b_status ?b = b_status b" "b_pilgrimId ?b = b_pilgrimId b" "b_packageId ?b = b_packageId b"
    by (simp_all add: set_step_def)
  have told: "map (\<lambda>n. (n_recipientId n, n_title n)) (db_notifications t) =
      map (\<lambda>n. (n_recipientId n, n_title n)) (db_notifications v1) @
        [(b_pilgrimId b, ''Etape << '' @ step_label key @ '' >> validee'')] \<and>
      db_checklistItems t = db_checklistItems v1"
    if pv: "bs_pilgrimId v = b_pilgrimId b" and uv: "db_users v1 = db_users s"
  proof -
    obtain t' where t': "notify_step_done now v key v1 = (Inr (), t')" "only_messages v1 t'"
      "map (\<lambda>n. (n_recipientId n, n_title n)) (db_notifications t') =
        map (\<lambda>n. (n_recipientId n, n_title n)) (db_notifications v1) @
        [(b_pilgrimId b, ''Etape << '' @ step_label key @ '' >> validee'')]"
      using notify_step_done_run [of v v1 u now key] u pv uv by auto
    then show ?thesis using v2 by (simp add: only_messagesD)
  qed
  show ?thesis
  proof (cases "list_all (\<lambda>st. s_status st = STEP_DONE) (b_steps ?b)")
    case True
    obtain v1' where v1': "maybe_confirm now i u1 = (Inr (to_booking_shape (?b\<lparr>b_status := CONFIRMED\<rparr>)), v1')"
      "db_users v1' = db_users u1" "length (db_checklistItems v1') = length (db_checklistItems u1) + 4"
      "map (\<lambda>n. (n_recipientId n, n_title n)) (db_notifications v1') =
        map (\<lambda>n. (n_recipientId n, n_title n)) (db_notifications u1) @
          [(b_pilgrimId b, ''Dossier confirme'')]"
      using maybe_confirm_transition [OF b1 True, of p u now] b(2) p u by (auto simp: nb same)
    then have "v = to_booking_shape (?b\<lparr>b_status := CONFIRMED\<rparr>)" "v1' = v1" using v1 by simp_all
    then show ?thesis using told v1' True by (simp add: complete [symmetric] nb same Let_def)
  next
    case False
    then have "v = to_booking_shape ?b" "v1 = u1"
      using v1 maybe_confirm_idle [OF b1, of now] by auto
    then show ?thesis using told False by (simp add: complete [symmetric] nb same Let_def)
  qed
qed

theorem update_step_confirms_witness:
  "bs_status (projr (fst (update_step 9 1 7 STEP_PAYMENT STEP_DONE sample_booking_db))) =
     PENDING_PAYMENT"
proof -
  obtain v t where run: "update_step 9 1 7 STEP_PAYMENT STEP_DONE sample_booking_db = (Inr v, t)"
  proof -
    have "\<exists>v t. update_step 9 1 7 STEP_PAYMENT STEP_DONE sample_booking_db = (Inr v, t)"
      by (simp add: update_step_def find_booking_or_fail_run assert_booking_ownership_def
          find_by_owner_or_fail_run update_booking_step_def update_row_def set_step_def catch_def
          maybe_confirm_def sample_booking_defs notify_step_done_def notify_pilgrim_and_family_def
          send_run Let_def find_user_by_id_or_fail_run emergency_sms_def to_user_shape_def
          send_raw_sms_def sms_send_def)
    then show thesis using that by blast
  qed
  have "List.find (\<lambda>b. b_id b = 7) (db_bookings sample_booking_db) = Some sample_booking"
    "b_status sample_booking \<noteq> CONFIRMED"
    "List.find (\<lambda>u. u_id u = b_pilgrimId sample_booking) (db_users sample_booking_db) = Some sample_pilgrim"
    by (simp_all add: sample_booking_defs)
  from update_step_confirms [OF sample_ledger this run] run show ?thesis
    by (simp add: Let_def sample_booking_def)
qed

text \<open>
  C20: the refund scale of a booking is the agency's scale at the time it was made, and
  stays so: when any agency then replaces its scale, the rate, the rule and the tiers that
  apply to the booking are the same at every later time.
\<close>
theorem refund_scale_frozen:
  assumes l: "seat_ledger s" and run: "create_booking now pilgrimId packageId s = (Inr v, t)"
    and repl: "replace_for_owner ownerId ts t = (r, u)"
  shows "fst (context_for (bs_id v) later u) = fst (context_for (bs_id v) later t) \<and>
    (\<exists>c tiers. context_for (bs_id v) later t = (Inr c, t) \<and>
      fst (get_for_agency (bs_agencyId v) s) = Inr tiers \<and>
      rc_tiers c = map (\<lambda>p. \<lparr>t_minDays = of_int (t_minDays p), t_rate = t_rate p\<rparr>) tiers)"
proof -
  have lt: "seat_ledger t" using create_booking_ledger l run by (rule keepsD)
  obtain p where p: "List.find (\<lambda>p. p_id p = packageId) (db_packages s) = Some p"
    using run by (auto simp: create_booking_def bind_ok find_package_or_fail_ok)
  let ?tiers = "tiers_desc (map to_tier (filter (\<lambda>q. tr_agencyId q = p_agencyId p) (db_refundTiers s)))"
  obtain w q b where w: "reserve_seat packageId s = (Inr q, w)"
    and b: "b = new_booking now pilgrimId (to_package_shape p) ?tiers (db_next w)"
    and t: "t = db_bookings_update (\<lambda>bs. bs @ [b]) (w\<lparr>db_next := Suc (db_next w)\<rparr>)"
    and v: "v = to_booking_shape b"
    using run p by (auto simp: create_booking_def bind_ok find_package_or_fail_ok get_for_agency_run
        create_row_ok)
  have bin: "b \<in> set (db_bookings t)" by (simp add: t)
  have fb: "List.find (\<lambda>x. b_id x = bs_id v) (db_bookings t) = Some b"
    using find_in_ledger [OF lt bin] by (simp add: v)
  obtain p' where p': "List.find (\<lambda>p. p_id p = b_packageId b) (db_packages t) = Some p'"
    using ledger_package [OF lt bin] by blast
  have kp: "keeps (\<lambda>x. db_bookings x = db_bookings t \<and> db_packages x = db_packages t)
      (replace_for_owner ownerId ts)"
    unfolding replace_for_owner_def by (intro keeps_intro) simp_all
  have frame: "db_bookings u = db_bookings t" "db_packages u = db_packages t"
    using kp [unfolded keeps_def, rule_format, of t] repl by simp_all
  have ct: "context_for (bs_id v) later t = (Inr (context_of b p' later), t)"
    by (rule context_for_run [OF fb p'])
  have cu: "context_for (bs_id v) later u = (Inr (context_of b p' later), u)"
    by (rule context_for_run) (simp_all add: frame fb p')
  have "rc_tiers (context_of b p' later) =
      map (\<lambda>p. \<lparr>t_minDays = of_int (t_minDays p), t_rate = t_rate p\<rparr>) ?tiers"
    by (cases "?tiers = []")
      (simp_all add: context_of_def Let_def b new_booking_def lire_paliers_snapshot)
  then show ?thesis using ct cu by (simp add: v b get_for_agency_run)
qed

theorem refund_scale_frozen_witness:
  "fst (context_for 10 50 (snd (replace_for_owner 1 [] (snd (create_booking 0 5 3 sample_booking_db))))) =
     fst (context_for 10 50 (snd (create_booking 0 5 3 sample_booking_db)))"
proof -
  have f: "List.find (\<lambda>p. p_id p = 3) (db_packages sample_booking_db) = Some sample_package"
    "db_refundTiers sample_booking_db = []" "p_status sample_package = OPEN"
    "p_seatsTaken sample_package < p_capacity sample_package" "db_next sample_booking_db = 10"
    by (simp_all add: sample_booking_defs)
  have "new_booking 0 5 (to_package_shape sample_package) [] 10 = new_booking 0 5 sample_package [] 10"
    by (simp add: new_booking_def)
  then have "create_booking 0 5 3 sample_booking_db =
      (Inr (to_booking_shape (new_booking 0 5 sample_package [] 10)),
       snd (create_booking 0 5 3 sample_booking_db))"
    using f by (simp add: create_booking_def find_package_or_fail_run get_for_agency_run
        reserve_seat_run [OF seat_ledgerD(3) [OF sample_ledger]] create_row_def tiers_desc_def Let_def)
  from refund_scale_frozen [OF sample_ledger this, of 1 "[]" "fst (replace_for_owner 1 [] (snd (create_booking 0 5 3 sample_booking_db)))"
      "snd (replace_for_owner 1 [] (snd (create_booking 0 5 3 sample_booking_db)))" 50]
  show ?thesis by simp
qed

end
