(* ===== verification/Payments.thy ===== *)
theory Payments
  imports Bookings
begin

text \<open>
  \<open>src/src/modules/payments/payments.service.ts\<close> (all but the savings plans and the
  treasury) with the mock provider: instalments, the provider's callback that confirms
  them and reconciles the dossier, and refunds by the frozen scale.  The reference the
  provider makes is an argument; the refunds it is asked for are logged in \<open>db_refunds\<close>.
\<close>

section \<open>Shapes\<close>

record payment_shape =
  ps_id :: uid
  ps_bookingId :: uid
  ps_amount :: money
  ps_currency :: string
  ps_installmentNumber :: nat
  ps_method :: payment_method
  ps_status :: payment_status
  ps_providerReference :: string
  ps_receiptRef :: "string option"
  ps_confirmedAt :: "time option"
  ps_refundedAmount :: "money option"
  ps_refundedAt :: "time option"

definition to_payment_shape :: "payment \<Rightarrow> payment_shape" where
  "to_payment_shape p =
     \<lparr>ps_id = pay_id p, ps_bookingId = pay_bookingId p, ps_amount = pay_amount p,
      ps_currency = pay_currency p, ps_installmentNumber = pay_installmentNumber p,
      ps_method = pay_method p, ps_status = pay_status p,
      ps_providerReference = pay_providerReference p, ps_receiptRef = pay_receiptRef p,
      ps_confirmedAt = pay_confirmedAt p, ps_refundedAmount = pay_refundedAmount p,
      ps_refundedAt = pay_refundedAt p\<rparr>"

record refund_preview =
  rp_paymentId :: uid
  rp_eligibleRate :: rat
  rp_refundableAmount :: money
  rp_currency :: string
  rp_rule :: refund_rule
  rp_daysBeforeDeparture :: int
  rp_tiers :: "rat tier list"

definition default_currency :: string where
  "default_currency = ''GNF''"

section \<open>The provider\<close>

definition provider_refund :: "string \<Rightarrow> money \<Rightarrow> (db, unit) act" where
  "provider_refund providerReference amount =
     exec (db_refunds_update (\<lambda>rs. rs @ [(providerReference, amount)]))"

section \<open>Reading payments\<close>

definition find_payment_or_fail :: "uid \<Rightarrow> (db, payment_shape) act" where
  "find_payment_or_fail i =
     bind (find_first db_payments (\<lambda>p. pay_id p = i)) (\<lambda>found.
     bind (or_fail (NotFound ''Paiement introuvable'') found) (\<lambda>payment.
     ret (to_payment_shape payment)))"

definition find_payments_by_booking :: "uid \<Rightarrow> (db, payment_shape list) act" where
  "find_payments_by_booking bookingId =
     bind (find_many db_payments (\<lambda>p. pay_bookingId p = bookingId)) (\<lambda>ps.
     ret (map to_payment_shape ps))"

definition find_payments_for_pilgrim :: "uid \<Rightarrow> (db, payment_shape list) act" where
  "find_payments_for_pilgrim pilgrimId =
     bind (find_my_bookings pilgrimId) (\<lambda>bookings.
     bind (find_many db_payments (\<lambda>p. pay_bookingId p \<in> set (map bs_id bookings))) (\<lambda>ps.
     ret (map to_payment_shape ps)))"

definition find_payments_for_agency :: "uid \<Rightarrow> (db, payment_shape list) act" where
  "find_payments_for_agency ownerId =
     bind (find_by_owner_or_fail ownerId) (\<lambda>agency.
     bind (find_bookings_by_agency ownerId) (\<lambda>bookings.
     bind (find_many db_payments (\<lambda>p. pay_bookingId p \<in>
       set (map bs_id (filter (\<lambda>b. bs_agencyId b = as_id agency) bookings)))) (\<lambda>ps.
     ret (map to_payment_shape ps))))"

definition find_payment_authorized :: "uid \<Rightarrow> role \<Rightarrow> uid \<Rightarrow> (db, payment_shape) act" where
  "find_payment_authorized requesterId requesterRole paymentId =
     bind (find_payment_or_fail paymentId) (\<lambda>payment.
     bind (find_booking_or_fail (ps_bookingId payment)) (\<lambda>booking.
     if requesterRole = ADMIN \<or> bs_pilgrimId booking = requesterId then ret payment
     else
       bind (if requesterRole = AGENCY
             then bind (find_by_owner_or_fail requesterId) (\<lambda>agency.
               ret (bs_agencyId booking = as_id agency))
             else ret False) (\<lambda>own.
       bind (require own (Forbidden ''Vous n'avez pas acces a ce paiement'')) (\<lambda>_.
       ret payment))))"

definition sum_succeeded_amount :: "(db, money) act" where
  "sum_succeeded_amount =
     query (\<lambda>s. sum_list (map pay_amount (filter (\<lambda>p. pay_status p = SUCCEEDED) (db_payments s))))"

section \<open>Instalments and the callback\<close>

record initiate_payment_dto =
  ip_bookingId :: uid
  ip_amount :: money
  ip_method :: payment_method

definition valid_initiate_payment :: "initiate_payment_dto \<Rightarrow> bool" where
  "valid_initiate_payment dto \<longleftrightarrow> 0 < ip_amount dto"

definition new_payment ::
  "time \<Rightarrow> string \<Rightarrow> initiate_payment_dto \<Rightarrow> nat \<Rightarrow> uid \<Rightarrow> payment" where
  "new_payment now ref dto installmentNumber i =
     \<lparr>pay_id = i, pay_bookingId = ip_bookingId dto, pay_amount = ip_amount dto,
      pay_currency = default_currency, pay_installmentNumber = installmentNumber,
      pay_method = ip_method dto, pay_status = PAY_PENDING, pay_providerReference = ref,
      pay_receiptRef = None, pay_confirmedAt = None, pay_refundedAmount = None,
      pay_refundedAt = None, pay_createdAt = now\<rparr>"

definition initiate :: "time \<Rightarrow> string \<Rightarrow> uid \<Rightarrow> initiate_payment_dto \<Rightarrow> (db, payment_shape) act" where
  "initiate now ref pilgrimId dto =
     bind (find_booking_or_fail (ip_bookingId dto)) (\<lambda>booking.
     bind (require (bs_pilgrimId booking = pilgrimId)
       (Forbidden ''Cette reservation ne vous appartient pas'')) (\<lambda>_.
     bind (query (\<lambda>s. length (filter (\<lambda>p. pay_bookingId p = bs_id booking) (db_payments s)) + 1))
       (\<lambda>installmentNumber.
     bind (find_first db_payments (\<lambda>p. pay_providerReference p = ref)) (\<lambda>dup.
     bind (require (dup = None) (DbError ''P2002'')) (\<lambda>_.
     bind (create_row db_payments_update (new_payment now ref dto installmentNumber)) (\<lambda>payment.
     ret (to_payment_shape payment)))))))"

definition total_paid :: "payment list \<Rightarrow> uid \<Rightarrow> money" where
  "total_paid ps bookingId =
     sum_list (map pay_amount (filter (\<lambda>p. pay_bookingId p = bookingId \<and> pay_status p = SUCCEEDED) ps))"

definition reconcile_booking_payment_step :: "time \<Rightarrow> uid \<Rightarrow> (db, unit) act" where
  "reconcile_booking_payment_step now bookingId =
     bind (find_booking_or_fail bookingId) (\<lambda>booking.
     bind (find_package_or_fail (bs_packageId booking)) (\<lambda>pkg.
     bind (query (\<lambda>s. total_paid (db_payments s) bookingId)) (\<lambda>totalPaid.
     whenever (totalPaid \<ge> p_price pkg)
       (bind (mark_step_done now bookingId STEP_PAYMENT) (\<lambda>_. ret ())))))"

definition apply_webhook :: "time \<Rightarrow> payment_status \<Rightarrow> payment \<Rightarrow> payment" where
  "apply_webhook now status p =
     (let p' = p\<lparr>pay_status := status\<rparr>
      in if status = SUCCEEDED
         then p'\<lparr>pay_confirmedAt := Some now, pay_receiptRef := Some (''RCPT-'' @ show_nat (pay_id p))\<rparr>
         else p')"

definition handle_webhook :: "time \<Rightarrow> string \<Rightarrow> payment_status \<Rightarrow> (db, payment_shape) act" where
  "handle_webhook now ref status =
     bind (find_first db_payments (\<lambda>p. pay_providerReference p = ref)) (\<lambda>found.
     bind (or_fail (NotFound ''Paiement introuvable pour cette reference'') found) (\<lambda>existing.
     bind (update_row db_payments db_payments_update (\<lambda>p. pay_id p = pay_id existing)
       (apply_webhook now status)) (\<lambda>payment.
     bind (whenever (status = SUCCEEDED)
       (reconcile_booking_payment_step now (pay_bookingId payment))) (\<lambda>_.
     ret (to_payment_shape payment)))))"

section \<open>Refunds\<close>

definition preview_refund :: "time \<Rightarrow> uid \<Rightarrow> role \<Rightarrow> uid \<Rightarrow> (db, refund_preview) act" where
  "preview_refund now requesterId requesterRole paymentId =
     bind (find_payment_authorized requesterId requesterRole paymentId) (\<lambda>payment.
     bind (context_for (ps_bookingId payment) now) (\<lambda>contexte.
     let remboursable = (ps_status payment = SUCCEEDED);
         eligibleRate = (if remboursable then rc_rate contexte else 0)
     in ret \<lparr>rp_paymentId = ps_id payment, rp_eligibleRate = eligibleRate,
          rp_refundableAmount = round_cents (ps_amount payment * eligibleRate),
          rp_currency = ps_currency payment,
          rp_rule = (if remboursable then rc_rule contexte else NOT_REFUNDABLE),
          rp_daysBeforeDeparture = rc_daysBeforeDeparture contexte,
          rp_tiers = rc_tiers contexte\<rparr>))"

definition refund_content :: "rat \<Rightarrow> money \<Rightarrow> string \<Rightarrow> string" where
  "refund_content eligibleRate refundedAmount currency =
     (if eligibleRate < 1
      then ''Remboursement partiel de '' @ show_amount refundedAmount @ '' '' @ currency @ '' ('' @
        show_int (js_round (eligibleRate * 100)) @
        ''% du paiement, selon le bareme de remboursement de votre reservation).''
      else ''Remboursement integral de '' @ show_amount refundedAmount @ '' '' @ currency @ ''.'')"

definition apply_refund :: "time \<Rightarrow> money \<Rightarrow> payment \<Rightarrow> payment" where
  "apply_refund now refundedAmount p =
     p\<lparr>pay_status := REFUNDED, pay_refundedAmount := Some refundedAmount, pay_refundedAt := Some now\<rparr>"

definition request_refund :: "time \<Rightarrow> uid \<Rightarrow> role \<Rightarrow> uid \<Rightarrow> (db, payment_shape) act" where
  "request_refund now requesterId requesterRole paymentId =
     bind (find_payment_authorized requesterId requesterRole paymentId) (\<lambda>payment.
     bind (require (ps_status payment = SUCCEEDED)
       (Conflict ''Seul un paiement confirme peut etre rembourse'')) (\<lambda>_.
     bind (find_booking_or_fail (ps_bookingId payment)) (\<lambda>booking.
     bind (context_for (bs_id booking) now) (\<lambda>contexte.
     let eligibleRate = rc_rate contexte in
     bind (require (eligibleRate \<noteq> 0)
       (Conflict ''Ce paiement n'est plus remboursable au statut actuel de la reservation'')) (\<lambda>_.
     let refundedAmount = round_cents (ps_amount payment * eligibleRate) in
     bind (provider_refund (ps_providerReference payment) refundedAmount) (\<lambda>_.
     bind (update_row db_payments db_payments_update (\<lambda>p. pay_id p = ps_id payment)
       (apply_refund now refundedAmount)) (\<lambda>updated.
     bind (send now \<lparr>si_recipientIds = [bs_pilgrimId booking], si_type = NT_PAYMENT,
       si_title = ''Remboursement traite'',
       si_content = refund_content eligibleRate refundedAmount (pay_currency updated),
       si_isCritical = False\<rparr>) (\<lambda>_.
     ret (to_payment_shape updated)))))))))"

section \<open>Lemmas\<close>

lemma to_payment_shape_simps [simp]:
  "ps_id (to_payment_shape p) = pay_id p" "ps_bookingId (to_payment_shape p) = pay_bookingId p"
  "ps_amount (to_payment_shape p) = pay_amount p" "ps_status (to_payment_shape p) = pay_status p"
  "ps_providerReference (to_payment_shape p) = pay_providerReference p"
  "ps_currency (to_payment_shape p) = pay_currency p"
  "ps_refundedAmount (to_payment_shape p) = pay_refundedAmount p"
  by (simp_all add: to_payment_shape_def)

lemma reads_payments [reads_intro]:
  "reads_only (find_payment_or_fail i)" "reads_only (find_payments_by_booking i)"
  "reads_only (find_payments_for_pilgrim i)" "reads_only (find_payments_for_agency i)"
  "reads_only (find_payment_authorized i r j)" "reads_only sum_succeeded_amount"
  "reads_only (preview_refund now i r j)"
  unfolding find_payment_or_fail_def find_payments_by_booking_def find_payments_for_pilgrim_def
    find_payments_for_agency_def find_payment_authorized_def sum_succeeded_amount_def
    preview_refund_def Let_def
  by (intro reads_intro)+

lemmas keeps_payments_read [keeps_intro] = reads_payments [THEN keeps_reads]

lemma find_payment_or_fail_run:
  "find_payment_or_fail i s =
     (case List.find (\<lambda>p. pay_id p = i) (db_payments s) of
        None \<Rightarrow> (Inl (NotFound ''Paiement introuvable''), s)
      | Some p \<Rightarrow> (Inr (to_payment_shape p), s))"
  by (simp add: find_payment_or_fail_def bind_def split: option.split)

text \<open>Who may see a payment: the administrator, its pilgrim, and its agency.\<close>

definition may_see :: "db \<Rightarrow> uid \<Rightarrow> role \<Rightarrow> booking \<Rightarrow> bool" where
  "may_see s requesterId requesterRole b \<longleftrightarrow>
     requesterRole = ADMIN \<or> b_pilgrimId b = requesterId \<or>
     requesterRole = AGENCY \<and>
       (\<exists>a. List.find (\<lambda>a. a_ownerId a = requesterId) (db_agencies s) = Some a \<and>
         b_agencyId b = a_id a)"

lemma find_payment_authorized_ok [ok_iff]:
  "find_payment_authorized r ro i s = (Inr v, t) \<longleftrightarrow>
     t = s \<and> (\<exists>p b. List.find (\<lambda>p. pay_id p = i) (db_payments s) = Some p \<and>
       List.find (\<lambda>b. b_id b = pay_bookingId p) (db_bookings s) = Some b \<and>
       may_see s r ro b \<and> v = to_payment_shape p)"
  by (auto simp: find_payment_authorized_def find_payment_or_fail_run find_booking_or_fail_run
      find_by_owner_or_fail_run may_see_def bind_def split: option.splits)

lemma find_payment_authorized_run:
  assumes "List.find (\<lambda>p. pay_id p = i) (db_payments s) = Some p"
    and "List.find (\<lambda>b. b_id b = pay_bookingId p) (db_bookings s) = Some b" and "may_see s r ro b"
  shows "find_payment_authorized r ro i s = (Inr (to_payment_shape p), s)"
  using assms by (simp add: find_payment_authorized_ok)

text \<open>
  A well-formed set of payments: identifiers and provider references identify a payment,
  and bookings and packages are those of the foreign keys.
\<close>

definition payments_ok :: "db \<Rightarrow> bool" where
  "payments_ok s \<longleftrightarrow>
     well_keyed pay_id db_payments s \<and> distinct (map pay_providerReference (db_payments s)) \<and>
     list_all (\<lambda>p. pay_bookingId p \<in> b_id ` set (db_bookings s)) (db_payments s) \<and> seat_ledger s"

text \<open>What a successful refund does, in one equation.\<close>

definition refund_input :: "uid \<Rightarrow> rat \<Rightarrow> money \<Rightarrow> string \<Rightarrow> send_input" where
  "refund_input pilgrimId rate amount currency =
     \<lparr>si_recipientIds = [pilgrimId], si_type = NT_PAYMENT, si_title = ''Remboursement traite'',
      si_content = refund_content rate amount currency, si_isCritical = False\<rparr>"

lemma request_refund_run:
  assumes p: "List.find (\<lambda>p. pay_id p = i) (db_payments s) = Some p"
    and b: "List.find (\<lambda>b. b_id b = pay_bookingId p) (db_bookings s) = Some b"
    and k: "List.find (\<lambda>k. p_id k = b_packageId b) (db_packages s) = Some k"
    and see: "may_see s r ro b"
  shows "request_refund now r ro i s =
    (let rate = rc_rate (context_of b k now); amount = round_cents (pay_amount p * rate)
     in if pay_status p \<noteq> SUCCEEDED
        then (Inl (Conflict ''Seul un paiement confirme peut etre rembourse''), s)
        else if rate = 0
        then (Inl (Conflict ''Ce paiement n'est plus remboursable au statut actuel de la reservation''), s)
        else (Inr (to_payment_shape (apply_refund now amount p)),
          snd (send now (refund_input (b_pilgrimId b) rate amount (pay_currency p))
            (db_payments_update (map (\<lambda>x. if pay_id x = i then apply_refund now amount x else x))
              (db_refunds_update (\<lambda>rs. rs @ [(pay_providerReference p, amount)]) s)))))"
proof -
  have ids: "pay_id p = i" "b_id b = pay_bookingId p" using p b by (auto dest: find_Some_set)
  let ?rate = "rc_rate (context_of b k now)"
  let ?amount = "round_cents (pay_amount p * ?rate)"
  let ?u = "db_refunds_update (\<lambda>rs. rs @ [(pay_providerReference p, ?amount)]) s"
  let ?w = "db_payments_update (map (\<lambda>x. if pay_id x = i then apply_refund now ?amount x else x)) ?u"
  have upd: "update_row db_payments db_payments_update (\<lambda>x. pay_id x = i) (apply_refund now ?amount) ?u =
      (Inr (apply_refund now ?amount p), ?w)"
    using p by (simp add: update_row_def)
  have cur: "pay_currency (apply_refund now ?amount p) = pay_currency p"
    by (simp add: apply_refund_def)
  obtain ns t where sent: "send now (refund_input (b_pilgrimId b) ?rate ?amount (pay_currency p)) ?w = (Inr ns, t)"
    using send_total by blast
  have ctx: "context_for (pay_bookingId p) now s = (Inr (context_of b k now), s)"
    using context_for_run [OF b k] .
  show ?thesis
    using b ids upd sent ctx
    by (simp add: request_refund_def find_payment_authorized_run [OF p b see] Let_def
        find_booking_or_fail_run provider_refund_def cur refund_input_def)
qed

lemma request_refund_okD:
  assumes "request_refund now r ro i s = (Inr v, t)"
  obtains p b k where "List.find (\<lambda>p. pay_id p = i) (db_payments s) = Some p"
    and "List.find (\<lambda>b. b_id b = pay_bookingId p) (db_bookings s) = Some b"
    and "List.find (\<lambda>k. p_id k = b_packageId b) (db_packages s) = Some k"
    and "may_see s r ro b"
proof -
  obtain p b where pb: "List.find (\<lambda>p. pay_id p = i) (db_payments s) = Some p"
      "List.find (\<lambda>b. b_id b = pay_bookingId p) (db_bookings s) = Some b" "may_see s r ro b"
    using assms by (auto simp: request_refund_def bind_ok find_payment_authorized_ok)
  have "b_id b = pay_bookingId p" using pb by (auto dest: find_Some_set)
  then obtain k where "List.find (\<lambda>k. p_id k = b_packageId b) (db_packages s) = Some k"
    using assms pb
    by (auto simp: request_refund_def bind_ok find_payment_authorized_run [OF pb(1,2,3)]
        find_booking_or_fail_run context_for_ok require_ok split: if_splits)
  with pb show thesis using that by blast
qed

lemma context_rate_range:
  assumes "\<forall>t \<in> set (lire_paliers (b_refundPolicySnapshot b)). 0 \<le> t_rate t \<and> t_rate t \<le> 1"
  shows "0 \<le> rc_rate (context_of b k now)" and "rc_rate (context_of b k now) \<le> 1"
  using eligibilite_rate_range [OF assms] by (simp_all add: context_of_def Let_def)

lemma mark_step_done_payments: "keeps (\<lambda>x. db_payments x = ps) (mark_step_done now i key)"
proof -
  have "ignores_messages (\<lambda>x. db_payments x = ps)"
    by (simp add: ignores_messages_def only_messagesD)
  moreover have "ignores_checklists (\<lambda>x. db_payments x = ps)"
    by (simp add: ignores_checklists_def)
  ultimately show ?thesis
    unfolding mark_step_done_def update_booking_step_def maybe_confirm_def Let_def
    by (intro keeps_intro) simp_all
qed

text \<open>Validating a step the booking has, for a known pilgrim, succeeds.\<close>

lemma mark_step_done_total:
  assumes l: "seat_ledger s"
    and b: "List.find (\<lambda>b. b_id b = i) (db_bookings s) = Some b" "key \<in> s_key ` set (b_steps b)"
    and u: "List.find (\<lambda>u. u_id u = b_pilgrimId b) (db_users s) = Some u"
  shows "\<exists>v t b'. mark_step_done now i key s = (Inr v, t) \<and> db_packages t = db_packages s \<and>
    List.find (\<lambda>b. b_id b = i) (db_bookings t) = Some b' \<and>
    b_steps b' = b_steps (set_step now key STEP_DONE b)"
proof -
  have bin: "b \<in> set (db_bookings s)" "b_id b = i" using b by (auto dest: find_Some_set)
  let ?b = "set_step now key STEP_DONE b"
  have "\<exists>x u1. update_booking_step now i key STEP_DONE s = (Inr x, u1) \<and> db_packages u1 = db_packages s \<and>
      db_users u1 = db_users s"
    using b bin
    by (cases "List.find (\<lambda>b. b_id b = i \<and> key \<in> s_key ` set (b_steps b)) (db_bookings s)")
      (auto simp: update_booking_step_def update_row_def find_None_iff)
  then obtain x u1 where u1: "update_booking_step now i key STEP_DONE s = (Inr x, u1)"
      "db_packages u1 = db_packages s" "db_users u1 = db_users s" by blast
  have b1: "List.find (\<lambda>b. b_id b = i) (db_bookings u1) = Some ?b"
    using find_after_set_step [OF seat_ledgerD(2) [OF l] u1(1)] b by auto
  have same: "b_pilgrimId ?b = b_pilgrimId b" "b_packageId ?b = b_packageId b"
    by (simp_all add: set_step_def)
  obtain p where p: "List.find (\<lambda>p. p_id p = b_packageId b) (db_packages s) = Some p"
    using ledger_package [OF l bin(1)] by blast
  have "\<exists>w v b'. maybe_confirm now i u1 = (Inr w, v) \<and> bs_pilgrimId w = b_pilgrimId b \<and>
      db_packages v = db_packages s \<and> db_users v = db_users s \<and>
      List.find (\<lambda>b. b_id b = i) (db_bookings v) = Some b' \<and> b_steps b' = b_steps ?b"
  proof (cases "list_all (\<lambda>st. s_status st = STEP_DONE) (b_steps ?b) \<and> b_status ?b \<noteq> CONFIRMED")
    case False
    then show ?thesis using maybe_confirm_idle [OF b1 False] u1 b1 same by auto
  next
    case True
    let ?f = "\<lambda>x::booking. x\<lparr>b_status := CONFIRMED\<rparr>"
    obtain v where v: "maybe_confirm now i u1 = (Inr (to_booking_shape (?f ?b)), v)"
        "db_bookings v = map (\<lambda>x. if b_id x = i then ?f x else x) (db_bookings u1)"
        "db_packages v = db_packages u1" "db_users v = db_users u1"
      using maybe_confirm_transition [OF b1, of p u now] True p u u1 same by auto
    have "List.find (\<lambda>b. b_id b = i) (db_bookings v) = Some (?f ?b)"
      using bookings.find_after_update [of ?f i u1 ?b] b1 v(2) by simp
    then show ?thesis using v u1 same by auto
  qed
  then obtain w v b' where v: "maybe_confirm now i u1 = (Inr w, v)" "bs_pilgrimId w = b_pilgrimId b"
      "db_packages v = db_packages s" "db_users v = db_users s"
      "List.find (\<lambda>b. b_id b = i) (db_bookings v) = Some b'" "b_steps b' = b_steps ?b" by blast
  obtain t where t: "notify_step_done now w key v = (Inr (), t)" "only_messages v t"
    using notify_step_done_run [of w v u now key] u v(2,4) by auto
  have "mark_step_done now i key s = (Inr w, t)"
    using u1(1) v(1) t(1) by (simp add: mark_step_done_def)
  moreover have "db_packages t = db_packages s" "db_bookings t = db_bookings v"
    using only_messagesD [OF t(2)] v(3) by simp_all
  ultimately show ?thesis using v(5,6) by auto
qed

text \<open>What the rows of a well-formed set of payments give.\<close>

lemma payment_relations:
  assumes ok: "payments_ok s" and p: "p \<in> set (db_payments s)"
  obtains b k where "List.find (\<lambda>b. b_id b = pay_bookingId p) (db_bookings s) = Some b"
    and "List.find (\<lambda>k. p_id k = b_packageId b) (db_packages s) = Some k"
proof -
  have l: "seat_ledger s" using ok by (simp add: payments_ok_def)
  obtain b where b: "b \<in> set (db_bookings s)" "b_id b = pay_bookingId p"
    using ok p by (auto simp: payments_ok_def list_all_iff)
  obtain k where "List.find (\<lambda>k. p_id k = b_packageId b) (db_packages s) = Some k"
    using ledger_package [OF l b(1)] by blast
  then show thesis using that find_in_ledger [OF l b(1)] b(2) by simp
qed

lemma payment_package:
  assumes ok: "payments_ok s" and p: "List.find (\<lambda>p. pay_id p = i) (db_payments s) = Some p"
    and b: "List.find (\<lambda>b. b_id b = pay_bookingId p) (db_bookings s) = Some b"
  obtains k where "List.find (\<lambda>k. p_id k = b_packageId b) (db_packages s) = Some k"
proof -
  have "p \<in> set (db_payments s)" using p by (auto dest: find_Some_set)
  then obtain b' k where "List.find (\<lambda>b. b_id b = pay_bookingId p) (db_bookings s) = Some b'"
      "List.find (\<lambda>k. p_id k = b_packageId b') (db_packages s) = Some k"
    by (rule payment_relations [OF ok])
  then show thesis using that b by simp
qed

lemma find_payment_by_ref:
  assumes ok: "payments_ok s" and "List.find (\<lambda>p. pay_id p = i) (db_payments s) = Some p"
  shows "List.find (\<lambda>x. pay_providerReference x = pay_providerReference p) (db_payments s) = Some p"
proof -
  have "p \<in> set (db_payments s)" using assms(2) by (auto dest: find_Some_set)
  then show ?thesis using ok by (intro find_distinct_key) (auto simp: payments_ok_def)
qed

lemma find_payment_by_id:
  assumes ok: "payments_ok s" and "p \<in> set (db_payments s)"
  shows "List.find (\<lambda>x. pay_id x = pay_id p) (db_payments s) = Some p"
  using assms by (intro payments.find_by_key) (auto simp: payments_ok_def)

abbreviation put_payment :: "uid \<Rightarrow> (payment \<Rightarrow> payment) \<Rightarrow> db \<Rightarrow> db" where
  "put_payment i f \<equiv> db_payments_update (map (\<lambda>x. if pay_id x = i then f x else x))"

lemma find_put_payment:
  assumes "List.find (\<lambda>p. pay_id p = i) (db_payments s) = Some p" and "\<And>p. pay_id (f p) = pay_id p"
  shows "List.find (\<lambda>p. pay_id p = i) (db_payments (put_payment i f s)) = Some (f p)"
  using payments.find_after_update [of f i s p] assms by simp

lemma refunds_after_send: "db_refunds (snd (send now input s)) = db_refunds s"
  by (simp add: send_run Let_def)

text \<open>The callback up to its reconciliation, which a total below the price ends.\<close>

lemma handle_webhook_unfold:
  assumes p: "List.find (\<lambda>x. pay_providerReference x = ref) (db_payments s) = Some p"
    and i: "List.find (\<lambda>x. pay_id x = pay_id p) (db_payments s) = Some p"
  shows "handle_webhook now ref status s =
    bind (whenever (status = SUCCEEDED) (reconcile_booking_payment_step now (pay_bookingId p)))
      (\<lambda>_. ret (to_payment_shape (apply_webhook now status p)))
      (put_payment (pay_id p) (apply_webhook now status) s)"
proof -
  have "pay_bookingId (apply_webhook now status p) = pay_bookingId p"
    by (simp add: apply_webhook_def Let_def)
  then show ?thesis using p i by (simp add: handle_webhook_def update_row_def)
qed

lemma reconcile_run:
  assumes "List.find (\<lambda>b. b_id b = i) (db_bookings s) = Some b"
    and "List.find (\<lambda>k. p_id k = b_packageId b) (db_packages s) = Some k"
  shows "reconcile_booking_payment_step now i s =
    (if p_price k \<le> total_paid (db_payments s) i
     then bind (mark_step_done now i STEP_PAYMENT) (\<lambda>_. ret ()) s else (Inr (), s))"
  using assms
  by (simp add: reconcile_booking_payment_step_def find_booking_or_fail_run
      find_package_or_fail_run to_package_shape_def)

lemma total_paid_cong:
  assumes "\<And>p. p \<in> set ps \<Longrightarrow> pay_bookingId (f p) = pay_bookingId p \<and>
      pay_status (f p) = pay_status p \<and> pay_amount (f p) = pay_amount p"
  shows "total_paid (map f ps) i = total_paid ps i"
proof -
  have "map pay_amount (filter P (map f ps)) = map pay_amount (filter P ps)"
    if "\<And>p. p \<in> set ps \<Longrightarrow> P (f p) = P p" for P
    using that assms by (induction ps) auto
  then show ?thesis using assms by (simp add: total_paid_def)
qed

section \<open>Properties\<close>

definition sample_payment :: payment where
  "sample_payment = (new_payment 0 ''ref'' \<lparr>ip_bookingId = 7, ip_amount = 400, ip_method = CARD\<rparr> 1 8)
     \<lparr>pay_status := SUCCEEDED\<rparr>"

definition sample_payment_db :: db where
  "sample_payment_db = sample_booking_db\<lparr>db_payments := [sample_payment]\<rparr>"

lemma sample_payments_ok: "payments_ok sample_payment_db"
  by (simp add: payments_ok_def seat_ledger_def packages_ok_def well_keyed_def sold_def active_on_def
      seats_ok_def sample_payment_db_def sample_payment_def new_payment_def sample_booking_defs)

lemma sample_finds:
  "List.find (\<lambda>p. pay_id p = 8) (db_payments sample_payment_db) = Some sample_payment"
  "List.find (\<lambda>b. b_id b = pay_bookingId sample_payment) (db_bookings sample_payment_db) = Some sample_booking"
  "List.find (\<lambda>k. p_id k = b_packageId sample_booking) (db_packages sample_payment_db) = Some sample_package"
  "may_see sample_payment_db 5 PILGRIM sample_booking" "pay_status sample_payment = SUCCEEDED"
  "rc_rate (context_of sample_booking k now) = 1" "pay_amount sample_payment = 400"
  by (simp_all add: sample_payment_db_def sample_payment_def new_payment_def sample_booking_defs
      may_see_def context_of_def eligibilite_def Let_def)

lemma sample_refund:
  "\<exists>v. request_refund 0 5 PILGRIM 8 sample_payment_db =
     (Inr v, snd (request_refund 0 5 PILGRIM 8 sample_payment_db))"
  using request_refund_run [OF sample_finds(1,2,3,4), of 0]
  by (simp add: sample_finds Let_def)



text \<open>
  The preview tells the truth: at the same moment, and for the same requester, the
  refund is refused without effect when the preview announces a rate of zero, and pays
  exactly the announced amount otherwise.
\<close>
theorem preview_is_the_refund:
  assumes ok: "payments_ok s" and pre: "preview_refund now r ro i s = (Inr w, s')"
  shows "if rp_eligibleRate w = 0 then \<exists>e. request_refund now r ro i s = (Inl e, s)
    else \<exists>v t. request_refund now r ro i s = (Inr v, t) \<and>
      ps_refundedAmount v = Some (rp_refundableAmount w)"
proof -
  obtain p b where p: "List.find (\<lambda>p. pay_id p = i) (db_payments s) = Some p"
    and b: "List.find (\<lambda>b. b_id b = pay_bookingId p) (db_bookings s) = Some b" and see: "may_see s r ro b"
    using pre by (auto simp: preview_refund_def bind_ok find_payment_authorized_ok)
  obtain k where k: "List.find (\<lambda>k. p_id k = b_packageId b) (db_packages s) = Some k"
    by (rule payment_package [OF ok p b])
  have w: "rp_eligibleRate w = (if pay_status p = SUCCEEDED then rc_rate (context_of b k now) else 0)"
    "rp_refundableAmount w = round_cents (pay_amount p * rp_eligibleRate w)"
    using pre by (auto simp: preview_refund_def find_payment_authorized_run [OF p b see]
        context_for_run [OF b k] Let_def)
  show ?thesis
    using w request_refund_run [OF p b k see, of now] by (auto simp: Let_def apply_refund_def)
qed

theorem preview_is_the_refund_witness:
  "\<exists>w v t. preview_refund 0 5 PILGRIM 8 sample_payment_db = (Inr w, sample_payment_db) \<and>
     request_refund 0 5 PILGRIM 8 sample_payment_db = (Inr v, t) \<and>
     ps_refundedAmount v = Some (rp_refundableAmount w)"
proof -
  obtain w where w: "preview_refund 0 5 PILGRIM 8 sample_payment_db = (Inr w, sample_payment_db)"
    "rp_eligibleRate w = 1"
    using sample_finds(5,6)
    by (simp add: preview_refund_def find_payment_authorized_run [OF sample_finds(1,2,4)]
        context_for_run [OF sample_finds(2,3)] Let_def)
  show ?thesis using preview_is_the_refund [OF sample_payments_ok w(1)] w by auto
qed

text \<open>
  With a scale whose rates lie between zero and one, and a payment in whole cents, a
  refund is never negative and never above what was paid.
\<close>
theorem refund_at_most_paid:
  assumes run: "request_refund now r ro i s = (Inr v, t)"
    and rates: "\<forall>b \<in> set (db_bookings s). \<forall>x \<in> set (lire_paliers (b_refundPolicySnapshot b)).
      0 \<le> t_rate x \<and> t_rate x \<le> 1"
    and cents: "\<forall>p \<in> set (db_payments s). 0 \<le> pay_amount p \<and> (\<exists>n. pay_amount p * 100 = of_int n)"
  shows "\<exists>a. ps_refundedAmount v = Some a \<and> 0 \<le> a \<and> a \<le> ps_amount v"
proof -
  obtain p b k where p: "List.find (\<lambda>p. pay_id p = i) (db_payments s) = Some p"
    and b: "List.find (\<lambda>b. b_id b = pay_bookingId p) (db_bookings s) = Some b"
    and k: "List.find (\<lambda>k. p_id k = b_packageId b) (db_packages s) = Some k" and see: "may_see s r ro b"
    by (rule request_refund_okD [OF run])
  let ?rate = "rc_rate (context_of b k now)"
  let ?a = "round_cents (pay_amount p * ?rate)"
  have v: "v = to_payment_shape (apply_refund now ?a p)"
    using request_refund_run [OF p b k see, of now] run by (auto simp: Let_def split: if_splits)
  have bin: "b \<in> set (db_bookings s)" and pin: "p \<in> set (db_payments s)"
    using p b by (auto dest: find_Some_set)
  have rate: "0 \<le> ?rate" "?rate \<le> 1"
    using context_rate_range [of b k now] rates bin by blast+
  have pos: "0 \<le> pay_amount p" using cents pin by blast
  obtain n where n: "pay_amount p * 100 = of_int n" using cents pin by blast
  have "pay_amount p * ?rate \<le> pay_amount p * 1" using pos rate(2) by (intro mult_left_mono)
  then have "?a \<le> round_cents (pay_amount p)" by (intro round_cents_mono) simp
  then have "?a \<le> pay_amount p" using round_cents_whole [OF n] by simp
  moreover have "round_cents 0 \<le> ?a" using pos rate(1) by (intro round_cents_mono) simp
  ultimately show ?thesis by (simp add: v apply_refund_def)
qed

theorem refund_at_most_paid_witness:
  "\<exists>v t a. request_refund 0 5 PILGRIM 8 sample_payment_db = (Inr v, t) \<and>
     ps_refundedAmount v = Some a \<and> 0 \<le> a \<and> a \<le> ps_amount v"
proof -
  obtain v t where run: "request_refund 0 5 PILGRIM 8 sample_payment_db = (Inr v, t)"
    using sample_refund by blast
  have "\<forall>b \<in> set (db_bookings sample_payment_db). \<forall>x \<in> set (lire_paliers (b_refundPolicySnapshot b)).
      0 \<le> t_rate x \<and> t_rate x \<le> 1"
    by (simp add: sample_payment_db_def sample_booking_defs)
  moreover have "\<forall>p \<in> set (db_payments sample_payment_db).
      0 \<le> pay_amount p \<and> (\<exists>n. pay_amount p * 100 = of_int n)"
    by (auto simp: sample_payment_db_def sample_payment_def new_payment_def intro: exI [of _ 40000])
  ultimately show ?thesis using refund_at_most_paid [OF run] run by blast
qed



text \<open>
  C12: the callback does not look at the status a payment has: replayed after the refund of
  an instalment, it confirms the payment again, and a second request makes the provider
  pay the money back a second time.
\<close>
theorem refunded_twice:
  assumes ok: "payments_ok s" and p: "List.find (\<lambda>p. pay_id p = i) (db_payments s) = Some p"
    and b: "List.find (\<lambda>b. b_id b = pay_bookingId p) (db_bookings s) = Some b"
    and k: "List.find (\<lambda>k. p_id k = b_packageId b) (db_packages s) = Some k"
    and part: "total_paid (db_payments s) (b_id b) < p_price k"
    and run: "request_refund now r ro i s = (Inr v, t)"
    and hook: "handle_webhook now' (pay_providerReference p) SUCCEEDED t = (w, u)"
    and rate: "rc_rate (context_of b k later) \<noteq> 0"
  shows "\<exists>v' t' a a'. request_refund later r ro i u = (Inr v', t') \<and>
    a = round_cents (pay_amount p * rc_rate (context_of b k now)) \<and>
    a' = round_cents (pay_amount p * rc_rate (context_of b k later)) \<and>
    db_refunds t' = db_refunds s @ [(pay_providerReference p, a), (pay_providerReference p, a')]"
proof -
  obtain b' where see: "may_see s r ro b"
    using request_refund_okD [OF run] p b by (metis option.inject)
  let ?a = "round_cents (pay_amount p * rc_rate (context_of b k now))"
  let ?s1 = "put_payment i (apply_refund now ?a)
    (db_refunds_update (\<lambda>rs. rs @ [(pay_providerReference p, ?a)]) s)"
  note eq = request_refund_run [OF p b k see, of now]
  have st: "pay_status p = SUCCEEDED" and "rc_rate (context_of b k now) \<noteq> 0"
    using run eq by (auto simp: Let_def split: if_splits)
  then have t: "t = snd (send now (refund_input (b_pilgrimId b) (rc_rate (context_of b k now)) ?a
      (pay_currency p)) ?s1)"
    using run eq by (simp add: Let_def)
  have same: "db_payments t = db_payments ?s1" "db_bookings t = db_bookings s"
    "db_packages t = db_packages s" "db_agencies t = db_agencies s"
    "db_refunds t = db_refunds s @ [(pay_providerReference p, ?a)]"
    by (simp_all add: t send_run Let_def)
  have i: "pay_id p = i" and pin: "p \<in> set (db_payments s)" using p by (auto dest: find_Some_set)
  let ?f = "apply_refund now ?a" and ?g = "apply_webhook now' SUCCEEDED"
  have keys: "distinct (map pay_id (db_payments s))" "distinct (map pay_providerReference (db_payments s))"
    using ok by (simp_all add: payments_ok_def well_keyed_def)
  have ref: "List.find (\<lambda>x. pay_providerReference x = pay_providerReference p) (db_payments t) = Some (?f p)"
    using find_map_other [of "\<lambda>x. pay_id x = i" "\<lambda>x. pay_providerReference x = pay_providerReference p" ?f]
      find_payment_by_ref [OF ok p] i by (simp add: same apply_refund_def)
  have idf: "pay_id (?f p) = i" "pay_bookingId (?f p) = pay_bookingId p" using i by (simp_all add: apply_refund_def)
  have by_id: "List.find (\<lambda>x. pay_id x = pay_id (?f p)) (db_payments t) = Some (?f p)"
    using find_put_payment [of i "db_refunds_update (\<lambda>rs. rs @ [(pay_providerReference p, ?a)]) s" p ?f] p
    by (simp add: same apply_refund_def i)
  let ?u = "put_payment i ?g t"
  have pays: "db_payments ?u = map (\<lambda>x. if pay_id x = i then ?g (?f x) else x) (db_payments s)"
    by (simp add: same apply_refund_def)
  have "total_paid (db_payments ?u) (pay_bookingId p) = total_paid (db_payments s) (pay_bookingId p)"
    unfolding pays
  proof (rule total_paid_cong)
    fix x assume x: "x \<in> set (db_payments s)"
    have "pay_id x = i \<Longrightarrow> x = p" using distinct_key_unique [OF keys(1) x pin] i by simp
    then show "pay_bookingId (if pay_id x = i then ?g (?f x) else x) = pay_bookingId x \<and>
      pay_status (if pay_id x = i then ?g (?f x) else x) = pay_status x \<and>
      pay_amount (if pay_id x = i then ?g (?f x) else x) = pay_amount x"
      using st by (auto simp: apply_webhook_def apply_refund_def Let_def)
  qed
  moreover have bid: "b_id b = pay_bookingId p" using b by (auto dest: find_Some_set)
  ultimately have low: "\<not> p_price k \<le> total_paid (db_payments ?u) (pay_bookingId p)"
    using part by simp
  have b1: "List.find (\<lambda>x. b_id x = pay_bookingId p) (db_bookings ?u) = Some b"
    and k1: "List.find (\<lambda>k. p_id k = b_packageId b) (db_packages ?u) = Some k"
    using b k same by simp_all
  have u: "u = ?u"
    using hook handle_webhook_unfold [OF ref by_id, of now' SUCCEEDED] reconcile_run [OF b1 k1, of now'] low
    by (simp add: idf)
  have p1: "List.find (\<lambda>x. pay_id x = i) (db_payments u) = Some (?g (?f p))"
    using find_put_payment [of i t "?f p" ?g] by_id by (simp add: u idf apply_webhook_def Let_def)
  have gf: "pay_bookingId (?g (?f p)) = pay_bookingId p" "pay_amount (?g (?f p)) = pay_amount p"
    "pay_status (?g (?f p)) = SUCCEEDED" "pay_providerReference (?g (?f p)) = pay_providerReference p"
    by (simp_all add: apply_webhook_def apply_refund_def Let_def)
  have see1: "may_see u r ro b" using see by (simp add: may_see_def u same)
  note eq1 = request_refund_run [OF p1, of b k r ro later, unfolded gf]
  show ?thesis
    using eq1 b1 k1 see1 rate by (simp add: u Let_def refunds_after_send same)
qed

theorem refunded_twice_witness:
  "\<exists>v t w u v' t'. request_refund 0 5 PILGRIM 8 sample_payment_db = (Inr v, t) \<and>
     handle_webhook 1 ''ref'' SUCCEEDED t = (w, u) \<and> request_refund 2 5 PILGRIM 8 u = (Inr v', t') \<and>
     db_refunds t' = db_refunds sample_payment_db @ [(''ref'', 400), (''ref'', 400)]"
proof -
  obtain v t where run: "request_refund 0 5 PILGRIM 8 sample_payment_db = (Inr v, t)"
    using sample_refund by blast
  obtain w u where hook: "handle_webhook 1 (pay_providerReference sample_payment) SUCCEEDED t = (w, u)"
    by fastforce
  have low: "total_paid (db_payments sample_payment_db) (b_id sample_booking) < p_price sample_package"
    by (simp add: total_paid_def sample_payment_db_def sample_payment_def new_payment_def sample_booking_defs)
  have r: "round_cents 400 = 400" by (rule round_cents_whole [of _ 40000]) simp
  have ref: "pay_providerReference sample_payment = ''ref''" by (simp add: sample_payment_def new_payment_def)
  show ?thesis
    using refunded_twice [OF sample_payments_ok sample_finds(1,2,3) low run hook, of 2] run hook
    by (auto simp: sample_finds r ref)
qed

end
