(* ===== verification/Savings.thy ===== *)
theory Savings
  imports Payments "HOL-Library.List_Lexorder" "HOL-Library.Char_ord"
begin

text \<open>
  The time side of the payments (\<open>src/src/modules/payments\<close>): the balance due date
  (\<open>payment-schedule.ts\<close>), the savings plans and the treasury projection
  (\<open>payments.service.ts\<close>), the daily job that collects the savings
  (\<open>savings-scheduler.service.ts\<close>) and the one that reminds of a balance
  (\<open>payment-reminders.service.ts\<close>).  \<open>String(x)\<close> on an amount and the two \<open>Intl\<close>
  formats are arguments, and so is the reference the provider gives each plan's payment.
\<close>

section \<open>The schedule\<close>

definition balance_due_days_before_departure :: int where
  "balance_due_days_before_departure = 30"

definition balance_reminder_offsets_days :: "int list" where
  "balance_reminder_offsets_days = [14, 7, 1]"

definition balance_due_date :: "time \<Rightarrow> time" where
  "balance_due_date departure =
     set_date departure (get_date departure - balance_due_days_before_departure)"

text \<open>\<open>Date.UTC\<close> agrees with \<open>date_utc\<close> from the year 100 on.\<close>

definition days_between :: "time \<Rightarrow> time \<Rightarrow> int" where
  "days_between from to' =
     (let start = date_utc (get_year from) (get_month from) (get_date from);
          end' = date_utc (get_year to') (get_month to') (get_date to')
      in js_round (of_int (end' - start) / of_int day_ms))"

lemma balance_due_date_shift: "balance_due_date d = d - 30 * day_ms"
  using set_date_shift [of d "- 30"]
  by (simp add: balance_due_date_def balance_due_days_before_departure_def)

text \<open>The days between two times are those between their calendar days.\<close>

lemma days_between_days: "days_between a b = day_of b - day_of a"
proof -
  have e: "day_of b * day_ms - day_of a * day_ms = (day_of b - day_of a) * day_ms"
    by (simp add: left_diff_distrib)
  have "(of_int ((day_of b - day_of a) * day_ms) :: rat) / of_int day_ms = of_int (day_of b - day_of a)"
    by (simp add: of_int_mult)
  then show ?thesis
    by (simp only: days_between_def date_utc_def make_day_get Let_def e js_round_of_int)
qed

section \<open>Savings plans\<close>

definition to_savings_plan_shape :: "savings_plan \<Rightarrow> savings_plan" where
  "to_savings_plan_shape plan =
     \<lparr>sp_id = sp_id plan, sp_bookingId = sp_bookingId plan, sp_targetAmount = sp_targetAmount plan,
      sp_autoDeduct = sp_autoDeduct plan, sp_deductAmount = sp_deductAmount plan,
      sp_frequency = sp_frequency plan, sp_nextDeductDate = sp_nextDeductDate plan\<rparr>"

record setup_savings_plan_dto =
  ss_deductAmount :: "money option"
  ss_frequency :: "string option"
  ss_autoDeduct :: bool

definition savings_frequencies :: "string list" where
  "savings_frequencies = [''weekly'', ''monthly'']"

definition valid_setup_savings_plan :: "setup_savings_plan_dto \<Rightarrow> bool" where
  "valid_setup_savings_plan dto \<longleftrightarrow>
     (case ss_deductAmount dto of None \<Rightarrow> True | Some a \<Rightarrow> 1 \<le> a) \<and>
     (case ss_frequency dto of None \<Rightarrow> True | Some f \<Rightarrow> f \<in> set savings_frequencies)"

text \<open>The truth value of an optional amount.\<close>

definition amount_given :: "money option \<Rightarrow> bool" where
  "amount_given a \<longleftrightarrow> (case a of None \<Rightarrow> False | Some x \<Rightarrow> x \<noteq> 0)"

definition find_savings_plan_by_booking :: "uid \<Rightarrow> uid \<Rightarrow> (db, savings_plan option) act" where
  "find_savings_plan_by_booking pilgrimId bookingId =
     bind (find_booking_or_fail bookingId) (\<lambda>booking.
     bind (require (bs_pilgrimId booking = pilgrimId)
       (Forbidden ''Cette reservation ne vous appartient pas'')) (\<lambda>_.
     bind (find_first db_savingsPlans (\<lambda>p. sp_bookingId p = bookingId)) (\<lambda>plan.
     ret (map_option to_savings_plan_shape plan))))"

definition first_deduct_date :: "time \<Rightarrow> setup_savings_plan_dto \<Rightarrow> time option" where
  "first_deduct_date now dto =
     (if ss_autoDeduct dto \<and> truthy (ss_frequency dto)
      then Some (if ss_frequency dto = Some ''weekly'' then set_date now (get_date now + 7)
                 else if ss_frequency dto = Some ''monthly'' then set_month now (get_month now + 1)
                 else now)
      else None)"

definition updated_plan :: "setup_savings_plan_dto \<Rightarrow> time option \<Rightarrow> savings_plan \<Rightarrow> savings_plan" where
  "updated_plan dto nextDate p =
     p\<lparr>sp_autoDeduct := ss_autoDeduct dto,
       sp_deductAmount := or_keep (ss_deductAmount dto) (sp_deductAmount p),
       sp_frequency := or_keep (ss_frequency dto) (sp_frequency p),
       sp_nextDeductDate := or_keep nextDate (sp_nextDeductDate p)\<rparr>"

definition created_plan ::
  "uid \<Rightarrow> money \<Rightarrow> setup_savings_plan_dto \<Rightarrow> time option \<Rightarrow> uid \<Rightarrow> savings_plan" where
  "created_plan bookingId price dto nextDate i =
     \<lparr>sp_id = i, sp_bookingId = bookingId, sp_targetAmount = price, sp_autoDeduct = ss_autoDeduct dto,
      sp_deductAmount = ss_deductAmount dto, sp_frequency = ss_frequency dto,
      sp_nextDeductDate = nextDate\<rparr>"

definition upsert_plan ::
  "uid \<Rightarrow> (savings_plan \<Rightarrow> savings_plan) \<Rightarrow> (uid \<Rightarrow> savings_plan) \<Rightarrow> (db, savings_plan) act" where
  "upsert_plan bookingId upd mk =
     bind (find_first db_savingsPlans (\<lambda>p. sp_bookingId p = bookingId)) (\<lambda>found.
     case found of
       Some _ \<Rightarrow> update_row db_savingsPlans db_savingsPlans_update (\<lambda>p. sp_bookingId p = bookingId) upd
     | None \<Rightarrow> create_row db_savingsPlans_update mk)"

definition setup_savings_plan ::
  "time \<Rightarrow> uid \<Rightarrow> uid \<Rightarrow> setup_savings_plan_dto \<Rightarrow> (db, savings_plan) act" where
  "setup_savings_plan now pilgrimId bookingId dto =
     bind (find_booking_or_fail bookingId) (\<lambda>booking.
     bind (require (bs_pilgrimId booking = pilgrimId)
       (Forbidden ''Cette reservation ne vous appartient pas'')) (\<lambda>_.
     bind (require (\<not> (bs_status booking = CANCELLED \<or> bs_status booking = COMPLETED))
       (Conflict ''Plan d'epargne impossible sur une reservation annulee ou terminee'')) (\<lambda>_.
     bind (require (\<not> (ss_autoDeduct dto \<and> (\<not> amount_given (ss_deductAmount dto) \<or> \<not> truthy (ss_frequency dto))))
       (BadRequest ''Montant et frequence requis pour activer les cotisations automatiques'')) (\<lambda>_.
     bind (find_package_or_fail (bs_packageId booking)) (\<lambda>pkg.
     let nextDate = first_deduct_date now dto in
     bind (upsert_plan bookingId (updated_plan dto nextDate)
       (created_plan bookingId (p_price pkg) dto nextDate)) (\<lambda>plan.
     ret (to_savings_plan_shape plan)))))))"

section \<open>The savings job\<close>

definition plan_due :: "time \<Rightarrow> savings_plan \<Rightarrow> bool" where
  "plan_due now p \<longleftrightarrow>
     sp_autoDeduct p \<and> (case sp_nextDeductDate p of None \<Rightarrow> False | Some d \<Rightarrow> d \<le> now)"

definition due_plans :: "time \<Rightarrow> db \<Rightarrow> (savings_plan \<times> booking) list" where
  "due_plans now s =
     List.map_filter
       (\<lambda>p. map_option (\<lambda>b. (p, b)) (List.find (\<lambda>b. b_id b = sp_bookingId p) (db_bookings s)))
       (filter (plan_due now) (db_savingsPlans s))"

definition savings_message :: "(money \<Rightarrow> string) \<Rightarrow> uid \<Rightarrow> money \<Rightarrow> send_input" where
  "savings_message show_number pilgrimId amount =
     \<lparr>si_recipientIds = [pilgrimId], si_type = NT_PAYMENT, si_title = ''Plan d'epargne Hajj/Omra'',
      si_content = ''C'est l'heure de votre cotisation de '' @ show_number amount @
        '' GNF. Validez le paiement sur votre mobile pour avancer vers votre voyage !'',
      si_isCritical = False\<rparr>"

definition advance_plan :: "time \<Rightarrow> savings_plan \<Rightarrow> savings_plan \<Rightarrow> savings_plan" where
  "advance_plan now plan p =
     (let date = or_else (sp_nextDeductDate plan) now;
          known = (sp_frequency plan = Some ''weekly'' \<or> sp_frequency plan = Some ''monthly'');
          nextDate = (if sp_frequency plan = Some ''weekly'' then set_date date (get_date date + 7)
                      else if sp_frequency plan = Some ''monthly'' then set_month date (get_month date + 1)
                      else date);
          autoDeduct = (if known then sp_autoDeduct plan else False)
      in p\<lparr>sp_nextDeductDate := (if autoDeduct then Some nextDate else None), sp_autoDeduct := autoDeduct\<rparr>)"

definition process_one ::
  "time \<Rightarrow> (money \<Rightarrow> string) \<Rightarrow> (uid \<Rightarrow> string) \<Rightarrow> savings_plan \<times> booking \<Rightarrow> (db, unit) act" where
  "process_one now show_number refs pb =
     (case pb of (plan, booking) \<Rightarrow>
        if \<not> amount_given (sp_deductAmount plan) then ret ()
        else
          let amount = or_else (sp_deductAmount plan) 0 in
          catch
            (bind (initiate now (refs (sp_id plan)) (b_pilgrimId booking)
               \<lparr>ip_bookingId = sp_bookingId plan, ip_amount = amount, ip_method = MOBILE_MONEY_ORANGE\<rparr>) (\<lambda>_.
             bind (send now (savings_message show_number (b_pilgrimId booking) amount)) (\<lambda>_.
             bind (update_row db_savingsPlans db_savingsPlans_update (\<lambda>p. sp_id p = sp_id plan)
               (advance_plan now plan)) (\<lambda>_. ret ()))))
            (\<lambda>_. ret ()))"

definition process_due_savings ::
  "time \<Rightarrow> (money \<Rightarrow> string) \<Rightarrow> (uid \<Rightarrow> string) \<Rightarrow> (db, unit) act" where
  "process_due_savings now show_number refs =
     bind (query (due_plans now)) (\<lambda>duePlans. for_each duePlans (process_one now show_number refs))"

section \<open>The reminders of a balance\<close>

definition active_status :: "booking_status \<Rightarrow> bool" where
  "active_status st \<longleftrightarrow> st = PENDING_PAYMENT \<or> st = CONFIRMED"

definition in_reminder_window :: "time \<Rightarrow> time \<Rightarrow> bool" where
  "in_reminder_window now startDate \<longleftrightarrow>
     (let maxOffset = Max (set balance_reminder_offsets_days);
          windowStart = set_date now (get_date now + balance_due_days_before_departure);
          windowEnd = set_date windowStart (get_date windowStart + (maxOffset + 1))
      in windowStart \<le> startDate \<and> startDate < windowEnd)"

definition with_package :: "booking list \<Rightarrow> db \<Rightarrow> (booking \<times> package) list" where
  "with_package bs s =
     List.map_filter
       (\<lambda>b. map_option (\<lambda>p. (b, p)) (List.find (\<lambda>p. p_id p = b_packageId b) (db_packages s))) bs"

definition reminder_candidates :: "time \<Rightarrow> db \<Rightarrow> (booking \<times> package) list" where
  "reminder_candidates now s =
     filter (\<lambda>bp. in_reminder_window now (p_startDate (snd bp)))
       (with_package (filter (\<lambda>b. active_status (b_status b)) (db_bookings s)) s)"

definition balance_message ::
  "(money \<Rightarrow> string) \<Rightarrow> (time \<Rightarrow> string) \<Rightarrow> booking \<Rightarrow> package \<Rightarrow> time \<Rightarrow> money \<Rightarrow> send_input" where
  "balance_message format_gnf format_date b p dueDate balance =
     \<lparr>si_recipientIds = [b_pilgrimId b], si_type = NT_PAYMENT,
      si_title = ''Solde a regler avant le '' @ format_date dueDate,
      si_content = ''Il reste '' @ format_gnf balance @ '' a regler pour << '' @ p_title p @
        '' >> avant le '' @ format_date dueDate @
        ''. Vous pouvez payer une tranche depuis votre dossier de reservation.'',
      si_isCritical = False\<rparr>"

text \<open>
  The payments were read with the bookings, before the loop; the loop sends messages only,
  so reading them in the loop is the same.
\<close>

fun remind_balances ::
  "time \<Rightarrow> (money \<Rightarrow> string) \<Rightarrow> (time \<Rightarrow> string) \<Rightarrow> payment list \<Rightarrow> (booking \<times> package) list \<Rightarrow>
    nat \<Rightarrow> (db, nat) act" where
  "remind_balances now fg fd ps [] sent = ret sent"
| "remind_balances now fg fd ps ((b, p) # rest) sent =
     (let dueDate = balance_due_date (p_startDate p);
          daysLeft = days_between now dueDate;
          balance = p_price p - total_paid ps (b_id b)
      in if daysLeft \<notin> set balance_reminder_offsets_days \<or> balance \<le> 0
         then remind_balances now fg fd ps rest sent
         else bind (catch (bind (send now (balance_message fg fd b p dueDate balance)) (\<lambda>_. ret (sent + 1)))
                (\<lambda>_. ret sent)) (\<lambda>sent'. remind_balances now fg fd ps rest sent'))"

definition send_preventive_reminders ::
  "time \<Rightarrow> (money \<Rightarrow> string) \<Rightarrow> (time \<Rightarrow> string) \<Rightarrow> (db, nat) act" where
  "send_preventive_reminders now fg fd =
     bind (query (\<lambda>s. (reminder_candidates now s, db_payments s))) (\<lambda>(bookings, ps).
     remind_balances now fg fd ps bookings 0)"

section \<open>The treasury projection\<close>

type_synonym projections = "(string \<times> money) list"

fun add_month :: "string \<Rightarrow> money \<Rightarrow> projections \<Rightarrow> projections" where
  "add_month k a [] = [(k, a)]"
| "add_month k a ((k', v) # m) = (if k' = k then (k', v + a) # m else (k', v) # add_month k a m)"

text \<open>
  The loop over the planned deductions: its state is the map, the balance left and the
  date; \<open>project_open\<close> is its condition and \<open>project_body\<close> its body.
\<close>

type_synonym project_state = "projections \<times> money \<times> time"

definition project_open :: "time \<Rightarrow> project_state \<Rightarrow> bool" where
  "project_open startDate st = (case st of (m, balance, date) \<Rightarrow> 0 < balance \<and> date < startDate)"

definition project_body :: "string option \<Rightarrow> money \<Rightarrow> project_state \<Rightarrow> project_state" where
  "project_body frequency deductAmount st =
     (case st of (m, balance, date) \<Rightarrow>
        let amount = min balance deductAmount
        in (add_month (month_key date) amount m, balance - amount,
            if frequency = Some ''weekly'' then set_date date (get_date date + 7)
            else set_month date (get_month date + 1)))"

lemma project_body_later: "snd (snd st) + 7 * day_ms \<le> snd (snd (project_body f d st))"
proof -
  obtain m balance date where st: "st = (m, balance, date)" by (metis prod.exhaust)
  have "date + 7 * day_ms \<le> date + 28 * day_ms" by (simp add: day_ms_def)
  then have "date + 7 * day_ms \<le> set_month date (get_month date + 1)"
    by (rule order_trans [OF _ set_month_forward])
  then show ?thesis
    using set_date_shift [of date 7]
    by (simp add: project_body_def st Let_def)
qed

function project :: "string option \<Rightarrow> money \<Rightarrow> time \<Rightarrow> project_state \<Rightarrow> project_state" where
  "project frequency deductAmount startDate st =
     (if project_open startDate st
      then project frequency deductAmount startDate (project_body frequency deductAmount st) else st)"
  by auto

termination
proof (relation "measure (\<lambda>(f, d, startDate, st). nat (startDate - snd (snd st)))")
  fix f d startDate and st :: project_state
  assume "project_open startDate st"
  then have "snd (snd st) < startDate" by (auto simp: project_open_def split: prod.splits)
  moreover have "snd (snd st) < snd (snd (project_body f d st))"
    using project_body_later [of st f d] by (simp add: day_ms_def)
  ultimately show "((f, d, startDate, project_body f d st), f, d, startDate, st)
      \<in> measure (\<lambda>(f, d, startDate, st). nat (startDate - snd (snd st)))"
    by simp
qed simp

declare project.simps [simp del]

definition planned_deductions :: "savings_plan option \<Rightarrow> (money \<times> time \<times> string option) option" where
  "planned_deductions plan =
     (case plan of None \<Rightarrow> None
      | Some sp \<Rightarrow>
          if sp_autoDeduct sp \<and> amount_given (sp_deductAmount sp) \<and> sp_nextDeductDate sp \<noteq> None \<and>
            truthy (sp_frequency sp)
          then Some (or_else (sp_deductAmount sp) 0, or_else (sp_nextDeductDate sp) 0, sp_frequency sp)
          else None)"

definition project_booking ::
  "time \<Rightarrow> time \<Rightarrow> savings_plan option \<Rightarrow> money \<Rightarrow> projections \<Rightarrow> projections" where
  "project_booking now startDate plan balance m =
     (if 0 < balance then
        (case planned_deductions plan of
           Some (deductAmount, date, frequency) \<Rightarrow>
             (case project frequency deductAmount startDate (m, balance, date) of (m', left, _) \<Rightarrow>
                if 0 < left then add_month (month_key startDate) left m' else m')
         | None \<Rightarrow>
             let dueDate = balance_due_date startDate;
                 effectiveDate = (if dueDate < now then now else dueDate)
             in add_month (month_key effectiveDate) balance m)
      else m)"

record treasury_projection =
  tp_totalExpected :: money
  tp_totalCollected :: money
  tp_outstandingBalance :: money
  tp_projections :: projections

fun treasury_loop ::
  "time \<Rightarrow> db \<Rightarrow> (booking \<times> package) list \<Rightarrow> treasury_projection \<Rightarrow> treasury_projection" where
  "treasury_loop now s [] acc = acc"
| "treasury_loop now s ((b, p) # rest) acc =
     (let price = p_price p;
          collected = total_paid (db_payments s) (b_id b);
          balance = max 0 (price - collected);
          plan = List.find (\<lambda>x. sp_bookingId x = b_id b) (db_savingsPlans s)
      in treasury_loop now s rest
           \<lparr>tp_totalExpected = tp_totalExpected acc + price,
            tp_totalCollected = tp_totalCollected acc + collected,
            tp_outstandingBalance = tp_outstandingBalance acc + balance,
            tp_projections = project_booking now (p_startDate p) plan balance (tp_projections acc)\<rparr>)"

text \<open>
  The months are digits and a dash, for which \<open>localeCompare\<close> is the order of the code
  units; the list order of the library on strings.
\<close>

definition treasury_rows :: "uid \<Rightarrow> db \<Rightarrow> (booking \<times> package) list" where
  "treasury_rows agencyId s =
     with_package (filter (\<lambda>b. b_agencyId b = agencyId \<and> b_status b \<noteq> CANCELLED) (db_bookings s)) s"

definition get_treasury_projection :: "time \<Rightarrow> uid \<Rightarrow> (db, treasury_projection) act" where
  "get_treasury_projection now ownerId =
     bind (find_by_owner_or_fail ownerId) (\<lambda>agency.
     query (\<lambda>s.
       let r = treasury_loop now s (treasury_rows (as_id agency) s)
         \<lparr>tp_totalExpected = 0, tp_totalCollected = 0, tp_outstandingBalance = 0, tp_projections = []\<rparr>
       in r\<lparr>tp_projections := sort_key fst (tp_projections r)\<rparr>))"

section \<open>Lemmas\<close>

lemma reads_savings [reads_intro]:
  "reads_only (find_savings_plan_by_booking i j)" "reads_only (get_treasury_projection now i)"
  unfolding find_savings_plan_by_booking_def get_treasury_projection_def
  by (intro reads_intro)+

lemmas keeps_savings_read [keeps_intro] = reads_savings [THEN keeps_reads]

subsection \<open>Monthly totals\<close>

definition total_of :: "projections \<Rightarrow> money" where
  "total_of m = sum_list (map snd m)"

lemma add_month_total [simp]: "total_of (add_month k a m) = total_of m + a"
  by (induction k a m rule: add_month.induct) (auto simp: total_of_def)

lemma add_month_keys: "fst ` set (add_month k a m) = insert k (fst ` set m)"
  by (induction k a m rule: add_month.induct) auto

lemma add_month_distinct [simp]: "distinct (map fst m) \<Longrightarrow> distinct (map fst (add_month k a m))"
proof (induction k a m rule: add_month.induct)
  case (2 k a k' v m)
  then show ?case using add_month_keys [of k a m] by (auto simp: image_iff)
qed simp

text \<open>
  A pass of the loop moves money from the balance to a month; the balance never goes below
  zero.
\<close>

definition project_inv :: "money \<Rightarrow> project_state \<Rightarrow> bool" where
  "project_inv whole st =
     (case st of (m, balance, date) \<Rightarrow>
        total_of m + balance = whole \<and> 0 \<le> balance \<and> distinct (map fst m))"

lemma project_body_inv: "project_inv whole st \<Longrightarrow> project_inv whole (project_body f d st)"
  by (auto simp: project_inv_def project_body_def Let_def split: prod.splits)

lemma project_keeps_inv: "project_inv whole st \<Longrightarrow> project_inv whole (project f d startDate st)"
proof (induction f d startDate st rule: project.induct)
  case (1 f d startDate st)
  then show ?case by (subst project.simps) (simp add: project_body_inv)
qed

lemma project_booking_total:
  assumes "distinct (map fst m)"
  shows "total_of (project_booking now startDate plan balance m) = total_of m + max 0 balance"
    and "distinct (map fst (project_booking now startDate plan balance m))"
proof -
  have *: "total_of (project_booking now startDate plan balance m) = total_of m + max 0 balance \<and>
    distinct (map fst (project_booking now startDate plan balance m))"
  proof (cases "0 < balance")
    case True
    show ?thesis
    proof (cases "planned_deductions plan")
      case None
      then show ?thesis using True assms by (simp add: project_booking_def Let_def)
    next
      case (Some x)
      obtain d date f where x: "x = (d, date, f)" by (metis prod.exhaust)
      obtain m' left' date' where r: "project f d startDate (m, balance, date) = (m', left', date')"
        by (metis prod.exhaust)
      have "project_inv (total_of m + balance) (m, balance, date)"
        using assms True by (simp add: project_inv_def)
      from project_keeps_inv [OF this, of f d startDate]
      have "total_of m' + left' = total_of m + balance" "0 \<le> left'" "distinct (map fst m')"
        by (simp_all add: r project_inv_def)
      then show ?thesis using True Some x r by (auto simp: project_booking_def)
    qed
  qed (use assms in \<open>simp add: project_booking_def\<close>)
  then show "total_of (project_booking now startDate plan balance m) = total_of m + max 0 balance"
    and "distinct (map fst (project_booking now startDate plan balance m))" by blast+
qed

definition balance_of :: "db \<Rightarrow> booking \<times> package \<Rightarrow> money" where
  "balance_of s bp = max 0 (p_price (snd bp) - total_paid (db_payments s) (b_id (fst bp)))"

lemma treasury_loop_totals:
  assumes "distinct (map fst (tp_projections acc))"
  shows "let r = treasury_loop now s rows acc in
    distinct (map fst (tp_projections r)) \<and>
    total_of (tp_projections r) = total_of (tp_projections acc) + sum_list (map (balance_of s) rows) \<and>
    tp_outstandingBalance r = tp_outstandingBalance acc + sum_list (map (balance_of s) rows) \<and>
    tp_totalExpected r = tp_totalExpected acc + sum_list (map (p_price \<circ> snd) rows) \<and>
    tp_totalCollected r = tp_totalCollected acc +
      sum_list (map (total_paid (db_payments s) \<circ> b_id \<circ> fst) rows)"
  using assms
proof (induction now s rows acc rule: treasury_loop.induct)
  case (1 now s acc)
  then show ?case by simp
next
  case (2 now s b p rest acc)
  then show ?case by (simp add: Let_def project_booking_total balance_of_def ac_simps)
qed

lemma total_of_sort [simp]: "total_of (sort_key f m) = total_of m"
proof -
  have "mset (map snd (sort_key f m)) = mset (map snd m)" by simp
  then show ?thesis unfolding total_of_def by (metis sum_mset_sum_list)
qed

lemma sort_key_distinct_keys: "distinct (map f m) \<Longrightarrow> distinct (map f (sort_key f m))"
  by (metis mset_map mset_sort mset_eq_imp_distinct_iff)

subsection \<open>Plans\<close>

lemma to_savings_plan_shape_id [simp]: "to_savings_plan_shape p = p"
  by (simp add: to_savings_plan_shape_def)

lemma upsert_plan_run:
  "\<exists>plan t. upsert_plan i (updated_plan dto d) (created_plan i price dto d) s = (Inr plan, t) \<and>
    List.find (\<lambda>p. sp_bookingId p = i) (db_savingsPlans t) = Some plan \<and> db_bookings t = db_bookings s \<and>
    sp_autoDeduct plan = ss_autoDeduct dto \<and>
    (ss_autoDeduct dto \<longrightarrow> d \<noteq> None \<longrightarrow> sp_nextDeductDate plan = d)"
proof (cases "List.find (\<lambda>p. sp_bookingId p = i) (db_savingsPlans s)")
  case None
  then show ?thesis
    by (simp add: upsert_plan_def create_row_def Let_def find_append created_plan_def)
next
  case (Some p)
  let ?f = "updated_plan dto d"
  have "List.find (\<lambda>p. sp_bookingId p = i) (map (\<lambda>p. if sp_bookingId p = i then ?f p else p) (db_savingsPlans s)) =
      Some (?f p)"
    using find_map_update [of "\<lambda>p. sp_bookingId p = i" "\<lambda>p. sp_bookingId p = i" ?f] Some
    by (auto simp: updated_plan_def dest: find_Some_set)
  then show ?thesis
    using Some by (auto simp: upsert_plan_def update_row_def updated_plan_def or_keep_def split: option.split)
qed

subsection \<open>The window of the reminders\<close>

lemma with_package_filter: "with_package (filter P bs) s = filter (P \<circ> fst) (with_package bs s)"
  by (induction bs) (auto simp: with_package_def List.map_filter_simps split: option.split)

lemma day_ms_nonneg [simp]: "0 \<le> day_ms"
  by (simp add: day_ms_def)

lemma day_of_bounds: "day_of t * day_ms \<le> t" "t < (day_of t + 1) * day_ms"
proof -
  have "day_of t * day_ms + t mod day_ms = t" by (simp add: day_of_def)
  moreover have "0 \<le> t mod day_ms" "t mod day_ms < day_ms" by simp_all
  ultimately show "day_of t * day_ms \<le> t" "t < (day_of t + 1) * day_ms"
    unfolding distrib_right by linarith+
qed

lemma day_of_shift: "day_of (t + k * day_ms) = day_of t + k"
  by (simp add: day_of_def)

lemma days_to_balance: "days_between now (balance_due_date d) = day_of d - 30 - day_of now"
  using day_of_shift [of d "- 30"] by (simp add: days_between_days balance_due_date_shift)

lemma reminder_window_bounds:
  "in_reminder_window now d \<longleftrightarrow> now + 30 * day_ms \<le> d \<and> d < now + 45 * day_ms"
proof -
  have m: "Max (set balance_reminder_offsets_days) + 1 = 15"
    by (simp add: balance_reminder_offsets_days_def)
  have "set_date now (get_date now + 30) = now + 30 * day_ms" by (rule set_date_shift)
  moreover have "set_date (now + 30 * day_ms) (get_date (now + 30 * day_ms) + 15) = now + 45 * day_ms"
    using set_date_shift [of "now + 30 * day_ms" 15] by simp
  ultimately show ?thesis
    by (simp add: in_reminder_window_def Let_def m balance_due_days_before_departure_def)
qed

text \<open>Every departure whose balance is due in 14, 7 or 1 days is in the window.\<close>

lemma reminder_window_complete:
  assumes "days_between now (balance_due_date d) \<in> set balance_reminder_offsets_days"
  shows "in_reminder_window now d"
proof -
  let ?k = "day_of d - day_of now"
  have k: "31 \<le> ?k" "?k \<le> 44"
    using assms by (auto simp: days_to_balance balance_reminder_offsets_days_def)
  have "(day_of now + 31) * day_ms \<le> day_of d * day_ms" "(day_of d + 1) * day_ms \<le> (day_of now + 45) * day_ms"
    by (rule mult_right_mono, use k in simp, simp add: day_ms_def)+
  then show ?thesis
    unfolding reminder_window_bounds
    using day_of_bounds [of d] day_of_bounds [of now] by (simp add: distrib_right)
qed

definition owes_reminder :: "time \<Rightarrow> payment list \<Rightarrow> booking \<times> package \<Rightarrow> bool" where
  "owes_reminder now ps bp \<longleftrightarrow>
     days_between now (balance_due_date (p_startDate (snd bp))) \<in> set balance_reminder_offsets_days \<and>
     total_paid ps (b_id (fst bp)) < p_price (snd bp)"

lemma remind_balances_run:
  "\<exists>t. remind_balances now fg fd ps rows n s = (Inr (n + length (filter (owes_reminder now ps) rows)), t) \<and>
     only_messages s t \<and> map n_recipientId (db_notifications t) =
       map n_recipientId (db_notifications s) @ map (b_pilgrimId \<circ> fst) (filter (owes_reminder now ps) rows)"
proof (induction rows arbitrary: n s)
  case Nil
  then show ?case by simp
next
  case (Cons bp rest)
  obtain b p where bp: "bp = (b, p)" by (metis prod.exhaust)
  show ?case
  proof (cases "owes_reminder now ps (b, p)")
    case False
    then have "remind_balances now fg fd ps (bp # rest) n s = remind_balances now fg fd ps rest n s"
      by (simp add: bp owes_reminder_def not_less Let_def)
    then show ?thesis using Cons.IH [of n s] False by (simp add: bp)
  next
    case True
    define m where "m = balance_message fg fd b p (balance_due_date (p_startDate p))
        (p_price p - total_paid ps (b_id b))"
    obtain ns u where sent: "send now m s = (Inr ns, u)" using send_total by blast
    have u: "only_messages s u" using sent by (rule send_ok_only_messages)
    have nu: "map n_recipientId (db_notifications u) = map n_recipientId (db_notifications s) @ [b_pilgrimId b]"
      using sent by (auto simp: send_run Let_def notification_row_def m_def balance_message_def)
    obtain t where t: "remind_balances now fg fd ps rest (n + 1) u =
          (Inr (n + 1 + length (filter (owes_reminder now ps) rest)), t)" "only_messages u t"
        "map n_recipientId (db_notifications t) =
          map n_recipientId (db_notifications u) @ map (b_pilgrimId \<circ> fst) (filter (owes_reminder now ps) rest)"
      using Cons.IH [of "n + 1" u] by blast
    have "remind_balances now fg fd ps (bp # rest) n s = remind_balances now fg fd ps rest (n + 1) u"
      using True sent by (simp add: bp owes_reminder_def not_le m_def [symmetric] catch_def Let_def)
    then show ?thesis using t nu True only_messages_trans [OF u t(2)] by (simp add: bp)
  qed
qed

subsection \<open>One pass of the savings job\<close>

lemma initiate_run:
  assumes "List.find (\<lambda>b. b_id b = ip_bookingId dto) (db_bookings s) = Some b"
    and "b_pilgrimId b = pilgrimId"
    and "List.find (\<lambda>p. pay_providerReference p = ref) (db_payments s) = None"
  shows "\<exists>v n. initiate now ref pilgrimId dto s = (Inr v,
    db_payments_update (\<lambda>ps. ps @ [new_payment now ref dto n (db_next s)]) (s\<lparr>db_next := Suc (db_next s)\<rparr>))"
  using assms
  by (intro exI [of _ "to_payment_shape _"] exI [of _ "Suc _"])
    (simp add: initiate_def find_booking_or_fail_run create_row_def Let_def)

lemma process_one_run:
  assumes b: "List.find (\<lambda>b. b_id b = sp_bookingId p) (db_bookings s) = Some b"
    and fresh: "List.find (\<lambda>x. pay_providerReference x = refs (sp_id p)) (db_payments s) = None"
    and p: "List.find (\<lambda>x. sp_id x = sp_id p) (db_savingsPlans s) = Some p"
    and a: "sp_deductAmount p = Some a" "a \<noteq> 0"
  shows "\<exists>n t. process_one now sn refs (p, b) s = (Inr (), t) \<and> db_bookings t = db_bookings s \<and>
    db_payments t = db_payments s @ [new_payment now (refs (sp_id p)) \<lparr>ip_bookingId = sp_bookingId p,
      ip_amount = a, ip_method = MOBILE_MONEY_ORANGE\<rparr> n (db_next s)] \<and>
    List.find (\<lambda>x. sp_id x = sp_id p) (db_savingsPlans t) = Some (advance_plan now p p)"
proof -
  let ?dto = "\<lparr>ip_bookingId = sp_bookingId p, ip_amount = a, ip_method = MOBILE_MONEY_ORANGE\<rparr>"
  obtain v n where i: "initiate now (refs (sp_id p)) (b_pilgrimId b) ?dto s = (Inr v,
      db_payments_update (\<lambda>ps. ps @ [new_payment now (refs (sp_id p)) ?dto n (db_next s)])
        (s\<lparr>db_next := Suc (db_next s)\<rparr>))" (is "_ = (_, ?u)")
    using initiate_run [of ?dto s b "b_pilgrimId b" "refs (sp_id p)" now] b fresh by auto
  obtain ns w where sent: "send now (savings_message sn (b_pilgrimId b) a) ?u = (Inr ns, w)"
    using send_total by blast
  have w: "only_messages ?u w" using sent by (rule send_ok_only_messages)
  note same = only_messagesD [OF w]
  let ?f = "advance_plan now p"
  have "List.find (\<lambda>x. sp_id x = sp_id p)
      (map (\<lambda>x. if sp_id x = sp_id p then ?f x else x) (db_savingsPlans s)) = Some (?f p)"
    using find_map_update [of "\<lambda>x. sp_id x = sp_id p" "\<lambda>x. sp_id x = sp_id p" ?f] p
    by (auto simp: advance_plan_def Let_def)
  then show ?thesis
    using i sent p a
    by (intro exI [of _ n] exI [of _ "snd (process_one now sn refs (p, b) s)"] conjI)
      (simp_all add: process_one_def amount_given_def Let_def catch_def update_row_def same)
qed

section \<open>Properties\<close>

text \<open>
  C13: the treasury projection adds up: the months are listed once each, in order, and their
  amounts sum to the outstanding balance, which is what the bookings of the agency that are
  not cancelled still owe, booking by booking.
\<close>
theorem treasury_adds_up:
  assumes "get_treasury_projection now ownerId s = (Inr r, t)"
  shows "\<exists>a. List.find (\<lambda>a. a_ownerId a = ownerId) (db_agencies s) = Some a \<and>
    sorted_wrt (<) (map fst (tp_projections r)) \<and>
    sum_list (map snd (tp_projections r)) = tp_outstandingBalance r \<and>
    tp_outstandingBalance r = sum_list (map (balance_of s) (treasury_rows (a_id a) s)) \<and>
    tp_totalExpected r = sum_list (map (p_price \<circ> snd) (treasury_rows (a_id a) s))"
proof -
  obtain a where a: "List.find (\<lambda>a. a_ownerId a = ownerId) (db_agencies s) = Some a"
    and q: "(Inr r, t) = query (\<lambda>s. let r = treasury_loop now s (treasury_rows (a_id a) s)
         \<lparr>tp_totalExpected = 0, tp_totalCollected = 0, tp_outstandingBalance = 0, tp_projections = []\<rparr>
       in r\<lparr>tp_projections := sort_key fst (tp_projections r)\<rparr>) s"
    using assms by (auto simp: get_treasury_projection_def bind_ok find_by_owner_or_fail_ok)
  define l where "l = treasury_loop now s (treasury_rows (a_id a) s)
     \<lparr>tp_totalExpected = 0, tp_totalCollected = 0, tp_outstandingBalance = 0, tp_projections = []\<rparr>"
  have r: "r = l\<lparr>tp_projections := sort_key fst (tp_projections l)\<rparr>"
    using q by (simp add: l_def Let_def)
  note tot = treasury_loop_totals [of "\<lparr>tp_totalExpected = 0, tp_totalCollected = 0,
     tp_outstandingBalance = 0, tp_projections = []\<rparr>" now s "treasury_rows (a_id a) s",
     folded l_def, simplified]
  have d: "distinct (map fst (tp_projections l))"
    and sums: "total_of (tp_projections l) = sum_list (map (balance_of s) (treasury_rows (a_id a) s))"
      "tp_outstandingBalance l = sum_list (map (balance_of s) (treasury_rows (a_id a) s))"
      "tp_totalExpected l = sum_list (map (p_price \<circ> snd) (treasury_rows (a_id a) s))"
    using tot by (simp_all add: Let_def total_of_def)
  have "sorted_wrt (<) (map fst (tp_projections r))"
    using sort_key_distinct_keys [OF d] by (simp add: r strict_sorted_iff)
  moreover have "sum_list (map snd (tp_projections r)) = tp_outstandingBalance r"
    using total_of_sort [of fst "tp_projections l"] sums by (simp add: r total_of_def)
  ultimately show ?thesis using a sums by (simp add: r)
qed

theorem treasury_adds_up_witness:
  "\<exists>r. get_treasury_projection 0 1 sample_payment_db = (Inr r, sample_payment_db) \<and>
     sum_list (map snd (tp_projections r)) = tp_outstandingBalance r \<and> tp_outstandingBalance r = 600"
proof -
  obtain r where r: "get_treasury_projection 0 1 sample_payment_db = (Inr r, sample_payment_db)"
    by (simp add: get_treasury_projection_def find_by_owner_or_fail_run sample_payment_db_def sample_booking_defs)
  have "map (balance_of sample_payment_db) (treasury_rows 2 sample_payment_db) = [600]"
    by (simp add: balance_of_def treasury_rows_def with_package_def List.map_filter_def total_paid_def
        sample_payment_db_def sample_payment_def new_payment_def sample_booking_defs)
  then show ?thesis
    using treasury_adds_up [OF r] r by (auto simp: sample_payment_db_def sample_booking_defs)
qed

text \<open>
  C14: the loop over the planned deductions ends, whatever the plan: its condition fails
  after at most one pass per week between the first deduction and the departure.
\<close>
theorem projection_terminates:
  "\<exists>n. n \<le> nat ((startDate - date) div (7 * day_ms) + 1) \<and>
     \<not> project_open startDate ((project_body f d ^^ n) (m, balance, date)) \<and>
     (\<forall>k < n. project_open startDate ((project_body f d ^^ k) (m, balance, date))) \<and>
     project f d startDate (m, balance, date) = (project_body f d ^^ n) (m, balance, date)"
proof -
  let ?it = "\<lambda>k. (project_body f d ^^ k) (m, balance, date)"
  have late: "date + int k * (7 * day_ms) \<le> snd (snd (?it k))" for k
  proof (induction k)
    case (Suc k)
    then show ?case using project_body_later [of "?it k" f d] by (simp add: algebra_simps)
  qed simp
  have "\<exists>k. \<not> project_open startDate (?it k) \<and> k \<le> nat ((startDate - date) div (7 * day_ms) + 1)"
  proof -
    let ?q = "(startDate - date) div (7 * day_ms)"
    have pos: "0 < 7 * day_ms" by simp
    have "(startDate - date) mod (7 * day_ms) < 7 * day_ms" using pos by (rule pos_mod_bound)
    then have "startDate - date < (?q + 1) * (7 * day_ms)"
      unfolding distrib_right using div_mult_mod_eq [of "startDate - date" "7 * day_ms"] by linarith
    also have "\<dots> \<le> int (nat (?q + 1)) * (7 * day_ms)"
      by (intro mult_right_mono) (use day_ms_nonneg in auto)
    finally have "startDate \<le> snd (snd (?it (nat (?q + 1))))"
      using late [of "nat (?q + 1)"] by simp
    then have "\<not> project_open startDate (?it (nat (?q + 1)))"
      by (auto simp: project_open_def split: prod.splits)
    then show ?thesis by blast
  qed
  then obtain k where k: "\<not> project_open startDate (?it k)" "k \<le> nat ((startDate - date) div (7 * day_ms) + 1)"
    by blast
  define n where "n = (LEAST k. \<not> project_open startDate (?it k))"
  have n: "\<not> project_open startDate (?it n)" "n \<le> k"
    unfolding n_def using k(1) by (rule LeastI, intro Least_le) (rule k(1))
  have before: "project_open startDate (?it j)" if "j < n" for j
    using that not_less_Least [of j "\<lambda>k. \<not> project_open startDate (?it k)"] by (simp add: n_def)
  have "project f d startDate st = (project_body f d ^^ j) st"
    if "\<forall>i < j. project_open startDate ((project_body f d ^^ i) st)"
      and "\<not> project_open startDate ((project_body f d ^^ j) st)" for j st
    using that
  proof (induction j arbitrary: st)
    case 0
    then show ?case by (subst project.simps) simp
  next
    case (Suc j)
    have "project_open startDate st" using Suc.prems(1) by (metis funpow_0 zero_less_Suc)
    then have "project f d startDate st = project f d startDate (project_body f d st)"
      by (subst project.simps) simp
    also have "\<dots> = (project_body f d ^^ j) (project_body f d st)"
    proof (rule Suc.IH)
      show "\<forall>i<j. project_open startDate ((project_body f d ^^ i) (project_body f d st))"
        using Suc.prems(1) by (metis Suc_less_eq funpow_Suc_right o_apply)
      show "\<not> project_open startDate ((project_body f d ^^ j) (project_body f d st))"
        using Suc.prems(2) by (metis funpow_Suc_right o_apply)
    qed
    finally show ?case by (metis funpow_Suc_right o_apply)
  qed
  then show ?thesis using n k(2) before by (intro exI [of _ n]) auto
qed

theorem projection_terminates_witness:
  "\<exists>n \<le> 2. project (Some ''weekly'') 100 (8 * day_ms) ([], 500, 0) =
     (project_body (Some ''weekly'') 100 ^^ n) ([], 500, 0)"
proof -
  have "nat ((8 * day_ms - 0) div (7 * day_ms) + 1) = 2" by (simp add: day_ms_def)
  then show ?thesis
    using projection_terminates [of "8 * day_ms" 0 "Some ''weekly''" 100 "[]" 500] by auto
qed

text \<open>
  C15: the daily reminders reach exactly the pilgrims of the active bookings whose balance is
  due in fourteen, seven or one calendar days and that still owe something: the window of
  departures the query reads loses none of them.
\<close>
theorem reminders_complete:
  "\<exists>t. send_preventive_reminders now fg fd s = (Inr (length (filter (owes_reminder now (db_payments s))
        (with_package (filter (\<lambda>b. active_status (b_status b)) (db_bookings s)) s))), t) \<and>
     only_messages s t \<and>
     map n_recipientId (db_notifications t) = map n_recipientId (db_notifications s) @
       map (b_pilgrimId \<circ> fst) (filter (owes_reminder now (db_payments s))
         (with_package (filter (\<lambda>b. active_status (b_status b)) (db_bookings s)) s))"
proof -
  have "filter (owes_reminder now ps) (filter (\<lambda>bp. in_reminder_window now (p_startDate (snd bp))) rows) =
      filter (owes_reminder now ps) rows" for ps rows
    unfolding filter_filter
    by (rule filter_cong [OF refl]) (auto simp: owes_reminder_def dest: reminder_window_complete)
  then show ?thesis
    using remind_balances_run [of now fg fd "db_payments s" "reminder_candidates now s" 0 s]
    by (simp add: send_preventive_reminders_def reminder_candidates_def)
qed

text \<open>
  Setting up a savings plan is refused, in this order and without effect, for an unknown
  booking, for another's booking, for a cancelled or completed one, and for automatic
  deductions without an amount or a frequency; it succeeds otherwise.
\<close>
theorem setup_savings_plan_refusals:
  assumes l: "seat_ledger s"
  shows "case List.find (\<lambda>b. b_id b = i) (db_bookings s) of
      None \<Rightarrow> setup_savings_plan now pilgrimId i dto s = (Inl (NotFound ''Reservation introuvable''), s)
    | Some b \<Rightarrow>
        if b_pilgrimId b \<noteq> pilgrimId
        then setup_savings_plan now pilgrimId i dto s =
          (Inl (Forbidden ''Cette reservation ne vous appartient pas''), s)
        else if b_status b \<in> {CANCELLED, COMPLETED}
        then setup_savings_plan now pilgrimId i dto s =
          (Inl (Conflict ''Plan d'epargne impossible sur une reservation annulee ou terminee''), s)
        else if ss_autoDeduct dto \<and> \<not> (amount_given (ss_deductAmount dto) \<and> truthy (ss_frequency dto))
        then setup_savings_plan now pilgrimId i dto s =
          (Inl (BadRequest ''Montant et frequence requis pour activer les cotisations automatiques''), s)
        else \<exists>plan t. setup_savings_plan now pilgrimId i dto s = (Inr plan, t) \<and>
          find_savings_plan_by_booking pilgrimId i t = (Inr (Some plan), t) \<and>
          sp_autoDeduct plan = ss_autoDeduct dto \<and>
          (ss_autoDeduct dto \<longrightarrow> sp_nextDeductDate plan = first_deduct_date now dto)"
proof (cases "List.find (\<lambda>b. b_id b = i) (db_bookings s)")
  case None
  then show ?thesis by (simp add: setup_savings_plan_def find_booking_or_fail_run)
next
  case (Some b)
  then have bin: "b \<in> set (db_bookings s)" by (auto dest: find_Some_set)
  obtain k where k: "List.find (\<lambda>k. p_id k = b_packageId b) (db_packages s) = Some k"
    using ledger_package [OF l bin] by blast
  show ?thesis
  proof (cases "b_pilgrimId b = pilgrimId \<and> b_status b \<notin> {CANCELLED, COMPLETED} \<and>
      \<not> (ss_autoDeduct dto \<and> \<not> (amount_given (ss_deductAmount dto) \<and> truthy (ss_frequency dto)))")
    case False
    then show ?thesis
      using Some by (auto simp: setup_savings_plan_def find_booking_or_fail_run)
  next
    case True
    obtain plan t where plan: "upsert_plan i (updated_plan dto (first_deduct_date now dto))
        (created_plan i (p_price k) dto (first_deduct_date now dto)) s = (Inr plan, t)"
      "List.find (\<lambda>p. sp_bookingId p = i) (db_savingsPlans t) = Some plan" "db_bookings t = db_bookings s"
      "sp_autoDeduct plan = ss_autoDeduct dto"
      "ss_autoDeduct dto \<Longrightarrow> first_deduct_date now dto \<noteq> None \<Longrightarrow>
        sp_nextDeductDate plan = first_deduct_date now dto"
      using upsert_plan_run [of i dto "first_deduct_date now dto" "p_price k" s] by blast
    have "setup_savings_plan now pilgrimId i dto s = (Inr plan, t)"
      using Some k True plan(1)
      by (simp add: setup_savings_plan_def find_booking_or_fail_run find_package_or_fail_run
          to_package_shape_def Let_def)
    moreover have "find_savings_plan_by_booking pilgrimId i t = (Inr (Some plan), t)"
      using Some True plan(2,3)
      by (simp add: find_savings_plan_by_booking_def find_booking_or_fail_run)
    moreover have "ss_autoDeduct dto \<longrightarrow> first_deduct_date now dto \<noteq> None"
      using True by (simp add: first_deduct_date_def)
    ultimately show ?thesis using Some True plan(4,5) by auto
  qed
qed

theorem setup_savings_plan_refusals_witness:
  "\<exists>plan t. setup_savings_plan 0 5 7 \<lparr>ss_deductAmount = Some 100, ss_frequency = Some ''weekly'',
      ss_autoDeduct = True\<rparr> sample_payment_db = (Inr plan, t) \<and>
    sp_nextDeductDate plan = Some (7 * day_ms)"
proof -
  have l: "seat_ledger sample_payment_db" using sample_payments_ok by (simp add: payments_ok_def)
  have b: "List.find (\<lambda>b. b_id b = 7) (db_bookings sample_payment_db) = Some sample_booking"
    "b_pilgrimId sample_booking = 5" "b_status sample_booking = PENDING_PAYMENT"
    by (simp_all add: sample_payment_db_def sample_booking_defs)
  have "set_date 0 (get_date 0 + 7) = 7 * day_ms" using set_date_shift [of 0 7] by simp
  then show ?thesis
    using setup_savings_plan_refusals [OF l, where i = 7 and now = 0 and pilgrimId = 5 and dto = "\<lparr>ss_deductAmount = Some 100,
      ss_frequency = Some ''weekly'', ss_autoDeduct = True\<rparr>"]
    by (auto simp: b amount_given_def first_deduct_date_def)
qed

text \<open>
  The savings job does not look at the status of the booking: a plan that is due goes on
  after the cancellation, which creates a pending payment of the amount of the plan for the
  cancelled booking and plans the next one a week later.
\<close>
theorem savings_job_ignores_cancellation:
  assumes due: "due_plans now s = [(p, b)]" and "b_status b = CANCELLED"
    and p: "List.find (\<lambda>x. sp_id x = sp_id p) (db_savingsPlans s) = Some p"
    and a: "sp_deductAmount p = Some a" "a \<noteq> 0" and "sp_frequency p = Some ''weekly''"
    and fresh: "List.find (\<lambda>x. pay_providerReference x = refs (sp_id p)) (db_payments s) = None"
  shows "\<exists>q t d. process_due_savings now sn refs s = (Inr (), t) \<and> db_payments t = db_payments s @ [q] \<and>
    pay_bookingId q = sp_bookingId p \<and> pay_amount q = a \<and> pay_status q = PAY_PENDING \<and>
    sp_nextDeductDate p = Some d \<and> d \<le> now \<and>
    List.find (\<lambda>x. sp_id x = sp_id p) (db_savingsPlans t) = Some (p\<lparr>sp_nextDeductDate := Some (d + 7 * day_ms)\<rparr>)"
proof -
  have "(p, b) \<in> set (due_plans now s)" by (simp add: due)
  then have d: "plan_due now p" and b: "List.find (\<lambda>b. b_id b = sp_bookingId p) (db_bookings s) = Some b"
    by (auto simp: due_plans_def List.map_filter_def)
  then obtain d where d: "sp_nextDeductDate p = Some d" "d \<le> now" "sp_autoDeduct p"
    by (auto simp: plan_due_def split: option.splits)
  obtain n t where t: "process_one now sn refs (p, b) s = (Inr (), t)"
      "db_payments t = db_payments s @ [new_payment now (refs (sp_id p)) \<lparr>ip_bookingId = sp_bookingId p,
        ip_amount = a, ip_method = MOBILE_MONEY_ORANGE\<rparr> n (db_next s)]"
      "List.find (\<lambda>x. sp_id x = sp_id p) (db_savingsPlans t) = Some (advance_plan now p p)"
    using process_one_run [where p = p and b = b and s = s and refs = refs and a = a and now = now
      and sn = sn, OF b fresh p a] by blast
  have "process_due_savings now sn refs s = (Inr (), t)"
    by (simp add: process_due_savings_def due t(1))
  moreover have "advance_plan now p p = p\<lparr>sp_nextDeductDate := Some (d + 7 * day_ms)\<rparr>"
    using assms(6) d set_date_shift [of d 7] by (simp add: advance_plan_def Let_def)
  ultimately show ?thesis
    using t(2,3) d by (simp add: new_payment_def)
qed

definition sample_plan :: savings_plan where
  "sample_plan = \<lparr>sp_id = 9, sp_bookingId = 7, sp_targetAmount = 1000, sp_autoDeduct = True,
     sp_deductAmount = Some 50, sp_frequency = Some ''weekly'', sp_nextDeductDate = Some 0\<rparr>"

theorem savings_job_ignores_cancellation_witness:
  "\<exists>q t. process_due_savings 5 (\<lambda>_. []) (\<lambda>_. ''new'') (sample_booking_db
      \<lparr>db_bookings := [sample_booking\<lparr>b_status := CANCELLED\<rparr>], db_savingsPlans := [sample_plan]\<rparr>) =
      (Inr (), t) \<and> db_payments t = [q] \<and> pay_bookingId q = 7 \<and> pay_status q = PAY_PENDING"
  using savings_job_ignores_cancellation [of 5 "sample_booking_db
      \<lparr>db_bookings := [sample_booking\<lparr>b_status := CANCELLED\<rparr>], db_savingsPlans := [sample_plan]\<rparr>"
      sample_plan "sample_booking\<lparr>b_status := CANCELLED\<rparr>" 50 "\<lambda>_. ''new''" "\<lambda>_. []"]
  by (auto simp: due_plans_def plan_due_def List.map_filter_def sample_plan_def sample_booking_defs)

end
