(* ===== verification/Rooms.thy ===== *)
theory Rooms
  imports Bookings
begin

text \<open>
  \<open>src/src/modules/rooms/rooms.service.ts\<close>: the blocks of hotel rooms an agency holds for a
  package, and the beds it gives to bookings.  The lock of the transaction that assigns a
  bed makes it one step.  A type of room outside the four the code knows has no capacity
  (\<open>undefined\<close>), with which every comparison is false.
\<close>

section \<open>Shapes\<close>

record room_occupant =
  occ_bookingId :: uid
  occ_pilgrimName :: string

record room_shape =
  rm_number :: int
  rm_occupants :: "room_occupant list"

record room_block_shape =
  rs_id :: uid
  rs_packageId :: uid
  rs_packageTitle :: string
  rs_stageId :: "uid option"
  rs_hotelName :: string
  rs_city :: string
  rs_roomType :: string
  rs_roomCount :: int
  rs_bedsPerRoom :: "int option"
  rs_totalBeds :: "int option"
  rs_assignedBeds :: nat
  rs_releaseDate :: "time option"
  rs_notes :: "string option"
  rs_rooms :: "room_shape list"
  rs_unassigned :: "room_occupant list"

record my_room =
  mr_hotelName :: string
  mr_city :: string
  mr_roomType :: string
  mr_roomNumber :: int
  mr_packageTitle :: string
  mr_startDate :: "time option"
  mr_endDate :: "time option"

definition room_capacity :: "(string \<times> int) list" where
  "room_capacity = [(''double'', 2), (''triple'', 3), (''quadruple'', 4), (''quintuple'', 5)]"

definition capacite :: "string \<Rightarrow> int option" where
  "capacite type = map_of room_capacity type"

definition room_below :: "int \<Rightarrow> int option \<Rightarrow> bool" where
  "room_below n c \<longleftrightarrow> (case c of None \<Rightarrow> False | Some k \<Rightarrow> n < k)"

definition room_at_least :: "int \<Rightarrow> int option \<Rightarrow> bool" where
  "room_at_least n c \<longleftrightarrow> (case c of None \<Rightarrow> False | Some k \<Rightarrow> k \<le> n)"

definition libelle_type :: "string \<Rightarrow> string option" where
  "libelle_type = map_of [(''double'', ''Double''), (''triple'', ''Triple''),
     (''quadruple'', ''Quadruple''), (''quintuple'', ''Quintuple'')]"

text \<open>The assignments of a block, with the booking and the name of its pilgrim.\<close>

definition occupant_of :: "db \<Rightarrow> booking \<Rightarrow> room_occupant option" where
  "occupant_of s b = map_option
     (\<lambda>u. \<lparr>occ_bookingId = b_id b, occ_pilgrimName = u_fullName u\<rparr>)
     (List.find (\<lambda>u. u_id u = b_pilgrimId b) (db_users s))"

definition block_occupants :: "uid \<Rightarrow> db \<Rightarrow> (int \<times> room_occupant) list" where
  "block_occupants blockId s =
     List.map_filter
       (\<lambda>a. map_option (\<lambda>r. (ra_roomNumber a, r))
         (Option.bind (List.find (\<lambda>b. b_id b = ra_bookingId a) (db_bookings s)) (occupant_of s)))
       (filter (\<lambda>a. ra_roomBlockId a = blockId) (db_roomAssignments s))"

definition int_range :: "int \<Rightarrow> int list" where
  "int_range n = map (\<lambda>i. int i + 1) [0 ..< nat n]"

definition to_room_block_shape ::
  "room_block \<Rightarrow> string \<Rightarrow> (int \<times> room_occupant) list \<Rightarrow> room_occupant list \<Rightarrow> room_block_shape" where
  "to_room_block_shape bloc packageTitle occupants reservationsDuForfait =
     (let placees = map (occ_bookingId \<circ> snd) occupants;
          bedsPerRoom = capacite (rb_roomType bloc)
      in \<lparr>rs_id = rb_id bloc, rs_packageId = rb_packageId bloc, rs_packageTitle = packageTitle,
          rs_stageId = rb_stageId bloc, rs_hotelName = rb_hotelName bloc, rs_city = rb_city bloc,
          rs_roomType = rb_roomType bloc, rs_roomCount = rb_roomCount bloc,
          rs_bedsPerRoom = bedsPerRoom, rs_totalBeds = map_option ((*) (rb_roomCount bloc)) bedsPerRoom,
          rs_assignedBeds = length occupants, rs_releaseDate = rb_releaseDate bloc,
          rs_notes = rb_notes bloc,
          rs_rooms = map (\<lambda>n. \<lparr>rm_number = n, rm_occupants = map snd (filter (\<lambda>o'. fst o' = n) occupants)\<rparr>)
            (int_range (rb_roomCount bloc)),
          rs_unassigned = filter (\<lambda>r. occ_bookingId r \<notin> set placees) reservationsDuForfait\<rparr>)"

section \<open>Reading blocks\<close>

definition agency_id_of :: "uid \<Rightarrow> (db, uid) act" where
  "agency_id_of ownerId = bind (find_by_owner_or_fail ownerId) (\<lambda>a. ret (as_id a))"

definition find_owned_block :: "uid \<Rightarrow> uid \<Rightarrow> (db, room_block) act" where
  "find_owned_block ownerId i =
     bind (agency_id_of ownerId) (\<lambda>agencyId.
     bind (find_first db_roomBlocks (\<lambda>b. rb_id b = i)) (\<lambda>found.
     bind (or_fail (NotFound ''Bloc de chambres introuvable'') found) (\<lambda>bloc.
     bind (require (rb_agencyId bloc = agencyId)
       (Forbidden ''Ce bloc n'appartient pas a votre agence'')) (\<lambda>_.
     ret bloc))))"

definition reservations_actives :: "uid \<Rightarrow> uid \<Rightarrow> db \<Rightarrow> room_occupant list" where
  "reservations_actives agencyId packageId s =
     List.map_filter (occupant_of s)
       (sort_key b_createdAt
         (filter (\<lambda>b. b_agencyId b = agencyId \<and> b_packageId b = packageId \<and> b_status b \<noteq> CANCELLED)
           (db_bookings s)))"

definition block_shape :: "room_block \<Rightarrow> (db, room_block_shape) act" where
  "block_shape bloc =
     bind (related db_packages (\<lambda>p. p_id p = rb_packageId bloc)) (\<lambda>pkg.
     query (\<lambda>s. to_room_block_shape bloc (p_title pkg) (block_occupants (rb_id bloc) s)
       (reservations_actives (rb_agencyId bloc) (rb_packageId bloc) s)))"

definition get_block :: "uid \<Rightarrow> uid \<Rightarrow> (db, room_block_shape) act" where
  "get_block ownerId i = bind (find_owned_block ownerId i) block_shape"

definition list_blocks :: "uid \<Rightarrow> uid option \<Rightarrow> (db, room_block_shape list) act" where
  "list_blocks ownerId packageId =
     bind (agency_id_of ownerId) (\<lambda>agencyId.
     bind (find_many db_roomBlocks (\<lambda>b. rb_agencyId b = agencyId \<and>
       (case packageId of None \<Rightarrow> True | Some p \<Rightarrow> rb_packageId b = p))) (\<lambda>blocs.
     map_act block_shape blocs))"

section \<open>Blocks\<close>

record create_block_dto =
  cb_packageId :: uid
  cb_stageId :: "uid option"
  cb_hotelName :: "string option"
  cb_city :: "string option"
  cb_roomType :: string
  cb_roomCount :: int
  cb_releaseDate :: "time option"
  cb_notes :: "string option"

definition valid_create_block :: "create_block_dto \<Rightarrow> bool" where
  "valid_create_block dto \<longleftrightarrow>
     (case cb_hotelName dto of None \<Rightarrow> True | Some h \<Rightarrow> 2 \<le> length h \<and> length h \<le> 120) \<and>
     (case cb_city dto of None \<Rightarrow> True | Some c \<Rightarrow> 2 \<le> length c \<and> length c \<le> 80) \<and>
     cb_roomType dto \<in> set (map fst room_capacity) \<and> 1 \<le> cb_roomCount dto \<and> cb_roomCount dto \<le> 500 \<and>
     (case cb_notes dto of None \<Rightarrow> True | Some n \<Rightarrow> length n \<le> 500)"

definition new_block ::
  "uid \<Rightarrow> create_block_dto \<Rightarrow> package_stage option \<Rightarrow> string \<Rightarrow> string \<Rightarrow> uid \<Rightarrow> room_block" where
  "new_block agencyId dto etape hotelName city i =
     \<lparr>rb_id = i, rb_agencyId = agencyId, rb_packageId = cb_packageId dto,
      rb_stageId = map_option st_id etape, rb_hotelName = hotelName, rb_city = city,
      rb_roomType = cb_roomType dto, rb_roomCount = cb_roomCount dto,
      rb_releaseDate = cb_releaseDate dto, rb_notes = cb_notes dto\<rparr>"

definition create_block :: "uid \<Rightarrow> create_block_dto \<Rightarrow> (db, room_block_shape) act" where
  "create_block ownerId dto =
     bind (agency_id_of ownerId) (\<lambda>agencyId.
     bind (find_first db_packages (\<lambda>p. p_id p = cb_packageId dto)) (\<lambda>found.
     bind (or_fail (NotFound ''Forfait introuvable'') found) (\<lambda>forfait.
     bind (require (p_agencyId forfait = agencyId)
       (Forbidden ''Ce forfait n'appartient pas a votre agence'')) (\<lambda>_.
     let etape = Option.bind (cb_stageId dto) (\<lambda>i. List.find (\<lambda>st. st_id st = i) (p_stages forfait)) in
     bind (require (cb_stageId dto = None \<or> etape \<noteq> None)
       (BadRequest ''Cette etape n'appartient pas au forfait'')) (\<lambda>_.
     let hotelName = or_keep (cb_hotelName dto) (map_option st_hotelName etape);
         city = or_keep (cb_city dto) (map_option st_city etape) in
     bind (require (truthy hotelName \<and> truthy city)
       (BadRequest ''Indiquez l'hotel et la ville, ou choisissez une etape du forfait'')) (\<lambda>_.
     bind (create_row db_roomBlocks_update
       (new_block agencyId dto etape (or_else hotelName []) (or_else city []))) (\<lambda>bloc.
     get_block ownerId (rb_id bloc))))))))"

record update_block_dto =
  ub_hotelName :: "string option"
  ub_city :: "string option"
  ub_roomCount :: "int option"
  ub_releaseDate :: "time option"
  ub_notes :: "string option"

definition apply_block_update :: "update_block_dto \<Rightarrow> room_block \<Rightarrow> room_block" where
  "apply_block_update dto b =
     b\<lparr>rb_hotelName := or_else (ub_hotelName dto) (rb_hotelName b),
       rb_city := or_else (ub_city dto) (rb_city b),
       rb_roomCount := or_else (ub_roomCount dto) (rb_roomCount b),
       rb_releaseDate := or_keep (ub_releaseDate dto) (rb_releaseDate b),
       rb_notes := or_keep (ub_notes dto) (rb_notes b)\<rparr>"

definition last_occupied :: "uid \<Rightarrow> db \<Rightarrow> int" where
  "last_occupied blockId s =
     foldr max (map ra_roomNumber (filter (\<lambda>a. ra_roomBlockId a = blockId) (db_roomAssignments s))) 0"

definition update_block :: "uid \<Rightarrow> uid \<Rightarrow> update_block_dto \<Rightarrow> (db, room_block_shape) act" where
  "update_block ownerId i dto =
     bind (find_owned_block ownerId i) (\<lambda>bloc.
     bind (query (last_occupied (rb_id bloc))) (\<lambda>derniereOccupee.
     bind (require (case ub_roomCount dto of None \<Rightarrow> True | Some n \<Rightarrow> \<not> n < derniereOccupee)
       (Conflict (''La chambre '' @ show_int derniereOccupee @
         '' est occupee : liberez-la avant de reduire le bloc''))) (\<lambda>_.
     bind (update_row db_roomBlocks db_roomBlocks_update (\<lambda>b. rb_id b = i) (apply_block_update dto)) (\<lambda>_.
     get_block ownerId i))))"

definition delete_block :: "uid \<Rightarrow> uid \<Rightarrow> (db, unit) act" where
  "delete_block ownerId i =
     bind (find_owned_block ownerId i) (\<lambda>bloc.
     bind (query (\<lambda>s. filter (\<lambda>a. ra_roomBlockId a = rb_id bloc) (db_roomAssignments s))) (\<lambda>assignments.
     bind (require (assignments = [])
       (Conflict ''Des pelerins sont places dans ce bloc : retirez-les avant de le supprimer'')) (\<lambda>_.
     bind (delete_many db_roomBlocks db_roomBlocks_update (\<lambda>b. rb_id b = i)) (\<lambda>_.
     ret ()))))"

section \<open>Beds\<close>

record assign_room_dto =
  ar_bookingId :: uid
  ar_roomNumber :: "int option"

definition valid_assign_room :: "assign_room_dto \<Rightarrow> bool" where
  "valid_assign_room dto \<longleftrightarrow> (case ar_roomNumber dto of None \<Rightarrow> True | Some n \<Rightarrow> 1 \<le> n)"

definition occupation :: "room_assignment list \<Rightarrow> int \<Rightarrow> int" where
  "occupation places n = int (length (filter (\<lambda>p. ra_roomNumber p = n) places))"

definition upsert_assignment :: "uid \<Rightarrow> uid \<Rightarrow> int \<Rightarrow> (db, unit) act" where
  "upsert_assignment blockId bookingId chambre =
     bind (find_first db_roomAssignments (\<lambda>a. ra_roomBlockId a = blockId \<and> ra_bookingId a = bookingId)) (\<lambda>found.
     case found of
       Some _ \<Rightarrow> bind (update_row db_roomAssignments db_roomAssignments_update
           (\<lambda>a. ra_roomBlockId a = blockId \<and> ra_bookingId a = bookingId)
           (\<lambda>a. a\<lparr>ra_roomNumber := chambre\<rparr>)) (\<lambda>_. ret ())
     | None \<Rightarrow> bind (create_row db_roomAssignments_update
           (\<lambda>i. \<lparr>ra_id = i, ra_roomBlockId = blockId, ra_bookingId = bookingId, ra_roomNumber = chambre\<rparr>))
           (\<lambda>_. ret ()))"

definition chosen_room :: "room_block \<Rightarrow> assign_room_dto \<Rightarrow> room_assignment list \<Rightarrow> int option" where
  "chosen_room bloc dto places =
     (case ar_roomNumber dto of
        Some n \<Rightarrow> Some n
      | None \<Rightarrow> List.find (\<lambda>n. room_below (occupation places n) (capacite (rb_roomType bloc)))
          (int_range (rb_roomCount bloc)))"

definition take_bed :: "room_block \<Rightarrow> assign_room_dto \<Rightarrow> (db, unit) act" where
  "take_bed bloc dto =
     transaction
      (bind (find_many db_roomAssignments (\<lambda>a. ra_roomBlockId a = rb_id bloc \<and>
         ra_bookingId a \<noteq> ar_bookingId dto)) (\<lambda>places.
       bind (or_fail (Conflict ''Toutes les chambres du bloc sont completes'')
         (chosen_room bloc dto places)) (\<lambda>chambre.
       bind (require (\<not> chambre > rb_roomCount bloc)
         (BadRequest (''Le bloc compte '' @ show_int (rb_roomCount bloc) @ '' chambre(s)''))) (\<lambda>_.
       bind (require (\<not> room_at_least (occupation places chambre) (capacite (rb_roomType bloc)))
         (Conflict (''La chambre '' @ show_int chambre @ '' est complete''))) (\<lambda>_.
       upsert_assignment (rb_id bloc) (ar_bookingId dto) chambre)))))"

definition assign_room :: "uid \<Rightarrow> uid \<Rightarrow> assign_room_dto \<Rightarrow> (db, room_block_shape) act" where
  "assign_room ownerId blockId dto =
     bind (find_owned_block ownerId blockId) (\<lambda>bloc.
     bind (find_first db_bookings (\<lambda>b. b_id b = ar_bookingId dto)) (\<lambda>reservation.
     bind (require (case reservation of None \<Rightarrow> False
         | Some r \<Rightarrow> b_agencyId r = rb_agencyId bloc \<and> b_packageId r = rb_packageId bloc)
       (BadRequest ''Cette reservation ne fait pas partie du forfait de ce bloc'')) (\<lambda>_.
     bind (require (map_option b_status reservation \<noteq> Some CANCELLED)
       (Conflict ''Cette reservation est annulee'')) (\<lambda>_.
     bind (take_bed bloc dto) (\<lambda>_.
     get_block ownerId blockId)))))"

definition unassign_room :: "uid \<Rightarrow> uid \<Rightarrow> uid \<Rightarrow> (db, room_block_shape) act" where
  "unassign_room ownerId blockId bookingId =
     bind (find_owned_block ownerId blockId) (\<lambda>_.
     bind (delete_many db_roomAssignments db_roomAssignments_update
       (\<lambda>a. ra_roomBlockId a = blockId \<and> ra_bookingId a = bookingId)) (\<lambda>count.
     bind (require (count \<noteq> 0) (NotFound ''Cette reservation n'est pas placee ici'')) (\<lambda>_.
     get_block ownerId blockId)))"

section \<open>Lists\<close>

definition rooming_cells :: "room_block_shape \<Rightarrow> string option list list" where
  "rooming_cells bloc =
     concat (map (\<lambda>chambre. map (\<lambda>o'.
       [Some (rs_hotelName bloc), Some (rs_city bloc), libelle_type (rs_roomType bloc),
        Some (show_int (rm_number chambre)), Some (occ_pilgrimName o')]) (rm_occupants chambre))
       (rs_rooms bloc))"

definition rooming_csv :: "room_block_shape \<Rightarrow> string" where
  "rooming_csv bloc =
     bom_utf8 @ join [CHR 0x0D, CHR 0x0A] (map (\<lambda>r. join '';'' (map cellule_csv r))
       (map Some [''Hotel'', ''Ville'', ''Type'', ''Chambre'', ''Pelerin''] # rooming_cells bloc))"

definition get_rooming_list_csv :: "uid \<Rightarrow> uid \<Rightarrow> (db, string) act" where
  "get_rooming_list_csv ownerId blockId =
     bind (get_block ownerId blockId) (\<lambda>bloc. ret (rooming_csv bloc))"

definition stage_of :: "db \<Rightarrow> uid option \<Rightarrow> package_stage option" where
  "stage_of s i = Option.bind i (\<lambda>i. List.find (\<lambda>st. st_id st = i) (concat (map p_stages (db_packages s))))"

definition my_room_of :: "db \<Rightarrow> room_assignment \<Rightarrow> my_room option" where
  "my_room_of s a =
     Option.bind (List.find (\<lambda>b. rb_id b = ra_roomBlockId a) (db_roomBlocks s)) (\<lambda>bloc.
     map_option (\<lambda>p. \<lparr>mr_hotelName = rb_hotelName bloc, mr_city = rb_city bloc,
        mr_roomType = rb_roomType bloc, mr_roomNumber = ra_roomNumber a, mr_packageTitle = p_title p,
        mr_startDate = map_option st_startDate (stage_of s (rb_stageId bloc)),
        mr_endDate = map_option st_endDate (stage_of s (rb_stageId bloc))\<rparr>)
      (List.find (\<lambda>p. p_id p = rb_packageId bloc) (db_packages s)))"

text \<open>An absent start date counts as \<open>Infinity\<close>: those rooms come last.\<close>

definition by_start :: "my_room list \<Rightarrow> my_room list" where
  "by_start rooms =
     sort_key (\<lambda>r. or_else (mr_startDate r) 0) (filter (\<lambda>r. mr_startDate r \<noteq> None) rooms) @
     filter (\<lambda>r. mr_startDate r = None) rooms"

definition find_my_rooms :: "uid \<Rightarrow> (db, my_room list) act" where
  "find_my_rooms pilgrimId =
     query (\<lambda>s. by_start (List.map_filter (my_room_of s)
       (filter (\<lambda>a. \<exists>b \<in> set (db_bookings s). b_id b = ra_bookingId a \<and> b_pilgrimId b = pilgrimId \<and>
          b_status b \<noteq> CANCELLED) (db_roomAssignments s))))"

section \<open>Lemmas\<close>

lemma reads_rooms [reads_intro]:
  "reads_only (agency_id_of i)" "reads_only (find_owned_block i j)" "reads_only (block_shape b)"
  "reads_only (get_block i j)" "reads_only (get_rooming_list_csv i j)" "reads_only (find_my_rooms i)"
  unfolding agency_id_of_def find_owned_block_def block_shape_def get_block_def
    get_rooming_list_csv_def find_my_rooms_def
  by (intro reads_intro)+

lemmas keeps_rooms_read [keeps_intro] = reads_rooms [THEN keeps_reads]

lemma find_owned_block_ok [ok_iff]:
  "find_owned_block ownerId i s = (Inr b, t) \<longleftrightarrow>
     t = s \<and> List.find (\<lambda>b. rb_id b = i) (db_roomBlocks s) = Some b \<and>
     (\<exists>a. List.find (\<lambda>a. a_ownerId a = ownerId) (db_agencies s) = Some a \<and> rb_agencyId b = a_id a)"
  by (auto simp: find_owned_block_def agency_id_of_def bind_ok find_by_owner_or_fail_ok or_fail_ok
      require_ok find_first_ok ret_def)

subsection \<open>No room holds more than its beds\<close>

definition beds_taken :: "db \<Rightarrow> uid \<Rightarrow> int \<Rightarrow> int" where
  "beds_taken s i n = occupation (filter (\<lambda>a. ra_roomBlockId a = i) (db_roomAssignments s)) n"

definition block_ok :: "db \<Rightarrow> room_block \<Rightarrow> bool" where
  "block_ok s b \<longleftrightarrow>
     (\<forall>n k. capacite (rb_roomType b) = Some k \<longrightarrow> beds_taken s (rb_id b) n \<le> k) \<and>
     list_all (\<lambda>a. ra_roomBlockId a = rb_id b \<longrightarrow> 1 \<le> ra_roomNumber a \<and> ra_roomNumber a \<le> rb_roomCount b)
       (db_roomAssignments s)"

definition placed_once :: "room_assignment list \<Rightarrow> bool" where
  "placed_once as \<longleftrightarrow> distinct (map (\<lambda>a. (ra_roomBlockId a, ra_bookingId a)) as)"

definition rooms_ok :: "db \<Rightarrow> bool" where
  "rooms_ok s \<longleftrightarrow>
     well_keyed rb_id db_roomBlocks s \<and> placed_once (db_roomAssignments s) \<and>
     list_all (\<lambda>a. ra_roomBlockId a < db_next s) (db_roomAssignments s) \<and>
     list_all (block_ok s) (db_roomBlocks s)"

lemma rooms_ok_cong:
  assumes "rooms_ok s" and "db_roomBlocks t = db_roomBlocks s"
    and "db_roomAssignments t = db_roomAssignments s" and "db_next s \<le> db_next t"
  shows "rooms_ok t"
  using assms by (auto simp: rooms_ok_def well_keyed_def list_all_iff block_ok_def beds_taken_def
      intro: less_le_trans)

lemma occupation_filter_le: "occupation (filter P as) n \<le> occupation as n"
proof -
  have "length (filter Q (filter P as)) \<le> length (filter Q as)" for Q
    by (induction as) auto
  then show ?thesis by (simp add: occupation_def)
qed

lemma occupation_append [simp]: "occupation (as @ bs) n = occupation as n + occupation bs n"
  by (simp add: occupation_def)

lemma occupation_Cons [simp]: "occupation (a # as) n = (if ra_roomNumber a = n then 1 else 0) + occupation as n"
  by (simp add: occupation_def)

lemma occupation_Nil [simp]: "occupation [] n = 0"
  by (simp add: occupation_def)

text \<open>Moving or adding the bed of one booking, from what the others take.\<close>

abbreviation others :: "uid \<Rightarrow> uid \<Rightarrow> room_assignment list \<Rightarrow> room_assignment list" where
  "others i k \<equiv> filter (\<lambda>a. ra_roomBlockId a = i \<and> ra_bookingId a \<noteq> k)"

definition move_bed :: "uid \<Rightarrow> uid \<Rightarrow> int \<Rightarrow> room_assignment \<Rightarrow> room_assignment" where
  "move_bed i k n a = (if ra_roomBlockId a = i \<and> ra_bookingId a = k then a\<lparr>ra_roomNumber := n\<rparr> else a)"

lemma move_bed_simps [simp]:
  "ra_roomBlockId (move_bed i k n a) = ra_roomBlockId a" "ra_bookingId (move_bed i k n a) = ra_bookingId a"
  "ra_roomNumber (move_bed i k n a) =
     (if ra_roomBlockId a = i \<and> ra_bookingId a = k then n else ra_roomNumber a)"
  by (simp_all add: move_bed_def)

lemma move_bed_others:
  assumes "\<forall>a \<in> set as. \<not> (ra_roomBlockId a = i \<and> ra_bookingId a = k)"
  shows "map (move_bed i k n) as = as" "others i k as = filter (\<lambda>a. ra_roomBlockId a = i) as"
proof -
  show "map (move_bed i k n) as = as" by (rule map_idI) (use assms in \<open>auto simp: move_bed_def\<close>)
  show "others i k as = filter (\<lambda>a. ra_roomBlockId a = i) as"
    by (rule filter_cong [OF refl]) (use assms in auto)
qed

lemma occupation_move_bed:
  assumes "placed_once as"
  shows "occupation (filter (\<lambda>a. ra_roomBlockId a = i) (map (move_bed i k n) as)) m \<le>
    occupation (others i k as) m + (if m = n then 1 else 0)"
  using assms
proof (induction as)
  case Nil
  then show ?case by simp
next
  case (Cons a as)
  show ?case
  proof (cases "ra_roomBlockId a = i \<and> ra_bookingId a = k")
    case True
    then have none: "\<forall>x \<in> set as. \<not> (ra_roomBlockId x = i \<and> ra_bookingId x = k)"
      using Cons.prems by (auto simp: placed_once_def image_iff)
    show ?thesis using move_bed_others [OF none] True by simp
  next
    case False
    then show ?thesis using Cons by (auto simp: placed_once_def)
  qed
qed

lemma placed_once_move_bed: "placed_once (map (move_bed i k n) as) = placed_once as"
  by (simp add: placed_once_def comp_def)

lemma occupation_move_other:
  "j \<noteq> i \<Longrightarrow> occupation (filter (\<lambda>a. ra_roomBlockId a = j) (map (move_bed i k n) as)) m =
     occupation (filter (\<lambda>a. ra_roomBlockId a = j) as) m"
  by (induction as) auto

lemma others_le: "occupation (others i k as) m \<le> occupation (filter (\<lambda>a. ra_roomBlockId a = i) as) m"
proof -
  have "others i k as = filter (\<lambda>a. ra_bookingId a \<noteq> k) (filter (\<lambda>a. ra_roomBlockId a = i) as)" by simp
  then show ?thesis by (metis occupation_filter_le)
qed

text \<open>
  Replacing the list of assignments: enough that every block stays in its limits.
\<close>

lemma rooms_ok_put_assignments:
  assumes ok: "rooms_ok s" and "placed_once as" and "db_roomBlocks t = db_roomBlocks s"
    and "db_roomAssignments t = as" and "db_next s \<le> db_next t"
    and "list_all (\<lambda>a. ra_roomBlockId a < db_next s) as"
    and beds: "\<And>b n k. b \<in> set (db_roomBlocks s) \<Longrightarrow> capacite (rb_roomType b) = Some k \<Longrightarrow>
      occupation (filter (\<lambda>a. ra_roomBlockId a = rb_id b) as) n \<le> k"
    and range: "\<And>b a. b \<in> set (db_roomBlocks s) \<Longrightarrow> a \<in> set as \<Longrightarrow> ra_roomBlockId a = rb_id b \<Longrightarrow>
      1 \<le> ra_roomNumber a \<and> ra_roomNumber a \<le> rb_roomCount b"
  shows "rooms_ok t"
  using assms by (auto simp: rooms_ok_def well_keyed_def list_all_iff block_ok_def beds_taken_def
      intro: less_le_trans)

lemma rooms_okD:
  assumes "rooms_ok s" and "b \<in> set (db_roomBlocks s)"
  shows "capacite (rb_roomType b) = Some k \<Longrightarrow>
      occupation (filter (\<lambda>a. ra_roomBlockId a = rb_id b) (db_roomAssignments s)) n \<le> k"
    and "a \<in> set (db_roomAssignments s) \<Longrightarrow> ra_roomBlockId a = rb_id b \<Longrightarrow>
      1 \<le> ra_roomNumber a \<and> ra_roomNumber a \<le> rb_roomCount b"
    and "rb_id b < db_next s"
  using assms by (auto simp: rooms_ok_def list_all_iff block_ok_def beds_taken_def well_keyed_def)

lemma rooms_okD_same:
  assumes "rooms_ok s" and "b \<in> set (db_roomBlocks s)" and "b' \<in> set (db_roomBlocks s)" and "rb_id b' = rb_id b"
  shows "b' = b"
  using assms room_blocks.key_unique [of s b' b] by (simp add: rooms_ok_def)

lemma upsert_assignment_run:
  "\<exists>t. upsert_assignment i k n s = (Inr (), t) \<and> db_roomBlocks t = db_roomBlocks s \<and>
     db_next s \<le> db_next t \<and>
     (if List.find (\<lambda>a. ra_roomBlockId a = i \<and> ra_bookingId a = k) (db_roomAssignments s) = None
      then db_roomAssignments t = db_roomAssignments s @
        [\<lparr>ra_id = db_next s, ra_roomBlockId = i, ra_bookingId = k, ra_roomNumber = n\<rparr>]
      else db_roomAssignments t = map (move_bed i k n) (db_roomAssignments s))"
proof (cases "List.find (\<lambda>a. ra_roomBlockId a = i \<and> ra_bookingId a = k) (db_roomAssignments s)")
  case None
  then show ?thesis by (simp add: upsert_assignment_def create_row_def Let_def)
next
  case (Some a)
  then show ?thesis
    by (simp add: upsert_assignment_def update_row_def move_bed_def [abs_def])
qed

lemma upsert_assignment_ok:
  assumes ok: "rooms_ok s" and b: "b \<in> set (db_roomBlocks s)"
    and free: "\<And>c. capacite (rb_roomType b) = Some c \<Longrightarrow> occupation (others (rb_id b) k (db_roomAssignments s)) n < c"
    and n: "1 \<le> n" "n \<le> rb_roomCount b"
    and run: "upsert_assignment (rb_id b) k n s = (r, t)"
  shows "rooms_ok t"
proof -
  let ?as = "db_roomAssignments s"
  have once: "placed_once ?as" using ok by (simp add: rooms_ok_def)
  have ids: "list_all (\<lambda>a. ra_roomBlockId a < db_next s) ?as" using ok by (simp add: rooms_ok_def)
  have t: "db_roomBlocks t = db_roomBlocks s" "db_next s \<le> db_next t"
    using upsert_assignment_run [of "rb_id b" k n s] run by auto
  show ?thesis
  proof (cases "List.find (\<lambda>a. ra_roomBlockId a = rb_id b \<and> ra_bookingId a = k) ?as")
    case None
    let ?a = "\<lparr>ra_id = db_next s, ra_roomBlockId = rb_id b, ra_bookingId = k, ra_roomNumber = n\<rparr>"
    have none: "\<forall>a \<in> set ?as. \<not> (ra_roomBlockId a = rb_id b \<and> ra_bookingId a = k)"
      using None by (auto simp: find_None_iff)
    have as: "db_roomAssignments t = ?as @ [?a]"
      using upsert_assignment_run [of "rb_id b" k n s] run None by auto
    show ?thesis
    proof (rule rooms_ok_put_assignments [OF ok _ t(1) as t(2)])
      show "placed_once (?as @ [?a])" using once none by (auto simp: placed_once_def)
      show "list_all (\<lambda>a. ra_roomBlockId a < db_next s) (?as @ [?a])"
        using ids rooms_okD(3) [OF ok b] by simp
      fix b' m c assume b': "b' \<in> set (db_roomBlocks s)" and c: "capacite (rb_roomType b') = Some c"
      show "occupation (filter (\<lambda>a. ra_roomBlockId a = rb_id b') (?as @ [?a])) m \<le> c"
      proof (cases "rb_id b' = rb_id b")
        case True
        then have bb: "b' = b" by (rule rooms_okD_same [OF ok b b'])
        have "occupation (filter (\<lambda>a. ra_roomBlockId a = rb_id b) ?as) m + (if n = m then 1 else 0) \<le> c"
          using rooms_okD(1) [OF ok b, of c m] free [of c] c bb move_bed_others(2) [OF none] by auto
        then show ?thesis using bb by simp
      next
        case False
        then show ?thesis using rooms_okD(1) [OF ok b' c, of m] by simp
      qed
    next
      fix b' a assume b': "b' \<in> set (db_roomBlocks s)"
        and a: "a \<in> set (?as @ [?a])" "ra_roomBlockId a = rb_id b'"
      show "1 \<le> ra_roomNumber a \<and> ra_roomNumber a \<le> rb_roomCount b'"
      proof (cases "a \<in> set ?as")
        case True
        then show ?thesis by (rule rooms_okD(2) [OF ok b' _ a(2)])
      next
        case False
        then have "a = ?a" using a(1) by simp
        then show ?thesis using rooms_okD_same [OF ok b b'] a(2) n by simp
      qed
    qed
  next
    case (Some a0)
    have as: "db_roomAssignments t = map (move_bed (rb_id b) k n) ?as"
      using upsert_assignment_run [of "rb_id b" k n s] run Some by auto
    show ?thesis
    proof (rule rooms_ok_put_assignments [OF ok _ t(1) as t(2)])
      show "placed_once (map (move_bed (rb_id b) k n) ?as)" using once by (simp only: placed_once_move_bed)
      show "list_all (\<lambda>a. ra_roomBlockId a < db_next s) (map (move_bed (rb_id b) k n) ?as)"
        using ids by (simp add: list_all_iff)
      fix b' m c assume b': "b' \<in> set (db_roomBlocks s)" and c: "capacite (rb_roomType b') = Some c"
      show "occupation (filter (\<lambda>a. ra_roomBlockId a = rb_id b') (map (move_bed (rb_id b) k n) ?as)) m \<le> c"
      proof (cases "rb_id b' = rb_id b")
        case True
        then have "b' = b" by (rule rooms_okD_same [OF ok b b'])
        then show ?thesis
          using occupation_move_bed [OF once, of "rb_id b" k n m] free [of c] c rooms_okD(1) [OF ok b, of c m]
            others_le [of "rb_id b" k ?as m] by (auto split: if_splits)
      next
        case False
        then show ?thesis using rooms_okD(1) [OF ok b' c, of m] by (simp only: occupation_move_other not_False_eq_True)
      qed
    next
      fix b' a assume b': "b' \<in> set (db_roomBlocks s)" and a: "a \<in> set (map (move_bed (rb_id b) k n) ?as)"
        "ra_roomBlockId a = rb_id b'"
      then obtain x where x: "x \<in> set ?as" "a = move_bed (rb_id b) k n x" by auto
      show "1 \<le> ra_roomNumber a \<and> ra_roomNumber a \<le> rb_roomCount b'"
      proof (cases "ra_roomBlockId x = rb_id b \<and> ra_bookingId x = k")
        case True
        then show ?thesis using rooms_okD_same [OF ok b b'] a(2) x(2) n by simp
      next
        case False
        then have "a = x" using x(2) by (auto simp: move_bed_def)
        then show ?thesis using rooms_okD(2) [OF ok b' x(1)] a(2) by simp
      qed
    qed
  qed
qed

lemma int_range_set [simp]: "set (int_range n) = {1..n}"
proof -
  have "x \<in> (\<lambda>i. int i + 1) ` {0..<nat n}" if "1 \<le> x" "x \<le> n" for x
    by (rule image_eqI [of _ _ "nat (x - 1)"]) (use that in auto)
  then show ?thesis by (auto simp: int_range_def)
qed

lemma take_bed_keeps:
  assumes ok: "rooms_ok s" and b: "b \<in> set (db_roomBlocks s)" and dto: "valid_assign_room dto"
    and run: "take_bed b dto s = (r, t)"
  shows "rooms_ok t"
proof (cases r)
  case (Inl e)
  then show ?thesis using run ok by (auto simp: take_bed_def transaction_err)
next
  case (Inr u)
  let ?places = "others (rb_id b) (ar_bookingId dto) (db_roomAssignments s)"
  let ?cap = "capacite (rb_roomType b)"
  from run Inr obtain n where n: "chosen_room b dto ?places = Some n"
    and le: "n \<le> rb_roomCount b" and free: "\<not> room_at_least (occupation ?places n) ?cap"
    and up: "upsert_assignment (rb_id b) (ar_bookingId dto) n s = (Inr (), t)"
    by (auto simp: take_bed_def transaction_ok bind_ok find_many_ok or_fail_ok require_ok Let_def
        split: if_splits)
  have "1 \<le> n"
    using n dto by (auto simp: chosen_room_def valid_assign_room_def split: option.splits dest: find_Some_set)
  have fr: "occupation ?places n < c" if "?cap = Some c" for c
    using free that by (simp add: room_at_least_def)
  show ?thesis by (rule upsert_assignment_ok [OF ok b fr \<open>1 \<le> n\<close> le up])
qed

lemma assign_room_keeps:
  assumes "valid_assign_room dto"
  shows "keeps rooms_ok (assign_room ownerId i dto)"
  unfolding assign_room_def
proof (rule keeps_after_read [OF reads_rooms(2)])
  fix s b assume ok: "rooms_ok s" and b: "find_owned_block ownerId i s = (Inr b, s)"
  then have bin: "b \<in> set (db_roomBlocks s)" by (auto simp: find_owned_block_ok dest: find_Some_set)
  obtain y v where y: "take_bed b dto s = (y, v)" by fastforce
  have v: "rooms_ok v" by (rule take_bed_keeps [OF ok bin assms y])
  have g: "snd (get_block ownerId i v) = v" using reads_rooms(4) by (simp add: reads_only_def)
  show "rooms_ok (snd (bind (find_first db_bookings (\<lambda>b. b_id b = ar_bookingId dto)) (\<lambda>reservation.
     bind (require (case reservation of None \<Rightarrow> False
         | Some r \<Rightarrow> b_agencyId r = rb_agencyId b \<and> b_packageId r = rb_packageId b)
       (BadRequest ''Cette reservation ne fait pas partie du forfait de ce bloc'')) (\<lambda>_.
     bind (require (map_option b_status reservation \<noteq> Some CANCELLED)
       (Conflict ''Cette reservation est annulee'')) (\<lambda>_.
     bind (take_bed b dto) (\<lambda>_. get_block ownerId i)))) s))"
    using ok v y g by (cases y) (simp_all add: bind_require)
qed

lemma unassign_room_keeps: "keeps rooms_ok (unassign_room ownerId i k)"
  unfolding unassign_room_def
proof (intro keeps_intro)
  fix s assume ok: "rooms_ok s"
  let ?as = "filter (\<lambda>a. \<not> (ra_roomBlockId a = i \<and> ra_bookingId a = k)) (db_roomAssignments s)"
  show "rooms_ok (db_roomAssignments_update (filter (\<lambda>a. \<not> (ra_roomBlockId a = i \<and> ra_bookingId a = k))) s)"
  proof (rule rooms_ok_put_assignments [OF ok, of ?as])
    show "placed_once ?as" using ok by (simp add: rooms_ok_def placed_once_def distinct_map_filter)
    show "list_all (\<lambda>a. ra_roomBlockId a < db_next s) ?as" using ok by (auto simp: rooms_ok_def list_all_iff)
    fix b n c assume b: "b \<in> set (db_roomBlocks s)" and c: "capacite (rb_roomType b) = Some c"
    have e: "filter (\<lambda>a. ra_roomBlockId a = rb_id b) ?as =
        filter (\<lambda>a. \<not> (ra_roomBlockId a = i \<and> ra_bookingId a = k))
          (filter (\<lambda>a. ra_roomBlockId a = rb_id b) (db_roomAssignments s))"
      by (simp add: conj_commute)
    show "occupation (filter (\<lambda>a. ra_roomBlockId a = rb_id b) ?as) n \<le> c"
      unfolding e by (rule order_trans [OF occupation_filter_le rooms_okD(1) [OF ok b c]])
  next
    fix b a assume b: "b \<in> set (db_roomBlocks s)" and a: "a \<in> set ?as" "ra_roomBlockId a = rb_id b"
    have "a \<in> set (db_roomAssignments s)" using a(1) by simp
    then show "1 \<le> ra_roomNumber a \<and> ra_roomNumber a \<le> rb_roomCount b"
      by (rule rooms_okD(2) [OF ok b _ a(2)])
  qed simp_all
qed

lemma create_block_keeps: "keeps rooms_ok (create_block ownerId dto)"
  unfolding create_block_def Let_def
proof (intro keeps_intro)
  fix s etape h c and aid :: uid assume ok: "rooms_ok s"
  let ?b = "new_block aid dto etape h c (db_next s)"
  have id: "rb_id ?b = db_next s" by (simp add: new_block_def)
  have none: "ra_roomBlockId a \<noteq> db_next s" if "a \<in> set (db_roomAssignments s)" for a
    using ok that by (auto simp: rooms_ok_def list_all_iff)
  have empty: "filter (\<lambda>a. ra_roomBlockId a = db_next s) (db_roomAssignments s) = []"
    using none by (auto simp: filter_empty_conv)
  have cap: "capacite r = Some k \<Longrightarrow> 0 \<le> k" for r k
    by (auto simp: capacite_def room_capacity_def split: if_splits)
  have "block_ok s ?b"
    using none empty cap by (auto simp: block_ok_def beds_taken_def id list_all_iff)
  then show "rooms_ok (db_roomBlocks_update (\<lambda>rs. rs @ [?b]) (s\<lparr>db_next := Suc (db_next s)\<rparr>))"
    using ok id by (auto simp: rooms_ok_def well_keyed_def list_all_iff block_ok_def beds_taken_def less_Suc_eq)
qed

lemma last_occupied_max:
  "a \<in> set (db_roomAssignments s) \<Longrightarrow> ra_roomNumber a \<le> last_occupied (ra_roomBlockId a) s"
proof -
  have "x \<in> set xs \<Longrightarrow> x \<le> foldr max xs (0::int)" for x xs by (induction xs) auto
  moreover assume "a \<in> set (db_roomAssignments s)"
  ultimately show ?thesis by (simp add: last_occupied_def)
qed

lemma update_block_keeps: "keeps rooms_ok (update_block ownerId i dto)"
  unfolding update_block_def
proof (rule keeps_after_read [OF reads_rooms(2)])
  fix s b0 assume ok: "rooms_ok s" and own: "find_owned_block ownerId i s = (Inr b0, s)"
  then have b0: "List.find (\<lambda>b. rb_id b = i) (db_roomBlocks s) = Some b0" "rb_id b0 = i"
    by (auto simp: find_owned_block_ok dest: find_Some_set)
  let ?f = "apply_block_update dto"
  let ?u = "db_roomBlocks_update (map (\<lambda>b. if rb_id b = i then ?f b else b)) s"
  let ?free = "case ub_roomCount dto of None \<Rightarrow> True | Some n \<Rightarrow> \<not> n < last_occupied i s"
  have simps: "rb_id (?f b) = rb_id b" "rb_roomType (?f b) = rb_roomType b" for b
    by (simp_all add: apply_block_update_def)
  have new: "rooms_ok ?u" if free: ?free
  proof -
    have "distinct (map rb_id (map (\<lambda>b. if rb_id b = i then ?f b else b) (db_roomBlocks s)))"
      by (rule distinct_key_update) (use ok simps in \<open>auto simp: rooms_ok_def well_keyed_def\<close>)
    then have "well_keyed rb_id db_roomBlocks ?u"
      using ok simps by (auto simp: rooms_ok_def well_keyed_def list_all_iff)
    moreover have "block_ok ?u (if rb_id b = i then ?f b else b)" if b: "b \<in> set (db_roomBlocks s)" for b
    proof -
      have bo: "block_ok s b" using ok b by (simp add: rooms_ok_def list_all_iff)
      have "ra_roomNumber a \<le> rb_roomCount (?f b)"
        if "rb_id b = i" "a \<in> set (db_roomAssignments s)" "ra_roomBlockId a = i" for a
        using that bo free last_occupied_max [OF that(2)]
        by (cases "ub_roomCount dto") (auto simp: apply_block_update_def block_ok_def list_all_iff)
      then show ?thesis using bo simps by (auto simp: block_ok_def beds_taken_def list_all_iff)
    qed
    then have "list_all (block_ok ?u) (map (\<lambda>b. if rb_id b = i then ?f b else b) (db_roomBlocks s))"
      unfolding list_all_iff set_map by blast
    ultimately show ?thesis using ok by (simp add: rooms_ok_def)
  qed
  have g: "snd (get_block ownerId i ?u) = ?u" using reads_rooms(4) by (simp add: reads_only_def)
  show "rooms_ok (snd (bind (query (last_occupied (rb_id b0))) (\<lambda>derniereOccupee.
     bind (require (case ub_roomCount dto of None \<Rightarrow> True | Some n \<Rightarrow> \<not> n < derniereOccupee)
       (Conflict (''La chambre '' @ show_int derniereOccupee @
         '' est occupee : liberez-la avant de reduire le bloc''))) (\<lambda>_.
     bind (update_row db_roomBlocks db_roomBlocks_update (\<lambda>b. rb_id b = i) (apply_block_update dto)) (\<lambda>_.
     get_block ownerId i))) s))"
    using ok b0 new g by (cases ?free) (simp_all add: bind_require update_row_def)
qed

lemma delete_block_keeps: "keeps rooms_ok (delete_block ownerId i)"
  unfolding delete_block_def
proof (rule keeps_after_read [OF reads_rooms(2)])
  fix s b assume ok: "rooms_ok s" and "find_owned_block ownerId i s = (Inr b, s)"
  have "rooms_ok (db_roomBlocks_update (filter (\<lambda>b. rb_id b \<noteq> i)) s)"
    using ok by (auto simp: rooms_ok_def well_keyed_def list_all_iff block_ok_def beds_taken_def
        distinct_map_filter)
  then show "rooms_ok (snd (bind (query (\<lambda>s. filter (\<lambda>a. ra_roomBlockId a = rb_id b) (db_roomAssignments s))) (\<lambda>assignments.
     bind (require (assignments = [])
       (Conflict ''Des pelerins sont places dans ce bloc : retirez-les avant de le supprimer'')) (\<lambda>_.
     bind (delete_many db_roomBlocks db_roomBlocks_update (\<lambda>b. rb_id b = i)) (\<lambda>_.
     ret ()))) s))"
    using ok by (simp add: bind_require delete_many_def bind_def)
qed

text \<open>The component as a machine.\<close>

datatype room_call =
    CreateBlock uid create_block_dto
  | UpdateBlock uid uid update_block_dto
  | DeleteBlock uid uid
  | AssignRoom uid uid assign_room_dto
  | UnassignRoom uid uid uid

fun room_step :: "room_call \<Rightarrow> db \<Rightarrow> db" where
  "room_step (CreateBlock o' dto) s = snd (create_block o' dto s)"
| "room_step (UpdateBlock o' i dto) s = snd (update_block o' i dto s)"
| "room_step (DeleteBlock o' i) s = snd (delete_block o' i s)"
| "room_step (AssignRoom o' i dto) s = snd (assign_room o' i dto s)"
| "room_step (UnassignRoom o' i k) s = snd (unassign_room o' i k s)"

fun room_allowed :: "room_call \<Rightarrow> db \<Rightarrow> bool" where
  "room_allowed (AssignRoom o' i dto) s = valid_assign_room dto"
| "room_allowed _ s = True"

interpretation hotel: machine room_step room_allowed rooms_ok
proof
  fix c s assume "room_allowed c s" and "rooms_ok s"
  then show "rooms_ok (room_step c s)"
    using assign_room_keeps unassign_room_keeps create_block_keeps update_block_keeps delete_block_keeps
    by (cases c) (auto simp: keeps_def)
qed

section \<open>Properties\<close>

text \<open>
  Whatever the sequence of calls (creating, changing and deleting blocks, giving and
  taking back beds), no room of a block holds more bookings than its type has beds, every
  bed is in a room of its block, and a booking has at most one bed in a block.
\<close>
theorem rooms_never_overfull:
  assumes "rooms_ok s" and "allowed_run room_step room_allowed s cs"
    and "b \<in> set (db_roomBlocks (fold room_step cs s))"
  shows "(\<forall>n k. capacite (rb_roomType b) = Some k \<longrightarrow> beds_taken (fold room_step cs s) (rb_id b) n \<le> k) \<and>
    (\<forall>a \<in> set (db_roomAssignments (fold room_step cs s)). ra_roomBlockId a = rb_id b \<longrightarrow>
      1 \<le> ra_roomNumber a \<and> ra_roomNumber a \<le> rb_roomCount b) \<and>
    placed_once (db_roomAssignments (fold room_step cs s))"
  using hotel.run_inv [OF assms(2,1)] assms(3)
  by (auto simp: rooms_ok_def list_all_iff block_ok_def)

text \<open>
  Without a room in the request, a booking gets the first room of the block with a free
  bed; when every room is full the request is refused and nothing changes.
\<close>
theorem first_free_room:
  assumes b: "List.find (\<lambda>b. rb_id b = i) (db_roomBlocks s) = Some b" and cap: "capacite (rb_roomType b) = Some c"
    and new: "\<forall>a \<in> set (db_roomAssignments s). ra_roomBlockId a = i \<longrightarrow> ra_bookingId a \<noteq> k"
  shows "if \<exists>n. 1 \<le> n \<and> n \<le> rb_roomCount b \<and> beds_taken s i n < c
    then \<exists>n t. take_bed b \<lparr>ar_bookingId = k, ar_roomNumber = None\<rparr> s = (Inr (), t) \<and>
      1 \<le> n \<and> n \<le> rb_roomCount b \<and> beds_taken s i n < c \<and>
      (\<forall>m. 1 \<le> m \<longrightarrow> m < n \<longrightarrow> c \<le> beds_taken s i m) \<and> beds_taken t i n = beds_taken s i n + 1
    else take_bed b \<lparr>ar_bookingId = k, ar_roomNumber = None\<rparr> s =
      (Inl (Conflict ''Toutes les chambres du bloc sont completes''), s)"
proof -
  let ?dto = "\<lparr>ar_bookingId = k, ar_roomNumber = None\<rparr>"
  let ?places = "others i k (db_roomAssignments s)"
  have id: "rb_id b = i" using b by (auto dest: find_Some_set)
  have pl: "occupation ?places n = beds_taken s i n" for n
    using move_bed_others(2) [of "db_roomAssignments s" i k] new by (auto simp: beds_taken_def)
  let ?rooms = "int_range (rb_roomCount b)"
  have ch: "chosen_room b ?dto ?places = List.find (\<lambda>n. beds_taken s i n < c) ?rooms"
    by (simp add: chosen_room_def room_below_def cap pl)
  show ?thesis
  proof (cases "List.find (\<lambda>n. beds_taken s i n < c) ?rooms")
    case None
    then have "\<not> (\<exists>n. 1 \<le> n \<and> n \<le> rb_roomCount b \<and> beds_taken s i n < c)"
      by (auto simp: find_None_iff)
    moreover have "take_bed b ?dto s = (Inl (Conflict ''Toutes les chambres du bloc sont completes''), s)"
      using None ch by (simp add: take_bed_def transaction_def id)
    ultimately show ?thesis by simp
  next
    case (Some n)
    then have n: "1 \<le> n" "n \<le> rb_roomCount b" "beds_taken s i n < c" by (auto dest: find_Some_set)
    obtain j where j: "j < length ?rooms" "?rooms ! j = n" "\<forall>m < j. \<not> beds_taken s i (?rooms ! m) < c"
      using Some by (auto simp: find_Some_iff)
    have first: "c \<le> beds_taken s i m" if "1 \<le> m" "m < n" for m
    proof -
      have "j = nat (n - 1)" using j(1,2) by (auto simp: int_range_def)
      then have "nat (m - 1) < j" "?rooms ! nat (m - 1) = m"
        using that n(2) by (auto simp: int_range_def nth_append)
      then show ?thesis using j(3) by (metis not_less)
    qed
    have none: "List.find (\<lambda>a. ra_roomBlockId a = i \<and> ra_bookingId a = k) (db_roomAssignments s) = None"
      using new by (auto simp: find_None_iff)
    obtain t where t: "upsert_assignment i k n s = (Inr (), t)" "db_roomAssignments t = db_roomAssignments s @
        [\<lparr>ra_id = db_next s, ra_roomBlockId = i, ra_bookingId = k, ra_roomNumber = n\<rparr>]"
      using upsert_assignment_run [of i k n s] none by auto
    have "take_bed b ?dto s = (Inr (), t)"
      using Some ch n t(1) by (simp add: take_bed_def transaction_def id room_at_least_def cap pl)
    moreover have "beds_taken t i n = beds_taken s i n + 1" by (simp add: beds_taken_def t(2))
    ultimately show ?thesis using n first by auto
  qed
qed

definition sample_block :: room_block where
  "sample_block = \<lparr>rb_id = 8, rb_agencyId = 2, rb_packageId = 3, rb_stageId = None, rb_hotelName = ''H'',
     rb_city = ''Makkah'', rb_roomType = ''double'', rb_roomCount = 2, rb_releaseDate = None, rb_notes = None\<rparr>"

definition sample_rooms_db :: db where
  "sample_rooms_db = sample_booking_db\<lparr>db_roomBlocks := [sample_block],
     db_roomAssignments := [\<lparr>ra_id = 9, ra_roomBlockId = 8, ra_bookingId = 1, ra_roomNumber = 1\<rparr>]\<rparr>"

theorem first_free_room_witness:
  "\<exists>t. take_bed sample_block \<lparr>ar_bookingId = 7, ar_roomNumber = None\<rparr> sample_rooms_db = (Inr (), t)"
proof -
  have 1: "List.find (\<lambda>b. rb_id b = 8) (db_roomBlocks sample_rooms_db) = Some sample_block"
    and 2: "capacite (rb_roomType sample_block) = Some 2"
    and 3: "\<forall>a \<in> set (db_roomAssignments sample_rooms_db). ra_roomBlockId a = 8 \<longrightarrow> ra_bookingId a \<noteq> 7"
    by (simp_all add: sample_rooms_db_def sample_block_def capacite_def room_capacity_def)
  have "\<exists>n. 1 \<le> n \<and> n \<le> rb_roomCount sample_block \<and> beds_taken sample_rooms_db 8 n < 2"
    by (rule exI [of _ 1]) (simp add: sample_block_def beds_taken_def sample_rooms_db_def)
  then show ?thesis using first_free_room [OF 1 2 3] by auto
qed

theorem rooms_never_overfull_witness:
  "beds_taken (fold room_step [AssignRoom 1 8 \<lparr>ar_bookingId = 7, ar_roomNumber = Some 1\<rparr>] sample_rooms_db) 8 1 \<le> 2"
proof -
  let ?cs = "[AssignRoom 1 8 \<lparr>ar_bookingId = 7, ar_roomNumber = Some 1\<rparr>]"
  have ok: "rooms_ok sample_rooms_db"
    by (auto simp: rooms_ok_def well_keyed_def placed_once_def block_ok_def beds_taken_def capacite_def
        room_capacity_def sample_rooms_db_def sample_block_def sample_booking_defs)
  have a: "allowed_run room_step room_allowed sample_rooms_db ?cs" by (simp add: valid_assign_room_def)
  have k: "keeps (\<lambda>s. db_roomBlocks s = [sample_block]) (assign_room 1 8 \<lparr>ar_bookingId = 7, ar_roomNumber = Some 1\<rparr>)"
    unfolding assign_room_def take_bed_def upsert_assignment_def by (intro keeps_intro) simp_all
  have b: "sample_block \<in> set (db_roomBlocks (fold room_step ?cs sample_rooms_db))"
    using k by (simp add: keeps_def sample_rooms_db_def)
  have c: "capacite (rb_roomType sample_block) = Some 2"
    by (simp add: sample_block_def capacite_def room_capacity_def)
  show ?thesis using rooms_never_overfull [OF ok a b] c by (simp add: sample_block_def)
qed

end
