(* ===== verification/Disputes.thy ===== *)
theory Disputes
  imports Bookings
begin

text \<open>
  \<open>src/src/modules/disputes\<close>: a pilgrim opens a dispute on a booking, talks to the agency,
  settles it or hands it to the administration, which decides; closed disputes are purged
  after two years.  The life of a dispute is stated on its own, as a step relation on its
  status, and the operations are shown to implement it.
\<close>

section \<open>Shapes\<close>

definition dispute_categories :: "string list" where
  "dispute_categories = [''payment'', ''refund'', ''accommodation'', ''transport'', ''documents'',
     ''service'', ''other'']"

record dispute_message_shape =
  ms_id :: uid
  ms_authorRole :: role
  ms_authorName :: string
  ms_content :: string
  ms_createdAt :: time

record dispute_shape =
  dsh_id :: uid
  dsh_bookingId :: uid
  dsh_packageTitle :: string
  dsh_agencyId :: uid
  dsh_agencyName :: string
  dsh_pilgrimName :: string
  dsh_category :: string
  dsh_subject :: string
  dsh_status :: dispute_status
  dsh_decision :: "string option"
  dsh_escalatedAt :: "time option"
  dsh_closedAt :: "time option"
  dsh_createdAt :: time
  dsh_updatedAt :: time
  dsh_escalationAvailableAt :: time
  dsh_messages :: "dispute_message_shape list option"

text \<open>A dispute as the queries load it: the row with the names and the owner it refers to.\<close>

record dispute_detail =
  dd_row :: dispute
  dd_packageTitle :: string
  dd_agencyName :: string
  dd_ownerId :: uid
  dd_pilgrimName :: string
  dd_messages :: "dispute_message_shape list"

definition agency_response_days :: int where
  "agency_response_days = 7"

definition dispute_active :: "dispute_status \<Rightarrow> bool" where
  "dispute_active st \<longleftrightarrow> st \<in> {DS_OPEN, DS_AGENCY_RESPONDED, DS_ESCALATED}"

definition visible_to_admin :: "dispute_status \<Rightarrow> bool" where
  "visible_to_admin st \<longleftrightarrow> st \<in> {DS_ESCALATED, DS_CLOSED}"

definition message_shape_of :: "db \<Rightarrow> dispute_message \<Rightarrow> dispute_message_shape option" where
  "message_shape_of s m = map_option
     (\<lambda>u. \<lparr>ms_id = dm_id m, ms_authorRole = dm_authorRole m, ms_authorName = u_fullName u,
        ms_content = dm_content m, ms_createdAt = dm_createdAt m\<rparr>)
     (List.find (\<lambda>u. u_id u = dm_authorId m) (db_users s))"

definition to_dispute_shape :: "bool \<Rightarrow> dispute_detail \<Rightarrow> dispute_shape" where
  "to_dispute_shape withMessages d =
     (let r = dd_row d in
      \<lparr>dsh_id = di_id r, dsh_bookingId = di_bookingId r, dsh_packageTitle = dd_packageTitle d,
       dsh_agencyId = di_agencyId r, dsh_agencyName = dd_agencyName d, dsh_pilgrimName = dd_pilgrimName d,
       dsh_category = di_category r, dsh_subject = di_subject r, dsh_status = di_status r,
       dsh_decision = di_decision r, dsh_escalatedAt = di_escalatedAt r, dsh_closedAt = di_closedAt r,
       dsh_createdAt = di_createdAt r, dsh_updatedAt = di_updatedAt r,
       dsh_escalationAvailableAt = di_createdAt r + agency_response_days * day_ms,
       dsh_messages = (if withMessages then Some (dd_messages d) else None)\<rparr>)"

section \<open>Reading disputes\<close>

definition load_detail :: "dispute \<Rightarrow> (db, dispute_detail) act" where
  "load_detail d =
     bind (related db_bookings (\<lambda>b. b_id b = di_bookingId d)) (\<lambda>booking.
     bind (related db_packages (\<lambda>p. p_id p = b_packageId booking)) (\<lambda>pkg.
     bind (related db_agencies (\<lambda>a. a_id a = di_agencyId d)) (\<lambda>agency.
     bind (related db_users (\<lambda>u. u_id u = di_pilgrimId d)) (\<lambda>pilgrim.
     query (\<lambda>s. \<lparr>dd_row = d, dd_packageTitle = p_title pkg, dd_agencyName = a_legalName agency,
       dd_ownerId = a_ownerId agency, dd_pilgrimName = u_fullName pilgrim,
       dd_messages = List.map_filter (message_shape_of s) (sort_key dm_createdAt (di_messages d))\<rparr>)))))"

definition dispute_access :: "uid \<Rightarrow> role \<Rightarrow> dispute_detail \<Rightarrow> bool" where
  "dispute_access userId r d \<longleftrightarrow>
     r = PILGRIM \<and> di_pilgrimId (dd_row d) = userId \<or>
     r = AGENCY \<and> dd_ownerId d = userId \<or>
     r = ADMIN \<and> visible_to_admin (di_status (dd_row d))"

definition find_dispute_authorized :: "uid \<Rightarrow> role \<Rightarrow> uid \<Rightarrow> (db, dispute_detail) act" where
  "find_dispute_authorized userId r i =
     bind (find_first db_disputes (\<lambda>d. di_id d = i)) (\<lambda>found.
     bind (or_fail (NotFound ''Litige introuvable'') found) (\<lambda>row.
     bind (load_detail row) (\<lambda>litige.
     bind (require (dispute_access userId r litige)
       (Forbidden ''Vous n'avez pas acces a ce litige'')) (\<lambda>_.
     ret litige))))"

definition find_one_dispute :: "uid \<Rightarrow> role \<Rightarrow> uid \<Rightarrow> (db, dispute_shape) act" where
  "find_one_dispute userId r i =
     bind (find_dispute_authorized userId r i) (\<lambda>litige. ret (to_dispute_shape True litige))"

definition dispute_listed :: "uid \<Rightarrow> role \<Rightarrow> db \<Rightarrow> dispute \<Rightarrow> bool" where
  "dispute_listed userId r s d \<longleftrightarrow>
     (case r of PILGRIM \<Rightarrow> di_pilgrimId d = userId
      | AGENCY \<Rightarrow> \<exists>a \<in> set (db_agencies s). a_id a = di_agencyId d \<and> a_ownerId a = userId
      | _ \<Rightarrow> visible_to_admin (di_status d))"

fun load_details :: "dispute list \<Rightarrow> (db, dispute_detail list) act" where
  "load_details [] = ret []"
| "load_details (d # ds) = bind (load_detail d) (\<lambda>x. bind (load_details ds) (\<lambda>xs. ret (x # xs)))"

definition list_disputes :: "uid \<Rightarrow> role \<Rightarrow> dispute_status option \<Rightarrow> (db, dispute_shape list) act" where
  "list_disputes userId r status =
     bind (query (\<lambda>s. sort_key (\<lambda>d. - di_updatedAt d)
       (filter (\<lambda>d. dispute_listed userId r s d \<and> (status = None \<or> status = Some (di_status d)))
         (db_disputes s)))) (\<lambda>rows.
     bind (load_details rows) (\<lambda>litiges. ret (map (to_dispute_shape False) litiges)))"

section \<open>Operations\<close>

definition notifier :: "time \<Rightarrow> uid list \<Rightarrow> string \<Rightarrow> string \<Rightarrow> (db, unit) act" where
  "notifier now destinataires title content =
     (if destinataires = [] then ret ()
      else bind (send now \<lparr>si_recipientIds = destinataires, si_type = NT_OTHER, si_title = title,
        si_content = content, si_isCritical = False\<rparr>) (\<lambda>_. ret ()))"

record create_dispute_dto =
  cd_bookingId :: uid
  cd_category :: string
  cd_subject :: string
  cd_message :: string

definition valid_create_dispute :: "create_dispute_dto \<Rightarrow> bool" where
  "valid_create_dispute dto \<longleftrightarrow>
     cd_category dto \<in> set dispute_categories \<and> 5 \<le> length (cd_subject dto) \<and> length (cd_subject dto) \<le> 140 \<and>
     10 \<le> length (cd_message dto) \<and> length (cd_message dto) \<le> 2000"

definition new_message :: "time \<Rightarrow> uid \<Rightarrow> role \<Rightarrow> string \<Rightarrow> uid \<Rightarrow> dispute_message" where
  "new_message now authorId r content i =
     \<lparr>dm_id = i, dm_authorId = authorId, dm_authorRole = r, dm_content = content, dm_createdAt = now\<rparr>"

definition new_dispute :: "time \<Rightarrow> booking \<Rightarrow> create_dispute_dto \<Rightarrow> uid \<Rightarrow> uid \<Rightarrow> dispute" where
  "new_dispute now b dto m i =
     \<lparr>di_id = i, di_bookingId = b_id b, di_pilgrimId = b_pilgrimId b, di_agencyId = b_agencyId b,
      di_category = cd_category dto, di_subject = cd_subject dto, di_status = DS_OPEN,
      di_decision = None, di_decidedById = None, di_escalatedAt = None, di_closedAt = None,
      di_createdAt = now, di_updatedAt = now,
      di_messages = [new_message now (b_pilgrimId b) PILGRIM (cd_message dto) m]\<rparr>"

definition create_dispute :: "time \<Rightarrow> uid \<Rightarrow> create_dispute_dto \<Rightarrow> (db, dispute_shape) act" where
  "create_dispute now pilgrimId dto =
     bind (find_first db_bookings (\<lambda>b. b_id b = cd_bookingId dto)) (\<lambda>found.
     bind (require (map_option b_pilgrimId found = Some pilgrimId)
       (NotFound ''Reservation introuvable'')) (\<lambda>_.
     bind (or_fail (NotFound ''Reservation introuvable'') found) (\<lambda>reservation.
     bind (related db_agencies (\<lambda>a. a_id a = b_agencyId reservation)) (\<lambda>agency.
     bind (find_first db_disputes (\<lambda>d. di_bookingId d = cd_bookingId dto \<and> dispute_active (di_status d))) (\<lambda>enCours.
     bind (require (enCours = None)
       (Conflict ''Un litige est deja en cours sur cette reservation'')) (\<lambda>_.
     bind (fresh_ids 1) (\<lambda>ids.
     bind (create_row db_disputes_update (new_dispute now reservation dto (hd ids))) (\<lambda>row.
     bind (load_detail row) (\<lambda>litige.
     bind (notifier now [a_ownerId agency] ''Nouveau litige''
       (''Un pelerin a ouvert un litige sur une reservation. Vous avez '' @ show_int agency_response_days @
        '' jours pour y repondre avant qu'il puisse demander l'arbitrage de la plateforme.'')) (\<lambda>_.
     ret (to_dispute_shape True litige)))))))))))"

definition update_dispute :: "time \<Rightarrow> uid \<Rightarrow> (dispute \<Rightarrow> dispute) \<Rightarrow> (db, unit) act" where
  "update_dispute now i f =
     bind (update_row db_disputes db_disputes_update (\<lambda>d. di_id d = i)
       (\<lambda>d. (f d)\<lparr>di_updatedAt := now\<rparr>)) (\<lambda>_. ret ())"

definition next_status :: "dispute_status \<Rightarrow> role \<Rightarrow> dispute_status" where
  "next_status etat r =
     (if etat = DS_ESCALATED then etat else if r = AGENCY then DS_AGENCY_RESPONDED else DS_OPEN)"

definition add_dispute_message :: "time \<Rightarrow> uid \<Rightarrow> role \<Rightarrow> uid \<Rightarrow> string \<Rightarrow> (db, dispute_shape) act" where
  "add_dispute_message now userId r i content =
     bind (find_dispute_authorized userId r i) (\<lambda>litige.
     let etat = di_status (dd_row litige) in
     bind (require (dispute_active etat) (Conflict ''Ce litige est clos'')) (\<lambda>_.
     bind (fresh_ids 1) (\<lambda>ids.
     bind (update_dispute now i (\<lambda>d. d\<lparr>di_status := next_status etat r,
       di_messages := di_messages d @ [new_message now userId r content (hd ids)]\<rparr>)) (\<lambda>_.
     bind (notifier now
       ((if r \<noteq> PILGRIM then [di_pilgrimId (dd_row litige)] else []) @
        (if r \<noteq> AGENCY then [dd_ownerId litige] else []))
       ''Litige : nouveau message'' ''Un nouveau message a ete ajoute a un litige qui vous concerne.'') (\<lambda>_.
     find_one_dispute userId r i)))))"

definition resolve_dispute :: "time \<Rightarrow> uid \<Rightarrow> uid \<Rightarrow> (db, dispute_shape) act" where
  "resolve_dispute now pilgrimId i =
     bind (find_dispute_authorized pilgrimId PILGRIM i) (\<lambda>litige.
     bind (require (dispute_active (di_status (dd_row litige))) (Conflict ''Ce litige est deja clos'')) (\<lambda>_.
     bind (update_dispute now i (\<lambda>d. d\<lparr>di_status := DS_RESOLVED, di_closedAt := Some now\<rparr>)) (\<lambda>_.
     bind (notifier now [dd_ownerId litige] ''Litige resolu'' ''Le pelerin a clos un litige a l'amiable.'') (\<lambda>_.
     find_one_dispute pilgrimId PILGRIM i))))"

definition delay_passed :: "time \<Rightarrow> dispute \<Rightarrow> bool" where
  "delay_passed now d \<longleftrightarrow> now - di_createdAt d \<ge> agency_response_days * day_ms"

definition escalate_dispute :: "time \<Rightarrow> uid \<Rightarrow> uid \<Rightarrow> (db, dispute_shape) act" where
  "escalate_dispute now pilgrimId i =
     bind (find_dispute_authorized pilgrimId PILGRIM i) (\<lambda>litige.
     let etat = di_status (dd_row litige); delaiEcoule = delay_passed now (dd_row litige) in
     bind (require (\<not> (etat \<noteq> DS_AGENCY_RESPONDED \<and> \<not> (etat = DS_OPEN \<and> delaiEcoule)))
       (Conflict (if etat = DS_OPEN
         then ''L'agence dispose de '' @ show_int agency_response_days @ '' jours pour repondre avant toute escalade''
         else ''Ce litige ne peut plus etre escalade''))) (\<lambda>_.
     bind (update_dispute now i (\<lambda>d. d\<lparr>di_status := DS_ESCALATED, di_escalatedAt := Some now\<rparr>)) (\<lambda>_.
     bind (find_many db_users (\<lambda>u. u_role u = ADMIN \<and> u_isActive u)) (\<lambda>admins.
     bind (notifier now (dd_ownerId litige # map u_id admins) ''Litige escalade''
       ''Un litige a ete transmis a l'administration de la plateforme pour arbitrage.'') (\<lambda>_.
     find_one_dispute pilgrimId PILGRIM i)))))"

definition decide_dispute :: "time \<Rightarrow> uid \<Rightarrow> uid \<Rightarrow> string \<Rightarrow> (db, dispute_shape) act" where
  "decide_dispute now adminId i decision =
     bind (find_dispute_authorized adminId ADMIN i) (\<lambda>litige.
     bind (require (di_status (dd_row litige) = DS_ESCALATED)
       (Conflict ''Seul un litige escalade peut etre arbitre'')) (\<lambda>_.
     bind (update_dispute now i (\<lambda>d. d\<lparr>di_status := DS_CLOSED, di_decision := Some decision,
       di_decidedById := Some adminId, di_closedAt := Some now\<rparr>)) (\<lambda>_.
     bind (notifier now [di_pilgrimId (dd_row litige), dd_ownerId litige] ''Decision rendue sur un litige''
       ''L'administration a rendu sa decision. Consultez le litige pour la lire.'') (\<lambda>_.
     find_one_dispute adminId ADMIN i))))"

definition dispute_retention_months :: int where
  "dispute_retention_months = 24"

definition purge_closed_disputes :: "time \<Rightarrow> (db, nat) act" where
  "purge_closed_disputes now =
     (let limite = set_month now (get_month now - dispute_retention_months) in
      delete_many db_disputes db_disputes_update
        (\<lambda>d. di_status d \<in> {DS_RESOLVED, DS_CLOSED} \<and>
          (case di_closedAt d of None \<Rightarrow> False | Some c \<Rightarrow> c < limite)))"

section \<open>The life of a dispute\<close>

text \<open>
  What the module promises, on the status alone: who speaks last passes the hand; the
  pilgrim may settle while the dispute is active, and escalate after an answer of the agency
  or once its delay has passed; the administration decides escalated disputes only.
\<close>

datatype dispute_event = Message role | Resolve | Escalate bool | Decide

inductive dispute_step :: "dispute_status \<Rightarrow> dispute_event \<Rightarrow> dispute_status \<Rightarrow> bool" where
  agency_message: "st \<in> {DS_OPEN, DS_AGENCY_RESPONDED} \<Longrightarrow> dispute_step st (Message AGENCY) DS_AGENCY_RESPONDED"
| pilgrim_message: "st \<in> {DS_OPEN, DS_AGENCY_RESPONDED} \<Longrightarrow> r \<noteq> AGENCY \<Longrightarrow> dispute_step st (Message r) DS_OPEN"
| later_message: "dispute_step DS_ESCALATED (Message r) DS_ESCALATED"
| settle: "st \<in> {DS_OPEN, DS_AGENCY_RESPONDED, DS_ESCALATED} \<Longrightarrow> dispute_step st Resolve DS_RESOLVED"
| escalate_answered: "dispute_step DS_AGENCY_RESPONDED (Escalate late) DS_ESCALATED"
| escalate_late: "dispute_step DS_OPEN (Escalate True) DS_ESCALATED"
| arbitrate: "dispute_step DS_ESCALATED Decide DS_CLOSED"

inductive_simps message_step [simp]: "dispute_step st (Message r) st'"
inductive_simps resolve_step [simp]: "dispute_step st Resolve st'"
inductive_simps escalate_step [simp]: "dispute_step st (Escalate late) st'"
inductive_simps decide_step [simp]: "dispute_step st Decide st'"
inductive_cases to_closed: "dispute_step st e DS_CLOSED"
inductive_cases to_escalated: "dispute_step st e DS_ESCALATED"
inductive_cases to_answered: "dispute_step st e DS_AGENCY_RESPONDED"

text \<open>The histories of a dispute: the events since it was opened, latest first.\<close>

inductive dispute_history :: "dispute_event list \<Rightarrow> dispute_status \<Rightarrow> bool" where
  opened: "dispute_history [] DS_OPEN"
| stepped: "dispute_history es st \<Longrightarrow> dispute_step st e st' \<Longrightarrow> dispute_history (e # es) st'"

section \<open>Lemmas\<close>

lemma reads_disputes [reads_intro]:
  "reads_only (load_detail d)" "reads_only (find_dispute_authorized i r j)" "reads_only (find_one_dispute i r j)"
  unfolding load_detail_def find_dispute_authorized_def find_one_dispute_def
  by (intro reads_intro)+

lemma load_detail_run:
  assumes "List.find (\<lambda>b. b_id b = di_bookingId d) (db_bookings s) = Some b"
    and "List.find (\<lambda>p. p_id p = b_packageId b) (db_packages s) = Some p"
    and "List.find (\<lambda>a. a_id a = di_agencyId d) (db_agencies s) = Some a"
    and "List.find (\<lambda>u. u_id u = di_pilgrimId d) (db_users s) = Some u"
  shows "\<exists>l. load_detail d s = (Inr l, s) \<and> dd_row l = d \<and> dd_ownerId l = a_ownerId a"
  using assms by (simp add: load_detail_def)

lemma load_detailD:
  assumes "load_detail d s = (Inr l, t)"
  shows "\<exists>b p a u. List.find (\<lambda>b. b_id b = di_bookingId d) (db_bookings s) = Some b \<and>
    List.find (\<lambda>p. p_id p = b_packageId b) (db_packages s) = Some p \<and>
    List.find (\<lambda>a. a_id a = di_agencyId d) (db_agencies s) = Some a \<and>
    List.find (\<lambda>u. u_id u = di_pilgrimId d) (db_users s) = Some u \<and> dd_ownerId l = a_ownerId a"
  using assms by (auto simp: load_detail_def bind_ok related_ok query_ok simp del: related_run)

lemma find_dispute_authorizedD:
  assumes "find_dispute_authorized userId r i s = (Inr l, t)"
  shows "t = s" and "List.find (\<lambda>d. di_id d = i) (db_disputes s) = Some (dd_row l)"
    and "dispute_access userId r l" and "load_detail (dd_row l) s = (Inr l, s)"
proof -
  obtain d where d: "List.find (\<lambda>d. di_id d = i) (db_disputes s) = Some d" "load_detail d s = (Inr l, s)"
      "dispute_access userId r l" "t = s"
    using assms reads_onlyD [OF reads_disputes(1)]
    by (auto simp: find_dispute_authorized_def bind_ok or_fail_ok find_first_ok require_ok ret_def
        split: if_splits)
  have "dd_row l = d"
    using d(2) by (auto simp: load_detail_def bind_ok related_ok query_ok)
  then show "t = s" and "List.find (\<lambda>d. di_id d = i) (db_disputes s) = Some (dd_row l)"
    and "dispute_access userId r l" and "load_detail (dd_row l) s = (Inr l, s)"
    using d by simp_all
qed

text \<open>The changes the operations make to a dispute keep what it refers to.\<close>

definition dispute_links :: "dispute \<Rightarrow> uid \<times> uid \<times> uid \<times> uid \<times> time" where
  "dispute_links d = (di_id d, di_bookingId d, di_pilgrimId d, di_agencyId d, di_createdAt d)"

definition same_links :: "(dispute \<Rightarrow> dispute) \<Rightarrow> bool" where
  "same_links f \<longleftrightarrow> (\<forall>d. dispute_links (f d) = dispute_links d)"

lemma find_one_after:
  assumes auth: "find_dispute_authorized userId r i s = (Inr l, s)"
    and d: "List.find (\<lambda>d. di_id d = i) (db_disputes t) = Some (f (dd_row l))" and f: "same_links f"
    and vis: "r = ADMIN \<Longrightarrow> visible_to_admin (di_status (f (dd_row l)))"
    and same: "db_bookings t = db_bookings s" "db_packages t = db_packages s"
      "db_agencies t = db_agencies s" "db_users t = db_users s"
  shows "\<exists>v. find_one_dispute userId r i t = (Inr v, t) \<and> dsh_status v = di_status (f (dd_row l))"
proof -
  note a = find_dispute_authorizedD [OF auth]
  obtain b p ag u where fk: "List.find (\<lambda>b. b_id b = di_bookingId (dd_row l)) (db_bookings s) = Some b"
      "List.find (\<lambda>p. p_id p = b_packageId b) (db_packages s) = Some p"
      "List.find (\<lambda>a. a_id a = di_agencyId (dd_row l)) (db_agencies s) = Some ag"
      "List.find (\<lambda>u. u_id u = di_pilgrimId (dd_row l)) (db_users s) = Some u" "dd_ownerId l = a_ownerId ag"
    using load_detailD [OF a(4)] by blast
  obtain l' where l': "load_detail (f (dd_row l)) t = (Inr l', t)" "dd_row l' = f (dd_row l)"
      "dd_ownerId l' = a_ownerId ag"
    using load_detail_run [of "f (dd_row l)" t b p ag u] fk f same by (auto simp: same_links_def dispute_links_def)
  have "dispute_access userId r l'"
    using a(3) l' fk(5) f vis by (auto simp: dispute_access_def same_links_def dispute_links_def)
  then show ?thesis
    using d l' by (simp add: find_one_dispute_def find_dispute_authorized_def to_dispute_shape_def Let_def)
qed

lemma notifier_run: "\<exists>t. notifier now rs title content s = (Inr (), t) \<and> only_messages s t"
proof (cases "rs = []")
  case False
  obtain ns t where "send now \<lparr>si_recipientIds = rs, si_type = NT_OTHER, si_title = title,
        si_content = content, si_isCritical = False\<rparr> s = (Inr ns, t)" using send_total by blast
  then show ?thesis using False send_ok_only_messages by (auto simp: notifier_def)
qed (simp add: notifier_def only_messages_refl)

lemma admins_after_update:
  "bind (update_dispute now i f) (\<lambda>_. bind (find_many db_users P) g) s =
     bind (update_dispute now i f) (\<lambda>_. g (filter P (db_users s))) s"
  by (simp add: update_dispute_def update_row_def bind_def split: option.split)

lemma dispute_update_then:
  fixes s :: db and n :: nat
  defines "u \<equiv> s\<lparr>db_next := n\<rparr>"
  assumes auth: "find_dispute_authorized userId r i s = (Inr l, s)" and f: "same_links f"
    and vis: "r = ADMIN \<Longrightarrow> visible_to_admin (di_status (f (dd_row l)))"
  shows "\<exists>v t d'. bind (update_dispute now i f) (\<lambda>_. bind (notifier now rs title content) (\<lambda>_.
      find_one_dispute userId r i)) u = (Inr v, t) \<and> dsh_status v = di_status (f (dd_row l)) \<and>
    List.find (\<lambda>d. di_id d = i) (db_disputes t) = Some d' \<and> di_status d' = di_status (f (dd_row l)) \<and>
    dispute_links d' = dispute_links (dd_row l) \<and>
    filter (\<lambda>d. di_id d \<noteq> i) (db_disputes t) = filter (\<lambda>d. di_id d \<noteq> i) (db_disputes s)"
proof -
  let ?g = "\<lambda>d. (f d)\<lparr>di_updatedAt := now\<rparr>"
  let ?w = "db_disputes_update (map (\<lambda>d. if di_id d = i then ?g d else d)) u"
  note a = find_dispute_authorizedD [OF auth]
  have g: "same_links ?g" using f by (simp add: same_links_def dispute_links_def)
  have upd: "update_dispute now i f u = (Inr (), ?w)"
    using a(2) by (simp add: update_dispute_def update_row_def u_def)
  obtain t where t: "notifier now rs title content ?w = (Inr (), t)" "only_messages ?w t"
    using notifier_run by blast
  note same = only_messagesD [OF t(2)]
  have ids: "di_id d = i \<Longrightarrow> di_id (?g d) = i" for d using f by (simp add: same_links_def dispute_links_def)
  have found: "List.find (\<lambda>d. di_id d = i) (db_disputes t) = Some (?g (dd_row l))"
    using find_map_update [of "\<lambda>d. di_id d = i" "\<lambda>d. di_id d = i" ?g "db_disputes s"] ids a(2)
    by (auto simp: same u_def dest: find_Some_set)
  have "filter (\<lambda>d. di_id d \<noteq> i) (map (\<lambda>d. if di_id d = i then ?g d else d) ds) =
      filter (\<lambda>d. di_id d \<noteq> i) ds" for ds
    using ids by (induction ds) auto
  then have others: "filter (\<lambda>d. di_id d \<noteq> i) (db_disputes t) = filter (\<lambda>d. di_id d \<noteq> i) (db_disputes s)"
    by (simp add: same u_def)
  obtain v where "find_one_dispute userId r i t = (Inr v, t)" "dsh_status v = di_status (?g (dd_row l))"
    using find_one_after [OF auth found g] vis by (auto simp: same u_def)
  then show ?thesis using upd t(1) found others g by (auto simp: same_links_def dispute_links_def)
qed

subsection \<open>The operations as steps\<close>

datatype dispute_call =
    CallMessage uid role string
  | CallResolve uid
  | CallEscalate uid
  | CallDecide uid string

fun run_dispute :: "time \<Rightarrow> uid \<Rightarrow> dispute_call \<Rightarrow> (db, dispute_shape) act" where
  "run_dispute now i (CallMessage userId r content) = add_dispute_message now userId r i content"
| "run_dispute now i (CallResolve userId) = resolve_dispute now userId i"
| "run_dispute now i (CallEscalate userId) = escalate_dispute now userId i"
| "run_dispute now i (CallDecide userId decision) = decide_dispute now userId i decision"

fun requester :: "dispute_call \<Rightarrow> uid \<times> role" where
  "requester (CallMessage userId r content) = (userId, r)"
| "requester (CallResolve userId) = (userId, PILGRIM)"
| "requester (CallEscalate userId) = (userId, PILGRIM)"
| "requester (CallDecide userId decision) = (userId, ADMIN)"

fun event_of :: "time \<Rightarrow> dispute \<Rightarrow> dispute_call \<Rightarrow> dispute_event" where
  "event_of now d (CallMessage userId r content) = Message r"
| "event_of now d (CallResolve userId) = Resolve"
| "event_of now d (CallEscalate userId) = Escalate (delay_passed now d)"
| "event_of now d (CallDecide userId decision) = Decide"

lemma message_next:
  "dispute_step st (Message r) st' \<longleftrightarrow> dispute_active st \<and> st' = next_status st r"
  by (auto simp: dispute_active_def next_status_def)

lemma run_dispute_refuses:
  assumes auth: "find_dispute_authorized (fst (requester c)) (snd (requester c)) i s = (Inr l, s)"
    and stuck: "\<nexists>st'. dispute_step (di_status (dd_row l)) (event_of now (dd_row l) c) st'"
  shows "\<exists>e. run_dispute now i c s = (Inl (Conflict e), s)"
proof (cases c)
  case (CallMessage userId r content)
  then show ?thesis
    using auth stuck by (simp add: add_dispute_message_def message_next del: message_step)
next
  case (CallResolve userId)
  then show ?thesis using auth stuck by (simp add: resolve_dispute_def dispute_active_def)
next
  case (CallEscalate userId)
  then show ?thesis using auth stuck by (cases "di_status (dd_row l)") (auto simp: escalate_dispute_def Let_def)
next
  case (CallDecide userId decision)
  then show ?thesis using auth stuck by (simp add: decide_dispute_def)
qed

lemma run_dispute_accepts:
  assumes auth: "find_dispute_authorized (fst (requester c)) (snd (requester c)) i s = (Inr l, s)"
    and step: "dispute_step (di_status (dd_row l)) (event_of now (dd_row l) c) st'"
  shows "\<exists>v t d'. run_dispute now i c s = (Inr v, t) \<and> dsh_status v = st' \<and>
    List.find (\<lambda>d. di_id d = i) (db_disputes t) = Some d' \<and> di_status d' = st' \<and>
    dispute_links d' = dispute_links (dd_row l) \<and>
    filter (\<lambda>d. di_id d \<noteq> i) (db_disputes t) = filter (\<lambda>d. di_id d \<noteq> i) (db_disputes s)"
proof (cases c)
  case (CallMessage userId r content)
  let ?etat = "di_status (dd_row l)"
  let ?f = "\<lambda>d. d\<lparr>di_status := next_status ?etat r,
      di_messages := di_messages d @ [new_message now userId r content (db_next s)]\<rparr>"
  note a = find_dispute_authorizedD [OF auth]
  have st: "dispute_active ?etat" "st' = next_status ?etat r"
    using step CallMessage by (simp_all add: message_next del: message_step)
  have "r = ADMIN \<Longrightarrow> visible_to_admin (next_status ?etat r)"
    using a(3) st CallMessage
    by (auto simp: dispute_access_def visible_to_admin_def next_status_def dispute_active_def)
  then obtain v t d' where "bind (update_dispute now i ?f) (\<lambda>_. bind (notifier now
       ((if r \<noteq> PILGRIM then [di_pilgrimId (dd_row l)] else []) @
        (if r \<noteq> AGENCY then [dd_ownerId l] else []))
       ''Litige : nouveau message'' ''Un nouveau message a ete ajoute a un litige qui vous concerne.'') (\<lambda>_.
      find_one_dispute userId r i)) (s\<lparr>db_next := db_next s + 1\<rparr>) = (Inr v, t)" "dsh_status v = st'"
      "List.find (\<lambda>d. di_id d = i) (db_disputes t) = Some d'" "di_status d' = st'"
      "dispute_links d' = dispute_links (dd_row l)"
      "filter (\<lambda>d. di_id d \<noteq> i) (db_disputes t) = filter (\<lambda>d. di_id d \<noteq> i) (db_disputes s)"
    using dispute_update_then [of userId r i s l ?f now "(if r \<noteq> PILGRIM then [di_pilgrimId (dd_row l)] else []) @
        (if r \<noteq> AGENCY then [dd_ownerId l] else [])" "''Litige : nouveau message''"
        "''Un nouveau message a ete ajoute a un litige qui vous concerne.''" "db_next s + 1"] auth CallMessage st(2)
    by (simp add: same_links_def dispute_links_def) blast
  then show ?thesis
    using CallMessage auth st(1) by (auto simp: add_dispute_message_def Let_def)
next
  case (CallResolve userId)
  let ?f = "\<lambda>d. d\<lparr>di_status := DS_RESOLVED, di_closedAt := Some now\<rparr>"
  have "same_links ?f" by (simp add: same_links_def dispute_links_def)
  then show ?thesis
    using dispute_update_then [of userId PILGRIM i s l ?f now "[dd_ownerId l]" "''Litige resolu''"
      "''Le pelerin a clos un litige a l'amiable.''" "db_next s"] auth step CallResolve
    by (auto simp: resolve_dispute_def dispute_active_def)
next
  case (CallEscalate userId)
  let ?f = "\<lambda>d. d\<lparr>di_status := DS_ESCALATED, di_escalatedAt := Some now\<rparr>"
  have "same_links ?f" by (simp add: same_links_def dispute_links_def)
  then show ?thesis
    using dispute_update_then [of userId PILGRIM i s l ?f now
      "dd_ownerId l # map u_id (filter (\<lambda>u. u_role u = ADMIN \<and> u_isActive u) (db_users s))"
      "''Litige escalade''"
      "''Un litige a ete transmis a l'administration de la plateforme pour arbitrage.''" "db_next s"]
      auth step CallEscalate
    by (auto simp: escalate_dispute_def Let_def admins_after_update)
next
  case (CallDecide userId decision)
  let ?f = "\<lambda>d. d\<lparr>di_status := DS_CLOSED, di_decision := Some decision,
       di_decidedById := Some userId, di_closedAt := Some now\<rparr>"
  have "same_links ?f" by (simp add: same_links_def dispute_links_def)
  then show ?thesis
    using dispute_update_then [of userId ADMIN i s l ?f now "[di_pilgrimId (dd_row l), dd_ownerId l]"
      "''Decision rendue sur un litige''"
      "''L'administration a rendu sa decision. Consultez le litige pour la lire.''" "db_next s"] auth step CallDecide
    by (auto simp: decide_dispute_def visible_to_admin_def)
qed

fun run_calls :: "uid \<Rightarrow> (time \<times> dispute_call) list \<Rightarrow> db \<Rightarrow> db" where
  "run_calls i [] s = s"
| "run_calls i ((now, c) # cs) s = run_calls i cs (snd (run_dispute now i c s))"

lemma run_dispute_unauthorized:
  assumes "find_dispute_authorized (fst (requester c)) (snd (requester c)) i s = (Inl e, u)"
  shows "run_dispute now i c s = (Inl e, s)"
proof -
  have "u = s" using reads_disputes(2) assms by (rule reads_onlyD)
  then show ?thesis
    using assms by (cases c) (simp_all add: add_dispute_message_def resolve_dispute_def
        escalate_dispute_def decide_dispute_def)
qed

text \<open>Every call leaves the status of the dispute, or takes the step of its event.\<close>

lemma run_dispute_step:
  assumes d: "List.find (\<lambda>d. di_id d = i) (db_disputes s) = Some d"
  obtains d' where "List.find (\<lambda>d. di_id d = i) (db_disputes (snd (run_dispute now i c s))) = Some d'"
    and "di_createdAt d' = di_createdAt d"
    and "di_status d' = di_status d \<or> dispute_step (di_status d) (event_of now d c) (di_status d')"
proof -
  obtain x u where x: "find_dispute_authorized (fst (requester c)) (snd (requester c)) i s = (x, u)"
    by fastforce
  have u: "u = s" using reads_disputes(2) x by (rule reads_onlyD)
  show thesis
  proof (cases x)
    case (Inl e)
    then show ?thesis using that [of d] run_dispute_unauthorized [of c i s e u now] x d by simp
  next
    case (Inr l)
    then have auth: "find_dispute_authorized (fst (requester c)) (snd (requester c)) i s = (Inr l, s)"
      using x u by simp
    have dl: "dd_row l = d" using find_dispute_authorizedD(2) [OF auth] d by simp
    show ?thesis
    proof (cases "\<exists>st'. dispute_step (di_status d) (event_of now d c) st'")
      case True
      then obtain st' where "dispute_step (di_status d) (event_of now d c) st'" by blast
      then show ?thesis
        using run_dispute_accepts [OF auth, of now st'] that dl by (auto simp: dispute_links_def)
    next
      case False
      then show ?thesis
        using run_dispute_refuses [OF auth, of now] that [of d] d dl by auto
    qed
  qed
qed

lemma run_calls_history:
  assumes "List.find (\<lambda>d. di_id d = i) (db_disputes s) = Some d" and "dispute_history es (di_status d)"
  shows "\<exists>d' es'. List.find (\<lambda>d. di_id d = i) (db_disputes (run_calls i cs s)) = Some d' \<and>
    dispute_history (es' @ es) (di_status d') \<and>
    (\<forall>e \<in> set es'. \<exists>(now, c) \<in> set cs. \<exists>x. di_createdAt x = di_createdAt d \<and> e = event_of now x c)"
  using assms
proof (induction cs arbitrary: s d es)
  case Nil
  then show ?case by (intro exI [of _ d] exI [of _ "[]"]) simp
next
  case (Cons nc cs)
  obtain now c where nc: "nc = (now, c)" by (cases nc)
  obtain d1 where d1: "List.find (\<lambda>d. di_id d = i) (db_disputes (snd (run_dispute now i c s))) = Some d1"
      "di_createdAt d1 = di_createdAt d"
      "di_status d1 = di_status d \<or> dispute_step (di_status d) (event_of now d c) (di_status d1)"
    using run_dispute_step [OF Cons.prems(1)] by blast
  obtain h where h: "dispute_history (h @ es) (di_status d1)" "set h \<subseteq> {event_of now d c}"
  proof (cases "di_status d1 = di_status d")
    case True
    then show thesis using that [of "[]"] Cons.prems(2) by simp
  next
    case False
    then show thesis using that [of "[event_of now d c]"] d1(3) Cons.prems(2)
      by (auto intro: dispute_history.stepped)
  qed
  obtain d' es' where "List.find (\<lambda>d. di_id d = i) (db_disputes (run_calls i cs (snd (run_dispute now i c s)))) = Some d'"
      "dispute_history (es' @ h @ es) (di_status d')"
      "\<forall>e \<in> set es'. \<exists>(now, c) \<in> set cs. \<exists>x. di_createdAt x = di_createdAt d1 \<and> e = event_of now x c"
    using Cons.IH [OF d1(1) h(1)] by blast
  then show ?case
    using h(2) d1(2) by (intro exI [of _ d'] exI [of _ "es' @ h"]) (auto simp: nc)
qed

text \<open>What the histories promise, by induction on the steps.\<close>

lemma history_answered:
  "dispute_history es st \<Longrightarrow> st = DS_AGENCY_RESPONDED \<Longrightarrow> Message AGENCY \<in> set es"
  by (induction rule: dispute_history.induct) (auto elim: to_answered)

lemma history_escalated:
  "dispute_history es st \<Longrightarrow> st = DS_ESCALATED \<Longrightarrow>
     \<exists>late. Escalate late \<in> set es \<and> (late \<or> Message AGENCY \<in> set es)"
proof (induction rule: dispute_history.induct)
  case (stepped es st e st')
  from stepped(2) [unfolded stepped(4)] show ?case
    by (cases rule: to_escalated) (use stepped history_answered in auto)
qed simp

lemma history_closed:
  "dispute_history es st \<Longrightarrow> st = DS_CLOSED \<Longrightarrow>
     Decide \<in> set es \<and> (\<exists>late. Escalate late \<in> set es \<and> (late \<or> Message AGENCY \<in> set es))"
proof (induction rule: dispute_history.induct)
  case (stepped es st e st')
  from stepped(2) [unfolded stepped(4)] show ?case
    by (cases rule: to_closed) (use stepped(1) history_escalated in auto)
qed simp

section \<open>Properties\<close>

text \<open>
  C7: the operations implement the life of a dispute: for a requester who may see it, a call
  succeeds exactly when the step relation allows its event in the current status, moves the
  dispute to the status the relation gives, and touches no other; otherwise it is refused as
  a conflict and changes nothing.
\<close>
theorem disputes_refine_life:
  assumes "find_dispute_authorized (fst (requester c)) (snd (requester c)) i s = (Inr l, s)"
  shows "if \<exists>st'. dispute_step (di_status (dd_row l)) (event_of now (dd_row l) c) st'
    then \<exists>v t d'. run_dispute now i c s = (Inr v, t) \<and>
      dispute_step (di_status (dd_row l)) (event_of now (dd_row l) c) (dsh_status v) \<and>
      List.find (\<lambda>d. di_id d = i) (db_disputes t) = Some d' \<and> di_status d' = dsh_status v \<and>
      filter (\<lambda>d. di_id d \<noteq> i) (db_disputes t) = filter (\<lambda>d. di_id d \<noteq> i) (db_disputes s)
    else \<exists>e. run_dispute now i c s = (Inl (Conflict e), s)"
proof (cases "\<exists>st'. dispute_step (di_status (dd_row l)) (event_of now (dd_row l) c) st'")
  case True
  then obtain st' where st: "dispute_step (di_status (dd_row l)) (event_of now (dd_row l) c) st'" by blast
  then show ?thesis using run_dispute_accepts [OF assms st] by (auto simp del: message_step resolve_step escalate_step decide_step)
next
  case False
  then show ?thesis using run_dispute_refuses [OF assms, of now] by simp
qed

definition sample_dispute :: dispute where
  "sample_dispute = new_dispute 0 sample_booking
     \<lparr>cd_bookingId = 7, cd_category = ''refund'', cd_subject = ''Sujet'', cd_message = ''Un message''\<rparr> 8 9"

definition sample_dispute_db :: db where
  "sample_dispute_db = sample_booking_db\<lparr>db_disputes := [sample_dispute]\<rparr>"

lemmas sample_dispute_defs = sample_dispute_db_def sample_dispute_def new_dispute_def sample_booking_defs

theorem disputes_refine_life_witness:
  "\<exists>v t. run_dispute 1 9 (CallResolve 5) sample_dispute_db = (Inr v, t) \<and> dsh_status v = DS_RESOLVED"
proof -
  obtain l where l: "find_dispute_authorized 5 PILGRIM 9 sample_dispute_db = (Inr l, sample_dispute_db)"
      "dd_row l = sample_dispute"
    by (simp add: find_dispute_authorized_def load_detail_def dispute_access_def sample_dispute_defs)
  have "di_status sample_dispute = DS_OPEN" by (simp add: sample_dispute_def new_dispute_def)
  then show ?thesis using disputes_refine_life [of "CallResolve 5" 9 sample_dispute_db l 1] l by auto
qed

text \<open>
  C8: no dispute is decided behind the back of the agency: whatever the calls made on a
  dispute since it was opened, it is closed only after the pilgrim escalated it and an
  administrator decided, and the escalation came after a message of the agency or at least
  seven days after the opening.
\<close>
theorem decided_after_escalation:
  assumes "List.find (\<lambda>d. di_id d = i) (db_disputes s) = Some d" and "di_status d = DS_OPEN"
    and "List.find (\<lambda>d. di_id d = i) (db_disputes (run_calls i cs s)) = Some d'"
    and "di_status d' = DS_CLOSED"
  shows "(\<exists>now userId decision. (now, CallDecide userId decision) \<in> set cs) \<and>
    (\<exists>now userId. (now, CallEscalate userId) \<in> set cs \<and>
      (di_createdAt d + 7 * day_ms \<le> now \<or>
       (\<exists>n userId content. (n, CallMessage userId AGENCY content) \<in> set cs)))"
proof -
  have "dispute_history [] (di_status d)" using assms(2) by (simp add: dispute_history.opened)
  from run_calls_history [OF assms(1) this, of cs] assms(3,4) obtain es where
    h: "dispute_history es DS_CLOSED" and from_calls:
      "\<forall>e \<in> set es. \<exists>(now, c) \<in> set cs. \<exists>x. di_createdAt x = di_createdAt d \<and> e = event_of now x c"
    by auto
  have call: "\<exists>now c x. (now, c) \<in> set cs \<and> di_createdAt x = di_createdAt d \<and> e = event_of now x c"
    if "e \<in> set es" for e
    using from_calls that by blast
  obtain late where ev: "Decide \<in> set es" "Escalate late \<in> set es" "late \<or> Message AGENCY \<in> set es"
    using history_closed [OF h refl] by blast
  obtain n1 c1 x1 where c1: "(n1, c1) \<in> set cs" "Decide = event_of n1 x1 c1" using call [OF ev(1)] by blast
  obtain n2 c2 x2 where c2: "(n2, c2) \<in> set cs" "di_createdAt x2 = di_createdAt d"
      "Escalate late = event_of n2 x2 c2" using call [OF ev(2)] by blast
  have "\<exists>u dec. c1 = CallDecide u dec" using c1(2) by (cases c1) auto
  moreover have "\<exists>u. c2 = CallEscalate u" and "late \<Longrightarrow> di_createdAt d + 7 * day_ms \<le> n2"
    using c2(2,3) by (cases c2; auto simp: delay_passed_def agency_response_days_def)+
  moreover have "\<exists>n u m. (n, CallMessage u AGENCY m) \<in> set cs" if "\<not> late"
  proof -
    have m: "Message AGENCY \<in> set es" using ev(3) that by simp
    obtain n3 c3 x3 where c3: "(n3, c3) \<in> set cs" "Message AGENCY = event_of n3 x3 c3"
      using call [OF m] by blast
    then have "\<exists>u m. c3 = CallMessage u AGENCY m" by (cases c3) auto
    then show ?thesis using c3(1) by blast
  qed
  ultimately show ?thesis using c1(1) c2(1) by blast
qed

text \<open>What the calls leave alone.\<close>

lemmas keeps_disputes_read [keeps_intro] = reads_disputes [THEN keeps_reads]

lemma run_dispute_keeps:
  assumes "ignores_messages I" and "\<And>s f. I s \<Longrightarrow> I (db_disputes_update f s)"
    and "\<And>s n. I s \<Longrightarrow> I (s\<lparr>db_next := db_next s + n\<rparr>)"
  shows "keeps I (run_dispute now i c)"
proof -
  have "keeps I (notifier now rs title content)" for rs title content
    unfolding notifier_def by (intro keeps_intro assms)
  moreover have "keeps I (update_dispute now i f)" for f
    unfolding update_dispute_def by (intro keeps_intro assms)
  ultimately show ?thesis
    by (cases c; simp add: add_dispute_message_def resolve_dispute_def escalate_dispute_def
        decide_dispute_def Let_def) (intro keeps_intro; simp add: assms)+
qed

lemma run_dispute_tables:
  defines "keep \<equiv> \<lambda>s t. db_bookings t = db_bookings s \<and> db_packages t = db_packages s \<and>
      db_agencies t = db_agencies s \<and> db_users t = db_users s"
  shows "keep s (snd (run_dispute now i c s))"
proof -
  have "keeps (keep s) (run_dispute now i c)"
    by (rule run_dispute_keeps) (simp_all add: keep_def ignores_messages_def only_messagesD)
  then show ?thesis by (simp add: keeps_def keep_def)
qed

text \<open>An administrator may see a dispute of the pilgrim once it is escalated.\<close>

lemma admin_may_see:
  assumes auth: "find_dispute_authorized pilgrimId PILGRIM i s = (Inr l, s)"
    and d: "List.find (\<lambda>d. di_id d = i) (db_disputes t) = Some d" "dispute_links d = dispute_links (dd_row l)"
      "visible_to_admin (di_status d)"
    and same: "db_bookings t = db_bookings s" "db_packages t = db_packages s"
      "db_agencies t = db_agencies s" "db_users t = db_users s"
  shows "\<exists>l'. find_dispute_authorized adminId ADMIN i t = (Inr l', t) \<and> dd_row l' = d"
proof -
  obtain b p ag u where fk: "List.find (\<lambda>b. b_id b = di_bookingId (dd_row l)) (db_bookings s) = Some b"
      "List.find (\<lambda>p. p_id p = b_packageId b) (db_packages s) = Some p"
      "List.find (\<lambda>a. a_id a = di_agencyId (dd_row l)) (db_agencies s) = Some ag"
      "List.find (\<lambda>u. u_id u = di_pilgrimId (dd_row l)) (db_users s) = Some u"
    using load_detailD [OF find_dispute_authorizedD(4) [OF auth]] by blast
  obtain l' where "load_detail d t = (Inr l', t)" "dd_row l' = d"
    using load_detail_run [of d t b p ag u] fk same d(2) by (auto simp: dispute_links_def)
  then show ?thesis using d by (simp add: find_dispute_authorized_def dispute_access_def)
qed

text \<open>
  C22: a pilgrim is never stuck: an active dispute opened at least seven days ago, whether or
  not the agency answered, is closed by at most two more calls, the escalation by the pilgrim
  if it is still to be made and the decision of an administrator; no other dispute changes.
\<close>
theorem dispute_can_be_closed:
  assumes auth: "find_dispute_authorized pilgrimId PILGRIM i s = (Inr l, s)"
    and active: "dispute_active (di_status (dd_row l))"
    and late: "di_createdAt (dd_row l) + 7 * day_ms \<le> now"
    and cs: "cs = (if di_status (dd_row l) = DS_ESCALATED then [] else [(now, CallEscalate pilgrimId)]) @
      [(now', CallDecide adminId decision)]"
  shows "\<exists>d. List.find (\<lambda>d. di_id d = i) (db_disputes (run_calls i cs s)) = Some d \<and> di_status d = DS_CLOSED \<and>
    filter (\<lambda>d. di_id d \<noteq> i) (db_disputes (run_calls i cs s)) = filter (\<lambda>d. di_id d \<noteq> i) (db_disputes s)"
proof -
  let ?t = "if di_status (dd_row l) = DS_ESCALATED then s else snd (run_dispute now i (CallEscalate pilgrimId) s)"
  obtain d where d: "List.find (\<lambda>d. di_id d = i) (db_disputes ?t) = Some d" "di_status d = DS_ESCALATED"
      "dispute_links d = dispute_links (dd_row l)"
      "filter (\<lambda>d. di_id d \<noteq> i) (db_disputes ?t) = filter (\<lambda>d. di_id d \<noteq> i) (db_disputes s)"
  proof (cases "di_status (dd_row l) = DS_ESCALATED")
    case True
    then show thesis using that [of "dd_row l"] find_dispute_authorizedD(2) [OF auth] by simp
  next
    case False
    then have "dispute_step (di_status (dd_row l)) (event_of now (dd_row l) (CallEscalate pilgrimId)) DS_ESCALATED"
      using active late by (auto simp: dispute_active_def delay_passed_def agency_response_days_def)
    then show thesis
      using that False run_dispute_accepts [of "CallEscalate pilgrimId" i s l now DS_ESCALATED] auth by auto
  qed
  have same: "db_bookings ?t = db_bookings s" "db_packages ?t = db_packages s"
      "db_agencies ?t = db_agencies s" "db_users ?t = db_users s"
    using run_dispute_tables [of now i "CallEscalate pilgrimId" s] by (simp_all del: run_dispute.simps)
  have vis: "visible_to_admin (di_status d)" using d(2) by (simp add: visible_to_admin_def)
  obtain l' where l': "find_dispute_authorized adminId ADMIN i ?t = (Inr l', ?t)" "dd_row l' = d"
    using admin_may_see [OF auth d(1,3) vis same, of adminId] by blast
  have "\<exists>d'. List.find (\<lambda>d. di_id d = i) (db_disputes (snd (run_dispute now' i (CallDecide adminId decision) ?t))) = Some d' \<and>
      di_status d' = DS_CLOSED \<and> filter (\<lambda>d. di_id d \<noteq> i) (db_disputes (snd (run_dispute now' i (CallDecide adminId decision) ?t))) =
        filter (\<lambda>d. di_id d \<noteq> i) (db_disputes ?t)"
    using run_dispute_accepts [of "CallDecide adminId decision" i ?t l' now' DS_CLOSED] l' d(2) by auto
  moreover have "run_calls i cs s = snd (run_dispute now' i (CallDecide adminId decision) ?t)"
    by (simp add: cs)
  ultimately show ?thesis using d(4) by metis
qed

lemma sample_dispute_seen:
  "\<exists>l. find_dispute_authorized 5 PILGRIM 9 sample_dispute_db = (Inr l, sample_dispute_db) \<and> dd_row l = sample_dispute"
  by (simp add: find_dispute_authorized_def load_detail_def dispute_access_def sample_dispute_defs)

theorem dispute_can_be_closed_witness:
  "\<exists>d. List.find (\<lambda>d. di_id d = 9) (db_disputes (run_calls 9 [(8 * day_ms, CallEscalate 5),
      (9 * day_ms, CallDecide 1 ''Rien'')] sample_dispute_db)) = Some d \<and> di_status d = DS_CLOSED"
proof -
  obtain l where l: "find_dispute_authorized 5 PILGRIM 9 sample_dispute_db = (Inr l, sample_dispute_db)" "dd_row l = sample_dispute"
    using sample_dispute_seen by blast
  have "dispute_active (di_status (dd_row l))" "di_createdAt (dd_row l) + 7 * day_ms \<le> 8 * day_ms"
      "di_status (dd_row l) \<noteq> DS_ESCALATED"
    by (simp_all add: l(2) sample_dispute_def new_dispute_def dispute_active_def day_ms_def)
  then show ?thesis using dispute_can_be_closed [OF l(1) _ _ refl, of "8 * day_ms" "9 * day_ms" 1 "''Rien''"] by auto
qed

lemma sample_dispute_calls:
  "\<exists>d'. List.find (\<lambda>d. di_id d = 9) (db_disputes (run_calls 9 [(8 * day_ms, CallEscalate 5),
      (9 * day_ms, CallDecide 1 ''Remboursement'')] sample_dispute_db)) = Some d' \<and> di_status d' = DS_CLOSED"
proof -
  let ?s = sample_dispute_db
  let ?t = "snd (run_dispute (8 * day_ms) 9 (CallEscalate 5) ?s)"
  obtain l where l: "find_dispute_authorized 5 PILGRIM 9 ?s = (Inr l, ?s)" "dd_row l = sample_dispute"
    using sample_dispute_seen by blast
  have o: "di_status sample_dispute = DS_OPEN" "delay_passed (8 * day_ms) sample_dispute"
    by (simp_all add: sample_dispute_def new_dispute_def delay_passed_def agency_response_days_def day_ms_def)
  obtain d1 where d1: "List.find (\<lambda>d. di_id d = 9) (db_disputes ?t) = Some d1" "di_status d1 = DS_ESCALATED"
      "dispute_links d1 = dispute_links (dd_row l)"
    using run_dispute_accepts [of "CallEscalate 5" 9 ?s l "8 * day_ms" DS_ESCALATED] l o by auto
  have vis: "visible_to_admin (di_status d1)" using d1(2) by (simp add: visible_to_admin_def)
  obtain l2 where l2: "find_dispute_authorized 1 ADMIN 9 ?t = (Inr l2, ?t)" "dd_row l2 = d1"
    using admin_may_see [OF l(1) d1(1,3) vis, of 1] run_dispute_tables [of "8 * day_ms" 9 "CallEscalate 5" ?s] by blast
  show ?thesis
    using run_dispute_accepts [of "CallDecide 1 ''Remboursement''" 9 ?t l2 "9 * day_ms" DS_CLOSED] l2 d1 by auto
qed

theorem decided_after_escalation_witness:
  "\<exists>now userId. (now, CallEscalate userId) \<in> set [(8 * day_ms, CallEscalate 5),
      (9 * day_ms, CallDecide 1 ''Remboursement'')] \<and> (7 * day_ms \<le> now \<or>
      (\<exists>n u m. (n, CallMessage u AGENCY m) \<in> set [(8 * day_ms, CallEscalate 5),
        (9 * day_ms, CallDecide 1 ''Remboursement'')]))"
proof -
  obtain d' where d': "List.find (\<lambda>d. di_id d = 9) (db_disputes (run_calls 9 [(8 * day_ms, CallEscalate 5),
      (9 * day_ms, CallDecide 1 ''Remboursement'')] sample_dispute_db)) = Some d'" "di_status d' = DS_CLOSED"
    using sample_dispute_calls by blast
  have d: "List.find (\<lambda>d. di_id d = 9) (db_disputes sample_dispute_db) = Some sample_dispute"
    "di_status sample_dispute = DS_OPEN" "di_createdAt sample_dispute = 0"
    by (simp_all add: sample_dispute_db_def sample_dispute_def new_dispute_def)
  show ?thesis using decided_after_escalation [OF d(1,2) d'] d(3) by simp
qed

end
