(* ===== verification/Accounting.thy ===== *)
theory Accounting
  imports Payments
begin

text \<open>
  \<open>src/src/modules/payments/accounting-export.service.ts\<close>: the journal of what an agency
  collected and refunded over a period, and its CSV export.  The access log is not modelled.
\<close>

section \<open>Dates and amounts\<close>

definition periode_max_jours :: int where
  "periode_max_jours = 366"

text \<open>
  \<open>AAAA-MM-JJ\<close> to midnight UTC.  What the parser of the engine rejects and what it rolls over
  to another day are both refused, so the calendar arithmetic alone decides.
\<close>

definition jour :: "string \<Rightarrow> http_error + time" where
  "jour valeur =
     (let y = int (read_nat (take 4 valeur)); m = int (read_nat (take 2 (drop 5 valeur)));
          d = int (read_nat (take 2 (drop 8 valeur))); date = date_utc y (m - 1) d
      in if vers_jour date \<noteq> valeur then Inl (BadRequest (''Date invalide : '' @ valeur)) else Inr date)"

definition date_fr :: "time \<Rightarrow> string" where
  "date_fr t =
     (let s = vers_jour t in take 2 (drop 8 s) @ ''/'' @ take 2 (drop 5 s) @ ''/'' @ take 4 s)"

text \<open>\<open>x.toFixed(2)\<close> with a decimal comma.\<close>

definition fixed2 :: "money \<Rightarrow> string" where
  "fixed2 x =
     (let cents = js_round (\<bar>x\<bar> * 100)
      in (if x < 0 then ''-'' else []) @ show_int (cents div 100) @ '','' @ pad2 (cents mod 100))"

definition montant_fr :: "money \<Rightarrow> string" where
  "montant_fr montant = (if montant = 0 then [] else fixed2 montant)"

definition libelle_moyen :: "payment_method \<Rightarrow> string" where
  "libelle_moyen m =
     (case m of MOBILE_MONEY_ORANGE \<Rightarrow> ''Orange Money'' | MOBILE_MONEY_MTN \<Rightarrow> ''MTN Mobile Money''
      | CARD \<Rightarrow> ''Carte bancaire'')"

section \<open>The journal\<close>

datatype accounting_journal = ENC | REM

record accounting_entry =
  ae_date :: time
  ae_journal :: accounting_journal
  ae_pieceRef :: string
  ae_label :: string
  ae_debit :: money
  ae_credit :: money
  ae_currency :: string
  ae_method :: payment_method
  ae_providerReference :: string
  ae_bookingId :: uid
  ae_installmentNumber :: nat
  ae_pilgrimName :: string
  ae_packageTitle :: string

record accounting_export =
  ax_from :: string
  ax_to :: string
  ax_currency :: string
  ax_totalCollected :: money
  ax_totalRefunded :: money
  ax_net :: money
  ax_entries :: "accounting_entry list"

record accounting_query =
  aq_from :: "string option"
  aq_to :: "string option"

definition periode :: "time \<Rightarrow> accounting_query \<Rightarrow> http_error + string \<times> string" where
  "periode now q =
     (let aujourdhui = vers_jour now;
          from = or_else (aq_from q) (take 8 aujourdhui @ ''01'');
          to' = or_else (aq_to q) aujourdhui
      in case jour to' of Inl e \<Rightarrow> Inl e
         | Inr fin \<Rightarrow> (case jour from of Inl e \<Rightarrow> Inl e
         | Inr debut \<Rightarrow>
             let ecart = (fin - debut) div day_ms in
             if ecart < 0 then Inl (BadRequest ''La date de debut doit preceder la date de fin'')
             else if ecart \<ge> periode_max_jours
             then Inl (BadRequest (''Periode limitee a '' @ show_int periode_max_jours @ '' jours par export''))
             else Inr (from, to')))"

definition in_period :: "time \<Rightarrow> time \<Rightarrow> time option \<Rightarrow> bool" where
  "in_period debut finExclue d \<longleftrightarrow> (case d of None \<Rightarrow> False | Some t \<Rightarrow> debut \<le> t \<and> t < finExclue)"

record accounting_party =
  ap_pilgrimName :: string
  ap_packageTitle :: string

definition party_of :: "db \<Rightarrow> payment \<Rightarrow> accounting_party option" where
  "party_of s p =
     Option.bind (List.find (\<lambda>b. b_id b = pay_bookingId p) (db_bookings s)) (\<lambda>b.
     Option.bind (List.find (\<lambda>u. u_id u = b_pilgrimId b) (db_users s)) (\<lambda>u.
     map_option (\<lambda>k. \<lparr>ap_pilgrimName = u_fullName u, ap_packageTitle = p_title k\<rparr>)
       (List.find (\<lambda>k. p_id k = b_packageId b) (db_packages s))))"

definition period_payments :: "uid \<Rightarrow> time \<Rightarrow> time \<Rightarrow> db \<Rightarrow> (payment \<times> accounting_party) list" where
  "period_payments agencyId debut finExclue s =
     List.map_filter (\<lambda>p. map_option (\<lambda>x. (p, x)) (party_of s p))
       (filter (\<lambda>p. (\<exists>b \<in> set (db_bookings s). b_id b = pay_bookingId p \<and> b_agencyId b = agencyId) \<and>
          (in_period debut finExclue (pay_confirmedAt p) \<or> in_period debut finExclue (pay_refundedAt p)))
        (db_payments s))"

definition common_entry :: "payment \<Rightarrow> accounting_party \<Rightarrow> accounting_entry" where
  "common_entry p x =
     \<lparr>ae_date = 0, ae_journal = ENC, ae_pieceRef = [], ae_label = [], ae_debit = 0, ae_credit = 0,
      ae_currency = pay_currency p, ae_method = pay_method p,
      ae_providerReference = pay_providerReference p, ae_bookingId = pay_bookingId p,
      ae_installmentNumber = pay_installmentNumber p, ae_pilgrimName = ap_pilgrimName x,
      ae_packageTitle = ap_packageTitle x\<rparr>"

definition tiers_text :: "accounting_party \<Rightarrow> string" where
  "tiers_text x = ap_pilgrimName x @ '' - '' @ ap_packageTitle x"

definition collection_entry :: "payment \<Rightarrow> accounting_party \<Rightarrow> accounting_entry" where
  "collection_entry p x =
     (common_entry p x)\<lparr>ae_date := or_else (pay_confirmedAt p) 0, ae_journal := ENC,
       ae_pieceRef := or_else (pay_receiptRef p) (''RCPT-'' @ show_nat (pay_id p)),
       ae_label := ''Versement '' @ show_nat (pay_installmentNumber p) @ '' - '' @ tiers_text x,
       ae_debit := pay_amount p, ae_credit := 0\<rparr>"

definition refund_entry :: "payment \<Rightarrow> accounting_party \<Rightarrow> accounting_entry" where
  "refund_entry p x =
     (common_entry p x)\<lparr>ae_date := or_else (pay_refundedAt p) 0, ae_journal := REM,
       ae_pieceRef := ''REMB-'' @ show_nat (pay_id p),
       ae_label := ''Remboursement versement '' @ show_nat (pay_installmentNumber p) @ '' - '' @ tiers_text x,
       ae_debit := 0, ae_credit := or_else (pay_refundedAmount p) 0\<rparr>"

definition payment_entries :: "time \<Rightarrow> time \<Rightarrow> payment \<times> accounting_party \<Rightarrow> accounting_entry list" where
  "payment_entries debut finExclue px =
     (case px of (p, x) \<Rightarrow>
        (if in_period debut finExclue (pay_confirmedAt p) then [collection_entry p x] else []) @
        (if in_period debut finExclue (pay_refundedAt p) \<and> or_else (pay_refundedAmount p) 0 \<noteq> 0
         then [refund_entry p x] else []))"

definition journal_entries :: "time \<Rightarrow> time \<Rightarrow> (payment \<times> accounting_party) list \<Rightarrow> accounting_entry list" where
  "journal_entries debut finExclue ps =
     sort_key ae_date (concat (map (payment_entries debut finExclue) ps))"

definition journal_of :: "string \<Rightarrow> string \<Rightarrow> accounting_entry list \<Rightarrow> accounting_export" where
  "journal_of from to' entries =
     (let totalCollected = round_cents (sum_list (map ae_debit entries));
          totalRefunded = round_cents (sum_list (map ae_credit entries))
      in \<lparr>ax_from = from, ax_to = to',
          ax_currency = (case entries of [] \<Rightarrow> default_currency | e # _ \<Rightarrow> ae_currency e),
          ax_totalCollected = totalCollected, ax_totalRefunded = totalRefunded,
          ax_net = round_cents (totalCollected - totalRefunded), ax_entries = entries\<rparr>)"

definition get_journal :: "time \<Rightarrow> uid \<Rightarrow> accounting_query \<Rightarrow> (db, accounting_export) act" where
  "get_journal now ownerId q =
     bind (find_by_owner_or_fail ownerId) (\<lambda>agency.
     bind (from_result (periode now q)) (\<lambda>(from, to').
     bind (from_result (jour from)) (\<lambda>debut.
     bind (from_result (jour to')) (\<lambda>fin.
     query (\<lambda>s. journal_of from to' (journal_entries debut (fin + day_ms)
       (period_payments (as_id agency) debut (fin + day_ms) s)))))))"

section \<open>The export\<close>

definition journal_header :: "string list" where
  "journal_header = [''Date'', ''Journal'', ''No piece'', ''Libelle'', ''Debit'', ''Credit'', ''Devise'',
     ''Moyen de paiement'', ''Reference prestataire'', ''Reservation'', ''Versement'', ''Pelerin'', ''Forfait'']"

definition show_journal :: "accounting_journal \<Rightarrow> string" where
  "show_journal j = (case j of ENC \<Rightarrow> ''ENC'' | REM \<Rightarrow> ''REM'')"

definition journal_cells :: "accounting_entry \<Rightarrow> string option list" where
  "journal_cells e = map Some
     [date_fr (ae_date e), show_journal (ae_journal e), ae_pieceRef e, ae_label e, montant_fr (ae_debit e),
      montant_fr (ae_credit e), ae_currency e, libelle_moyen (ae_method e), ae_providerReference e,
      show_nat (ae_bookingId e), show_nat (ae_installmentNumber e), ae_pilgrimName e, ae_packageTitle e]"

definition journal_csv :: "accounting_export \<Rightarrow> string" where
  "journal_csv journal =
     bom_utf8 @ join [CHR 0x0D, CHR 0x0A]
       (map (\<lambda>r. join '';'' (map cellule_csv r)) (map Some journal_header # map journal_cells (ax_entries journal)))"

definition get_journal_csv :: "time \<Rightarrow> uid \<Rightarrow> accounting_query \<Rightarrow> (db, string) act" where
  "get_journal_csv now ownerId q = bind (get_journal now ownerId q) (\<lambda>j. ret (journal_csv j))"

section \<open>Lemmas\<close>

lemma reads_accounting [reads_intro]: "reads_only (get_journal now i q)" "reads_only (get_journal_csv now i q)"
  unfolding get_journal_def get_journal_csv_def by (intro reads_intro | clarsimp split: prod.split)+

subsection \<open>Dates as text\<close>

lemma get_date_range: "1 \<le> get_date t \<and> get_date t \<le> 31"
proof -
  define y where "y = get_year t"
  define k where "k = day_of t - day_from_year y"
  have k: "0 \<le> k" "k < 365 + leap_day y"
    using year_of_day_bounds [of "day_of t"] day_from_year_Suc [of y]
    by (simp_all add: k_def y_def get_year_def)
  have l: "leap_day y = 0 \<or> leap_day y = 1" by (simp add: leap_day_def)
  have g: "get_date t = k - days_before_month y (month_of_year_day y k) + 1"
    by (simp add: get_date_def get_month_def y_def k_def)
  show ?thesis unfolding g using k l
    by (auto simp: month_of_year_day_def days_before_month_def)
qed

lemma length_show_nat: "length (show_nat n) \<le> k" if "n < 10 ^ k" "0 < k"
  using that
proof (induction n arbitrary: k rule: show_nat.induct)
  case (1 n)
  show ?case
  proof (cases "n < 10")
    case True
    then show ?thesis using 1 by (subst show_nat.simps) simp
  next
    case False
    obtain j where k: "k = Suc j" using 1(3) by (cases k) auto
    then have j: "k = Suc j" "0 < j" using 1(2) False by (cases j; simp)+
    then have "n div 10 < 10 ^ j" using 1 by (simp add: less_mult_imp_div_less mult.commute)
    then have "length (show_nat (n div 10)) \<le> j" using 1(1) False j(2) by blast
    then show ?thesis using False j by (subst show_nat.simps) simp
  qed
qed

lemma pad_start_length: "length s \<le> w \<Longrightarrow> length (pad_start w c s) = w"
  by (simp add: pad_start_def)

lemma padded_number:
  assumes "0 \<le> n" and "n < 10 ^ w" and "0 < w"
  shows "length (pad_start w (CHR ''0'') (show_int n)) = w"
    and "read_nat (pad_start w (CHR ''0'') (show_int n)) = nat n"
proof -
  have "nat n < 10 ^ w" using assms by (simp add: nat_less_iff)
  then show "length (pad_start w (CHR ''0'') (show_int n)) = w"
    using length_show_nat [of "nat n" w] assms by (intro pad_start_length) (simp add: show_int_def)
  show "read_nat (pad_start w (CHR ''0'') (show_int n)) = nat n"
    using assms by (simp add: show_int_def)
qed

text \<open>The text of a day, cut at its fields.\<close>

lemma vers_jour_fields:
  assumes "0 \<le> get_year t" and "get_year t \<le> 9999"
  shows "read_nat (take 4 (vers_jour t)) = nat (get_year t)"
    and "read_nat (take 2 (drop 5 (vers_jour t))) = nat (get_month t + 1)"
    and "read_nat (take 2 (drop 8 (vers_jour t))) = nat (get_date t)"
proof -
  note y = padded_number [of "get_year t" 4] and m = padded_number [of "get_month t + 1" 2]
    and d = padded_number [of "get_date t" 2]
  have rm: "0 \<le> get_month t + 1" "get_month t + 1 < 10 ^ 2" using get_month_range [of t] by simp_all
  have rd: "0 \<le> get_date t" "get_date t < 10 ^ 2" using get_date_range [of t] by simp_all
  show "read_nat (take 4 (vers_jour t)) = nat (get_year t)"
    and "read_nat (take 2 (drop 5 (vers_jour t))) = nat (get_month t + 1)"
    and "read_nat (take 2 (drop 8 (vers_jour t))) = nat (get_date t)"
    using assms y m [OF rm] d [OF rd] by (simp_all add: vers_jour_def pad2_def)
qed

lemma jour_of_vers_jour:
  assumes "0 \<le> get_year t" and "get_year t \<le> 9999"
  shows "jour (vers_jour t) = Inr (day_of t * day_ms)"
proof -
  have date: "date_utc (int (nat (get_year t))) (int (nat (get_month t + 1)) - 1) (int (nat (get_date t))) =
      day_of t * day_ms"
    using assms get_month_range [of t] get_date_range [of t] make_day_get [of t] by (simp add: date_utc_def)
  have same: "day_of (day_of t * day_ms) = day_of t" by (simp add: day_of_def)
  have "vers_jour (day_of t * day_ms) = vers_jour t"
    unfolding vers_jour_def get_date_def get_month_def get_year_def same ..
  then show ?thesis
    unfolding jour_def Let_def vers_jour_fields [OF assms] date by simp
qed

lemma date_utc_midnight [simp]: "date_utc y m d mod day_ms = 0"
  by (simp add: date_utc_def)

lemma jourD: "jour v = Inr d \<Longrightarrow> vers_jour d = v \<and> d mod day_ms = 0"
proof -
  assume "jour v = Inr d"
  then have "vers_jour d = v" and e: "d = date_utc (int (read_nat (take 4 v)))
      (int (read_nat (take 2 (drop 5 v))) - 1) (int (read_nat (take 2 (drop 8 v))))"
    by (simp_all add: jour_def Let_def split: if_splits)
  then show ?thesis by (metis date_utc_midnight)
qed

lemma jour_err: "jour v = Inl e \<Longrightarrow> e = BadRequest (''Date invalide : '' @ v)"
  by (simp add: jour_def Let_def split: if_splits)

subsection \<open>The journal\<close>

lemma entry_fields [simp]:
  "ae_debit (collection_entry p x) = pay_amount p" "ae_credit (collection_entry p x) = 0"
  "ae_debit (refund_entry p x) = 0" "ae_credit (refund_entry p x) = or_else (pay_refundedAmount p) 0"
  "ae_date (collection_entry p x) = or_else (pay_confirmedAt p) 0"
  "ae_date (refund_entry p x) = or_else (pay_refundedAt p) 0"
  unfolding collection_entry_def refund_entry_def by simp_all

lemma sum_list_concat_map:
  "sum_list (map f (concat (map g xs))) = sum_list (map (\<lambda>x. sum_list (map f (g x))) xs)"
  by (induction xs) simp_all

lemma sum_list_sort_key: "sum_list (map f (sort_key g xs)) = sum_list (map f xs)"
  for f :: "'a \<Rightarrow> 'b::comm_monoid_add"
proof -
  have "mset (map f (sort_key g xs)) = mset (map f xs)" by simp
  then show ?thesis by (metis sum_mset_sum_list)
qed

lemma sum_journal:
  fixes f :: "accounting_entry \<Rightarrow> money"
  shows "sum_list (map f (journal_entries a b ps)) =
    sum_list (map (\<lambda>px. sum_list (map f (payment_entries a b px))) ps)"
  by (simp only: journal_entries_def sum_list_sort_key sum_list_concat_map)

lemma sum_list_if: "sum_list (map (\<lambda>x. if P x then f x else 0) xs) = sum_list (map f (filter P xs))"
  for f :: "'a \<Rightarrow> money"
  by (induction xs) simp_all

definition collected_in :: "time \<Rightarrow> time \<Rightarrow> (payment \<times> accounting_party) list \<Rightarrow> money" where
  "collected_in a b ps = sum_list (map (pay_amount \<circ> fst) (filter (\<lambda>px. in_period a b (pay_confirmedAt (fst px))) ps))"

definition refunded_in :: "time \<Rightarrow> time \<Rightarrow> (payment \<times> accounting_party) list \<Rightarrow> money" where
  "refunded_in a b ps = sum_list (map (\<lambda>px. or_else (pay_refundedAmount (fst px)) 0)
     (filter (\<lambda>px. in_period a b (pay_refundedAt (fst px))) ps))"

lemma entry_debits:
  "sum_list (map ae_debit (payment_entries a b px)) =
     (if in_period a b (pay_confirmedAt (fst px)) then pay_amount (fst px) else 0)"
  by (cases px) (simp add: payment_entries_def)

lemma entry_credits:
  "sum_list (map ae_credit (payment_entries a b px)) =
     (if in_period a b (pay_refundedAt (fst px)) then or_else (pay_refundedAmount (fst px)) 0 else 0)"
  by (cases px) (simp add: payment_entries_def)

lemma sum_debits: "sum_list (map ae_debit (journal_entries a b ps)) = collected_in a b ps"
  by (simp only: sum_journal entry_debits sum_list_if collected_in_def comp_def)

lemma sum_credits: "sum_list (map ae_credit (journal_entries a b ps)) = refunded_in a b ps"
  by (simp only: sum_journal entry_credits sum_list_if refunded_in_def)

lemma journal_entry_range:
  "e \<in> set (journal_entries a b ps) \<Longrightarrow> a \<le> ae_date e \<and> ae_date e < b"
  by (auto simp: journal_entries_def payment_entries_def in_period_def
      split: if_splits option.splits)

section \<open>Properties\<close>

text \<open>
  The bounds of a period are read exactly: the text of a day of the years 0 to 9999 is
  read as its midnight, and nothing else is read, so a 31 February is refused.
\<close>
theorem jour_reads_calendar_days:
  "(0 \<le> get_year t \<and> get_year t \<le> 9999 \<longrightarrow> jour (vers_jour t) = Inr (day_of t * day_ms)) \<and>
   (case jour v of Inr d \<Rightarrow> vers_jour d = v \<and> d mod day_ms = 0
    | Inl e \<Rightarrow> e = BadRequest (''Date invalide : '' @ v))"
  using jour_of_vers_jour [of t] jourD [of v] jour_err [of v] by (cases "jour v") auto

theorem jour_reads_calendar_days_witness: "jour ''1970-01-01'' = Inr 0"
proof -
  have "get_year 0 = 1970" and "vers_jour 0 = ''1970-01-01''" by code_simp+
  then show ?thesis
    using jour_reads_calendar_days [of 0 "''1970-01-01''"] by (simp add: day_of_def)
qed

text \<open>
  C9: the journal of a period covers at most 366 days, lists its entries in the order of
  their dates, all in the period, and its totals are those of the payments of the agency
  confirmed and refunded in it; the net is their difference.
\<close>
theorem journal_balances:
  assumes "get_journal now ownerId q s = (Inr j, t)"
  shows "\<exists>a debut fin ps. List.find (\<lambda>a. a_ownerId a = ownerId) (db_agencies s) = Some a \<and>
    jour (ax_from j) = Inr debut \<and> jour (ax_to j) = Inr fin \<and> debut \<le> fin \<and> fin - debut < 366 * day_ms \<and>
    ps = period_payments (a_id a) debut (fin + day_ms) s \<and>
    sorted (map ae_date (ax_entries j)) \<and>
    (\<forall>e \<in> set (ax_entries j). debut \<le> ae_date e \<and> ae_date e < fin + day_ms) \<and>
    ax_totalCollected j = round_cents (collected_in debut (fin + day_ms) ps) \<and>
    ax_totalRefunded j = round_cents (refunded_in debut (fin + day_ms) ps) \<and>
    ax_net j = round_cents (ax_totalCollected j - ax_totalRefunded j)"
proof -
  obtain a f0 to' debut fin where a: "List.find (\<lambda>a. a_ownerId a = ownerId) (db_agencies s) = Some a"
    and per: "periode now q = Inr (f0, to')" and d: "jour f0 = Inr debut" "jour to' = Inr fin"
    and j: "j = journal_of f0 to' (journal_entries debut (fin + day_ms)
      (period_payments (a_id a) debut (fin + day_ms) s))"
    using assms by (auto simp: get_journal_def bind_ok find_by_owner_or_fail_ok)
  have mod: "debut mod day_ms = 0" "fin mod day_ms = 0" using d by (auto dest: jourD)
  have "0 \<le> (fin - debut) div day_ms" "(fin - debut) div day_ms < 366"
    using per d by (auto simp: periode_def Let_def periode_max_jours_def split: sum.splits if_splits)
  moreover have "(fin - debut) div day_ms * day_ms = fin - debut"
    by (rule dvd_div_mult_self) (use mod in \<open>simp add: dvd_diff mod_0_imp_dvd\<close>)
  ultimately have "debut \<le> fin" "fin - debut < 366 * day_ms"
    by (metis day_ms_pos(1) diff_ge_0_iff_ge mult_nonneg_nonneg order_less_imp_le,
        metis day_ms_pos(1) mult_strict_right_mono)
  then show ?thesis
    using a d journal_entry_range [of _ debut "fin + day_ms"]
    by (intro exI [of _ a] exI [of _ debut] exI [of _ fin] exI conjI)
      (auto simp: j journal_of_def Let_def sum_debits sum_credits, simp add: journal_entries_def)
qed

lemma jour_epoch: "jour ''1970-01-01'' = Inr 0"
  by code_simp

text \<open>The journal of the day a payment of 400 was confirmed.\<close>

definition sample_journal_query :: accounting_query where
  "sample_journal_query = \<lparr>aq_from = Some ''1970-01-01'', aq_to = Some ''1970-01-01''\<rparr>"

theorem journal_balances_witness:
  "\<exists>j ps. get_journal 0 1 sample_journal_query sample_payment_db = (Inr j, sample_payment_db) \<and>
     ps = period_payments 2 0 day_ms sample_payment_db \<and>
     ax_totalCollected j = round_cents (collected_in 0 day_ms ps)"
proof -
  have p: "periode 0 sample_journal_query = Inr (''1970-01-01'', ''1970-01-01'')"
    by (simp add: periode_def sample_journal_query_def Let_def jour_epoch periode_max_jours_def)
  obtain j where j: "get_journal 0 1 sample_journal_query sample_payment_db = (Inr j, sample_payment_db)"
    and fr: "ax_from j = ''1970-01-01''" "ax_to j = ''1970-01-01''"
    by (simp add: get_journal_def find_by_owner_or_fail_run p jour_epoch journal_of_def Let_def
        sample_payment_db_def sample_booking_defs)
  have "List.find (\<lambda>a. a_ownerId a = 1) (db_agencies sample_payment_db) = Some sample_agency"
    and "a_id sample_agency = 2"
    by (simp_all add: sample_payment_db_def sample_booking_defs)
  then show ?thesis using journal_balances [OF j] j fr by (auto simp: jour_epoch)
qed

end
