(* ===== verification/OnCall.thy ===== *)
theory OnCall
  imports Bookings
begin

text \<open>
  \<open>src/src/modules/on-call/on-call.service.ts\<close>: the shifts an agency plans, the hours of a
  trip nobody covers, and whom a pilgrim can call now.
\<close>

section \<open>Shapes\<close>

definition max_shift_days :: int where
  "max_shift_days = 14"

definition heure_ms :: int where
  "heure_ms = 60 * 60 * 1000"

definition on_call_roles :: "string list" where
  "on_call_roles = [''guide'', ''coordinator'', ''manager'', ''other'']"

record shift_shape =
  sf_id :: uid
  sf_packageId :: "uid option"
  sf_packageTitle :: "string option"
  sf_staffName :: string
  sf_staffRole :: string
  sf_phone :: string
  sf_startsAt :: time
  sf_endsAt :: time
  sf_notes :: "string option"

record on_call_period =
  op_from :: time
  op_to :: time

record on_call_coverage =
  oy_packageId :: uid
  oy_packageTitle :: string
  oy_from :: time
  oy_to :: time
  oy_coveredHours :: rat
  oy_totalHours :: rat
  oy_gaps :: "on_call_period list"

record on_call_contact =
  ot_staffName :: string
  ot_staffRole :: string
  ot_phone :: string
  ot_startsAt :: time
  ot_endsAt :: time

record my_on_call =
  mo_bookingId :: uid
  mo_agencyName :: string
  mo_agencyPhone :: string
  mo_current :: "on_call_contact list"
  mo_next :: "on_call_contact option"

definition to_shift_shape :: "package list \<Rightarrow> on_call_shift \<Rightarrow> shift_shape" where
  "to_shift_shape ps c =
     \<lparr>sf_id = oc_id c, sf_packageId = oc_packageId c,
      sf_packageTitle = Option.bind (oc_packageId c) (\<lambda>i. map_option p_title (List.find (\<lambda>p. p_id p = i) ps)),
      sf_staffName = oc_staffName c, sf_staffRole = oc_staffRole c, sf_phone = oc_phone c,
      sf_startsAt = oc_startsAt c, sf_endsAt = oc_endsAt c, sf_notes = oc_notes c\<rparr>"

definition to_contact_shape :: "on_call_shift \<Rightarrow> on_call_contact" where
  "to_contact_shape c =
     \<lparr>ot_staffName = oc_staffName c, ot_staffRole = oc_staffRole c, ot_phone = oc_phone c,
      ot_startsAt = oc_startsAt c, ot_endsAt = oc_endsAt c\<rparr>"

section \<open>Hours without anyone\<close>

fun trous :: "time \<Rightarrow> time \<Rightarrow> on_call_shift list \<Rightarrow> on_call_period list" where
  "trous fin curseur [] = (if curseur < fin then [\<lparr>op_from = curseur, op_to = fin\<rparr>] else [])"
| "trous fin curseur (c # cs) =
     (if fin \<le> curseur then []
      else (if curseur < oc_startsAt c then [\<lparr>op_from = curseur, op_to = min (oc_startsAt c) fin\<rparr>] else []) @
        trous fin (max curseur (oc_endsAt c)) cs)"

definition trous_de_couverture :: "time \<Rightarrow> time \<Rightarrow> on_call_shift list \<Rightarrow> on_call_period list" where
  "trous_de_couverture debut fin creneaux = trous fin debut (sort_key oc_startsAt creneaux)"

definition verifier_periode :: "time \<Rightarrow> time \<Rightarrow> (db, unit) act" where
  "verifier_periode startsAt endsAt =
     bind (require (\<not> endsAt \<le> startsAt) (BadRequest ''La fin du creneau doit suivre son debut'')) (\<lambda>_.
     require (\<not> max_shift_days * day_ms < endsAt - startsAt)
       (BadRequest (''Un creneau d'astreinte dure au plus '' @ show_int max_shift_days @ '' jours'')))"

section \<open>Shifts\<close>

definition shift_agency_id :: "uid \<Rightarrow> (db, uid) act" where
  "shift_agency_id ownerId = bind (find_by_owner_or_fail ownerId) (\<lambda>a. ret (as_id a))"

definition assert_own_package :: "uid \<Rightarrow> uid \<Rightarrow> (db, package) act" where
  "assert_own_package agencyId packageId =
     bind (find_first db_packages (\<lambda>p. p_id p = packageId)) (\<lambda>found.
     bind (or_fail (NotFound ''Forfait introuvable'') found) (\<lambda>forfait.
     bind (require (p_agencyId forfait = agencyId)
       (Forbidden ''Ce forfait n'appartient pas a votre agence'')) (\<lambda>_.
     ret forfait)))"

definition find_owned_shift :: "uid \<Rightarrow> uid \<Rightarrow> (db, on_call_shift) act" where
  "find_owned_shift ownerId i =
     bind (shift_agency_id ownerId) (\<lambda>agencyId.
     bind (find_first db_shifts (\<lambda>c. oc_id c = i)) (\<lambda>found.
     bind (or_fail (NotFound ''Creneau d'astreinte introuvable'') found) (\<lambda>creneau.
     bind (require (oc_agencyId creneau = agencyId)
       (Forbidden ''Ce creneau n'appartient pas a votre agence'')) (\<lambda>_.
     ret creneau))))"

record shifts_query =
  sq_packageId :: "uid option"
  sq_from :: "time option"
  sq_to :: "time option"

definition for_trip :: "uid \<Rightarrow> on_call_shift \<Rightarrow> bool" where
  "for_trip packageId c \<longleftrightarrow> oc_packageId c = Some packageId \<or> oc_packageId c = None"

definition list_shifts :: "time \<Rightarrow> uid \<Rightarrow> shifts_query \<Rightarrow> (db, shift_shape list) act" where
  "list_shifts now ownerId q =
     bind (shift_agency_id ownerId) (\<lambda>agencyId.
     query (\<lambda>s. map (to_shift_shape (db_packages s)) (sort_key oc_startsAt
       (filter (\<lambda>c. oc_agencyId c = agencyId \<and> or_else (sq_from q) now < oc_endsAt c \<and>
          (case sq_to q of None \<Rightarrow> True | Some t \<Rightarrow> oc_startsAt c < t) \<and>
          (case sq_packageId q of None \<Rightarrow> True | Some p \<Rightarrow> for_trip p c))
        (db_shifts s)))))"

record create_shift_dto =
  cs_packageId :: "uid option"
  cs_staffName :: string
  cs_staffRole :: string
  cs_phone :: string
  cs_startsAt :: time
  cs_endsAt :: time
  cs_notes :: "string option"

definition new_shift :: "uid \<Rightarrow> create_shift_dto \<Rightarrow> uid \<Rightarrow> on_call_shift" where
  "new_shift agencyId dto i =
     \<lparr>oc_id = i, oc_agencyId = agencyId, oc_packageId = cs_packageId dto, oc_staffName = cs_staffName dto,
      oc_staffRole = cs_staffRole dto, oc_phone = cs_phone dto, oc_startsAt = cs_startsAt dto,
      oc_endsAt = cs_endsAt dto, oc_notes = cs_notes dto\<rparr>"

definition create_shift :: "uid \<Rightarrow> create_shift_dto \<Rightarrow> (db, shift_shape) act" where
  "create_shift ownerId dto =
     bind (shift_agency_id ownerId) (\<lambda>agencyId.
     bind (verifier_periode (cs_startsAt dto) (cs_endsAt dto)) (\<lambda>_.
     bind (case cs_packageId dto of None \<Rightarrow> ret ()
       | Some p \<Rightarrow> bind (assert_own_package agencyId p) (\<lambda>_. ret ())) (\<lambda>_.
     bind (create_row db_shifts_update (new_shift agencyId dto)) (\<lambda>creneau.
     query (\<lambda>s. to_shift_shape (db_packages s) creneau)))))"

record update_shift_dto =
  us_staffName :: "string option"
  us_staffRole :: "string option"
  us_shiftPhone :: "string option"
  us_startsAt :: "time option"
  us_endsAt :: "time option"
  us_notes :: "string option"

definition apply_shift_update :: "update_shift_dto \<Rightarrow> time \<Rightarrow> time \<Rightarrow> on_call_shift \<Rightarrow> on_call_shift" where
  "apply_shift_update dto startsAt endsAt c =
     c\<lparr>oc_staffName := or_else (us_staffName dto) (oc_staffName c),
       oc_staffRole := or_else (us_staffRole dto) (oc_staffRole c),
       oc_phone := or_else (us_shiftPhone dto) (oc_phone c), oc_startsAt := startsAt, oc_endsAt := endsAt,
       oc_notes := or_keep (us_notes dto) (oc_notes c)\<rparr>"

definition update_shift :: "uid \<Rightarrow> uid \<Rightarrow> update_shift_dto \<Rightarrow> (db, shift_shape) act" where
  "update_shift ownerId i dto =
     bind (find_owned_shift ownerId i) (\<lambda>actuel.
     let startsAt = or_else (us_startsAt dto) (oc_startsAt actuel);
         endsAt = or_else (us_endsAt dto) (oc_endsAt actuel) in
     bind (verifier_periode startsAt endsAt) (\<lambda>_.
     bind (update_row db_shifts db_shifts_update (\<lambda>c. oc_id c = i) (apply_shift_update dto startsAt endsAt)) (\<lambda>creneau.
     query (\<lambda>s. to_shift_shape (db_packages s) creneau))))"

definition delete_shift :: "uid \<Rightarrow> uid \<Rightarrow> (db, unit) act" where
  "delete_shift ownerId i =
     bind (find_owned_shift ownerId i) (\<lambda>_.
     bind (delete_many db_shifts db_shifts_update (\<lambda>c. oc_id c = i)) (\<lambda>_. ret ()))"

section \<open>Coverage of a trip, and whom to call\<close>

definition heures :: "int \<Rightarrow> rat" where
  "heures ms = of_int (js_round (of_int ms / of_int heure_ms * 10)) / 10"

definition gap_length :: "on_call_period list \<Rightarrow> int" where
  "gap_length gaps = sum_list (map (\<lambda>g. op_to g - op_from g) gaps)"

definition trip_shifts :: "uid \<Rightarrow> uid \<Rightarrow> time \<Rightarrow> time \<Rightarrow> db \<Rightarrow> on_call_shift list" where
  "trip_shifts agencyId packageId debut fin s =
     filter (\<lambda>c. oc_agencyId c = agencyId \<and> for_trip packageId c \<and> oc_startsAt c < fin \<and> debut < oc_endsAt c)
       (db_shifts s)"

definition get_coverage :: "uid \<Rightarrow> uid \<Rightarrow> (db, on_call_coverage) act" where
  "get_coverage ownerId packageId =
     bind (shift_agency_id ownerId) (\<lambda>agencyId.
     bind (assert_own_package agencyId packageId) (\<lambda>forfait.
     let debut = p_startDate forfait; fin = p_endDate forfait + day_ms in
     bind (query (trip_shifts agencyId packageId debut fin)) (\<lambda>creneaux.
     let gaps = trous_de_couverture debut fin creneaux; totalMs = fin - debut; trousMs = gap_length gaps in
     ret \<lparr>oy_packageId = packageId, oy_packageTitle = p_title forfait, oy_from = debut, oy_to = fin,
       oy_coveredHours = heures (totalMs - trousMs), oy_totalHours = heures totalMs, oy_gaps = gaps\<rparr>)))"

definition on_call_now :: "time \<Rightarrow> on_call_shift list \<Rightarrow> on_call_shift list" where
  "on_call_now maintenant creneaux = filter (\<lambda>c. oc_startsAt c \<le> maintenant) creneaux"

definition next_on_call :: "time \<Rightarrow> on_call_shift list \<Rightarrow> on_call_shift option" where
  "next_on_call maintenant creneaux = List.find (\<lambda>c. maintenant < oc_startsAt c) creneaux"

definition upcoming_shifts :: "time \<Rightarrow> booking \<Rightarrow> db \<Rightarrow> on_call_shift list" where
  "upcoming_shifts maintenant reservation s =
     take 20 (sort_key oc_startsAt
       (filter (\<lambda>c. oc_agencyId c = b_agencyId reservation \<and> for_trip (b_packageId reservation) c \<and>
          maintenant < oc_endsAt c) (db_shifts s)))"

definition get_for_booking :: "time \<Rightarrow> uid \<Rightarrow> uid \<Rightarrow> (db, my_on_call) act" where
  "get_for_booking now pilgrimId bookingId =
     bind (find_first db_bookings (\<lambda>b. b_id b = bookingId)) (\<lambda>found.
     bind (or_fail (NotFound ''Reservation introuvable'') found) (\<lambda>reservation.
     bind (related db_agencies (\<lambda>a. a_id a = b_agencyId reservation)) (\<lambda>agency.
     bind (require (b_pilgrimId reservation = pilgrimId) (Forbidden ''Cette reservation n'est pas la votre'')) (\<lambda>_.
     bind (require (b_status reservation \<noteq> CANCELLED) (BadRequest ''Cette reservation est annulee'')) (\<lambda>_.
     bind (query (upcoming_shifts now reservation)) (\<lambda>creneaux.
     ret \<lparr>mo_bookingId = b_id reservation, mo_agencyName = a_legalName agency,
       mo_agencyPhone = a_contactPhone agency,
       mo_current = map to_contact_shape (on_call_now now creneaux),
       mo_next = map_option to_contact_shape (next_on_call now creneaux)\<rparr>))))))"

section \<open>Lemmas\<close>

lemma reads_shifts [reads_intro]:
  "reads_only (shift_agency_id i)" "reads_only (assert_own_package j k)" "reads_only (find_owned_shift i l)"
  "reads_only (list_shifts now i q)" "reads_only (get_coverage i k)" "reads_only (get_for_booking now i l)"
  "reads_only (verifier_periode a b)"
  unfolding shift_agency_id_def assert_own_package_def find_owned_shift_def list_shifts_def get_coverage_def
    get_for_booking_def verifier_periode_def Let_def
  by (intro reads_intro)+

lemmas keeps_shifts_read [keeps_intro] = reads_shifts [THEN keeps_reads]

subsection \<open>The loop over the shifts\<close>

definition covers :: "on_call_shift \<Rightarrow> time \<Rightarrow> bool" where
  "covers c x \<longleftrightarrow> oc_startsAt c \<le> x \<and> x < oc_endsAt c"

definition in_gap :: "on_call_period list \<Rightarrow> time \<Rightarrow> bool" where
  "in_gap gaps x \<longleftrightarrow> (\<exists>g \<in> set gaps. op_from g \<le> x \<and> x < op_to g)"

lemma in_gap_simps [simp]:
  "\<not> in_gap [] x" "in_gap (g # gs) x \<longleftrightarrow> (op_from g \<le> x \<and> x < op_to g) \<or> in_gap gs x"
  "in_gap (gs @ hs) x \<longleftrightarrow> in_gap gs x \<or> in_gap hs x"
  by (auto simp: in_gap_def)

lemma trous_uncovered:
  assumes "sorted (map oc_startsAt cs)"
  shows "in_gap (trous fin cur cs) x \<longleftrightarrow> cur \<le> x \<and> x < fin \<and> (\<forall>c \<in> set cs. \<not> covers c x)"
  using assms
proof (induction cs arbitrary: cur)
  case (Cons c cs)
  have later: "\<forall>d \<in> set cs. oc_startsAt c \<le> oc_startsAt d" and s: "sorted (map oc_startsAt cs)"
    using Cons.prems by auto
  then have early: "x < oc_startsAt c \<Longrightarrow> \<forall>d \<in> set cs. \<not> covers d x" by (auto simp: covers_def)
  show ?case
    using Cons.IH [OF s, of "max cur (oc_endsAt c)"] early
    by (auto simp: covers_def min_def max_def)
qed auto

definition gaps_ordered :: "time \<Rightarrow> time \<Rightarrow> on_call_period list \<Rightarrow> bool" where
  "gaps_ordered a b gaps \<longleftrightarrow>
     (\<forall>g \<in> set gaps. a \<le> op_from g \<and> op_from g < op_to g \<and> op_to g \<le> b) \<and>
     sorted_wrt (\<lambda>g h. op_to g < op_from h) gaps"

lemma trous_ordered:
  assumes "sorted (map oc_startsAt cs)" and "\<forall>c \<in> set cs. oc_startsAt c < oc_endsAt c"
  shows "gaps_ordered cur fin (trous fin cur cs)"
  using assms
proof (induction cs arbitrary: cur)
  case (Cons c cs)
  let ?next = "max cur (oc_endsAt c)"
  have IH: "gaps_ordered ?next fin (trous fin ?next cs)" using Cons by simp
  have long: "oc_startsAt c < oc_endsAt c" using Cons.prems by simp
  show ?case
    using IH long by (auto simp: gaps_ordered_def min_def max_def not_le split: if_splits)
qed (auto simp: gaps_ordered_def)

text \<open>The uncovered time adds up: the gaps are shorter than the trip and the rest is covered.\<close>

lemma gap_length_bounds:
  assumes "gaps_ordered a b gaps" and "a \<le> b"
  shows "0 \<le> gap_length gaps \<and> gap_length gaps \<le> b - a"
  using assms
proof (induction gaps arbitrary: a)
  case (Cons g gs)
  have g: "a \<le> op_from g" "op_from g < op_to g" "op_to g \<le> b"
    using Cons.prems by (auto simp: gaps_ordered_def)
  have "gaps_ordered (op_to g) b gs" using Cons.prems by (auto simp: gaps_ordered_def)
  then have "0 \<le> gap_length gs \<and> gap_length gs \<le> b - op_to g" using Cons.IH g(3) by blast
  then show ?case using g by (simp add: gap_length_def)
qed (simp add: gap_length_def)

subsection \<open>Well formed shifts\<close>

definition shift_ok :: "on_call_shift \<Rightarrow> bool" where
  "shift_ok c \<longleftrightarrow> oc_startsAt c < oc_endsAt c \<and> oc_endsAt c - oc_startsAt c \<le> max_shift_days * day_ms"

definition shifts_ok :: "db \<Rightarrow> bool" where
  "shifts_ok s \<longleftrightarrow> list_all shift_ok (db_shifts s)"

lemma verifier_periode_ok [ok_iff]:
  "verifier_periode a b s = (Inr u, t) \<longleftrightarrow> t = s \<and> a < b \<and> b - a \<le> max_shift_days * day_ms"
  by (auto simp: verifier_periode_def ok_iff simp del: require_run)

lemma create_shift_keeps: "keeps shifts_ok (create_shift ownerId dto)"
  unfolding create_shift_def
proof (rule keeps_bind [OF keeps_shifts_read(1)], rule keeps_checked [OF reads_shifts(7)])
  fix a s u
  assume "verifier_periode (cs_startsAt dto) (cs_endsAt dto) s = (Inr u, s)"
  then have "shift_ok (new_shift a dto i)" for i
    by (simp add: verifier_periode_ok shift_ok_def new_shift_def)
  then show "keeps shifts_ok (bind (case cs_packageId dto of None \<Rightarrow> ret ()
       | Some p \<Rightarrow> bind (assert_own_package a p) (\<lambda>_. ret ())) (\<lambda>_.
     bind (create_row db_shifts_update (new_shift a dto)) (\<lambda>creneau.
     query (\<lambda>s. to_shift_shape (db_packages s) creneau))))"
    by (intro keeps_intro) (simp add: shifts_ok_def)
qed

lemma update_shift_keeps: "keeps shifts_ok (update_shift ownerId i dto)"
  unfolding update_shift_def Let_def
proof (rule keeps_bind [OF keeps_shifts_read(3)], rule keeps_checked [OF reads_shifts(7)])
  fix c s u
  assume "verifier_periode (or_else (us_startsAt dto) (oc_startsAt c)) (or_else (us_endsAt dto) (oc_endsAt c)) s =
    (Inr u, s)"
  then have "shift_ok (apply_shift_update dto (or_else (us_startsAt dto) (oc_startsAt c))
      (or_else (us_endsAt dto) (oc_endsAt c)) d)" for d
    by (simp add: verifier_periode_ok shift_ok_def apply_shift_update_def)
  then show "keeps shifts_ok (bind (update_row db_shifts db_shifts_update (\<lambda>c. oc_id c = i)
      (apply_shift_update dto (or_else (us_startsAt dto) (oc_startsAt c)) (or_else (us_endsAt dto) (oc_endsAt c))))
      (\<lambda>creneau. query (\<lambda>s. to_shift_shape (db_packages s) creneau)))"
    by (intro keeps_intro) (simp add: shifts_ok_def list_all_update)
qed

lemma delete_shift_keeps: "keeps shifts_ok (delete_shift ownerId i)"
  unfolding delete_shift_def
  by (intro keeps_intro) (auto simp: shifts_ok_def list_all_iff)

text \<open>The calls that change the shifts, as a machine.\<close>

datatype shift_call =
    CallCreateShift uid create_shift_dto
  | CallUpdateShift uid uid update_shift_dto
  | CallDeleteShift uid uid

fun shift_step :: "shift_call \<Rightarrow> db \<Rightarrow> db" where
  "shift_step (CallCreateShift ownerId dto) s = snd (create_shift ownerId dto s)"
| "shift_step (CallUpdateShift ownerId i dto) s = snd (update_shift ownerId i dto s)"
| "shift_step (CallDeleteShift ownerId i) s = snd (delete_shift ownerId i s)"

interpretation astreinte: machine shift_step "\<lambda>_ _. True" shifts_ok
proof unfold_locales
  fix c s
  assume "shifts_ok s"
  then show "shifts_ok (shift_step c s)"
    using create_shift_keeps update_shift_keeps delete_shift_keeps by (cases c) (auto simp: keeps_def)
qed

section \<open>Properties\<close>

text \<open>
  C28: the coverage of a trip is exact: along any sequence of calls that plan shifts, an
  instant of the trip is in a reported gap exactly when no shift of the agency, for this trip
  or for all, covers it; the gaps are inside the trip, in order and apart from each other, and
  the covered hours are those of the rest of the trip.
\<close>
theorem coverage_is_exact:
  assumes "shifts_ok s\<^sub>0" and "s = fold shift_step cs s\<^sub>0" and run: "get_coverage ownerId packageId s = (Inr c, t)"
  shows "t = s \<and> (\<exists>a. List.find (\<lambda>a. a_ownerId a = ownerId) (db_agencies s) = Some a \<and>
     (\<forall>x. oy_from c \<le> x \<longrightarrow> x < oy_to c \<longrightarrow> (in_gap (oy_gaps c) x \<longleftrightarrow>
       \<not> (\<exists>d \<in> set (db_shifts s). oc_agencyId d = a_id a \<and> for_trip packageId d \<and> covers d x)))) \<and>
     gaps_ordered (oy_from c) (oy_to c) (oy_gaps c) \<and>
     oy_coveredHours c = heures (oy_to c - oy_from c - gap_length (oy_gaps c))"
proof -
  have ok: "shifts_ok s" unfolding assms(2) by (rule astreinte.run_inv [OF all_allowed assms(1)])
  obtain a where a: "List.find (\<lambda>a. a_ownerId a = ownerId) (db_agencies s) = Some a"
    and c: "oy_gaps c = trous_de_couverture (oy_from c) (oy_to c) (trip_shifts (a_id a) packageId (oy_from c) (oy_to c) s)"
      "oy_coveredHours c = heures (oy_to c - oy_from c - gap_length (oy_gaps c))" and t: "t = s"
    using run by (auto simp: get_coverage_def shift_agency_id_def assert_own_package_def ok_iff Let_def simp del: require_run)
  let ?cs = "sort_key oc_startsAt (trip_shifts (a_id a) packageId (oy_from c) (oy_to c) s)"
  have long: "\<forall>d \<in> set ?cs. oc_startsAt d < oc_endsAt d"
    using ok by (auto simp: shifts_ok_def list_all_iff shift_ok_def trip_shifts_def)
  have "in_gap (oy_gaps c) x \<longleftrightarrow>
      \<not> (\<exists>d \<in> set (db_shifts s). oc_agencyId d = a_id a \<and> for_trip packageId d \<and> covers d x)"
    if "oy_from c \<le> x" "x < oy_to c" for x
    unfolding c(1) trous_de_couverture_def trous_uncovered [OF sorted_sort_key]
    using that by (auto simp: trip_shifts_def covers_def)
  moreover have "gaps_ordered (oy_from c) (oy_to c) (oy_gaps c)"
    unfolding c(1) trous_de_couverture_def by (rule trous_ordered [OF sorted_sort_key long])
  ultimately show ?thesis using a c(2) t by blast
qed

definition sample_shift :: create_shift_dto where
  "sample_shift = \<lparr>cs_packageId = None, cs_staffName = ''Nuit'', cs_staffRole = ''manager'', cs_phone = ''+2'',
     cs_startsAt = 0, cs_endsAt = day_ms, cs_notes = None\<rparr>"

theorem coverage_is_exact_witness:
  "\<exists>c. get_coverage 1 3 (shift_step (CallCreateShift 1 sample_shift) sample_db) =
     (Inr c, shift_step (CallCreateShift 1 sample_shift) sample_db) \<and>
     gaps_ordered (oy_from c) (oy_to c) (oy_gaps c)"
proof -
  have "shifts_ok sample_db" by (simp add: shifts_ok_def sample_defs)
  moreover obtain c t where "get_coverage 1 3 (fold shift_step [CallCreateShift 1 sample_shift] sample_db) = (Inr c, t)"
    by (simp add: get_coverage_def shift_agency_id_def assert_own_package_def create_shift_def
        verifier_periode_def find_by_owner_or_fail_run sample_shift_def max_shift_days_def day_ms_def
        create_row_def Let_def sample_defs)
  ultimately show ?thesis
    using coverage_is_exact [of sample_db _ "[CallCreateShift 1 sample_shift]" 1 3] by fastforce
qed

end
