(* ===== verification/GuidePlanning.thy ===== *)
theory GuidePlanning
  imports Bookings "HOL-Library.List_Lexorder" "HOL-Library.Char_ord"
begin

text \<open>
  \<open>src/src/modules/guide-planning\<close>: the groups and the absences of the guides of an agency
  over a period, with the overlaps between them.  The collation that orders the guides by
  name is an argument.
\<close>

section \<open>Overlaps\<close>

datatype planning_entry_kind = ENTRY_GROUP | ENTRY_UNAVAILABILITY

record planning_entry =
  pe_kind :: planning_entry_kind
  pe_id :: uid
  pe_label :: string
  pe_packageTitle :: "string option"
  pe_startDate :: time
  pe_endDate :: time

record planning_conflict =
  pf_firstId :: uid
  pf_secondId :: uid
  pf_startDate :: time
  pf_endDate :: time

record guide_schedule =
  gd_guideId :: uid
  gd_guideName :: string
  gd_entries :: "planning_entry list"
  gd_conflicts :: "planning_conflict list"

definition chevauche :: "planning_entry \<Rightarrow> planning_entry \<Rightarrow> bool" where
  "chevauche a b \<longleftrightarrow> pe_startDate a \<le> pe_endDate b \<and> pe_startDate b \<le> pe_endDate a"

definition conflit :: "planning_entry \<Rightarrow> planning_entry \<Rightarrow> planning_conflict" where
  "conflit a b =
     \<lparr>pf_firstId = pe_id a, pf_secondId = pe_id b,
      pf_startDate = (if pe_startDate b < pe_startDate a then pe_startDate a else pe_startDate b),
      pf_endDate = (if pe_endDate a < pe_endDate b then pe_endDate a else pe_endDate b)\<rparr>"

fun conflits :: "planning_entry list \<Rightarrow> planning_conflict list" where
  "conflits [] = []"
| "conflits (a # bs) = map (conflit a) (filter (chevauche a) bs) @ conflits bs"

section \<open>The period\<close>

record planning_query =
  pn_from :: "string option"
  pn_to :: "string option"

definition planning_max_days :: int where
  "planning_max_days = 731"

definition fenetre :: "time \<Rightarrow> planning_query \<Rightarrow> http_error + time \<times> time" where
  "fenetre now q =
     (let debut = (case pn_from q of None \<Rightarrow> Some (day_of now * day_ms) | Some v \<Rightarrow> parse_day v);
          fin = (case pn_to q of None \<Rightarrow> map_option (\<lambda>d. d + 365 * day_ms) debut
                 | Some v \<Rightarrow> map_option (\<lambda>d. d + day_ms - 1) (parse_day v))
      in case debut of None \<Rightarrow> Inl (BadRequest ''La date de debut doit preceder la fin'')
         | Some d \<Rightarrow> (case fin of None \<Rightarrow> Inl (BadRequest ''La date de debut doit preceder la fin'')
         | Some f \<Rightarrow>
             if f - d < 0 then Inl (BadRequest ''La date de debut doit preceder la fin'')
             else if planning_max_days * day_ms < f - d then Inl (BadRequest ''Periode limitee a deux ans'')
             else Inr (d, f)))"

section \<open>Schedules\<close>

definition with_group_package :: "db \<Rightarrow> group \<Rightarrow> (group \<times> package) option" where
  "with_group_package s g =
     map_option (\<lambda>p. (g, p)) (List.find (\<lambda>p. p_id p = g_packageId g) (db_packages s))"

definition groupes_de :: "uid \<Rightarrow> time \<Rightarrow> time \<Rightarrow> db \<Rightarrow> (group \<times> package) list" where
  "groupes_de guideId debut fin s =
     filter (\<lambda>(g, p). p_startDate p \<le> fin \<and> debut \<le> p_endDate p)
       (List.map_filter (with_group_package s) (filter (\<lambda>g. g_guideId g = Some guideId) (db_groups s)))"

definition absences_de :: "uid \<Rightarrow> time \<Rightarrow> time \<Rightarrow> db \<Rightarrow> guide_unavailability list" where
  "absences_de guideId debut fin s =
     filter (\<lambda>a. un_guideId a = guideId \<and> un_startDate a \<le> fin \<and> debut \<le> un_endDate a) (db_unavailabilities s)"

definition group_entry :: "group \<times> package \<Rightarrow> planning_entry" where
  "group_entry gp =
     (case gp of (g, p) \<Rightarrow> \<lparr>pe_kind = ENTRY_GROUP, pe_id = g_id g, pe_label = g_title g,
        pe_packageTitle = Some (p_title p), pe_startDate = p_startDate p, pe_endDate = p_endDate p\<rparr>)"

definition absence_entry :: "guide_unavailability \<Rightarrow> planning_entry" where
  "absence_entry a =
     \<lparr>pe_kind = ENTRY_UNAVAILABILITY, pe_id = un_id a, pe_label = or_else (un_reason a) ''Indisponible'',
      pe_packageTitle = None, pe_startDate = un_startDate a, pe_endDate = un_endDate a\<rparr>"

definition entries_of :: "uid \<Rightarrow> time \<Rightarrow> time \<Rightarrow> db \<Rightarrow> planning_entry list" where
  "entries_of guideId debut fin s =
     sort_key pe_startDate
       (map group_entry (groupes_de guideId debut fin s) @ map absence_entry (absences_de guideId debut fin s))"

definition planning :: "user \<Rightarrow> time \<Rightarrow> time \<Rightarrow> db \<Rightarrow> guide_schedule" where
  "planning g debut fin s =
     (let entries = entries_of (u_id g) debut fin s
      in \<lparr>gd_guideId = u_id g, gd_guideName = u_fullName g, gd_entries = entries,
          gd_conflicts = conflits entries\<rparr>)"

definition plannings :: "user list \<Rightarrow> time \<Rightarrow> time \<Rightarrow> (db, guide_schedule list) act" where
  "plannings guides debut fin = query (\<lambda>s. map (\<lambda>g. planning g debut fin s) guides)"

definition get_agency_schedule ::
  "(string \<Rightarrow> string) \<Rightarrow> time \<Rightarrow> uid \<Rightarrow> planning_query \<Rightarrow> (db, guide_schedule list) act" where
  "get_agency_schedule collation now ownerId q =
     bind (find_by_owner_or_fail ownerId) (\<lambda>agence.
     bind (find_many db_users (\<lambda>u. u_agencyId u = Some (as_id agence) \<and> u_role u = GUIDE)) (\<lambda>guides.
     bind (from_result (fenetre now q)) (\<lambda>(debut, fin).
     plannings (sort_key (\<lambda>u. collation (u_fullName u)) guides) debut fin)))"

definition get_my_schedule :: "time \<Rightarrow> uid \<Rightarrow> planning_query \<Rightarrow> (db, guide_schedule) act" where
  "get_my_schedule now guideId q =
     bind (find_first db_users (\<lambda>u. u_id u = guideId)) (\<lambda>found.
     bind (or_fail (NotFound ''Guide introuvable'') found) (\<lambda>guide.
     bind (from_result (fenetre now q)) (\<lambda>(debut, fin).
     query (planning guide debut fin))))"

section \<open>Absences\<close>

record create_unavailability_dto =
  cu_guideId :: uid
  cu_startDate :: time
  cu_endDate :: time
  cu_reason :: "string option"

definition reason_given :: "string option \<Rightarrow> string option" where
  "reason_given r = (let t = map_option trim r in if truthy t then t else None)"

definition new_unavailability :: "uid \<Rightarrow> create_unavailability_dto \<Rightarrow> uid \<Rightarrow> guide_unavailability" where
  "new_unavailability agencyId dto i =
     \<lparr>un_id = i, un_agencyId = agencyId, un_guideId = cu_guideId dto, un_startDate = cu_startDate dto,
      un_endDate = cu_endDate dto, un_reason = reason_given (cu_reason dto)\<rparr>"

definition add_unavailability :: "uid \<Rightarrow> create_unavailability_dto \<Rightarrow> (db, guide_schedule) act" where
  "add_unavailability ownerId dto =
     bind (find_by_owner_or_fail ownerId) (\<lambda>agence.
     bind (find_first db_users (\<lambda>u. u_id u = cu_guideId dto)) (\<lambda>found.
     bind (or_fail (Forbidden ''Ce guide n'est pas rattache a votre agence'') found) (\<lambda>guide.
     bind (require (u_role guide = GUIDE \<and> u_agencyId guide = Some (as_id agence))
       (Forbidden ''Ce guide n'est pas rattache a votre agence'')) (\<lambda>_.
     bind (require (\<not> cu_endDate dto < cu_startDate dto) (BadRequest ''La fin doit suivre le debut'')) (\<lambda>_.
     bind (create_row db_unavailabilities_update (new_unavailability (as_id agence) dto)) (\<lambda>_.
     query (planning guide (cu_startDate dto) (cu_endDate dto))))))))"

definition delete_unavailability :: "uid \<Rightarrow> uid \<Rightarrow> (db, unit) act" where
  "delete_unavailability ownerId i =
     bind (find_by_owner_or_fail ownerId) (\<lambda>agence.
     bind (delete_many db_unavailabilities db_unavailabilities_update
       (\<lambda>a. un_id a = i \<and> un_agencyId a = as_id agence)) (\<lambda>n.
     require (n \<noteq> 0) (NotFound ''Indisponibilite introuvable'')))"

section \<open>Lemmas\<close>

lemma reads_planning [reads_intro]:
  "reads_only (plannings gs a b)" "reads_only (get_agency_schedule col now i q)"
  "reads_only (get_my_schedule now i q)"
  unfolding plannings_def get_agency_schedule_def get_my_schedule_def
  by (intro reads_intro | clarsimp split: prod.split)+

lemma conflit_simps [simp]:
  "pf_firstId (conflit a b) = pe_id a" "pf_secondId (conflit a b) = pe_id b"
  "pf_startDate (conflit a b) = max (pe_startDate a) (pe_startDate b)"
  "pf_endDate (conflit a b) = min (pe_endDate a) (pe_endDate b)"
  by (auto simp: conflit_def)

text \<open>Each pair of positions once, in order.\<close>

definition pairs :: "'a list \<Rightarrow> ('a \<times> 'a) list" where
  "pairs xs = concat (map (\<lambda>i. map (\<lambda>j. (xs ! i, xs ! j)) [Suc i ..< length xs]) [0 ..< length xs])"

lemma pairs_Nil [simp]: "pairs [] = []"
  by (simp add: pairs_def)

lemma pairs_Cons [simp]: "pairs (x # xs) = map (Pair x) xs @ pairs xs"
proof -
  have row: "map (\<lambda>j. ((x # xs) ! i, (x # xs) ! j)) [Suc i ..< Suc n] =
      map (\<lambda>j. ((x # xs) ! i, xs ! j)) [i ..< n]" for i n
    by (simp add: map_Suc_upt [symmetric] comp_def del: upt_Suc)
  have "pairs (x # xs) = map (\<lambda>j. (x, xs ! j)) [0 ..< length xs] @
      concat (map (\<lambda>i. map (\<lambda>j. (xs ! i, xs ! j)) [Suc i ..< length xs]) [0 ..< length xs])"
    unfolding pairs_def length_Cons row
    by (subst upt_conv_Cons) (simp_all add: map_Suc_upt [symmetric] comp_def del: upt_Suc)
  also have "map (\<lambda>j. (x, xs ! j)) [0 ..< length xs] = map (Pair x) xs"
    by (rule nth_equalityI) simp_all
  finally show ?thesis by (simp add: pairs_def)
qed

lemma conflits_pairs: "conflits es = map (\<lambda>(a, b). conflit a b) (filter (\<lambda>(a, b). chevauche a b) (pairs es))"
  by (induction es) (simp_all add: filter_map comp_def)

text \<open>
  Each pair of entries that share an instant is reported once, with exactly the instants they
  share, and a pair that shares none is not reported.
\<close>

lemma schedule_conflicts_complete:
  "gd_conflicts (planning g debut fin s) =
     map (\<lambda>(a, b). conflit a b) (filter (\<lambda>(a, b). chevauche a b) (pairs (gd_entries (planning g debut fin s))))"
  "pf_startDate (conflit a b) \<le> x \<and> x \<le> pf_endDate (conflit a b) \<longleftrightarrow>
     (pe_startDate a \<le> x \<and> x \<le> pe_endDate a) \<and> (pe_startDate b \<le> x \<and> x \<le> pe_endDate b)"
  by (auto simp: planning_def Let_def conflits_pairs)

subsection \<open>A schedule without conflict\<close>

definition conflict_free :: "planning_entry multiset \<Rightarrow> bool" where
  "conflict_free M \<longleftrightarrow> (\<forall>a b. {#a, b#} \<subseteq># M \<longrightarrow> \<not> chevauche a b)"

lemma chevauche_sym: "chevauche a b = chevauche b a"
  by (auto simp: chevauche_def)

lemma conflict_free_mono: "conflict_free N \<Longrightarrow> M \<subseteq># N \<Longrightarrow> conflict_free M"
  unfolding conflict_free_def by (meson subset_mset.order_trans)

lemma pair_subset_add:
  "{#a, b#} \<subseteq># add_mset x M \<longleftrightarrow> {#a, b#} \<subseteq># M \<or> a = x \<and> b \<in># M \<or> b = x \<and> a \<in># M"
proof (cases "a = x \<or> b = x")
  case True
  then show ?thesis by (auto simp: insert_subset_eq_iff add_mset_commute [of a b] dest: in_diffD)
next
  case False
  then show ?thesis by (auto simp: insert_subset_eq_iff)
qed

lemma conflict_free_add [simp]:
  "conflict_free (add_mset x M) \<longleftrightarrow> conflict_free M \<and> (\<forall>a \<in># M. \<not> chevauche x a)"
  unfolding conflict_free_def pair_subset_add using chevauche_sym by blast

lemma conflict_free_empty [simp]: "conflict_free {#}"
  by (simp add: conflict_free_def)

lemma conflits_empty: "conflits es = [] \<longleftrightarrow> conflict_free (mset es)"
  by (induction es) (auto simp: filter_empty_conv)

subsection \<open>The entries when a group changes hands\<close>

definition entries_mset :: "uid \<Rightarrow> time \<Rightarrow> time \<Rightarrow> db \<Rightarrow> group list \<Rightarrow> planning_entry multiset" where
  "entries_mset i debut fin s gs =
     mset (map group_entry (filter (\<lambda>(g, p). p_startDate p \<le> fin \<and> debut \<le> p_endDate p)
       (List.map_filter (with_group_package s) (filter (\<lambda>g. g_guideId g = Some i) gs))))"

lemma map_filter_append_simp [simp]:
  "List.map_filter f (xs @ ys) = List.map_filter f xs @ List.map_filter f ys"
  by (induction xs) (auto split: option.split)

lemma entries_mset_append:
  "entries_mset i d f s (xs @ g # ys) =
     entries_mset i d f s xs + entries_mset i d f s ys + entries_mset i d f s [g]"
  by (simp add: entries_mset_def split: option.split)

lemma mset_entries:
  "mset (entries_of i d f s) = entries_mset i d f s (db_groups s) + mset (map absence_entry (absences_de i d f s))"
  by (simp add: entries_of_def entries_mset_def groupes_de_def)

lemma entries_mset_one:
  "entries_mset i d f s [g] \<subseteq>#
     (case with_group_package s g of None \<Rightarrow> {#} | Some gp \<Rightarrow> if g_guideId g = Some i then {#group_entry gp#} else {#})"
  by (simp add: entries_mset_def split: option.split)

lemma entry_of_group:
  assumes "e \<in># entries_mset i d f s gs"
  shows "\<exists>g p. g \<in> set gs \<and> g_guideId g = Some i \<and>
    List.find (\<lambda>p. p_id p = g_packageId g) (db_packages s) = Some p \<and> e = group_entry (g, p)"
  using assms
  by (induction gs)
    (auto simp: entries_mset_def with_group_package_def split: option.splits if_splits)

lemma group_entry_dates [simp]:
  "pe_startDate (group_entry (g, p)) = p_startDate p" "pe_endDate (group_entry (g, p)) = p_endDate p"
  "group_entry (g\<lparr>g_guideId := x\<rparr>, p) = group_entry (g, p)"
  by (simp_all add: group_entry_def)

lemma update_one_group:
  assumes "distinct (map g_id gs)" and "List.find (\<lambda>g. g_id g = i) gs = Some g"
  obtains xs ys where "gs = xs @ g # ys" and "map (\<lambda>x. if g_id x = i then h x else x) gs = xs @ h g # ys"
    and "\<forall>x \<in> set xs \<union> set ys. g_id x \<noteq> i"
proof -
  have g: "g \<in> set gs" "g_id g = i" using find_Some_set [OF assms(2)] by auto
  then obtain xs ys where gs: "gs = xs @ g # ys" by (metis split_list)
  then have "\<forall>x \<in> set xs \<union> set ys. g_id x \<noteq> i" using assms(1) g(2) by (auto intro: rev_image_eqI)
  then have "map (\<lambda>x. if g_id x = i then h x else x) xs = xs" "map (\<lambda>x. if g_id x = i then h x else x) ys = ys"
    by (auto intro: map_idI)
  then show ?thesis using that gs g(2) \<open>\<forall>x \<in> set xs \<union> set ys. g_id x \<noteq> i\<close> by simp
qed

section \<open>Properties\<close>

text \<open>
  C29: assigning a guide to a group never makes a conflict: on any period, a schedule that
  showed none before a successful assignment, of this guide or of another, shows none after.
\<close>
theorem assigning_makes_no_conflict:
  assumes "assign_guide ownerId groupId guideId s = (Inr v, t)" and "distinct (map g_id (db_groups s))"
    and g: "List.find (\<lambda>g. g_id g = groupId) (db_groups s) = Some g"
    and p: "List.find (\<lambda>p. p_id p = g_packageId g) (db_packages s) = Some forfait"
    and free: "gd_conflicts (planning u debut fin s) = []"
  shows "gd_conflicts (planning u debut fin t) = []"
proof -
  note effect = assign_guide_no_double_booking [OF assms(1) g p]
  let ?set = "\<lambda>x. x\<lparr>g_guideId := Some guideId\<rparr>" and ?e = "group_entry (g, forfait)" and ?i = "u_id u"
  obtain xs ys where gs: "db_groups s = xs @ g # ys" and others: "\<forall>x \<in> set xs \<union> set ys. g_id x \<noteq> groupId"
    and gs': "map (\<lambda>x. if g_id x = groupId then ?set x else x) (db_groups s) = xs @ ?set g # ys"
    by (rule update_one_group [OF assms(2) g, of ?set])
  have "t = db_groups_update (map (\<lambda>x. if g_id x = groupId then ?set x else x)) s" using effect by (elim conjE)
  also have "\<dots> = s\<lparr>db_groups := map (\<lambda>x. if g_id x = groupId then ?set x else x) (db_groups s)\<rparr>"
    by (rule db.equality) simp_all
  finally have t: "t = s\<lparr>db_groups := xs @ ?set g # ys\<rparr>" unfolding gs' .
  define R where "R = entries_mset ?i debut fin s xs + entries_mset ?i debut fin s ys +
    mset (map absence_entry (absences_de ?i debut fin s))"
  have same: "entries_mset ?i debut fin t gs = entries_mset ?i debut fin s gs"
    "absences_de ?i debut fin t = absences_de ?i debut fin s" for gs
    by (simp_all add: t entries_mset_def absences_de_def with_group_package_def [abs_def])
  have before: "mset (entries_of ?i debut fin s) = R + entries_mset ?i debut fin s [g]"
    by (simp add: mset_entries gs entries_mset_append R_def)
  have "mset (entries_of ?i debut fin t) = R + entries_mset ?i debut fin s [?set g]"
    using same by (simp add: mset_entries t entries_mset_append R_def)
  then have after: "mset (entries_of ?i debut fin t) \<subseteq># (if guideId = ?i then add_mset ?e R else R)"
    using entries_mset_one [of ?i debut fin s "?set g"] p
    by (auto simp: with_group_package_def split: if_splits)
  have "conflict_free (R + entries_mset ?i debut fin s [g])"
    using free before by (simp add: planning_def Let_def conflits_empty)
  then have R: "conflict_free R" by (rule conflict_free_mono) simp
  have "\<not> chevauche ?e a" if i: "guideId = ?i" and a: "a \<in># R" for a
  proof -
    consider h q where "h \<in> set xs \<union> set ys" "g_guideId h = Some ?i"
        "List.find (\<lambda>p. p_id p = g_packageId h) (db_packages s) = Some q" "a = group_entry (h, q)"
      | b where "b \<in> set (db_unavailabilities s)" "un_guideId b = ?i" "a = absence_entry b"
      using a by (auto simp: R_def absences_de_def dest!: entry_of_group)
    then show ?thesis
    proof cases
      case 1
      then have "\<not> other_group_busy (db_packages s) guideId groupId forfait h" using effect gs by auto
      then show ?thesis
        using 1 others i by (auto simp: other_group_busy_def package_overlaps_def overlap_def chevauche_def)
    next
      case 2
      then have "\<not> absence_busy guideId forfait b" using effect by blast
      then show ?thesis
        using 2 i by (auto simp: absence_busy_def overlap_def chevauche_def absence_entry_def)
    qed
  qed
  then have "conflict_free (if guideId = ?i then add_mset ?e R else R)" using R by simp
  then have "conflict_free (mset (entries_of ?i debut fin t))" using after by (rule conflict_free_mono)
  then show ?thesis by (simp add: planning_def Let_def conflits_empty)
qed

theorem assigning_makes_no_conflict_witness:
  "\<exists>v t. assign_guide 1 6 4 (sample_group_db\<lparr>db_groups := [sample_group\<lparr>g_guideId := None\<rparr>]\<rparr>) = (Inr v, t) \<and>
     gd_conflicts (planning sample_guide 0 day_ms t) = []"
proof -
  let ?g = "sample_group\<lparr>g_guideId := None\<rparr>" and ?s = "sample_group_db\<lparr>db_groups := [sample_group\<lparr>g_guideId := None\<rparr>]\<rparr>"
  obtain v t where run: "assign_guide 1 6 4 ?s = (Inr v, t)"
    by (simp add: assign_guide_def find_group_or_fail_run assert_group_ownership_def
        find_by_owner_or_fail_run find_user_by_id_or_fail_run assert_guide_available_def
        update_group_row_def update_row_def sample_group_defs to_user_shape_def
        other_group_busy_def bind_def)
  have "List.find (\<lambda>g. g_id g = 6) (db_groups ?s) = Some ?g"
    "List.find (\<lambda>p. p_id p = g_packageId ?g) (db_packages ?s) = Some sample_package"
    "distinct (map g_id (db_groups ?s))" "gd_conflicts (planning sample_guide 0 day_ms ?s) = []"
    by (simp_all add: sample_group_defs planning_def Let_def entries_of_def groupes_de_def absences_de_def
        List.map_filter_simps)
  then show ?thesis using assigning_makes_no_conflict [OF run] run by blast
qed

end
