(* ===== verification/Calendar.thy ===== *)
theory Calendar
  imports Packages
begin

text \<open>
  \<open>src/src/modules/calendar/calendar.service.ts\<close>: the iCalendar feed of an agency, one
  all-day event per package.  Identifiers are written as numbers.
\<close>

section \<open>The feed\<close>

definition ics_line_break :: string where
  "ics_line_break = [CHR 0x0D, CHR 0x0A]"

definition calendar_uid_domain :: string where
  "calendar_uid_domain = ''oumra-hadj-project.local''"

definition to_ics_date :: "time \<Rightarrow> string" where
  "to_ics_date d = filter (\<lambda>c. c \<noteq> CHR ''-'') (vers_jour d)"

text \<open>\<open>toISOString()\<close> without its separators and milliseconds.\<close>

definition to_ics_timestamp :: "time \<Rightarrow> string" where
  "to_ics_timestamp d =
     (let seconds = d mod day_ms div 1000
      in to_ics_date d @ ''T'' @ pad2 (seconds div 3600) @ pad2 (seconds div 60 mod 60) @
         pad2 (seconds mod 60) @ ''Z'')"

definition ics_event_lines :: "string \<Rightarrow> package_shape \<Rightarrow> string list" where
  "ics_event_lines dtstamp pkg =
     [''BEGIN:VEVENT'',
      ''UID:'' @ show_nat (p_id pkg) @ ''@'' @ calendar_uid_domain,
      ''DTSTAMP:'' @ dtstamp,
      ''DTSTART;VALUE=DATE:'' @ to_ics_date (p_startDate pkg),
      ''DTEND;VALUE=DATE:'' @ to_ics_date (set_date (p_endDate pkg) (get_date (p_endDate pkg) + 1)),
      ''SUMMARY:'' @ escape_ics_text (p_title pkg),
      ''END:VEVENT'']"

definition to_ics_event :: "string \<Rightarrow> package_shape \<Rightarrow> string" where
  "to_ics_event dtstamp pkg = join ics_line_break (ics_event_lines dtstamp pkg)"

definition ics_header :: "agency_shape \<Rightarrow> string list" where
  "ics_header agency =
     [''BEGIN:VCALENDAR'', ''VERSION:2.0'', ''PRODID:-//Oumra-Hadj Platform//Calendrier Agence//FR'',
      ''CALSCALE:GREGORIAN'',
      ''X-WR-CALNAME:'' @ escape_ics_text (''Echeances cles - '' @ as_legalName agency)]"

definition get_agency_feed :: "time \<Rightarrow> string \<Rightarrow> (db, string) act" where
  "get_agency_feed now token =
     bind (find_by_calendar_token_or_fail token) (\<lambda>agency.
     bind (find_all_by_agency_id (as_id agency)) (\<lambda>packages.
     ret (join ics_line_break
       (ics_header agency @ map (to_ics_event (to_ics_timestamp now)) packages @ [''END:VCALENDAR'']))))"

section \<open>Reading a feed\<close>

text \<open>The content lines of an iCalendar stream (RFC 5545, 3.1): split at each line break.\<close>

fun split_lines :: "string \<Rightarrow> string list" where
  "split_lines [] = [[]]"
| "split_lines (c # cs) =
     (if c = CHR 0x0A then [] # split_lines cs
      else (case split_lines cs of [] \<Rightarrow> [[c]] | l # ls \<Rightarrow> (c # l) # ls))"

definition strip_cr :: "string \<Rightarrow> string" where
  "strip_cr l = (if l \<noteq> [] \<and> last l = CHR 0x0D then butlast l else l)"

definition ics_lines :: "string \<Rightarrow> string list" where
  "ics_lines feed = map strip_cr (split_lines feed)"

lemma split_lines_append:
  "CHR 0x0A \<notin> set l \<Longrightarrow> split_lines (l @ CHR 0x0A # rest) = l # split_lines rest"
  by (induction l) auto

lemma split_lines_one: "CHR 0x0A \<notin> set l \<Longrightarrow> split_lines l = [l]"
  by (induction l) auto

lemma strip_cr_snoc [simp]: "strip_cr (l @ [CHR 0x0D]) = l"
  by (simp add: strip_cr_def)

lemma join_cons: "ys \<noteq> [] \<Longrightarrow> join sep (x # ys) = x @ sep @ join sep ys"
  by (cases ys) simp_all

lemma join_append: "xs \<noteq> [] \<Longrightarrow> ys \<noteq> [] \<Longrightarrow> join sep (xs @ ys) = join sep xs @ sep @ join sep ys"
proof (induction xs)
  case (Cons x xs)
  then show ?case by (cases "xs = []") (simp_all add: join_cons)
qed simp

lemma join_nested:
  assumes "\<forall>xs \<in> set xss. xs \<noteq> []" and "zs \<noteq> []"
  shows "join sep (map (join sep) xss @ zs) = join sep (concat xss @ zs)"
  using assms
proof (induction xss)
  case (Cons xs xss)
  then have "join sep (join sep xs # map (join sep) xss @ zs) = join sep xs @ sep @ join sep (concat xss @ zs)"
    by (simp add: join_cons)
  then show ?case using Cons.prems join_append [of xs "concat xss @ zs" sep] by simp
qed simp

lemma ics_lines_join:
  assumes "ls \<noteq> []" and "\<forall>l \<in> set ls. CHR 0x0A \<notin> set l" and "strip_cr (last ls) = last ls"
  shows "ics_lines (join ics_line_break ls) = ls"
  using assms
proof (induction ls)
  case (Cons l ls)
  show ?case
  proof (cases "ls = []")
    case True
    then show ?thesis using Cons.prems by (simp add: ics_lines_def split_lines_one)
  next
    case False
    have "split_lines ((l @ [CHR 0x0D]) @ CHR 0x0A # join ics_line_break ls) =
        (l @ [CHR 0x0D]) # split_lines (join ics_line_break ls)"
      by (rule split_lines_append) (use Cons.prems in auto)
    then have "split_lines (join ics_line_break (l # ls)) = (l @ [CHR 0x0D]) # split_lines (join ics_line_break ls)"
      using False by (simp add: join_cons ics_line_break_def)
    then show ?thesis using Cons False by (simp add: ics_lines_def)
  qed
qed simp

lemma digit_not_newline: "k < 10 \<Longrightarrow> digit_char k \<noteq> CHR 0x0A"
proof
  assume "k < 10" "digit_char k = CHR 0x0A"
  then have "of_char (digit_char k) = (10 :: nat)" by simp
  then show False using \<open>k < 10\<close> by (simp add: digit_char_def)
qed

lemma show_nat_one_line: "CHR 0x0A \<notin> set (show_nat n)"
proof (induction n rule: show_nat.induct)
  case (1 n)
  then show ?case using digit_not_newline [of n] digit_not_newline [of "n mod 10"]
    by (subst show_nat.simps) auto
qed

lemma show_int_one_line: "CHR 0x0A \<notin> set (show_int i)"
  by (simp add: show_int_def show_nat_one_line)

lemma pad_one_line: "c \<noteq> CHR 0x0A \<Longrightarrow> CHR 0x0A \<notin> set s \<Longrightarrow> CHR 0x0A \<notin> set (pad_start w c s)"
  by (auto simp: pad_start_def)

lemma ics_date_one_line [simp]: "CHR 0x0A \<notin> set (to_ics_date d)" "CHR 0x0A \<notin> set (to_ics_timestamp d)"
  by (auto simp: to_ics_date_def to_ics_timestamp_def vers_jour_def pad2_def Let_def
      pad_one_line show_int_one_line)

lemma event_one_line: "\<forall>l \<in> set (ics_event_lines (to_ics_timestamp now) pkg). CHR 0x0A \<notin> set l"
  by (simp add: ics_event_lines_def calendar_uid_domain_def show_nat_one_line escape_ics_one_line)

section \<open>Properties\<close>

text \<open>
  C31: whatever the titles of the packages and the name of the agency, a calendar client that
  splits the feed into lines finds the header, the seven lines of one event per package of
  the agency and the end, and nothing more: a title cannot add a line, and each summary
  unescapes to the title.
\<close>
theorem feed_lines_are_the_packages:
  assumes "get_agency_feed now token s = (Inr feed, t)"
  shows "t = s \<and> (\<exists>a. List.find (\<lambda>a. a_calendarToken a = Some token) (db_agencies s) = Some a \<and>
    ics_lines feed = ics_header (to_agency_shape a) @
      concat (map (ics_event_lines (to_ics_timestamp now)) (map to_package_shape
        (filter (\<lambda>p. p_agencyId p = a_id a) (db_packages s)))) @ [''END:VCALENDAR'']) \<and>
    (\<forall>p \<in> set (db_packages s). unescape_ics_text (escape_ics_text (p_title p)) = p_title p)"
proof -
  obtain a where a: "List.find (\<lambda>a. a_calendarToken a = Some token) (db_agencies s) = Some a" and t: "t = s"
    and feed: "feed = join ics_line_break (ics_header (to_agency_shape a) @
      map (to_ics_event (to_ics_timestamp now)) (map to_package_shape
        (filter (\<lambda>p. p_agencyId p = a_id a) (db_packages s))) @ [''END:VCALENDAR''])"
    using assms
    by (auto simp: get_agency_feed_def find_by_calendar_token_or_fail_def find_agency_def
        find_all_by_agency_id_def ok_iff to_agency_shape_def)
  let ?ps = "map to_package_shape (filter (\<lambda>p. p_agencyId p = a_id a) (db_packages s))"
  let ?h = "ics_header (to_agency_shape a)" and ?ev = "ics_event_lines (to_ics_timestamp now)"
  have "feed = join ics_line_break (?h @ map (join ics_line_break) (map ?ev ?ps) @ [''END:VCALENDAR''])"
    by (simp add: feed to_ics_event_def comp_def)
  also have "\<dots> = join ics_line_break ?h @ ics_line_break @
      join ics_line_break (map (join ics_line_break) (map ?ev ?ps) @ [''END:VCALENDAR''])"
    by (rule join_append) (simp_all add: ics_header_def)
  also have "join ics_line_break (map (join ics_line_break) (map ?ev ?ps) @ [''END:VCALENDAR'']) =
      join ics_line_break (concat (map ?ev ?ps) @ [''END:VCALENDAR''])"
    by (rule join_nested) (auto simp: ics_event_lines_def)
  also have "join ics_line_break ?h @ ics_line_break @ join ics_line_break (concat (map ?ev ?ps) @ [''END:VCALENDAR'']) =
      join ics_line_break (?h @ concat (map ?ev ?ps) @ [''END:VCALENDAR''])"
    by (rule join_append [symmetric]) (simp_all add: ics_header_def)
  finally have lines: "feed = join ics_line_break (?h @ concat (map ?ev ?ps) @ [''END:VCALENDAR''])" .
  have "ics_lines feed = ?h @ concat (map ?ev ?ps) @ [''END:VCALENDAR'']"
    unfolding lines
    by (rule ics_lines_join)
      (use event_one_line in \<open>auto simp: ics_header_def escape_ics_one_line strip_cr_def\<close>)
  then show ?thesis using a t unescape_escape by blast
qed

theorem feed_lines_are_the_packages_witness:
  "\<exists>feed. get_agency_feed 0 ''jeton'' (sample_db\<lparr>db_agencies := [sample_agency\<lparr>a_calendarToken := Some ''jeton''\<rparr>]\<rparr>) =
     (Inr feed, sample_db\<lparr>db_agencies := [sample_agency\<lparr>a_calendarToken := Some ''jeton''\<rparr>]\<rparr>) \<and>
     length (ics_lines feed) = 13"
proof -
  let ?s = "sample_db\<lparr>db_agencies := [sample_agency\<lparr>a_calendarToken := Some ''jeton''\<rparr>]\<rparr>"
  obtain feed where run: "get_agency_feed 0 ''jeton'' ?s = (Inr feed, ?s)"
    by (simp add: get_agency_feed_def find_by_calendar_token_or_fail_def find_agency_def
        find_all_by_agency_id_def)
  have "db_packages ?s = [sample_package]" "p_agencyId sample_package = a_id sample_agency"
    by (simp_all add: sample_defs)
  then show ?thesis using feed_lines_are_the_packages [OF run] run
    by (auto simp: ics_header_def ics_event_lines_def)
qed

end
