(* ===== verification/Capacity.thy ===== *)
theory Capacity
  imports Bookings
begin

text \<open>
  \<open>src/src/modules/capacity/capacity.service.ts\<close>: how many guides the trips of an agency
  need, trip by trip and over the periods where trips overlap.
\<close>

section \<open>The load over time\<close>

definition default_pilgrims_per_guide :: int where
  "default_pilgrims_per_guide = 40"

record capacity_trip =
  ct_packageId :: uid
  ct_title :: string
  ct_startDate :: time
  ct_endDate :: time
  ct_capacity :: int
  ct_seatsTaken :: int
  ct_guidesNeeded :: int
  ct_guidesAssigned :: nat

record capacity_period =
  cp_from :: time
  cp_to :: time
  cp_packageIds :: "uid list"
  cp_plannedPilgrims :: int
  cp_soldPilgrims :: int
  cp_guidesNeeded :: int
  cp_guidesNeededForSold :: int

record capacity_simulation =
  cx_pilgrimsPerGuide :: int
  cx_guides :: nat
  cx_extraGuides :: int
  cx_staff :: int
  cx_trips :: "capacity_trip list"
  cx_periods :: "capacity_period list"
  cx_peak :: "capacity_period option"
  cx_spareGuidesAtPeak :: int
  cx_extraPilgrimsAtPeak :: int

text \<open>\<open>Math.ceil(a / b)\<close> on whole numbers.\<close>

definition ceil_div :: "int \<Rightarrow> int \<Rightarrow> int" where
  "ceil_div a b = - ((- a) div b)"

definition borne_debut :: "capacity_trip \<Rightarrow> time" where
  "borne_debut v = ct_startDate v"

definition borne_fin :: "capacity_trip \<Rightarrow> time" where
  "borne_fin v = ct_endDate v + day_ms"

definition instants :: "capacity_trip list \<Rightarrow> time list" where
  "instants voyages = sort (remdups (concat (map (\<lambda>v. [borne_debut v, borne_fin v]) voyages)))"

definition en_cours :: "capacity_trip list \<Rightarrow> time \<Rightarrow> time \<Rightarrow> capacity_trip list" where
  "en_cours voyages from to' = filter (\<lambda>v. borne_debut v \<le> from \<and> to' \<le> borne_fin v) voyages"

definition periode_de_charge :: "int \<Rightarrow> time \<Rightarrow> time \<Rightarrow> capacity_trip list \<Rightarrow> capacity_period" where
  "periode_de_charge pilgrimsPerGuide from to' enCours =
     \<lparr>cp_from = from, cp_to = to', cp_packageIds = map ct_packageId enCours,
      cp_plannedPilgrims = sum_list (map ct_capacity enCours),
      cp_soldPilgrims = sum_list (map ct_seatsTaken enCours),
      cp_guidesNeeded = sum_list (map ct_guidesNeeded enCours),
      cp_guidesNeededForSold = sum_list (map (\<lambda>v. ceil_div (ct_seatsTaken v) pilgrimsPerGuide) enCours)\<rparr>"

fun charge_loop :: "capacity_trip list \<Rightarrow> int \<Rightarrow> time list \<Rightarrow> capacity_period list" where
  "charge_loop voyages k (from # to' # rest) =
     (let enCours = en_cours voyages from to'
      in (if enCours = [] then [] else [periode_de_charge k from to' enCours]) @
        charge_loop voyages k (to' # rest))"
| "charge_loop voyages k _ = []"

definition periodes_de_charge :: "capacity_trip list \<Rightarrow> int \<Rightarrow> capacity_period list" where
  "periodes_de_charge voyages pilgrimsPerGuide = charge_loop voyages pilgrimsPerGuide (instants voyages)"

section \<open>The simulation\<close>

record capacity_query =
  cq_pilgrimsPerGuide :: "int option"
  cq_extraGuides :: "int option"

definition valid_capacity_query :: "capacity_query \<Rightarrow> bool" where
  "valid_capacity_query q \<longleftrightarrow>
     (case cq_pilgrimsPerGuide q of None \<Rightarrow> True | Some k \<Rightarrow> 5 \<le> k \<and> k \<le> 200) \<and>
     (case cq_extraGuides q of None \<Rightarrow> True | Some k \<Rightarrow> 0 \<le> k \<and> k \<le> 200)"

definition guides_assigned :: "db \<Rightarrow> uid \<Rightarrow> nat" where
  "guides_assigned s packageId =
     length (remdups (List.map_filter g_guideId (filter (\<lambda>g. g_packageId g = packageId) (db_groups s))))"

definition trip_of :: "int \<Rightarrow> db \<Rightarrow> package \<Rightarrow> capacity_trip" where
  "trip_of pilgrimsPerGuide s f =
     \<lparr>ct_packageId = p_id f, ct_title = p_title f, ct_startDate = p_startDate f, ct_endDate = p_endDate f,
      ct_capacity = p_capacity f, ct_seatsTaken = p_seatsTaken f,
      ct_guidesNeeded = ceil_div (p_capacity f) pilgrimsPerGuide, ct_guidesAssigned = guides_assigned s (p_id f)\<rparr>"

definition staff_guides :: "uid \<Rightarrow> db \<Rightarrow> nat" where
  "staff_guides agencyId s =
     length (filter (\<lambda>u. u_agencyId u = Some agencyId \<and> u_role u = GUIDE \<and> u_isActive u) (db_users s))"

definition upcoming_trips :: "int \<Rightarrow> time \<Rightarrow> uid \<Rightarrow> db \<Rightarrow> capacity_trip list" where
  "upcoming_trips pilgrimsPerGuide now agencyId s =
     map (trip_of pilgrimsPerGuide s)
       (sort_key p_startDate
         (filter (\<lambda>f. p_agencyId f = agencyId \<and> day_of now * day_ms \<le> p_endDate f) (db_packages s)))"

fun peak_of :: "capacity_period option \<Rightarrow> capacity_period list \<Rightarrow> capacity_period option" where
  "peak_of m [] = m"
| "peak_of m (p # ps) =
     peak_of (case m of None \<Rightarrow> Some p | Some q \<Rightarrow> if cp_guidesNeeded q < cp_guidesNeeded p then Some p else m) ps"

definition simulate_capacity :: "time \<Rightarrow> uid \<Rightarrow> capacity_query \<Rightarrow> (db, capacity_simulation) act" where
  "simulate_capacity now ownerId q =
     bind (find_by_owner_or_fail ownerId) (\<lambda>agency.
     let pilgrimsPerGuide = or_else (cq_pilgrimsPerGuide q) default_pilgrims_per_guide;
         extraGuides = or_else (cq_extraGuides q) 0 in
     bind (query (staff_guides (as_id agency))) (\<lambda>guides.
     bind (query (upcoming_trips pilgrimsPerGuide now (as_id agency))) (\<lambda>trips.
     let periods = periodes_de_charge trips pilgrimsPerGuide; peak = peak_of None periods;
         staff = int guides + extraGuides;
         spare = staff - (case peak of None \<Rightarrow> 0 | Some p \<Rightarrow> cp_guidesNeeded p)
     in ret \<lparr>cx_pilgrimsPerGuide = pilgrimsPerGuide, cx_guides = guides, cx_extraGuides = extraGuides,
          cx_staff = staff, cx_trips = trips, cx_periods = periods, cx_peak = peak,
          cx_spareGuidesAtPeak = spare, cx_extraPilgrimsAtPeak = max 0 spare * pilgrimsPerGuide\<rparr>)))"

section \<open>Lemmas\<close>

lemma reads_capacity [reads_intro]: "reads_only (simulate_capacity now i q)"
  unfolding simulate_capacity_def Let_def by (intro reads_intro)

lemma ceil_div_least: "0 < b \<Longrightarrow> a \<le> ceil_div a b * b \<and> (ceil_div a b - 1) * b < a"
proof -
  assume b: "0 < b"
  have "- a = (- a) div b * b + (- a) mod b" "0 \<le> (- a) mod b" "(- a) mod b < b" using b by simp_all
  then show ?thesis unfolding ceil_div_def by (simp only: left_diff_distrib minus_mult_left [symmetric]) linarith
qed

text \<open>The trips in progress at an instant: from their first day to midnight of the last.\<close>

definition running :: "capacity_trip list \<Rightarrow> time \<Rightarrow> capacity_trip list" where
  "running voyages x = filter (\<lambda>v. borne_debut v \<le> x \<and> x < borne_fin v) voyages"

lemma instants_set: "set (instants voyages) = borne_debut ` set voyages \<union> borne_fin ` set voyages"
  by (auto simp: instants_def)

lemma instants_sorted: "sorted_wrt (<) (instants voyages)"
  unfolding instants_def strict_sorted_iff by simp

text \<open>Between two consecutive instants the same trips are in progress.\<close>

lemma running_between:
  assumes "\<forall>v \<in> set voyages. (borne_debut v \<le> from \<or> to' \<le> borne_debut v) \<and> (borne_fin v \<le> from \<or> to' \<le> borne_fin v)"
    and "from \<le> x" and "x < to'"
  shows "running voyages x = en_cours voyages from to'"
  unfolding running_def en_cours_def using assms by (intro filter_cong) fastforce+

definition placed :: "time list \<Rightarrow> time \<Rightarrow> bool" where
  "placed ts z \<longleftrightarrow> z \<in> set ts \<or> (\<forall>x \<in> set ts. z \<le> x)"

definition apart :: "capacity_trip list \<Rightarrow> time list \<Rightarrow> bool" where
  "apart voyages ts \<longleftrightarrow> (\<forall>v \<in> set voyages. placed ts (borne_debut v) \<and> placed ts (borne_fin v))"

lemma placed_between:
  assumes "sorted_wrt (<) (a # b # rest)" and "placed (a # b # rest) z"
  shows "z \<le> a \<or> b \<le> z" and "placed (b # rest) z"
proof -
  have later: "a < b" "\<forall>x \<in> set rest. b \<le> x" using assms(1) by (auto intro: less_imp_le)
  have "z = a \<or> z = b \<or> z \<in> set rest \<or> z \<le> a" using assms(2) by (auto simp: placed_def)
  then consider "z \<le> a" | "z = b" | "z \<in> set rest" by auto
  then show "z \<le> a \<or> b \<le> z" using later by cases auto
  from \<open>z = a \<or> z = b \<or> z \<in> set rest \<or> z \<le> a\<close> show "placed (b # rest) z"
    using later by (auto simp: placed_def)
qed

lemma apart_between:
  assumes "sorted_wrt (<) (a # b # rest)" and "apart voyages (a # b # rest)"
  shows "\<forall>v \<in> set voyages. (borne_debut v \<le> a \<or> b \<le> borne_debut v) \<and> (borne_fin v \<le> a \<or> b \<le> borne_fin v)"
    and "apart voyages (b # rest)"
  using assms(2) placed_between [OF assms(1)] unfolding apart_def by blast+

lemma charge_loop_covers:
  assumes "sorted_wrt (<) ts" and "apart voyages ts" and "ts \<noteq> []" and "hd ts \<le> x" and "x < last ts"
    and "running voyages x \<noteq> []"
  shows "\<exists>p \<in> set (charge_loop voyages k ts). cp_from p \<le> x \<and> x < cp_to p"
  using assms
proof (induction voyages k ts rule: charge_loop.induct)
  case (1 voyages k a b rest)
  note between = apart_between(1) [OF "1.prems"(1,2)] and rest = apart_between(2) [OF "1.prems"(1,2)]
  show ?case
  proof (cases "x < b")
    case True
    have "en_cours voyages a b \<noteq> []"
      using running_between [OF between _ True] "1.prems"(4,6) by simp
    then show ?thesis using True "1.prems"(4) by (auto simp: Let_def periode_de_charge_def)
  next
    case False
    then show ?thesis using rest "1.IH" "1.prems" by (auto simp: Let_def)
  qed
qed auto

lemma charge_loop_load:
  assumes "sorted_wrt (<) ts" and "apart voyages ts" and "p \<in> set (charge_loop voyages k ts)"
    and "cp_from p \<le> x" and "x < cp_to p"
  shows "p = periode_de_charge k (cp_from p) (cp_to p) (running voyages x) \<and> running voyages x \<noteq> []"
  using assms
proof (induction voyages k ts rule: charge_loop.induct)
  case (1 voyages k a b rest)
  note between = apart_between(1) [OF "1.prems"(1,2)] and rest = apart_between(2) [OF "1.prems"(1,2)]
  consider "p \<in> set (charge_loop voyages k (b # rest))"
    | "p = periode_de_charge k a b (en_cours voyages a b)" "en_cours voyages a b \<noteq> []"
    using "1.prems"(3) by (auto simp: Let_def split: if_splits)
  then show ?case
  proof cases
    case 1
    then show ?thesis using "1.IH" "1.prems" rest by simp
  next
    case 2
    then have "running voyages x = en_cours voyages a b"
      using running_between [OF between] "1.prems"(4,5) by (simp add: periode_de_charge_def)
    then show ?thesis using 2 by (simp add: periode_de_charge_def)
  qed
qed auto

lemma charge_loop_long: "sorted_wrt (<) ts \<Longrightarrow> p \<in> set (charge_loop voyages k ts) \<Longrightarrow> cp_from p < cp_to p"
  by (induction voyages k ts rule: charge_loop.induct) (auto simp: Let_def periode_de_charge_def split: if_splits)

lemma peak_of_in: "peak_of m ps = Some p \<Longrightarrow> p \<in> set ps \<or> m = Some p"
  by (induction ps arbitrary: m) (auto split: option.splits if_splits)

lemma peak_of_Some: "peak_of (Some q) ps \<noteq> None"
  by (induction ps arbitrary: q) auto

lemma peak_of_start: "peak_of (Some q) ps = Some p \<Longrightarrow> cp_guidesNeeded q \<le> cp_guidesNeeded p"
  by (induction ps arbitrary: q) (auto split: if_splits, force)

lemma peak_of_max: "peak_of m ps = Some p \<Longrightarrow> q \<in> set ps \<Longrightarrow> cp_guidesNeeded q \<le> cp_guidesNeeded p"
proof (induction ps arbitrary: m)
  case (Cons a ps)
  show ?case
  proof (cases "q = a")
    case True
    then show ?thesis using Cons.prems(1) peak_of_start by (fastforce split: option.splits if_splits)
  next
    case False
    then show ?thesis using Cons by simp
  qed
qed simp

lemma sorted_ends: "sorted ts \<Longrightarrow> (x :: time) \<in> set ts \<Longrightarrow> hd ts \<le> x \<and> x \<le> last ts"
  by (induction ts) auto

lemma periods_cover: "running voyages x \<noteq> [] \<Longrightarrow>
    \<exists>p \<in> set (periodes_de_charge voyages k). cp_from p \<le> x \<and> x < cp_to p"
proof -
  assume r: "running voyages x \<noteq> []"
  then obtain v where v: "v \<in> set voyages" "borne_debut v \<le> x" "x < borne_fin v"
    by (auto simp: running_def filter_empty_conv)
  let ?ts = "instants voyages"
  have ts: "?ts \<noteq> []" "sorted ?ts" "borne_debut v \<in> set ?ts" "borne_fin v \<in> set ?ts"
    using v(1) instants_set [of voyages] instants_sorted [of voyages] by (auto simp: strict_sorted_iff)
  have "hd ?ts \<le> borne_debut v" "borne_fin v \<le> last ?ts" using sorted_ends ts by blast+
  then show ?thesis unfolding periodes_de_charge_def
    using v r ts(1) instants_set by (intro charge_loop_covers [OF instants_sorted]) (auto simp: apart_def placed_def)
qed

lemma periods_load:
  "p \<in> set (periodes_de_charge voyages k) \<Longrightarrow> cp_from p \<le> x \<Longrightarrow> x < cp_to p \<Longrightarrow>
     p = periode_de_charge k (cp_from p) (cp_to p) (running voyages x) \<and> running voyages x \<noteq> []"
  unfolding periodes_de_charge_def using instants_set
  by (intro charge_loop_load [OF instants_sorted]) (auto simp: apart_def placed_def)

section \<open>Properties\<close>

text \<open>
  C30: the load is exact at every instant: an instant is in a period exactly when a trip is in
  progress, and the period then counts exactly the trips in progress; the peak is the largest
  need of guides over all instants, and each trip is counted the least number of guides that
  covers its capacity at the ratio.
\<close>
theorem capacity_load_exact:
  assumes run: "simulate_capacity now ownerId q s = (Inr c, t)" and "0 < cx_pilgrimsPerGuide c"
  shows "t = s \<and>
    (\<forall>x. running (cx_trips c) x \<noteq> [] \<longleftrightarrow> (\<exists>p \<in> set (cx_periods c). cp_from p \<le> x \<and> x < cp_to p)) \<and>
    (\<forall>p \<in> set (cx_periods c). \<forall>x. cp_from p \<le> x \<and> x < cp_to p \<longrightarrow>
      p = periode_de_charge (cx_pilgrimsPerGuide c) (cp_from p) (cp_to p) (running (cx_trips c) x)) \<and>
    (\<forall>x. running (cx_trips c) x \<noteq> [] \<longrightarrow>
      sum_list (map ct_guidesNeeded (running (cx_trips c) x)) \<le> cx_staff c - cx_spareGuidesAtPeak c) \<and>
    (cx_trips c \<noteq> [] \<and> cx_periods c \<noteq> [] \<longrightarrow> (\<exists>x. running (cx_trips c) x \<noteq> [] \<and>
      sum_list (map ct_guidesNeeded (running (cx_trips c) x)) = cx_staff c - cx_spareGuidesAtPeak c)) \<and>
    (\<forall>v \<in> set (cx_trips c). ct_capacity v \<le> ct_guidesNeeded v * cx_pilgrimsPerGuide c \<and>
      (ct_guidesNeeded v - 1) * cx_pilgrimsPerGuide c < ct_capacity v)"
proof -
  let ?k = "cx_pilgrimsPerGuide c" and ?vs = "cx_trips c" and ?ps = "cx_periods c"
  have t: "t = s" using reads_onlyD [OF reads_capacity run] .
  obtain i where vs: "?vs = upcoming_trips ?k now i s" and ps: "?ps = periodes_de_charge ?vs ?k"
    and peak: "cx_peak c = peak_of None ?ps"
    and spare: "cx_staff c - cx_spareGuidesAtPeak c = (case cx_peak c of None \<Rightarrow> 0 | Some p \<Rightarrow> cp_guidesNeeded p)"
    using run unfolding t by (auto simp: simulate_capacity_def Let_def bind_ok query_ok find_by_owner_or_fail_ok)
  have cover: "running ?vs x \<noteq> [] \<longleftrightarrow> (\<exists>p \<in> set ?ps. cp_from p \<le> x \<and> x < cp_to p)" for x
    using periods_cover [of ?vs x ?k] periods_load [of _ ?vs ?k x] ps by metis
  have load: "p = periode_de_charge ?k (cp_from p) (cp_to p) (running ?vs x)"
    if "p \<in> set ?ps" "cp_from p \<le> x" "x < cp_to p" for p x
    using periods_load [of p ?vs ?k x] that ps by simp
  have need: "cp_guidesNeeded p = sum_list (map ct_guidesNeeded (running ?vs x))"
    if "p \<in> set ?ps" "cp_from p \<le> x" "x < cp_to p" for p x
    by (subst load [OF that]) (simp add: periode_de_charge_def)
  have top: "\<exists>m. peak_of None ?ps = Some m \<and> m \<in> set ?ps" if ne: "?ps \<noteq> []"
  proof -
    obtain a as where a: "?ps = a # as" using ne by (cases ?ps) auto
    then obtain m where "peak_of None ?ps = Some m" using peak_of_Some [of a as] by auto
    then show ?thesis using peak_of_in by fastforce
  qed
  have most: "sum_list (map ct_guidesNeeded (running ?vs x)) \<le> cx_staff c - cx_spareGuidesAtPeak c"
    if busy: "running ?vs x \<noteq> []" for x
  proof -
    obtain p where p: "p \<in> set ?ps" "cp_from p \<le> x" "x < cp_to p" using cover [of x] busy by blast
    then have "?ps \<noteq> []" by (metis empty_iff empty_set)
    then obtain m where "peak_of None ?ps = Some m" using top by blast
    then show ?thesis using peak_of_max [OF _ p(1)] need [OF p] spare peak by simp
  qed
  have attained: "\<exists>x. running ?vs x \<noteq> [] \<and>
      sum_list (map ct_guidesNeeded (running ?vs x)) = cx_staff c - cx_spareGuidesAtPeak c" if ne: "?ps \<noteq> []"
  proof -
    obtain m where m: "peak_of None ?ps = Some m" "m \<in> set ?ps" using top [OF ne] by blast
    have "cp_from m < cp_to m"
      using m(2) charge_loop_long [OF instants_sorted] by (simp add: ps periodes_de_charge_def)
    then show ?thesis using need [OF m(2), of "cp_from m"] cover [of "cp_from m"] m spare peak
      by (intro exI [of _ "cp_from m"] conjI) (blast, simp)
  qed
  have "\<forall>v \<in> set ?vs. ct_capacity v \<le> ct_guidesNeeded v * ?k \<and> (ct_guidesNeeded v - 1) * ?k < ct_capacity v"
    using ceil_div_least [OF assms(2)] by (subst vs) (auto simp: upcoming_trips_def trip_of_def)
  then show ?thesis using t cover load most attained by blast
qed

theorem capacity_load_exact_witness:
  "\<exists>c. simulate_capacity 0 1 \<lparr>cq_pilgrimsPerGuide = Some 40, cq_extraGuides = None\<rparr> sample_db = (Inr c, sample_db) \<and>
     (\<forall>v \<in> set (cx_trips c). ct_capacity v \<le> ct_guidesNeeded v * 40)"
proof -
  obtain c where run: "simulate_capacity 0 1 \<lparr>cq_pilgrimsPerGuide = Some 40, cq_extraGuides = None\<rparr> sample_db = (Inr c, sample_db)"
    and k: "cx_pilgrimsPerGuide c = 40"
    by (simp add: simulate_capacity_def Let_def find_by_owner_or_fail_run sample_defs)
  then show ?thesis using capacity_load_exact [OF run] by auto
qed

end
