(* ===== verification/AuditTrail.thy ===== *)
theory AuditTrail
  imports Bookings
begin

text \<open>
  \<open>src/src/modules/audit/audit.service.ts\<close>: the audit trail, its consultation and its CSV
  export.  The text of the details (\<open>JSON.stringify\<close>) is an argument.  The interceptor that
  fills the trail from the routes is in the theory Http.
\<close>

section \<open>Recording\<close>

record audit_entry =
  ay_actorId :: "uid option"
  ay_actorRole :: "role option"
  ay_action :: string
  ay_entityType :: string
  ay_entityId :: "uid option"
  ay_metadata :: "json option"

definition new_audit :: "time \<Rightarrow> audit_entry \<Rightarrow> uid \<Rightarrow> audit_log" where
  "new_audit now e i =
     \<lparr>al_id = i, al_actorId = ay_actorId e, al_actorRole = ay_actorRole e, al_action = ay_action e,
      al_entityType = ay_entityType e, al_entityId = ay_entityId e, al_metadata = ay_metadata e,
      al_createdAt = now\<rparr>"

text \<open>A failure to write never makes the audited action fail.\<close>

definition record_audit :: "time \<Rightarrow> audit_entry \<Rightarrow> (db, unit) act" where
  "record_audit now e =
     catch (bind (create_row db_auditLogs_update (new_audit now e)) (\<lambda>_. ret ())) (\<lambda>_. ret ())"

section \<open>Consultation\<close>

definition audit_max_days :: int where
  "audit_max_days = 366"

definition limite_consultation :: nat where
  "limite_consultation = 500"

definition limite_export :: nat where
  "limite_export = 10000"

record audit_query =
  aw_from :: "string option"
  aw_to :: "string option"
  aw_action :: "string option"
  aw_entityType :: "string option"
  aw_entityId :: "uid option"
  aw_actorId :: "uid option"

record audit_shape =
  ah_id :: uid
  ah_actorId :: "uid option"
  ah_actorName :: "string option"
  ah_actorRole :: "role option"
  ah_action :: string
  ah_entityType :: string
  ah_entityId :: "uid option"
  ah_metadata :: "json option"
  ah_createdAt :: time

definition audit_period :: "time \<Rightarrow> audit_query \<Rightarrow> http_error + time \<times> time" where
  "audit_period now q =
     (let fin = (if truthy (aw_to q) then map_option (\<lambda>d. d + day_ms) (parse_day (or_else (aw_to q) []))
                 else Some now);
          debut = (if truthy (aw_from q) then parse_day (or_else (aw_from q) [])
                   else map_option (\<lambda>f. f - 30 * day_ms) fin)
      in case (debut, fin) of
           (Some d, Some f) \<Rightarrow>
             if f - d \<le> 0 then Inl (BadRequest ''La date de debut doit preceder la date de fin'')
             else if audit_max_days * day_ms < f - d
             then Inl (BadRequest (''Periode limitee a '' @ show_int audit_max_days @ '' jours''))
             else Inr (d, f)
         | _ \<Rightarrow> Inl (BadRequest ''La date de debut doit preceder la date de fin''))"

definition asked :: "string option \<Rightarrow> string \<Rightarrow> bool" where
  "asked wanted v \<longleftrightarrow> \<not> truthy wanted \<or> wanted = Some v"

definition audit_matches :: "audit_query \<Rightarrow> time \<Rightarrow> time \<Rightarrow> audit_log \<Rightarrow> bool" where
  "audit_matches q debut fin e \<longleftrightarrow>
     debut \<le> al_createdAt e \<and> al_createdAt e < fin \<and> asked (aw_action q) (al_action e) \<and>
     asked (aw_entityType q) (al_entityType e) \<and>
     (aw_entityId q = None \<or> aw_entityId q = al_entityId e) \<and> (aw_actorId q = None \<or> aw_actorId q = al_actorId e)"

definition to_audit_shape :: "user list \<Rightarrow> audit_log \<Rightarrow> audit_shape" where
  "to_audit_shape us e =
     \<lparr>ah_id = al_id e, ah_actorId = al_actorId e,
      ah_actorName = Option.bind (al_actorId e) (\<lambda>i. map_option u_fullName (List.find (\<lambda>u. u_id u = i) us)),
      ah_actorRole = al_actorRole e, ah_action = al_action e, ah_entityType = al_entityType e,
      ah_entityId = al_entityId e, ah_metadata = al_metadata e, ah_createdAt = al_createdAt e\<rparr>"

definition chercher :: "time \<Rightarrow> audit_query \<Rightarrow> nat \<Rightarrow> (db, audit_shape list) act" where
  "chercher now q limite =
     bind (from_result (audit_period now q)) (\<lambda>(debut, fin).
     query (\<lambda>s. map (to_audit_shape (db_users s))
       (take limite (sort_key (\<lambda>e. - al_createdAt e) (filter (audit_matches q debut fin) (db_auditLogs s))))))"

definition list_audit :: "time \<Rightarrow> audit_query \<Rightarrow> (db, audit_shape list) act" where
  "list_audit now q = chercher now q limite_consultation"

definition show_role :: "role \<Rightarrow> string" where
  "show_role r = (case r of PILGRIM \<Rightarrow> ''pilgrim'' | AGENCY \<Rightarrow> ''agency'' | GUIDE \<Rightarrow> ''guide'' | ADMIN \<Rightarrow> ''admin'')"

definition audit_header :: "string list" where
  "audit_header = [''Date (UTC)'', ''Action'', ''Entite'', ''Identifiant'', ''Auteur'', ''Role'',
     ''Identifiant auteur'', ''Details'']"

definition audit_cells :: "(json \<Rightarrow> string) \<Rightarrow> audit_shape \<Rightarrow> string option list" where
  "audit_cells stringify l =
     [Some (iso_string (ah_createdAt l)), Some (ah_action l), Some (ah_entityType l),
      map_option show_nat (ah_entityId l), ah_actorName l, map_option show_role (ah_actorRole l),
      map_option show_nat (ah_actorId l), Some (case ah_metadata l of None \<Rightarrow> [] | Some m \<Rightarrow> stringify m)]"

definition audit_csv :: "(json \<Rightarrow> string) \<Rightarrow> audit_shape list \<Rightarrow> string" where
  "audit_csv stringify lignes =
     bom_utf8 @ join [CHR 0x0D, CHR 0x0A]
       (map (\<lambda>r. join '';'' (map cellule_csv r)) (map Some audit_header # map (audit_cells stringify) lignes))"

definition export_audit_csv :: "(json \<Rightarrow> string) \<Rightarrow> time \<Rightarrow> audit_query \<Rightarrow> (db, string) act" where
  "export_audit_csv stringify now q =
     bind (chercher now q limite_export) (\<lambda>lignes. ret (audit_csv stringify lignes))"

section \<open>Lemmas\<close>

lemma reads_audit [reads_intro]:
  "reads_only (chercher now q n)" "reads_only (list_audit now q)" "reads_only (export_audit_csv f now q)"
  unfolding chercher_def list_audit_def export_audit_csv_def
  by (intro reads_intro | clarsimp split: prod.split)+

lemma record_audit_run:
  "record_audit now e s =
     (Inr (), s\<lparr>db_next := Suc (db_next s), db_auditLogs := db_auditLogs s @ [new_audit now e (db_next s)]\<rparr>)"
  by (simp add: record_audit_def catch_def create_row_def Let_def)

lemma record_audit_ok [ok_iff]:
  "record_audit now e s = (Inr u, t) \<longleftrightarrow>
     t = s\<lparr>db_next := Suc (db_next s), db_auditLogs := db_auditLogs s @ [new_audit now e (db_next s)]\<rparr>"
  by (auto simp: record_audit_run)

end
