(* ===== verification/Billing.thy ===== *)
theory Billing
  imports AuditTrail Savings
begin

text \<open>
  \<open>src/src/modules/billing/billing.service.ts\<close>: invoices, issued once with a number per
  agency and year, and contracts.  The row lock of the transaction that draws the number is
  the sequential execution of the calls.
\<close>

section \<open>Shapes\<close>

record billing_party =
  by_name :: string
  by_address :: "string option"
  by_email :: "string option"
  by_phone :: "string option"
  by_taxId :: "string option"
  by_tradeRegister :: "string option"

record invoice_payment =
  iy_date :: time
  iy_amount :: money
  iy_method :: payment_method
  iy_status :: payment_status
  iy_receiptRef :: "string option"
  iy_refundedAmount :: "money option"

record invoice_shape =
  ish_number :: string
  ish_issuedAt :: time
  ish_bookingId :: uid
  ish_seller :: billing_party
  ish_buyer :: billing_party
  ish_packageTitle :: string
  ish_packageType :: pilgrimage_type
  ish_startDate :: time
  ish_endDate :: time
  ish_totalAmount :: money
  ish_currency :: string
  ish_payments :: "invoice_payment list"
  ish_paid :: money
  ish_refunded :: money
  ish_balanceDue :: money

record contract_stage =
  kg_city :: string
  kg_hotelName :: string
  kg_distanceToMosqueMeters :: "int option"
  kg_startDate :: time
  kg_endDate :: time

record contract_shape =
  ko_bookingId :: uid
  ko_generatedAt :: time
  ko_bookedAt :: time
  ko_agency :: billing_party
  ko_pilgrim :: billing_party
  ko_packageTitle :: string
  ko_packageType :: pilgrimage_type
  ko_description :: "string option"
  ko_startDate :: time
  ko_endDate :: time
  ko_stages :: "contract_stage list"
  ko_inclusions :: "string list"
  ko_price :: money
  ko_currency :: string
  ko_balanceDueDate :: time
  ko_refundTiers :: "rat tier list"

record dossier =
  do_booking :: booking
  do_agency :: agency
  do_pilgrim :: user
  do_package :: package
  do_payments :: "payment list"
  do_invoice :: "invoice option"

definition numero_facture :: "int \<Rightarrow> nat \<Rightarrow> string" where
  "numero_facture annee sequence =
     ''FAC-'' @ show_int annee @ ''-'' @ pad_start 5 (CHR ''0'') (show_nat sequence)"

definition vendeur :: "dossier \<Rightarrow> billing_party" where
  "vendeur d =
     \<lparr>by_name = a_legalName (do_agency d), by_address = a_address (do_agency d),
      by_email = Some (a_contactEmail (do_agency d)), by_phone = Some (a_contactPhone (do_agency d)),
      by_taxId = a_taxId (do_agency d), by_tradeRegister = a_tradeRegister (do_agency d)\<rparr>"

definition acheteur :: "dossier \<Rightarrow> billing_party" where
  "acheteur d =
     \<lparr>by_name = u_fullName (do_pilgrim d), by_address = None, by_email = u_email (do_pilgrim d),
      by_phone = u_phone (do_pilgrim d), by_taxId = None, by_tradeRegister = None\<rparr>"

section \<open>Reading a booking with its relations\<close>

definition dossier_autorise :: "uid \<Rightarrow> role \<Rightarrow> uid \<Rightarrow> (db, dossier) act" where
  "dossier_autorise userId r bookingId =
     bind (find_first db_bookings (\<lambda>b. b_id b = bookingId)) (\<lambda>found.
     bind (or_fail (NotFound ''Reservation introuvable'') found) (\<lambda>b.
     bind (related db_agencies (\<lambda>a. a_id a = b_agencyId b)) (\<lambda>agency.
     bind (related db_users (\<lambda>u. u_id u = b_pilgrimId b)) (\<lambda>pilgrim.
     bind (related db_packages (\<lambda>p. p_id p = b_packageId b)) (\<lambda>pkg.
     bind (find_many db_payments (\<lambda>p. pay_bookingId p = bookingId)) (\<lambda>payments.
     bind (find_first db_invoices (\<lambda>i. in_bookingId i = bookingId)) (\<lambda>facture.
     bind (require (r = ADMIN \<or> (r = PILGRIM \<and> b_pilgrimId b = userId) \<or> (r = AGENCY \<and> a_ownerId agency = userId))
       (Forbidden ''Vous n'avez pas acces a cette reservation'')) (\<lambda>_.
     ret \<lparr>do_booking = b, do_agency = agency, do_pilgrim = pilgrim, do_package = pkg,
       do_payments = sort_key pay_createdAt payments, do_invoice = facture\<rparr>))))))))"

section \<open>Issuing\<close>

definition next_sequence :: "uid \<Rightarrow> int \<Rightarrow> db \<Rightarrow> nat" where
  "next_sequence agencyId annee s =
     foldr max (map in_sequence (filter (\<lambda>i. in_agencyId i = agencyId \<and> in_year i = annee) (db_invoices s))) 0 + 1"

definition new_invoice :: "time \<Rightarrow> dossier \<Rightarrow> nat \<Rightarrow> uid \<Rightarrow> invoice" where
  "new_invoice now d sequence i =
     \<lparr>in_id = i, in_agencyId = b_agencyId (do_booking d), in_bookingId = b_id (do_booking d),
      in_year = get_year now, in_sequence = sequence, in_number = numero_facture (get_year now) sequence,
      in_totalAmount = p_price (do_package d), in_currency = p_currency (do_package d), in_issuedAt = now\<rparr>"

definition emettre :: "time \<Rightarrow> dossier \<Rightarrow> (db, unit) act" where
  "emettre now d =
     catch
      (transaction
        (bind (query (next_sequence (b_agencyId (do_booking d)) (get_year now))) (\<lambda>sequence.
         bind (query (\<lambda>s. List.find (\<lambda>i. in_bookingId i = b_id (do_booking d)) (db_invoices s))) (\<lambda>same.
         bind (require (same = None) (DbError ''P2002'')) (\<lambda>_.
         bind (create_row db_invoices_update (new_invoice now d sequence)) (\<lambda>_. ret ()))))))
      (\<lambda>erreur. if erreur = DbError ''P2002'' then ret () else throw erreur)"

definition encaisse :: "payment \<Rightarrow> bool" where
  "encaisse p \<longleftrightarrow> pay_status p = SUCCEEDED \<or> pay_status p = REFUNDED"

definition to_invoice_payment :: "payment \<Rightarrow> invoice_payment" where
  "to_invoice_payment p =
     \<lparr>iy_date = or_else (pay_confirmedAt p) (pay_createdAt p), iy_amount = pay_amount p, iy_method = pay_method p,
      iy_status = pay_status p, iy_receiptRef = pay_receiptRef p, iy_refundedAmount = pay_refundedAmount p\<rparr>"

definition balance_due :: "booking_status \<Rightarrow> money \<Rightarrow> money \<Rightarrow> money \<Rightarrow> money" where
  "balance_due st amount paid refunded = (if st = CANCELLED then 0 else round_cents (max 0 (amount - paid + refunded)))"

definition to_invoice_shape :: "dossier \<Rightarrow> invoice \<Rightarrow> invoice_shape" where
  "to_invoice_shape d facture =
     (let encaisses = filter encaisse (do_payments d);
          paid = round_cents (sum_list (map pay_amount encaisses));
          refunded = round_cents (sum_list (map (\<lambda>p. or_else (pay_refundedAmount p) 0) encaisses))
      in \<lparr>ish_number = in_number facture, ish_issuedAt = in_issuedAt facture, ish_bookingId = b_id (do_booking d),
          ish_seller = vendeur d, ish_buyer = acheteur d, ish_packageTitle = p_title (do_package d),
          ish_packageType = p_type (do_package d), ish_startDate = p_startDate (do_package d),
          ish_endDate = p_endDate (do_package d), ish_totalAmount = in_totalAmount facture,
          ish_currency = in_currency facture, ish_payments = map to_invoice_payment encaisses,
          ish_paid = paid, ish_refunded = refunded,
          ish_balanceDue = balance_due (b_status (do_booking d)) (in_totalAmount facture) paid refunded\<rparr>)"

definition issue_audit :: "uid \<Rightarrow> role \<Rightarrow> uid \<Rightarrow> audit_entry" where
  "issue_audit userId r bookingId =
     \<lparr>ay_actorId = Some userId, ay_actorRole = Some r, ay_action = ''invoice.issue'', ay_entityType = ''booking'',
      ay_entityId = Some bookingId, ay_metadata = None\<rparr>"

definition get_invoice :: "time \<Rightarrow> uid \<Rightarrow> role \<Rightarrow> uid \<Rightarrow> (db, invoice_shape) act" where
  "get_invoice now userId r bookingId =
     bind (dossier_autorise userId r bookingId) (\<lambda>d.
     bind (if do_invoice d = None
       then bind (emettre now d) (\<lambda>_.
            bind (record_audit now (issue_audit userId r bookingId)) (\<lambda>_.
            dossier_autorise userId r bookingId))
       else ret d) (\<lambda>d.
     bind (or_fail (NotFound ''Facture introuvable'') (do_invoice d)) (\<lambda>facture.
     ret (to_invoice_shape d facture))))"

section \<open>Contracts\<close>

definition to_contract_stage :: "package_stage \<Rightarrow> contract_stage" where
  "to_contract_stage e =
     \<lparr>kg_city = st_city e, kg_hotelName = st_hotelName e, kg_distanceToMosqueMeters = st_distanceToMosqueMeters e,
      kg_startDate = st_startDate e, kg_endDate = st_endDate e\<rparr>"

definition get_contract :: "time \<Rightarrow> uid \<Rightarrow> role \<Rightarrow> uid \<Rightarrow> (db, contract_shape) act" where
  "get_contract now userId r bookingId =
     bind (dossier_autorise userId r bookingId) (\<lambda>d.
     ret \<lparr>ko_bookingId = bookingId, ko_generatedAt = now, ko_bookedAt = b_createdAt (do_booking d),
       ko_agency = vendeur d, ko_pilgrim = acheteur d, ko_packageTitle = p_title (do_package d),
       ko_packageType = p_type (do_package d), ko_description = p_description (do_package d),
       ko_startDate = p_startDate (do_package d), ko_endDate = p_endDate (do_package d),
       ko_stages = map to_contract_stage (sort_key st_startDate (p_stages (do_package d))),
       ko_inclusions = p_inclusions (do_package d), ko_price = p_price (do_package d),
       ko_currency = p_currency (do_package d), ko_balanceDueDate = balance_due_date (p_startDate (do_package d)),
       ko_refundTiers = lire_paliers (b_refundPolicySnapshot (do_booking d))\<rparr>)"

section \<open>Lemmas\<close>

lemma reads_billing [reads_intro]:
  "reads_only (dossier_autorise i r j)" "reads_only (get_contract now i r j)"
  unfolding dossier_autorise_def get_contract_def related_def by (intro reads_intro)+

subsection \<open>Numbers without gap\<close>

definition issued :: "uid \<Rightarrow> int \<Rightarrow> db \<Rightarrow> invoice list" where
  "issued agencyId annee s = filter (\<lambda>i. in_agencyId i = agencyId \<and> in_year i = annee) (db_invoices s)"

definition invoices_ok :: "db \<Rightarrow> bool" where
  "invoices_ok s \<longleftrightarrow>
     (\<forall>a y. map in_sequence (issued a y s) = [1 ..< Suc (length (issued a y s))]) \<and>
     distinct (map in_bookingId (db_invoices s)) \<and>
     (\<forall>i \<in> set (db_invoices s). in_number i = numero_facture (in_year i) (in_sequence i))"

lemma foldr_max_low: "\<forall>x \<in> set xs. x \<le> m \<Longrightarrow> foldr max xs m = (m :: nat)"
  by (induction xs) auto

lemma foldr_max_upt: "foldr max [1 ..< Suc n] 0 = n"
proof (cases n)
  case (Suc m)
  have "foldr max [1 ..< Suc n] 0 = foldr max [1 ..< n] n" using Suc by (simp add: upt_Suc_append)
  then show ?thesis by (simp add: foldr_max_low)
qed simp

lemma next_sequence_ok: "invoices_ok s \<Longrightarrow> next_sequence a y s = Suc (length (issued a y s))"
  by (simp add: next_sequence_def issued_def [symmetric] invoices_ok_def foldr_max_upt [unfolded One_nat_def] del: upt_Suc)

lemma emettre_run:
  "emettre now d s =
     (if List.find (\<lambda>i. in_bookingId i = b_id (do_booking d)) (db_invoices s) = None
      then (Inr (), s\<lparr>db_next := Suc (db_next s), db_invoices := db_invoices s @
        [new_invoice now d (next_sequence (b_agencyId (do_booking d)) (get_year now) s) (db_next s)]\<rparr>)
      else (Inr (), s))"
  by (simp add: emettre_def catch_def transaction_def create_row_def Let_def)

lemma emettre_keeps: "keeps invoices_ok (emettre now d)"
proof (rule keepsI)
  fix s r t
  assume ok: "invoices_ok s" and run: "emettre now d s = (r, t)"
  let ?a = "b_agencyId (do_booking d)" and ?y = "get_year now"
  show "invoices_ok t"
  proof (cases "List.find (\<lambda>i. in_bookingId i = b_id (do_booking d)) (db_invoices s)")
    case None
    define i where "i = new_invoice now d (next_sequence ?a ?y s) (db_next s)"
    have i: "in_agencyId i = ?a" "in_year i = ?y" "in_sequence i = Suc (length (issued ?a ?y s))"
        "in_number i = numero_facture (in_year i) (in_sequence i)" "in_bookingId i = b_id (do_booking d)"
      using next_sequence_ok [OF ok] by (simp_all add: i_def new_invoice_def)
    have t: "db_invoices t = db_invoices s @ [i]" using run None by (auto simp: emettre_run i_def)
    then have "issued a y t = issued a y s @ (if a = ?a \<and> y = ?y then [i] else [])" for a y
      by (simp add: issued_def i(1,2))
    moreover have "b_id (do_booking d) \<notin> in_bookingId ` set (db_invoices s)"
      using None by (auto simp: find_None_iff)
    ultimately show ?thesis using ok i t by (auto simp: invoices_ok_def)
  next
    case (Some j)
    then show ?thesis using run ok by (simp add: emettre_run)
  qed
qed

lemma invoices_ok_audit: "keeps invoices_ok (record_audit now e)"
  by (simp add: keeps_def record_audit_run invoices_ok_def issued_def)

lemma get_invoice_keeps: "keeps invoices_ok (get_invoice now userId r bookingId)"
  unfolding get_invoice_def
  by (intro keeps_bind keeps_if keeps_basic emettre_keeps invoices_ok_audit keeps_reads [OF reads_billing(1)])

datatype billing_call = CallInvoice time uid role uid | CallContract time uid role uid

fun billing_step :: "billing_call \<Rightarrow> db \<Rightarrow> db" where
  "billing_step (CallInvoice now userId r bookingId) s = snd (get_invoice now userId r bookingId s)"
| "billing_step (CallContract now userId r bookingId) s = snd (get_contract now userId r bookingId s)"

interpretation facturation: machine billing_step "\<lambda>_ _. True" invoices_ok
proof unfold_locales
  fix c s
  assume "invoices_ok s"
  then show "invoices_ok (billing_step c s)"
    using get_invoice_keeps reads_billing(2) by (cases c) (auto simp: keeps_def reads_only_def)
qed

text \<open>An issued invoice stays as it is: the calls only append.\<close>

definition extends :: "invoice list \<Rightarrow> db \<Rightarrow> bool" where
  "extends is s \<longleftrightarrow> (\<exists>new. db_invoices s = is @ new)"

lemma extends_keeps: "keeps (extends is) (get_invoice now userId r bookingId)"
proof -
  have "keeps (extends is) (emettre now' d)" for now' d
    by (auto simp: keeps_def extends_def emettre_run)
  moreover have "keeps (extends is) (record_audit now' e)" for now' e
    by (simp add: keeps_def extends_def record_audit_run)
  ultimately show ?thesis unfolding get_invoice_def
    by (intro keeps_bind keeps_if keeps_basic keeps_reads [OF reads_billing(1)])
qed

interpretation archive: machine billing_step "\<lambda>_ _. True" "extends is"
proof unfold_locales
  fix c s
  assume "extends is s"
  then show "extends is (billing_step c s)"
    using extends_keeps reads_billing(2) by (cases c) (auto simp: keeps_def reads_only_def)
qed

section \<open>Properties\<close>

text \<open>
  C26: invoice numbers have no gap and no duplicate: along any sequence of requests for
  invoices and contracts, the invoices of an agency and a year are numbered 1, 2, 3 and so on
  in the order of their issue, a booking has at most one, each carries the text of its number,
  and the invoices already issued keep their number and amount.
\<close>
theorem invoices_without_gap:
  assumes "invoices_ok s"
  shows "map in_sequence (issued a y (fold billing_step cs s)) =
      [1 ..< Suc (length (issued a y (fold billing_step cs s)))] \<and>
    distinct (map in_bookingId (db_invoices (fold billing_step cs s))) \<and>
    (\<forall>i \<in> set (db_invoices (fold billing_step cs s)). in_number i = numero_facture (in_year i) (in_sequence i)) \<and>
    take (length (db_invoices s)) (db_invoices (fold billing_step cs s)) = db_invoices s"
proof -
  have "extends (db_invoices s) (fold billing_step cs s)"
    by (rule archive.run_inv [OF all_allowed]) (simp add: extends_def)
  then have "take (length (db_invoices s)) (db_invoices (fold billing_step cs s)) = db_invoices s"
    by (auto simp: extends_def)
  then show ?thesis
    using facturation.run_inv [OF all_allowed assms, of cs] unfolding invoices_ok_def by blast
qed

theorem invoices_without_gap_witness:
  "\<exists>t v. get_invoice 0 5 PILGRIM 7 sample_payment_db = (Inr v, t) \<and> ish_totalAmount v = 1000 \<and>
     map in_sequence (issued 2 1970 t) = [1]"
proof -
  have "invoices_ok sample_payment_db"
    by (simp add: invoices_ok_def issued_def sample_payment_db_def sample_booking_defs)
  moreover have "get_year 0 = 1970" by code_simp
  moreover obtain t v where run: "get_invoice 0 5 PILGRIM 7 sample_payment_db = (Inr v, t)"
    and v: "ish_totalAmount v = 1000" and one: "length (issued 2 (get_year 0) t) = 1"
    by (simp add: get_invoice_def dossier_autorise_def emettre_run record_audit_run new_invoice_def issued_def
        next_sequence_def to_invoice_shape_def Let_def sample_payment_db_def sample_booking_defs)
  ultimately show ?thesis
    using invoices_without_gap [of sample_payment_db 2 1970 "[CallInvoice 0 5 PILGRIM 7]"] by auto
qed

end
