(* ===== verification/Documents.thy ===== *)
theory Documents
  imports Payments
begin

text \<open>
  \<open>src/src/modules/documents/documents.service.ts\<close>: the documents of a pilgrim, their
  review by the agency, the alerts on their expiry and the documents step of the booking.
  The reference the storage makes of a file and the access URL of a reference are arguments;
  the access log is not modelled.
\<close>

section \<open>Shapes\<close>

definition passport_validity_margin_days :: int where
  "passport_validity_margin_days = 180"

definition required_types :: "pilgrim_document_type list" where
  "required_types = Enum.enum"

record document_shape =
  ds_id :: uid
  ds_bookingId :: uid
  ds_pilgrimId :: uid
  ds_type :: pilgrim_document_type
  ds_storageRef :: string
  ds_status :: pilgrim_document_status
  ds_rejectionReason :: "string option"
  ds_expiresAt :: "time option"

datatype document_expiry_status = EXPIRED | EXPIRES_BEFORE_TRIP | EXPIRES_SOON_AFTER_TRIP

record expiry_alert =
  ea_id :: uid
  ea_type :: pilgrim_document_type
  ea_expiresAt :: time
  ea_status :: document_expiry_status

definition to_document_shape :: "pilgrim_document \<Rightarrow> document_shape" where
  "to_document_shape d =
     \<lparr>ds_id = d_id d, ds_bookingId = d_bookingId d, ds_pilgrimId = d_pilgrimId d, ds_type = d_type d,
      ds_storageRef = d_storageRef d, ds_status = d_status d, ds_rejectionReason = d_rejectionReason d,
      ds_expiresAt = d_expiresAt d\<rparr>"

section \<open>Upload and reading\<close>

record upload_document_dto =
  ud_bookingId :: uid
  ud_type :: pilgrim_document_type
  ud_expiresAt :: "time option"

definition new_document :: "uid \<Rightarrow> upload_document_dto \<Rightarrow> string \<Rightarrow> uid \<Rightarrow> pilgrim_document" where
  "new_document pilgrimId dto storageRef i =
     \<lparr>d_id = i, d_bookingId = ud_bookingId dto, d_pilgrimId = pilgrimId, d_type = ud_type dto,
      d_storageRef = storageRef, d_status = DOC_PENDING, d_rejectionReason = None, d_expiresAt = ud_expiresAt dto\<rparr>"

definition upload_document :: "uid \<Rightarrow> upload_document_dto \<Rightarrow> string \<Rightarrow> (db, document_shape) act" where
  "upload_document pilgrimId dto storageRef =
     bind (find_booking_or_fail (ud_bookingId dto)) (\<lambda>booking.
     bind (require (bs_pilgrimId booking = pilgrimId) (Forbidden ''Cette reservation ne vous appartient pas'')) (\<lambda>_.
     bind (create_row db_documents_update (new_document pilgrimId dto storageRef)) (\<lambda>doc.
     ret (to_document_shape doc))))"

definition find_my_documents :: "uid \<Rightarrow> (db, document_shape list) act" where
  "find_my_documents pilgrimId =
     bind (find_many db_documents (\<lambda>d. d_pilgrimId d = pilgrimId)) (\<lambda>docs. ret (map to_document_shape docs))"

definition find_documents_by_booking :: "uid \<Rightarrow> role \<Rightarrow> uid \<Rightarrow> (db, document_shape list) act" where
  "find_documents_by_booking requesterId requesterRole bookingId =
     bind (find_booking_or_fail bookingId) (\<lambda>booking.
     bind (require (\<not> (requesterRole = PILGRIM \<and> bs_pilgrimId booking \<noteq> requesterId))
       (Forbidden ''Cette reservation ne vous appartient pas'')) (\<lambda>_.
     bind (if requesterRole = AGENCY then
         bind (find_by_owner_or_fail requesterId) (\<lambda>agency.
         require (bs_agencyId booking = as_id agency) (Forbidden ''Cette reservation n'appartient pas a votre agence''))
       else ret ()) (\<lambda>_.
     bind (find_many db_documents (\<lambda>d. d_bookingId d = bs_id booking)) (\<lambda>docs.
     ret (map to_document_shape docs)))))"

definition find_document_or_fail :: "uid \<Rightarrow> (db, document_shape) act" where
  "find_document_or_fail i =
     bind (find_first db_documents (\<lambda>d. d_id d = i)) (\<lambda>found.
     bind (or_fail (NotFound ''Document introuvable'') found) (\<lambda>doc. ret (to_document_shape doc)))"

definition get_document_access_url :: "(string \<Rightarrow> 'url) \<Rightarrow> uid \<Rightarrow> role \<Rightarrow> uid \<Rightarrow> (db, 'url) act" where
  "get_document_access_url access_url requesterId requesterRole documentId =
     bind (find_document_or_fail documentId) (\<lambda>doc.
     bind (find_booking_or_fail (ds_bookingId doc)) (\<lambda>booking.
     bind (require (\<not> (requesterRole = PILGRIM \<and> bs_pilgrimId booking \<noteq> requesterId))
       (Forbidden ''Ce document ne vous appartient pas'')) (\<lambda>_.
     bind (if requesterRole = AGENCY then
         bind (find_by_owner_or_fail requesterId) (\<lambda>agency.
         require (bs_agencyId booking = as_id agency) (Forbidden ''Ce document n'appartient pas a votre agence''))
       else ret ()) (\<lambda>_.
     ret (access_url (ds_storageRef doc))))))"

section \<open>Review\<close>

definition assert_document_ownership :: "uid \<Rightarrow> document_shape \<Rightarrow> (db, unit) act" where
  "assert_document_ownership ownerId doc =
     bind (find_booking_or_fail (ds_bookingId doc)) (\<lambda>booking.
     bind (find_by_owner_or_fail ownerId) (\<lambda>agency.
     require (bs_agencyId booking = as_id agency) (Forbidden ''Ce document n'appartient pas a votre agence'')))"

definition validated_types :: "document_shape list \<Rightarrow> pilgrim_document_type list" where
  "validated_types shapes = map ds_type (filter (\<lambda>d. ds_status d = DOC_VALIDATED) shapes)"

definition maybe_complete_documents_step :: "time \<Rightarrow> uid \<Rightarrow> (db, unit) act" where
  "maybe_complete_documents_step now bookingId =
     bind (find_many db_documents (\<lambda>d. d_bookingId d = bookingId)) (\<lambda>docs.
     let validatedTypes = validated_types (map to_document_shape docs);
         allValidated = list_all (\<lambda>type. type \<in> set validatedTypes) required_types
     in whenever allValidated (bind (mark_step_done now bookingId STEP_DOCUMENTS) (\<lambda>_. ret ())))"

definition mark_validated :: "pilgrim_document \<Rightarrow> pilgrim_document" where
  "mark_validated d = d\<lparr>d_status := DOC_VALIDATED, d_rejectionReason := None\<rparr>"

definition validate_document :: "time \<Rightarrow> uid \<Rightarrow> uid \<Rightarrow> (db, document_shape) act" where
  "validate_document now ownerId documentId =
     bind (find_document_or_fail documentId) (\<lambda>doc.
     bind (assert_document_ownership ownerId doc) (\<lambda>_.
     bind (update_row db_documents db_documents_update (\<lambda>d. d_id d = ds_id doc) mark_validated) (\<lambda>updated.
     bind (maybe_complete_documents_step now (d_bookingId updated)) (\<lambda>_.
     ret (to_document_shape updated)))))"

definition reject_document :: "uid \<Rightarrow> uid \<Rightarrow> string \<Rightarrow> (db, document_shape) act" where
  "reject_document ownerId documentId reason =
     bind (find_document_or_fail documentId) (\<lambda>doc.
     bind (assert_document_ownership ownerId doc) (\<lambda>_.
     bind (update_row db_documents db_documents_update (\<lambda>d. d_id d = ds_id doc)
       (\<lambda>d. d\<lparr>d_status := DOC_REJECTED, d_rejectionReason := Some reason\<rparr>)) (\<lambda>updated.
     ret (to_document_shape updated))))"

section \<open>Expiry\<close>

definition expiry_status :: "time \<Rightarrow> time \<Rightarrow> pilgrim_document_type \<Rightarrow> time \<Rightarrow> document_expiry_status option" where
  "expiry_status now tripEnd type expiresAt =
     (if expiresAt < now then Some EXPIRED
      else if expiresAt < tripEnd then Some EXPIRES_BEFORE_TRIP
      else if type = PASSPORT \<and> expiresAt < tripEnd + passport_validity_margin_days * day_ms
      then Some EXPIRES_SOON_AFTER_TRIP else None)"

definition alert_of :: "time \<Rightarrow> time \<Rightarrow> document_shape \<Rightarrow> expiry_alert option" where
  "alert_of now tripEnd doc =
     Option.bind (ds_expiresAt doc) (\<lambda>e. map_option
       (\<lambda>st. \<lparr>ea_id = ds_id doc, ea_type = ds_type doc, ea_expiresAt = e, ea_status = st\<rparr>)
       (expiry_status now tripEnd (ds_type doc) e))"

definition get_expiry_alerts :: "time \<Rightarrow> uid \<Rightarrow> role \<Rightarrow> uid \<Rightarrow> (db, expiry_alert list) act" where
  "get_expiry_alerts now requesterId requesterRole bookingId =
     bind (find_documents_by_booking requesterId requesterRole bookingId) (\<lambda>docs.
     bind (find_booking_or_fail bookingId) (\<lambda>booking.
     bind (find_package_or_fail (bs_packageId booking)) (\<lambda>pkg.
     ret (List.map_filter (alert_of now (p_endDate pkg)) docs))))"

section \<open>Lemmas\<close>

lemma reads_documents [reads_intro]:
  "reads_only (find_my_documents i)" "reads_only (find_documents_by_booking i r j)" "reads_only (find_document_or_fail k)"
  "reads_only (get_document_access_url url i r k)" "reads_only (assert_document_ownership i doc)"
  "reads_only (get_expiry_alerts now i r j)"
  unfolding find_my_documents_def find_documents_by_booking_def find_document_or_fail_def get_document_access_url_def
    assert_document_ownership_def get_expiry_alerts_def
  by (intro reads_intro)+

lemma document_shape_simps [simp]:
  "ds_id (to_document_shape d) = d_id d" "ds_bookingId (to_document_shape d) = d_bookingId d"
  "ds_type (to_document_shape d) = d_type d" "ds_status (to_document_shape d) = d_status d"
  "d_id (mark_validated d) = d_id d" "d_bookingId (mark_validated d) = d_bookingId d"
  "d_status (mark_validated d) = DOC_VALIDATED" "d_type (mark_validated d) = d_type d"
  by (simp_all add: to_document_shape_def mark_validated_def)

definition dossier_documents_complete :: "pilgrim_document list \<Rightarrow> uid \<Rightarrow> bool" where
  "dossier_documents_complete docs bookingId \<longleftrightarrow>
     (\<forall>type. \<exists>d \<in> set docs. d_bookingId d = bookingId \<and> d_type d = type \<and> d_status d = DOC_VALIDATED)"

lemma all_types_validated:
  "list_all (\<lambda>type. type \<in> set (validated_types (map to_document_shape (filter (\<lambda>d. d_bookingId d = j) docs)))) required_types
     \<longleftrightarrow> dossier_documents_complete docs j"
proof -
  have "set (validated_types (map to_document_shape (filter (\<lambda>d. d_bookingId d = j) docs))) =
      {type. \<exists>d \<in> set docs. d_bookingId d = j \<and> d_type d = type \<and> d_status d = DOC_VALIDATED}"
    by (auto simp: validated_types_def filter_map comp_def)
  then show ?thesis
    by (simp add: list_all_iff required_types_def UNIV_enum [symmetric] dossier_documents_complete_def)
qed

lemma maybe_complete_run:
  "maybe_complete_documents_step now j s =
     (if dossier_documents_complete (db_documents s) j
      then bind (mark_step_done now j STEP_DOCUMENTS) (\<lambda>_. ret ()) s else (Inr (), s))"
  by (simp add: maybe_complete_documents_step_def Let_def all_types_validated)

section \<open>Properties\<close>

text \<open>
  C27: validating a document validates the documents step of its booking exactly when every
  one of the four required types then has a validated document of this booking; otherwise
  the booking is left as it was.
\<close>
theorem documents_complete_the_step:
  assumes l: "seat_ledger s" and d: "List.find (\<lambda>d. d_id d = i) (db_documents s) = Some d"
    and b: "List.find (\<lambda>b. b_id b = d_bookingId d) (db_bookings s) = Some b" "STEP_DOCUMENTS \<in> s_key ` set (b_steps b)"
    and u: "List.find (\<lambda>u. u_id u = b_pilgrimId b) (db_users s) = Some u"
    and a: "List.find (\<lambda>a. a_ownerId a = ownerId) (db_agencies s) = Some a" "a_id a = b_agencyId b"
  shows "\<exists>t b'. validate_document now ownerId i s = (Inr (to_document_shape (mark_validated d)), t) \<and>
    List.find (\<lambda>b. b_id b = d_bookingId d) (db_bookings t) = Some b' \<and>
    (if dossier_documents_complete (map (\<lambda>x. if d_id x = i then mark_validated x else x) (db_documents s)) (d_bookingId d)
     then b_steps b' = b_steps (set_step now STEP_DOCUMENTS STEP_DONE b) else b' = b)"
proof -
  let ?docs = "map (\<lambda>x. if d_id x = i then mark_validated x else x) (db_documents s)" and ?j = "d_bookingId d"
  let ?s = "db_documents_update (map (\<lambda>x. if d_id x = i then mark_validated x else x)) s"
  have id: "d_id d = i" using d by (auto dest: find_Some_set)
  have run: "validate_document now ownerId i s =
      bind (maybe_complete_documents_step now ?j) (\<lambda>_. ret (to_document_shape (mark_validated d))) ?s"
    using d b(1) a id
    by (simp add: validate_document_def find_document_or_fail_def assert_document_ownership_def find_booking_or_fail_run
        find_by_owner_or_fail_run to_booking_shape_def to_agency_shape_def update_row_def)
  have l': "seat_ledger ?s" using l by (simp add: seat_ledger_def packages_ok_def well_keyed_def sold_def)
  show ?thesis
  proof (cases "dossier_documents_complete ?docs ?j")
    case True
    obtain v t b' where "mark_step_done now ?j STEP_DOCUMENTS ?s = (Inr v, t)"
        "List.find (\<lambda>b. b_id b = ?j) (db_bookings t) = Some b'"
        "b_steps b' = b_steps (set_step now STEP_DOCUMENTS STEP_DONE b)"
      using mark_step_done_total [OF l', of ?j b STEP_DOCUMENTS u now] b u by auto
    then show ?thesis using True run by (simp add: maybe_complete_run)
  next
    case False
    then show ?thesis using run b by (simp add: maybe_complete_run)
  qed
qed

definition sample_document :: "pilgrim_document_type \<Rightarrow> pilgrim_document_status \<Rightarrow> uid \<Rightarrow> pilgrim_document" where
  "sample_document type st i =
     (new_document 5 \<lparr>ud_bookingId = 7, ud_type = type, ud_expiresAt = None\<rparr> ''ref'' i)\<lparr>d_status := st\<rparr>"

definition sample_documents_db :: db where
  "sample_documents_db = sample_booking_db\<lparr>db_documents :=
     [sample_document PASSPORT DOC_VALIDATED 21, sample_document VISA DOC_VALIDATED 22,
      sample_document FLIGHT_TICKET DOC_VALIDATED 23, sample_document VACCINATION_CERTIFICATE DOC_PENDING 24]\<rparr>"

lemma complete_by_type:
  "(\<And>type. type \<in> set (map d_type (filter (\<lambda>d. d_bookingId d = j \<and> d_status d = DOC_VALIDATED) docs))) \<Longrightarrow>
     dossier_documents_complete docs j"
  unfolding dossier_documents_complete_def
proof
  fix type
  assume all: "\<And>type. type \<in> set (map d_type (filter (\<lambda>d. d_bookingId d = j \<and> d_status d = DOC_VALIDATED) docs))"
  show "\<exists>d \<in> set docs. d_bookingId d = j \<and> d_type d = type \<and> d_status d = DOC_VALIDATED" using all [of type] by auto
qed

theorem documents_complete_the_step_witness:
  "\<exists>v t b'. validate_document 0 1 24 sample_documents_db = (Inr v, t) \<and>
     List.find (\<lambda>b. b_id b = 7) (db_bookings t) = Some b' \<and>
     b_steps b' = b_steps (set_step 0 STEP_DOCUMENTS STEP_DONE sample_booking)"
proof -
  let ?s = sample_documents_db and ?d = "sample_document VACCINATION_CERTIFICATE DOC_PENDING 24"
  have l: "seat_ledger ?s"
    using sample_ledger by (simp add: sample_documents_db_def seat_ledger_def packages_ok_def well_keyed_def sold_def)
  have d: "List.find (\<lambda>d. d_id d = 24) (db_documents ?s) = Some ?d" and j: "d_bookingId ?d = 7"
    by (simp_all add: sample_documents_db_def sample_document_def new_document_def)
  have b: "List.find (\<lambda>b. b_id b = d_bookingId ?d) (db_bookings ?s) = Some sample_booking"
      "STEP_DOCUMENTS \<in> s_key ` set (b_steps sample_booking)"
      "List.find (\<lambda>u. u_id u = b_pilgrimId sample_booking) (db_users ?s) = Some sample_pilgrim"
      "List.find (\<lambda>a. a_ownerId a = 1) (db_agencies ?s) = Some sample_agency" "a_id sample_agency = b_agencyId sample_booking"
    by (simp_all add: j sample_documents_db_def sample_booking_defs)
  have "type \<in> set (map d_type (filter (\<lambda>d. d_bookingId d = 7 \<and> d_status d = DOC_VALIDATED)
      (map (\<lambda>x. if d_id x = 24 then mark_validated x else x) (db_documents ?s))))" for type
    by (cases type) (simp_all add: sample_documents_db_def sample_document_def new_document_def mark_validated_def)
  then have "dossier_documents_complete (map (\<lambda>x. if d_id x = 24 then mark_validated x else x) (db_documents ?s)) 7"
    by (rule complete_by_type)
  then show ?thesis using documents_complete_the_step [OF l d b, of 0] j by auto
qed

end
