(* ===== verification/Auth.thy ===== *)
theory Auth
  imports Bookings
begin

text \<open>
  \<open>src/src/modules/auth\<close>: one-time codes, passwords, sessions with refresh tokens and the
  reset of a password.  What bcrypt, the JWT library, SHA-256, the mailers and the generator
  of random numbers do is an argument of the definitions: \<open>auth_env\<close> for the functions, the
  drawn code or token for the rest.  The salt bcrypt draws is left out, since nothing
  compares two hashes.
\<close>

section \<open>The environment\<close>

datatype otp_contact = Phone string | Email string

record jwt_payload =
  jp_sub :: uid
  jp_role :: role
  jp_phone :: "string option"
  jp_email :: "string option"

text \<open>
  \<open>av_verify t now\<close> is the subject of a refresh token whose signature and expiry hold at
  \<open>now\<close>; \<open>av_exp\<close> its expiry; \<open>av_deliver\<close> the error a sender throws, if any.
\<close>

record auth_env =
  av_hash :: "string \<Rightarrow> string"
  av_compare :: "string \<Rightarrow> string \<Rightarrow> bool"
  av_sign_access :: "jwt_payload \<Rightarrow> time \<Rightarrow> string"
  av_sign_refresh :: "jwt_payload \<Rightarrow> time \<Rightarrow> string"
  av_verify :: "string \<Rightarrow> time \<Rightarrow> uid option"
  av_exp :: "string \<Rightarrow> time"
  av_sha256 :: "string \<Rightarrow> string"
  av_deliver :: "otp_contact \<Rightarrow> string \<Rightarrow> http_error option"
  av_otp_ttl_seconds :: int
  av_otp_length :: nat
  av_reset_ttl_minutes :: int

record auth_tokens =
  tk_accessToken :: string
  tk_refreshToken :: string

definition max_otp_attempts :: nat where
  "max_otp_attempts = 5"

definition otp_role :: "role \<Rightarrow> bool" where
  "otp_role r \<longleftrightarrow> r = PILGRIM \<or> r = GUIDE"

definition to_otp_contact :: "string option \<Rightarrow> string option \<Rightarrow> otp_contact" where
  "to_otp_contact phone email =
     (case email of None \<Rightarrow> Phone (or_else phone []) | Some e \<Rightarrow> Email (to_lower_case (trim e)))"

definition otp_for :: "otp_contact \<Rightarrow> otp \<Rightarrow> bool" where
  "otp_for contact o' \<longleftrightarrow> (case contact of Phone p \<Rightarrow> o_phone o' = Some p | Email e \<Rightarrow> o_email o' = Some e)"

section \<open>One-time codes\<close>

definition generate_numeric_code :: "nat \<Rightarrow> nat \<Rightarrow> string" where
  "generate_numeric_code length' drawn = pad_start length' (CHR ''0'') (show_nat (drawn mod 10 ^ length'))"

definition otp_allowed_for_email :: "string \<Rightarrow> (db, bool) act" where
  "otp_allowed_for_email email =
     bind (find_user_by_email email) (\<lambda>user.
     ret (case user of None \<Rightarrow> True | Some u \<Rightarrow> otp_role (us_role u)))"

definition new_otp :: "auth_env \<Rightarrow> time \<Rightarrow> otp_contact \<Rightarrow> string \<Rightarrow> uid \<Rightarrow> otp" where
  "new_otp env now contact code i =
     \<lparr>o_id = i, o_phone = (case contact of Phone p \<Rightarrow> Some p | Email e \<Rightarrow> None),
      o_email = (case contact of Phone p \<Rightarrow> None | Email e \<Rightarrow> Some e), o_codeHash = av_hash env code,
      o_expiresAt = now + av_otp_ttl_seconds env * 1000, o_attempts = 0, o_createdAt = now\<rparr>"

definition request_otp :: "auth_env \<Rightarrow> time \<Rightarrow> nat \<Rightarrow> otp_contact \<Rightarrow> (db, unit) act" where
  "request_otp env now drawn contact =
     bind (case contact of Phone p \<Rightarrow> ret True | Email e \<Rightarrow> otp_allowed_for_email e) (\<lambda>allowed.
     if \<not> allowed then ret () else
     let code = generate_numeric_code (av_otp_length env) drawn in
     bind (delete_many db_otps db_otps_update (otp_for contact)) (\<lambda>_.
     bind (create_row db_otps_update (new_otp env now contact code)) (\<lambda>_.
     case av_deliver env contact code of None \<Rightarrow> ret () | Some e \<Rightarrow> throw e)))"

definition latest_otp :: "otp_contact \<Rightarrow> (db, otp option) act" where
  "latest_otp contact =
     query (\<lambda>s. List.find (\<lambda>_. True) (sort_key (\<lambda>o'. - o_createdAt o') (filter (otp_for contact) (db_otps s))))"

section \<open>Sessions\<close>

definition payload_of :: "user_shape \<Rightarrow> jwt_payload" where
  "payload_of user = \<lparr>jp_sub = us_id user, jp_role = us_role user, jp_phone = us_phone user, jp_email = us_email user\<rparr>"

definition new_refresh_token :: "auth_env \<Rightarrow> uid \<Rightarrow> string \<Rightarrow> uid \<Rightarrow> refresh_token" where
  "new_refresh_token env userId refreshToken i =
     \<lparr>rt_id = i, rt_userId = userId, rt_tokenHash = av_hash env refreshToken,
      rt_expiresAt = av_exp env refreshToken, rt_revoked = False\<rparr>"

definition issue_tokens :: "auth_env \<Rightarrow> time \<Rightarrow> user_shape \<Rightarrow> (db, auth_tokens) act" where
  "issue_tokens env now user =
     (let payload = payload_of user; accessToken = av_sign_access env payload now;
          refreshToken = av_sign_refresh env payload now
      in bind (create_row db_refreshTokens_update (new_refresh_token env (us_id user) refreshToken)) (\<lambda>_.
         ret \<lparr>tk_accessToken = accessToken, tk_refreshToken = refreshToken\<rparr>))"

definition live_session :: "auth_env \<Rightarrow> time \<Rightarrow> uid \<Rightarrow> string \<Rightarrow> refresh_token \<Rightarrow> bool" where
  "live_session env now userId raw r \<longleftrightarrow>
     rt_userId r = userId \<and> \<not> rt_revoked r \<and> now < rt_expiresAt r \<and> av_compare env raw (rt_tokenHash r)"

definition find_matching_refresh_token :: "auth_env \<Rightarrow> time \<Rightarrow> uid \<Rightarrow> string \<Rightarrow> (db, refresh_token option) act" where
  "find_matching_refresh_token env now userId raw = find_first db_refreshTokens (live_session env now userId raw)"

definition revoke :: "uid \<Rightarrow> (db, unit) act" where
  "revoke i =
     bind (update_row db_refreshTokens db_refreshTokens_update (\<lambda>r. rt_id r = i) (\<lambda>r. r\<lparr>rt_revoked := True\<rparr>))
       (\<lambda>_. ret ())"

definition assert_otp_usable :: "time \<Rightarrow> otp option \<Rightarrow> (db, otp) act" where
  "assert_otp_usable now found =
     bind (or_fail (Unauthorized ''Code invalide ou expire'') found) (\<lambda>otp.
     bind (require (\<not> o_expiresAt otp < now) (Unauthorized ''Code invalide ou expire'')) (\<lambda>_.
     bind (require (\<not> max_otp_attempts \<le> o_attempts otp)
       (Unauthorized ''Nombre maximal de tentatives atteint, redemandez un code'')) (\<lambda>_.
     ret otp)))"

definition user_of_contact :: "time \<Rightarrow> otp_contact \<Rightarrow> string option \<Rightarrow> (db, user_shape) act" where
  "user_of_contact now contact fullName =
     bind (case contact of Email e \<Rightarrow> find_user_by_email e | Phone p \<Rightarrow> find_user_by_phone p) (\<lambda>found.
     case found of Some u \<Rightarrow> ret u
     | None \<Rightarrow> create_user now \<lparr>cu_fullName = or_else fullName ''Pelerin'',
         cu_phone = (case contact of Phone p \<Rightarrow> Some p | Email e \<Rightarrow> None),
         cu_email = (case contact of Phone p \<Rightarrow> None | Email e \<Rightarrow> Some e),
         cu_passwordHash = None, cu_role = PILGRIM, cu_agencyId = None\<rparr>)"

definition verify_otp ::
  "auth_env \<Rightarrow> time \<Rightarrow> otp_contact \<Rightarrow> string \<Rightarrow> string option \<Rightarrow> (db, auth_tokens) act" where
  "verify_otp env now contact code fullName =
     bind (latest_otp contact) (\<lambda>found.
     bind (assert_otp_usable now found) (\<lambda>otp.
     if \<not> av_compare env code (o_codeHash otp) then
       bind (update_row db_otps db_otps_update (\<lambda>x. o_id x = o_id otp) (\<lambda>x. x\<lparr>o_attempts := o_attempts x + 1\<rparr>)) (\<lambda>_.
       throw (Unauthorized ''Code invalide ou expire''))
     else
       bind (delete_many db_otps db_otps_update (\<lambda>x. o_id x = o_id otp)) (\<lambda>_.
       bind (user_of_contact now contact fullName) (\<lambda>user.
       bind (require (otp_role (us_role user)) (Unauthorized ''Code invalide ou expire'')) (\<lambda>_.
       bind (require (us_isActive user) (Unauthorized ''Compte suspendu'')) (\<lambda>_.
       issue_tokens env now user))))))"

definition validate_agency_or_admin :: "auth_env \<Rightarrow> time \<Rightarrow> string \<Rightarrow> string \<Rightarrow> (db, auth_tokens) act" where
  "validate_agency_or_admin env now email password =
     bind (find_user_by_email_with_password email) (\<lambda>found.
     bind (or_fail (Unauthorized ''Identifiants invalides'') found) (\<lambda>user.
     bind (require (truthy (u_passwordHash user)) (Unauthorized ''Identifiants invalides'')) (\<lambda>_.
     bind (require (av_compare env password (or_else (u_passwordHash user) [])) (Unauthorized ''Identifiants invalides'')) (\<lambda>_.
     bind (require (u_isActive user) (Unauthorized ''Compte suspendu'')) (\<lambda>_.
     issue_tokens env now (to_user_shape user))))))"

definition refresh :: "auth_env \<Rightarrow> time \<Rightarrow> string \<Rightarrow> (db, auth_tokens) act" where
  "refresh env now raw =
     bind (or_fail (Unauthorized ''Refresh token invalide'') (av_verify env raw now)) (\<lambda>sub.
     bind (find_matching_refresh_token env now sub raw) (\<lambda>found.
     bind (or_fail (Unauthorized ''Refresh token invalide'') found) (\<lambda>stored.
     bind (find_user_by_id_or_fail sub) (\<lambda>user.
     bind (require (us_isActive user) (Unauthorized ''Compte suspendu'')) (\<lambda>_.
     bind (revoke (rt_id stored)) (\<lambda>_.
     issue_tokens env now user))))))"

definition logout :: "auth_env \<Rightarrow> time \<Rightarrow> uid \<Rightarrow> string \<Rightarrow> (db, unit) act" where
  "logout env now userId raw =
     bind (find_matching_refresh_token env now userId raw) (\<lambda>found.
     case found of None \<Rightarrow> ret () | Some stored \<Rightarrow> revoke (rt_id stored))"

section \<open>Reset of a password\<close>

definition reset_role :: "role \<Rightarrow> bool" where
  "reset_role r \<longleftrightarrow> r = AGENCY \<or> r = ADMIN"

definition lien_invalide :: string where
  "lien_invalide = ''Lien invalide ou expire''"

definition new_reset_token :: "auth_env \<Rightarrow> time \<Rightarrow> uid \<Rightarrow> string \<Rightarrow> uid \<Rightarrow> reset_token" where
  "new_reset_token env now userId token i =
     \<lparr>pt_id = i, pt_userId = userId, pt_tokenHash = av_sha256 env token,
      pt_expiresAt = now + av_reset_ttl_minutes env * 60000\<rparr>"

text \<open>A failure to send the link is logged; the answer does not tell whether the account exists.\<close>

definition request_reset :: "auth_env \<Rightarrow> time \<Rightarrow> bool \<Rightarrow> string \<Rightarrow> string \<Rightarrow> (db, unit) act" where
  "request_reset env now mailer_available token email =
     bind (require mailer_available
       (Unavailable ''La reinitialisation du mot de passe n'est pas encore disponible'')) (\<lambda>_.
     bind (find_user_by_email_with_password email) (\<lambda>found.
     case found of None \<Rightarrow> ret () | Some user \<Rightarrow>
       whenever (truthy (u_passwordHash user) \<and> truthy (u_email user) \<and> u_isActive user \<and> reset_role (u_role user))
         (transaction
           (bind (delete_many db_resetTokens db_resetTokens_update (\<lambda>x. pt_userId x = u_id user)) (\<lambda>_.
            bind (create_row db_resetTokens_update (new_reset_token env now (u_id user) token)) (\<lambda>_. ret ()))))))"

definition reset_password :: "auth_env \<Rightarrow> time \<Rightarrow> string \<Rightarrow> string \<Rightarrow> (db, unit) act" where
  "reset_password env now token newPassword =
     bind (find_first db_resetTokens (\<lambda>x. pt_tokenHash x = av_sha256 env token)) (\<lambda>found.
     bind (or_fail (BadRequest lien_invalide) found) (\<lambda>record.
     bind (find_user_row (\<lambda>u. u_id u = pt_userId record)) (\<lambda>owner.
     bind (or_fail (DbError ''P2025'') owner) (\<lambda>user.
     bind (require (\<not> (pt_expiresAt record < now \<or> \<not> u_isActive user)) (BadRequest lien_invalide)) (\<lambda>_.
     transaction
       (bind (update_row db_users db_users_update (\<lambda>u. u_id u = pt_userId record)
          (\<lambda>u. u\<lparr>u_passwordHash := Some (av_hash env newPassword)\<rparr>)) (\<lambda>_.
        bind (delete_many db_resetTokens db_resetTokens_update (\<lambda>x. pt_userId x = pt_userId record)) (\<lambda>_.
        bind (update_many db_refreshTokens_update (\<lambda>r. rt_userId r = pt_userId record \<and> \<not> rt_revoked r)
          (\<lambda>r. r\<lparr>rt_revoked := True\<rparr>)) (\<lambda>_. ret ())))))))))"

section \<open>Lemmas\<close>

lemma assert_otp_usable_run:
  "assert_otp_usable now found s =
     (case found of None \<Rightarrow> (Inl (Unauthorized ''Code invalide ou expire''), s)
      | Some otp \<Rightarrow> if o_expiresAt otp < now then (Inl (Unauthorized ''Code invalide ou expire''), s)
        else if max_otp_attempts \<le> o_attempts otp
        then (Inl (Unauthorized ''Nombre maximal de tentatives atteint, redemandez un code''), s)
        else (Inr otp, s))"
  by (simp add: assert_otp_usable_def split: option.split)

definition codes_of :: "otp_contact \<Rightarrow> db \<Rightarrow> otp list" where
  "codes_of contact s = filter (otp_for contact) (db_otps s)"

lemma latest_otp_run:
  "codes_of contact s = [] \<Longrightarrow> latest_otp contact s = (Inr None, s)"
  "codes_of contact s = [c] \<Longrightarrow> latest_otp contact s = (Inr (Some c), s)"
  by (simp_all add: latest_otp_def codes_of_def)

lemma codes_member: "codes_of contact s = [c] \<Longrightarrow> c \<in> set (db_otps s) \<and> otp_for contact c"
proof -
  assume "codes_of contact s = [c]"
  then have "c \<in> set (filter (otp_for contact) (db_otps s))" by (simp add: codes_of_def)
  then show ?thesis by simp
qed

lemma no_code_refused:
  "codes_of contact s = [] \<Longrightarrow>
     verify_otp env now contact code name s = (Inl (Unauthorized ''Code invalide ou expire''), s)"
  by (simp add: verify_otp_def latest_otp_run assert_otp_usable_run)

lemma dead_code_refused:
  assumes "codes_of contact s = [c]" and "o_expiresAt c < now \<or> max_otp_attempts \<le> o_attempts c"
  shows "\<exists>msg. verify_otp env now contact code name s = (Inl (Unauthorized msg), s)"
  using assms(2)
  by (cases "o_expiresAt c < now") (simp_all add: verify_otp_def latest_otp_run(2) [OF assms(1)] assert_otp_usable_run)

abbreviation one_more :: "uid \<Rightarrow> otp \<Rightarrow> otp" where
  "one_more i x \<equiv> (if o_id x = i then x\<lparr>o_attempts := o_attempts x + 1\<rparr> else x)"

lemma wrong_code_counts:
  assumes c: "codes_of contact s = [c]" and wrong: "\<not> av_compare env code (o_codeHash c)"
    and live: "\<not> o_expiresAt c < now" "o_attempts c < max_otp_attempts"
  shows "codes_of contact (snd (verify_otp env now contact code name s)) = [c\<lparr>o_attempts := o_attempts c + 1\<rparr>]"
proof -
  have cin: "c \<in> set (db_otps s)" "otp_for contact c" using codes_member [OF c] by auto
  have "List.find (\<lambda>x. o_id x = o_id c) (db_otps s) \<noteq> None" using cin by (auto simp: find_None_iff)
  then have "snd (verify_otp env now contact code name s) =
      db_otps_update (map (one_more (o_id c))) s"
    using wrong live
    by (auto simp: verify_otp_def latest_otp_run(2) [OF c] assert_otp_usable_run update_row_def)
  moreover have "filter (otp_for contact) (map (one_more (o_id c)) os) = map (one_more (o_id c)) (filter (otp_for contact) os)" for os
    by (induction os) (auto simp: otp_for_def split: otp_contact.splits)
  ultimately show ?thesis using c by (simp add: codes_of_def)
qed

text \<open>A run of attempts on one contact, each with its time.\<close>

fun attempts :: "auth_env \<Rightarrow> otp_contact \<Rightarrow> (time \<times> string) list \<Rightarrow> db \<Rightarrow> db" where
  "attempts env contact [] s = s"
| "attempts env contact ((t, code) # cs) s = attempts env contact cs (snd (verify_otp env t contact code None s))"

lemma attempts_count:
  assumes "codes_of contact s = [c]" and "\<forall>(t, code) \<in> set cs. t \<le> now \<and> \<not> av_compare env code (o_codeHash c)"
    and "\<not> o_expiresAt c < now"
  shows "\<exists>k. codes_of contact (attempts env contact cs s) = [c\<lparr>o_attempts := k\<rparr>] \<and>
    min max_otp_attempts (o_attempts c + length cs) \<le> k"
  using assms
proof (induction cs arbitrary: s c)
  case Nil
  then show ?case by (intro exI [of _ "o_attempts c"]) simp
next
  case (Cons a cs)
  obtain t code where a: "a = (t, code)" by (cases a)
  let ?s = "snd (verify_otp env t contact code None s)"
  show ?case
  proof (cases "o_attempts c < max_otp_attempts")
    case True
    have c': "codes_of contact ?s = [c\<lparr>o_attempts := o_attempts c + 1\<rparr>]"
      using wrong_code_counts [OF Cons.prems(1), of env code t None] Cons.prems True a by auto
    show ?thesis using Cons.IH [OF c'] Cons.prems a by auto
  next
    case False
    then have "?s = s" using dead_code_refused [OF Cons.prems(1), of t env code None] by auto
    then show ?thesis using Cons.IH [OF Cons.prems(1)] Cons.prems a False by (auto simp: min_def)
  qed
qed

lemma verify_consumes:
  assumes c: "codes_of contact s = [c]" and ok: "verify_otp env now contact code name s = (Inr tok, t)"
  shows "codes_of contact t = []"
proof -
  have none: "codes_of contact (db_otps_update (filter (\<lambda>x. o_id x \<noteq> o_id c)) s) = []"
  proof -
    have "set (filter (otp_for contact) (db_otps s)) = {c}" using c by (simp add: codes_of_def del: set_filter)
    then have "x = c" if "x \<in> set (db_otps s)" "otp_for contact x" for x using that by auto
    then show ?thesis by (auto simp: codes_of_def filter_empty_conv)
  qed
  have user: "keeps (\<lambda>x. codes_of contact x = []) (bind (user_of_contact now contact name) (\<lambda>user.
      bind (require (otp_role (us_role user)) e1) (\<lambda>_. bind (require (us_isActive user) e2) (\<lambda>_.
      issue_tokens env now user))))" for e1 e2
    unfolding user_of_contact_def find_user_by_email_def find_user_by_phone_def create_user_def find_user_row_def
      issue_tokens_def Let_def
    by (intro keeps_intro | (clarsimp split: otp_contact.split; intro conjI allI impI keeps_intro) |
        simp add: codes_of_def)+
  then show ?thesis
    using ok none
    by (auto simp: verify_otp_def latest_otp_run(2) [OF c] assert_otp_usable_run delete_many_def bind_ok
        split: if_splits elim!: keepsD [OF user])
qed

subsection \<open>Refreshing a session\<close>

lemma find_matching_run:
  "find_matching_refresh_token env now i raw s = (Inr (List.find (live_session env now i raw) (db_refreshTokens s)), s)"
  by (simp add: find_matching_refresh_token_def)

lemma revoke_run:
  "r \<in> set (db_refreshTokens s) \<Longrightarrow> revoke (rt_id r) s =
     (Inr (), db_refreshTokens_update (map (\<lambda>x. if rt_id x = rt_id r then x\<lparr>rt_revoked := True\<rparr> else x)) s)"
  by (cases "List.find (\<lambda>x. rt_id x = rt_id r) (db_refreshTokens s)")
    (auto simp: revoke_def update_row_def find_None_iff)

lemma issue_tokens_run:
  "issue_tokens env now user s =
     (Inr \<lparr>tk_accessToken = av_sign_access env (payload_of user) now,
        tk_refreshToken = av_sign_refresh env (payload_of user) now\<rparr>,
      s\<lparr>db_next := Suc (db_next s), db_refreshTokens := db_refreshTokens s @
        [new_refresh_token env (us_id user) (av_sign_refresh env (payload_of user) now) (db_next s)]\<rparr>)"
  by (simp add: issue_tokens_def Let_def create_row_def)

lemma find_user_run:
  "List.find (\<lambda>u. u_id u = i) (db_users s) = Some u \<Longrightarrow> find_user_by_id_or_fail i s = (Inr (to_user_shape u), s)"
  by (simp add: find_user_by_id_or_fail_run)

text \<open>What a refresh does when it has a live session and an active user.\<close>

lemma refresh_run:
  assumes "av_verify env raw now = Some i"
    and "List.find (live_session env now i raw) (db_refreshTokens s) = Some r"
    and "List.find (\<lambda>u. u_id u = i) (db_users s) = Some u" and "u_isActive u"
  shows "refresh env now raw s =
    issue_tokens env now (to_user_shape u)
      (db_refreshTokens_update (map (\<lambda>x. if rt_id x = rt_id r then x\<lparr>rt_revoked := True\<rparr> else x)) s)"
  using assms find_Some_set [OF assms(2)]
  by (simp add: refresh_def find_matching_run find_user_run revoke_run to_user_shape_def)

lemma user_shape_active [simp]: "us_isActive (to_user_shape u) = u_isActive u"
  by (simp add: to_user_shape_def)

lemma refresh_ok:
  assumes "refresh env now raw s = (Inr tok, t)" and "av_verify env raw now = Some i"
  obtains r u where "List.find (live_session env now i raw) (db_refreshTokens s) = Some r"
    and "List.find (\<lambda>u. u_id u = i) (db_users s) = Some u" and "u_isActive u"
proof -
  obtain r where r: "List.find (live_session env now i raw) (db_refreshTokens s) = Some r"
    using assms by (cases "List.find (live_session env now i raw) (db_refreshTokens s)")
      (auto simp: refresh_def find_matching_run)
  then obtain u where "List.find (\<lambda>u. u_id u = i) (db_users s) = Some u" "u_isActive u"
    using assms by (cases "List.find (\<lambda>u. u_id u = i) (db_users s)")
      (auto simp: refresh_def find_matching_run find_user_by_id_or_fail_run bind_ok require_ok simp del: require_run)
  then show thesis using that r by blast
qed

section \<open>Properties\<close>

text \<open>
  C24: guessing a code is bounded and a code serves once: after five wrong codes for a contact,
  whatever their times before now, the right code is refused too without any effect; and after
  a successful verification every further one is refused, until a new code is asked for.
\<close>
theorem otp_five_guesses:
  assumes "codes_of contact s = [c]" and "5 \<le> length guesses"
    and "\<forall>(t, code) \<in> set guesses. t \<le> now \<and> \<not> av_compare env code (o_codeHash c)"
  shows "(\<exists>msg. verify_otp env now contact code name (attempts env contact guesses s) =
      (Inl (Unauthorized msg), attempts env contact guesses s)) \<and>
    (verify_otp env now' contact code' name' s = (Inr tok, t) \<longrightarrow>
      (\<exists>msg. verify_otp env later contact again name'' t = (Inl (Unauthorized msg), t)))"
proof
  show "\<exists>msg. verify_otp env now contact code name (attempts env contact guesses s) =
      (Inl (Unauthorized msg), attempts env contact guesses s)"
  proof (cases "o_expiresAt c < now")
    case False
    then obtain k where "codes_of contact (attempts env contact guesses s) = [c\<lparr>o_attempts := k\<rparr>]" "max_otp_attempts \<le> k"
      using attempts_count [OF assms(1,3)] assms(2) by (auto simp: max_otp_attempts_def)
    then show ?thesis by (intro dead_code_refused) auto
  next
    case True
    have "\<exists>k. codes_of contact (attempts env contact gs s') = [c\<lparr>o_attempts := k\<rparr>]"
      if "codes_of contact s' = [c\<lparr>o_attempts := k'\<rparr>]" "\<forall>(t, code) \<in> set gs. \<not> av_compare env code (o_codeHash c)" for gs s' k'
      using that
    proof (induction gs arbitrary: s' k')
      case (Cons g gs)
      obtain t w where g: "g = (t, w)" by (cases g)
      let ?c = "c\<lparr>o_attempts := k'\<rparr>"
      show ?case
      proof (cases "\<not> o_expiresAt ?c < t \<and> o_attempts ?c < max_otp_attempts")
        case True
        then show ?thesis
          using Cons.IH wrong_code_counts [OF Cons.prems(1), of env w t None] Cons.prems(2) g by auto
      next
        case False
        then have "snd (verify_otp env t contact w None s') = s'"
          using dead_code_refused [OF Cons.prems(1), of t env w None] by auto
        then show ?thesis using Cons g by auto
      qed
    qed auto
    from this [of s "o_attempts c" guesses] obtain k
      where "codes_of contact (attempts env contact guesses s) = [c\<lparr>o_attempts := k\<rparr>]"
      using assms(1,3) by auto
    then show ?thesis using True by (intro dead_code_refused) auto
  qed
  show "verify_otp env now' contact code' name' s = (Inr tok, t) \<longrightarrow>
      (\<exists>msg. verify_otp env later contact again name'' t = (Inl (Unauthorized msg), t))"
    using verify_consumes [OF assms(1)] no_code_refused by blast
qed

text \<open>A contact with one pending code, and an environment in which codes compare exactly.\<close>

definition sample_auth_env :: auth_env where
  "sample_auth_env = \<lparr>av_hash = (\<lambda>x. x), av_compare = (\<lambda>x h. take 72 x = take 72 h), av_sign_access = (\<lambda>p n. ''acces''),
     av_sign_refresh = (\<lambda>p n. replicate 72 (CHR ''e'') @ show_int n), av_verify = (\<lambda>t n. Some 5),
     av_exp = (\<lambda>t. 1000), av_sha256 = (\<lambda>x. x), av_deliver = (\<lambda>c x. None), av_otp_ttl_seconds = 300,
     av_otp_length = 6, av_reset_ttl_minutes = 30\<rparr>"

definition sample_otp_db :: db where
  "sample_otp_db = empty_db\<lparr>db_otps := [\<lparr>o_id = 1, o_phone = Some ''+1'', o_email = None, o_codeHash = ''000042'',
     o_expiresAt = 300000, o_attempts = 0, o_createdAt = 0\<rparr>]\<rparr>"

theorem otp_five_guesses_witness:
  "\<exists>msg. verify_otp sample_auth_env 0 (Phone ''+1'') ''000042'' None
      (attempts sample_auth_env (Phone ''+1'') (replicate 5 (0, ''111111'')) sample_otp_db) =
    (Inl (Unauthorized msg), attempts sample_auth_env (Phone ''+1'') (replicate 5 (0, ''111111'')) sample_otp_db)"
proof -
  have c: "codes_of (Phone ''+1'') sample_otp_db = [hd (db_otps sample_otp_db)]"
    by (simp add: codes_of_def sample_otp_db_def otp_for_def)
  have "\<forall>(t, w) \<in> set (replicate 5 (0 :: time, ''111111'')).
      t \<le> 0 \<and> \<not> av_compare sample_auth_env w (o_codeHash (hd (db_otps sample_otp_db)))"
    by (simp add: sample_otp_db_def sample_auth_env_def)
  then show ?thesis using otp_five_guesses [OF c, of "replicate 5 (0, ''111111'')" 0 sample_auth_env] by simp
qed

text \<open>
  C25: a used refresh token is accepted again.  bcrypt reads the first 72 bytes of its input,
  and two refresh tokens of one user begin with the same 72: the header of the JWT and the
  start of its subject.  So a token that a refresh has just revoked still matches the session
  that replaced it, and refreshes again until it expires.
\<close>
theorem used_refresh_token_accepted:
  assumes bcrypt: "\<And>x y. av_compare env x (av_hash env y) = (take 72 x = take 72 y)"
    and jwt: "\<And>p q m n. jp_sub p = jp_sub q \<Longrightarrow> take 72 (av_sign_refresh env p m) = take 72 (av_sign_refresh env q n)"
    and raw: "raw = av_sign_refresh env p m" "jp_sub p = i"
    and valid: "av_verify env raw now = Some i" "av_verify env raw later = Some i"
    and used: "refresh env now raw s = (Inr tok, t)"
    and unexpired: "later < av_exp env (tk_refreshToken tok)"
  shows "\<exists>again u. refresh env later raw t = (Inr again, u)"
proof -
  obtain r u where r: "List.find (live_session env now i raw) (db_refreshTokens s) = Some r"
    and u: "List.find (\<lambda>u. u_id u = i) (db_users s) = Some u" "u_isActive u"
    using refresh_ok [OF used valid(1)] .
  have ui: "us_id (to_user_shape u) = i" using u(1) by (auto simp: to_user_shape_def dest: find_Some_set)
  let ?new = "av_sign_refresh env (payload_of (to_user_shape u)) now"
  note run = used [unfolded refresh_run [OF valid(1) r u] issue_tokens_run]
  have "tk_refreshToken tok = ?new" "db_users t = db_users s" using run by auto
  moreover have new: "new_refresh_token env i ?new (db_next s) \<in> set (db_refreshTokens t)" using run ui by auto
  moreover have "av_compare env raw (av_hash env ?new)"
    unfolding bcrypt raw(1) by (rule jwt) (simp add: raw(2) payload_of_def ui)
  ultimately have "live_session env later i raw (new_refresh_token env i ?new (db_next s))"
    using unexpired by (simp add: live_session_def new_refresh_token_def)
  then obtain r' where "List.find (live_session env later i raw) (db_refreshTokens t) = Some r'"
    using new by (cases "List.find (live_session env later i raw) (db_refreshTokens t)") (auto simp: find_None_iff)
  then show ?thesis
    using refresh_run [OF valid(2) _ _ u(2), of t r'] u(1) \<open>db_users t = db_users s\<close> issue_tokens_run by auto
qed

definition sample_session_db :: db where
  "sample_session_db = snd (issue_tokens sample_auth_env 0 (to_user_shape sample_pilgrim)
     (empty_db\<lparr>db_users := [sample_pilgrim]\<rparr>))"

theorem used_refresh_token_accepted_witness:
  "\<exists>tok t again u. refresh sample_auth_env 0 (av_sign_refresh sample_auth_env (payload_of (to_user_shape sample_pilgrim)) 0)
      sample_session_db = (Inr tok, t) \<and>
     refresh sample_auth_env 1 (av_sign_refresh sample_auth_env (payload_of (to_user_shape sample_pilgrim)) 0) t = (Inr again, u)"
proof -
  let ?e = sample_auth_env and ?p = "payload_of (to_user_shape sample_pilgrim)"
  have id: "us_id (to_user_shape sample_pilgrim) = 5" "jp_sub ?p = 5" "u_isActive sample_pilgrim" "u_id sample_pilgrim = 5"
    by (simp_all add: payload_of_def to_user_shape_def sample_group_defs)
  have s: "db_users sample_session_db = [sample_pilgrim]"
      "db_refreshTokens sample_session_db = [new_refresh_token ?e 5 (av_sign_refresh ?e ?p 0) 1]"
    by (simp_all add: sample_session_db_def issue_tokens_run empty_db_def id)
  have v: "av_verify ?e raw now = Some 5" "av_exp ?e raw = 1000" for raw now by (simp_all add: sample_auth_env_def)
  have "List.find (live_session ?e 0 5 (av_sign_refresh ?e ?p 0)) (db_refreshTokens sample_session_db) =
      Some (new_refresh_token ?e 5 (av_sign_refresh ?e ?p 0) 1)"
    by (simp add: s live_session_def new_refresh_token_def sample_auth_env_def)
  from refresh_run [OF v(1) this _ id(3)] obtain tok t
    where run: "refresh ?e 0 (av_sign_refresh ?e ?p 0) sample_session_db = (Inr tok, t)"
    using s(1) id(4) by (auto simp: issue_tokens_run)
  have "\<exists>again u. refresh ?e 1 (av_sign_refresh ?e ?p 0) t = (Inr again, u)"
    by (rule used_refresh_token_accepted [OF _ _ refl id(2) v(1) v(1) run]) (simp_all add: sample_auth_env_def)
  then show ?thesis using run by blast
qed

end
