(* ===== verification/Accounts.thy ===== *)
theory Accounts
  imports Auth
begin

text \<open>
  The table of accounts across the operations that write to it: registration of an agency,
  guides added by an agency, first connection by a one-time code, profile, suspension and
  reset of a password.  No code of its own: it states the form the table always has.
\<close>

section \<open>The form of the table\<close>

text \<open>
  Accounts are identified by contact, addresses are stored in lower case, only agencies and
  administrators have a password, and a pending reset belongs to one of them.
\<close>

definition account_ok :: "user \<Rightarrow> bool" where
  "account_ok u \<longleftrightarrow>
     (\<forall>e. u_email u = Some e \<longrightarrow> to_lower_case e = e) \<and> (u_passwordHash u \<noteq> None \<longrightarrow> reset_role (u_role u))"

definition reset_ok :: "db \<Rightarrow> reset_token \<Rightarrow> bool" where
  "reset_ok s x \<longleftrightarrow>
     pt_userId x < db_next s \<and> (\<forall>u \<in> set (db_users s). u_id u = pt_userId x \<longrightarrow> reset_role (u_role u))"

definition accounts_ok :: "db \<Rightarrow> bool" where
  "accounts_ok s \<longleftrightarrow>
     well_keyed u_id db_users s \<and> contacts_unique (db_users s) \<and> list_all account_ok (db_users s) \<and>
     list_all (reset_ok s) (db_resetTokens s)"

section \<open>The operations keep it\<close>

lemma accounts_ok_cong:
  assumes "accounts_ok s" and "db_users t = db_users s" and "db_next s \<le> db_next t"
    and "set (db_resetTokens t) \<subseteq> set (db_resetTokens s)"
  shows "accounts_ok t"
  using assms by (fastforce simp: accounts_ok_def well_keyed_def reset_ok_def list_all_iff)

lemma create_user_accounts:
  assumes "cu_passwordHash dto \<noteq> None \<Longrightarrow> reset_role (cu_role dto)"
  shows "keeps accounts_ok (create_user now dto)"
proof (rule keepsI)
  fix s r t
  assume ok: "accounts_ok s" and run: "create_user now dto s = (r, t)"
  have c: "contacts_unique (db_users t)"
    using create_user_contacts [of now dto] ok run by (auto simp: keeps_def accounts_ok_def)
  show "accounts_ok t"
  proof (cases r)
    case (Inl e)
    then have "t = s" using run by (auto simp: create_user_def find_user_row_def Let_def err_iff find_first_ok split: if_splits)
    then show ?thesis using ok by simp
  next
    case (Inr v)
    then have "\<exists>u. db_users t = db_users s @ [u] \<and> db_next t = Suc (db_next s) \<and> u_id u = db_next s \<and> account_ok u \<and>
        db_resetTokens t = db_resetTokens s"
      using run assms
      by (fastforce simp: create_user_def find_user_row_def Let_def ok_iff account_ok_def find_first_ok split: if_splits)
    then show ?thesis
      using ok c by (fastforce simp: accounts_ok_def well_keyed_def list_all_iff reset_ok_def less_Suc_eq)
  qed
qed

lemma update_user_accounts:
  assumes "\<And>u. u_id (f u) = u_id u" "\<And>u. u_phone (f u) = u_phone u" "\<And>u. u_email (f u) = u_email u"
    and "\<And>u. u_passwordHash (f u) = u_passwordHash u" "\<And>u. u_role (f u) = u_role u"
  shows "keeps accounts_ok (update_user i f)"
proof (rule update_user_keeps)
  fix s
  assume ok: "accounts_ok s"
  let ?t = "db_users_update (map (\<lambda>x. if u_id x = i then f x else x)) s"
  have "map u_id (map (\<lambda>x. if u_id x = i then f x else x) us) = map u_id us" for us
    by (rule map_key_update) (rule assms(1))
  then have "well_keyed u_id db_users ?t"
    using ok assms(1) by (auto simp: accounts_ok_def well_keyed_def list_all_iff simp del: map_map)
  moreover have "contacts_unique (db_users ?t)"
    using ok contacts_unique_map [of "db_users s" f "\<lambda>x. u_id x = i"] assms by (simp add: accounts_ok_def)
  moreover have "list_all account_ok (db_users ?t)" "list_all (reset_ok ?t) (db_resetTokens ?t)"
    using ok assms by (auto simp: accounts_ok_def account_ok_def reset_ok_def list_all_iff)
  ultimately show "accounts_ok ?t" by (simp add: accounts_ok_def)
qed

lemma profile_accounts: "keeps accounts_ok (update_profile now i dto)"
  unfolding update_profile_def
  by (rule update_user_accounts) (simp_all add: apply_profile_def Let_def split: option.split)

lemma active_accounts: "keeps accounts_ok (set_active_for_admin now i b)"
  unfolding set_active_for_admin_def set_active_def
  by (rule keeps_bind) (rule update_user_accounts, simp_all add: keeps_basic)

lemma register_accounts: "keeps accounts_ok (register_agency now h dto)"
  unfolding register_agency_def
  by (intro keeps_intro create_user_accounts keeps_users_read)
    (auto simp: reset_role_def elim!: accounts_ok_cong)

lemma guide_accounts: "keeps accounts_ok (add_guide now ownerId dto)"
  unfolding add_guide_def
  by (intro keeps_intro create_user_accounts keeps_users_read keeps_agencies_read) simp_all

lemma request_otp_accounts: "keeps accounts_ok (request_otp env now drawn contact)"
proof -
  have "keeps accounts_ok (case contact of Phone p \<Rightarrow> ret True | Email e \<Rightarrow> otp_allowed_for_email e)"
    by (cases contact) (auto simp: otp_allowed_for_email_def intro!: keeps_intro keeps_users_read)
  then show ?thesis
    unfolding request_otp_def Let_def
    by (intro keeps_intro) (auto elim!: accounts_ok_cong)
qed

lemma issue_tokens_accounts: "keeps accounts_ok (issue_tokens env now user)"
  unfolding issue_tokens_def Let_def by (intro keeps_intro) (auto elim!: accounts_ok_cong)

lemma verify_otp_accounts: "keeps accounts_ok (verify_otp env now contact code name)"
proof -
  have "keeps accounts_ok (user_of_contact now contact name)"
    unfolding user_of_contact_def
    by (intro keeps_bind keeps_option create_user_accounts keeps_basic)
      (cases contact; simp_all add: keeps_users_read)+
  moreover have "keeps accounts_ok (latest_otp contact)" "keeps accounts_ok (assert_otp_usable now found)" for found
    unfolding latest_otp_def assert_otp_usable_def by (intro keeps_intro)+
  ultimately show ?thesis
    unfolding verify_otp_def
    by (intro keeps_intro issue_tokens_accounts) (auto elim!: accounts_ok_cong)
qed

lemma request_reset_accounts: "keeps accounts_ok (request_reset env now available token email)"
proof (rule keepsI)
  fix s r t
  assume ok: "accounts_ok s" and run: "request_reset env now available token email s = (r, t)"
  show "accounts_ok t"
  proof (cases "t = s")
    case False
    then obtain u where u: "List.find (\<lambda>u. u_email u = Some (to_lower_case email)) (db_users s) = Some u" "reset_role (u_role u)"
      and t: "t = db_resetTokens_update (\<lambda>rs. rs @ [new_reset_token env now (u_id u) token (db_next s)])
        (db_resetTokens_update (filter (\<lambda>x. pt_userId x \<noteq> u_id u)) s\<lparr>db_next := Suc (db_next s)\<rparr>)"
      using run
      by (auto simp: request_reset_def find_user_by_email_with_password_def find_user_row_def bind_require whenever_def
          transaction_def delete_many_def create_row_def Let_def split: if_splits option.splits)
    have "u \<in> set (db_users s)" using u(1) by (auto dest: find_Some_set)
    then have "reset_ok t (new_reset_token env now (u_id u) token (db_next s))"
      using ok u(2) by (auto simp: t reset_ok_def new_reset_token_def accounts_ok_def well_keyed_def list_all_iff
          less_Suc_eq dest: distinct_key_unique)
    then show ?thesis
      using ok by (auto simp: t accounts_ok_def well_keyed_def reset_ok_def list_all_iff less_Suc_eq)
  qed (simp add: ok)
qed

lemma reset_password_accounts: "keeps accounts_ok (reset_password env now token newPassword)"
proof (rule keepsI)
  fix s r t
  assume ok: "accounts_ok s" and run: "reset_password env now token newPassword s = (r, t)"
  show "accounts_ok t"
  proof (cases "t = s")
    case False
    then obtain x u where x: "List.find (\<lambda>x. pt_tokenHash x = av_sha256 env token) (db_resetTokens s) = Some x"
      and u: "List.find (\<lambda>u. u_id u = pt_userId x) (db_users s) = Some u"
      using run by (cases "List.find (\<lambda>x. pt_tokenHash x = av_sha256 env token) (db_resetTokens s)")
        (auto simp: reset_password_def find_user_row_def or_fail_def bind_def split: option.splits)
    then have t: "db_users t = map (\<lambda>u. if u_id u = pt_userId x then u\<lparr>u_passwordHash := Some (av_hash env newPassword)\<rparr> else u) (db_users s)"
        "db_next t = db_next s" "set (db_resetTokens t) \<subseteq> set (db_resetTokens s)"
      using run False
      by (auto simp: reset_password_def find_user_row_def bind_require transaction_def delete_many_def update_row_def
          update_many_def split: if_splits)
    have x: "x \<in> set (db_resetTokens s)" using x by (auto dest: find_Some_set)
    have "reset_ok s x" using ok x by (simp add: accounts_ok_def list_all_iff)
    then have roles: "\<forall>u \<in> set (db_users s). u_id u = pt_userId x \<longrightarrow> reset_role (u_role u)" by (simp add: reset_ok_def)
    have "map u_id (db_users t) = map u_id (db_users s)" unfolding t(1) by (rule map_key_update) simp
    then have "well_keyed u_id db_users t"
      using ok by (simp add: accounts_ok_def well_keyed_def t(2) list_all_iff) (metis (mono_tags) image_iff list.set_map)
    moreover have "contacts_unique (db_users t)"
      unfolding t(1) using ok by (intro contacts_unique_map) (simp_all add: accounts_ok_def)
    moreover have "list_all account_ok (db_users t)"
      using ok roles by (auto simp: t(1) accounts_ok_def account_ok_def list_all_iff)
    moreover have "list_all (reset_ok t) (db_resetTokens t)"
      using ok t(3) by (auto simp: t(1,2) accounts_ok_def reset_ok_def list_all_iff)
    ultimately show ?thesis by (simp add: accounts_ok_def)
  qed (simp add: ok)
qed

lemma session_accounts:
  "keeps accounts_ok (refresh env now raw)" "keeps accounts_ok (logout env now userId raw)"
  "keeps accounts_ok (validate_agency_or_admin env now email password)"
proof -
  have r: "keeps accounts_ok (revoke i)" for i
    unfolding revoke_def by (intro keeps_intro) (auto elim!: accounts_ok_cong)
  have f: "keeps accounts_ok (find_matching_refresh_token env now userId raw)" for userId
    unfolding find_matching_refresh_token_def by (rule keeps_intro)
  show "keeps accounts_ok (refresh env now raw)"
    unfolding refresh_def by (intro keeps_intro keeps_users_read r f issue_tokens_accounts)
  show "keeps accounts_ok (logout env now userId raw)"
    unfolding logout_def by (intro keeps_intro r f)
  show "keeps accounts_ok (validate_agency_or_admin env now email password)"
    unfolding validate_agency_or_admin_def by (intro keeps_intro keeps_users_read issue_tokens_accounts)
qed

datatype account_call =
    AccRegister time string register_agency_dto
  | AccGuide time uid create_guide_dto
  | AccProfile time uid update_profile_dto
  | AccActive time uid bool
  | AccRequestOtp time nat otp_contact
  | AccVerifyOtp time otp_contact string "string option"
  | AccLogin time string string
  | AccRefresh time string
  | AccLogout time uid string
  | AccRequestReset time bool string string
  | AccReset time string string

fun account_step :: "auth_env \<Rightarrow> account_call \<Rightarrow> db \<Rightarrow> db" where
  "account_step env (AccRegister now h dto) s = snd (register_agency now h dto s)"
| "account_step env (AccGuide now ownerId dto) s = snd (add_guide now ownerId dto s)"
| "account_step env (AccProfile now i dto) s = snd (update_profile now i dto s)"
| "account_step env (AccActive now i b) s = snd (set_active_for_admin now i b s)"
| "account_step env (AccRequestOtp now drawn contact) s = snd (request_otp env now drawn contact s)"
| "account_step env (AccVerifyOtp now contact code name) s = snd (verify_otp env now contact code name s)"
| "account_step env (AccLogin now email password) s = snd (validate_agency_or_admin env now email password s)"
| "account_step env (AccRefresh now raw) s = snd (refresh env now raw s)"
| "account_step env (AccLogout now userId raw) s = snd (logout env now userId raw s)"
| "account_step env (AccRequestReset now available token email) s = snd (request_reset env now available token email s)"
| "account_step env (AccReset now token newPassword) s = snd (reset_password env now token newPassword s)"

lemmas account_calls_keep =
  register_accounts guide_accounts profile_accounts active_accounts request_otp_accounts verify_otp_accounts
  session_accounts request_reset_accounts reset_password_accounts

interpretation comptes: machine "account_step env" "\<lambda>_ _. True" accounts_ok
proof unfold_locales
  fix c s
  assume "accounts_ok s"
  then show "accounts_ok (account_step env c s)"
    using account_calls_keep by (cases c) (simp_all add: keeps_def)
qed

lemma login_role:
  assumes "accounts_ok s" and "validate_agency_or_admin env now email password s = (Inr tok, t)"
  shows "\<exists>u \<in> set (db_users s). u_email u = Some (to_lower_case email) \<and> u_role u \<in> {AGENCY, ADMIN} \<and> u_isActive u"
  using assms
  by (auto simp: validate_agency_or_admin_def find_user_by_email_with_password_def find_user_row_def ok_iff
      bind_require truthy_def accounts_ok_def account_ok_def list_all_iff reset_role_def find_first_ok
      split: if_splits option.splits dest!: find_Some_set)

text \<open>
  C23: the table of accounts keeps its form through every sequence of operations: identifiers
  are distinct, no two accounts share a phone or an address, addresses are in lower case, and
  only agencies and administrators have a password or a pending reset.  So a password opens a
  session only for an active agency or administrator.
\<close>
theorem accounts_keep_their_form:
  assumes "accounts_ok s" and "s' = fold (account_step env) calls s"
  shows "accounts_ok s' \<and>
    (\<forall>now email password tok t. validate_agency_or_admin env now email password s' = (Inr tok, t) \<longrightarrow>
       (\<exists>u \<in> set (db_users s'). u_email u = Some (to_lower_case email) \<and> u_role u \<in> {AGENCY, ADMIN} \<and> u_isActive u))"
proof -
  have "accounts_ok s'" unfolding assms(2) by (rule comptes.run_inv [OF all_allowed assms(1)])
  then show ?thesis using login_role by blast
qed

theorem accounts_keep_their_form_witness:
  "accounts_ok (fold (account_step sample_auth_env)
     [AccRegister 0 ''h'' \<lparr>ra_legalName = ''Agence'', ra_contactEmail = ''A@b.c'', ra_contactPhone = ''+1'', ra_address = None\<rparr>,
      AccVerifyOtp 0 (Phone ''+1'') ''000042'' None] sample_otp_db)"
proof -
  have "accounts_ok sample_otp_db"
    by (simp add: accounts_ok_def sample_otp_db_def empty_db_def well_keyed_def contacts_unique_def)
  from accounts_keep_their_form [OF this refl] show ?thesis by blast
qed

end
