(* ===== verification/Learning.thy ===== *)
theory Learning
  imports Bookings
begin

text \<open>
  \<open>src/src/modules/rites\<close>, \<open>micro-courses\<close> and \<open>quiz\<close>: the religious sheets and their
  review, the progress of a pilgrim synchronised from the mobile application, the short
  courses and the quizzes.
\<close>

section \<open>Rite sheets\<close>

record sheet_dto =
  hd_key :: string
  hd_title :: string
  hd_pilgrimageType :: rite_pilgrimage_type
  hd_order :: int
  hd_content :: string
  hd_audioRef :: "string option"
  hd_language :: "string option"

definition new_sheet :: "sheet_dto \<Rightarrow> uid \<Rightarrow> rite_sheet" where
  "new_sheet dto i =
     \<lparr>ri_id = i, ri_key = hd_key dto, ri_title = hd_title dto, ri_pilgrimageType = hd_pilgrimageType dto,
      ri_order = hd_order dto, ri_content = hd_content dto, ri_audioRef = hd_audioRef dto,
      ri_language = or_else (hd_language dto) ''fr'', ri_version = 1, ri_isValidated = False,
      ri_validatedById = None, ri_validatedAt = None\<rparr>"

definition create_sheet :: "sheet_dto \<Rightarrow> (db, rite_sheet) act" where
  "create_sheet dto = create_row db_riteSheets_update (new_sheet dto)"

record update_sheet_dto =
  he_key :: "string option"
  he_title :: "string option"
  he_pilgrimageType :: "rite_pilgrimage_type option"
  he_order :: "int option"
  he_content :: "string option"
  he_audioRef :: "string option"
  he_language :: "string option"

definition apply_sheet_update :: "update_sheet_dto \<Rightarrow> rite_sheet \<Rightarrow> rite_sheet" where
  "apply_sheet_update dto r =
     r\<lparr>ri_key := or_else (he_key dto) (ri_key r), ri_title := or_else (he_title dto) (ri_title r),
       ri_pilgrimageType := or_else (he_pilgrimageType dto) (ri_pilgrimageType r),
       ri_order := or_else (he_order dto) (ri_order r), ri_content := or_else (he_content dto) (ri_content r),
       ri_audioRef := or_keep (he_audioRef dto) (ri_audioRef r), ri_language := or_else (he_language dto) (ri_language r),
       ri_isValidated := False, ri_validatedById := None, ri_validatedAt := None, ri_version := ri_version r + 1\<rparr>"

definition update_sheet_row :: "uid \<Rightarrow> (rite_sheet \<Rightarrow> rite_sheet) \<Rightarrow> (db, rite_sheet) act" where
  "update_sheet_row i f =
     catch (update_row db_riteSheets db_riteSheets_update (\<lambda>r. ri_id r = i) f)
       (\<lambda>_. throw (NotFound ''Fiche de rite introuvable''))"

definition update_sheet :: "uid \<Rightarrow> update_sheet_dto \<Rightarrow> (db, rite_sheet) act" where
  "update_sheet i dto = update_sheet_row i (apply_sheet_update dto)"

definition validate_sheet :: "time \<Rightarrow> uid \<Rightarrow> uid \<Rightarrow> (db, rite_sheet) act" where
  "validate_sheet now i reviewerId =
     update_sheet_row i (\<lambda>r. r\<lparr>ri_isValidated := True, ri_validatedById := Some reviewerId, ri_validatedAt := Some now\<rparr>)"

definition find_sheet_or_fail :: "uid \<Rightarrow> (db, rite_sheet) act" where
  "find_sheet_or_fail i =
     bind (find_first db_riteSheets (\<lambda>r. ri_id r = i)) (or_fail (NotFound ''Fiche de rite introuvable''))"

definition sheet_for :: "rite_pilgrimage_type option \<Rightarrow> string option \<Rightarrow> rite_sheet \<Rightarrow> bool" where
  "sheet_for type language r \<longleftrightarrow>
     ri_isValidated r \<and>
     (case type of None \<Rightarrow> True | Some t \<Rightarrow> ri_pilgrimageType r = t \<or> ri_pilgrimageType r = RT_BOTH) \<and>
     (\<not> truthy language \<or> Some (ri_language r) = language)"

definition list_published :: "rite_pilgrimage_type option \<Rightarrow> string option \<Rightarrow> (db, rite_sheet list) act" where
  "list_published type language =
     query (\<lambda>s. sort_key ri_order (filter (sheet_for type language) (db_riteSheets s)))"

definition list_all_sheets :: "(db, rite_sheet list) act" where
  "list_all_sheets = query (\<lambda>s. sort_key ri_order (db_riteSheets s))"

section \<open>Progress in the rites\<close>

record rite_item =
  im_riteKey :: string
  im_completed :: "bool option"
  im_tawafCount :: "int option"
  im_saiCount :: "int option"
  im_clientUpdatedAt :: time

definition rite_of :: "uid \<Rightarrow> string \<Rightarrow> rite_progress \<Rightarrow> bool" where
  "rite_of pilgrimId riteKey p \<longleftrightarrow> rgp_pilgrimId p = pilgrimId \<and> rgp_riteKey p = riteKey"

definition apply_rite :: "rite_item \<Rightarrow> rite_progress \<Rightarrow> rite_progress" where
  "apply_rite item p =
     p\<lparr>rgp_completed := or_else (im_completed item) (rgp_completed p),
       rgp_tawafCount := or_else (im_tawafCount item) (rgp_tawafCount p),
       rgp_saiCount := or_else (im_saiCount item) (rgp_saiCount p), rgp_clientUpdatedAt := im_clientUpdatedAt item\<rparr>"

definition new_rite :: "uid \<Rightarrow> rite_item \<Rightarrow> uid \<Rightarrow> rite_progress" where
  "new_rite pilgrimId item i =
     \<lparr>rgp_id = i, rgp_pilgrimId = pilgrimId, rgp_riteKey = im_riteKey item,
      rgp_completed = or_else (im_completed item) False, rgp_tawafCount = or_else (im_tawafCount item) 0,
      rgp_saiCount = or_else (im_saiCount item) 0, rgp_clientUpdatedAt = im_clientUpdatedAt item\<rparr>"

definition upsert_rite :: "uid \<Rightarrow> string \<Rightarrow> (rite_progress \<Rightarrow> rite_progress) \<Rightarrow> (uid \<Rightarrow> rite_progress) \<Rightarrow> (db, rite_progress) act" where
  "upsert_rite pilgrimId riteKey change mk =
     bind (find_first db_riteProgress (rite_of pilgrimId riteKey)) (\<lambda>existing.
     if existing = None then create_row db_riteProgress_update mk
     else update_row db_riteProgress db_riteProgress_update (rite_of pilgrimId riteKey) change)"

definition sync_rite_item :: "uid \<Rightarrow> rite_item \<Rightarrow> (db, rite_progress) act" where
  "sync_rite_item pilgrimId item =
     bind (find_first db_riteProgress (rite_of pilgrimId (im_riteKey item))) (\<lambda>existing.
     case existing of
       Some e \<Rightarrow> if im_clientUpdatedAt item \<le> rgp_clientUpdatedAt e then ret e
         else upsert_rite pilgrimId (im_riteKey item) (apply_rite item) (new_rite pilgrimId item)
     | None \<Rightarrow> upsert_rite pilgrimId (im_riteKey item) (apply_rite item) (new_rite pilgrimId item))"

definition sync_rites :: "uid \<Rightarrow> rite_item list \<Rightarrow> (db, rite_progress list) act" where
  "sync_rites pilgrimId items = map_act (sync_rite_item pilgrimId) items"

definition find_my_rites :: "uid \<Rightarrow> (db, rite_progress list) act" where
  "find_my_rites pilgrimId = find_many db_riteProgress (\<lambda>p. rgp_pilgrimId p = pilgrimId)"

definition reset_counter :: "time \<Rightarrow> uid \<Rightarrow> string \<Rightarrow> (db, rite_progress) act" where
  "reset_counter now pilgrimId riteKey =
     upsert_rite pilgrimId riteKey
       (\<lambda>p. p\<lparr>rgp_tawafCount := 0, rgp_saiCount := 0, rgp_clientUpdatedAt := now\<rparr>)
       (\<lambda>i. \<lparr>rgp_id = i, rgp_pilgrimId = pilgrimId, rgp_riteKey = riteKey, rgp_completed = False,
          rgp_tawafCount = 0, rgp_saiCount = 0, rgp_clientUpdatedAt = now\<rparr>)"

section \<open>Short courses\<close>

record course_dto =
  cd_title :: string
  cd_description :: "string option"
  cd_videoUrl :: string
  cd_durationSeconds :: "int option"
  cd_order :: "int option"
  cd_courseCategory :: "string option"

definition new_course :: "time \<Rightarrow> course_dto \<Rightarrow> uid \<Rightarrow> micro_course" where
  "new_course now dto i =
     \<lparr>mc_id = i, mc_title = cd_title dto, mc_description = cd_description dto, mc_videoUrl = cd_videoUrl dto,
      mc_durationSeconds = or_else (cd_durationSeconds dto) 0, mc_order = or_else (cd_order dto) 0,
      mc_category = or_else (cd_courseCategory dto) ''preparation'', mc_createdAt = now\<rparr>"

definition list_courses :: "string option \<Rightarrow> (db, micro_course list) act" where
  "list_courses category =
     query (\<lambda>s. sort_key mc_order (sort_key mc_createdAt
       (filter (\<lambda>c. \<not> truthy category \<or> Some (mc_category c) = category) (db_microCourses s))))"

definition find_course :: "uid \<Rightarrow> (db, micro_course) act" where
  "find_course i =
     bind (find_first db_microCourses (\<lambda>c. mc_id c = i)) (or_fail (NotFound ''Micro-cours introuvable''))"

definition create_course :: "time \<Rightarrow> course_dto \<Rightarrow> (db, micro_course) act" where
  "create_course now dto = create_row db_microCourses_update (new_course now dto)"

record update_course_dto =
  ce_title :: "string option"
  ce_description :: "string option"
  ce_videoUrl :: "string option"
  ce_durationSeconds :: "int option"
  ce_order :: "int option"
  ce_category :: "string option"

definition apply_course_update :: "update_course_dto \<Rightarrow> micro_course \<Rightarrow> micro_course" where
  "apply_course_update dto c =
     c\<lparr>mc_title := or_else (ce_title dto) (mc_title c), mc_description := or_keep (ce_description dto) (mc_description c),
       mc_videoUrl := or_else (ce_videoUrl dto) (mc_videoUrl c),
       mc_durationSeconds := or_else (ce_durationSeconds dto) (mc_durationSeconds c),
       mc_order := or_else (ce_order dto) (mc_order c), mc_category := or_else (ce_category dto) (mc_category c)\<rparr>"

definition update_course :: "uid \<Rightarrow> update_course_dto \<Rightarrow> (db, micro_course) act" where
  "update_course i dto =
     bind (find_course i) (\<lambda>_.
     update_row db_microCourses db_microCourses_update (\<lambda>c. mc_id c = i) (apply_course_update dto))"

text \<open>The progress rows of a deleted course go with it (\<open>onDelete: Cascade\<close>).\<close>

definition delete_course :: "uid \<Rightarrow> (db, unit) act" where
  "delete_course i =
     bind (find_course i) (\<lambda>_.
     bind (delete_many db_microCourses db_microCourses_update (\<lambda>c. mc_id c = i)) (\<lambda>_.
     bind (delete_many db_courseProgress db_courseProgress_update (\<lambda>p. mcp_courseId p = i)) (\<lambda>_. ret ())))"

definition find_my_course_progress :: "uid \<Rightarrow> (db, micro_course_progress list) act" where
  "find_my_course_progress pilgrimId = find_many db_courseProgress (\<lambda>p. mcp_pilgrimId p = pilgrimId)"

record course_item =
  ie_courseId :: uid
  ie_isCompleted :: "bool option"
  ie_clientUpdatedAt :: time

definition course_of :: "uid \<Rightarrow> uid \<Rightarrow> micro_course_progress \<Rightarrow> bool" where
  "course_of pilgrimId courseId p \<longleftrightarrow> mcp_pilgrimId p = pilgrimId \<and> mcp_courseId p = courseId"

definition apply_course_item :: "course_item \<Rightarrow> micro_course_progress \<Rightarrow> micro_course_progress" where
  "apply_course_item item p =
     p\<lparr>mcp_isCompleted := or_else (ie_isCompleted item) (mcp_isCompleted p), mcp_clientUpdatedAt := ie_clientUpdatedAt item\<rparr>"

definition new_course_progress :: "uid \<Rightarrow> course_item \<Rightarrow> uid \<Rightarrow> micro_course_progress" where
  "new_course_progress pilgrimId item i =
     \<lparr>mcp_id = i, mcp_pilgrimId = pilgrimId, mcp_courseId = ie_courseId item,
      mcp_isCompleted = or_else (ie_isCompleted item) False, mcp_clientUpdatedAt = ie_clientUpdatedAt item\<rparr>"

text \<open>The course of an item comes from the client: an unknown one is refused by the foreign key.\<close>

definition upsert_course_progress :: "uid \<Rightarrow> course_item \<Rightarrow> (db, micro_course_progress) act" where
  "upsert_course_progress pilgrimId item =
     bind (find_first db_courseProgress (course_of pilgrimId (ie_courseId item))) (\<lambda>existing.
     if existing = None then
       bind (find_first db_microCourses (\<lambda>c. mc_id c = ie_courseId item)) (\<lambda>course.
       bind (require (course \<noteq> None) (DbError ''P2003'')) (\<lambda>_.
       create_row db_courseProgress_update (new_course_progress pilgrimId item)))
     else update_row db_courseProgress db_courseProgress_update (course_of pilgrimId (ie_courseId item)) (apply_course_item item))"

definition sync_course_item :: "uid \<Rightarrow> course_item \<Rightarrow> (db, micro_course_progress) act" where
  "sync_course_item pilgrimId item =
     bind (find_first db_courseProgress (course_of pilgrimId (ie_courseId item))) (\<lambda>existing.
     case existing of
       Some e \<Rightarrow> if ie_clientUpdatedAt item \<le> mcp_clientUpdatedAt e then ret e else upsert_course_progress pilgrimId item
     | None \<Rightarrow> upsert_course_progress pilgrimId item)"

definition sync_courses :: "uid \<Rightarrow> course_item list \<Rightarrow> (db, micro_course_progress list) act" where
  "sync_courses pilgrimId items = map_act (sync_course_item pilgrimId) items"

section \<open>Quizzes\<close>

record question_shape =
  qs_id :: uid
  qs_riteSheetId :: uid
  qs_question :: string
  qs_options :: "string list"

record admin_question_shape = question_shape +
  qs_correctOption :: int
  qs_explanation :: "string option"
  qs_isValidated :: bool
  qs_validatedById :: "uid option"
  qs_validatedAt :: "time option"

fun to_options :: "json \<Rightarrow> string list" where
  "to_options (JArray os) = List.map_filter (\<lambda>o'. case o' of JString t \<Rightarrow> Some t | _ \<Rightarrow> None) os"
| "to_options _ = []"

definition to_question_shape :: "quiz_question \<Rightarrow> question_shape" where
  "to_question_shape q =
     \<lparr>qs_id = qq_id q, qs_riteSheetId = qq_riteSheetId q, qs_question = qq_question q, qs_options = to_options (qq_options q)\<rparr>"

definition to_admin_question_shape :: "quiz_question \<Rightarrow> admin_question_shape" where
  "to_admin_question_shape q =
     \<lparr>qs_id = qq_id q, qs_riteSheetId = qq_riteSheetId q, qs_question = qq_question q, qs_options = to_options (qq_options q),
      qs_correctOption = qq_correctOption q, qs_explanation = qq_explanation q, qs_isValidated = qq_isValidated q,
      qs_validatedById = qq_validatedById q, qs_validatedAt = qq_validatedAt q\<rparr>"

record question_dto =
  qd_riteSheetId :: uid
  qd_question :: string
  qd_options :: "string list"
  qd_correctOption :: int
  qd_explanation :: "string option"

definition new_question :: "time \<Rightarrow> question_dto \<Rightarrow> uid \<Rightarrow> quiz_question" where
  "new_question now dto i =
     \<lparr>qq_id = i, qq_riteSheetId = qd_riteSheetId dto, qq_question = qd_question dto,
      qq_options = JArray (map JString (qd_options dto)), qq_correctOption = qd_correctOption dto,
      qq_explanation = qd_explanation dto, qq_isValidated = False, qq_validatedById = None, qq_validatedAt = None,
      qq_createdAt = now\<rparr>"

definition create_question :: "time \<Rightarrow> question_dto \<Rightarrow> (db, admin_question_shape) act" where
  "create_question now dto =
     bind (require (\<not> int (length (qd_options dto)) \<le> qd_correctOption dto) (BadRequest ''correctOption is out of range'')) (\<lambda>_.
     bind (find_first db_riteSheets (\<lambda>r. ri_id r = qd_riteSheetId dto)) (\<lambda>sheet.
     bind (require (sheet \<noteq> None) (NotFound ''Rite sheet not found'')) (\<lambda>_.
     bind (create_row db_quizQuestions_update (new_question now dto)) (\<lambda>q. ret (to_admin_question_shape q)))))"

definition find_question :: "uid \<Rightarrow> (db, quiz_question) act" where
  "find_question i =
     bind (find_first db_quizQuestions (\<lambda>q. qq_id q = i)) (or_fail (NotFound ''Question not found''))"

definition validate_question :: "time \<Rightarrow> uid \<Rightarrow> uid \<Rightarrow> (db, admin_question_shape) act" where
  "validate_question now i adminId =
     bind (find_question i) (\<lambda>_.
     bind (update_row db_quizQuestions db_quizQuestions_update (\<lambda>q. qq_id q = i)
       (\<lambda>q. q\<lparr>qq_isValidated := True, qq_validatedById := Some adminId, qq_validatedAt := Some now\<rparr>)) (\<lambda>q.
     ret (to_admin_question_shape q)))"

definition list_pending :: "(db, admin_question_shape list) act" where
  "list_pending =
     query (\<lambda>s. map to_admin_question_shape (sort_key qq_createdAt (filter (\<lambda>q. \<not> qq_isValidated q) (db_quizQuestions s))))"

definition reject_question :: "uid \<Rightarrow> (db, unit) act" where
  "reject_question i =
     bind (find_question i) (\<lambda>q.
     bind (require (\<not> qq_isValidated q) (Conflict ''Une question publiee ne peut etre refusee'')) (\<lambda>_.
     bind (delete_many db_quizQuestions db_quizQuestions_update (\<lambda>x. qq_id x = i)) (\<lambda>_. ret ())))"

definition get_questions_for_rite :: "uid \<Rightarrow> (db, question_shape list) act" where
  "get_questions_for_rite riteSheetId =
     query (\<lambda>s. map to_question_shape (sort_key qq_createdAt
       (filter (\<lambda>q. qq_riteSheetId q = riteSheetId \<and> qq_isValidated q) (db_quizQuestions s))))"

record attempt_result =
  ar_attempt :: quiz_attempt
  ar_correctOption :: int
  ar_explanation :: "string option"

definition new_attempt :: "time \<Rightarrow> uid \<Rightarrow> uid \<Rightarrow> int \<Rightarrow> bool \<Rightarrow> uid \<Rightarrow> quiz_attempt" where
  "new_attempt now pilgrimId questionId selectedOption isCorrect i =
     \<lparr>qa_id = i, qa_pilgrimId = pilgrimId, qa_questionId = questionId, qa_selectedOption = selectedOption,
      qa_isCorrect = isCorrect, qa_createdAt = now\<rparr>"

definition submit_attempt :: "time \<Rightarrow> uid \<Rightarrow> uid \<Rightarrow> int \<Rightarrow> (db, attempt_result) act" where
  "submit_attempt now questionId pilgrimId selectedOption =
     bind (find_question questionId) (\<lambda>q.
     bind (require (qq_isValidated q) (Forbidden ''Question is not validated yet'')) (\<lambda>_.
     bind (create_row db_quizAttempts_update
       (new_attempt now pilgrimId questionId selectedOption (selectedOption = qq_correctOption q))) (\<lambda>attempt.
     ret \<lparr>ar_attempt = attempt, ar_correctOption = qq_correctOption q, ar_explanation = qq_explanation q\<rparr>)))"

record quiz_stats =
  qt_totalAttempts :: nat
  qt_correctAttempts :: nat
  qt_scorePercentage :: rat
  qt_attempts :: "quiz_attempt list"

definition get_my_stats :: "uid \<Rightarrow> (db, quiz_stats) act" where
  "get_my_stats pilgrimId =
     bind (find_many db_quizAttempts (\<lambda>a. qa_pilgrimId a = pilgrimId)) (\<lambda>attempts.
     let total' = length attempts; correct = length (filter qa_isCorrect attempts)
     in ret \<lparr>qt_totalAttempts = total', qt_correctAttempts = correct,
          qt_scorePercentage = (if 0 < total' then of_nat correct / of_nat total' * 100 else 0),
          qt_attempts = attempts\<rparr>)"

section \<open>Lemmas\<close>

lemma reads_learning [reads_intro]:
  "reads_only (find_sheet_or_fail i)" "reads_only (list_published ty lang)" "reads_only list_all_sheets"
  "reads_only (find_my_rites i)" "reads_only (list_courses c)" "reads_only (find_course i)"
  "reads_only (find_my_course_progress i)" "reads_only (find_question i)" "reads_only list_pending"
  "reads_only (get_questions_for_rite i)" "reads_only (get_my_stats i)"
  unfolding find_sheet_or_fail_def list_published_def list_all_sheets_def find_my_rites_def list_courses_def
    find_course_def find_my_course_progress_def find_question_def list_pending_def get_questions_for_rite_def
    get_my_stats_def Let_def
  by (intro reads_intro)+

subsection \<open>The contract of an offline synchronisation\<close>

text \<open>
  What the mobile application relies on: an item no newer than the stored row is ignored, a
  newer one sets the time of the row, and the rows of other keys stay.  Then a batch leaves
  in each row the newest of its times, and what was sent once can be sent again.
\<close>

definition newest :: "time option \<Rightarrow> time \<Rightarrow> time option" where
  "newest old x = (case old of None \<Rightarrow> Some x | Some m \<Rightarrow> Some (max m x))"

locale offline_sync =
  fixes sync :: "'i \<Rightarrow> (db, 'r) act" and stored :: "'k \<Rightarrow> db \<Rightarrow> time option"
    and key :: "'i \<Rightarrow> 'k" and stamp :: "'i \<Rightarrow> time"
  assumes stale: "stored (key i) s = Some m \<Longrightarrow> stamp i \<le> m \<Longrightarrow> \<exists>r. sync i s = (Inr r, s)"
    and fresh: "sync i s = (Inr r, t) \<Longrightarrow> (\<And>m. stored (key i) s = Some m \<Longrightarrow> m < stamp i) \<Longrightarrow>
      stored (key i) t = Some (stamp i)"
    and other: "sync i s = (Inr r, t) \<Longrightarrow> k \<noteq> key i \<Longrightarrow> stored k t = stored k s"
begin

lemma sync_newest: "sync i s = (Inr r, t) \<Longrightarrow> stored (key i) t = newest (stored (key i) s) (stamp i)"
proof (cases "stored (key i) s")
  case None
  assume "sync i s = (Inr r, t)"
  then have "stored (key i) t = Some (stamp i)" by (rule fresh) (simp add: None)
  then show ?thesis using None by (simp add: newest_def)
next
  case (Some m)
  assume run: "sync i s = (Inr r, t)"
  show ?thesis
  proof (cases "stamp i \<le> m")
    case True
    then show ?thesis using stale [OF Some] run Some by (auto simp: newest_def)
  next
    case False
    then show ?thesis using fresh [OF run] Some by (simp add: newest_def max_def)
  qed
qed

lemma batch_newest:
  "map_act sync is s = (Inr rs, t) \<Longrightarrow>
     stored k t = fold (\<lambda>i old. if key i = k then newest old (stamp i) else old) is (stored k s)"
proof (induction "is" arbitrary: s rs)
  case (Cons i "is")
  then obtain r u rs' where "sync i s = (Inr r, u)" "map_act sync is u = (Inr rs', t)"
    by (auto simp: bind_ok)
  moreover have "stored k u = (if key i = k then newest (stored k s) (stamp i) else stored k s)"
    using sync_newest [of i s r u] other [of i s r u k] calculation(1) by auto
  ultimately show ?case using Cons.IH by simp
qed simp

lemma stamp_kept:
  "map_act sync is s = (Inr rs, t) \<Longrightarrow> stored k s = Some m \<Longrightarrow> \<exists>m'. stored k t = Some m' \<and> m \<le> m'"
proof (induction "is" arbitrary: s rs m)
  case (Cons i "is")
  then obtain r u rs' where u: "sync i s = (Inr r, u)" "map_act sync is u = (Inr rs', t)"
    by (auto simp: bind_ok)
  obtain m1 where "stored k u = Some m1" "m \<le> m1"
    using sync_newest [OF u(1)] other [OF u(1), of k] Cons.prems(2) by (cases "key i = k") (auto simp: newest_def)
  then show ?case using Cons.IH [OF u(2)] by force
qed simp

lemma batch_stored:
  "map_act sync is s = (Inr rs, t) \<Longrightarrow> i \<in> set is \<Longrightarrow> \<exists>m. stored (key i) t = Some m \<and> stamp i \<le> m"
proof (induction "is" arbitrary: s rs)
  case (Cons j "is")
  then obtain r u rs' where u: "sync j s = (Inr r, u)" "map_act sync is u = (Inr rs', t)"
    by (auto simp: bind_ok)
  show ?case
  proof (cases "i = j")
    case True
    then obtain m where "stored (key i) u = Some m" "stamp i \<le> m"
      using sync_newest [OF u(1)] by (cases "stored (key j) s") (auto simp: newest_def)
    then show ?thesis using stamp_kept [OF u(2)] by force
  next
    case False
    then show ?thesis using Cons.IH [OF u(2)] Cons.prems(2) by simp
  qed
qed simp

lemma resent:
  assumes "map_act sync is s = (Inr rs, t)" and "set js \<subseteq> set is"
  shows "\<exists>rs'. map_act sync js t = (Inr rs', t)"
  using assms(2)
proof (induction js)
  case (Cons j js)
  then obtain m where "stored (key j) t = Some m" "stamp j \<le> m" using batch_stored [OF assms(1)] by auto
  then obtain r where "sync j t = (Inr r, t)" using stale by blast
  then show ?case using Cons by auto
qed simp

end

lemma find_after_change:
  assumes "List.find P xs = Some x" and "\<And>y. P (f y) = P y"
  shows "List.find P (map (\<lambda>y. if P y then f y else y) xs) = Some (f x)"
proof -
  have "List.find P (map (\<lambda>y. if P y then f y else y) xs) = map_option (\<lambda>y. if P y then f y else y) (List.find P xs)"
    by (rule find_map_other) (rule assms(2))
  then show ?thesis using assms(1) find_Some_set [OF assms(1)] by simp
qed

lemma find_elsewhere:
  assumes "\<And>y. P y \<Longrightarrow> \<not> Q y" and "\<And>y. P y \<Longrightarrow> \<not> Q (f y)"
  shows "List.find Q (map (\<lambda>y. if P y then f y else y) xs) = List.find Q xs"
proof -
  have "List.find Q (map (\<lambda>y. if P y then f y else y) xs) = map_option (\<lambda>y. if P y then f y else y) (List.find Q xs)"
    by (rule find_map_other) (use assms in blast)
  moreover have "\<not> P x" if "List.find Q xs = Some x" for x
    using find_Some_set [OF that] assms(1) by blast
  ultimately show ?thesis by (cases "List.find Q xs") auto
qed

text \<open>The rows of the two kinds of progress, before and after an item.\<close>

definition rite_stamp :: "uid \<Rightarrow> string \<Rightarrow> db \<Rightarrow> time option" where
  "rite_stamp p k s = map_option rgp_clientUpdatedAt (List.find (rite_of p k) (db_riteProgress s))"

definition course_stamp :: "uid \<Rightarrow> uid \<Rightarrow> db \<Rightarrow> time option" where
  "course_stamp p k s = map_option mcp_clientUpdatedAt (List.find (course_of p k) (db_courseProgress s))"

lemma rite_of_changes [simp]:
  "rite_of p k (apply_rite item x) = rite_of p k x" "rite_of p k (new_rite q item i) \<longleftrightarrow> q = p \<and> im_riteKey item = k"
  "rgp_clientUpdatedAt (apply_rite item x) = im_clientUpdatedAt item"
  "rgp_clientUpdatedAt (new_rite q item i) = im_clientUpdatedAt item"
  by (auto simp: rite_of_def apply_rite_def new_rite_def)

lemma course_of_changes [simp]:
  "course_of p k (apply_course_item item x) = course_of p k x"
  "course_of p k (new_course_progress q item i) \<longleftrightarrow> q = p \<and> ie_courseId item = k"
  "mcp_clientUpdatedAt (apply_course_item item x) = ie_clientUpdatedAt item"
  "mcp_clientUpdatedAt (new_course_progress q item i) = ie_clientUpdatedAt item"
  by (auto simp: course_of_def apply_course_item_def new_course_progress_def)

lemma sync_rite_run:
  "sync_rite_item p item s =
     (case List.find (rite_of p (im_riteKey item)) (db_riteProgress s) of
        None \<Rightarrow> create_row db_riteProgress_update (new_rite p item) s
      | Some e \<Rightarrow> if im_clientUpdatedAt item \<le> rgp_clientUpdatedAt e then (Inr e, s)
          else (Inr (apply_rite item e), db_riteProgress_update
            (map (\<lambda>x. if rite_of p (im_riteKey item) x then apply_rite item x else x)) s))"
  by (simp add: sync_rite_item_def upsert_rite_def update_row_def split: option.split)

lemma sync_course_run:
  "sync_course_item p item s =
     (case List.find (course_of p (ie_courseId item)) (db_courseProgress s) of
        None \<Rightarrow> if List.find (\<lambda>c. mc_id c = ie_courseId item) (db_microCourses s) = None then (Inl (DbError ''P2003''), s)
          else create_row db_courseProgress_update (new_course_progress p item) s
      | Some e \<Rightarrow> if ie_clientUpdatedAt item \<le> mcp_clientUpdatedAt e then (Inr e, s)
          else (Inr (apply_course_item item e), db_courseProgress_update
            (map (\<lambda>x. if course_of p (ie_courseId item) x then apply_course_item item x else x)) s))"
  by (simp add: sync_course_item_def upsert_course_progress_def update_row_def split: option.split)

interpretation rite_sync: offline_sync "sync_rite_item p" "rite_stamp p"
  "im_riteKey :: rite_item \<Rightarrow> string" "im_clientUpdatedAt :: rite_item \<Rightarrow> time"
proof unfold_locales
  fix i :: rite_item and s m
  assume "rite_stamp p (im_riteKey i) s = Some m" "im_clientUpdatedAt i \<le> m"
  then show "\<exists>r. sync_rite_item p i s = (Inr r, s)" by (auto simp: rite_stamp_def sync_rite_run)
next
  fix i :: rite_item and s r t
  assume run: "sync_rite_item p i s = (Inr r, t)" and late: "\<And>m. rite_stamp p (im_riteKey i) s = Some m \<Longrightarrow> m < im_clientUpdatedAt i"
  show "rite_stamp p (im_riteKey i) t = Some (im_clientUpdatedAt i)"
  proof (cases "List.find (rite_of p (im_riteKey i)) (db_riteProgress s)")
    case None
    then show ?thesis using run by (auto simp: sync_rite_run create_row_ok rite_stamp_def find_append)
  next
    case (Some e)
    then show ?thesis using run late [of "rgp_clientUpdatedAt e"]
      by (auto simp: sync_rite_run rite_stamp_def find_after_change)
  qed
next
  fix i :: rite_item and s r t k
  assume run: "sync_rite_item p i s = (Inr r, t)" and k: "k \<noteq> im_riteKey i"
  have "List.find (rite_of p k) (map (\<lambda>x. if rite_of p (im_riteKey i) x then apply_rite i x else x) xs) =
      List.find (rite_of p k) xs" for xs
    by (rule find_elsewhere) (use k in \<open>auto simp: rite_of_def apply_rite_def\<close>)
  then show "rite_stamp p k t = rite_stamp p k s"
    using run k by (auto simp: sync_rite_run create_row_ok rite_stamp_def find_append split: option.splits if_splits)
qed

interpretation course_sync: offline_sync "sync_course_item p" "course_stamp p"
  "ie_courseId :: course_item \<Rightarrow> uid" "ie_clientUpdatedAt :: course_item \<Rightarrow> time"
proof unfold_locales
  fix i :: course_item and s m
  assume "course_stamp p (ie_courseId i) s = Some m" "ie_clientUpdatedAt i \<le> m"
  then show "\<exists>r. sync_course_item p i s = (Inr r, s)" by (auto simp: course_stamp_def sync_course_run)
next
  fix i :: course_item and s r t
  assume run: "sync_course_item p i s = (Inr r, t)" and late: "\<And>m. course_stamp p (ie_courseId i) s = Some m \<Longrightarrow> m < ie_clientUpdatedAt i"
  show "course_stamp p (ie_courseId i) t = Some (ie_clientUpdatedAt i)"
  proof (cases "List.find (course_of p (ie_courseId i)) (db_courseProgress s)")
    case None
    then show ?thesis using run by (auto simp: sync_course_run create_row_ok course_stamp_def find_append split: if_splits)
  next
    case (Some e)
    then show ?thesis using run late [of "mcp_clientUpdatedAt e"]
      by (auto simp: sync_course_run course_stamp_def find_after_change)
  qed
next
  fix i :: course_item and s r t k
  assume run: "sync_course_item p i s = (Inr r, t)" and k: "k \<noteq> ie_courseId i"
  have "List.find (course_of p k) (map (\<lambda>x. if course_of p (ie_courseId i) x then apply_course_item i x else x) xs) =
      List.find (course_of p k) xs" for xs
    by (rule find_elsewhere) (use k in \<open>auto simp: course_of_def apply_course_item_def\<close>)
  then show "course_stamp p k t = course_stamp p k s"
    using run k by (auto simp: sync_course_run create_row_ok course_stamp_def find_append split: option.splits if_splits)
qed

section \<open>Properties\<close>

text \<open>
  C32: the synchronisation of the courses keeps the newest: after a batch each course of the
  pilgrim carries the newest of its stored time and the times of the batch, whatever the
  order, and any part of the batch, in any order, can be sent again without changing anything.
\<close>
theorem resent_courses_change_nothing:
  assumes "sync_courses pilgrimId items s = (Inr rs, t)" and "set again \<subseteq> set items"
  shows "(\<exists>rs'. sync_courses pilgrimId again t = (Inr rs', t)) \<and>
    course_stamp pilgrimId courseId t =
      fold (\<lambda>i old. if ie_courseId i = courseId then newest old (ie_clientUpdatedAt i) else old) items
        (course_stamp pilgrimId courseId s)"
  using course_sync.resent [OF assms(1) [unfolded sync_courses_def] assms(2)]
    course_sync.batch_newest [OF assms(1) [unfolded sync_courses_def]]
  by (simp add: sync_courses_def)

text \<open>The same for the rites, whose synchronisation never fails.\<close>

lemma rites_total: "\<exists>rs t. sync_rites p items s = (Inr rs, t)"
proof (induction items arbitrary: s)
  case (Cons i items)
  have "\<exists>r u. sync_rite_item p i s = (Inr r, u)"
    by (cases "List.find (rite_of p (im_riteKey i)) (db_riteProgress s)") (auto simp: sync_rite_run create_row_def Let_def)
  then obtain r u where u: "sync_rite_item p i s = (Inr r, u)" by blast
  obtain rs t where "sync_rites p items u = (Inr rs, t)" using Cons by blast
  then show ?case using u by (simp add: sync_rites_def)
qed (simp add: sync_rites_def)

lemma resent_rites_change_nothing:
  "sync_rites p items s = (Inr rs, t) \<Longrightarrow> set again \<subseteq> set items \<Longrightarrow> \<exists>rs'. sync_rites p again t = (Inr rs', t)"
  unfolding sync_rites_def by (rule rite_sync.resent)

definition sample_course_items :: "course_item list" where
  "sample_course_items =
     [\<lparr>ie_courseId = 8, ie_isCompleted = Some True, ie_clientUpdatedAt = 20\<rparr>,
      \<lparr>ie_courseId = 8, ie_isCompleted = Some False, ie_clientUpdatedAt = 10\<rparr>]"

theorem resent_courses_change_nothing_witness:
  "\<exists>rs rs' t. sync_courses 5 sample_course_items (snd (create_course 0 \<lparr>cd_title = ''Cours'', cd_description = None,
       cd_videoUrl = ''v'', cd_durationSeconds = None, cd_order = None, cd_courseCategory = None\<rparr>
       (empty_db\<lparr>db_next := 8\<rparr>))) = (Inr rs, t) \<and>
     sync_courses 5 (rev sample_course_items) t = (Inr rs', t) \<and> course_stamp 5 8 t = Some 20"
proof -
  let ?s = "snd (create_course 0 \<lparr>cd_title = ''Cours'', cd_description = None, cd_videoUrl = ''v'',
    cd_durationSeconds = None, cd_order = None, cd_courseCategory = None\<rparr> (empty_db\<lparr>db_next := 8\<rparr>))"
  obtain rs t where run: "sync_courses 5 sample_course_items ?s = (Inr rs, t)"
    by (simp add: sync_courses_def sample_course_items_def sync_course_run create_course_def create_row_def Let_def
        new_course_def empty_db_def bind_def)
  have "course_stamp 5 8 ?s = None" by (simp add: course_stamp_def create_course_def create_row_def Let_def empty_db_def)
  then show ?thesis
    using resent_courses_change_nothing [OF run, of "rev sample_course_items" 8] run
    by (auto simp: sample_course_items_def newest_def)
qed

end
