(* ===== verification/Messaging.thy ===== *)
theory Messaging
  imports Bookings
begin

text \<open>
  \<open>src/src/modules/messaging\<close> and \<open>community\<close>: the private threads of a booking, with the
  agency and with the guide, their inbox and read receipts, and the messages of a group.  The
  rooms of the websocket gateways that carry them live are in the theory Realtime.
\<close>

section \<open>Private threads\<close>

record participants =
  pa_pilgrimId :: uid
  pa_otherId :: uid

definition resolve_participants :: "booking_shape \<Rightarrow> messaging_channel \<Rightarrow> (db, participants) act" where
  "resolve_participants booking channel =
     (if channel = CH_AGENCY then
        bind (find_agency_by_id_or_fail (bs_agencyId booking)) (\<lambda>agency.
        ret \<lparr>pa_pilgrimId = bs_pilgrimId booking, pa_otherId = as_ownerId agency\<rparr>)
      else
        bind (or_fail (Conflict ''Aucun guide assigne a cette reservation pour le moment'') (bs_groupId booking)) (\<lambda>groupId.
        bind (find_group_or_fail groupId) (\<lambda>g.
        bind (or_fail (Conflict ''Aucun guide assigne a cette reservation pour le moment'') (gs_guideId g)) (\<lambda>guideId.
        ret \<lparr>pa_pilgrimId = bs_pilgrimId booking, pa_otherId = guideId\<rparr>))))"

definition assert_participant :: "booking_shape \<Rightarrow> messaging_channel \<Rightarrow> uid \<Rightarrow> (db, participants) act" where
  "assert_participant booking channel userId =
     bind (resolve_participants booking channel) (\<lambda>p.
     bind (require (userId = pa_pilgrimId p \<or> userId = pa_otherId p)
       (Forbidden ''Cette conversation ne vous appartient pas'')) (\<lambda>_.
     ret p))"

definition find_conversation_or_fail :: "uid \<Rightarrow> (db, conversation) act" where
  "find_conversation_or_fail i =
     bind (find_first db_conversations (\<lambda>c. cv_id c = i)) (or_fail (NotFound ''Conversation introuvable''))"

definition upsert_conversation :: "uid \<Rightarrow> messaging_channel \<Rightarrow> (db, conversation) act" where
  "upsert_conversation bookingId channel =
     bind (find_first db_conversations (\<lambda>c. cv_bookingId c = bookingId \<and> cv_channel c = channel)) (\<lambda>found.
     case found of Some c \<Rightarrow> ret c
     | None \<Rightarrow> create_row db_conversations_update (\<lambda>i. \<lparr>cv_id = i, cv_bookingId = bookingId, cv_channel = channel\<rparr>))"

definition get_or_create_conversation :: "uid \<Rightarrow> messaging_channel \<Rightarrow> uid \<Rightarrow> (db, conversation) act" where
  "get_or_create_conversation bookingId channel requesterId =
     bind (find_booking_or_fail bookingId) (\<lambda>booking.
     bind (assert_participant booking channel requesterId) (\<lambda>_.
     upsert_conversation bookingId channel))"

definition assert_access_to_conversation :: "uid \<Rightarrow> uid \<Rightarrow> (db, conversation) act" where
  "assert_access_to_conversation conversationId userId =
     bind (find_conversation_or_fail conversationId) (\<lambda>c.
     bind (find_booking_or_fail (cv_bookingId c)) (\<lambda>booking.
     bind (assert_participant booking (cv_channel c) userId) (\<lambda>_.
     ret c)))"

definition list_messages :: "uid \<Rightarrow> uid \<Rightarrow> (db, message list) act" where
  "list_messages conversationId requesterId =
     bind (assert_access_to_conversation conversationId requesterId) (\<lambda>_.
     query (\<lambda>s. sort_key mg_createdAt (filter (\<lambda>m. mg_conversationId m = conversationId) (db_messages s))))"

definition new_private_message :: "time \<Rightarrow> uid \<Rightarrow> uid \<Rightarrow> string \<Rightarrow> time \<Rightarrow> uid \<Rightarrow> message" where
  "new_private_message now conversationId senderId content clientSentAt i =
     \<lparr>mg_id = i, mg_conversationId = conversationId, mg_senderId = senderId, mg_content = content,
      mg_clientSentAt = clientSentAt, mg_readAt = None, mg_createdAt = now\<rparr>"

definition send_message :: "time \<Rightarrow> uid \<Rightarrow> uid \<Rightarrow> string \<Rightarrow> time \<Rightarrow> (db, message) act" where
  "send_message now conversationId senderId content clientSentAt =
     bind (find_conversation_or_fail conversationId) (\<lambda>c.
     bind (find_booking_or_fail (cv_bookingId c)) (\<lambda>booking.
     bind (assert_participant booking (cv_channel c) senderId) (\<lambda>p.
     bind (create_row db_messages_update (new_private_message now conversationId senderId content clientSentAt)) (\<lambda>m.
     let recipientId = (if senderId = pa_pilgrimId p then pa_otherId p else pa_pilgrimId p) in
     bind (send now \<lparr>si_recipientIds = [recipientId], si_type = NT_GROUP_MESSAGE, si_title = ''Nouveau message'',
         si_content = mg_content m, si_isCritical = False\<rparr>) (\<lambda>_.
     ret m)))))"

section \<open>Inbox\<close>

record last_message =
  lm_content :: string
  lm_senderId :: uid
  lm_createdAt :: time

record inbox_conversation =
  ic_id :: uid
  ic_bookingId :: uid
  ic_channel :: messaging_channel
  ic_counterpartName :: string
  ic_packageTitle :: string
  ic_lastMessage :: last_message
  ic_unreadCount :: nat

definition conversation_messages :: "db \<Rightarrow> uid \<Rightarrow> message list" where
  "conversation_messages s i = filter (\<lambda>m. mg_conversationId m = i) (db_messages s)"

definition unread_count :: "db \<Rightarrow> uid \<Rightarrow> uid \<Rightarrow> nat" where
  "unread_count s i userId =
     length (filter (\<lambda>m. mg_readAt m = None \<and> mg_senderId m \<noteq> userId) (conversation_messages s i))"

definition group_guide :: "db \<Rightarrow> booking \<Rightarrow> uid option" where
  "group_guide s b = Option.bind (b_groupId b) (\<lambda>i. Option.bind (List.find (\<lambda>g. g_id g = i) (db_groups s)) g_guideId)"

definition in_inbox :: "uid \<Rightarrow> db \<Rightarrow> conversation \<Rightarrow> bool" where
  "in_inbox userId s c \<longleftrightarrow>
     conversation_messages s (cv_id c) \<noteq> [] \<and>
     (case List.find (\<lambda>b. b_id b = cv_bookingId c) (db_bookings s) of None \<Rightarrow> False
      | Some b \<Rightarrow> b_pilgrimId b = userId \<or>
          (cv_channel c = CH_AGENCY \<and> (\<exists>a \<in> set (db_agencies s). a_id a = b_agencyId b \<and> a_ownerId a = userId)) \<or>
          (cv_channel c = CH_GUIDE \<and> group_guide s b = Some userId))"

definition counterpart_name :: "uid \<Rightarrow> db \<Rightarrow> conversation \<Rightarrow> booking \<Rightarrow> user \<Rightarrow> agency \<Rightarrow> string" where
  "counterpart_name userId s c b pilgrim agency =
     (if b_pilgrimId b = userId then
        (if cv_channel c = CH_AGENCY then a_legalName agency
         else or_else (Option.bind (group_guide s b) (\<lambda>i. map_option u_fullName (List.find (\<lambda>u. u_id u = i) (db_users s)))) [])
      else u_fullName pilgrim)"

definition inbox_row :: "uid \<Rightarrow> db \<Rightarrow> conversation \<Rightarrow> inbox_conversation option" where
  "inbox_row userId s c =
     Option.bind (List.find (\<lambda>b. b_id b = cv_bookingId c) (db_bookings s)) (\<lambda>b.
     Option.bind (List.find (\<lambda>u. u_id u = b_pilgrimId b) (db_users s)) (\<lambda>pilgrim.
     Option.bind (List.find (\<lambda>a. a_id a = b_agencyId b) (db_agencies s)) (\<lambda>agency.
     Option.bind (List.find (\<lambda>p. p_id p = b_packageId b) (db_packages s)) (\<lambda>pkg.
     map_option (\<lambda>dernier.
       \<lparr>ic_id = cv_id c, ic_bookingId = cv_bookingId c, ic_channel = cv_channel c,
        ic_counterpartName = counterpart_name userId s c b pilgrim agency, ic_packageTitle = p_title pkg,
        ic_lastMessage = \<lparr>lm_content = mg_content dernier, lm_senderId = mg_senderId dernier, lm_createdAt = mg_createdAt dernier\<rparr>,
        ic_unreadCount = unread_count s (cv_id c) userId\<rparr>)
       (List.find (\<lambda>_. True) (sort_key (\<lambda>m. - mg_createdAt m) (conversation_messages s (cv_id c))))))))"

definition list_inbox :: "uid \<Rightarrow> (db, inbox_conversation list) act" where
  "list_inbox userId =
     query (\<lambda>s. sort_key (\<lambda>r. - lm_createdAt (ic_lastMessage r))
       (List.map_filter (inbox_row userId s) (filter (in_inbox userId s) (db_conversations s))))"

definition mark_as_read :: "time \<Rightarrow> uid \<Rightarrow> uid \<Rightarrow> (db, unit) act" where
  "mark_as_read now conversationId userId =
     bind (assert_access_to_conversation conversationId userId) (\<lambda>_.
     update_many db_messages_update
       (\<lambda>m. mg_conversationId m = conversationId \<and> mg_senderId m \<noteq> userId \<and> mg_readAt m = None)
       (\<lambda>m. m\<lparr>mg_readAt := Some now\<rparr>))"

section \<open>Messages of a group\<close>

record community_shape =
  cy_id :: uid
  cy_groupId :: uid
  cy_senderId :: uid
  cy_senderName :: string
  cy_content :: string
  cy_clientSentAt :: time
  cy_createdAt :: time

definition assert_access_to_group :: "uid \<Rightarrow> uid \<Rightarrow> role \<Rightarrow> (db, unit) act" where
  "assert_access_to_group groupId userId r = bind (find_group_authorized userId r groupId) (\<lambda>_. ret ())"

definition to_community_shape :: "user \<Rightarrow> community_message \<Rightarrow> community_shape" where
  "to_community_shape sender m =
     \<lparr>cy_id = cm_id m, cy_groupId = cm_groupId m, cy_senderId = cm_senderId m, cy_senderName = u_fullName sender,
      cy_content = cm_content m, cy_clientSentAt = cm_clientSentAt m, cy_createdAt = cm_createdAt m\<rparr>"

definition list_community_messages :: "uid \<Rightarrow> uid \<Rightarrow> role \<Rightarrow> (db, community_shape list) act" where
  "list_community_messages groupId userId r =
     bind (assert_access_to_group groupId userId r) (\<lambda>_.
     query (\<lambda>s. List.map_filter
       (\<lambda>m. map_option (\<lambda>u. to_community_shape u m) (List.find (\<lambda>u. u_id u = cm_senderId m) (db_users s)))
       (sort_key cm_createdAt (filter (\<lambda>m. cm_groupId m = groupId) (db_communityMessages s)))))"

definition send_community_message :: "time \<Rightarrow> uid \<Rightarrow> uid \<Rightarrow> role \<Rightarrow> string \<Rightarrow> time \<Rightarrow> (db, community_shape) act" where
  "send_community_message now groupId userId r content clientSentAt =
     bind (assert_access_to_group groupId userId r) (\<lambda>_.
     bind (related db_users (\<lambda>u. u_id u = userId)) (\<lambda>sender.
     bind (create_row db_communityMessages_update
       (\<lambda>i. \<lparr>cm_id = i, cm_groupId = groupId, cm_senderId = userId, cm_content = content,
          cm_clientSentAt = clientSentAt, cm_createdAt = now\<rparr>)) (\<lambda>m.
     ret (to_community_shape sender m))))"

section \<open>Lemmas\<close>

lemma reads_messaging [reads_intro]:
  "reads_only (resolve_participants b c)" "reads_only (assert_participant b c i)" "reads_only (find_conversation_or_fail j)"
  "reads_only (assert_access_to_conversation j i)" "reads_only (list_messages j i)" "reads_only (list_inbox i)"
  "reads_only (assert_access_to_group g i r)" "reads_only (list_community_messages g i r)"
  unfolding resolve_participants_def assert_participant_def find_conversation_or_fail_def
    assert_access_to_conversation_def list_messages_def list_inbox_def assert_access_to_group_def
    list_community_messages_def
  by (intro reads_intro)+

lemma resolve_participants_reads:
  "resolve_participants b c s = (Inr p, t) \<Longrightarrow> t = s"
  by (rule reads_onlyD [OF reads_messaging(1)])

lemma send_message_run:
  assumes c: "List.find (\<lambda>c. cv_id c = i) (db_conversations s) = Some c"
    and b: "List.find (\<lambda>b. b_id b = cv_bookingId c) (db_bookings s) = Some b"
    and p: "resolve_participants (to_booking_shape b) (cv_channel c) s = (Inr p, s)"
  shows "send_message now i senderId content sentAt s =
    (if senderId \<in> {pa_pilgrimId p, pa_otherId p} then
       let m = new_private_message now i senderId content sentAt (db_next s);
           input = \<lparr>si_recipientIds = [if senderId = pa_pilgrimId p then pa_otherId p else pa_pilgrimId p],
             si_type = NT_GROUP_MESSAGE, si_title = ''Nouveau message'', si_content = mg_content m, si_isCritical = False\<rparr>
       in (Inr m, snd (send now input (db_messages_update (\<lambda>rs. rs @ [m]) (s\<lparr>db_next := Suc (db_next s)\<rparr>))))
     else (Inl (Forbidden ''Cette conversation ne vous appartient pas''), s))"
  using c b p
  by (simp add: send_message_def find_conversation_or_fail_def find_booking_or_fail_run assert_participant_def
      create_row_def send_run Let_def bind_require)

section \<open>Properties\<close>

text \<open>
  C33: a message of one of the two participants of a private thread is stored once, unread, and
  notified to the other participant alone: the unread count of the other in this thread grows by
  one, and that of the sender stays.  A message of anybody else is refused without effect.
\<close>
theorem message_reaches_the_other:
  assumes c: "List.find (\<lambda>c. cv_id c = i) (db_conversations s) = Some c"
    and b: "List.find (\<lambda>b. b_id b = cv_bookingId c) (db_bookings s) = Some b"
    and p: "resolve_participants (to_booking_shape b) (cv_channel c) s = (Inr p, s)"
    and two: "pa_pilgrimId p \<noteq> pa_otherId p"
    and run: "send_message now i senderId content sentAt s = (r, t)"
  shows "if senderId \<in> {pa_pilgrimId p, pa_otherId p} then
      \<exists>m n other. other \<in> {pa_pilgrimId p, pa_otherId p} - {senderId} \<and> r = Inr m \<and>
        mg_senderId m = senderId \<and> mg_content m = content \<and> db_messages t = db_messages s @ [m] \<and>
        db_notifications t = db_notifications s @ [n] \<and> n_recipientId n = other \<and> n_content n = content \<and>
        unread_count t i other = unread_count s i other + 1 \<and>
        unread_count t i senderId = unread_count s i senderId
    else r = Inl (Forbidden ''Cette conversation ne vous appartient pas'') \<and> t = s"
proof (cases "senderId \<in> {pa_pilgrimId p, pa_otherId p}")
  case True
  define m where "m = new_private_message now i senderId content sentAt (db_next s)"
  define other where "other = (if senderId = pa_pilgrimId p then pa_otherId p else pa_pilgrimId p)"
  define input where "input = \<lparr>si_recipientIds = [other], si_type = NT_GROUP_MESSAGE,
    si_title = ''Nouveau message'', si_content = mg_content m, si_isCritical = False\<rparr>"
  let ?n = "notification_row now input other (db_next s + 1)"
  have o: "other \<in> {pa_pilgrimId p, pa_otherId p} - {senderId}" using True two by (auto simp: other_def)
  have rt: "r = Inr m" "t = snd (send now input (db_messages_update (\<lambda>rs. rs @ [m]) (s\<lparr>db_next := Suc (db_next s)\<rparr>)))"
    using run True by (auto simp: send_message_run [OF c b p] m_def other_def input_def Let_def)
  have t: "db_messages t = db_messages s @ [m]" "db_notifications t = db_notifications s @ [?n]"
    by (simp_all add: rt send_run Let_def input_def)
  have m: "mg_senderId m = senderId" "mg_content m = content" "mg_readAt m = None" "mg_conversationId m = i"
    by (simp_all add: m_def new_private_message_def)
  have n: "n_recipientId ?n = other" "n_content ?n = content"
    by (simp_all add: notification_row_def input_def m)
  have "unread_count t i other = unread_count s i other + 1" "unread_count t i senderId = unread_count s i senderId"
    using o by (simp_all add: unread_count_def conversation_messages_def t m)
  then have "\<exists>n other. other \<in> {pa_pilgrimId p, pa_otherId p} - {senderId} \<and>
        db_notifications t = db_notifications s @ [n] \<and> n_recipientId n = other \<and> n_content n = content \<and>
        unread_count t i other = unread_count s i other + 1 \<and> unread_count t i senderId = unread_count s i senderId"
    using o t(2) n by blast
  then show ?thesis using True rt(1) t(1) m(1,2) by auto
next
  case False
  then show ?thesis using run by (auto simp: send_message_run [OF c b p])
qed

definition sample_thread_db :: db where
  "sample_thread_db = sample_booking_db\<lparr>db_conversations := [\<lparr>cv_id = 30, cv_bookingId = 7, cv_channel = CH_AGENCY\<rparr>]\<rparr>"

theorem message_reaches_the_other_witness:
  "(\<exists>m n. fst (send_message 5 30 1 ''Salam'' 4 sample_thread_db) = Inr m \<and>
      db_notifications (snd (send_message 5 30 1 ''Salam'' 4 sample_thread_db)) = db_notifications sample_thread_db @ [n] \<and>
      n_recipientId n = 5) \<and>
   fst (send_message 5 30 99 ''Salam'' 4 sample_thread_db) = Inl (Forbidden ''Cette conversation ne vous appartient pas'')"
proof -
  let ?c = "\<lparr>cv_id = 30, cv_bookingId = 7, cv_channel = CH_AGENCY\<rparr>"
  let ?p = "\<lparr>pa_pilgrimId = b_pilgrimId sample_booking, pa_otherId = a_ownerId sample_agency\<rparr>"
  have h: "List.find (\<lambda>c. cv_id c = 30) (db_conversations sample_thread_db) = Some ?c"
    "List.find (\<lambda>b. b_id b = cv_bookingId ?c) (db_bookings sample_thread_db) = Some sample_booking"
    "resolve_participants (to_booking_shape sample_booking) (cv_channel ?c) sample_thread_db = (Inr ?p, sample_thread_db)"
    "pa_pilgrimId ?p \<noteq> pa_otherId ?p"
    by (simp_all add: sample_thread_db_def sample_booking_defs resolve_participants_def find_agency_by_id_or_fail_run
        to_booking_shape_def to_agency_shape_def)
  have ids: "a_ownerId sample_agency = 1" "b_pilgrimId sample_booking = 5" by (simp_all add: sample_booking_defs)
  show ?thesis
    using message_reaches_the_other [OF h surjective_pairing, of 1 5 "''Salam''" 4]
      message_reaches_the_other [OF h surjective_pairing, of 99 5 "''Salam''" 4] ids by auto
qed

end
