(* ===== verification/Reviews.thy ===== *)
theory Reviews
  imports Bookings
begin

text \<open>
  \<open>src/src/modules/reviews\<close> and \<open>src/src/modules/directory\<close>: the review a pilgrim
  leaves on a booking, the trust score and the badge of an agency, the satisfaction report
  and its CSV export, and the public directory of the approved agencies.  Ratings are
  integers, averages and rates exact rationals where the code computes with doubles; the
  French collation that orders the directory is an argument.
\<close>

section \<open>Shapes\<close>

record create_review_dto =
  nr_bookingId :: uid
  nr_rating :: int
  nr_comment :: "string option"

text \<open>\<open>@IsInt @Min(1) @Max(5)\<close>.\<close>

definition valid_review_dto :: "create_review_dto \<Rightarrow> bool" where
  "valid_review_dto dto \<longleftrightarrow> 1 \<le> nr_rating dto \<and> nr_rating dto \<le> 5"

datatype badge = Verified | Trusted

record trust_score =
  ts_agencyId :: uid
  ts_score :: "int option"
  ts_reviewAverage :: "rat option"
  ts_reviewCount :: nat
  ts_completionRate :: "rat option"
  ts_concludedBookingsCount :: nat
  ts_badge :: "badge option"

record report_review =
  rr_rating :: int
  rr_comment :: "string option"
  rr_createdAt :: time

record satisfaction_report =
  sr_agencyId :: uid
  sr_agencyName :: string
  sr_generatedAt :: time
  sr_reviewCount :: nat
  sr_reviewAverage :: "rat option"
  sr_ratingDistribution :: "(int \<times> nat) list"
  sr_reviews :: "report_review list"

record directory_entry =
  de_id :: uid
  de_legalName :: string
  de_address :: "string option"
  de_validatedAt :: "time option"
  de_trustScore :: trust_score

definition reviewable_statuses :: "booking_status list" where
  "reviewable_statuses = [CONFIRMED, COMPLETED]"

definition review_weight :: rat where
  "review_weight = 6 / 10"

definition completion_weight :: rat where
  "completion_weight = 4 / 10"

definition trusted_score_threshold :: int where
  "trusted_score_threshold = 70"

definition min_reviews_for_trusted_badge :: nat where
  "min_reviews_for_trusted_badge = 3"

section \<open>Reviews\<close>

definition new_review :: "time \<Rightarrow> uid \<Rightarrow> booking_shape \<Rightarrow> create_review_dto \<Rightarrow> uid \<Rightarrow> review" where
  "new_review now pilgrimId booking dto i =
     \<lparr>rv_id = i, rv_pilgrimId = pilgrimId, rv_agencyId = bs_agencyId booking,
      rv_bookingId = bs_id booking, rv_rating = nr_rating dto, rv_comment = nr_comment dto,
      rv_createdAt = now\<rparr>"

definition create_review :: "time \<Rightarrow> uid \<Rightarrow> create_review_dto \<Rightarrow> (db, review) act" where
  "create_review now pilgrimId dto =
     bind (find_booking_or_fail (nr_bookingId dto)) (\<lambda>booking.
     bind (require (bs_pilgrimId booking = pilgrimId)
       (BadRequest ''Cette reservation ne vous appartient pas'')) (\<lambda>_.
     bind (require (bs_status booking \<in> set reviewable_statuses)
       (BadRequest ''Cette reservation n'est pas eligible a un avis'')) (\<lambda>_.
     bind (find_first db_reviews (\<lambda>r. rv_bookingId r = bs_id booking)) (\<lambda>existing.
     bind (require (existing = None) (Conflict ''Un avis existe deja pour cette reservation'')) (\<lambda>_.
     create_row db_reviews_update (new_review now pilgrimId booking dto))))))"

definition newest_reviews :: "uid \<Rightarrow> db \<Rightarrow> review list" where
  "newest_reviews agencyId s =
     sort_key (\<lambda>r. - rv_createdAt r) (filter (\<lambda>r. rv_agencyId r = agencyId) (db_reviews s))"

definition list_reviews_by_agency :: "uid \<Rightarrow> (db, review list) act" where
  "list_reviews_by_agency agencyId = query (newest_reviews agencyId)"

definition find_my_reviews :: "uid \<Rightarrow> (db, review list) act" where
  "find_my_reviews pilgrimId = find_many db_reviews (\<lambda>r. rv_pilgrimId r = pilgrimId)"

definition find_review_by_booking :: "uid \<Rightarrow> (db, review option) act" where
  "find_review_by_booking bookingId = find_first db_reviews (\<lambda>r. rv_bookingId r = bookingId)"

section \<open>The trust score\<close>

definition average :: "int list \<Rightarrow> rat option" where
  "average xs = (if xs = [] then None else Some (of_int (sum_list xs) / of_nat (length xs)))"

definition count_of :: "booking_status \<Rightarrow> (booking_status \<times> nat) list \<Rightarrow> nat" where
  "count_of st counts = (case map_of counts st of None \<Rightarrow> 0 | Some n \<Rightarrow> n)"

definition completion_rate :: "nat \<Rightarrow> nat \<Rightarrow> rat option" where
  "completion_rate completed concluded =
     (if concluded > 0 then Some (of_nat completed / of_nat concluded) else None)"

definition combined_score :: "rat option \<Rightarrow> rat option \<Rightarrow> rat option" where
  "combined_score reviewAverage completionRate =
     (case (reviewAverage, completionRate) of
        (Some a, Some c) \<Rightarrow> Some ((a / 5) * 100 * review_weight + c * 100 * completion_weight)
      | (Some a, None) \<Rightarrow> Some ((a / 5) * 100)
      | (None, Some c) \<Rightarrow> Some (c * 100)
      | (None, None) \<Rightarrow> None)"

definition badge_of :: "agency_validation_status \<Rightarrow> int option \<Rightarrow> nat \<Rightarrow> badge option" where
  "badge_of st roundedScore reviewCount =
     (if st = AVS_APPROVED
      then Some (case roundedScore of
                   Some n \<Rightarrow> if n \<ge> trusted_score_threshold \<and> reviewCount \<ge> min_reviews_for_trusted_badge
                             then Trusted else Verified
                 | None \<Rightarrow> Verified)
      else None)"

definition get_trust_score :: "uid \<Rightarrow> (db, trust_score) act" where
  "get_trust_score agencyId =
     bind (find_agency_by_id_or_fail agencyId) (\<lambda>agency.
     bind (query (\<lambda>s. map rv_rating (filter (\<lambda>r. rv_agencyId r = agencyId) (db_reviews s)))) (\<lambda>ratings.
     bind (count_by_agency_and_status agencyId) (\<lambda>bookingCounts.
     let reviewCount = length ratings;
         reviewAverage = average ratings;
         completed = count_of COMPLETED bookingCounts;
         concluded = completed + count_of CANCELLED bookingCounts;
         completionRate = completion_rate completed concluded;
         roundedScore = map_option js_round (combined_score reviewAverage completionRate)
     in ret \<lparr>ts_agencyId = agencyId, ts_score = roundedScore, ts_reviewAverage = reviewAverage,
          ts_reviewCount = reviewCount, ts_completionRate = completionRate,
          ts_concludedBookingsCount = concluded,
          ts_badge = badge_of (as_validationStatus agency) roundedScore reviewCount\<rparr>)))"

section \<open>The satisfaction report\<close>

definition to_report_review :: "review \<Rightarrow> report_review" where
  "to_report_review r = \<lparr>rr_rating = rv_rating r, rr_comment = rv_comment r, rr_createdAt = rv_createdAt r\<rparr>"

definition rating_distribution :: "review list \<Rightarrow> (int \<times> nat) list" where
  "rating_distribution reviews =
     map (\<lambda>rating. (rating, length (filter (\<lambda>r. rv_rating r = rating) reviews))) [1, 2, 3, 4, 5]"

definition get_satisfaction_report :: "time \<Rightarrow> uid \<Rightarrow> (db, satisfaction_report) act" where
  "get_satisfaction_report now ownerId =
     bind (find_by_owner_or_fail ownerId) (\<lambda>agency.
     bind (query (newest_reviews (as_id agency))) (\<lambda>reviews.
     ret \<lparr>sr_agencyId = as_id agency, sr_agencyName = as_legalName agency, sr_generatedAt = now,
       sr_reviewCount = length reviews, sr_reviewAverage = average (map rv_rating reviews),
       sr_ratingDistribution = rating_distribution reviews,
       sr_reviews = map to_report_review reviews\<rparr>))"

definition escape_csv :: "string \<Rightarrow> string" where
  "escape_csv v = [CHR 0x22] @ double_quotes v @ [CHR 0x22]"

definition report_line :: "report_review \<Rightarrow> string" where
  "report_line r =
     join '','' [iso_string (rr_createdAt r), show_int (rr_rating r), escape_csv (or_else (rr_comment r) [])]"

definition get_satisfaction_report_csv :: "time \<Rightarrow> uid \<Rightarrow> (db, string) act" where
  "get_satisfaction_report_csv now ownerId =
     bind (get_satisfaction_report now ownerId) (\<lambda>report.
     ret (join [CHR 0x0A] (''date,note,commentaire'' # map report_line (sr_reviews report))))"

section \<open>The directory\<close>

definition directory_entry_of :: "agency_shape \<Rightarrow> (db, directory_entry) act" where
  "directory_entry_of agence =
     bind (get_trust_score (as_id agence)) (\<lambda>score.
     ret \<lparr>de_id = as_id agence, de_legalName = as_legalName agence, de_address = as_address agence,
       de_validatedAt = as_validatedAt agence, de_trustScore = score\<rparr>)"

definition list_approved_agencies :: "(string \<Rightarrow> 'k::linorder) \<Rightarrow> (db, directory_entry list) act" where
  "list_approved_agencies collation =
     bind (find_by_status (Some AVS_APPROVED)) (\<lambda>agences.
     bind (map_act directory_entry_of agences) (\<lambda>entrees.
     ret (sort_key (\<lambda>e. collation (de_legalName e)) entrees)))"

section \<open>Lemmas\<close>

lemma reads_reviews [reads_intro]:
  "reads_only (list_reviews_by_agency i)" "reads_only (find_my_reviews i)"
  "reads_only (find_review_by_booking i)" "reads_only (get_trust_score i)"
  "reads_only (get_satisfaction_report now i)" "reads_only (get_satisfaction_report_csv now i)"
  unfolding list_reviews_by_agency_def find_my_reviews_def find_review_by_booking_def
    get_trust_score_def get_satisfaction_report_def get_satisfaction_report_csv_def Let_def
  by (intro reads_intro)+

text \<open>
  The reviews are in order: one per booking, by the pilgrim and for the agency of that
  booking, with a rating from 1 to 5.
\<close>

definition about :: "db \<Rightarrow> review \<Rightarrow> bool" where
  "about s r \<longleftrightarrow> (\<exists>b \<in> set (db_bookings s).
     b_id b = rv_bookingId r \<and> b_pilgrimId b = rv_pilgrimId r \<and> b_agencyId b = rv_agencyId r)"

definition reviews_ok :: "db \<Rightarrow> bool" where
  "reviews_ok s \<longleftrightarrow>
     distinct (map rv_bookingId (db_reviews s)) \<and>
     (\<forall>r \<in> set (db_reviews s). 1 \<le> rv_rating r \<and> rv_rating r \<le> 5 \<and> about s r)"

lemma create_review_run:
  "create_review now pilgrimId dto s =
     (case List.find (\<lambda>b. b_id b = nr_bookingId dto) (db_bookings s) of
        None \<Rightarrow> (Inl (NotFound ''Reservation introuvable''), s)
      | Some b \<Rightarrow>
          if b_pilgrimId b \<noteq> pilgrimId then (Inl (BadRequest ''Cette reservation ne vous appartient pas''), s)
          else if b_status b \<notin> {CONFIRMED, COMPLETED}
          then (Inl (BadRequest ''Cette reservation n'est pas eligible a un avis''), s)
          else if b_id b \<in> rv_bookingId ` set (db_reviews s)
          then (Inl (Conflict ''Un avis existe deja pour cette reservation''), s)
          else let r = new_review now pilgrimId (to_booking_shape b) dto (db_next s)
               in (Inr r, db_reviews_update (\<lambda>rs. rs @ [r]) (s\<lparr>db_next := Suc (db_next s)\<rparr>)))"
proof -
  have none: "(List.find (\<lambda>r. rv_bookingId r = i) rs = None) = (i \<notin> rv_bookingId ` set rs)" for i rs
    by (induction rs) auto
  show ?thesis
    by (simp add: none create_review_def find_booking_or_fail_run reviewable_statuses_def create_row_def Let_def
        bind_def split: option.split)
qed

lemma create_review_ok:
  "create_review now pilgrimId dto s = (Inr v, t) \<longleftrightarrow>
     (\<exists>b. List.find (\<lambda>b. b_id b = nr_bookingId dto) (db_bookings s) = Some b \<and>
        b_pilgrimId b = pilgrimId \<and> b_status b \<in> {CONFIRMED, COMPLETED} \<and>
        b_id b \<notin> rv_bookingId ` set (db_reviews s) \<and>
        v = new_review now pilgrimId (to_booking_shape b) dto (db_next s) \<and>
        t = db_reviews_update (\<lambda>rs. rs @ [v]) (s\<lparr>db_next := Suc (db_next s)\<rparr>))"
  unfolding create_review_run Let_def by (auto split: option.split if_splits)

lemma create_review_err: "create_review now pilgrimId dto s = (Inl e, t) \<Longrightarrow> t = s"
  unfolding create_review_run Let_def by (auto split: option.splits if_splits)

lemma create_review_keeps: "valid_review_dto dto \<Longrightarrow> keeps reviews_ok (create_review now i dto)"
proof (rule keepsI)
  fix s r t
  assume dto: "valid_review_dto dto" and ok: "reviews_ok s" and run: "create_review now i dto s = (r, t)"
  show "reviews_ok t"
  proof (cases r)
    case (Inl e)
    then show ?thesis using create_review_err run ok by blast
  next
    case (Inr v)
    then obtain b where "b \<in> set (db_bookings s)" "b_pilgrimId b = i" "b_id b \<notin> rv_bookingId ` set (db_reviews s)"
      and v: "v = new_review now i (to_booking_shape b) dto (db_next s)"
      and t: "t = db_reviews_update (\<lambda>rs. rs @ [v]) (s\<lparr>db_next := Suc (db_next s)\<rparr>)"
      using run by (auto simp: create_review_ok dest: find_Some_set)
    then show ?thesis using ok dto
      by (auto simp: reviews_ok_def about_def new_review_def valid_review_dto_def)
  qed
qed

text \<open>What the operations on bookings leave alone: the reviews, and who a booking is of.\<close>

definition known :: "(uid \<times> uid \<times> uid) set \<Rightarrow> review list \<Rightarrow> db \<Rightarrow> bool" where
  "known K rs s \<longleftrightarrow>
     K \<subseteq> (\<lambda>b. (b_id b, b_pilgrimId b, b_agencyId b)) ` set (db_bookings s) \<and> db_reviews s = rs"

lemma only_messages_reviews: "only_messages s t \<Longrightarrow> db_reviews t = db_reviews s"
  by (cases s; cases t) (auto simp: only_messages_def)

lemma known_ignores:
  "ignores_messages (known K rs)" "ignores_checklists (known K rs)"
  "known K rs s \<Longrightarrow> known K rs (db_groups_update f s)"
  "known K rs s \<Longrightarrow> known K rs (db_packages_update g s)"
  "known K rs s \<Longrightarrow> known K rs (db_bookings_update (\<lambda>bs. bs @ xs) (s\<lparr>db_next := n\<rparr>))"
  by (auto simp: ignores_messages_def ignores_checklists_def only_messagesD(5) only_messages_reviews known_def)

lemma known_update:
  assumes "\<And>b. b_id (f b) = b_id b" "\<And>b. b_pilgrimId (f b) = b_pilgrimId b" "\<And>b. b_agencyId (f b) = b_agencyId b"
  shows "known K rs s \<Longrightarrow> known K rs (db_bookings_update (map (\<lambda>x. if P x then f x else x)) s)"
proof -
  have "(\<lambda>b. (b_id b, b_pilgrimId b, b_agencyId b)) ` (\<lambda>x. if P x then f x else x) ` B =
      (\<lambda>b. (b_id b, b_pilgrimId b, b_agencyId b)) ` B" for B
    unfolding image_image by (rule image_cong) (auto simp: assms)
  then show "known K rs s \<Longrightarrow> ?thesis" by (simp add: known_def)
qed

lemma known_confirms: "keeps (known K rs) (maybe_confirm now i)"
  unfolding maybe_confirm_def Let_def
  by (intro keeps_intro known_ignores known_update) simp_all

lemma known_dossier: "known K rs s \<Longrightarrow> known K rs (dossier_step c s)"
proof (cases c)
  case (BCreate now pilgrimId packageId)
  moreover have "keeps (known K rs) (create_booking now pilgrimId packageId)"
    unfolding create_booking_def reserve_seat_def update_package_row_def Let_def
    by (intro keeps_intro known_ignores)
  ultimately show "known K rs s \<Longrightarrow> ?thesis" by (simp add: keeps_def)
next
  case (BCancel pilgrimId i)
  moreover have "keeps (known K rs) (cancel_booking pilgrimId i)"
    unfolding cancel_booking_def release_seat_def update_package_row_def Let_def
    by (intro keeps_intro known_ignores known_update) simp_all
  ultimately show "known K rs s \<Longrightarrow> ?thesis" by (simp add: keeps_def)
next
  case (BUpdateStep now ownerId i key st)
  moreover have "keeps (known K rs) (update_step now ownerId i key st)"
    unfolding update_step_def update_booking_step_def
    by (intro keeps_intro known_ignores known_update known_confirms) (simp_all add: set_step_def)
  ultimately show "known K rs s \<Longrightarrow> ?thesis" by (simp add: keeps_def)
next
  case (BMarkStepDone now i key)
  moreover have "keeps (known K rs) (mark_step_done now i key)"
    unfolding mark_step_done_def update_booking_step_def
    by (intro keeps_intro known_ignores known_update known_confirms) (simp_all add: set_step_def)
  ultimately show "known K rs s \<Longrightarrow> ?thesis" by (simp add: keeps_def)
next
  case (BAssignGroup ownerId i groupId)
  moreover have "keeps (known K rs) (assign_group ownerId i groupId)"
    unfolding assign_group_def add_member_def update_group_row_def
    by (intro keeps_intro known_ignores known_update) simp_all
  ultimately show "known K rs s \<Longrightarrow> ?thesis" by (simp add: keeps_def)
next
  case (BFamilyLink token pilgrimId i)
  moreover have "keeps (known K rs) (get_or_create_family_view_link token pilgrimId i)"
    unfolding get_or_create_family_view_link_def regenerate_family_view_link_def
    by (intro keeps_intro known_update) simp_all
  ultimately show "known K rs s \<Longrightarrow> ?thesis" by (simp add: keeps_def)
qed

lemma reviews_ok_dossier:
  assumes "reviews_ok s"
  shows "reviews_ok (dossier_step c s)"
proof -
  let ?K = "(\<lambda>b. (b_id b, b_pilgrimId b, b_agencyId b)) ` set (db_bookings s)"
  have "known ?K (db_reviews s) s" by (simp add: known_def)
  then have k: "known ?K (db_reviews s) (dossier_step c s)" by (rule known_dossier)
  have "about s r \<Longrightarrow> about (dossier_step c s) r" for r
    using k by (fastforce simp: known_def about_def)
  then show ?thesis using assms k by (auto simp: reviews_ok_def known_def)
qed

datatype review_call = RReview time uid create_review_dto | RDossier booking_call

fun review_step :: "review_call \<Rightarrow> db \<Rightarrow> db" where
  "review_step (RReview now pilgrimId dto) s = snd (create_review now pilgrimId dto s)"
| "review_step (RDossier c) s = dossier_step c s"

fun review_allowed :: "review_call \<Rightarrow> db \<Rightarrow> bool" where
  "review_allowed (RReview now pilgrimId dto) s \<longleftrightarrow> valid_review_dto dto"
| "review_allowed (RDossier c) s \<longleftrightarrow> True"

interpretation avis: machine review_step review_allowed reviews_ok
proof unfold_locales
  fix c s
  assume "review_allowed c s" "reviews_ok s"
  then show "reviews_ok (review_step c s)"
    using create_review_keeps reviews_ok_dossier by (cases c) (auto simp: keeps_def)
qed

subsection \<open>Averages, rates and the score\<close>

lemma average_bounds:
  assumes "\<And>x. x \<in> set xs \<Longrightarrow> 1 \<le> x \<and> x \<le> 5" and "average xs = Some a"
  shows "1 \<le> a \<and> a \<le> 5"
proof -
  have "int (length xs) \<le> sum_list xs \<and> sum_list xs \<le> 5 * int (length xs)"
    using assms(1) by (induction xs) force+
  then have "of_int (int (length xs)) \<le> (of_int (sum_list xs) :: rat)"
    "of_int (sum_list xs) \<le> (of_int (5 * int (length xs)) :: rat)"
    unfolding of_int_le_iff by auto
  moreover have "xs \<noteq> []" and a: "a = of_int (sum_list xs) / of_nat (length xs)"
    using assms(2) by (auto simp: average_def split: if_splits)
  moreover have "(0 :: rat) < of_nat (length xs)" using \<open>xs \<noteq> []\<close> by simp
  ultimately show ?thesis by (simp add: pos_le_divide_eq pos_divide_le_eq)
qed

lemma completion_rate_bounds:
  "completed \<le> concluded \<Longrightarrow> completion_rate completed concluded = Some c \<Longrightarrow> 0 \<le> c \<and> c \<le> 1"
  by (clarsimp simp: completion_rate_def split: if_splits)

lemma combined_score_bounds:
  assumes "\<And>a. avg = Some a \<Longrightarrow> 0 \<le> a \<and> a \<le> 5" and "\<And>c. rate = Some c \<Longrightarrow> 0 \<le> c \<and> c \<le> 1"
    and "combined_score avg rate = Some x"
  shows "0 \<le> x \<and> x \<le> 100"
  using assms unfolding combined_score_def review_weight_def completion_weight_def
  by (cases avg; cases rate) auto

lemma js_round_percent: "0 \<le> x \<and> x \<le> 100 \<Longrightarrow> 0 \<le> js_round x \<and> js_round x \<le> 100"
  using js_round_mono [of 0 x] js_round_mono [of x 100] js_round_of_int [of 0] js_round_of_int [of 100] by simp

lemma join_line: "x \<in> set xs \<Longrightarrow> \<exists>before rest. join nl (h # xs) = before @ nl @ x @ rest"
proof (induction xs arbitrary: h)
  case (Cons y ys)
  show ?case
  proof (cases "x = y")
    case True
    then show ?thesis by (cases ys) (auto intro: exI [of _ h] exI [of _ "nl @ join nl ys"])
  next
    case False
    then obtain before rest where "join nl (y # ys) = before @ nl @ x @ rest"
      using Cons.IH [of y] Cons.prems by auto
    then have "join nl (h # y # ys) = (h @ nl @ before) @ nl @ x @ rest" by simp
    then show ?thesis by blast
  qed
qed simp

section \<open>Properties\<close>

text \<open>
  A booking has one review at most, by its own pilgrim, for its own agency and with one to
  five stars, along any sequence of reviews and of booking operations.
\<close>
theorem one_review_per_booking:
  assumes "reviews_ok s" and "allowed_run review_step review_allowed s cs"
  shows "distinct (map rv_bookingId (db_reviews (fold review_step cs s))) \<and>
    (\<forall>r \<in> set (db_reviews (fold review_step cs s)). 1 \<le> rv_rating r \<and> rv_rating r \<le> 5 \<and>
      (\<exists>b \<in> set (db_bookings (fold review_step cs s)). b_id b = rv_bookingId r \<and>
         b_pilgrimId b = rv_pilgrimId r \<and> b_agencyId b = rv_agencyId r))"
  using avis.run_inv [OF assms(2,1)] by (simp add: reviews_ok_def about_def)

definition sample_review_db :: db where
  "sample_review_db = sample_booking_db\<lparr>db_bookings := [sample_booking\<lparr>b_status := COMPLETED\<rparr>]\<rparr>"

definition sample_review_dto :: create_review_dto where
  "sample_review_dto = \<lparr>nr_bookingId = 7, nr_rating = 4, nr_comment = Some ''=1+1''\<rparr>"

lemma sample_reviews_ok: "reviews_ok sample_review_db"
  by (simp add: reviews_ok_def sample_review_db_def sample_booking_defs)

theorem one_review_per_booking_witness:
  "map rv_bookingId (db_reviews (fold review_step [RReview 0 5 sample_review_dto, RReview 1 5 sample_review_dto,
     RReview 2 6 sample_review_dto, RDossier (BCancel 5 7)] sample_review_db)) = [7] \<and>
   distinct (map rv_bookingId (db_reviews (fold review_step [RReview 0 5 sample_review_dto, RReview 1 5 sample_review_dto,
     RReview 2 6 sample_review_dto, RDossier (BCancel 5 7)] sample_review_db)))"
proof -
  let ?cs = "[RReview 0 5 sample_review_dto, RReview 1 5 sample_review_dto,
     RReview 2 6 sample_review_dto, RDossier (BCancel 5 7)]"
  have "allowed_run review_step review_allowed sample_review_db ?cs"
    by (simp add: valid_review_dto_def sample_review_dto_def)
  moreover have "map rv_bookingId (db_reviews (fold review_step ?cs sample_review_db)) = [7]"
    by code_simp
  ultimately show ?thesis
    using one_review_per_booking [OF sample_reviews_ok, of ?cs] by blast
qed

lemma count_of_run:
  "count_by_agency_and_status a s = (Inr counts, t) \<Longrightarrow>
     t = s \<and> count_of st counts = length (filter (\<lambda>b. b_agencyId b = a \<and> b_status b = st) (db_bookings s))"
  by (cases st) (auto simp: count_by_agency_and_status_def enum_booking_status_def count_of_def)

text \<open>
  C34: the trust score is a percentage whenever there is one, and there is one exactly when the
  agency has a review or a concluded booking; the average lies between one and five stars; the
  badge <<trusted>> needs the approval of the administration, three reviews and a score of
  seventy, and an agency that is not approved has no badge.
\<close>
theorem trust_score_bounds:
  assumes "reviews_ok s" and "allowed_run review_step review_allowed s cs"
    and run: "get_trust_score a (fold review_step cs s) = (Inr v, t)"
  shows "t = fold review_step cs s \<and>
    (case ts_score v of None \<Rightarrow> ts_reviewCount v = 0 \<and> ts_concludedBookingsCount v = 0
      | Some n \<Rightarrow> 0 \<le> n \<and> n \<le> 100 \<and> 0 < ts_reviewCount v + ts_concludedBookingsCount v) \<and>
    (case ts_reviewAverage v of None \<Rightarrow> ts_reviewCount v = 0 | Some x \<Rightarrow> 1 \<le> x \<and> x \<le> 5) \<and>
    (case List.find (\<lambda>x. a_id x = a) (db_agencies t) of None \<Rightarrow> False
      | Some agency \<Rightarrow>
          (ts_badge v = None \<longleftrightarrow> a_validationStatus agency \<noteq> AVS_APPROVED) \<and>
          (ts_badge v = Some Trusted \<longleftrightarrow> a_validationStatus agency = AVS_APPROVED \<and>
             3 \<le> ts_reviewCount v \<and> (\<exists>n \<ge> 70. ts_score v = Some n)))"
proof -
  define u where "u = fold review_step cs s"
  define ratings where "ratings = map rv_rating (filter (\<lambda>r. rv_agencyId r = a) (db_reviews u))"
  have ok: "reviews_ok u" unfolding u_def by (rule avis.run_inv [OF assms(2,1)])
  from run obtain agency counts where ag: "List.find (\<lambda>x. a_id x = a) (db_agencies u) = Some agency"
    and t: "t = u" and v: "v = (let completed = count_of COMPLETED counts;
                     concluded = completed + count_of CANCELLED counts;
                     score = map_option js_round (combined_score (average ratings) (completion_rate completed concluded))
                 in \<lparr>ts_agencyId = a, ts_score = score, ts_reviewAverage = average ratings,
                     ts_reviewCount = length ratings, ts_completionRate = completion_rate completed concluded,
                     ts_concludedBookingsCount = concluded,
                     ts_badge = badge_of (a_validationStatus agency) score (length ratings)\<rparr>)"
    unfolding u_def [symmetric] ratings_def
    by (auto simp: get_trust_score_def bind_ok query_ok find_agency_by_id_or_fail_ok Let_def
        count_by_agency_and_status_def)
  define c k where "c = count_of COMPLETED counts" and "k = c + count_of CANCELLED counts"
  define av sc where "av = average ratings" and "sc = map_option js_round (combined_score av (completion_rate c k))"
  have v: "ts_score v = sc" "ts_reviewAverage v = av" "ts_reviewCount v = length ratings"
    "ts_concludedBookingsCount v = k" "ts_badge v = badge_of (a_validationStatus agency) sc (length ratings)"
    by (simp_all add: v Let_def c_def k_def av_def sc_def)
  have "x \<in> set ratings \<Longrightarrow> 1 \<le> x \<and> x \<le> 5" for x
    using ok by (auto simp: reviews_ok_def ratings_def)
  then have avg: "av = Some x \<Longrightarrow> 1 \<le> x \<and> x \<le> 5" for x
    unfolding av_def using average_bounds by blast
  have "combined_score av (completion_rate c k) = Some x \<Longrightarrow> 0 \<le> x \<and> x \<le> 100" for x
    using avg completion_rate_bounds [of c k]
    by (intro combined_score_bounds [of av "completion_rate c k"]) (force simp: k_def)+
  then have score: "sc = Some n \<Longrightarrow> 0 \<le> n \<and> n \<le> 100" for n
    using js_round_percent by (auto simp: sc_def)
  have no_average: "av = None \<longleftrightarrow> ratings = []" by (simp add: av_def average_def)
  then have no_score: "sc = None \<longleftrightarrow> ratings = [] \<and> k = 0"
    by (auto simp: sc_def combined_score_def completion_rate_def split: option.split)
  have "case sc of None \<Rightarrow> length ratings = 0 \<and> k = 0 | Some n \<Rightarrow> 0 \<le> n \<and> n \<le> 100 \<and> 0 < length ratings + k"
    using no_score score by (cases sc) auto
  moreover have "case av of None \<Rightarrow> length ratings = 0 | Some x \<Rightarrow> 1 \<le> x \<and> x \<le> 5"
    using no_average avg by (cases av) auto
  moreover have "ts_badge v = None \<longleftrightarrow> a_validationStatus agency \<noteq> AVS_APPROVED"
    by (simp add: v badge_of_def)
  moreover have "ts_badge v = Some Trusted \<longleftrightarrow> a_validationStatus agency = AVS_APPROVED \<and>
      3 \<le> length ratings \<and> (\<exists>n \<ge> 70. sc = Some n)"
    by (cases sc) (auto simp: v badge_of_def trusted_score_threshold_def min_reviews_for_trusted_badge_def)
  ultimately show ?thesis by (simp only: u_def [symmetric] t ag v(1-4) option.case simp_thms)
qed

theorem trust_score_bounds_witness:
  "\<exists>v t. get_trust_score 2 (fold review_step [RReview 0 5 sample_review_dto] sample_review_db) = (Inr v, t) \<and>
     ts_score v = Some 88 \<and> (\<forall>n. ts_score v = Some n \<longrightarrow> 0 \<le> n \<and> n \<le> 100)"
proof -
  let ?cs = "[RReview 0 5 sample_review_dto]"
  have a: "allowed_run review_step review_allowed sample_review_db ?cs"
    by (simp add: valid_review_dto_def sample_review_dto_def)
  have "map_sum (\<lambda>_. ()) ts_score (fst (get_trust_score 2 (fold review_step ?cs sample_review_db))) = Inr (Some 88)"
    by code_simp
  then obtain v t where run: "get_trust_score 2 (fold review_step ?cs sample_review_db) = (Inr v, t)"
    and v: "ts_score v = Some 88"
    by (cases "get_trust_score 2 (fold review_step ?cs sample_review_db)"; cases "fst (get_trust_score 2 (fold review_step ?cs sample_review_db))") auto
  have "0 \<le> n \<and> n \<le> 100" if "ts_score v = Some n" for n
    using trust_score_bounds [OF sample_reviews_ok a run] that by simp
  then show ?thesis using run v by blast
qed

text \<open>
  What a pilgrim writes in a review reaches the spreadsheet of the agency as it was typed:
  the comment cell of the satisfaction report reads back as the comment, also when it starts a
  formula, which the other exports neutralise.
\<close>
theorem report_comment_unchanged:
  assumes "create_review now pilgrimId dto s = (Inr v, t)" and c: "nr_comment dto = Some c"
    and owner: "List.find (\<lambda>a. a_ownerId a = ownerId) (db_agencies s) = Some a" and "a_id a = rv_agencyId v"
  shows "\<exists>text before rest. get_satisfaction_report_csv now' ownerId t = (Inr text, t) \<and>
    text = before @ [CHR 0x0A] @ iso_string now @ '','' @ show_int (nr_rating dto) @ '','' @ escape_csv c @ rest \<and>
    csv_parse (CHR '','') (escape_csv c) = Some [[c]] \<and>
    (formula_start c \<longrightarrow> csv_parse (CHR '','') (escape_csv c) \<noteq> csv_parse (CHR '','') (cellule_csv (Some c)))"
proof -
  from assms(1) have v: "v = \<lparr>rv_id = rv_id v, rv_pilgrimId = pilgrimId, rv_agencyId = rv_agencyId v,
      rv_bookingId = rv_bookingId v, rv_rating = nr_rating dto, rv_comment = Some c, rv_createdAt = now\<rparr>"
    and t: "t = db_reviews_update (\<lambda>rs. rs @ [v]) (s\<lparr>db_next := Suc (db_next s)\<rparr>)"
    by (auto simp: create_review_ok new_review_def c)
  let ?lines = "map report_line (map to_report_review (newest_reviews (a_id a) t))"
  have line: "report_line (to_report_review v) = iso_string now @ '','' @ show_int (nr_rating dto) @ '','' @ escape_csv c"
    by (subst v) (simp add: report_line_def to_report_review_def)
  have "v \<in> set (newest_reviews (a_id a) t)" using assms(4) by (simp add: t newest_reviews_def)
  then have "report_line (to_report_review v) \<in> set ?lines" by simp
  then obtain before rest where "join [CHR 0x0A] (''date,note,commentaire'' # ?lines) =
      before @ [CHR 0x0A] @ report_line (to_report_review v) @ rest"
    using join_line by blast
  moreover have "get_satisfaction_report_csv now' ownerId t = (Inr (join [CHR 0x0A] (''date,note,commentaire'' # ?lines)), t)"
    using owner by (simp add: get_satisfaction_report_csv_def get_satisfaction_report_def find_by_owner_or_fail_run t)
  moreover have "csv_parse (CHR '','') (escape_csv x) = Some [[x]]" for x
    using csv_read_inside [of "CHR '',''" "[]" "[]" x "[]"] by (simp add: csv_parse_def escape_csv_def)
  moreover have "cellule_csv (Some c) = escape_csv (neutralise c)" by (simp add: cellule_csv_def escape_csv_def)
  moreover have "neutralise c \<noteq> c" if "formula_start c" using that by (simp add: neutralise_def)
  ultimately show ?thesis by (auto simp: line)
qed

theorem report_comment_unchanged_witness:
  "formula_start ''=1+1'' \<and>
   (\<exists>text before rest. get_satisfaction_report_csv 0 1 (snd (create_review 0 5 sample_review_dto sample_review_db)) =
     (Inr text, snd (create_review 0 5 sample_review_dto sample_review_db)) \<and>
     text = before @ [CHR 0x0A] @ iso_string 0 @ '','' @ show_int 4 @ '','' @ escape_csv ''=1+1'' @ rest)"
proof -
  let ?s = "sample_review_db"
  obtain v where v: "create_review 0 5 sample_review_dto ?s = (Inr v, snd (create_review 0 5 sample_review_dto ?s))"
    "rv_agencyId v = 2"
    by (simp add: create_review_run sample_review_dto_def sample_review_db_def sample_booking_defs new_review_def Let_def)
  have "List.find (\<lambda>a. a_ownerId a = 1) (db_agencies ?s) = Some sample_agency" "a_id sample_agency = rv_agencyId v"
    by (simp_all add: sample_review_db_def sample_booking_defs v(2))
  from report_comment_unchanged [OF v(1) _ this, of "''=1+1''" 0] show ?thesis
    by (auto simp: sample_review_dto_def formula_start_def)
qed

end
