(* ===== verification/Profitability.thy ===== *)
theory Profitability
  imports Agencies Capacity
begin

text \<open>
  \<open>src/src/modules/profitability\<close>: the simulation of the profitability of an offer, from
  the costs the agency enters, the price and the commission rate stored for the agency.
  Amounts and rates are exact rationals where the code computes with doubles.
\<close>

section \<open>Shapes\<close>

record cost_line =
  cl_label :: string
  cl_amount :: money

record profitability_dto =
  pd_packageId :: "uid option"
  pd_price :: "money option"
  pd_currency :: "string option"
  pd_capacity :: "int option"
  pd_expectedPilgrims :: "int option"
  pd_costsPerPilgrim :: "cost_line list"
  pd_fixedCosts :: "cost_line list"

text \<open>The bounds of the validators on the amounts and the counts.\<close>

text \<open>\<open>@Matches(/^[A-Z]{3}$/)\<close>\<close>

definition currency_code :: "string \<Rightarrow> bool" where
  "currency_code s \<longleftrightarrow> length s = 3 \<and> list_all (\<lambda>c. let n = of_char c :: nat in 65 \<le> n \<and> n \<le> 90) s"

definition valid_cost_line :: "cost_line \<Rightarrow> bool" where
  "valid_cost_line l \<longleftrightarrow>
     1 \<le> length (cl_label l) \<and> length (cl_label l) \<le> 80 \<and> two_decimals (cl_amount l) \<and>
     0 \<le> cl_amount l \<and> cl_amount l \<le> 10 ^ 12"

definition valid_profitability_dto :: "profitability_dto \<Rightarrow> bool" where
  "valid_profitability_dto dto \<longleftrightarrow>
     (case pd_price dto of None \<Rightarrow> True | Some p \<Rightarrow> two_decimals p \<and> 0 < p \<and> p \<le> 10 ^ 12) \<and>
     (case pd_currency dto of None \<Rightarrow> True | Some c \<Rightarrow> currency_code c) \<and>
     (case pd_capacity dto of None \<Rightarrow> True | Some c \<Rightarrow> 1 \<le> c \<and> c \<le> 10000) \<and>
     (case pd_expectedPilgrims dto of None \<Rightarrow> True | Some e \<Rightarrow> 0 \<le> e \<and> e \<le> 10000) \<and>
     length (pd_costsPerPilgrim dto) \<le> 30 \<and> length (pd_fixedCosts dto) \<le> 30 \<and>
     list_all valid_cost_line (pd_costsPerPilgrim dto @ pd_fixedCosts dto)"

datatype scenario_kind = Expected | Sold | Half | ThreeQuarters | Full

record scenario_shape =
  sn_kind :: scenario_kind
  sn_pilgrims :: int
  sn_revenue :: money
  sn_platformCommission :: money
  sn_variableCosts :: money
  sn_fixedCosts :: money
  sn_margin :: money
  sn_marginRate :: "rat option"
  sn_marginPerPilgrim :: "money option"

record profitability_simulation =
  pz_packageId :: "uid option"
  pz_packageTitle :: "string option"
  pz_currency :: string
  pz_price :: money
  pz_capacity :: int
  pz_commissionRate :: rat
  pz_costPerPilgrim :: money
  pz_fixedCostsTotal :: money
  pz_unitContribution :: money
  pz_breakEvenPilgrims :: "int option"
  pz_breakEvenReachable :: bool
  pz_minimumPrice :: "money option"
  pz_scenarios :: "scenario_shape list"

record hypotheses =
  hy_price :: money
  hy_commissionRate :: rat
  hy_costPerPilgrim :: money
  hy_fixedCosts :: money

section \<open>One scenario\<close>

definition somme :: "cost_line list \<Rightarrow> money" where
  "somme lignes = sum_list (map cl_amount lignes)"

definition margin_of :: "hypotheses \<Rightarrow> int \<Rightarrow> money" where
  "margin_of h pilgrims =
     hy_price h * of_int pilgrims - hy_price h * of_int pilgrims * hy_commissionRate h
       - hy_costPerPilgrim h * of_int pilgrims - hy_fixedCosts h"

definition scenario :: "scenario_kind \<Rightarrow> int \<Rightarrow> hypotheses \<Rightarrow> scenario_shape" where
  "scenario kind pilgrims h =
     (let revenue = hy_price h * of_int pilgrims;
          margin = margin_of h pilgrims
      in \<lparr>sn_kind = kind, sn_pilgrims = pilgrims, sn_revenue = round_cents revenue,
          sn_platformCommission = round_cents (revenue * hy_commissionRate h),
          sn_variableCosts = round_cents (hy_costPerPilgrim h * of_int pilgrims),
          sn_fixedCosts = round_cents (hy_fixedCosts h), sn_margin = round_cents margin,
          sn_marginRate = (if revenue > 0 then Some (of_int (js_round (margin / revenue * 1000)) / 1000) else None),
          sn_marginPerPilgrim = (if pilgrims > 0 then Some (round_cents (margin / of_int pilgrims)) else None)\<rparr>)"

section \<open>Break-even and minimum price\<close>

definition unit_contribution :: "hypotheses \<Rightarrow> money" where
  "unit_contribution h = hy_price h * (1 - hy_commissionRate h) - hy_costPerPilgrim h"

definition break_even :: "hypotheses \<Rightarrow> int option" where
  "break_even h =
     (if unit_contribution h > 0 then Some \<lceil>hy_fixedCosts h / unit_contribution h\<rceil> else None)"

definition minimum_price :: "hypotheses \<Rightarrow> int \<Rightarrow> money option" where
  "minimum_price h expected =
     (let netParPrix = of_int expected * (1 - hy_commissionRate h)
      in if netParPrix > 0
         then Some (round_cents ((hy_costPerPilgrim h * of_int expected + hy_fixedCosts h) / netParPrix))
         else None)"

definition scenarios_for :: "int \<Rightarrow> int option \<Rightarrow> int \<Rightarrow> hypotheses \<Rightarrow> scenario_shape list" where
  "scenarios_for expected taken capacity h =
     [scenario Expected expected h] @
     (case taken of Some seatsTaken \<Rightarrow> [scenario Sold seatsTaken h] | None \<Rightarrow> []) @
     [scenario Half (js_round (of_int capacity * (1 / 2))) h,
      scenario ThreeQuarters (js_round (of_int capacity * (3 / 4))) h,
      scenario Full capacity h]"

section \<open>The simulation\<close>

definition chosen_package :: "uid option \<Rightarrow> uid \<Rightarrow> (db, package option) act" where
  "chosen_package packageId agencyId =
     (case packageId of
        None \<Rightarrow> ret None
      | Some i \<Rightarrow>
          bind (find_first db_packages (\<lambda>p. p_id p = i)) (\<lambda>found.
          bind (or_fail (NotFound ''Forfait introuvable'') found) (\<lambda>forfait.
          bind (require (p_agencyId forfait = agencyId)
            (Forbidden ''Ce forfait n'appartient pas a votre agence'')) (\<lambda>_.
          ret (Some forfait)))))"

definition simulation_of ::
  "profitability_dto \<Rightarrow> package option \<Rightarrow> money \<Rightarrow> int \<Rightarrow> int \<Rightarrow> hypotheses \<Rightarrow> profitability_simulation" where
  "simulation_of dto forfait price capacity expected h =
     \<lparr>pz_packageId = pd_packageId dto, pz_packageTitle = map_option p_title forfait,
      pz_currency = (case forfait of Some p \<Rightarrow> p_currency p | None \<Rightarrow> or_else (pd_currency dto) ''GNF''),
      pz_price = round_cents price, pz_capacity = capacity, pz_commissionRate = hy_commissionRate h,
      pz_costPerPilgrim = round_cents (hy_costPerPilgrim h),
      pz_fixedCostsTotal = round_cents (hy_fixedCosts h),
      pz_unitContribution = round_cents (unit_contribution h),
      pz_breakEvenPilgrims = break_even h,
      pz_breakEvenReachable = (case break_even h of None \<Rightarrow> False | Some n \<Rightarrow> n \<le> capacity),
      pz_minimumPrice = minimum_price h expected,
      pz_scenarios = scenarios_for expected (map_option p_seatsTaken forfait) capacity h\<rparr>"

definition simulate_profitability :: "uid \<Rightarrow> profitability_dto \<Rightarrow> (db, profitability_simulation) act" where
  "simulate_profitability ownerId dto =
     bind (find_by_owner_or_fail ownerId) (\<lambda>agence.
     bind (chosen_package (pd_packageId dto) (as_id agence)) (\<lambda>forfait.
     case (or_keep (pd_price dto) (map_option p_price forfait),
           or_keep (pd_capacity dto) (map_option p_capacity forfait)) of
       (Some price, Some capacity) \<Rightarrow>
         (let expected = or_else (pd_expectedPilgrims dto) capacity
          in bind (require (\<not> expected > capacity)
               (BadRequest ''Le remplissage attendu depasse la capacite'')) (\<lambda>_.
             ret (simulation_of dto forfait price capacity expected
               \<lparr>hy_price = price, hy_commissionRate = as_commissionRate agence,
                hy_costPerPilgrim = somme (pd_costsPerPilgrim dto),
                hy_fixedCosts = somme (pd_fixedCosts dto)\<rparr>)))
     | _ \<Rightarrow> throw (BadRequest ''Prix et capacite sont requis sans forfait existant'')))"

section \<open>Lemmas\<close>

lemma reads_profitability [reads_intro]: "reads_only (simulate_profitability i dto)"
  unfolding simulate_profitability_def chosen_package_def Let_def
  by (auto intro!: reads_intro split: option.split)

lemma margin_affine: "margin_of h n = of_int n * unit_contribution h - hy_fixedCosts h"
  by (simp add: margin_of_def unit_contribution_def algebra_simps)

lemma break_even_least:
  assumes "break_even h = Some n"
  shows "0 \<le> margin_of h m \<longleftrightarrow> n \<le> m"
  using assms
  by (auto simp: break_even_def margin_affine ceiling_le_iff pos_divide_le_eq split: if_splits)

lemma break_even_none:
  assumes "break_even h = None" and "0 < hy_fixedCosts h" and "0 \<le> m"
  shows "margin_of h m < 0"
proof -
  have "of_int m * unit_contribution h \<le> 0"
    using assms by (auto simp: break_even_def split: if_splits intro: mult_nonneg_nonpos)
  then show ?thesis using assms(2) by (simp add: margin_affine)
qed

lemma valid_costs_nonneg: "list_all valid_cost_line ls \<Longrightarrow> list_all (\<lambda>l. 0 \<le> cl_amount l) ls"
  by (auto simp: list_all_iff valid_cost_line_def)

lemma somme_nonneg: "list_all (\<lambda>l. 0 \<le> cl_amount l) ls \<Longrightarrow> 0 \<le> somme ls"
  by (induction ls) (auto simp: somme_def)

text \<open>The price and the capacity the simulation works with.\<close>

definition asked_package :: "db \<Rightarrow> profitability_dto \<Rightarrow> package option" where
  "asked_package s dto = Option.bind (pd_packageId dto) (\<lambda>i. List.find (\<lambda>p. p_id p = i) (db_packages s))"

lemma simulate_profitability_ok:
  assumes "simulate_profitability ownerId dto s = (Inr v, t)"
  shows "\<exists>a price capacity. t = s \<and> List.find (\<lambda>a. a_ownerId a = ownerId) (db_agencies s) = Some a \<and>
    or_keep (pd_price dto) (map_option p_price (asked_package s dto)) = Some price \<and>
    or_keep (pd_capacity dto) (map_option p_capacity (asked_package s dto)) = Some capacity \<and>
    or_else (pd_expectedPilgrims dto) capacity \<le> capacity \<and>
    v = simulation_of dto (asked_package s dto) price capacity (or_else (pd_expectedPilgrims dto) capacity)
      \<lparr>hy_price = price, hy_commissionRate = a_commissionRate a,
       hy_costPerPilgrim = somme (pd_costsPerPilgrim dto), hy_fixedCosts = somme (pd_fixedCosts dto)\<rparr>"
proof -
  have chosen: "chosen_package i agencyId s = (Inr f, u) \<Longrightarrow>
      u = s \<and> f = Option.bind i (\<lambda>i. List.find (\<lambda>p. p_id p = i) (db_packages s))" for i agencyId f u
    by (cases i) (auto simp: chosen_package_def bind_ok find_first_ok or_fail_ok require_ok simp del: require_run)
  obtain a f u where a: "List.find (\<lambda>a. a_ownerId a = ownerId) (db_agencies s) = Some a"
    and fu: "chosen_package (pd_packageId dto) (a_id a) s = (Inr f, u)"
    using assms by (auto simp: simulate_profitability_def bind_ok find_by_owner_or_fail_ok)
  have f: "chosen_package (pd_packageId dto) (a_id a) s = (Inr f, s)" "f = asked_package s dto"
    using chosen [OF fu] fu by (simp_all add: asked_package_def)
  have run: "simulate_profitability ownerId dto s =
      (case (or_keep (pd_price dto) (map_option p_price (asked_package s dto)),
             or_keep (pd_capacity dto) (map_option p_capacity (asked_package s dto))) of
         (Some price, Some capacity) \<Rightarrow>
           if or_else (pd_expectedPilgrims dto) capacity \<le> capacity
           then (Inr (simulation_of dto (asked_package s dto) price capacity (or_else (pd_expectedPilgrims dto) capacity)
             \<lparr>hy_price = price, hy_commissionRate = a_commissionRate a,
              hy_costPerPilgrim = somme (pd_costsPerPilgrim dto), hy_fixedCosts = somme (pd_fixedCosts dto)\<rparr>), s)
           else (Inl (BadRequest ''Le remplissage attendu depasse la capacite''), s)
       | _ \<Rightarrow> (Inl (BadRequest ''Prix et capacite sont requis sans forfait existant''), s))"
    using a f(1) unfolding f(2)
    by (simp add: simulate_profitability_def find_by_owner_or_fail_run Let_def bind_require not_less
        split: option.split)
  show ?thesis
    using assms a unfolding run by (auto split: option.splits if_splits)
qed

section \<open>Properties\<close>


definition sample_costs :: profitability_dto where
  "sample_costs = \<lparr>pd_packageId = None, pd_price = Some 60, pd_currency = None, pd_capacity = Some 10,
     pd_expectedPilgrims = Some 3, pd_costsPerPilgrim = [], pd_fixedCosts = [\<lparr>cl_label = ''Bus'', cl_amount = 100\<rparr>]\<rparr>"

definition free_agency_db :: db where
  "free_agency_db = sample_db\<lparr>db_agencies := [sample_agency\<lparr>a_commissionRate := 0\<rparr>]\<rparr>"


end
