(* ===== verification/Realtime.thy ===== *)
theory Realtime
  imports Auth Messaging
begin

text \<open>
  \<open>src/src/modules/realtime\<close>, \<open>common/guards\<close> and the two websocket gateways: single-use
  tickets, the handshake of a socket, the registry of the open sockets of a user, the rooms and
  the delivery of the messages; the guards of the HTTP routes.  The JWT library is an argument
  (\<open>realtime_env\<close>).  The sockets of socket.io are numbers: a socket is open from its
  connection until \<open>disconnect\<close>, which takes it out of its rooms and runs the listeners of the
  event.  The sets of sockets of the registry are objects that the listeners share with the
  map of the users, so they are kept in a store, by reference.  A verification and the
  bookkeeping after it happen at one moment.
\<close>

section \<open>Tickets\<close>

type_synonym socket = nat

record ticket_payload =
  tp_sub :: uid
  tp_role :: role
  tp_jti :: string
  tp_exp :: int

record realtime_env =
  re_ticketSecret :: string
  re_ticketTtlSeconds :: int
  re_sessionMaxMinutes :: int
  re_sign :: "ticket_payload \<Rightarrow> string"
  re_verify :: "string \<Rightarrow> time \<Rightarrow> ticket_payload option"
  re_verifyAccess :: "string \<Rightarrow> time \<Rightarrow> jwt_payload option"

record listener =
  li_userId :: uid
  li_sockets :: nat
  li_deadline :: time

datatype chat_room = Conversation uid | GroupRoom uid

datatype event = MessageNew message | CommunityNew community_shape

text \<open>
  \<open>rl_consommes\<close> and \<open>rl_parUtilisateur\<close> are the two maps of the services, \<open>rl_sets\<close> the
  store of the sets of sockets, \<open>rl_listeners\<close> the pending \<open>once('disconnect')\<close> listeners with
  the moment of their timer, \<open>rl_user\<close> the \<open>client.data.user\<close> of a socket, and
  \<open>rl_delivered\<close> what the sockets were sent, oldest first.
\<close>

record realtime =
  rl_consommes :: "string \<Rightarrow> int option"
  rl_parUtilisateur :: "uid \<Rightarrow> nat option"
  rl_sets :: "nat \<Rightarrow> socket list"
  rl_nextSet :: nat
  rl_listeners :: "(socket \<times> listener) list"
  rl_open :: "socket list"
  rl_user :: "socket \<Rightarrow> jwt_payload option"
  rl_rooms :: "(socket \<times> chat_room) list"
  rl_delivered :: "(socket \<times> event) list"

definition no_realtime :: realtime where
  "no_realtime = \<lparr>rl_consommes = Map.empty, rl_parUtilisateur = Map.empty, rl_sets = (\<lambda>_. []),
     rl_nextSet = 0, rl_listeners = [], rl_open = [], rl_user = Map.empty, rl_rooms = [],
     rl_delivered = []\<rparr>"

definition issue_ticket ::
  "realtime_env \<Rightarrow> time \<Rightarrow> string \<Rightarrow> jwt_payload \<Rightarrow> (realtime, string \<times> time) act" where
  "issue_ticket env now jti user =
     bind (require (re_ticketSecret env \<noteq> [])
       (Unavailable ''Le temps reel n'est pas configure sur ce serveur'')) (\<lambda>_.
     ret (re_sign env \<lparr>tp_sub = jp_sub user, tp_role = jp_role user, tp_jti = jti,
            tp_exp = now div 1000 + re_ticketTtlSeconds env\<rparr>,
          now + re_ticketTtlSeconds env * 1000))"

definition oublier_expires :: "time \<Rightarrow> (string \<Rightarrow> int option) \<Rightarrow> string \<Rightarrow> int option" where
  "oublier_expires maintenant consommes = (\<lambda>jti.
     case consommes jti of
       None \<Rightarrow> None
     | Some expiration \<Rightarrow> if expiration < maintenant then None else Some expiration)"

definition consume :: "realtime_env \<Rightarrow> time \<Rightarrow> string \<Rightarrow> (realtime, jwt_payload) act" where
  "consume env now ticket =
     bind (require (re_ticketSecret env \<noteq> []) (Unauthorized ''Temps reel non configure'')) (\<lambda>_.
     bind (or_fail (Unauthorized ''Ticket invalide ou expire'') (re_verify env ticket now)) (\<lambda>payload.
     bind (exec (rl_consommes_update (oublier_expires now))) (\<lambda>_.
     bind (query rl_consommes) (\<lambda>consommes.
     bind (require (consommes (tp_jti payload) = None) (Unauthorized ''Ticket deja utilise'')) (\<lambda>_.
     bind (exec (rl_consommes_update (\<lambda>m. m(tp_jti payload \<mapsto> tp_exp payload * 1000)))) (\<lambda>_.
     ret \<lparr>jp_sub = tp_sub payload, jp_role = tp_role payload, jp_phone = None, jp_email = None\<rparr>))))))"

section \<open>The handshake\<close>

record handshake =
  hs_ticket :: "string option"
  hs_token :: "string option"
  hs_authorization :: "string option"

definition extract_token :: "handshake \<Rightarrow> string option" where
  "extract_token hs =
     (if truthy (hs_token hs) then hs_token hs
      else Option.bind (hs_authorization hs)
        (\<lambda>header. if take 7 header = ''Bearer '' then Some (drop 7 header) else None))"

definition authenticate :: "realtime_env \<Rightarrow> time \<Rightarrow> handshake \<Rightarrow> (realtime, jwt_payload) act" where
  "authenticate env now hs =
     (if truthy (hs_ticket hs) then consume env now (or_else (hs_ticket hs) [])
      else
        bind (require (truthy (extract_token hs)) (Unauthorized ''Token manquant'')) (\<lambda>_.
        or_fail (Unauthorized ''Token invalide ou expire'')
          (re_verifyAccess env (or_else (extract_token hs) []) now)))"

section \<open>The registry of the open sockets\<close>

text \<open>\<open>set.add(x)\<close> on a set in the order of insertion.\<close>

definition set_add :: "'a \<Rightarrow> 'a list \<Rightarrow> 'a list" where
  "set_add x xs = (if x \<in> set xs then xs else xs @ [x])"

definition socket_set_of :: "uid \<Rightarrow> realtime \<Rightarrow> nat \<times> realtime" where
  "socket_set_of userId r =
     (case rl_parUtilisateur r userId of
        Some k \<Rightarrow> (k, r)
      | None \<Rightarrow> (rl_nextSet r, r\<lparr>rl_nextSet := Suc (rl_nextSet r), rl_sets := (rl_sets r)(rl_nextSet r := [])\<rparr>))"

definition register :: "realtime_env \<Rightarrow> time \<Rightarrow> socket \<Rightarrow> uid \<Rightarrow> realtime \<Rightarrow> realtime" where
  "register env now client userId r =
     (let (k, r') = socket_set_of userId r
      in r'\<lparr>rl_sets := (rl_sets r')(k := set_add client (rl_sets r' k)),
            rl_parUtilisateur := (rl_parUtilisateur r')(userId \<mapsto> k),
            rl_listeners := rl_listeners r' @ [(client,
              \<lparr>li_userId = userId, li_sockets = k, li_deadline = now + re_sessionMaxMinutes env * 60000\<rparr>)]\<rparr>)"

definition on_disconnect :: "socket \<Rightarrow> listener \<Rightarrow> realtime \<Rightarrow> realtime" where
  "on_disconnect client l r =
     (let sockets = removeAll client (rl_sets r (li_sockets l))
      in r\<lparr>rl_sets := (rl_sets r)(li_sockets l := sockets),
           rl_parUtilisateur := (if sockets = [] then (rl_parUtilisateur r)(li_userId l := None)
                                 else rl_parUtilisateur r)\<rparr>)"

text \<open>\<open>client.disconnect(true)\<close>: nothing happens when the socket is closed already.\<close>

definition disconnect_socket :: "socket \<Rightarrow> realtime \<Rightarrow> realtime" where
  "disconnect_socket client r =
     (if client \<in> set (rl_open r) then
        fold (\<lambda>cl. on_disconnect client (snd cl)) (filter (\<lambda>cl. fst cl = client) (rl_listeners r))
          (r\<lparr>rl_open := removeAll client (rl_open r), rl_rooms := filter (\<lambda>x. fst x \<noteq> client) (rl_rooms r),
             rl_listeners := filter (\<lambda>cl. fst cl \<noteq> client) (rl_listeners r)\<rparr>)
      else r)"

definition disconnect_user :: "uid \<Rightarrow> realtime \<Rightarrow> realtime" where
  "disconnect_user userId r =
     fold disconnect_socket (case rl_parUtilisateur r userId of None \<Rightarrow> [] | Some k \<Rightarrow> rl_sets r k) r"

text \<open>The timers that are due at a moment.\<close>

definition fire_timers :: "time \<Rightarrow> realtime \<Rightarrow> realtime" where
  "fire_timers now r =
     fold disconnect_socket (map fst (filter (\<lambda>cl. li_deadline (snd cl) \<le> now) (rl_listeners r))) r"

section \<open>The gateways\<close>

record server =
  sv_db :: db
  sv_rt :: realtime

definition on_db :: "(db, 'a) act \<Rightarrow> (server, 'a) act" where
  "on_db m = (\<lambda>s. case m (sv_db s) of (r, d) \<Rightarrow> (r, s\<lparr>sv_db := d\<rparr>))"

definition on_rt :: "(realtime, 'a) act \<Rightarrow> (server, 'a) act" where
  "on_rt m = (\<lambda>s. case m (sv_rt s) of (r, t) \<Rightarrow> (r, s\<lparr>sv_rt := t\<rparr>))"

definition handle_connection ::
  "realtime_env \<Rightarrow> time \<Rightarrow> socket \<Rightarrow> handshake \<Rightarrow> (server, unit) act" where
  "handle_connection env now client hs =
     catch (bind (on_rt (authenticate env now hs)) (\<lambda>user.
            bind (on_rt (exec (rl_user_update (\<lambda>m. m(client \<mapsto> user))))) (\<lambda>_.
            on_rt (exec (register env now client (jp_sub user))))))
       (\<lambda>_. on_rt (exec (disconnect_socket client)))"

text \<open>\<open>client.data.user\<close>, whose fields cannot be read before the handshake is done.\<close>

definition socket_user :: "socket \<Rightarrow> (server, jwt_payload) act" where
  "socket_user client =
     bind (query (\<lambda>s. rl_user (sv_rt s) client)) (or_fail (DbError ''TypeError''))"

definition join_room :: "socket \<Rightarrow> chat_room \<Rightarrow> (server, unit) act" where
  "join_room client r = on_rt (exec (rl_rooms_update (set_add (client, r))))"

definition emit_to :: "chat_room \<Rightarrow> event \<Rightarrow> (server, unit) act" where
  "emit_to r e = on_rt (exec (\<lambda>rt. rl_delivered_update
     (\<lambda>ds. ds @ map (\<lambda>x. (fst x, e)) (filter (\<lambda>x. snd x = r) (rl_rooms rt))) rt))"

definition handle_join :: "socket \<Rightarrow> uid \<Rightarrow> (server, unit) act" where
  "handle_join client conversationId =
     bind (socket_user client) (\<lambda>user.
     bind (on_db (assert_access_to_conversation conversationId (jp_sub user))) (\<lambda>_.
     join_room client (Conversation conversationId)))"

definition emit_new_message :: "message \<Rightarrow> (server, unit) act" where
  "emit_new_message m = emit_to (Conversation (mg_conversationId m)) (MessageNew m)"

definition handle_send :: "time \<Rightarrow> socket \<Rightarrow> uid \<Rightarrow> string \<Rightarrow> time \<Rightarrow> (server, message) act" where
  "handle_send now client conversationId content clientSentAt =
     bind (socket_user client) (\<lambda>user.
     bind (on_db (send_message now conversationId (jp_sub user) content clientSentAt)) (\<lambda>m.
     bind (emit_to (Conversation conversationId) (MessageNew m)) (\<lambda>_.
     ret m)))"

definition post_message :: "time \<Rightarrow> jwt_payload \<Rightarrow> uid \<Rightarrow> string \<Rightarrow> time \<Rightarrow> (server, message) act" where
  "post_message now user conversationId content clientSentAt =
     bind (on_db (send_message now conversationId (jp_sub user) content clientSentAt)) (\<lambda>m.
     bind (emit_new_message m) (\<lambda>_.
     ret m))"

definition handle_group_join :: "socket \<Rightarrow> uid \<Rightarrow> (server, unit) act" where
  "handle_group_join client groupId =
     bind (socket_user client) (\<lambda>user.
     bind (on_db (assert_access_to_group groupId (jp_sub user) (jp_role user))) (\<lambda>_.
     join_room client (GroupRoom groupId)))"

definition emit_new_community_message :: "community_shape \<Rightarrow> (server, unit) act" where
  "emit_new_community_message m = emit_to (GroupRoom (cy_groupId m)) (CommunityNew m)"

definition handle_group_send ::
  "time \<Rightarrow> socket \<Rightarrow> uid \<Rightarrow> string \<Rightarrow> time \<Rightarrow> (server, community_shape) act" where
  "handle_group_send now client groupId content clientSentAt =
     bind (socket_user client) (\<lambda>user.
     bind (on_db (send_community_message now groupId (jp_sub user) (jp_role user) content clientSentAt)) (\<lambda>m.
     bind (emit_to (GroupRoom groupId) (CommunityNew m)) (\<lambda>_.
     ret m)))"

definition post_group_message ::
  "time \<Rightarrow> jwt_payload \<Rightarrow> uid \<Rightarrow> string \<Rightarrow> time \<Rightarrow> (server, community_shape) act" where
  "post_group_message now user groupId content clientSentAt =
     bind (on_db (send_community_message now groupId (jp_sub user) (jp_role user) content clientSentAt)) (\<lambda>m.
     bind (emit_new_community_message m) (\<lambda>_.
     ret m))"

text \<open>The end of \<open>POST /auth/logout\<close>, after the refresh token is revoked.\<close>

definition end_sessions :: "jwt_payload \<Rightarrow> (server, unit) act" where
  "end_sessions user = on_rt (exec (disconnect_user (jp_sub user)))"

section \<open>The guards of the routes\<close>

definition validate_access :: "jwt_payload \<Rightarrow> (db, jwt_payload) act" where
  "validate_access payload =
     bind (find_user_by_id (jp_sub payload)) (\<lambda>user.
     bind (require (case user of None \<Rightarrow> False | Some u \<Rightarrow> us_isActive u)
       (Unauthorized ''Compte introuvable ou suspendu'')) (\<lambda>_.
     ret payload))"

definition roles_allowed :: "role list option \<Rightarrow> jwt_payload option \<Rightarrow> bool" where
  "roles_allowed requiredRoles user =
     (case requiredRoles of
        None \<Rightarrow> True
      | Some rs \<Rightarrow> rs = [] \<or> (case user of None \<Rightarrow> False | Some u \<Rightarrow> jp_role u \<in> set rs))"

section \<open>Lemmas\<close>

subsection \<open>Tickets\<close>

lemma consume_run:
  assumes "re_ticketSecret env \<noteq> []"
  shows "consume env now ticket r =
    (case re_verify env ticket now of
       None \<Rightarrow> (Inl (Unauthorized ''Ticket invalide ou expire''), r)
     | Some p \<Rightarrow>
         let left = oublier_expires now (rl_consommes r) in
         if left (tp_jti p) = None
         then (Inr \<lparr>jp_sub = tp_sub p, jp_role = tp_role p, jp_phone = None, jp_email = None\<rparr>,
               r\<lparr>rl_consommes := left(tp_jti p \<mapsto> tp_exp p * 1000)\<rparr>)
         else (Inl (Unauthorized ''Ticket deja utilise''), r\<lparr>rl_consommes := left\<rparr>))"
  using assms by (simp add: consume_def Let_def split: option.split)

text \<open>The identifiers of the tickets that a sequence of presentations gets accepted, in order.\<close>

fun accepted :: "realtime_env \<Rightarrow> (time \<times> string) list \<Rightarrow> realtime \<Rightarrow> string list" where
  "accepted env [] r = []"
| "accepted env ((now, ticket) # cs) r =
     (case consume env now ticket r of
        (Inl e, t) \<Rightarrow> accepted env cs t
      | (Inr user, t) \<Rightarrow> tp_jti (the (re_verify env ticket now)) # accepted env cs t)"

definition presented :: "realtime_env \<Rightarrow> (time \<times> string) list \<Rightarrow> string set" where
  "presented env cs = tp_jti ` set (List.map_filter (\<lambda>(now, ticket). re_verify env ticket now) cs)"

text \<open>
  The contract of the JWT library and of the random identifiers: what verifies has not
  expired, and tickets with one identifier expire together.
\<close>

definition ticket_contract :: "realtime_env \<Rightarrow> bool" where
  "ticket_contract env \<longleftrightarrow>
     (\<forall>ticket now p. re_verify env ticket now = Some p \<longrightarrow> now < tp_exp p * 1000) \<and>
     (\<forall>ticket ticket' now now' p p'. re_verify env ticket now = Some p \<longrightarrow>
        re_verify env ticket' now' = Some p' \<longrightarrow> tp_jti p = tp_jti p' \<longrightarrow> tp_exp p = tp_exp p')"

text \<open>
  Every identifier accepted so far is remembered, or past the expiry of its tickets.
\<close>

definition remembers :: "realtime_env \<Rightarrow> string set \<Rightarrow> time \<Rightarrow> realtime \<Rightarrow> bool" where
  "remembers env used t r \<longleftrightarrow>
     dom (rl_consommes r) \<subseteq> used \<and>
     (\<forall>j \<in> used. \<exists>e. (rl_consommes r j = Some e \<or> e < t) \<and>
        (\<forall>ticket now p. re_verify env ticket now = Some p \<longrightarrow> tp_jti p = j \<longrightarrow> tp_exp p * 1000 = e))"

lemma remembers_later: "remembers env used t r \<Longrightarrow> t \<le> t' \<Longrightarrow> remembers env used t' r"
  unfolding remembers_def by (meson less_le_trans)

lemma remembers_forgets:
  assumes "remembers env used t r" and "t \<le> now"
  shows "remembers env used now (r\<lparr>rl_consommes := oublier_expires now (rl_consommes r)\<rparr>)"
proof -
  have "dom (oublier_expires now (rl_consommes r)) \<subseteq> dom (rl_consommes r)"
    by (auto simp: oublier_expires_def split: option.splits)
  moreover have "oublier_expires now (rl_consommes r) j = Some e \<or> e < now"
    if "rl_consommes r j = Some e \<or> e < t" for j e
    using that assms(2) by (auto simp: oublier_expires_def)
  ultimately show ?thesis
    using assms(1) unfolding remembers_def by (simp add: subset_trans) meson
qed

lemma remembers_more:
  assumes "remembers env used t (r\<lparr>rl_consommes := m\<rparr>)" and "tp_jti p \<notin> used"
    and "ticket_contract env" and "re_verify env ticket now = Some p"
  shows "remembers env (insert (tp_jti p) used) t (r\<lparr>rl_consommes := m(tp_jti p \<mapsto> tp_exp p * 1000)\<rparr>)"
proof -
  let ?m = "m(tp_jti p \<mapsto> tp_exp p * 1000)"
  let ?all = "\<lambda>j e. \<forall>ticket now p. re_verify env ticket now = Some p \<longrightarrow> tp_jti p = j \<longrightarrow> tp_exp p * 1000 = e"
  have "?all (tp_jti p) (tp_exp p * 1000)"
    using assms(3,4) unfolding ticket_contract_def by metis
  then have "\<exists>e. (?m j = Some e \<or> e < t) \<and> ?all j e" if "j \<in> insert (tp_jti p) used" for j
    using that assms(1,2) by (cases "j = tp_jti p") (auto simp: remembers_def)
  moreover have "dom ?m \<subseteq> insert (tp_jti p) used" using assms(1) by (auto simp: remembers_def)
  ultimately show ?thesis by (simp add: remembers_def)
qed

lemma accepted_step:
  assumes env: "ticket_contract env" and rem: "remembers env used now r"
    and p: "re_verify env ticket now = Some p"
  shows "oublier_expires now (rl_consommes r) (tp_jti p) = None \<longleftrightarrow> tp_jti p \<notin> used"
proof
  assume "tp_jti p \<notin> used"
  then show "oublier_expires now (rl_consommes r) (tp_jti p) = None"
    using rem by (auto simp: remembers_def oublier_expires_def split: option.split)
next
  assume none: "oublier_expires now (rl_consommes r) (tp_jti p) = None"
  show "tp_jti p \<notin> used"
  proof
    assume "tp_jti p \<in> used"
    then obtain e where e: "rl_consommes r (tp_jti p) = Some e \<or> e < now" "tp_exp p * 1000 = e"
      using rem p unfolding remembers_def by blast
    moreover have "now < tp_exp p * 1000" using env p unfolding ticket_contract_def by blast
    ultimately show False using none by (auto simp: oublier_expires_def)
  qed
qed

lemma accepted_once:
  assumes env: "ticket_contract env" "re_ticketSecret env \<noteq> []"
  shows "sorted (t # map fst cs) \<Longrightarrow> remembers env used t r \<Longrightarrow>
    distinct (accepted env cs r) \<and> set (accepted env cs r) = presented env cs - used"
proof (induction cs arbitrary: t used r)
  case Nil
  then show ?case by (simp add: presented_def map_filter_simps)
next
  case (Cons c cs)
  obtain now ticket where c: "c = (now, ticket)" by fastforce
  have rem: "remembers env used now r" and sorted: "sorted (now # map fst cs)"
    using Cons.prems remembers_later by (auto simp: c)
  show ?case
  proof (cases "re_verify env ticket now")
    case None
    have "presented env (c # cs) = presented env cs" by (simp add: presented_def c None map_filter_simps)
    then show ?thesis using Cons.IH [OF sorted rem] None by (simp add: c consume_run [OF env(2)])
  next
    case (Some p)
    have pres: "presented env (c # cs) = insert (tp_jti p) (presented env cs)"
      by (simp add: presented_def c Some map_filter_simps)
    let ?left = "oublier_expires now (rl_consommes r)"
    have left: "remembers env used now (r\<lparr>rl_consommes := ?left\<rparr>)" using rem by (rule remembers_forgets) simp
    note step = consume_run [OF env(2), of now ticket r, unfolded Some option.case Let_def]
    show ?thesis
    proof (cases "tp_jti p \<in> used")
      case True
      then have "accepted env (c # cs) r = accepted env cs (r\<lparr>rl_consommes := ?left\<rparr>)"
        using accepted_step [OF env(1) rem Some] by (auto simp: c step)
      then show ?thesis using Cons.IH [OF sorted left] True pres by auto
    next
      case False
      let ?r = "r\<lparr>rl_consommes := ?left(tp_jti p \<mapsto> tp_exp p * 1000)\<rparr>"
      have "accepted env (c # cs) r = tp_jti p # accepted env cs ?r"
        using accepted_step [OF env(1) rem Some] False by (simp add: c step Some)
      moreover have "remembers env (insert (tp_jti p) used) now ?r"
        using left False env(1) Some by (rule remembers_more)
      ultimately show ?thesis using Cons.IH [OF sorted, of "insert (tp_jti p) used" ?r] False pres by auto
    qed
  qed
qed

subsection \<open>The registry\<close>

text \<open>
  The registry is in order: the open sockets are those with a listener; a listener points at
  the set its user has in the map, which holds the socket; and a set of the map is not empty
  and holds sockets of its user only.
\<close>

definition listening :: "realtime \<Rightarrow> (socket \<times> listener) \<Rightarrow> bool" where
  "listening r cl \<longleftrightarrow>
     rl_parUtilisateur r (li_userId (snd cl)) = Some (li_sockets (snd cl)) \<and>
     fst cl \<in> set (rl_sets r (li_sockets (snd cl))) \<and>
     (\<exists>u. rl_user r (fst cl) = Some u \<and> jp_sub u = li_userId (snd cl))"

definition registered :: "realtime \<Rightarrow> uid \<Rightarrow> nat \<Rightarrow> bool" where
  "registered r userId k \<longleftrightarrow>
     k < rl_nextSet r \<and> rl_sets r k \<noteq> [] \<and> distinct (rl_sets r k) \<and>
     (\<forall>c \<in> set (rl_sets r k). \<exists>l. (c, l) \<in> set (rl_listeners r) \<and> li_userId l = userId \<and> li_sockets l = k)"

definition registry_ok :: "realtime \<Rightarrow> bool" where
  "registry_ok r \<longleftrightarrow>
     distinct (rl_open r) \<and> distinct (map fst (rl_listeners r)) \<and>
     set (rl_open r) = fst ` set (rl_listeners r) \<and>
     (\<forall>cl \<in> set (rl_listeners r). listening r cl) \<and>
     (\<forall>userId k. rl_parUtilisateur r userId = Some k \<longrightarrow> registered r userId k) \<and>
     fst ` set (rl_rooms r) \<subseteq> set (rl_open r)"

lemma registry_okD:
  assumes "registry_ok r"
  shows "distinct (rl_open r)" "distinct (map fst (rl_listeners r))" "set (rl_open r) = fst ` set (rl_listeners r)"
    "cl \<in> set (rl_listeners r) \<Longrightarrow> listening r cl"
    "rl_parUtilisateur r userId = Some k \<Longrightarrow> registered r userId k"
    "x \<in> set (rl_rooms r) \<Longrightarrow> fst x \<in> set (rl_open r)"
    "(c, l) \<in> set (rl_listeners r) \<Longrightarrow> (c, m) \<in> set (rl_listeners r) \<Longrightarrow> l = m"
    "c \<in> set (rl_open r) \<Longrightarrow> \<exists>l. (c, l) \<in> set (rl_listeners r)"
    "(c, l) \<in> set (rl_listeners r) \<Longrightarrow> c \<in> set (rl_open r)"
proof -
  show "distinct (rl_open r)" "distinct (map fst (rl_listeners r))" "set (rl_open r) = fst ` set (rl_listeners r)"
    "cl \<in> set (rl_listeners r) \<Longrightarrow> listening r cl" "rl_parUtilisateur r userId = Some k \<Longrightarrow> registered r userId k"
    "x \<in> set (rl_rooms r) \<Longrightarrow> fst x \<in> set (rl_open r)"
    using assms unfolding registry_ok_def by blast+
  then show "(c, l) \<in> set (rl_listeners r) \<Longrightarrow> (c, m) \<in> set (rl_listeners r) \<Longrightarrow> l = m"
    "c \<in> set (rl_open r) \<Longrightarrow> \<exists>l. (c, l) \<in> set (rl_listeners r)"
    "(c, l) \<in> set (rl_listeners r) \<Longrightarrow> c \<in> set (rl_open r)"
    by (auto intro: eq_key_imp_eq_value) (metis fst_conv image_eqI)
qed

lemma registry_empty: "registry_ok no_realtime"
  by (simp add: registry_ok_def no_realtime_def)

lemma set_owner:
  assumes ok: "registry_ok r" and u: "rl_parUtilisateur r u = Some k" and v: "rl_parUtilisateur r v = Some k"
  shows "u = v"
proof -
  note reg = registry_okD(5) [OF ok u] registry_okD(5) [OF ok v]
  obtain c where c: "c \<in> set (rl_sets r k)" using reg(1) last_in_set by (auto simp: registered_def)
  obtain l m where "(c, l) \<in> set (rl_listeners r)" "li_userId l = u" "(c, m) \<in> set (rl_listeners r)" "li_userId m = v"
    using reg c unfolding registered_def by blast
  then show ?thesis using registry_okD(7) [OF ok] by blast
qed

lemma filter_listener:
  "distinct (map fst ls) \<Longrightarrow> (c, l) \<in> set ls \<Longrightarrow> filter (\<lambda>cl. fst cl = c) ls = [(c, l)]"
proof (induction ls)
  case (Cons a ls)
  show ?case
  proof (cases "a = (c, l)")
    case True
    then have "filter (\<lambda>cl. fst cl = c) ls = []" using Cons.prems(1) by (auto simp: filter_empty_conv image_iff)
    then show ?thesis using True by simp
  next
    case False
    then have l: "(c, l) \<in> set ls" using Cons.prems(2) by simp
    then have "fst a \<noteq> c" using Cons.prems(1) by (auto simp: image_iff)
    then show ?thesis using Cons.IH Cons.prems(1) l by simp
  qed
qed simp

lemma disconnect_socket_run:
  assumes "registry_ok r" and "(c, l) \<in> set (rl_listeners r)"
  shows "disconnect_socket c r = on_disconnect c l (r\<lparr>rl_open := removeAll c (rl_open r),
    rl_rooms := filter (\<lambda>x. fst x \<noteq> c) (rl_rooms r), rl_listeners := filter (\<lambda>cl. fst cl \<noteq> c) (rl_listeners r)\<rparr>)"
  using registry_okD(9) [OF assms] filter_listener [OF registry_okD(2) [OF assms(1)] assms(2)]
  by (simp add: disconnect_socket_def)

lemma disconnect_closed: "c \<notin> set (rl_open r) \<Longrightarrow> disconnect_socket c r = r"
  by (simp add: disconnect_socket_def)

lemma disconnect_keeps_open:
  assumes ok: "registry_ok r" and l: "(c, l) \<in> set (rl_listeners r)"
  shows "registry_ok (disconnect_socket c r)"
proof -
  define k xs where "k = li_sockets l" and "xs = removeAll c (rl_sets r k)"
  let ?r = "disconnect_socket c r"
  have r: "rl_open ?r = removeAll c (rl_open r)" "rl_rooms ?r = filter (\<lambda>x. fst x \<noteq> c) (rl_rooms r)"
    "rl_listeners ?r = filter (\<lambda>cl. fst cl \<noteq> c) (rl_listeners r)" "rl_sets ?r = (rl_sets r)(k := xs)"
    "rl_parUtilisateur ?r = (if xs = [] then (rl_parUtilisateur r)(li_userId l := None) else rl_parUtilisateur r)"
    "rl_user ?r = rl_user r" "rl_nextSet ?r = rl_nextSet r"
    unfolding disconnect_socket_run [OF ok l] by (simp_all add: on_disconnect_def Let_def k_def xs_def)
  have lk: "rl_parUtilisateur r (li_userId l) = Some k"
    using registry_okD(4) [OF ok l] by (simp add: listening_def k_def)
  have unique: "(c, m) \<in> set (rl_listeners r) \<Longrightarrow> m = l" for m using registry_okD(7) [OF ok _ l] by simp
  have "listening ?r cl" if "cl \<in> set (rl_listeners ?r)" for cl
  proof -
    have cl: "listening r cl" "fst cl \<noteq> c" using registry_okD(4) [OF ok, of cl] that by (auto simp: r)
    show ?thesis
    proof (cases "li_sockets (snd cl) = k")
      case True
      then have "fst cl \<in> set xs" using cl by (simp add: listening_def xs_def)
      then show ?thesis using cl True by (auto simp: listening_def r)
    next
      case False
      then have "li_userId (snd cl) \<noteq> li_userId l" using cl lk by (auto simp: listening_def)
      then show ?thesis using cl False by (simp add: listening_def r)
    qed
  qed
  moreover have "registered ?r v k'" if v: "rl_parUtilisateur ?r v = Some k'" for v k'
  proof -
    have v': "rl_parUtilisateur r v = Some k'" using v by (auto simp: r split: if_splits)
    have reg: "registered r v k'" using registry_okD(5) [OF ok v'] .
    have "xs \<noteq> []" if "k' = k" using set_owner [OF ok lk] v v' that by (auto simp: r)
    moreover have "d \<noteq> c" if "d \<in> set (rl_sets r k')" "k' \<noteq> k" for d
      using reg that unique by (fastforce simp: registered_def k_def)
    ultimately show ?thesis using reg unfolding registered_def r by (auto simp: xs_def distinct_removeAll)
  qed
  moreover have "distinct (rl_open ?r)" "distinct (map fst (rl_listeners ?r))"
    using registry_okD(1,2) [OF ok] by (simp_all add: r distinct_map_filter distinct_removeAll)
  moreover have "set (rl_open ?r) = fst ` set (rl_listeners ?r)"
    using registry_okD(3) [OF ok] by (auto simp: r)
  moreover have "fst ` set (rl_rooms ?r) \<subseteq> set (rl_open ?r)"
    using registry_okD(6) [OF ok] by (auto simp: r)
  ultimately show ?thesis unfolding registry_ok_def by blast
qed

lemma disconnect_keeps:
  assumes ok: "registry_ok r"
  shows "registry_ok (disconnect_socket c r)"
    "rl_listeners (disconnect_socket c r) = filter (\<lambda>cl. fst cl \<noteq> c) (rl_listeners r)"
    "rl_user (disconnect_socket c r) = rl_user r" "rl_delivered (disconnect_socket c r) = rl_delivered r"
    "set (rl_rooms (disconnect_socket c r)) \<subseteq> set (rl_rooms r)"
proof -
  have "registry_ok (disconnect_socket c r) \<and>
    rl_listeners (disconnect_socket c r) = filter (\<lambda>cl. fst cl \<noteq> c) (rl_listeners r) \<and>
    rl_user (disconnect_socket c r) = rl_user r \<and> rl_delivered (disconnect_socket c r) = rl_delivered r \<and>
    set (rl_rooms (disconnect_socket c r)) \<subseteq> set (rl_rooms r)"
  proof (cases "c \<in> set (rl_open r)")
    case True
    then obtain l where l: "(c, l) \<in> set (rl_listeners r)" using registry_okD(8) [OF ok] by blast
    then show ?thesis using disconnect_keeps_open [OF ok l]
      by (auto simp: disconnect_socket_run [OF ok l] on_disconnect_def Let_def)
  next
    case False
    then have "filter (\<lambda>cl. fst cl \<noteq> c) (rl_listeners r) = rl_listeners r"
      using registry_okD(3) [OF ok] by (intro filter_True) auto
    then show ?thesis using ok by (simp add: disconnect_closed [OF False])
  qed
  then show "registry_ok (disconnect_socket c r)"
    "rl_listeners (disconnect_socket c r) = filter (\<lambda>cl. fst cl \<noteq> c) (rl_listeners r)"
    "rl_user (disconnect_socket c r) = rl_user r" "rl_delivered (disconnect_socket c r) = rl_delivered r"
    "set (rl_rooms (disconnect_socket c r)) \<subseteq> set (rl_rooms r)" by blast+
qed

lemma disconnect_all:
  assumes "registry_ok r"
  shows "registry_ok (fold disconnect_socket cs r) \<and>
    rl_listeners (fold disconnect_socket cs r) = filter (\<lambda>cl. fst cl \<notin> set cs) (rl_listeners r) \<and>
    rl_user (fold disconnect_socket cs r) = rl_user r \<and>
    rl_delivered (fold disconnect_socket cs r) = rl_delivered r \<and>
    set (rl_rooms (fold disconnect_socket cs r)) \<subseteq> set (rl_rooms r)"
  using assms
proof (induction cs arbitrary: r)
  case (Cons c cs)
  show ?case using Cons.IH [OF disconnect_keeps(1) [OF Cons.prems]] disconnect_keeps [OF Cons.prems, of c]
    by (auto simp: filter_filter conj_commute)
qed simp

lemma disconnect_user_spec:
  assumes ok: "registry_ok r"
  shows "registry_ok (disconnect_user u r) \<and>
    rl_listeners (disconnect_user u r) = filter (\<lambda>cl. li_userId (snd cl) \<noteq> u) (rl_listeners r)"
proof -
  define cs where "cs = (case rl_parUtilisateur r u of None \<Rightarrow> [] | Some k \<Rightarrow> rl_sets r k)"
  have "fst cl \<in> set cs \<longleftrightarrow> li_userId (snd cl) = u" if cl: "cl \<in> set (rl_listeners r)" for cl
  proof
    assume "li_userId (snd cl) = u"
    then show "fst cl \<in> set cs" using registry_okD(4) [OF ok cl] by (simp add: listening_def cs_def)
  next
    assume "fst cl \<in> set cs"
    then obtain k where "rl_parUtilisateur r u = Some k" "fst cl \<in> set (rl_sets r k)"
      by (cases "rl_parUtilisateur r u") (auto simp: cs_def)
    then obtain l where "(fst cl, l) \<in> set (rl_listeners r)" "li_userId l = u"
      using registry_okD(5) [OF ok] unfolding registered_def by blast
    moreover have "snd cl = l" using registry_okD(7) [OF ok _ calculation(1), of "snd cl"] cl by simp
    ultimately show "li_userId (snd cl) = u" by simp
  qed
  then have "filter (\<lambda>cl. fst cl \<notin> set cs) (rl_listeners r) = filter (\<lambda>cl. li_userId (snd cl) \<noteq> u) (rl_listeners r)"
    by (intro filter_cong) auto
  then show ?thesis using disconnect_all [OF ok, of cs] by (simp add: disconnect_user_def cs_def)
qed

definition opened :: "socket \<Rightarrow> realtime \<Rightarrow> realtime" where
  "opened c = rl_open_update (\<lambda>cs. cs @ [c])"

lemma register_fields:
  assumes "register env now c u r = r'"
  shows "rl_open r' = rl_open r" "rl_rooms r' = rl_rooms r" "rl_user r' = rl_user r" "rl_delivered r' = rl_delivered r"
    "rl_consommes r' = rl_consommes r"
  using assms by (auto simp: register_def socket_set_of_def Let_def split: option.splits)

lemma register_keeps:
  assumes ok: "registry_ok r" and new: "c \<notin> set (rl_open r)"
    and user: "rl_user r' = (rl_user r)(c \<mapsto> user)" and r': "rl_open r' = rl_open r @ [c]" "rl_rooms r' = rl_rooms r"
      "rl_listeners r' = rl_listeners r" "rl_sets r' = rl_sets r" "rl_parUtilisateur r' = rl_parUtilisateur r"
      "rl_nextSet r' = rl_nextSet r"
  shows "registry_ok (register env now c (jp_sub user) r')"
proof -
  let ?u = "jp_sub user" and ?r = "register env now c (jp_sub user) r'"
  define k where "k = (case rl_parUtilisateur r ?u of Some k \<Rightarrow> k | None \<Rightarrow> rl_nextSet r)"
  define old where "old = (case rl_parUtilisateur r ?u of Some k \<Rightarrow> rl_sets r k | None \<Rightarrow> [])"
  define l where "l = \<lparr>li_userId = ?u, li_sockets = k, li_deadline = now + re_sessionMaxMinutes env * 60000\<rparr>"
  have below: "k' < rl_nextSet r" if "rl_parUtilisateur r v = Some k'" for v k'
    using registry_okD(5) [OF ok that] by (simp add: registered_def)
  have inside: "d \<in> set (rl_open r)" if "rl_parUtilisateur r v = Some k'" "d \<in> set (rl_sets r k')" for d v k'
    using registry_okD(5) [OF ok that(1)] registry_okD(9) [OF ok] that(2) by (auto simp: registered_def)
  have c_old: "c \<notin> set old" using inside new by (cases "rl_parUtilisateur r ?u") (auto simp: old_def)
  have r: "rl_open ?r = rl_open r @ [c]" "rl_rooms ?r = rl_rooms r" "rl_listeners ?r = rl_listeners r @ [(c, l)]"
    "rl_sets ?r = (rl_sets r)(k := old @ [c])" "rl_parUtilisateur ?r = (rl_parUtilisateur r)(?u \<mapsto> k)"
    "rl_user ?r = (rl_user r)(c \<mapsto> user)" "k < rl_nextSet ?r" "rl_nextSet r \<le> rl_nextSet ?r"
  proof -
    have "rl_open ?r = rl_open r @ [c] \<and> rl_rooms ?r = rl_rooms r \<and> rl_listeners ?r = rl_listeners r @ [(c, l)] \<and>
      rl_sets ?r = (rl_sets r)(k := old @ [c]) \<and> rl_parUtilisateur ?r = (rl_parUtilisateur r)(?u \<mapsto> k) \<and>
      rl_user ?r = (rl_user r)(c \<mapsto> user) \<and> k < rl_nextSet ?r \<and> rl_nextSet r \<le> rl_nextSet ?r"
    proof (cases "rl_parUtilisateur r ?u")
      case None
      then have "k = rl_nextSet r" "old = []" by (simp_all add: k_def old_def)
      then show ?thesis using None by (simp add: register_def socket_set_of_def set_add_def l_def user r')
    next
      case (Some k')
      then have k: "k' = k" "rl_sets r k = old" by (simp_all add: k_def old_def)
      then have "socket_set_of ?u r' = (k, r')" "k < rl_nextSet r" "rl_sets r' k = old"
        using Some below [OF Some] by (simp_all add: socket_set_of_def r')
      then show ?thesis using c_old by (simp add: register_def set_add_def l_def user r')
    qed
    then show "rl_open ?r = rl_open r @ [c]" "rl_rooms ?r = rl_rooms r" "rl_listeners ?r = rl_listeners r @ [(c, l)]"
      "rl_sets ?r = (rl_sets r)(k := old @ [c])" "rl_parUtilisateur ?r = (rl_parUtilisateur r)(?u \<mapsto> k)"
      "rl_user ?r = (rl_user r)(c \<mapsto> user)" "k < rl_nextSet ?r" "rl_nextSet r \<le> rl_nextSet ?r"
      by blast+
  qed
  have other: "k' \<noteq> k" if "rl_parUtilisateur r v = Some k'" "v \<noteq> ?u" for v k'
  proof (cases "rl_parUtilisateur r ?u")
    case None
    then show ?thesis using below [OF that(1)] by (simp add: k_def)
  next
    case (Some m)
    then show ?thesis using set_owner [OF ok that(1), of ?u] that(2) by (auto simp: k_def)
  qed
  have kept: "rl_parUtilisateur r ?u = Some k' \<Longrightarrow> k = k' \<and> old = rl_sets r k'" for k'
    by (simp add: k_def old_def)
  have "listening ?r cl" if "cl \<in> set (rl_listeners ?r)" for cl
  proof (cases "cl = (c, l)")
    case True
    then show ?thesis by (simp add: listening_def r l_def)
  next
    case False
    then have cl: "cl \<in> set (rl_listeners r)" using that by (simp add: r)
    then have "fst cl \<noteq> c" using registry_okD(3) [OF ok] new by auto
    have here: "rl_parUtilisateur r (li_userId (snd cl)) = Some (li_sockets (snd cl))"
      "fst cl \<in> set (rl_sets r (li_sockets (snd cl)))" "\<exists>u. rl_user r (fst cl) = Some u \<and> jp_sub u = li_userId (snd cl)"
      using registry_okD(4) [OF ok cl] by (auto simp: listening_def)
    show ?thesis
    proof (cases "li_userId (snd cl) = ?u")
      case True
      then have "k = li_sockets (snd cl)" "old = rl_sets r (li_sockets (snd cl))" using kept here(1) by auto
      then show ?thesis using here True \<open>fst cl \<noteq> c\<close> by (simp add: listening_def r)
    next
      case False
      then show ?thesis using here other [OF here(1) False] \<open>fst cl \<noteq> c\<close> by (simp add: listening_def r)
    qed
  qed
  moreover have "registered ?r v k'" if v: "rl_parUtilisateur ?r v = Some k'" for v k'
  proof (cases "v = ?u")
    case True
    have "distinct old \<and> (\<forall>d \<in> set old. \<exists>m. (d, m) \<in> set (rl_listeners r) \<and> li_userId m = ?u \<and> li_sockets m = k)"
      using registry_okD(5) [OF ok, of ?u] kept by (cases "rl_parUtilisateur r ?u") (auto simp: old_def registered_def)
    moreover have "k' = k" using v True by (simp add: r)
    ultimately show ?thesis using True c_old r(7) unfolding registered_def r by (auto simp: l_def)
  next
    case False
    then have v': "rl_parUtilisateur r v = Some k'" using v by (simp add: r)
    show ?thesis using registry_okD(5) [OF ok v'] other [OF v' False] r(8) unfolding registered_def r by auto
  qed
  moreover have "distinct (rl_open ?r)" "distinct (map fst (rl_listeners ?r))"
    "set (rl_open ?r) = fst ` set (rl_listeners ?r)" "fst ` set (rl_rooms ?r) \<subseteq> set (rl_open ?r)"
    using registry_okD(1,2,3,6) [OF ok] new by (auto simp: r)
  ultimately show ?thesis unfolding registry_ok_def by blast
qed

subsection \<open>What a gateway call leaves alone\<close>

text \<open>Who may hear what goes to a room.\<close>

fun may_enter :: "db \<Rightarrow> jwt_payload \<Rightarrow> chat_room \<Rightarrow> bool" where
  "may_enter d u (Conversation i) \<longleftrightarrow> (\<exists>c. fst (assert_access_to_conversation i (jp_sub u) d) = Inr c)"
| "may_enter d u (GroupRoom g) \<longleftrightarrow> (\<exists>c. fst (assert_access_to_group g (jp_sub u) (jp_role u) d) = Inr c)"

fun room_of :: "event \<Rightarrow> chat_room" where
  "room_of (MessageNew m) = Conversation (mg_conversationId m)"
| "room_of (CommunityNew y) = GroupRoom (cy_groupId y)"

definition same_members :: "db \<Rightarrow> db \<Rightarrow> bool" where
  "same_members d d' \<longleftrightarrow>
     db_conversations d' = db_conversations d \<and> db_bookings d' = db_bookings d \<and> db_groups d' = db_groups d \<and>
     db_agencies d' = db_agencies d \<and> db_users d' = db_users d"

lemma fst_bind_cong:
  assumes "fst (m s) = fst (m s')" and "reads_only m" and "\<And>x. fst (f x s) = fst (f x s')"
  shows "fst (bind m f s) = fst (bind m f s')"
proof -
  have "snd (m s) = s" "snd (m s') = s'" using assms(2) by (simp_all add: reads_only_def)
  then show ?thesis using assms(1,3)
    by (cases "m s"; cases "m s'") (auto simp: bind_def split: sum.split)
qed

lemma same_members_enter:
  assumes d: "same_members d d'"
  shows "may_enter d' u r = may_enter d u r"
proof -
  have owner: "fst (find_by_owner_or_fail i d') = fst (find_by_owner_or_fail i d)"
    and agency: "fst (find_agency_by_id_or_fail i d') = fst (find_agency_by_id_or_fail i d)"
    and booking: "fst (find_booking_or_fail i d') = fst (find_booking_or_fail i d)"
    and grp: "fst (find_group_or_fail i d') = fst (find_group_or_fail i d)" for i
    using d by (simp_all add: same_members_def find_by_owner_or_fail_run find_agency_by_id_or_fail_run
        find_booking_or_fail_run find_group_or_fail_run split: option.split)
  have conv: "fst (find_conversation_or_fail i d') = fst (find_conversation_or_fail i d)" for i
    using d by (simp add: same_members_def find_conversation_or_fail_def or_fail_def split: option.split)
  have fixed: "fst (ret x d') = fst (ret x d)" "fst (require b e d') = fst (require b e d)"
    "fst (or_fail e y d') = fst (or_fail e y d)" for x :: 'x and b e and y :: "'y option"
    by (simp_all add: or_fail_def split: option.split)
  note rules = fst_bind_cong conv booking agency grp owner fixed reads_intro
  have "fst (resolve_participants b c d') = fst (resolve_participants b c d)" for b c
    unfolding resolve_participants_def by (cases "c = CH_AGENCY") (simp_all, (intro rules)+)
  then have "fst (assert_participant b c i d') = fst (assert_participant b c i d)" for b c i
    unfolding assert_participant_def by (intro fst_bind_cong fixed reads_intro)
  then have "fst (assert_access_to_conversation i j d') = fst (assert_access_to_conversation i j d)" for i j
    unfolding assert_access_to_conversation_def by (intro fst_bind_cong conv booking fixed reads_intro)
  moreover have "fst (assert_access_to_group g i j d') = fst (assert_access_to_group g i j d)" for g i j
    unfolding assert_access_to_group_def find_group_authorized_def
    by (intro fst_bind_cong grp fixed reads_intro) (simp, intro impI fst_bind_cong owner fixed reads_intro)
  ultimately show ?thesis by (cases r) simp_all
qed

lemma only_messages_members: "only_messages s t \<Longrightarrow> same_members s t"
  by (cases s; cases t) (auto simp: only_messages_def same_members_def)

lemma same_members_refl: "same_members d d"
  by (simp add: same_members_def)

lemma same_members_stable:
  "ignores_messages (same_members d)"
  "same_members d s \<Longrightarrow> same_members d (db_messages_update f (s\<lparr>db_next := n\<rparr>))"
  "same_members d s \<Longrightarrow> same_members d (db_communityMessages_update g (s\<lparr>db_next := n\<rparr>))"
  using only_messages_members by (auto simp: ignores_messages_def same_members_def)

lemma sending_keeps_members:
  "keeps (same_members d) (send_message now i j content sentAt)"
  "keeps (same_members d) (send_community_message now g j r content sentAt)"
proof -
  show "keeps (same_members d) (send_message now i j content sentAt)"
    unfolding send_message_def Let_def
    by (intro keeps_intro reads_messaging [THEN keeps_reads] same_members_stable)
  show "keeps (same_members d) (send_community_message now g j r content sentAt)"
    unfolding send_community_message_def related_def
    by (intro keeps_intro reads_messaging [THEN keeps_reads] same_members_stable)
qed

lemma sent_to_its_room:
  "send_message now i j content sentAt d = (Inr m, d') \<Longrightarrow> room_of (MessageNew m) = Conversation i"
  "send_community_message now g j r content sentAt d = (Inr y, d') \<Longrightarrow> room_of (CommunityNew y) = GroupRoom g"
  by (auto simp: send_message_def send_community_message_def bind_ok create_row_ok Let_def
      new_private_message_def to_community_shape_def)

subsection \<open>The server\<close>

definition hearing_ok :: "server \<Rightarrow> bool" where
  "hearing_ok s \<longleftrightarrow>
     registry_ok (sv_rt s) \<and>
     (\<forall>x \<in> set (rl_rooms (sv_rt s)). \<exists>u. rl_user (sv_rt s) (fst x) = Some u \<and> may_enter (sv_db s) u (snd x)) \<and>
     (\<forall>x \<in> set (rl_delivered (sv_rt s)). \<exists>u. rl_user (sv_rt s) (fst x) = Some u \<and>
        may_enter (sv_db s) u (room_of (snd x)))"

lemma hearing_db: "hearing_ok s \<Longrightarrow> same_members (sv_db s) d \<Longrightarrow> hearing_ok (s\<lparr>sv_db := d\<rparr>)"
  using same_members_enter by (simp add: hearing_ok_def)

lemma registry_rooms:
  "registry_ok r \<Longrightarrow> fst ` set (f (rl_rooms r)) \<subseteq> set (rl_open r) \<Longrightarrow> registry_ok (rl_rooms_update f r)"
  "registry_ok r \<Longrightarrow> registry_ok (rl_delivered_update g r)"
  "registry_ok r \<Longrightarrow> registry_ok (rl_consommes_update h r)"
  by (auto simp: registry_ok_def listening_def registered_def)

lemma hearing_emit: "hearing_ok s \<Longrightarrow> hearing_ok (snd (emit_to (room_of e) e s))"
  by (auto simp: hearing_ok_def emit_to_def on_rt_def registry_rooms)

lemma hearing_enter:
  assumes "hearing_ok s" and "rl_user (sv_rt s) c = Some u" and "c \<in> set (rl_open (sv_rt s))"
    and "may_enter (sv_db s) u r"
  shows "hearing_ok (snd (join_room c r s))"
  using assms registry_okD(6) [of "sv_rt s"]
  by (auto simp: hearing_ok_def join_room_def on_rt_def set_add_def intro!: registry_rooms split: if_splits)

lemma hearing_close:
  assumes "hearing_ok s"
  shows "hearing_ok (s\<lparr>sv_rt := fold disconnect_socket cs (sv_rt s)\<rparr>)"
  using assms disconnect_all [of "sv_rt s" cs] by (auto simp: hearing_ok_def)

lemma on_db_run: "m (sv_db s) = (x, d) \<Longrightarrow> on_db m s = (x, s\<lparr>sv_db := d\<rparr>)"
  by (simp add: on_db_def)

lemma hearing_send:
  assumes "hearing_ok s" and "keeps (same_members (sv_db s)) m"
    and "\<And>v d. m (sv_db s) = (Inr v, d) \<Longrightarrow> room_of (e v) = r"
  shows "hearing_ok (snd (bind (on_db m) (\<lambda>v. bind (emit_to r (e v)) (\<lambda>_. ret v)) s))"
proof -
  obtain x d where m: "m (sv_db s) = (x, d)" by fastforce
  have d: "hearing_ok (s\<lparr>sv_db := d\<rparr>)"
    using assms(1) keepsD [OF assms(2) same_members_refl m] by (rule hearing_db)
  show ?thesis
  proof (cases x)
    case (Inr v)
    then have "hearing_ok (snd (emit_to r (e v) (s\<lparr>sv_db := d\<rparr>)))"
      using hearing_emit [OF d, of "e v"] assms(3) m by simp
    then show ?thesis using m Inr by (simp add: on_db_run emit_to_def on_rt_def)
  qed (use d m in \<open>simp add: on_db_run\<close>)
qed

lemma socket_user_run: "socket_user c s =
    (case rl_user (sv_rt s) c of None \<Rightarrow> (Inl (DbError ''TypeError''), s) | Some u \<Rightarrow> (Inr u, s))"
  by (simp add: socket_user_def split: option.split)

lemma hearing_join_checked:
  assumes "hearing_ok s" and "c \<in> set (rl_open (sv_rt s))" and "reads_only (m u)"
    and "rl_user (sv_rt s) c = Some u" and "\<And>v. fst (m u (sv_db s)) = Inr v \<Longrightarrow> may_enter (sv_db s) u r"
  shows "hearing_ok (snd (bind (on_db (m u)) (\<lambda>_. join_room c r) s))"
proof -
  obtain x where m: "m u (sv_db s) = (x, sv_db s)" using assms(3) by (metis prod.collapse reads_only_def)
  then have run: "on_db (m u) s = (x, s)" by (simp add: on_db_def)
  show ?thesis
    using assms m run hearing_enter [OF assms(1,4,2)] by (cases x) auto
qed

lemma authenticate_only: "\<exists>x m. authenticate env now hs r = (x, r\<lparr>rl_consommes := m\<rparr>)"
proof -
  have same: "r\<lparr>rl_consommes := rl_consommes r\<rparr> = r" by simp
  have "\<exists>x m. consume env now ticket r = (x, r\<lparr>rl_consommes := m\<rparr>)" for ticket
  proof (cases "re_ticketSecret env = []")
    case True
    then have "consume env now ticket r = (Inl (Unauthorized ''Temps reel non configure''), r\<lparr>rl_consommes := rl_consommes r\<rparr>)"
      by (simp add: consume_def)
    then show ?thesis by blast
  next
    case False
    show ?thesis unfolding consume_run [OF False] Let_def
      using same by (auto split: option.split intro: exI [of _ "rl_consommes r"])
  qed
  moreover have "\<exists>x m. bind (require b e) (\<lambda>_. or_fail e' y) r = (x, r\<lparr>rl_consommes := m\<rparr>)"
    for b e e' and y :: "jwt_payload option"
    by (intro exI [of _ "fst (bind (require b e) (\<lambda>_. or_fail e' y) r)"] exI [of _ "rl_consommes r"])
      (cases b; cases y; simp)
  ultimately show ?thesis unfolding authenticate_def by simp
qed

lemma hearing_connect:
  assumes ok: "hearing_ok s" and new: "c \<notin> set (rl_open (sv_rt s))" "rl_user (sv_rt s) c = None"
  shows "hearing_ok (snd (handle_connection env now c hs (s\<lparr>sv_rt := opened c (sv_rt s)\<rparr>)))"
proof -
  let ?r = "sv_rt s"
  have reg: "registry_ok ?r" using ok by (simp add: hearing_ok_def)
  obtain x m where a: "authenticate env now hs (opened c ?r) = (x, (opened c ?r)\<lparr>rl_consommes := m\<rparr>)"
    using authenticate_only by blast
  show ?thesis
  proof (cases x)
    case (Inl e)
    have none: "filter (\<lambda>cl. fst cl = c) (rl_listeners ?r) = []" "filter (\<lambda>cl. fst cl \<noteq> c) (rl_listeners ?r) = rl_listeners ?r"
      "filter (\<lambda>x. fst x \<noteq> c) (rl_rooms ?r) = rl_rooms ?r" "removeAll c (rl_open ?r) = rl_open ?r"
      using registry_okD(3,6) [OF reg] new(1) by (auto simp: filter_empty_conv filter_id_conv removeAll_id)
    have "snd (handle_connection env now c hs (s\<lparr>sv_rt := opened c ?r\<rparr>)) = s\<lparr>sv_rt := ?r\<lparr>rl_consommes := m\<rparr>\<rparr>"
      using a Inl by (simp add: handle_connection_def on_rt_def catch_def bind_def disconnect_socket_def opened_def none)
    then show ?thesis using ok reg by (simp add: hearing_ok_def registry_rooms(3))
  next
    case (Inr user)
    let ?r' = "rl_user_update (\<lambda>u. u(c \<mapsto> user)) ((opened c ?r)\<lparr>rl_consommes := m\<rparr>)"
    let ?t = "register env now c (jp_sub user) ?r'"
    have "registry_ok ?t"
      by (rule register_keeps [OF reg new(1)]) (simp_all add: opened_def)
    moreover have "rl_rooms ?t = rl_rooms ?r" "rl_delivered ?t = rl_delivered ?r"
      "rl_user ?t = (rl_user ?r)(c \<mapsto> user)"
      by (simp_all add: register_fields [OF refl] opened_def)
    moreover have "snd (handle_connection env now c hs (s\<lparr>sv_rt := opened c ?r\<rparr>)) = s\<lparr>sv_rt := ?t\<rparr>"
      using a Inr by (simp add: handle_connection_def on_rt_def catch_def bind_def opened_def)
    ultimately show ?thesis using ok new(2) by (fastforce simp: hearing_ok_def)
  qed
qed

subsection \<open>The gateways as a machine\<close>

datatype gateway_call =
    GConnect time socket handshake
  | GDisconnect socket
  | GTimers time
  | GLogout jwt_payload
  | GJoin socket uid
  | GSend time socket uid string time
  | GPost time jwt_payload uid string time
  | GGroupJoin socket uid
  | GGroupSend time socket uid string time
  | GGroupPost time jwt_payload uid string time

fun gateway_step :: "realtime_env \<Rightarrow> gateway_call \<Rightarrow> server \<Rightarrow> server" where
  "gateway_step env (GConnect now c hs) s =
     snd (handle_connection env now c hs (s\<lparr>sv_rt := opened c (sv_rt s)\<rparr>))"
| "gateway_step env (GDisconnect c) s = s\<lparr>sv_rt := disconnect_socket c (sv_rt s)\<rparr>"
| "gateway_step env (GTimers now) s = s\<lparr>sv_rt := fire_timers now (sv_rt s)\<rparr>"
| "gateway_step env (GLogout user) s = snd (end_sessions user s)"
| "gateway_step env (GJoin c i) s = snd (handle_join c i s)"
| "gateway_step env (GSend now c i content sentAt) s = snd (handle_send now c i content sentAt s)"
| "gateway_step env (GPost now user i content sentAt) s = snd (post_message now user i content sentAt s)"
| "gateway_step env (GGroupJoin c g) s = snd (handle_group_join c g s)"
| "gateway_step env (GGroupSend now c g content sentAt) s = snd (handle_group_send now c g content sentAt s)"
| "gateway_step env (GGroupPost now user g content sentAt) s = snd (post_group_message now user g content sentAt s)"

text \<open>A connection is a new socket, and only an open socket sends events.\<close>

fun gateway_allowed :: "gateway_call \<Rightarrow> server \<Rightarrow> bool" where
  "gateway_allowed (GConnect now c hs) s \<longleftrightarrow> c \<notin> set (rl_open (sv_rt s)) \<and> rl_user (sv_rt s) c = None"
| "gateway_allowed (GJoin c i) s \<longleftrightarrow> c \<in> set (rl_open (sv_rt s))"
| "gateway_allowed (GSend now c i content sentAt) s \<longleftrightarrow> c \<in> set (rl_open (sv_rt s))"
| "gateway_allowed (GGroupJoin c g) s \<longleftrightarrow> c \<in> set (rl_open (sv_rt s))"
| "gateway_allowed (GGroupSend now c g content sentAt) s \<longleftrightarrow> c \<in> set (rl_open (sv_rt s))"
| "gateway_allowed _ s \<longleftrightarrow> True"

lemma hearing_message:
  "hearing_ok s \<Longrightarrow> hearing_ok (snd (bind (on_db (send_message now i j content sentAt))
     (\<lambda>m. bind (emit_to (Conversation i) (MessageNew m)) (\<lambda>_. ret m)) s))"
  "hearing_ok s \<Longrightarrow> hearing_ok (snd (bind (on_db (send_community_message now g j r content sentAt))
     (\<lambda>m. bind (emit_to (GroupRoom g) (CommunityNew m)) (\<lambda>_. ret m)) s))"
  by (rule hearing_send, assumption, rule sending_keeps_members, erule sent_to_its_room)+

lemma posted_alike:
  "snd (bind (on_db (send_message now i j content sentAt)) (\<lambda>m. bind (emit_new_message m) (\<lambda>_. ret m)) s) =
   snd (bind (on_db (send_message now i j content sentAt)) (\<lambda>m. bind (emit_to (Conversation i) (MessageNew m)) (\<lambda>_. ret m)) s)"
  "snd (bind (on_db (send_community_message now g j r content sentAt)) (\<lambda>m. bind (emit_new_community_message m) (\<lambda>_. ret m)) s) =
   snd (bind (on_db (send_community_message now g j r content sentAt)) (\<lambda>m. bind (emit_to (GroupRoom g) (CommunityNew m)) (\<lambda>_. ret m)) s)"
  using sent_to_its_room
  by (auto simp: bind_def on_db_def emit_new_message_def emit_new_community_message_def split: sum.splits prod.splits)

lemma gateway_step_hearing:
  assumes "gateway_allowed c s" and ok: "hearing_ok s"
  shows "hearing_ok (gateway_step env c s)"
proof (cases c)
  case (GConnect now c' hs)
  then show ?thesis using assms hearing_connect by simp
next
  case (GDisconnect c')
  then show ?thesis using hearing_close [OF ok, of "[c']"] by simp
next
  case (GTimers now)
  then show ?thesis using hearing_close [OF ok] by (simp add: fire_timers_def)
next
  case (GLogout user)
  then show ?thesis using hearing_close [OF ok] by (simp add: end_sessions_def on_rt_def disconnect_user_def)
next
  case (GJoin c' i)
  have "may_enter (sv_db s) u (Conversation i)"
    if "fst (assert_access_to_conversation i (jp_sub u) (sv_db s)) = Inr v" for u v using that by auto
  then show ?thesis using GJoin assms
    by (auto simp: handle_join_def bind_def [of "socket_user c'"] socket_user_run split: option.split
        intro!: hearing_join_checked [where m = "\<lambda>u. assert_access_to_conversation i (jp_sub u)"] reads_messaging)
next
  case (GGroupJoin c' g)
  have "may_enter (sv_db s) u (GroupRoom g)"
    if "fst (assert_access_to_group g (jp_sub u) (jp_role u) (sv_db s)) = Inr v" for u v using that by auto
  then show ?thesis using GGroupJoin assms
    by (auto simp: handle_group_join_def bind_def [of "socket_user c'"] socket_user_run split: option.split
        intro!: hearing_join_checked [where m = "\<lambda>u. assert_access_to_group g (jp_sub u) (jp_role u)"] reads_messaging)
next
  case (GSend now c' i content sentAt)
  then show ?thesis using ok hearing_message(1)
    by (auto simp: handle_send_def bind_def [of "socket_user c'"] socket_user_run split: option.split)
next
  case (GGroupSend now c' g content sentAt)
  then show ?thesis using ok hearing_message(2)
    by (auto simp: handle_group_send_def bind_def [of "socket_user c'"] socket_user_run split: option.split)
next
  case (GPost now user i content sentAt)
  then show ?thesis using ok hearing_message(1) by (simp add: post_message_def posted_alike)
next
  case (GGroupPost now user g content sentAt)
  then show ?thesis using ok hearing_message(2) by (simp add: post_group_message_def posted_alike)
qed

interpretation salons: machine "gateway_step env" gateway_allowed hearing_ok
  by unfold_locales (rule gateway_step_hearing)

section \<open>Properties\<close>

text \<open>
  C38: a ticket opens one socket at most: whatever is presented in the order of time, no
  identifier is accepted twice, and every ticket that verifies when it is presented is accepted
  once.  Forgetting the expired identifiers does not let one in again.
\<close>
theorem ticket_accepted_once:
  assumes "ticket_contract env" and "re_ticketSecret env \<noteq> []" and "sorted (map fst cs)"
    and "rl_consommes r = Map.empty"
  shows "distinct (accepted env cs r) \<and> set (accepted env cs r) = presented env cs"
proof (cases cs)
  case (Cons c cs')
  have "remembers env {} (fst c) r" using assms(4) by (simp add: remembers_def)
  moreover have "sorted (fst c # map fst cs)" using assms(3) Cons by simp
  ultimately show ?thesis using accepted_once [OF assms(1,2)] by fastforce
qed (simp add: presented_def map_filter_simps)

definition sample_ticket :: ticket_payload where
  "sample_ticket = \<lparr>tp_sub = 5, tp_role = PILGRIM, tp_jti = ''jti'', tp_exp = 30\<rparr>"

definition sample_env :: realtime_env where
  "sample_env = \<lparr>re_ticketSecret = ''secret'', re_ticketTtlSeconds = 30, re_sessionMaxMinutes = 15,
     re_sign = (\<lambda>p. ''ticket''),
     re_verify = (\<lambda>tk now. if tk = ''ticket'' \<and> now < 30000 then Some sample_ticket else None),
     re_verifyAccess = (\<lambda>tk now. if tk = ''agence'' then Some \<lparr>jp_sub = 1, jp_role = AGENCY, jp_phone = None, jp_email = None\<rparr>
       else if tk = ''autre'' then Some \<lparr>jp_sub = 4, jp_role = GUIDE, jp_phone = None, jp_email = None\<rparr> else None)\<rparr>"

lemma sample_env_contract: "ticket_contract sample_env" "re_ticketSecret sample_env \<noteq> []"
  by (auto simp: ticket_contract_def sample_env_def sample_ticket_def split: if_splits)

theorem ticket_accepted_once_witness:
  "accepted sample_env [(0, ''ticket''), (1000, ''ticket''), (40000, ''ticket'')] no_realtime = [''jti''] \<and>
   presented sample_env [(0, ''ticket''), (1000, ''ticket''), (40000, ''ticket'')] = {''jti''}"
proof -
  have "accepted sample_env [(0, ''ticket''), (1000, ''ticket''), (40000, ''ticket'')] no_realtime = [''jti'']"
    by code_simp
  moreover have "set (accepted sample_env [(0, ''ticket''), (1000, ''ticket''), (40000, ''ticket'')] no_realtime) =
      presented sample_env [(0, ''ticket''), (1000, ''ticket''), (40000, ''ticket'')]"
    using ticket_accepted_once [OF sample_env_contract, of "[(0, ''ticket''), (1000, ''ticket''), (40000, ''ticket'')]" no_realtime]
    by (simp add: no_realtime_def)
  ultimately show ?thesis by simp
qed


definition sample_server :: server where
  "sample_server = \<lparr>sv_db = sample_thread_db, sv_rt = no_realtime\<rparr>"

definition sample_calls :: "gateway_call list" where
  "sample_calls = (let by_ticket = \<lparr>hs_ticket = Some ''ticket'', hs_token = None, hs_authorization = None\<rparr>;
      by_token = (\<lambda>x. \<lparr>hs_ticket = None, hs_token = Some x, hs_authorization = None\<rparr>)
    in [GConnect 0 1 by_ticket, GConnect 0 2 by_ticket, GConnect 0 3 (by_token ''autre''),
        GConnect 0 4 (by_token ''agence''), GJoin 1 30, GJoin 3 30, GJoin 4 30, GSend 0 4 30 ''Bonjour'' 0])"


end
