(* ===== verification/Storage.thy ===== *)
theory Storage
  imports Agencies
begin

text \<open>
  \<open>src/src/modules/storage\<close>: the local storage of the documents, the signed links to them and
  the public route that serves a file.  The keyed hash, \<open>JSON\<close>, base64url and \<open>Buffer.from\<close>
  are arguments (\<open>storage_env\<close>); identifiers are texts here, since they are part of the names
  of the files.  Writing and reading the files is left out.
\<close>

section \<open>The environment\<close>

record storage_env =
  se_hmac :: "string \<Rightarrow> string"
  se_stringify :: "json \<Rightarrow> string"
  se_parse :: "string \<Rightarrow> json option"
  se_base64url :: "string \<Rightarrow> string"
  se_unbase64url :: "string \<Rightarrow> string"
  se_buffer :: "json \<Rightarrow> string option"

text \<open>The two objects that are written: the signed payload, and the payload with its hash.\<close>

definition signed_payload :: "string \<Rightarrow> time \<Rightarrow> json" where
  "signed_payload f e = JObject [(''f'', JString f), (''e'', JNumber (of_int e))]"

definition envelope :: "string \<Rightarrow> string \<Rightarrow> json" where
  "envelope p h = JObject [(''p'', JString p), (''h'', JString h)]"

text \<open>
  The contract of the library: these objects read back as they were written, and so does a
  text in base64url; \<open>null\<close> is not the content of a buffer, and a text is.
\<close>

definition storage_contract :: "storage_env \<Rightarrow> bool" where
  "storage_contract env \<longleftrightarrow>
     (\<forall>f e. se_parse env (se_stringify env (signed_payload f e)) = Some (signed_payload f e)) \<and>
     (\<forall>p h. se_parse env (se_stringify env (envelope p h)) = Some (envelope p h)) \<and>
     (\<forall>s. se_unbase64url env (se_base64url env s) = s) \<and>
     (\<forall>s. se_buffer env (JString s) = Some s) \<and> se_buffer env JNull = None"

definition access_url_ttl_ms :: int where
  "access_url_ttl_ms = 5 * 60 * 1000"

definition local_prefix :: string where
  "local_prefix = ''local://documents/''"

section \<open>Names of files\<close>

definition alphanumeric :: "char \<Rightarrow> bool" where
  "alphanumeric c \<longleftrightarrow>
     (let n = of_char c :: nat in 48 \<le> n \<and> n \<le> 57 \<or> 65 \<le> n \<and> n \<le> 90 \<or> 97 \<le> n \<and> n \<le> 122)"

definition name_char :: "char \<Rightarrow> bool" where
  "name_char c \<longleftrightarrow> alphanumeric c \<or> c = CHR ''-''"

text \<open>\<open>/^[a-zA-Z0-9-]+\.[a-zA-Z0-9]+$/\<close>.\<close>

definition file_name_pattern :: "string \<Rightarrow> bool" where
  "file_name_pattern s \<longleftrightarrow>
     (let stem = takeWhile (\<lambda>c. c \<noteq> CHR ''.'') s; rest = dropWhile (\<lambda>c. c \<noteq> CHR ''.'') s
      in stem \<noteq> [] \<and> list_all name_char stem \<and> tl rest \<noteq> [] \<and> list_all alphanumeric (tl rest))"

text \<open>\<open>path.extname\<close>: from the last dot of the last segment, unless the dot starts it.\<close>

definition extname :: "string \<Rightarrow> string" where
  "extname path =
     (let base = rev (takeWhile (\<lambda>c. c \<noteq> CHR ''/'') (dropWhile (\<lambda>c. c = CHR ''/'') (rev path)));
          stem = rev (tl (dropWhile (\<lambda>c. c \<noteq> CHR ''.'') (rev base)));
          ext = rev (takeWhile (\<lambda>c. c \<noteq> CHR ''.'') (rev base))
      in if CHR ''.'' \<notin> set base \<or> stem = [] \<or> base = ''..'' then [] else CHR ''.'' # ext)"

definition stored_name :: "string \<Rightarrow> string \<Rightarrow> string \<Rightarrow> string \<Rightarrow> string" where
  "stored_name ownerId type uuid originalName =
     ownerId @ ''-'' @ type @ ''-'' @ uuid @ extname originalName"

text \<open>\<open>store\<close>: the reference of the file it wrote.\<close>

definition store_file :: "string \<Rightarrow> string \<Rightarrow> string \<Rightarrow> string \<Rightarrow> string" where
  "store_file ownerId type uuid originalName = local_prefix @ stored_name ownerId type uuid originalName"

section \<open>Signed links\<close>

text \<open>\<open>s.replace(pat, '')\<close>, for a text that is not empty: the first occurrence.\<close>

fun remove_first :: "string \<Rightarrow> string \<Rightarrow> string" where
  "remove_first pat [] = []"
| "remove_first pat (c # cs) =
     (if take (length pat) (c # cs) = pat then drop (length pat) (c # cs) else c # remove_first pat cs)"

definition sign_payload :: "storage_env \<Rightarrow> string \<Rightarrow> time \<Rightarrow> string" where
  "sign_payload env f e =
     (let serialized = se_stringify env (signed_payload f e)
      in se_base64url env (se_stringify env (envelope serialized (se_hmac env serialized))))"

definition access_token :: "storage_env \<Rightarrow> time \<Rightarrow> string \<Rightarrow> string" where
  "access_token env now storageRef = sign_payload env (remove_first local_prefix storageRef) (now + access_url_ttl_ms)"

definition get_access_url :: "storage_env \<Rightarrow> time \<Rightarrow> string \<Rightarrow> string \<times> time" where
  "get_access_url env now storageRef =
     (''/api/v1/documents/files/'' @ access_token env now storageRef, now + access_url_ttl_ms)"

text \<open>\<open>x.k\<close>, absent when the value has no such member; \<open>null.k\<close> is a \<open>TypeError\<close>.\<close>

fun member_of :: "string \<Rightarrow> json \<Rightarrow> json option" where
  "member_of k (JObject ms) = map_of (rev ms) k"
| "member_of k j = None"

definition type_error :: http_error where
  "type_error = DbError ''TypeError''"

text \<open>
  What a payload with a valid signature stands for.  \<open>sign_payload\<close> only signs an object with a
  text and a number; the other payloads do not resolve.
\<close>

definition read_payload :: "time \<Rightarrow> json \<Rightarrow> string option" where
  "read_payload now parsed =
     (case (member_of ''f'' parsed, member_of ''e'' parsed) of
        (Some (JString f), Some (JNumber e)) \<Rightarrow>
          if e < of_int now then None else if \<not> file_name_pattern f then None else Some f
      | _ \<Rightarrow> None)"

definition resolve_signed_token :: "storage_env \<Rightarrow> time \<Rightarrow> string \<Rightarrow> http_error + string option" where
  "resolve_signed_token env now token =
     (case se_parse env (se_unbase64url env token) of
        None \<Rightarrow> Inr None
      | Some JNull \<Rightarrow> Inr None
      | Some decoded \<Rightarrow>
          (case member_of ''p'' decoded of
             Some (JString payload) \<Rightarrow>
               (case Option.bind (member_of ''h'' decoded) (se_buffer env) of
                  None \<Rightarrow> Inl type_error
                | Some provided \<Rightarrow>
                    if length provided \<noteq> length (se_hmac env payload) then Inr None
                    else if provided \<noteq> se_hmac env payload then Inr None
                    else (case se_parse env payload of None \<Rightarrow> Inr None | Some parsed \<Rightarrow> Inr (read_payload now parsed)))
           | _ \<Rightarrow> Inl type_error))"

definition get_file :: "storage_env \<Rightarrow> time \<Rightarrow> string \<Rightarrow> http_error + string" where
  "get_file env now token =
     (case resolve_signed_token env now token of
        Inl e \<Rightarrow> Inl e
      | Inr fileName \<Rightarrow>
          if truthy fileName then Inr (''uploads/documents/'' @ or_else fileName [])
          else Inl (NotFound ''Lien invalide ou expire''))"

section \<open>The types of the stored documents\<close>

fun document_type_text :: "pilgrim_document_type \<Rightarrow> string" where
  "document_type_text PASSPORT = ''passport''"
| "document_type_text VISA = ''visa''"
| "document_type_text FLIGHT_TICKET = ''flight_ticket''"
| "document_type_text VACCINATION_CERTIFICATE = ''vaccination_certificate''"

section \<open>Lemmas\<close>

lemma remove_prefix: "pat \<noteq> [] \<Longrightarrow> remove_first pat (pat @ s) = s"
  by (cases pat) simp_all

lemma name_chars:
  "name_char c \<Longrightarrow> c \<noteq> CHR ''.''" "name_char c \<Longrightarrow> c \<noteq> CHR ''/''" "name_char c \<Longrightarrow> c \<noteq> CHR ''_''"
  "alphanumeric c \<Longrightarrow> name_char c" "name_char (CHR ''-'')"
  by (auto simp: name_char_def alphanumeric_def)

lemma pattern_split:
  assumes "CHR ''.'' \<notin> set stem"
  shows "file_name_pattern (stem @ CHR ''.'' # ext) \<longleftrightarrow>
    stem \<noteq> [] \<and> list_all name_char stem \<and> ext \<noteq> [] \<and> list_all alphanumeric ext"
proof -
  have "takeWhile (\<lambda>c. c \<noteq> CHR ''.'') (stem @ CHR ''.'' # ext) = stem"
    "dropWhile (\<lambda>c. c \<noteq> CHR ''.'') (stem @ CHR ''.'' # ext) = CHR ''.'' # ext"
    using assms by (auto simp: takeWhile_append dropWhile_append)
  then show ?thesis by (simp add: file_name_pattern_def)
qed

lemma pattern_safe: "file_name_pattern s \<Longrightarrow> CHR ''/'' \<notin> set s \<and> s \<noteq> ''..'' \<and> s \<noteq> []"
proof -
  assume p: "file_name_pattern s"
  define a b where "a = takeWhile (\<lambda>c. c \<noteq> CHR ''.'') s" and "b = dropWhile (\<lambda>c. c \<noteq> CHR ''.'') s"
  have s: "s = a @ b" by (simp add: a_def b_def)
  have ab: "a \<noteq> []" "list_all name_char a" "tl b \<noteq> []" "list_all alphanumeric (tl b)"
    using p by (simp_all add: file_name_pattern_def Let_def a_def b_def)
  obtain c e where b: "b = c # e" using ab(3) by (cases b) auto
  have "c = CHR ''.''" using b hd_dropWhile [of "\<lambda>c. c \<noteq> CHR ''.''" s] by (auto simp: b_def)
  then have "CHR ''/'' \<notin> set s"
    using ab b name_chars(2,4) by (auto simp: s list_all_iff)
  moreover have "hd s \<noteq> CHR ''.''" using ab(1,2) name_chars(1) by (cases a) (auto simp: s)
  moreover have "hd ''..'' = CHR ''.''" by simp
  ultimately show ?thesis using ab(1) by (metis append_is_Nil_conv s)
qed

lemma resolve_signed:
  assumes env: "storage_contract env"
  shows "resolve_signed_token env now (sign_payload env f e) =
    Inr (if e < now \<or> \<not> file_name_pattern f then None else Some f)"
  using env by (simp add: resolve_signed_token_def sign_payload_def storage_contract_def Let_def read_payload_def
      envelope_def signed_payload_def)

section \<open>Properties\<close>


text \<open>An environment that keeps the contract: an object is written with the length of its first text.\<close>

definition sample_stringify :: "json \<Rightarrow> string" where
  "sample_stringify j =
     (case j of
        JObject [(_, JString a), (_, JString b)] \<Rightarrow> CHR ''S'' # replicate (length a) (CHR ''x'') @ CHR ''y'' # a @ b
      | JObject [(_, JString a), (_, JNumber r)] \<Rightarrow>
          CHR ''N'' # replicate (length a) (CHR ''x'') @ CHR ''y'' # a @ show_int \<lfloor>r\<rfloor>
      | _ \<Rightarrow> [])"

definition sample_read_int :: "string \<Rightarrow> int" where
  "sample_read_int s = (case s of [] \<Rightarrow> 0 | c # cs \<Rightarrow> if c = CHR ''-'' then - int (read_nat cs) else int (read_nat s))"

definition sample_parse :: "string \<Rightarrow> json option" where
  "sample_parse s =
     (case s of [] \<Rightarrow> None
      | c # cs \<Rightarrow>
          let n = length (takeWhile (\<lambda>x. x = CHR ''x'') cs); body = drop (Suc n) cs; a = take n body; b = drop n body
          in if c = CHR ''S'' then Some (envelope a b) else Some (signed_payload a (sample_read_int b)))"

definition sample_storage :: storage_env where
  "sample_storage = \<lparr>se_hmac = (\<lambda>s. ''secret'' @ s), se_stringify = sample_stringify, se_parse = sample_parse,
     se_base64url = (\<lambda>s. s), se_unbase64url = (\<lambda>s. s),
     se_buffer = (\<lambda>j. case j of JString s \<Rightarrow> Some s | _ \<Rightarrow> None)\<rparr>"

lemma sample_read_show_int: "sample_read_int (show_int n) = n"
proof (cases "n < 0")
  case True
  then show ?thesis by (simp add: sample_read_int_def show_int_def)
next
  case False
  have "show_nat (nat n) \<noteq> []" by (subst show_nat.simps) simp
  then obtain c cs where s: "show_nat (nat n) = c # cs" by (cases "show_nat (nat n)") auto
  then have "c \<noteq> CHR ''-''" using dash_no_digit [of "nat n"] by auto
  then show ?thesis using False s read_show_nat [of "nat n"] by (simp add: sample_read_int_def show_int_def)
qed

lemma sample_storage_contract: "storage_contract sample_storage"
proof -
  have "takeWhile (\<lambda>x. x = CHR ''x'') (replicate n (CHR ''x'') @ CHR ''y'' # s) = replicate n (CHR ''x'')" for n s
    by (induction n) simp_all
  then show ?thesis
    by (simp add: storage_contract_def sample_storage_def sample_stringify_def sample_parse_def envelope_def
        signed_payload_def sample_read_show_int Let_def)
qed


end
