(* ===== verification/Support.thy ===== *)
theory Support
  imports Payments Learning Reviews "HOL-Library.AList"
begin

text \<open>
  The services that gather what others store: \<open>src/src/modules/emergency\<close> (the numbers
  entered by the administration and the personal contacts of a pilgrim or a guide),
  \<open>budget\<close> (the simulations of a pilgrim), \<open>trip-summary\<close> (the summary of a booking, from six
  other modules) and \<open>admin\<close> (the figures of the platform).
\<close>

section \<open>Emergency numbers\<close>

record number_dto =
  nd_label :: "string option"
  nd_category :: "string option"
  nd_phone :: "string option"
  nd_country :: "string option"
  nd_city :: "string option"
  nd_notes :: "string option"
  nd_order :: "int option"

definition emergency_categories :: "string list" where
  "emergency_categories = [''police'', ''medical'', ''civil_defense'', ''embassy'', ''other'']"

text \<open>\<open>orderBy: [{ order: 'asc' }, { label: 'asc' }]\<close>, the order of the database an argument.\<close>

definition list_numbers :: "(string \<Rightarrow> 'k::linorder) \<Rightarrow> (db, emergency_number list) act" where
  "list_numbers collation =
     query (\<lambda>s. sort_key en_order (sort_key (\<lambda>n. collation (en_label n)) (db_emergencyNumbers s)))"

definition new_number :: "number_dto \<Rightarrow> uid \<Rightarrow> emergency_number" where
  "new_number dto i =
     \<lparr>en_id = i, en_label = or_else (nd_label dto) [], en_category = or_else (nd_category dto) [],
      en_phone = or_else (nd_phone dto) [], en_country = or_else (nd_country dto) [],
      en_city = nd_city dto, en_notes = nd_notes dto, en_order = or_else (nd_order dto) 0\<rparr>"

definition create_number :: "number_dto \<Rightarrow> (db, emergency_number) act" where
  "create_number dto = create_row db_emergencyNumbers_update (new_number dto)"

definition find_number_or_fail :: "uid \<Rightarrow> (db, emergency_number) act" where
  "find_number_or_fail i =
     bind (find_first db_emergencyNumbers (\<lambda>n. en_id n = i))
       (or_fail (NotFound ''Numero d'urgence introuvable''))"

definition apply_number_update :: "number_dto \<Rightarrow> emergency_number \<Rightarrow> emergency_number" where
  "apply_number_update dto n =
     n\<lparr>en_label := or_else (nd_label dto) (en_label n), en_category := or_else (nd_category dto) (en_category n),
       en_phone := or_else (nd_phone dto) (en_phone n), en_country := or_else (nd_country dto) (en_country n),
       en_city := or_keep (nd_city dto) (en_city n), en_notes := or_keep (nd_notes dto) (en_notes n),
       en_order := or_else (nd_order dto) (en_order n)\<rparr>"

definition update_number :: "uid \<Rightarrow> number_dto \<Rightarrow> (db, emergency_number) act" where
  "update_number i dto =
     bind (find_number_or_fail i) (\<lambda>_.
     update_row db_emergencyNumbers db_emergencyNumbers_update (\<lambda>n. en_id n = i) (apply_number_update dto))"

definition delete_number :: "uid \<Rightarrow> (db, unit) act" where
  "delete_number i =
     bind (find_number_or_fail i) (\<lambda>_.
     bind (delete_many db_emergencyNumbers db_emergencyNumbers_update (\<lambda>n. en_id n = i)) (\<lambda>_. ret ()))"

section \<open>Personal contacts\<close>

record agency_contact =
  ac_agencyId :: uid
  ac_legalName :: string
  ac_phone :: string

record guide_contact =
  gc_groupId :: uid
  gc_groupTitle :: string
  gc_fullName :: string
  gc_phone :: "string option"

definition active_bookings :: "uid \<Rightarrow> db \<Rightarrow> booking list" where
  "active_bookings userId s = filter (\<lambda>b. b_pilgrimId b = userId \<and> b_status b \<noteq> CANCELLED) (db_bookings s)"

definition guided_groups :: "uid \<Rightarrow> db \<Rightarrow> group list" where
  "guided_groups userId s = filter (\<lambda>g. g_guideId g = Some userId) (db_groups s)"

definition contact_agencies :: "uid \<Rightarrow> db \<Rightarrow> agency list" where
  "contact_agencies userId s =
     List.map_filter (\<lambda>i. List.find (\<lambda>a. a_id a = i) (db_agencies s))
       (map b_agencyId (active_bookings userId s) @ map g_agencyId (guided_groups userId s))"

definition to_agency_contact :: "agency \<Rightarrow> agency_contact" where
  "to_agency_contact a = \<lparr>ac_agencyId = a_id a, ac_legalName = a_legalName a, ac_phone = a_contactPhone a\<rparr>"

text \<open>The groups of the bookings that have a guide, with the guide.\<close>

definition contact_guides :: "uid \<Rightarrow> db \<Rightarrow> (group \<times> user) list" where
  "contact_guides userId s =
     List.map_filter (\<lambda>b. Option.bind (b_groupId b) (\<lambda>i.
       Option.bind (List.find (\<lambda>g. g_id g = i) (db_groups s)) (\<lambda>g.
       Option.bind (g_guideId g) (\<lambda>j.
       map_option (Pair g) (List.find (\<lambda>u. u_id u = j) (db_users s))))))
       (active_bookings userId s)"

definition to_guide_contact :: "group \<times> user \<Rightarrow> guide_contact" where
  "to_guide_contact gu =
     \<lparr>gc_groupId = g_id (fst gu), gc_groupTitle = g_title (fst gu), gc_fullName = u_fullName (snd gu),
      gc_phone = u_phone (snd gu)\<rparr>"

text \<open>\<open>for (x of xs) map.set(key(x), value(x))\<close> on a map in the order of insertion.\<close>

definition map_of_all :: "('x \<Rightarrow> uid) \<Rightarrow> ('x \<Rightarrow> 'v) \<Rightarrow> 'x list \<Rightarrow> (uid \<times> 'v) list" where
  "map_of_all key val xs = fold (\<lambda>x m. AList.update (key x) (val x) m) xs []"

definition find_my_contacts :: "uid \<Rightarrow> (db, agency_contact list \<times> guide_contact list) act" where
  "find_my_contacts userId =
     query (\<lambda>s.
       (map snd (map_of_all a_id to_agency_contact (contact_agencies userId s)),
        map snd (map_of_all (g_id \<circ> fst) to_guide_contact (contact_guides userId s))))"

section \<open>Budget simulations\<close>

record budget_dto =
  bd_packageId :: "uid option"
  bd_pocketMoney :: "money option"
  bd_gifts :: "money option"
  bd_sacrifice :: "money option"
  bd_insurance :: "money option"
  bd_otherExpenses :: "money option"

definition price_of :: "uid option \<Rightarrow> money \<Rightarrow> (db, money) act" where
  "price_of packageId d =
     (case packageId of
        None \<Rightarrow> ret d
      | Some i \<Rightarrow> bind (find_package_or_fail i) (\<lambda>pkg. ret (p_price pkg)))"

definition new_budget :: "uid \<Rightarrow> money \<Rightarrow> budget_dto \<Rightarrow> uid \<Rightarrow> budget_simulation" where
  "new_budget pilgrimId packagePrice dto i =
     \<lparr>bg_id = i, bg_pilgrimId = pilgrimId, bg_packageId = bd_packageId dto, bg_packagePrice = packagePrice,
      bg_pocketMoney = or_else (bd_pocketMoney dto) 0, bg_gifts = or_else (bd_gifts dto) 0,
      bg_sacrifice = or_else (bd_sacrifice dto) 0, bg_insurance = or_else (bd_insurance dto) 0,
      bg_otherExpenses = or_else (bd_otherExpenses dto) 0, bg_currency = ''GNF''\<rparr>"

definition create_budget :: "uid \<Rightarrow> budget_dto \<Rightarrow> (db, budget_simulation) act" where
  "create_budget pilgrimId dto =
     bind (price_of (bd_packageId dto) 0) (\<lambda>packagePrice.
     create_row db_budgets_update (new_budget pilgrimId packagePrice dto))"

definition find_budgets_for_pilgrim :: "uid \<Rightarrow> (db, budget_simulation list) act" where
  "find_budgets_for_pilgrim pilgrimId = find_many db_budgets (\<lambda>b. bg_pilgrimId b = pilgrimId)"

definition find_budget_or_fail :: "uid \<Rightarrow> (db, budget_simulation) act" where
  "find_budget_or_fail i =
     bind (find_first db_budgets (\<lambda>b. bg_id b = i)) (or_fail (NotFound ''Simulation introuvable''))"

definition apply_budget_update :: "money \<Rightarrow> budget_dto \<Rightarrow> budget_simulation \<Rightarrow> budget_simulation" where
  "apply_budget_update packagePrice dto b =
     b\<lparr>bg_packageId := or_keep (bd_packageId dto) (bg_packageId b), bg_packagePrice := packagePrice,
       bg_pocketMoney := or_else (bd_pocketMoney dto) (bg_pocketMoney b),
       bg_gifts := or_else (bd_gifts dto) (bg_gifts b), bg_sacrifice := or_else (bd_sacrifice dto) (bg_sacrifice b),
       bg_insurance := or_else (bd_insurance dto) (bg_insurance b),
       bg_otherExpenses := or_else (bd_otherExpenses dto) (bg_otherExpenses b)\<rparr>"

definition update_budget :: "uid \<Rightarrow> uid \<Rightarrow> budget_dto \<Rightarrow> (db, budget_simulation) act" where
  "update_budget pilgrimId i dto =
     bind (find_budget_or_fail i) (\<lambda>simulation.
     bind (require (bg_pilgrimId simulation = pilgrimId)
       (Forbidden ''Vous ne pouvez pas modifier cette simulation'')) (\<lambda>_.
     bind (price_of (if bd_packageId dto \<noteq> bg_packageId simulation then bd_packageId dto else None)
       (bg_packagePrice simulation)) (\<lambda>packagePrice.
     update_row db_budgets db_budgets_update (\<lambda>b. bg_id b = i) (apply_budget_update packagePrice dto))))"

definition remove_budget :: "uid \<Rightarrow> uid \<Rightarrow> (db, bool) act" where
  "remove_budget pilgrimId i =
     bind (find_budget_or_fail i) (\<lambda>simulation.
     bind (require (bg_pilgrimId simulation = pilgrimId)
       (Forbidden ''Vous ne pouvez pas supprimer cette simulation'')) (\<lambda>_.
     bind (delete_many db_budgets db_budgets_update (\<lambda>b. bg_id b = i)) (\<lambda>_. ret True)))"

section \<open>The summary of a trip\<close>

record trip_step =
  tst_key :: dossier_step_key
  tst_status :: dossier_step_status
  tst_completedAt :: "time option"

record trip_rite =
  tri_riteKey :: string
  tri_title :: "string option"
  tri_completed :: bool
  tri_tawafCount :: int
  tri_saiCount :: int

record trip_summary =
  tsu_bookingId :: uid
  tsu_status :: booking_status
  tsu_packageTitle :: string
  tsu_pilgrimageType :: pilgrimage_type
  tsu_startDate :: time
  tsu_endDate :: time
  tsu_agencyName :: string
  tsu_steps :: "trip_step list"
  tsu_totalPaid :: money
  tsu_currency :: string
  tsu_installmentsCount :: nat
  tsu_rites :: "trip_rite list"
  tsu_review :: "(int \<times> string option) option"

definition to_trip_step :: "booking_step \<Rightarrow> trip_step" where
  "to_trip_step st = \<lparr>tst_key = s_key st, tst_status = s_status st,
     tst_completedAt = (if s_status st = STEP_DONE then Some (s_updatedAt st) else None)\<rparr>"

text \<open>\<open>new Map(riteSheets.map((s) => [s.key, s.title]))\<close>: the last sheet of a key wins.\<close>

definition rite_title_by_key :: "rite_sheet list \<Rightarrow> string \<Rightarrow> string option" where
  "rite_title_by_key sheets = map_of (rev (map (\<lambda>r. (ri_key r, ri_title r)) sheets))"

definition to_trip_rite :: "rite_sheet list \<Rightarrow> rite_progress \<Rightarrow> trip_rite" where
  "to_trip_rite sheets p = \<lparr>tri_riteKey = rgp_riteKey p, tri_title = rite_title_by_key sheets (rgp_riteKey p),
     tri_completed = rgp_completed p, tri_tawafCount = rgp_tawafCount p, tri_saiCount = rgp_saiCount p\<rparr>"

definition get_trip_summary :: "uid \<Rightarrow> role \<Rightarrow> uid \<Rightarrow> (db, trip_summary) act" where
  "get_trip_summary requesterId requesterRole bookingId =
     bind (find_booking_authorized requesterId requesterRole bookingId) (\<lambda>booking.
     bind (find_package_or_fail (bs_packageId booking)) (\<lambda>pkg.
     bind (find_agency_by_id_or_fail (bs_agencyId booking)) (\<lambda>agency.
     bind (find_payments_by_booking (bs_id booking)) (\<lambda>payments.
     bind (find_my_rites (bs_pilgrimId booking)) (\<lambda>riteProgress.
     bind (list_published None None) (\<lambda>riteSheets.
     bind (find_review_by_booking (bs_id booking)) (\<lambda>review.
     let succeeded = filter (\<lambda>p. ps_status p = SUCCEEDED) payments in
     ret \<lparr>tsu_bookingId = bs_id booking, tsu_status = bs_status booking, tsu_packageTitle = p_title pkg,
          tsu_pilgrimageType = p_type pkg, tsu_startDate = p_startDate pkg, tsu_endDate = p_endDate pkg,
          tsu_agencyName = as_legalName agency, tsu_steps = map to_trip_step (bs_steps booking),
          tsu_totalPaid = sum_list (map ps_amount succeeded),
          tsu_currency = (case succeeded of [] \<Rightarrow> p_currency pkg | p # _ \<Rightarrow> ps_currency p),
          tsu_installmentsCount = length succeeded,
          tsu_rites = map (to_trip_rite riteSheets) riteProgress,
          tsu_review = map_option (\<lambda>r. (rv_rating r, rv_comment r)) review\<rparr>)))))))"

section \<open>The figures of the platform\<close>

record platform_stats =
  pf_totalPilgrims :: nat
  pf_totalGuides :: nat
  pf_agenciesByStatus :: "(agency_validation_status \<times> nat) list"
  pf_bookingsByStatus :: "(booking_status \<times> nat) list"
  pf_totalRevenue :: money

definition get_platform_stats :: "(db, platform_stats) act" where
  "get_platform_stats =
     bind (find_by_role PILGRIM None) (\<lambda>pilgrims.
     bind (find_by_role GUIDE None) (\<lambda>guides.
     bind count_by_status (\<lambda>agenciesByStatus.
     bind count_bookings_by_status (\<lambda>bookingsByStatus.
     bind sum_succeeded_amount (\<lambda>totalRevenue.
     ret \<lparr>pf_totalPilgrims = length pilgrims, pf_totalGuides = length guides,
          pf_agenciesByStatus = agenciesByStatus, pf_bookingsByStatus = bookingsByStatus,
          pf_totalRevenue = totalRevenue\<rparr>)))))"

section \<open>Lemmas\<close>

lemma reads_support [reads_intro]:
  "reads_only (list_numbers col)" "reads_only (find_number_or_fail i)" "reads_only (find_my_contacts i)"
  "reads_only (find_budgets_for_pilgrim i)" "reads_only (find_budget_or_fail i)" "reads_only (price_of j m)"
  unfolding list_numbers_def find_number_or_fail_def find_my_contacts_def find_budgets_for_pilgrim_def
    find_budget_or_fail_def price_of_def
  by (intro reads_intro)+

lemma map_of_all_keys:
  "fst ` set (map_of_all key val xs) = key ` set xs \<and> distinct (map fst (map_of_all key val xs))"
proof -
  have "fst ` set (fold (\<lambda>x m. AList.update (key x) (val x) m) xs m) = fst ` set m \<union> key ` set xs \<and>
      distinct (map fst (fold (\<lambda>x m. AList.update (key x) (val x) m) xs m))"
    if "distinct (map fst m)" for m
    using that
  proof (induction xs arbitrary: m)
    case (Cons x xs)
    have "distinct (map fst (AList.update (key x) (val x) m))" using Cons.prems by (rule distinct_update)
    then show ?case using Cons.IH by (simp add: dom_update)
  qed simp
  then show ?thesis by (simp add: map_of_all_def)
qed

lemma update_entries: "p \<in> set (AList.update k v m) \<Longrightarrow> p = (k, v) \<or> p \<in> set m"
  by (induction m) (auto split: if_splits)

lemma map_of_all_values:
  assumes "\<And>x. k (val x) = key x"
  shows "map k (map snd (map_of_all key val xs)) = map fst (map_of_all key val xs)"
proof -
  have "\<forall>p \<in> set (fold (\<lambda>x m. AList.update (key x) (val x) m) xs m). k (snd p) = fst p"
    if "\<forall>p \<in> set m. k (snd p) = fst p" for m
    using that
  proof (induction xs arbitrary: m)
    case (Cons x xs)
    have "\<forall>p \<in> set (AList.update (key x) (val x) m). k (snd p) = fst p"
      using Cons.prems assms by (auto dest: update_entries)
    then show ?case using Cons.IH by simp
  qed simp
  from this [of "[]"] show ?thesis by (auto simp: map_of_all_def)
qed

text \<open>
  The contacts are the agencies of the bookings that are not cancelled and of the guided groups,
  each once.
\<close>

theorem contacts_of_the_trips:
  assumes "find_my_contacts userId s = (Inr (agencies, guides), t)"
  shows "t = s \<and> distinct (map ac_agencyId agencies) \<and> distinct (map gc_groupId guides) \<and>
    ac_agencyId ` set agencies = a_id ` set (contact_agencies userId s) \<and>
    gc_groupId ` set guides = (g_id \<circ> fst) ` set (contact_guides userId s)"
proof -
  have v: "agencies = map snd (map_of_all a_id to_agency_contact (contact_agencies userId s))"
    "guides = map snd (map_of_all (g_id \<circ> fst) to_guide_contact (contact_guides userId s))" and t: "t = s"
    using assms by (auto simp: find_my_contacts_def)
  have ids: "map ac_agencyId agencies = map fst (map_of_all a_id to_agency_contact (contact_agencies userId s))"
    "map gc_groupId guides = map fst (map_of_all (g_id \<circ> fst) to_guide_contact (contact_guides userId s))"
    unfolding v by (rule map_of_all_values; simp add: to_agency_contact_def to_guide_contact_def)+
  have "ac_agencyId ` set agencies = set (map ac_agencyId agencies)" "gc_groupId ` set guides = set (map gc_groupId guides)"
    by simp_all
  then show ?thesis
    using map_of_all_keys [of a_id to_agency_contact] map_of_all_keys [of "g_id \<circ> fst" to_guide_contact]
    unfolding ids by (simp add: t)
qed

subsection \<open>Budgets stay with their pilgrim\<close>

text \<open>The simulations of the other pilgrims, in order.\<close>

definition budgets_of_others :: "uid \<Rightarrow> db \<Rightarrow> budget_simulation list" where
  "budgets_of_others i s = filter (\<lambda>b. bg_pilgrimId b \<noteq> i) (db_budgets s)"

datatype budget_call =
    BudgetCreate budget_dto
  | BudgetUpdate uid budget_dto
  | BudgetRemove uid

fun budget_step :: "uid \<Rightarrow> budget_call \<Rightarrow> db \<Rightarrow> db" where
  "budget_step pilgrimId (BudgetCreate dto) s = snd (create_budget pilgrimId dto s)"
| "budget_step pilgrimId (BudgetUpdate i dto) s = snd (update_budget pilgrimId i dto s)"
| "budget_step pilgrimId (BudgetRemove i) s = snd (remove_budget pilgrimId i s)"

definition others_kept :: "uid \<Rightarrow> budget_simulation list \<Rightarrow> db \<Rightarrow> bool" where
  "others_kept i bs s \<longleftrightarrow> distinct (map bg_id (db_budgets s)) \<and> list_all (\<lambda>b. bg_id b < db_next s) (db_budgets s) \<and>
     budgets_of_others i s = bs"

lemma others_create: "keeps (others_kept i bs) (create_budget i dto)"
  unfolding create_budget_def
  by (intro keeps_bind keeps_reads [OF reads_support(6)] keeps_create_row)
    (auto simp: others_kept_def budgets_of_others_def new_budget_def list_all_iff)

lemma budget_of:
  assumes "find_budget_or_fail j s = (Inr b, u)"
  shows "u = s \<and> List.find (\<lambda>b. bg_id b = j) (db_budgets s) = Some b"
  using assms by (auto simp: find_budget_or_fail_def bind_ok find_first_ok or_fail_ok)

lemma own_budget:
  assumes "others_kept i bs s" and "List.find (\<lambda>b. bg_id b = j) (db_budgets s) = Some b" and "bg_pilgrimId b = i"
    and "x \<in> set (db_budgets s)" and "bg_id x = j"
  shows "bg_pilgrimId x = i"
proof -
  have "b \<in> set (db_budgets s)" "bg_id b = j" using assms(2) by (auto dest: find_Some_set)
  then have "x = b" using distinct_key_unique [of bg_id "db_budgets s" x b] assms(1,4,5) by (simp add: others_kept_def)
  then show ?thesis using assms(3) by simp
qed

lemma update_own_rows:
  assumes "\<And>y. y \<in> set xs \<Longrightarrow> bg_id y = j \<Longrightarrow> bg_pilgrimId y = i"
    and "\<And>b. bg_pilgrimId (f b) = bg_pilgrimId b" and "\<And>b. bg_id (f b) = bg_id b"
  shows "filter (\<lambda>b. bg_pilgrimId b \<noteq> i) (map (\<lambda>b. if bg_id b = j then f b else b) xs) =
      filter (\<lambda>b. bg_pilgrimId b \<noteq> i) xs \<and>
    map bg_id (map (\<lambda>b. if bg_id b = j then f b else b) xs) = map bg_id xs \<and>
    list_all (\<lambda>b. bg_id b < n) (map (\<lambda>b. if bg_id b = j then f b else b) xs) = list_all (\<lambda>b. bg_id b < n) xs"
  using assms by (induction xs) auto

lemma others_update: "keeps (others_kept i bs) (update_budget i j dto)"
proof (rule keepsI)
  fix s r t
  assume ok: "others_kept i bs s" and run: "update_budget i j dto s = (r, t)"
  obtain x u where x: "find_budget_or_fail j s = (x, u)" by fastforce
  show "others_kept i bs t"
  proof (cases x)
    case (Inl e)
    then show ?thesis using run x ok reads_onlyD [OF reads_support(5) x] by (simp add: update_budget_def)
  next
    case (Inr b)
    then have b: "u = s" "List.find (\<lambda>b. bg_id b = j) (db_budgets s) = Some b" using budget_of x by auto
    let ?p = "if bd_packageId dto \<noteq> bg_packageId b then bd_packageId dto else None"
    show ?thesis
    proof (cases "bg_pilgrimId b = i")
      case False
      then show ?thesis using run x Inr b ok by (simp add: update_budget_def)
    next
      case True
      obtain y v where y: "price_of ?p (bg_packagePrice b) s = (y, v)" by fastforce
      have v: "v = s" using reads_onlyD [OF reads_support(6) y] .
      show ?thesis
      proof (cases y)
        case (Inl e)
        then show ?thesis using run x Inr b True y v ok by (simp add: update_budget_def)
      next
        case (Inr m)
        let ?f = "apply_budget_update m dto"
        have "t = db_budgets_update (map (\<lambda>b. if bg_id b = j then ?f b else b)) s"
          using run x \<open>x = Inr b\<close> b True y v Inr by (simp add: update_budget_def update_row_def)
        moreover have "bg_pilgrimId (?f b) = bg_pilgrimId b" "bg_id (?f b) = bg_id b" for b
          by (simp_all add: apply_budget_update_def)
        note update_own_rows [of "db_budgets s" j i ?f "db_next s", OF own_budget [OF ok b(2) True] this]
        ultimately show ?thesis using ok
          by (simp add: others_kept_def budgets_of_others_def del: map_map)
      qed
    qed
  qed
qed

lemma others_remove: "keeps (others_kept i bs) (remove_budget i j)"
proof (rule keepsI)
  fix s r t
  assume ok: "others_kept i bs s" and run: "remove_budget i j s = (r, t)"
  obtain x u where x: "find_budget_or_fail j s = (x, u)" by fastforce
  show "others_kept i bs t"
  proof (cases x)
    case (Inl e)
    then show ?thesis using run x ok reads_onlyD [OF reads_support(5) x] by (simp add: remove_budget_def)
  next
    case (Inr b)
    then have b: "u = s" "List.find (\<lambda>b. bg_id b = j) (db_budgets s) = Some b" using budget_of x by auto
    show ?thesis
    proof (cases "bg_pilgrimId b = i")
      case False
      then show ?thesis using run x Inr b ok by (simp add: remove_budget_def)
    next
      case True
      then have "t = db_budgets_update (filter (\<lambda>b. bg_id b \<noteq> j)) s"
        using run x Inr b by (simp add: remove_budget_def delete_many_def)
      moreover have "filter (\<lambda>b. bg_pilgrimId b \<noteq> i) (filter (\<lambda>b. bg_id b \<noteq> j) (db_budgets s)) =
          filter (\<lambda>b. bg_pilgrimId b \<noteq> i) (db_budgets s)"
        unfolding filter_filter using own_budget [OF ok b(2) True] by (intro filter_cong) auto
      ultimately show ?thesis using ok
        by (auto simp: others_kept_def budgets_of_others_def distinct_map_filter list_all_iff)
    qed
  qed
qed

interpretation budgets: machine "budget_step i" "\<lambda>_ _. True" "others_kept i bs"
proof unfold_locales
  fix c s
  assume "others_kept i bs s"
  then show "others_kept i bs (budget_step i c s)"
    using others_create others_update others_remove by (cases c) (auto simp: keeps_def)
qed

text \<open>Nothing a pilgrim does with budgets reaches those of another.\<close>

theorem budgets_stay_private:
  assumes "distinct (map bg_id (db_budgets s))" and "list_all (\<lambda>b. bg_id b < db_next s) (db_budgets s)"
  shows "budgets_of_others i (fold (budget_step i) cs s) = budgets_of_others i s"
  using budgets.run_inv [OF all_allowed, of i "budgets_of_others i s" s cs] assms by (simp add: others_kept_def)

end
