(* ===== verification/Http.thy ===== *)
theory Http
  imports Realtime AuditTrail
begin

text \<open>
  What every route shares (\<open>src/src/common/decorators\<close>, \<open>guards\<close>, \<open>filters\<close> and
  \<open>modules/audit/audit.interceptor.ts\<close>): the decorators of a handler and of its class, the
  first route that matches a request, the two global guards, the pipes on the parameters, the
  handler, the audit interceptor and the exception filter.  The extraction of the bearer token
  and its verification belong to \<open>passport-jwt\<close>: the request carries the extracted token, and
  \<open>re_verifyAccess\<close> verifies it.  What the validation pipes make of a body is an argument
  (\<open>body\<close>), as is the rate limiter, whose refusal would come before all this.
\<close>

section \<open>Routes\<close>

datatype http_method = GET | POST | PUT | PATCH | DELETE

datatype segment = Lit string | Par string

record audited_options =
  ao_action :: string
  ao_entityType :: string

text \<open>The metadata that \<open>@Public\<close>, \<open>@Roles\<close> and \<open>@Audited\<close> leave on a handler or on a class.\<close>

record decorators =
  de_isPublic :: "bool option"
  de_roles :: "role list option"
  de_audited :: "audited_options option"

definition plain :: decorators where
  "plain = \<lparr>de_isPublic = None, de_roles = None, de_audited = None\<rparr>"

definition Public :: "decorators \<Rightarrow> decorators" where
  "Public d = d\<lparr>de_isPublic := Some True\<rparr>"

definition Roles :: "role list \<Rightarrow> decorators \<Rightarrow> decorators" where
  "Roles rs d = d\<lparr>de_roles := Some rs\<rparr>"

definition Audited :: "string \<Rightarrow> string \<Rightarrow> decorators \<Rightarrow> decorators" where
  "Audited action entityType d = d\<lparr>de_audited := Some \<lparr>ao_action = action, ao_entityType = entityType\<rparr>\<rparr>"

record route =
  rt_method :: http_method
  rt_path :: "segment list"
  rt_handler :: decorators
  rt_class :: decorators

text \<open>A controller prefix, the path of the method and the decorators of both.\<close>

definition route :: "decorators \<Rightarrow> segment list \<Rightarrow> http_method \<Rightarrow> segment list \<Rightarrow> decorators \<Rightarrow> route" where
  "route cls prefix m path d = \<lparr>rt_method = m, rt_path = prefix @ path, rt_handler = d, rt_class = cls\<rparr>"

fun matches_path :: "segment list \<Rightarrow> string list \<Rightarrow> bool" where
  "matches_path [] [] \<longleftrightarrow> True"
| "matches_path (Lit l # ps) (x # xs) \<longleftrightarrow> l = x \<and> matches_path ps xs"
| "matches_path (Par n # ps) (x # xs) \<longleftrightarrow> matches_path ps xs"
| "matches_path _ _ \<longleftrightarrow> False"

text \<open>The router tries the routes in the order they were registered in.\<close>

definition resolve :: "route list \<Rightarrow> http_method \<Rightarrow> string list \<Rightarrow> route option" where
  "resolve rts m path = List.find (\<lambda>rt. rt_method rt = m \<and> matches_path (rt_path rt) path) rts"

section \<open>The guards\<close>

text \<open>\<open>reflector.getAllAndOverride\<close>: the metadata of the handler, else of its class.\<close>

definition get_all_and_override :: "(decorators \<Rightarrow> 'm option) \<Rightarrow> route \<Rightarrow> 'm option" where
  "get_all_and_override key rt =
     (case key (rt_handler rt) of Some m \<Rightarrow> Some m | None \<Rightarrow> key (rt_class rt))"

definition is_public :: "route \<Rightarrow> bool" where
  "is_public rt \<longleftrightarrow> get_all_and_override de_isPublic rt = Some True"

record request =
  rq_token :: "string option"
  rq_now :: time

definition jwt_auth_guard :: "realtime_env \<Rightarrow> route \<Rightarrow> request \<Rightarrow> (db, jwt_payload option) act" where
  "jwt_auth_guard env rt rq =
     (if is_public rt then ret None
      else
        bind (or_fail (Unauthorized ''Unauthorized'')
          (Option.bind (rq_token rq) (\<lambda>token. re_verifyAccess env token (rq_now rq)))) (\<lambda>payload.
        bind (validate_access payload) (\<lambda>user.
        ret (Some user))))"

definition roles_guard :: "route \<Rightarrow> jwt_payload option \<Rightarrow> (db, unit) act" where
  "roles_guard rt user =
     require (roles_allowed (get_all_and_override de_roles rt) user) (Forbidden ''Forbidden resource'')"

section \<open>The audit interceptor\<close>

text \<open>
  What it reads of a response: the identifier found under \<open>idField\<close> and the metadata.  A
  response without them (a list, a text, nothing) has \<open>no_view\<close>.
\<close>

record 'r view =
  vw_id :: "'r \<Rightarrow> uid option"
  vw_metadata :: "'r \<Rightarrow> json option"

definition no_view :: "'r view" where
  "no_view = \<lparr>vw_id = (\<lambda>_. None), vw_metadata = (\<lambda>_. None)\<rparr>"

definition id_view :: "('r \<Rightarrow> uid) \<Rightarrow> 'r view" where
  "id_view i = \<lparr>vw_id = (\<lambda>r. Some (i r)), vw_metadata = (\<lambda>_. None)\<rparr>"

definition audit_entry_for ::
  "audited_options \<Rightarrow> uid option \<Rightarrow> 'r view \<Rightarrow> jwt_payload option \<Rightarrow> 'r \<Rightarrow> audit_entry" where
  "audit_entry_for options parametre view user reponse =
     \<lparr>ay_actorId = map_option jp_sub user, ay_actorRole = map_option jp_role user,
      ay_action = ao_action options, ay_entityType = ao_entityType options,
      ay_entityId = (case parametre of Some i \<Rightarrow> Some i | None \<Rightarrow> vw_id view reponse),
      ay_metadata = vw_metadata view reponse\<rparr>"

definition intercept ::
  "time \<Rightarrow> route \<Rightarrow> uid option \<Rightarrow> 'r view \<Rightarrow> jwt_payload option \<Rightarrow> (server, 'r) act \<Rightarrow> (server, 'r) act" where
  "intercept now rt parametre view user suite =
     (case de_audited (rt_handler rt) of
        None \<Rightarrow> suite
      | Some options \<Rightarrow>
          bind suite (\<lambda>reponse.
          bind (on_db (record_audit now (audit_entry_for options parametre view user reponse))) (\<lambda>_.
          ret reponse)))"

section \<open>A request\<close>

text \<open>
  The result of the pipes on a parameter: the value the handler gets, or the refusal.
\<close>

type_synonym 'a body = "http_error + 'a"

definition piped :: "'a body \<Rightarrow> ('a \<Rightarrow> (server, 'r) act) \<Rightarrow> (server, 'r) act" where
  "piped b f = bind (from_result b) f"

text \<open>\<open>@CurrentUser()\<close>, whose fields cannot be read on a public route.\<close>

definition with_user :: "(jwt_payload \<Rightarrow> (server, 'r) act) \<Rightarrow> jwt_payload option \<Rightarrow> (server, 'r) act" where
  "with_user handler user =
     (case user of None \<Rightarrow> throw (DbError ''TypeError'') | Some u \<Rightarrow> handler u)"

definition serve ::
  "realtime_env \<Rightarrow> request \<Rightarrow> route \<Rightarrow> uid option \<Rightarrow> 'r view \<Rightarrow>
    (jwt_payload option \<Rightarrow> (server, 'r) act) \<Rightarrow> (server, 'r) act" where
  "serve env rq rt parametre view handler =
     bind (on_db (jwt_auth_guard env rt rq)) (\<lambda>user.
     bind (on_db (roles_guard rt user)) (\<lambda>_.
     intercept (rq_now rq) rt parametre view user (handler user)))"

section \<open>The exception filter\<close>

record error_body =
  eb_statusCode :: nat
  eb_timestamp :: string
  eb_path :: string
  eb_message :: string
  eb_error :: "string option"

text \<open>
  The status of the exceptions of \<open>@nestjs/common\<close> and their \<open>getResponse()\<close>: the message, with
  the name of the status.  What is not an \<open>HttpException\<close> is an internal error.
\<close>

fun http_exception :: "http_error \<Rightarrow> (nat \<times> string \<times> string) option" where
  "http_exception (BadRequest m) = Some (400, m, ''Bad Request'')"
| "http_exception (Unauthorized m) = Some (401, m, ''Unauthorized'')"
| "http_exception (Forbidden m) = Some (403, m, ''Forbidden'')"
| "http_exception (NotFound m) = Some (404, m, ''Not Found'')"
| "http_exception (Conflict m) = Some (409, m, ''Conflict'')"
| "http_exception (Unavailable m) = Some (503, m, ''Service Unavailable'')"
| "http_exception (DbError c) = None"

definition error_response :: "time \<Rightarrow> string \<Rightarrow> http_error \<Rightarrow> error_body" where
  "error_response now url e =
     (case http_exception e of
        Some (status, m, name) \<Rightarrow>
          \<lparr>eb_statusCode = status, eb_timestamp = iso_string now, eb_path = url, eb_message = m,
           eb_error = Some name\<rparr>
      | None \<Rightarrow>
          \<lparr>eb_statusCode = 500, eb_timestamp = iso_string now, eb_path = url,
           eb_message = ''Erreur interne du serveur'', eb_error = None\<rparr>)"

section \<open>Lemmas\<close>

lemma on_db_at: "on_db m s = (case m (sv_db s) of (r, d) \<Rightarrow> (r, s\<lparr>sv_db := d\<rparr>))"
  by (simp add: on_db_def)

lemma on_db_ok [ok_iff]:
  "on_db m s = (Inr x, t) \<longleftrightarrow> (\<exists>d. m (sv_db s) = (Inr x, d) \<and> t = s\<lparr>sv_db := d\<rparr>)"
  by (auto simp: on_db_def split: prod.splits)

lemma on_db_err [err_iff]:
  "on_db m s = (Inl e, t) \<longleftrightarrow> (\<exists>d. m (sv_db s) = (Inl e, d) \<and> t = s\<lparr>sv_db := d\<rparr>)"
  by (auto simp: on_db_def split: prod.splits)

lemma reads_on_db [reads_intro]: "reads_only m \<Longrightarrow> reads_only (on_db m)"
  by (simp add: reads_only_def on_db_def split: prod.split) (metis server.surjective server.update_convs(1) snd_conv)

lemma reads_guards [reads_intro]:
  "reads_only (validate_access p)" "reads_only (jwt_auth_guard env rt rq)" "reads_only (roles_guard rt user)"
  unfolding validate_access_def jwt_auth_guard_def roles_guard_def
  by (intro reads_intro reads_users)+

lemma metadata_simps [simp]:
  "rt_class (route cls prefix m path d) = cls"
  "get_all_and_override key (route cls prefix m path d) =
     (case key d of Some x \<Rightarrow> Some x | None \<Rightarrow> key cls)"
  "rt_method (route cls prefix m path d) = m" "rt_path (route cls prefix m path d) = prefix @ path"
  "rt_handler (route cls prefix m path d) = d"
  "de_isPublic plain = None" "de_roles plain = None" "de_audited plain = None"
  "de_isPublic (Public d) = Some True" "de_roles (Public d) = de_roles d" "de_audited (Public d) = de_audited d"
  "de_isPublic (Roles rs d) = de_isPublic d" "de_roles (Roles rs d) = Some rs"
  "de_audited (Roles rs d) = de_audited d"
  "de_isPublic (Audited a et d) = de_isPublic d" "de_roles (Audited a et d) = de_roles d"
  "de_audited (Audited a et d) = Some \<lparr>ao_action = a, ao_entityType = et\<rparr>"
  by (simp_all add: get_all_and_override_def route_def plain_def Public_def Roles_def Audited_def cong: option.case_cong)

text \<open>The account behind a token that the guard lets through.\<close>

definition active_account :: "db \<Rightarrow> uid \<Rightarrow> bool" where
  "active_account s i \<longleftrightarrow> (case List.find (\<lambda>u. u_id u = i) (db_users s) of None \<Rightarrow> False | Some u \<Rightarrow> u_isActive u)"

lemma validate_access_run:
  "validate_access p s =
     (if active_account s (jp_sub p) then (Inr p, s)
      else (Inl (Unauthorized ''Compte introuvable ou suspendu''), s))"
  by (auto simp: validate_access_def find_user_by_id_run active_account_def to_user_shape_def
      split: option.split)

lemma jwt_auth_guard_run:
  "jwt_auth_guard env rt rq s =
     (if is_public rt then (Inr None, s)
      else case Option.bind (rq_token rq) (\<lambda>token. re_verifyAccess env token (rq_now rq)) of
        None \<Rightarrow> (Inl (Unauthorized ''Unauthorized''), s)
      | Some p \<Rightarrow>
          if active_account s (jp_sub p) then (Inr (Some p), s)
          else (Inl (Unauthorized ''Compte introuvable ou suspendu''), s))"
  by (simp add: jwt_auth_guard_def validate_access_run bind_def split: option.split)

text \<open>Who a request that the guards let through speaks for.\<close>

definition caller :: "realtime_env \<Rightarrow> route \<Rightarrow> request \<Rightarrow> jwt_payload option" where
  "caller env rt rq =
     (if is_public rt then None else Option.bind (rq_token rq) (\<lambda>token. re_verifyAccess env token (rq_now rq)))"

definition let_through :: "realtime_env \<Rightarrow> route \<Rightarrow> request \<Rightarrow> db \<Rightarrow> bool" where
  "let_through env rt rq s \<longleftrightarrow>
     (is_public rt \<or> (case caller env rt rq of None \<Rightarrow> False | Some p \<Rightarrow> active_account s (jp_sub p))) \<and>
     roles_allowed (get_all_and_override de_roles rt) (caller env rt rq)"

lemma serve_run:
  "serve env rq rt parametre view handler s =
     (if let_through env rt rq (sv_db s)
      then intercept (rq_now rq) rt parametre view (caller env rt rq) (handler (caller env rt rq)) s
      else (Inl (if is_public rt then Forbidden ''Forbidden resource''
                 else case caller env rt rq of
                   None \<Rightarrow> Unauthorized ''Unauthorized''
                 | Some p \<Rightarrow> if active_account (sv_db s) (jp_sub p) then Forbidden ''Forbidden resource''
                             else Unauthorized ''Compte introuvable ou suspendu''), s))"
  by (simp add: serve_def on_db_at jwt_auth_guard_run roles_guard_def let_through_def caller_def bind_def
      split: option.split)

lemma serve_ok:
  "serve env rq rt parametre view handler s = (Inr x, t) \<Longrightarrow>
     let_through env rt rq (sv_db s) \<and>
     intercept (rq_now rq) rt parametre view (caller env rt rq) (handler (caller env rt rq)) s = (Inr x, t)"
  by (simp add: serve_run split: if_splits)

lemma serve_keeps:
  assumes "\<And>user. keeps I (handler user)" and "\<And>e. keeps I (on_db (record_audit (rq_now rq) e))"
  shows "keeps I (serve env rq rt parametre view handler)"
  unfolding serve_def intercept_def
  by (intro keeps_intro assms | rule keeps_reads, intro reads_intro)+

section \<open>Properties\<close>

text \<open>
  C36: a refused request changes nothing, on any route: one that the guards refuse is answered 401
  or 403 and leaves the server as it was; one whose body the validation refuses gets that refusal,
  without effect; and one whose handler raises leaves what the handler left, without an entry in
  the audit trail.
\<close>

theorem refused_requests_change_nothing:
  "(\<not> let_through env rt rq (sv_db s) \<longrightarrow>
      (\<exists>e. serve env rq rt i view handler s = (Inl e, s) \<and>
        eb_statusCode (error_response now url e) = (if is_public rt \<or> (\<exists>p. caller env rt rq = Some p \<and>
          active_account (sv_db s) (jp_sub p)) then 403 else 401))) \<and>
   (let_through env rt rq (sv_db s) \<and> \<not> is_public rt \<longrightarrow>
      serve env rq rt i view (with_user (\<lambda>u. piped (Inl refusal) f)) s = (Inl refusal, s)) \<and>
   (let_through env rt rq (sv_db s) \<and> handler (caller env rt rq) s = (Inl e, t) \<longrightarrow>
      serve env rq rt i view handler s = (Inl e, t))"
proof (intro conjI impI)
  assume "let_through env rt rq (sv_db s) \<and> \<not> is_public rt"
  then have "let_through env rt rq (sv_db s)" "caller env rt rq \<noteq> None"
    by (auto simp: let_through_def split: option.splits)
  then show "serve env rq rt i view (with_user (\<lambda>u. piped (Inl refusal) f)) s = (Inl refusal, s)"
    by (auto simp: serve_run intercept_def with_user_def piped_def from_result_def bind_def throw_def
        split: option.splits)
qed (auto simp: serve_run intercept_def bind_def error_response_def split: option.splits)

definition closed_route :: route where
  "closed_route = route plain [Lit ''bookings''] GET [] (Roles [AGENCY] (Audited ''read'' ''booking'' plain))"

theorem refused_requests_change_nothing_witness:
  "\<exists>e. serve sample_env \<lparr>rq_token = None, rq_now = 0\<rparr> closed_route None no_view (\<lambda>u. ret ()) sample_server =
     (Inl e, sample_server) \<and> eb_statusCode (error_response 0 ''/api/v1/bookings'' e) = 401"
proof -
  have "caller sample_env closed_route \<lparr>rq_token = None, rq_now = 0\<rparr> = None" "\<not> is_public closed_route"
    by (simp_all add: caller_def closed_route_def is_public_def)
  then show ?thesis
    using refused_requests_change_nothing [THEN conjunct1, of sample_env closed_route "\<lparr>rq_token = None, rq_now = 0\<rparr>"
        sample_server None no_view "\<lambda>u. ret ()" 0 "''/api/v1/bookings''"]
    by (simp add: let_through_def)
qed

end
