(* ===== verification/Validation.thy ===== *)
theory Validation
  imports Support Learning OnCall Rooms Disputes TravelGroups GuidePlanning Accounting Reviews Http
begin

text \<open>
  The rules of the bodies and of the queries (the \<open>dto\<close> directories): what the validation pipe of
  \<open>src/src/app.module.ts\<close> lets through to a handler.  Fields arrive typed: the identifiers, the
  dates and the members of enumerations that do not parse are refused before these rules.  What
  \<open>class-validator\<close> takes for an e-mail address, a telephone number or a URL is an argument.
  The rules of the packages, payments, savings plans, refund scales, reviews, disputes, room
  blocks and simulations are beside their services.
\<close>

section \<open>The pipe\<close>

definition validation_pipe :: "('a \<Rightarrow> bool) \<Rightarrow> string \<Rightarrow> 'a \<Rightarrow> 'a body" where
  "validation_pipe rules message value = (if rules value then Inr value else Inl (BadRequest message))"

lemma validation_pipe_ok [simp]: "validation_pipe rules m x = Inr y \<longleftrightarrow> rules x \<and> y = x"
  by (auto simp: validation_pipe_def)

lemma validation_pipe_err [simp]: "validation_pipe rules m x = Inl e \<longleftrightarrow> \<not> rules x \<and> e = BadRequest m"
  by (auto simp: validation_pipe_def)

record formats =
  fm_isEmail :: "string \<Rightarrow> bool"
  fm_isPhoneNumber :: "string \<Rightarrow> bool"
  fm_isUrl :: "string \<Rightarrow> bool"

definition length_between :: "nat \<Rightarrow> nat \<Rightarrow> string \<Rightarrow> bool" where
  "length_between a b s \<longleftrightarrow> a \<le> length s \<and> length s \<le> b"

definition decimal_digit :: "char \<Rightarrow> bool" where
  "decimal_digit c \<longleftrightarrow> (let n = of_char c :: nat in 48 \<le> n \<and> n \<le> 57)"

text \<open>\<open>/^\d{4}-\d{2}-\d{2}$/\<close>\<close>

definition date_jour :: "string \<Rightarrow> bool" where
  "date_jour s \<longleftrightarrow> length s = 10 \<and> s ! 4 = CHR ''-'' \<and> s ! 7 = CHR ''-'' \<and>
     list_all decimal_digit (take 4 s @ take 2 (drop 5 s) @ drop 8 s)"

section \<open>Sessions and accounts\<close>

text \<open>\<open>ExactlyOneContact\<close>, and the two contacts where they are given.\<close>

definition exactly_one_contact :: "string option \<Rightarrow> string option \<Rightarrow> bool" where
  "exactly_one_contact phone email \<longleftrightarrow> (phone = None) \<noteq> (email = None)"

definition valid_request_otp :: "formats \<Rightarrow> string option \<Rightarrow> string option \<Rightarrow> bool" where
  "valid_request_otp fm phone email \<longleftrightarrow>
     if_given (fm_isPhoneNumber fm) phone \<and> if_given (fm_isEmail fm) email \<and> exactly_one_contact phone email"

definition valid_verify_otp ::
  "formats \<Rightarrow> string option \<Rightarrow> string option \<Rightarrow> string \<Rightarrow> string option \<Rightarrow> bool" where
  "valid_verify_otp fm phone email code fullName \<longleftrightarrow>
     valid_request_otp fm phone email \<and> length_between 4 8 code \<and> if_given (\<lambda>n. 2 \<le> length n) fullName"

definition valid_agency_login :: "formats \<Rightarrow> string \<Rightarrow> string \<Rightarrow> bool" where
  "valid_agency_login fm email password \<longleftrightarrow> fm_isEmail fm email \<and> 8 \<le> length password"

definition valid_forgot_password :: "formats \<Rightarrow> string \<Rightarrow> bool" where
  "valid_forgot_password fm email \<longleftrightarrow> fm_isEmail fm email"

definition valid_reset_password :: "string \<Rightarrow> string \<Rightarrow> bool" where
  "valid_reset_password token newPassword \<longleftrightarrow> length_between 43 43 token \<and> length_between 8 72 newPassword"

definition valid_update_profile :: "update_profile_dto \<Rightarrow> bool" where
  "valid_update_profile dto \<longleftrightarrow>
     if_given (\<lambda>n. n \<noteq> []) (up_fullName dto) \<and>
     if_given (\<lambda>l. l \<in> {''fr'', ''en'', ''ar''}) (up_preferredLanguage dto) \<and>
     if_given (\<lambda>c. ec_fullName c \<noteq> [] \<and> ec_phone c \<noteq> []) (up_emergencyContact dto)"

definition mobility_levels :: "string list" where
  "mobility_levels = [''none'', ''reduced'', ''wheelchair'']"

definition valid_special_needs :: "special_needs_dto \<Rightarrow> bool" where
  "valid_special_needs dto \<longleftrightarrow>
     sd_mobility dto \<in> set mobility_levels \<and> if_given (\<lambda>t. length t \<le> 500) (sd_dietary dto) \<and>
     if_given (\<lambda>t. length t \<le> 500) (sd_medical dto) \<and> if_given (\<lambda>t. length t \<le> 500) (sd_assistance dto)"

section \<open>Agencies and their staff\<close>

definition valid_register_agency :: "formats \<Rightarrow> register_agency_dto \<Rightarrow> string \<Rightarrow> bool" where
  "valid_register_agency fm dto password \<longleftrightarrow>
     2 \<le> length (ra_legalName dto) \<and> fm_isEmail fm (ra_contactEmail dto) \<and>
     fm_isPhoneNumber fm (ra_contactPhone dto) \<and> 8 \<le> length password"

definition valid_bank_details :: "bank_details \<Rightarrow> bool" where
  "valid_bank_details b \<longleftrightarrow>
     length_between 1 120 (bk_accountName b) \<and> length_between 1 64 (bk_accountNumber b) \<and>
     length_between 1 120 (bk_bankName b)"

definition valid_update_agency :: "update_agency_dto \<Rightarrow> bool" where
  "valid_update_agency dto \<longleftrightarrow>
     if_given (\<lambda>t. length t \<le> 300) (ua_address dto) \<and> if_given (\<lambda>t. length t \<le> 40) (ua_taxId dto) \<and>
     if_given (\<lambda>t. length t \<le> 60) (ua_tradeRegister dto) \<and> if_given valid_bank_details (ua_bankDetails dto)"

text \<open>\<open>ValidateIf((dto) => dto.phone !== undefined || !dto.email)\<close> on the telephone.\<close>

definition valid_create_guide :: "formats \<Rightarrow> create_guide_dto \<Rightarrow> bool" where
  "valid_create_guide fm dto \<longleftrightarrow>
     length_between 2 120 (cg_fullName dto) \<and>
     (case cg_phone dto of Some p \<Rightarrow> fm_isPhoneNumber fm p | None \<Rightarrow> truthy (cg_email dto)) \<and>
     if_given (fm_isEmail fm) (cg_email dto)"

definition valid_reject_agency :: "string \<Rightarrow> bool" where
  "valid_reject_agency reason \<longleftrightarrow> 3 \<le> length reason"

definition valid_legal_document :: "string \<Rightarrow> bool" where
  "valid_legal_document label \<longleftrightarrow> 2 \<le> length label"

definition valid_create_unavailability :: "create_unavailability_dto \<Rightarrow> bool" where
  "valid_create_unavailability dto \<longleftrightarrow> if_given (\<lambda>t. length t \<le> 80) (cu_reason dto)"

definition valid_planning_query :: "planning_query \<Rightarrow> bool" where
  "valid_planning_query q \<longleftrightarrow> if_given date_jour (pn_from q) \<and> if_given date_jour (pn_to q)"

definition valid_create_shift :: "formats \<Rightarrow> create_shift_dto \<Rightarrow> bool" where
  "valid_create_shift fm dto \<longleftrightarrow>
     length_between 2 120 (cs_staffName dto) \<and> cs_staffRole dto \<in> set on_call_roles \<and>
     fm_isPhoneNumber fm (cs_phone dto) \<and> if_given (\<lambda>t. length t \<le> 300) (cs_notes dto)"

definition valid_update_shift :: "formats \<Rightarrow> update_shift_dto \<Rightarrow> bool" where
  "valid_update_shift fm dto \<longleftrightarrow>
     if_given (length_between 2 120) (us_staffName dto) \<and> if_given (\<lambda>r. r \<in> set on_call_roles) (us_staffRole dto) \<and>
     if_given (fm_isPhoneNumber fm) (us_shiftPhone dto) \<and> if_given (\<lambda>t. length t \<le> 300) (us_notes dto)"

definition valid_update_block :: "update_block_dto \<Rightarrow> bool" where
  "valid_update_block dto \<longleftrightarrow>
     if_given (length_between 2 120) (ub_hotelName dto) \<and> if_given (length_between 2 80) (ub_city dto) \<and>
     if_given (\<lambda>n. 1 \<le> n \<and> n \<le> 500) (ub_roomCount dto) \<and> if_given (\<lambda>t. length t \<le> 500) (ub_notes dto)"

section \<open>Groups, messages and documents\<close>

definition valid_create_group :: "string \<Rightarrow> bool" where
  "valid_create_group title \<longleftrightarrow> 2 \<le> length title"

definition valid_itinerary_step :: "string \<Rightarrow> bool" where
  "valid_itinerary_step label \<longleftrightarrow> 2 \<le> length label"

definition valid_location :: "rat \<Rightarrow> rat \<Rightarrow> bool" where
  "valid_location lat lng \<longleftrightarrow> - 90 \<le> lat \<and> lat \<le> 90 \<and> - 180 \<le> lng \<and> lng \<le> 180"

definition valid_message :: "string \<Rightarrow> bool" where
  "valid_message content \<longleftrightarrow> 1 \<le> length content"

definition valid_dispute_message :: "string \<Rightarrow> bool" where
  "valid_dispute_message content \<longleftrightarrow> length_between 1 2000 content"

definition valid_dispute_decision :: "string \<Rightarrow> bool" where
  "valid_dispute_decision decision \<longleftrightarrow> length_between 10 2000 decision"

definition valid_reject_document :: "string \<Rightarrow> bool" where
  "valid_reject_document reason \<longleftrightarrow> 3 \<le> length reason"

section \<open>Courses, rites and quiz\<close>

definition valid_create_course :: "formats \<Rightarrow> course_dto \<Rightarrow> bool" where
  "valid_create_course fm dto \<longleftrightarrow>
     3 \<le> length (cd_title dto) \<and> cd_videoUrl dto \<noteq> [] \<and> fm_isUrl fm (cd_videoUrl dto) \<and>
     if_given (\<lambda>n. 0 \<le> n) (cd_durationSeconds dto) \<and> if_given (\<lambda>n. 0 \<le> n) (cd_order dto)"

definition valid_update_course :: "formats \<Rightarrow> update_course_dto \<Rightarrow> bool" where
  "valid_update_course fm dto \<longleftrightarrow>
     if_given (\<lambda>t. 3 \<le> length t) (ce_title dto) \<and> if_given (\<lambda>u. u \<noteq> [] \<and> fm_isUrl fm u) (ce_videoUrl dto) \<and>
     if_given (\<lambda>n. 0 \<le> n) (ce_durationSeconds dto) \<and> if_given (\<lambda>n. 0 \<le> n) (ce_order dto)"

definition valid_sync_courses :: "course_item list \<Rightarrow> bool" where
  "valid_sync_courses items \<longleftrightarrow> 1 \<le> length items"

definition valid_create_sheet :: "sheet_dto \<Rightarrow> bool" where
  "valid_create_sheet dto \<longleftrightarrow>
     2 \<le> length (hd_key dto) \<and> 2 \<le> length (hd_title dto) \<and> 0 \<le> hd_order dto \<and> 10 \<le> length (hd_content dto) \<and>
     if_given (\<lambda>l. l \<in> {''fr'', ''en'', ''ar''}) (hd_language dto)"

definition valid_update_sheet :: "update_sheet_dto \<Rightarrow> bool" where
  "valid_update_sheet dto \<longleftrightarrow>
     if_given (\<lambda>t. 2 \<le> length t) (he_key dto) \<and> if_given (\<lambda>t. 2 \<le> length t) (he_title dto) \<and>
     if_given (\<lambda>n. 0 \<le> n) (he_order dto) \<and> if_given (\<lambda>t. 10 \<le> length t) (he_content dto) \<and>
     if_given (\<lambda>l. l \<in> {''fr'', ''en'', ''ar''}) (he_language dto)"

definition valid_rite_item :: "rite_item \<Rightarrow> bool" where
  "valid_rite_item i \<longleftrightarrow>
     2 \<le> length (im_riteKey i) \<and> if_given (\<lambda>n. 0 \<le> n) (im_tawafCount i) \<and> if_given (\<lambda>n. 0 \<le> n) (im_saiCount i)"

definition valid_sync_rites :: "rite_item list \<Rightarrow> bool" where
  "valid_sync_rites items \<longleftrightarrow> 1 \<le> length items \<and> list_all valid_rite_item items"

definition valid_create_question :: "question_dto \<Rightarrow> bool" where
  "valid_create_question dto \<longleftrightarrow>
     qd_question dto \<noteq> [] \<and> 2 \<le> length (qd_options dto) \<and> 0 \<le> qd_correctOption dto"

definition valid_submit_attempt :: "int \<Rightarrow> bool" where
  "valid_submit_attempt selectedOption \<longleftrightarrow> 0 \<le> selectedOption"

section \<open>The rest\<close>

text \<open>\<open>/^\+?[0-9][0-9 ]{1,19}$/\<close> and \<open>/^[A-Z]{2}$/\<close>\<close>

definition emergency_phone :: "string \<Rightarrow> bool" where
  "emergency_phone s \<longleftrightarrow>
     (let t = (case s of [] \<Rightarrow> [] | c # rest \<Rightarrow> if c = CHR ''+'' then rest else s)
      in case t of [] \<Rightarrow> False
         | c # rest \<Rightarrow> decimal_digit c \<and> length_between 1 19 rest \<and>
             list_all (\<lambda>x. decimal_digit x \<or> x = CHR '' '') rest)"

definition country_code :: "string \<Rightarrow> bool" where
  "country_code s \<longleftrightarrow> length s = 2 \<and> list_all (\<lambda>c. let n = of_char c :: nat in 65 \<le> n \<and> n \<le> 90) s"

definition valid_update_number :: "number_dto \<Rightarrow> bool" where
  "valid_update_number dto \<longleftrightarrow>
     if_given (\<lambda>t. 2 \<le> length t) (nd_label dto) \<and> if_given (\<lambda>c. c \<in> set emergency_categories) (nd_category dto) \<and>
     if_given emergency_phone (nd_phone dto) \<and> if_given country_code (nd_country dto) \<and>
     if_given (\<lambda>n. 0 \<le> n) (nd_order dto)"

definition valid_create_number :: "number_dto \<Rightarrow> bool" where
  "valid_create_number dto \<longleftrightarrow>
     valid_update_number dto \<and> nd_label dto \<noteq> None \<and> nd_category dto \<noteq> None \<and> nd_phone dto \<noteq> None \<and>
     nd_country dto \<noteq> None"

definition valid_budget :: "budget_dto \<Rightarrow> bool" where
  "valid_budget dto \<longleftrightarrow>
     list_all (if_given (\<lambda>a. 0 \<le> a))
       [bd_pocketMoney dto, bd_gifts dto, bd_sacrifice dto, bd_insurance dto, bd_otherExpenses dto]"

definition valid_audit_query :: "audit_query \<Rightarrow> bool" where
  "valid_audit_query q \<longleftrightarrow>
     if_given date_jour (aw_from q) \<and> if_given date_jour (aw_to q) \<and>
     if_given (\<lambda>t. length t \<le> 60) (aw_action q) \<and> if_given (\<lambda>t. length t \<le> 40) (aw_entityType q)"

definition valid_accounting_query :: "accounting_query \<Rightarrow> bool" where
  "valid_accounting_query q \<longleftrightarrow> if_given date_jour (aq_from q) \<and> if_given date_jour (aq_to q)"

section \<open>What the rules are for\<close>

text \<open>A contact that passes is the contact the code is sent to, and the other one is not given.\<close>

lemma valid_contact:
  assumes "valid_request_otp fm phone email"
  shows "(\<exists>p. phone = Some p \<and> fm_isPhoneNumber fm p \<and> to_otp_contact phone email = Phone p) \<or>
    (\<exists>e. email = Some e \<and> fm_isEmail fm e \<and> to_otp_contact phone email = Email (to_lower_case (trim e)))"
  using assms
  by (auto simp: valid_request_otp_def exactly_one_contact_def to_otp_contact_def if_given_def split: option.splits)

text \<open>A guide that passes can be reached.\<close>

lemma valid_guide_contact:
  "valid_create_guide fm dto \<Longrightarrow> cg_phone dto \<noteq> None \<or> truthy (cg_email dto)"
  by (auto simp: valid_create_guide_def split: option.splits)

end
