(* ===== verification/ApiAgency.thy ===== *)
theory ApiAgency
  imports Http Packages TravelGroups Rooms OnCall GuidePlanning Capacity Profitability Storage Billing
begin

text \<open>
  The routes of the agencies: their accounts, packages, groups, rooms, guides, shifts and
  simulations.  A controller is the list of its routes, in the order they are declared in, and
  one definition per method, which passes what the route carries to the service.  Texts that
  the runtime draws (tokens, hashes, references of files) are arguments.
\<close>

text \<open>The metadata of a change of the refund scale, with the text of \<open>JSON.stringify\<close>.\<close>

definition guide_metadata :: "group_shape \<Rightarrow> json option" where
  "guide_metadata r = Some (JObject
     [(''guideId'', case gs_guideId r of None \<Rightarrow> JNull | Some i \<Rightarrow> JString (show_nat i))])"

definition tiers_metadata :: "(int tier list \<Rightarrow> string) \<Rightarrow> uid \<times> int tier list \<Rightarrow> json option" where
  "tiers_metadata stringify r = Some (JObject [(''tiers'', JString (stringify (snd r)))])"

section \<open>\<open>agencies.controller.ts\<close>\<close>

definition agencies_route :: "http_method \<Rightarrow> segment list \<Rightarrow> decorators \<Rightarrow> route" where
  "agencies_route = route plain [Lit ''agencies'']"

definition r_agencies_register :: route where
  "r_agencies_register = agencies_route POST [Lit ''register''] (Public plain)"

definition agencies_register ::
  "realtime_env \<Rightarrow> request \<Rightarrow> string \<Rightarrow> register_agency_dto body \<Rightarrow> (server, agency_shape) act" where
  "agencies_register env rq passwordHash dto =
     serve env rq r_agencies_register None no_view
       (\<lambda>_. piped dto (\<lambda>dto. on_db (register_agency (rq_now rq) passwordHash dto)))"

definition r_agencies_get_own :: route where
  "r_agencies_get_own = agencies_route GET [Lit ''me''] (Roles [AGENCY] plain)"

definition agencies_get_own ::
  "realtime_env \<Rightarrow> request \<Rightarrow> (server, agency_shape) act" where
  "agencies_get_own env rq =
     serve env rq r_agencies_get_own None no_view
       (with_user (\<lambda>user. on_db (find_by_owner_or_fail (jp_sub user))))"

definition r_agencies_update_own :: route where
  "r_agencies_update_own = agencies_route PATCH [Lit ''me''] (Roles [AGENCY] plain)"

definition agencies_update_own ::
  "realtime_env \<Rightarrow> request \<Rightarrow> update_agency_dto body \<Rightarrow> (server, agency_shape) act" where
  "agencies_update_own env rq dto =
     serve env rq r_agencies_update_own None no_view
       (with_user (\<lambda>user. piped dto (\<lambda>dto. on_db (update_own (jp_sub user) dto))))"

definition r_agencies_list_own_guides :: route where
  "r_agencies_list_own_guides = agencies_route GET [Lit ''me'', Lit ''guides''] (Roles [AGENCY] plain)"

definition agencies_list_own_guides ::
  "realtime_env \<Rightarrow> request \<Rightarrow> (server, user_summary list) act" where
  "agencies_list_own_guides env rq =
     serve env rq r_agencies_list_own_guides None no_view
       (with_user (\<lambda>user. on_db (list_own_guides (jp_sub user))))"

definition r_agencies_add_guide :: route where
  "r_agencies_add_guide =
     agencies_route POST [Lit ''me'', Lit ''guides''] (Roles [AGENCY] (Audited ''agency.add_guide'' ''user'' plain))"

definition agencies_add_guide ::
  "realtime_env \<Rightarrow> request \<Rightarrow> create_guide_dto body \<Rightarrow> (server, user_summary) act" where
  "agencies_add_guide env rq dto =
     serve env rq r_agencies_add_guide None (id_view um_id)
       (with_user (\<lambda>user. piped dto (\<lambda>dto. on_db (add_guide (rq_now rq) (jp_sub user) dto))))"

definition r_agencies_add_legal_document :: route where
  "r_agencies_add_legal_document =
     agencies_route POST [Lit ''me'', Lit ''legal-documents''] (Roles [AGENCY] plain)"

definition agencies_add_legal_document ::
  "realtime_env \<Rightarrow> request \<Rightarrow> (uid \<Rightarrow> string \<Rightarrow> string) \<Rightarrow> (string \<times> time option) body \<Rightarrow> (server, agency_shape) act" where
  "agencies_add_legal_document env rq store dto =
     serve env rq r_agencies_add_legal_document None no_view
       (with_user (\<lambda>user. piped dto (\<lambda>dto. on_db (add_legal_document (rq_now rq) (jp_sub user) (fst dto) (snd dto) store))))"

definition r_agencies_get_compliance_alerts :: route where
  "r_agencies_get_compliance_alerts =
     agencies_route GET [Lit ''me'', Lit ''legal-documents'', Lit ''alerts''] (Roles [AGENCY] plain)"

definition agencies_get_compliance_alerts ::
  "realtime_env \<Rightarrow> request \<Rightarrow> (server, legal_document_alert list) act" where
  "agencies_get_compliance_alerts env rq =
     serve env rq r_agencies_get_compliance_alerts None no_view
       (with_user (\<lambda>user. on_db (get_compliance_alerts (rq_now rq) (jp_sub user))))"

definition r_agencies_get_legal_document_access_url :: route where
  "r_agencies_get_legal_document_access_url =
     agencies_route GET [Lit ''me'', Lit ''legal-documents'', Par ''id'', Lit ''access-url''] (Roles [AGENCY] plain)"

definition agencies_get_legal_document_access_url ::
  "realtime_env \<Rightarrow> request \<Rightarrow> storage_env \<Rightarrow> uid \<Rightarrow> (server, (string \<times> time)) act" where
  "agencies_get_legal_document_access_url env rq se i =
     serve env rq r_agencies_get_legal_document_access_url (Some i) no_view
       (with_user (\<lambda>user. on_db (get_legal_document_access_url (get_access_url se (rq_now rq)) (jp_sub user) i)))"

definition r_agencies_get_calendar_subscription :: route where
  "r_agencies_get_calendar_subscription =
     agencies_route GET [Lit ''me'', Lit ''calendar-subscription''] (Roles [AGENCY] plain)"

definition agencies_get_calendar_subscription ::
  "realtime_env \<Rightarrow> request \<Rightarrow> string \<Rightarrow> (server, calendar_subscription) act" where
  "agencies_get_calendar_subscription env rq token =
     serve env rq r_agencies_get_calendar_subscription None no_view
       (with_user (\<lambda>user. on_db (get_or_create_calendar_subscription token (jp_sub user))))"

definition r_agencies_regenerate_calendar_subscription :: route where
  "r_agencies_regenerate_calendar_subscription =
     agencies_route POST [Lit ''me'', Lit ''calendar-subscription'', Lit ''regenerate''] (Roles [AGENCY] plain)"

definition agencies_regenerate_calendar_subscription ::
  "realtime_env \<Rightarrow> request \<Rightarrow> string \<Rightarrow> (server, calendar_subscription) act" where
  "agencies_regenerate_calendar_subscription env rq token =
     serve env rq r_agencies_regenerate_calendar_subscription None no_view
       (with_user (\<lambda>user. on_db (regenerate_calendar_subscription token (jp_sub user))))"

definition r_agencies_list :: route where
  "r_agencies_list = agencies_route GET [] (Roles [ADMIN] plain)"

definition agencies_list ::
  "realtime_env \<Rightarrow> request \<Rightarrow> agency_validation_status option \<Rightarrow> (server, agency_shape list) act" where
  "agencies_list env rq status =
     serve env rq r_agencies_list None no_view
       (\<lambda>_. on_db (find_by_status status))"

definition r_agencies_get_by_id :: route where
  "r_agencies_get_by_id = agencies_route GET [Par ''id''] (Roles [ADMIN] plain)"

definition agencies_get_by_id ::
  "realtime_env \<Rightarrow> request \<Rightarrow> uid \<Rightarrow> (server, agency_shape) act" where
  "agencies_get_by_id env rq i =
     serve env rq r_agencies_get_by_id (Some i) no_view
       (\<lambda>_. on_db (find_agency_by_id_or_fail i))"

definition r_agencies_get_legal_document_access_url_for_admin :: route where
  "r_agencies_get_legal_document_access_url_for_admin =
     agencies_route GET [Par ''id'', Lit ''legal-documents'', Par ''documentId'', Lit ''access-url''] (Roles [ADMIN] plain)"

definition agencies_get_legal_document_access_url_for_admin ::
  "realtime_env \<Rightarrow> request \<Rightarrow> storage_env \<Rightarrow> uid \<Rightarrow> uid \<Rightarrow> (server, (string \<times> time)) act" where
  "agencies_get_legal_document_access_url_for_admin env rq se i documentId =
     serve env rq r_agencies_get_legal_document_access_url_for_admin (Some i) no_view
       (\<lambda>_. on_db (get_legal_document_access_url_for_admin (get_access_url se (rq_now rq)) i documentId))"

definition r_agencies_approve :: route where
  "r_agencies_approve =
     agencies_route PATCH [Par ''id'', Lit ''approve''] (Roles [ADMIN] (Audited ''agency.approve'' ''agency'' plain))"

definition agencies_approve ::
  "realtime_env \<Rightarrow> request \<Rightarrow> uid \<Rightarrow> (server, agency_shape) act" where
  "agencies_approve env rq i =
     serve env rq r_agencies_approve (Some i) (id_view as_id)
       (with_user (\<lambda>user. on_db (approve_agency (rq_now rq) i (jp_sub user))))"

definition r_agencies_reject :: route where
  "r_agencies_reject =
     agencies_route PATCH [Par ''id'', Lit ''reject''] (Roles [ADMIN] (Audited ''agency.reject'' ''agency'' plain))"

definition agencies_reject ::
  "realtime_env \<Rightarrow> request \<Rightarrow> uid \<Rightarrow> string body \<Rightarrow> (server, agency_shape) act" where
  "agencies_reject env rq i reason =
     serve env rq r_agencies_reject (Some i) (id_view as_id)
       (with_user (\<lambda>user. piped reason (\<lambda>reason. on_db (reject_agency (rq_now rq) i (jp_sub user) reason))))"

definition agencies_routes :: "route list" where
  "agencies_routes =
     [r_agencies_register, r_agencies_get_own, r_agencies_update_own, r_agencies_list_own_guides,
     r_agencies_add_guide, r_agencies_add_legal_document, r_agencies_get_compliance_alerts,
     r_agencies_get_legal_document_access_url, r_agencies_get_calendar_subscription,
     r_agencies_regenerate_calendar_subscription, r_agencies_list, r_agencies_get_by_id,
     r_agencies_get_legal_document_access_url_for_admin, r_agencies_approve, r_agencies_reject]"

section \<open>\<open>packages.controller.ts\<close>\<close>

definition packages_route :: "http_method \<Rightarrow> segment list \<Rightarrow> decorators \<Rightarrow> route" where
  "packages_route = route plain [Lit ''packages'']"

definition r_packages_list_public :: route where
  "r_packages_list_public = packages_route GET [] (Public plain)"

definition packages_list_public ::
  "realtime_env \<Rightarrow> request \<Rightarrow> package_query body \<Rightarrow> (server, package_shape list) act" where
  "packages_list_public env rq q =
     serve env rq r_packages_list_public None no_view
       (\<lambda>_. piped q (\<lambda>q. on_db (list_public q)))"

definition r_packages_list_mine :: route where
  "r_packages_list_mine = packages_route GET [Lit ''mine''] (Roles [AGENCY] plain)"

definition packages_list_mine ::
  "realtime_env \<Rightarrow> request \<Rightarrow> (server, package_shape list) act" where
  "packages_list_mine env rq =
     serve env rq r_packages_list_mine None no_view
       (with_user (\<lambda>user. on_db (list_my_packages (jp_sub user))))"

definition r_packages_get_by_id :: route where
  "r_packages_get_by_id = packages_route GET [Par ''id''] (Public plain)"

definition packages_get_by_id ::
  "realtime_env \<Rightarrow> request \<Rightarrow> uid \<Rightarrow> (server, package_shape) act" where
  "packages_get_by_id env rq i =
     serve env rq r_packages_get_by_id (Some i) no_view
       (\<lambda>_. on_db (find_package_or_fail i))"

definition r_packages_create :: route where
  "r_packages_create = packages_route POST [] (Roles [AGENCY] plain)"

definition packages_create ::
  "realtime_env \<Rightarrow> request \<Rightarrow> create_package_dto body \<Rightarrow> (server, package_shape) act" where
  "packages_create env rq dto =
     serve env rq r_packages_create None no_view
       (with_user (\<lambda>user. piped dto (\<lambda>dto. on_db (create_package (jp_sub user) dto))))"

definition r_packages_update :: route where
  "r_packages_update = packages_route PATCH [Par ''id''] (Roles [AGENCY] plain)"

definition packages_update ::
  "realtime_env \<Rightarrow> request \<Rightarrow> uid \<Rightarrow> update_package_dto body \<Rightarrow> (server, package_shape) act" where
  "packages_update env rq i dto =
     serve env rq r_packages_update (Some i) no_view
       (with_user (\<lambda>user. piped dto (\<lambda>dto. on_db (update_package (jp_sub user) i dto))))"

definition r_packages_close :: route where
  "r_packages_close = packages_route PATCH [Par ''id'', Lit ''close''] (Roles [AGENCY] plain)"

definition packages_close ::
  "realtime_env \<Rightarrow> request \<Rightarrow> uid \<Rightarrow> (server, package_shape) act" where
  "packages_close env rq i =
     serve env rq r_packages_close (Some i) no_view
       (with_user (\<lambda>user. on_db (close_package (jp_sub user) i)))"

definition packages_routes :: "route list" where
  "packages_routes =
     [r_packages_list_public, r_packages_list_mine, r_packages_get_by_id, r_packages_create,
     r_packages_update, r_packages_close]"

section \<open>\<open>groups.controller.ts\<close>\<close>

definition groups_route :: "http_method \<Rightarrow> segment list \<Rightarrow> decorators \<Rightarrow> route" where
  "groups_route = route plain [Lit ''groups'']"

definition r_groups_create :: route where
  "r_groups_create = groups_route POST [] (Roles [AGENCY] plain)"

definition groups_create ::
  "realtime_env \<Rightarrow> request \<Rightarrow> (uid \<times> string) body \<Rightarrow> (server, group_shape) act" where
  "groups_create env rq dto =
     serve env rq r_groups_create None no_view
       (with_user (\<lambda>user. piped dto (\<lambda>dto. on_db (create_group (jp_sub user) (fst dto) (snd dto)))))"

definition r_groups_list_mine :: route where
  "r_groups_list_mine = groups_route GET [Lit ''mine''] (Roles [AGENCY] plain)"

definition groups_list_mine ::
  "realtime_env \<Rightarrow> request \<Rightarrow> (server, group_shape list) act" where
  "groups_list_mine env rq =
     serve env rq r_groups_list_mine None no_view
       (with_user (\<lambda>user. on_db (list_groups_by_agency (jp_sub user))))"

definition r_groups_list_assigned :: route where
  "r_groups_list_assigned = groups_route GET [Lit ''assigned''] (Roles [GUIDE] plain)"

definition groups_list_assigned ::
  "realtime_env \<Rightarrow> request \<Rightarrow> (server, group_shape list) act" where
  "groups_list_assigned env rq =
     serve env rq r_groups_list_assigned None no_view
       (with_user (\<lambda>user. on_db (list_groups_for_guide (jp_sub user))))"

definition r_groups_list_joined :: route where
  "r_groups_list_joined = groups_route GET [Lit ''joined''] (Roles [PILGRIM] plain)"

definition groups_list_joined ::
  "realtime_env \<Rightarrow> request \<Rightarrow> (server, group_shape list) act" where
  "groups_list_joined env rq =
     serve env rq r_groups_list_joined None no_view
       (with_user (\<lambda>user. on_db (list_groups_for_pilgrim (jp_sub user))))"

definition r_groups_get_by_id :: route where
  "r_groups_get_by_id = groups_route GET [Par ''id''] plain"

definition groups_get_by_id ::
  "realtime_env \<Rightarrow> request \<Rightarrow> uid \<Rightarrow> (server, group_shape) act" where
  "groups_get_by_id env rq i =
     serve env rq r_groups_get_by_id (Some i) no_view
       (with_user (\<lambda>user. on_db (find_group_authorized (jp_sub user) (jp_role user) i)))"

definition r_groups_get_roster :: route where
  "r_groups_get_roster = groups_route GET [Par ''id'', Lit ''roster''] (Roles [AGENCY, GUIDE] plain)"

definition groups_get_roster ::
  "realtime_env \<Rightarrow> request \<Rightarrow> (string \<Rightarrow> 'k::linorder) \<Rightarrow> uid \<Rightarrow> (server, roster) act" where
  "groups_get_roster env rq collation i =
     serve env rq r_groups_get_roster (Some i) no_view
       (with_user (\<lambda>user. on_db (get_roster collation (rq_now rq) (jp_sub user) (jp_role user) i)))"

definition r_groups_get_roster_csv :: route where
  "r_groups_get_roster_csv =
     groups_route GET [Par ''id'', Lit ''roster'', Lit ''csv''] (Roles [AGENCY, GUIDE] plain)"

definition groups_get_roster_csv ::
  "realtime_env \<Rightarrow> request \<Rightarrow> (string \<Rightarrow> 'k::linorder) \<Rightarrow> uid \<Rightarrow> (server, string) act" where
  "groups_get_roster_csv env rq collation i =
     serve env rq r_groups_get_roster_csv (Some i) no_view
       (with_user (\<lambda>user. on_db (get_roster_csv collation (rq_now rq) (jp_sub user) (jp_role user) i)))"

definition r_groups_assign_guide :: route where
  "r_groups_assign_guide =
     groups_route PATCH [Par ''id'', Lit ''guide''] (Roles [AGENCY] (Audited ''group.assign_guide'' ''group'' plain))"

definition groups_assign_guide ::
  "realtime_env \<Rightarrow> request \<Rightarrow> uid \<Rightarrow> uid body \<Rightarrow> (server, group_shape) act" where
  "groups_assign_guide env rq i guideUserId =
     serve env rq r_groups_assign_guide (Some i) (\<lparr>vw_id = (\<lambda>r. Some (gs_id r)), vw_metadata = guide_metadata\<rparr>)
       (with_user (\<lambda>user. piped guideUserId (\<lambda>guideUserId. on_db (assign_guide (jp_sub user) i guideUserId))))"

definition r_groups_add_itinerary_step :: route where
  "r_groups_add_itinerary_step = groups_route POST [Par ''id'', Lit ''itinerary''] (Roles [AGENCY] plain)"

definition groups_add_itinerary_step ::
  "realtime_env \<Rightarrow> request \<Rightarrow> uid \<Rightarrow> itinerary_step body \<Rightarrow> (server, group_shape) act" where
  "groups_add_itinerary_step env rq i dto =
     serve env rq r_groups_add_itinerary_step (Some i) no_view
       (with_user (\<lambda>user. piped dto (\<lambda>dto. on_db (add_itinerary_step (jp_sub user) i dto))))"

definition r_groups_update_location :: route where
  "r_groups_update_location =
     groups_route PATCH [Par ''id'', Lit ''location''] (Roles [PILGRIM, GUIDE] plain)"

definition groups_update_location ::
  "realtime_env \<Rightarrow> request \<Rightarrow> uid \<Rightarrow> (rat \<times> rat) body \<Rightarrow> (server, group_shape) act" where
  "groups_update_location env rq i dto =
     serve env rq r_groups_update_location (Some i) no_view
       (with_user (\<lambda>user. piped dto (\<lambda>dto. on_db (update_location (rq_now rq) (jp_sub user) i (fst dto) (snd dto)))))"

definition r_groups_clear_location :: route where
  "r_groups_clear_location =
     groups_route DELETE [Par ''id'', Lit ''location''] (Roles [PILGRIM, GUIDE] plain)"

definition groups_clear_location ::
  "realtime_env \<Rightarrow> request \<Rightarrow> uid \<Rightarrow> (server, unit) act" where
  "groups_clear_location env rq i =
     serve env rq r_groups_clear_location (Some i) no_view
       (with_user (\<lambda>user. on_db (clear_location (jp_sub user) i)))"

definition r_groups_sos :: route where
  "r_groups_sos = groups_route POST [Par ''id'', Lit ''sos''] (Roles [PILGRIM] plain)"

definition groups_sos ::
  "realtime_env \<Rightarrow> request \<Rightarrow> uid \<Rightarrow> (server, unit) act" where
  "groups_sos env rq i =
     serve env rq r_groups_sos (Some i) no_view
       (with_user (\<lambda>user. on_db (trigger_sos (rq_now rq) (jp_sub user) i)))"

definition r_groups_lost :: route where
  "r_groups_lost = groups_route POST [Par ''id'', Lit ''lost''] (Roles [PILGRIM] plain)"

definition groups_lost ::
  "realtime_env \<Rightarrow> request \<Rightarrow> uid \<Rightarrow> (rat \<times> rat) body \<Rightarrow> (server, unit) act" where
  "groups_lost env rq i dto =
     serve env rq r_groups_lost (Some i) no_view
       (with_user (\<lambda>user. piped dto (\<lambda>dto. on_db (trigger_lost_alert (rq_now rq) (jp_sub user) i (fst dto) (snd dto)))))"

definition groups_routes :: "route list" where
  "groups_routes =
     [r_groups_create, r_groups_list_mine, r_groups_list_assigned, r_groups_list_joined,
     r_groups_get_by_id, r_groups_get_roster, r_groups_get_roster_csv, r_groups_assign_guide,
     r_groups_add_itinerary_step, r_groups_update_location, r_groups_clear_location, r_groups_sos,
     r_groups_lost]"

section \<open>\<open>rooms.controller.ts\<close>\<close>

definition rooms_route :: "http_method \<Rightarrow> segment list \<Rightarrow> decorators \<Rightarrow> route" where
  "rooms_route = route plain [Lit ''rooms'']"

definition r_rooms_find_mine :: route where
  "r_rooms_find_mine = rooms_route GET [Lit ''mine''] (Roles [PILGRIM] plain)"

definition rooms_find_mine ::
  "realtime_env \<Rightarrow> request \<Rightarrow> (server, my_room list) act" where
  "rooms_find_mine env rq =
     serve env rq r_rooms_find_mine None no_view
       (with_user (\<lambda>user. on_db (find_my_rooms (jp_sub user))))"

definition r_rooms_list_blocks :: route where
  "r_rooms_list_blocks = rooms_route GET [Lit ''blocks''] (Roles [AGENCY] plain)"

definition rooms_list_blocks ::
  "realtime_env \<Rightarrow> request \<Rightarrow> uid option body \<Rightarrow> (server, room_block_shape list) act" where
  "rooms_list_blocks env rq packageId =
     serve env rq r_rooms_list_blocks None no_view
       (with_user (\<lambda>user. piped packageId (\<lambda>packageId. on_db (list_blocks (jp_sub user) packageId))))"

definition r_rooms_create_block :: route where
  "r_rooms_create_block = rooms_route POST [Lit ''blocks''] (Roles [AGENCY] plain)"

definition rooms_create_block ::
  "realtime_env \<Rightarrow> request \<Rightarrow> create_block_dto body \<Rightarrow> (server, room_block_shape) act" where
  "rooms_create_block env rq dto =
     serve env rq r_rooms_create_block None no_view
       (with_user (\<lambda>user. piped dto (\<lambda>dto. on_db (create_block (jp_sub user) dto))))"

definition r_rooms_get_block :: route where
  "r_rooms_get_block = rooms_route GET [Lit ''blocks'', Par ''id''] (Roles [AGENCY] plain)"

definition rooms_get_block ::
  "realtime_env \<Rightarrow> request \<Rightarrow> uid body \<Rightarrow> (server, room_block_shape) act" where
  "rooms_get_block env rq i =
     serve env rq r_rooms_get_block None no_view
       (with_user (\<lambda>user. piped i (\<lambda>i. on_db (get_block (jp_sub user) i))))"

definition r_rooms_update_block :: route where
  "r_rooms_update_block = rooms_route PATCH [Lit ''blocks'', Par ''id''] (Roles [AGENCY] plain)"

definition rooms_update_block ::
  "realtime_env \<Rightarrow> request \<Rightarrow> uid body \<Rightarrow> update_block_dto body \<Rightarrow> (server, room_block_shape) act" where
  "rooms_update_block env rq i dto =
     serve env rq r_rooms_update_block None no_view
       (with_user (\<lambda>user. piped i (\<lambda>i. piped dto (\<lambda>dto. on_db (update_block (jp_sub user) i dto)))))"

definition r_rooms_delete_block :: route where
  "r_rooms_delete_block = rooms_route DELETE [Lit ''blocks'', Par ''id''] (Roles [AGENCY] plain)"

definition rooms_delete_block ::
  "realtime_env \<Rightarrow> request \<Rightarrow> uid body \<Rightarrow> (server, unit) act" where
  "rooms_delete_block env rq i =
     serve env rq r_rooms_delete_block None no_view
       (with_user (\<lambda>user. piped i (\<lambda>i. on_db (delete_block (jp_sub user) i))))"

definition r_rooms_assign :: route where
  "r_rooms_assign = rooms_route PUT [Lit ''blocks'', Par ''id'', Lit ''assignments''] (Roles [AGENCY] plain)"

definition rooms_assign ::
  "realtime_env \<Rightarrow> request \<Rightarrow> uid body \<Rightarrow> assign_room_dto body \<Rightarrow> (server, room_block_shape) act" where
  "rooms_assign env rq i dto =
     serve env rq r_rooms_assign None no_view
       (with_user (\<lambda>user. piped i (\<lambda>i. piped dto (\<lambda>dto. on_db (assign_room (jp_sub user) i dto)))))"

definition r_rooms_unassign :: route where
  "r_rooms_unassign =
     rooms_route DELETE [Lit ''blocks'', Par ''id'', Lit ''assignments'', Par ''bookingId''] (Roles [AGENCY] plain)"

definition rooms_unassign ::
  "realtime_env \<Rightarrow> request \<Rightarrow> uid body \<Rightarrow> uid body \<Rightarrow> (server, room_block_shape) act" where
  "rooms_unassign env rq i bookingId =
     serve env rq r_rooms_unassign None no_view
       (with_user (\<lambda>user. piped i (\<lambda>i. piped bookingId (\<lambda>bookingId. on_db (unassign_room (jp_sub user) i bookingId)))))"

definition r_rooms_rooming_list :: route where
  "r_rooms_rooming_list =
     rooms_route GET [Lit ''blocks'', Par ''id'', Lit ''rooming-list'', Lit ''csv''] (Roles [AGENCY] plain)"

definition rooms_rooming_list ::
  "realtime_env \<Rightarrow> request \<Rightarrow> uid body \<Rightarrow> (server, string) act" where
  "rooms_rooming_list env rq i =
     serve env rq r_rooms_rooming_list None no_view
       (with_user (\<lambda>user. piped i (\<lambda>i. on_db (get_rooming_list_csv (jp_sub user) i))))"

definition rooms_routes :: "route list" where
  "rooms_routes =
     [r_rooms_find_mine, r_rooms_list_blocks, r_rooms_create_block, r_rooms_get_block,
     r_rooms_update_block, r_rooms_delete_block, r_rooms_assign, r_rooms_unassign, r_rooms_rooming_list]"

section \<open>\<open>on-call.controller.ts\<close>\<close>

definition on_call_route :: "http_method \<Rightarrow> segment list \<Rightarrow> decorators \<Rightarrow> route" where
  "on_call_route = route plain [Lit ''on-call'']"

definition r_on_call_find_for_booking :: route where
  "r_on_call_find_for_booking =
     on_call_route GET [Lit ''booking'', Par ''bookingId''] (Roles [PILGRIM] plain)"

definition on_call_find_for_booking ::
  "realtime_env \<Rightarrow> request \<Rightarrow> uid body \<Rightarrow> (server, my_on_call) act" where
  "on_call_find_for_booking env rq bookingId =
     serve env rq r_on_call_find_for_booking None no_view
       (with_user (\<lambda>user. piped bookingId (\<lambda>bookingId. on_db (get_for_booking (rq_now rq) (jp_sub user) bookingId))))"

definition r_on_call_list_shifts :: route where
  "r_on_call_list_shifts = on_call_route GET [Lit ''shifts''] (Roles [AGENCY] plain)"

definition on_call_list_shifts ::
  "realtime_env \<Rightarrow> request \<Rightarrow> shifts_query body \<Rightarrow> (server, shift_shape list) act" where
  "on_call_list_shifts env rq q =
     serve env rq r_on_call_list_shifts None no_view
       (with_user (\<lambda>user. piped q (\<lambda>q. on_db (list_shifts (rq_now rq) (jp_sub user) q))))"

definition r_on_call_create_shift :: route where
  "r_on_call_create_shift = on_call_route POST [Lit ''shifts''] (Roles [AGENCY] plain)"

definition on_call_create_shift ::
  "realtime_env \<Rightarrow> request \<Rightarrow> create_shift_dto body \<Rightarrow> (server, shift_shape) act" where
  "on_call_create_shift env rq dto =
     serve env rq r_on_call_create_shift None no_view
       (with_user (\<lambda>user. piped dto (\<lambda>dto. on_db (create_shift (jp_sub user) dto))))"

definition r_on_call_update_shift :: route where
  "r_on_call_update_shift = on_call_route PATCH [Lit ''shifts'', Par ''id''] (Roles [AGENCY] plain)"

definition on_call_update_shift ::
  "realtime_env \<Rightarrow> request \<Rightarrow> uid body \<Rightarrow> update_shift_dto body \<Rightarrow> (server, shift_shape) act" where
  "on_call_update_shift env rq i dto =
     serve env rq r_on_call_update_shift None no_view
       (with_user (\<lambda>user. piped i (\<lambda>i. piped dto (\<lambda>dto. on_db (update_shift (jp_sub user) i dto)))))"

definition r_on_call_delete_shift :: route where
  "r_on_call_delete_shift = on_call_route DELETE [Lit ''shifts'', Par ''id''] (Roles [AGENCY] plain)"

definition on_call_delete_shift ::
  "realtime_env \<Rightarrow> request \<Rightarrow> uid body \<Rightarrow> (server, unit) act" where
  "on_call_delete_shift env rq i =
     serve env rq r_on_call_delete_shift None no_view
       (with_user (\<lambda>user. piped i (\<lambda>i. on_db (delete_shift (jp_sub user) i))))"

definition r_on_call_coverage :: route where
  "r_on_call_coverage = on_call_route GET [Lit ''coverage'', Par ''packageId''] (Roles [AGENCY] plain)"

definition on_call_coverage ::
  "realtime_env \<Rightarrow> request \<Rightarrow> uid body \<Rightarrow> (server, on_call_coverage) act" where
  "on_call_coverage env rq packageId =
     serve env rq r_on_call_coverage None no_view
       (with_user (\<lambda>user. piped packageId (\<lambda>packageId. on_db (get_coverage (jp_sub user) packageId))))"

definition on_call_routes :: "route list" where
  "on_call_routes =
     [r_on_call_find_for_booking, r_on_call_list_shifts, r_on_call_create_shift, r_on_call_update_shift,
     r_on_call_delete_shift, r_on_call_coverage]"

section \<open>\<open>guide-planning.controller.ts\<close>\<close>

definition guide_planning_route :: "http_method \<Rightarrow> segment list \<Rightarrow> decorators \<Rightarrow> route" where
  "guide_planning_route = route plain [Lit ''guide-planning'']"

definition r_guide_planning_get_agency_schedule :: route where
  "r_guide_planning_get_agency_schedule = guide_planning_route GET [] (Roles [AGENCY] plain)"

definition guide_planning_get_agency_schedule ::
  "realtime_env \<Rightarrow> request \<Rightarrow> (string \<Rightarrow> string) \<Rightarrow> planning_query body \<Rightarrow> (server, guide_schedule list) act" where
  "guide_planning_get_agency_schedule env rq collation q =
     serve env rq r_guide_planning_get_agency_schedule None no_view
       (with_user (\<lambda>user. piped q (\<lambda>q. on_db (get_agency_schedule collation (rq_now rq) (jp_sub user) q))))"

definition r_guide_planning_get_mine :: route where
  "r_guide_planning_get_mine = guide_planning_route GET [Lit ''mine''] (Roles [GUIDE] plain)"

definition guide_planning_get_mine ::
  "realtime_env \<Rightarrow> request \<Rightarrow> planning_query body \<Rightarrow> (server, guide_schedule) act" where
  "guide_planning_get_mine env rq q =
     serve env rq r_guide_planning_get_mine None no_view
       (with_user (\<lambda>user. piped q (\<lambda>q. on_db (get_my_schedule (rq_now rq) (jp_sub user) q))))"

definition r_guide_planning_add_unavailability :: route where
  "r_guide_planning_add_unavailability =
     guide_planning_route POST [Lit ''unavailabilities''] (Roles [AGENCY] (Audited ''guide.unavailability_add'' ''user'' plain))"

definition guide_planning_add_unavailability ::
  "realtime_env \<Rightarrow> request \<Rightarrow> create_unavailability_dto body \<Rightarrow> (server, guide_schedule) act" where
  "guide_planning_add_unavailability env rq dto =
     serve env rq r_guide_planning_add_unavailability None (id_view gd_guideId)
       (with_user (\<lambda>user. piped dto (\<lambda>dto. on_db (add_unavailability (jp_sub user) dto))))"

definition r_guide_planning_delete_unavailability :: route where
  "r_guide_planning_delete_unavailability =
     guide_planning_route DELETE [Lit ''unavailabilities'', Par ''id''] (Roles [AGENCY] (Audited ''guide.unavailability_delete'' ''guide_unavailability'' plain))"

definition guide_planning_delete_unavailability ::
  "realtime_env \<Rightarrow> request \<Rightarrow> uid \<Rightarrow> uid body \<Rightarrow> (server, unit) act" where
  "guide_planning_delete_unavailability env rq p i =
     serve env rq r_guide_planning_delete_unavailability (Some p) no_view
       (with_user (\<lambda>user. piped i (\<lambda>i. on_db (delete_unavailability (jp_sub user) i))))"

definition guide_planning_routes :: "route list" where
  "guide_planning_routes =
     [r_guide_planning_get_agency_schedule, r_guide_planning_get_mine,
     r_guide_planning_add_unavailability, r_guide_planning_delete_unavailability]"

section \<open>\<open>capacity.controller.ts\<close>\<close>

definition capacity_route :: "http_method \<Rightarrow> segment list \<Rightarrow> decorators \<Rightarrow> route" where
  "capacity_route = route plain [Lit ''capacity'']"

definition r_capacity_simulate :: route where
  "r_capacity_simulate = capacity_route GET [Lit ''simulation''] (Roles [AGENCY] plain)"

definition capacity_simulate ::
  "realtime_env \<Rightarrow> request \<Rightarrow> capacity_query body \<Rightarrow> (server, capacity_simulation) act" where
  "capacity_simulate env rq q =
     serve env rq r_capacity_simulate None no_view
       (with_user (\<lambda>user. piped q (\<lambda>q. on_db (simulate_capacity (rq_now rq) (jp_sub user) q))))"

definition capacity_routes :: "route list" where
  "capacity_routes =
     [r_capacity_simulate]"

section \<open>\<open>profitability.controller.ts\<close>\<close>

definition profitability_route :: "http_method \<Rightarrow> segment list \<Rightarrow> decorators \<Rightarrow> route" where
  "profitability_route = route plain [Lit ''profitability'']"

definition r_profitability_simulate :: route where
  "r_profitability_simulate = profitability_route POST [Lit ''simulation''] (Roles [AGENCY] plain)"

definition profitability_simulate ::
  "realtime_env \<Rightarrow> request \<Rightarrow> profitability_dto body \<Rightarrow> (server, profitability_simulation) act" where
  "profitability_simulate env rq dto =
     serve env rq r_profitability_simulate None no_view
       (with_user (\<lambda>user. piped dto (\<lambda>dto. on_db (simulate_profitability (jp_sub user) dto))))"

definition profitability_routes :: "route list" where
  "profitability_routes =
     [r_profitability_simulate]"

section \<open>\<open>refund-policy.controller.ts\<close>\<close>

definition refund_policies_route :: "http_method \<Rightarrow> segment list \<Rightarrow> decorators \<Rightarrow> route" where
  "refund_policies_route = route plain [Lit ''refund-policies'']"

definition r_refund_policies_get_mine :: route where
  "r_refund_policies_get_mine = refund_policies_route GET [Lit ''mine''] (Roles [AGENCY] plain)"

definition refund_policies_get_mine ::
  "realtime_env \<Rightarrow> request \<Rightarrow> (server, int tier list) act" where
  "refund_policies_get_mine env rq =
     serve env rq r_refund_policies_get_mine None no_view
       (with_user (\<lambda>user. on_db (get_policy_for_owner (jp_sub user))))"

definition r_refund_policies_replace_mine :: route where
  "r_refund_policies_replace_mine =
     refund_policies_route PUT [Lit ''mine''] (Roles [AGENCY] (Audited ''refund_policy.update'' ''agency'' plain))"

definition refund_policies_replace_mine ::
  "realtime_env \<Rightarrow> request \<Rightarrow> (int tier list \<Rightarrow> string) \<Rightarrow> int tier list body \<Rightarrow> (server, (uid \<times> int tier list)) act" where
  "refund_policies_replace_mine env rq stringify tiers =
     serve env rq r_refund_policies_replace_mine None (\<lparr>vw_id = (\<lambda>r. Some (fst r)), vw_metadata = tiers_metadata stringify\<rparr>)
       (with_user (\<lambda>user. piped tiers (\<lambda>tiers. on_db (bind (replace_for_owner (jp_sub user) tiers) (\<lambda>ts. bind (find_by_owner_or_fail (jp_sub user)) (\<lambda>a. ret (as_id a, ts)))))))"

definition r_refund_policies_get_for_agency :: route where
  "r_refund_policies_get_for_agency =
     refund_policies_route GET [Lit ''agency'', Par ''agencyId''] (Public plain)"

definition refund_policies_get_for_agency ::
  "realtime_env \<Rightarrow> request \<Rightarrow> uid body \<Rightarrow> (server, int tier list) act" where
  "refund_policies_get_for_agency env rq agencyId =
     serve env rq r_refund_policies_get_for_agency None no_view
       (\<lambda>_. piped agencyId (\<lambda>agencyId. on_db (get_for_agency agencyId)))"

definition refund_policies_routes :: "route list" where
  "refund_policies_routes =
     [r_refund_policies_get_mine, r_refund_policies_replace_mine, r_refund_policies_get_for_agency]"

end
