(* ===== verification/ApiTraveller.thy ===== *)
theory ApiTraveller
  imports Http Bookings Payments Savings Accounting Documents Disputes Checklists Billing Reviews Support Rooms Storage Calendar
begin

text \<open>
  The routes around a booking: the dossier, its payments, documents, disputes, checklist,
  invoice, budget and reviews, and the views of the families.
\<close>

text \<open>The metadata of the audit entries that are read off a payment.\<close>

fun payment_status_text :: "payment_status \<Rightarrow> string" where
  "payment_status_text PAY_PENDING = ''pending''"
| "payment_status_text SUCCEEDED = ''succeeded''"
| "payment_status_text FAILED = ''failed''"
| "payment_status_text REFUNDED = ''refunded''"

definition callback_metadata :: "payment_shape \<Rightarrow> json option" where
  "callback_metadata r = Some (JObject
     [(''status'', JString (payment_status_text (ps_status r))), (''amount'', JNumber (ps_amount r)),
      (''currency'', JString (ps_currency r)), (''providerReference'', JString (ps_providerReference r))])"

definition refund_metadata :: "payment_shape \<Rightarrow> json option" where
  "refund_metadata r = Some (JObject
     [(''refundedAmount'', case ps_refundedAmount r of None \<Rightarrow> JNull | Some m \<Rightarrow> JNumber m),
      (''currency'', JString (ps_currency r)), (''providerReference'', JString (ps_providerReference r))])"

text \<open>The name of the file of the accounting export.\<close>

definition accounting_disposition :: "accounting_query \<Rightarrow> string" where
  "accounting_disposition q =
     (let periode = join ''_'' (map (\<lambda>x. or_else x []) (filter truthy [aq_from q, aq_to q]))
      in ''attachment; filename=\"export-comptable'' @ (if periode = [] then [] else ''-'' @ periode) @ ''.csv\"'')"

text \<open>\<open>user.role === Role.AGENCY ? 'agency' : 'pilgrim'\<close>.\<close>

definition document_role :: "jwt_payload \<Rightarrow> role" where
  "document_role user = (if jp_role user = AGENCY then AGENCY else PILGRIM)"

section \<open>\<open>bookings.controller.ts\<close>\<close>

definition bookings_route :: "http_method \<Rightarrow> segment list \<Rightarrow> decorators \<Rightarrow> route" where
  "bookings_route = route plain [Lit ''bookings'']"

definition r_bookings_create :: route where
  "r_bookings_create = bookings_route POST [] (Roles [PILGRIM] plain)"

definition bookings_create ::
  "realtime_env \<Rightarrow> request \<Rightarrow> uid body \<Rightarrow> (server, booking_shape) act" where
  "bookings_create env rq packageId =
     serve env rq r_bookings_create None no_view
       (with_user (\<lambda>user. piped packageId (\<lambda>packageId. on_db (create_booking (rq_now rq) (jp_sub user) packageId))))"

definition r_bookings_list_mine :: route where
  "r_bookings_list_mine = bookings_route GET [Lit ''mine''] (Roles [PILGRIM] plain)"

definition bookings_list_mine ::
  "realtime_env \<Rightarrow> request \<Rightarrow> (server, booking_shape list) act" where
  "bookings_list_mine env rq =
     serve env rq r_bookings_list_mine None no_view
       (with_user (\<lambda>user. on_db (find_my_bookings (jp_sub user))))"

definition r_bookings_list_for_agency :: route where
  "r_bookings_list_for_agency = bookings_route GET [Lit ''agency''] (Roles [AGENCY] plain)"

definition bookings_list_for_agency ::
  "realtime_env \<Rightarrow> request \<Rightarrow> (server, booking_shape list) act" where
  "bookings_list_for_agency env rq =
     serve env rq r_bookings_list_for_agency None no_view
       (with_user (\<lambda>user. on_db (find_bookings_by_agency (jp_sub user))))"

definition r_bookings_get_by_id :: route where
  "r_bookings_get_by_id = bookings_route GET [Par ''id''] plain"

definition bookings_get_by_id ::
  "realtime_env \<Rightarrow> request \<Rightarrow> uid \<Rightarrow> (server, booking_shape) act" where
  "bookings_get_by_id env rq i =
     serve env rq r_bookings_get_by_id (Some i) no_view
       (with_user (\<lambda>user. on_db (find_booking_authorized (jp_sub user) (jp_role user) i)))"

definition r_bookings_update_step :: route where
  "r_bookings_update_step = bookings_route PATCH [Par ''id'', Lit ''step''] (Roles [AGENCY] plain)"

definition bookings_update_step ::
  "realtime_env \<Rightarrow> request \<Rightarrow> uid \<Rightarrow> (dossier_step_key \<times> dossier_step_status) body \<Rightarrow> (server, booking_shape) act" where
  "bookings_update_step env rq i dto =
     serve env rq r_bookings_update_step (Some i) no_view
       (with_user (\<lambda>user. piped dto (\<lambda>dto. on_db (update_step (rq_now rq) (jp_sub user) i (fst dto) (snd dto)))))"

definition r_bookings_assign_group :: route where
  "r_bookings_assign_group = bookings_route PATCH [Par ''id'', Lit ''group''] (Roles [AGENCY] plain)"

definition bookings_assign_group ::
  "realtime_env \<Rightarrow> request \<Rightarrow> uid \<Rightarrow> uid body \<Rightarrow> (server, booking_shape) act" where
  "bookings_assign_group env rq i groupId =
     serve env rq r_bookings_assign_group (Some i) no_view
       (with_user (\<lambda>user. piped groupId (\<lambda>groupId. on_db (assign_group (jp_sub user) i groupId))))"

definition r_bookings_cancel :: route where
  "r_bookings_cancel =
     bookings_route PATCH [Par ''id'', Lit ''cancel''] (Roles [PILGRIM] (Audited ''booking.cancel'' ''booking'' plain))"

definition bookings_cancel ::
  "realtime_env \<Rightarrow> request \<Rightarrow> uid \<Rightarrow> (server, booking_shape) act" where
  "bookings_cancel env rq i =
     serve env rq r_bookings_cancel (Some i) (id_view bs_id)
       (with_user (\<lambda>user. on_db (cancel_booking (jp_sub user) i)))"

definition r_bookings_get_family_view_link :: route where
  "r_bookings_get_family_view_link =
     bookings_route GET [Par ''id'', Lit ''family-view-link''] (Roles [PILGRIM] plain)"

definition bookings_get_family_view_link ::
  "realtime_env \<Rightarrow> request \<Rightarrow> string \<Rightarrow> uid \<Rightarrow> (server, family_view_link) act" where
  "bookings_get_family_view_link env rq token i =
     serve env rq r_bookings_get_family_view_link (Some i) no_view
       (with_user (\<lambda>user. on_db (get_or_create_family_view_link token (jp_sub user) i)))"

definition r_bookings_regenerate_family_view_link :: route where
  "r_bookings_regenerate_family_view_link =
     bookings_route POST [Par ''id'', Lit ''family-view-link'', Lit ''regenerate''] (Roles [PILGRIM] plain)"

definition bookings_regenerate_family_view_link ::
  "realtime_env \<Rightarrow> request \<Rightarrow> string \<Rightarrow> uid \<Rightarrow> (server, family_view_link) act" where
  "bookings_regenerate_family_view_link env rq token i =
     serve env rq r_bookings_regenerate_family_view_link (Some i) no_view
       (with_user (\<lambda>user. on_db (regenerate_family_view_link token (jp_sub user) i)))"

definition bookings_routes :: "route list" where
  "bookings_routes =
     [r_bookings_create, r_bookings_list_mine, r_bookings_list_for_agency, r_bookings_get_by_id,
     r_bookings_update_step, r_bookings_assign_group, r_bookings_cancel, r_bookings_get_family_view_link,
     r_bookings_regenerate_family_view_link]"

section \<open>\<open>payments.controller.ts\<close>\<close>

definition payments_route :: "http_method \<Rightarrow> segment list \<Rightarrow> decorators \<Rightarrow> route" where
  "payments_route = route plain [Lit ''payments'']"

definition r_payments_initiate :: route where
  "r_payments_initiate = payments_route POST [Lit ''initiate''] (Roles [PILGRIM] plain)"

definition payments_initiate ::
  "realtime_env \<Rightarrow> request \<Rightarrow> string \<Rightarrow> initiate_payment_dto body \<Rightarrow> (server, payment_shape) act" where
  "payments_initiate env rq ref dto =
     serve env rq r_payments_initiate None no_view
       (with_user (\<lambda>user. piped dto (\<lambda>dto. on_db (initiate (rq_now rq) ref (jp_sub user) dto))))"

definition r_payments_list_mine :: route where
  "r_payments_list_mine = payments_route GET [Lit ''mine''] (Roles [PILGRIM] plain)"

definition payments_list_mine ::
  "realtime_env \<Rightarrow> request \<Rightarrow> (server, payment_shape list) act" where
  "payments_list_mine env rq =
     serve env rq r_payments_list_mine None no_view
       (with_user (\<lambda>user. on_db (find_payments_for_pilgrim (jp_sub user))))"

definition r_payments_list_for_agency :: route where
  "r_payments_list_for_agency = payments_route GET [Lit ''agency''] (Roles [AGENCY] plain)"

definition payments_list_for_agency ::
  "realtime_env \<Rightarrow> request \<Rightarrow> (server, payment_shape list) act" where
  "payments_list_for_agency env rq =
     serve env rq r_payments_list_for_agency None no_view
       (with_user (\<lambda>user. on_db (find_payments_for_agency (jp_sub user))))"

definition r_payments_treasury :: route where
  "r_payments_treasury = payments_route GET [Lit ''agency'', Lit ''treasury''] (Roles [AGENCY] plain)"

definition payments_treasury ::
  "realtime_env \<Rightarrow> request \<Rightarrow> (server, treasury_projection) act" where
  "payments_treasury env rq =
     serve env rq r_payments_treasury None no_view
       (with_user (\<lambda>user. on_db (get_treasury_projection (rq_now rq) (jp_sub user))))"

definition r_payments_accounting_journal :: route where
  "r_payments_accounting_journal =
     payments_route GET [Lit ''agency'', Lit ''accounting''] (Roles [AGENCY] plain)"

definition payments_accounting_journal ::
  "realtime_env \<Rightarrow> request \<Rightarrow> accounting_query body \<Rightarrow> (server, accounting_export) act" where
  "payments_accounting_journal env rq q =
     serve env rq r_payments_accounting_journal None no_view
       (with_user (\<lambda>user. piped q (\<lambda>q. on_db (get_journal (rq_now rq) (jp_sub user) q))))"

definition r_payments_accounting_journal_csv :: route where
  "r_payments_accounting_journal_csv =
     payments_route GET [Lit ''agency'', Lit ''accounting'', Lit ''csv''] (Roles [AGENCY] plain)"

definition payments_accounting_journal_csv ::
  "realtime_env \<Rightarrow> request \<Rightarrow> accounting_query body \<Rightarrow> (server, (string \<times> string)) act" where
  "payments_accounting_journal_csv env rq q =
     serve env rq r_payments_accounting_journal_csv None no_view
       (with_user (\<lambda>user. piped q (\<lambda>q. bind (on_db (get_journal_csv (rq_now rq) (jp_sub user) q)) (\<lambda>csv. ret (accounting_disposition q, csv)))))"

definition r_payments_webhook :: route where
  "r_payments_webhook =
     payments_route POST [Lit ''webhook''] (Public (Audited ''payment.status_callback'' ''payment'' plain))"

definition payments_webhook ::
  "realtime_env \<Rightarrow> request \<Rightarrow> (string \<times> payment_status) body \<Rightarrow> (server, payment_shape) act" where
  "payments_webhook env rq dto =
     serve env rq r_payments_webhook None (\<lparr>vw_id = (\<lambda>r. Some (ps_id r)), vw_metadata = callback_metadata\<rparr>)
       (\<lambda>_. piped dto (\<lambda>dto. on_db (handle_webhook (rq_now rq) (fst dto) (snd dto))))"

definition r_payments_get_by_id :: route where
  "r_payments_get_by_id = payments_route GET [Par ''id''] plain"

definition payments_get_by_id ::
  "realtime_env \<Rightarrow> request \<Rightarrow> uid \<Rightarrow> (server, payment_shape) act" where
  "payments_get_by_id env rq i =
     serve env rq r_payments_get_by_id (Some i) no_view
       (with_user (\<lambda>user. on_db (find_payment_authorized (jp_sub user) (jp_role user) i)))"

definition r_payments_refund_preview :: route where
  "r_payments_refund_preview =
     payments_route GET [Par ''id'', Lit ''refund-preview''] (Roles [PILGRIM, AGENCY, ADMIN] plain)"

definition payments_refund_preview ::
  "realtime_env \<Rightarrow> request \<Rightarrow> uid \<Rightarrow> (server, refund_preview) act" where
  "payments_refund_preview env rq i =
     serve env rq r_payments_refund_preview (Some i) no_view
       (with_user (\<lambda>user. on_db (preview_refund (rq_now rq) (jp_sub user) (jp_role user) i)))"

definition r_payments_request_refund :: route where
  "r_payments_request_refund =
     payments_route POST [Par ''id'', Lit ''refund''] (Roles [PILGRIM, AGENCY, ADMIN] (Audited ''payment.refund'' ''payment'' plain))"

definition payments_request_refund ::
  "realtime_env \<Rightarrow> request \<Rightarrow> uid \<Rightarrow> (server, payment_shape) act" where
  "payments_request_refund env rq i =
     serve env rq r_payments_request_refund (Some i) (\<lparr>vw_id = (\<lambda>r. Some (ps_id r)), vw_metadata = refund_metadata\<rparr>)
       (with_user (\<lambda>user. on_db (request_refund (rq_now rq) (jp_sub user) (jp_role user) i)))"

definition r_payments_get_savings_plan :: route where
  "r_payments_get_savings_plan =
     payments_route GET [Lit ''bookings'', Par ''bookingId'', Lit ''savings-plan''] (Roles [PILGRIM] plain)"

definition payments_get_savings_plan ::
  "realtime_env \<Rightarrow> request \<Rightarrow> uid \<Rightarrow> (server, savings_plan option) act" where
  "payments_get_savings_plan env rq bookingId =
     serve env rq r_payments_get_savings_plan None no_view
       (with_user (\<lambda>user. on_db (find_savings_plan_by_booking (jp_sub user) bookingId)))"

definition r_payments_setup_savings_plan :: route where
  "r_payments_setup_savings_plan =
     payments_route POST [Lit ''bookings'', Par ''bookingId'', Lit ''savings-plan''] (Roles [PILGRIM] plain)"

definition payments_setup_savings_plan ::
  "realtime_env \<Rightarrow> request \<Rightarrow> uid \<Rightarrow> setup_savings_plan_dto body \<Rightarrow> (server, savings_plan) act" where
  "payments_setup_savings_plan env rq bookingId dto =
     serve env rq r_payments_setup_savings_plan None no_view
       (with_user (\<lambda>user. piped dto (\<lambda>dto. on_db (setup_savings_plan (rq_now rq) (jp_sub user) bookingId dto))))"

definition payments_routes :: "route list" where
  "payments_routes =
     [r_payments_initiate, r_payments_list_mine, r_payments_list_for_agency, r_payments_treasury,
     r_payments_accounting_journal, r_payments_accounting_journal_csv, r_payments_webhook,
     r_payments_get_by_id, r_payments_refund_preview, r_payments_request_refund,
     r_payments_get_savings_plan, r_payments_setup_savings_plan]"

section \<open>\<open>documents.controller.ts\<close>\<close>

definition documents_route :: "http_method \<Rightarrow> segment list \<Rightarrow> decorators \<Rightarrow> route" where
  "documents_route = route plain [Lit ''documents'']"

definition r_documents_upload :: route where
  "r_documents_upload = documents_route POST [] (Roles [PILGRIM] plain)"

definition documents_upload ::
  "realtime_env \<Rightarrow> request \<Rightarrow> string \<Rightarrow> upload_document_dto body \<Rightarrow> (server, document_shape) act" where
  "documents_upload env rq storageRef dto =
     serve env rq r_documents_upload None no_view
       (with_user (\<lambda>user. piped dto (\<lambda>dto. on_db (upload_document (jp_sub user) dto storageRef))))"

definition r_documents_list_mine :: route where
  "r_documents_list_mine = documents_route GET [Lit ''mine''] (Roles [PILGRIM] plain)"

definition documents_list_mine ::
  "realtime_env \<Rightarrow> request \<Rightarrow> (server, document_shape list) act" where
  "documents_list_mine env rq =
     serve env rq r_documents_list_mine None no_view
       (with_user (\<lambda>user. on_db (find_my_documents (jp_sub user))))"

definition r_documents_list_by_booking :: route where
  "r_documents_list_by_booking = documents_route GET [] (Roles [PILGRIM, AGENCY] plain)"

definition documents_list_by_booking ::
  "realtime_env \<Rightarrow> request \<Rightarrow> uid \<Rightarrow> (server, document_shape list) act" where
  "documents_list_by_booking env rq bookingId =
     serve env rq r_documents_list_by_booking None no_view
       (with_user (\<lambda>user. on_db (find_documents_by_booking (jp_sub user) (document_role user) bookingId)))"

definition r_documents_get_expiry_alerts :: route where
  "r_documents_get_expiry_alerts =
     documents_route GET [Lit ''expiry-alerts''] (Roles [PILGRIM, AGENCY] plain)"

definition documents_get_expiry_alerts ::
  "realtime_env \<Rightarrow> request \<Rightarrow> uid \<Rightarrow> (server, expiry_alert list) act" where
  "documents_get_expiry_alerts env rq bookingId =
     serve env rq r_documents_get_expiry_alerts None no_view
       (with_user (\<lambda>user. on_db (get_expiry_alerts (rq_now rq) (jp_sub user) (document_role user) bookingId)))"

definition r_documents_get_access_url :: route where
  "r_documents_get_access_url =
     documents_route GET [Par ''id'', Lit ''access-url''] (Roles [PILGRIM, AGENCY] plain)"

definition documents_get_access_url ::
  "realtime_env \<Rightarrow> request \<Rightarrow> storage_env \<Rightarrow> uid \<Rightarrow> (server, (string \<times> time)) act" where
  "documents_get_access_url env rq se i =
     serve env rq r_documents_get_access_url (Some i) no_view
       (with_user (\<lambda>user. on_db (get_document_access_url (get_access_url se (rq_now rq)) (jp_sub user) (document_role user) i)))"

definition r_documents_validate :: route where
  "r_documents_validate =
     documents_route PATCH [Par ''id'', Lit ''validate''] (Roles [AGENCY] (Audited ''document.validate'' ''pilgrim_document'' plain))"

definition documents_validate ::
  "realtime_env \<Rightarrow> request \<Rightarrow> uid \<Rightarrow> (server, document_shape) act" where
  "documents_validate env rq i =
     serve env rq r_documents_validate (Some i) (id_view ds_id)
       (with_user (\<lambda>user. on_db (validate_document (rq_now rq) (jp_sub user) i)))"

definition r_documents_reject :: route where
  "r_documents_reject =
     documents_route PATCH [Par ''id'', Lit ''reject''] (Roles [AGENCY] (Audited ''document.reject'' ''pilgrim_document'' plain))"

definition documents_reject ::
  "realtime_env \<Rightarrow> request \<Rightarrow> uid \<Rightarrow> string body \<Rightarrow> (server, document_shape) act" where
  "documents_reject env rq i reason =
     serve env rq r_documents_reject (Some i) (id_view ds_id)
       (with_user (\<lambda>user. piped reason (\<lambda>reason. on_db (reject_document (jp_sub user) i reason))))"

definition documents_routes :: "route list" where
  "documents_routes =
     [r_documents_upload, r_documents_list_mine, r_documents_list_by_booking,
     r_documents_get_expiry_alerts, r_documents_get_access_url, r_documents_validate, r_documents_reject]"

section \<open>\<open>disputes.controller.ts\<close>\<close>

definition disputes_route :: "http_method \<Rightarrow> segment list \<Rightarrow> decorators \<Rightarrow> route" where
  "disputes_route = route plain [Lit ''disputes'']"

definition r_disputes_create :: route where
  "r_disputes_create = disputes_route POST [] (Roles [PILGRIM] plain)"

definition disputes_create ::
  "realtime_env \<Rightarrow> request \<Rightarrow> create_dispute_dto body \<Rightarrow> (server, dispute_shape) act" where
  "disputes_create env rq dto =
     serve env rq r_disputes_create None no_view
       (with_user (\<lambda>user. piped dto (\<lambda>dto. on_db (create_dispute (rq_now rq) (jp_sub user) dto))))"

definition r_disputes_list :: route where
  "r_disputes_list = disputes_route GET [] (Roles [PILGRIM, AGENCY, ADMIN] plain)"

definition disputes_list ::
  "realtime_env \<Rightarrow> request \<Rightarrow> dispute_status option body \<Rightarrow> (server, dispute_shape list) act" where
  "disputes_list env rq status =
     serve env rq r_disputes_list None no_view
       (with_user (\<lambda>user. piped status (\<lambda>status. on_db (list_disputes (jp_sub user) (jp_role user) status))))"

definition r_disputes_find_one :: route where
  "r_disputes_find_one = disputes_route GET [Par ''id''] (Roles [PILGRIM, AGENCY, ADMIN] plain)"

definition disputes_find_one ::
  "realtime_env \<Rightarrow> request \<Rightarrow> uid body \<Rightarrow> (server, dispute_shape) act" where
  "disputes_find_one env rq i =
     serve env rq r_disputes_find_one None no_view
       (with_user (\<lambda>user. piped i (\<lambda>i. on_db (find_one_dispute (jp_sub user) (jp_role user) i))))"

definition r_disputes_add_message :: route where
  "r_disputes_add_message =
     disputes_route POST [Par ''id'', Lit ''messages''] (Roles [PILGRIM, AGENCY, ADMIN] plain)"

definition disputes_add_message ::
  "realtime_env \<Rightarrow> request \<Rightarrow> uid body \<Rightarrow> string body \<Rightarrow> (server, dispute_shape) act" where
  "disputes_add_message env rq i content =
     serve env rq r_disputes_add_message None no_view
       (with_user (\<lambda>user. piped i (\<lambda>i. piped content (\<lambda>content. on_db (add_dispute_message (rq_now rq) (jp_sub user) (jp_role user) i content)))))"

definition r_disputes_resolve :: route where
  "r_disputes_resolve = disputes_route POST [Par ''id'', Lit ''resolve''] (Roles [PILGRIM] plain)"

definition disputes_resolve ::
  "realtime_env \<Rightarrow> request \<Rightarrow> uid body \<Rightarrow> (server, dispute_shape) act" where
  "disputes_resolve env rq i =
     serve env rq r_disputes_resolve None no_view
       (with_user (\<lambda>user. piped i (\<lambda>i. on_db (resolve_dispute (rq_now rq) (jp_sub user) i))))"

definition r_disputes_escalate :: route where
  "r_disputes_escalate =
     disputes_route POST [Par ''id'', Lit ''escalate''] (Roles [PILGRIM] (Audited ''dispute.escalate'' ''dispute'' plain))"

definition disputes_escalate ::
  "realtime_env \<Rightarrow> request \<Rightarrow> uid \<Rightarrow> uid body \<Rightarrow> (server, dispute_shape) act" where
  "disputes_escalate env rq p i =
     serve env rq r_disputes_escalate (Some p) (id_view dsh_id)
       (with_user (\<lambda>user. piped i (\<lambda>i. on_db (escalate_dispute (rq_now rq) (jp_sub user) i))))"

definition r_disputes_decide :: route where
  "r_disputes_decide =
     disputes_route POST [Par ''id'', Lit ''decision''] (Roles [ADMIN] (Audited ''dispute.decide'' ''dispute'' plain))"

definition disputes_decide ::
  "realtime_env \<Rightarrow> request \<Rightarrow> uid \<Rightarrow> uid body \<Rightarrow> string body \<Rightarrow> (server, dispute_shape) act" where
  "disputes_decide env rq p i decision =
     serve env rq r_disputes_decide (Some p) (id_view dsh_id)
       (with_user (\<lambda>user. piped i (\<lambda>i. piped decision (\<lambda>decision. on_db (decide_dispute (rq_now rq) (jp_sub user) i decision)))))"

definition disputes_routes :: "route list" where
  "disputes_routes =
     [r_disputes_create, r_disputes_list, r_disputes_find_one, r_disputes_add_message,
     r_disputes_resolve, r_disputes_escalate, r_disputes_decide]"

section \<open>\<open>checklist.controller.ts\<close>\<close>

definition checklist_route :: "http_method \<Rightarrow> segment list \<Rightarrow> decorators \<Rightarrow> route" where
  "checklist_route = route plain [Lit ''checklist'']"

definition r_checklist_get_by_booking :: route where
  "r_checklist_get_by_booking =
     checklist_route GET [Lit ''bookings'', Par ''bookingId''] (Roles [PILGRIM] plain)"

definition checklist_get_by_booking ::
  "realtime_env \<Rightarrow> request \<Rightarrow> uid \<Rightarrow> (server, checklist_item list) act" where
  "checklist_get_by_booking env rq bookingId =
     serve env rq r_checklist_get_by_booking None no_view
       (with_user (\<lambda>user. on_db (find_checklist_by_booking (jp_sub user) bookingId)))"

definition r_checklist_update_status :: route where
  "r_checklist_update_status = checklist_route PATCH [Par ''id'', Lit ''status''] (Roles [PILGRIM] plain)"

definition checklist_update_status ::
  "realtime_env \<Rightarrow> request \<Rightarrow> uid \<Rightarrow> bool body \<Rightarrow> (server, checklist_item) act" where
  "checklist_update_status env rq i isCompleted =
     serve env rq r_checklist_update_status (Some i) no_view
       (with_user (\<lambda>user. piped isCompleted (\<lambda>isCompleted. on_db (update_checklist_status (jp_sub user) i isCompleted))))"

definition checklist_routes :: "route list" where
  "checklist_routes =
     [r_checklist_get_by_booking, r_checklist_update_status]"

section \<open>\<open>billing.controller.ts\<close>\<close>

definition billing_route :: "http_method \<Rightarrow> segment list \<Rightarrow> decorators \<Rightarrow> route" where
  "billing_route = route (Roles [PILGRIM, AGENCY, ADMIN] plain) [Lit ''bookings'']"

definition r_billing_get_invoice :: route where
  "r_billing_get_invoice = billing_route GET [Par ''id'', Lit ''invoice''] plain"

definition billing_get_invoice ::
  "realtime_env \<Rightarrow> request \<Rightarrow> uid body \<Rightarrow> (server, invoice_shape) act" where
  "billing_get_invoice env rq i =
     serve env rq r_billing_get_invoice None no_view
       (with_user (\<lambda>user. piped i (\<lambda>i. on_db (get_invoice (rq_now rq) (jp_sub user) (jp_role user) i))))"

definition r_billing_get_contract :: route where
  "r_billing_get_contract = billing_route GET [Par ''id'', Lit ''contract''] plain"

definition billing_get_contract ::
  "realtime_env \<Rightarrow> request \<Rightarrow> uid body \<Rightarrow> (server, contract_shape) act" where
  "billing_get_contract env rq i =
     serve env rq r_billing_get_contract None no_view
       (with_user (\<lambda>user. piped i (\<lambda>i. on_db (get_contract (rq_now rq) (jp_sub user) (jp_role user) i))))"

definition billing_routes :: "route list" where
  "billing_routes =
     [r_billing_get_invoice, r_billing_get_contract]"

section \<open>\<open>budget.controller.ts\<close>\<close>

definition budget_route :: "http_method \<Rightarrow> segment list \<Rightarrow> decorators \<Rightarrow> route" where
  "budget_route = route plain [Lit ''budget'']"

definition r_budget_list_mine :: route where
  "r_budget_list_mine = budget_route GET [Lit ''mine''] (Roles [PILGRIM] plain)"

definition budget_list_mine ::
  "realtime_env \<Rightarrow> request \<Rightarrow> (server, budget_simulation list) act" where
  "budget_list_mine env rq =
     serve env rq r_budget_list_mine None no_view
       (with_user (\<lambda>user. on_db (find_budgets_for_pilgrim (jp_sub user))))"

definition r_budget_create :: route where
  "r_budget_create = budget_route POST [] (Roles [PILGRIM] plain)"

definition budget_create ::
  "realtime_env \<Rightarrow> request \<Rightarrow> budget_dto body \<Rightarrow> (server, budget_simulation) act" where
  "budget_create env rq dto =
     serve env rq r_budget_create None no_view
       (with_user (\<lambda>user. piped dto (\<lambda>dto. on_db (create_budget (jp_sub user) dto))))"

definition r_budget_update :: route where
  "r_budget_update = budget_route PUT [Par ''id''] (Roles [PILGRIM] plain)"

definition budget_update ::
  "realtime_env \<Rightarrow> request \<Rightarrow> uid \<Rightarrow> budget_dto body \<Rightarrow> (server, budget_simulation) act" where
  "budget_update env rq i dto =
     serve env rq r_budget_update (Some i) no_view
       (with_user (\<lambda>user. piped dto (\<lambda>dto. on_db (update_budget (jp_sub user) i dto))))"

definition r_budget_remove :: route where
  "r_budget_remove = budget_route DELETE [Par ''id''] (Roles [PILGRIM] plain)"

definition budget_remove ::
  "realtime_env \<Rightarrow> request \<Rightarrow> uid \<Rightarrow> (server, bool) act" where
  "budget_remove env rq i =
     serve env rq r_budget_remove (Some i) no_view
       (with_user (\<lambda>user. on_db (remove_budget (jp_sub user) i)))"

definition budget_routes :: "route list" where
  "budget_routes =
     [r_budget_list_mine, r_budget_create, r_budget_update, r_budget_remove]"

section \<open>\<open>reviews.controller.ts\<close>\<close>

definition reviews_route :: "http_method \<Rightarrow> segment list \<Rightarrow> decorators \<Rightarrow> route" where
  "reviews_route = route plain [Lit ''reviews'']"

definition r_reviews_create :: route where
  "r_reviews_create = reviews_route POST [] (Roles [PILGRIM] plain)"

definition reviews_create ::
  "realtime_env \<Rightarrow> request \<Rightarrow> create_review_dto body \<Rightarrow> (server, review) act" where
  "reviews_create env rq dto =
     serve env rq r_reviews_create None no_view
       (with_user (\<lambda>user. piped dto (\<lambda>dto. on_db (create_review (rq_now rq) (jp_sub user) dto))))"

definition r_reviews_list_mine :: route where
  "r_reviews_list_mine = reviews_route GET [Lit ''mine''] (Roles [PILGRIM] plain)"

definition reviews_list_mine ::
  "realtime_env \<Rightarrow> request \<Rightarrow> (server, review list) act" where
  "reviews_list_mine env rq =
     serve env rq r_reviews_list_mine None no_view
       (with_user (\<lambda>user. on_db (find_my_reviews (jp_sub user))))"

definition r_reviews_get_satisfaction_report :: route where
  "r_reviews_get_satisfaction_report =
     reviews_route GET [Lit ''agency'', Lit ''me'', Lit ''satisfaction-report''] (Roles [AGENCY] plain)"

definition reviews_get_satisfaction_report ::
  "realtime_env \<Rightarrow> request \<Rightarrow> (server, satisfaction_report) act" where
  "reviews_get_satisfaction_report env rq =
     serve env rq r_reviews_get_satisfaction_report None no_view
       (with_user (\<lambda>user. on_db (get_satisfaction_report (rq_now rq) (jp_sub user))))"

definition r_reviews_get_satisfaction_report_csv :: route where
  "r_reviews_get_satisfaction_report_csv =
     reviews_route GET [Lit ''agency'', Lit ''me'', Lit ''satisfaction-report'', Lit ''csv''] (Roles [AGENCY] plain)"

definition reviews_get_satisfaction_report_csv ::
  "realtime_env \<Rightarrow> request \<Rightarrow> (server, string) act" where
  "reviews_get_satisfaction_report_csv env rq =
     serve env rq r_reviews_get_satisfaction_report_csv None no_view
       (with_user (\<lambda>user. on_db (get_satisfaction_report_csv (rq_now rq) (jp_sub user))))"

definition r_reviews_list_by_agency :: route where
  "r_reviews_list_by_agency = reviews_route GET [Lit ''agency'', Par ''agencyId''] (Public plain)"

definition reviews_list_by_agency ::
  "realtime_env \<Rightarrow> request \<Rightarrow> uid \<Rightarrow> (server, review list) act" where
  "reviews_list_by_agency env rq agencyId =
     serve env rq r_reviews_list_by_agency None no_view
       (\<lambda>_. on_db (list_reviews_by_agency agencyId))"

definition r_reviews_get_trust_score :: route where
  "r_reviews_get_trust_score =
     reviews_route GET [Lit ''agency'', Par ''agencyId'', Lit ''trust-score''] (Public plain)"

definition reviews_get_trust_score ::
  "realtime_env \<Rightarrow> request \<Rightarrow> uid \<Rightarrow> (server, trust_score) act" where
  "reviews_get_trust_score env rq agencyId =
     serve env rq r_reviews_get_trust_score None no_view
       (\<lambda>_. on_db (get_trust_score agencyId))"

definition reviews_routes :: "route list" where
  "reviews_routes =
     [r_reviews_create, r_reviews_list_mine, r_reviews_get_satisfaction_report,
     r_reviews_get_satisfaction_report_csv, r_reviews_list_by_agency, r_reviews_get_trust_score]"

section \<open>\<open>trip-summary.controller.ts\<close>\<close>

definition trip_summary_route :: "http_method \<Rightarrow> segment list \<Rightarrow> decorators \<Rightarrow> route" where
  "trip_summary_route = route plain [Lit ''trip-summary'']"

definition r_trip_summary_get_for_booking :: route where
  "r_trip_summary_get_for_booking = trip_summary_route GET [Par ''bookingId''] plain"

definition trip_summary_get_for_booking ::
  "realtime_env \<Rightarrow> request \<Rightarrow> uid \<Rightarrow> (server, trip_summary) act" where
  "trip_summary_get_for_booking env rq bookingId =
     serve env rq r_trip_summary_get_for_booking None no_view
       (with_user (\<lambda>user. on_db (get_trip_summary (jp_sub user) (jp_role user) bookingId)))"

definition trip_summary_routes :: "route list" where
  "trip_summary_routes =
     [r_trip_summary_get_for_booking]"

section \<open>\<open>family-view.controller.ts\<close>\<close>

definition family_view_route :: "http_method \<Rightarrow> segment list \<Rightarrow> decorators \<Rightarrow> route" where
  "family_view_route = route plain [Lit ''family-view'']"

definition r_family_view_get_view :: route where
  "r_family_view_get_view = family_view_route GET [Par ''token''] (Public plain)"

definition family_view_get_view ::
  "realtime_env \<Rightarrow> request \<Rightarrow> string \<Rightarrow> (server, family_view) act" where
  "family_view_get_view env rq token =
     serve env rq r_family_view_get_view None no_view
       (\<lambda>_. on_db (get_family_view token))"

definition family_view_routes :: "route list" where
  "family_view_routes =
     [r_family_view_get_view]"

end
