(* ===== verification/ApiShared.thy ===== *)
theory ApiShared
  imports Http Accounts Learning Messaging Reviews Support Storage Calendar
begin

text \<open>
  The routes of the platform: sessions, accounts, notifications, messages, courses, rites,
  quiz, emergency numbers, directory, files, calendar feeds and administration.
\<close>

section \<open>\<open>auth.controller.ts\<close>\<close>

definition auth_route :: "http_method \<Rightarrow> segment list \<Rightarrow> decorators \<Rightarrow> route" where
  "auth_route = route plain [Lit ''auth'']"

definition r_auth_request_otp :: route where
  "r_auth_request_otp = auth_route POST [Lit ''otp'', Lit ''request''] (Public plain)"

definition auth_request_otp ::
  "realtime_env \<Rightarrow> request \<Rightarrow> auth_env \<Rightarrow> nat \<Rightarrow> (string option \<times> string option) body \<Rightarrow> (server, unit) act" where
  "auth_request_otp env rq ae drawn dto =
     serve env rq r_auth_request_otp None no_view
       (\<lambda>_. piped dto (\<lambda>dto. on_db (request_otp ae (rq_now rq) drawn (to_otp_contact (fst dto) (snd dto)))))"

definition r_auth_verify_otp :: route where
  "r_auth_verify_otp = auth_route POST [Lit ''otp'', Lit ''verify''] (Public plain)"

definition auth_verify_otp ::
  "realtime_env \<Rightarrow> request \<Rightarrow> auth_env \<Rightarrow> (string option \<times> string option \<times> string \<times> string option) body \<Rightarrow> (server, auth_tokens) act" where
  "auth_verify_otp env rq ae dto =
     serve env rq r_auth_verify_otp None no_view
       (\<lambda>_. piped dto (\<lambda>dto. (case dto of (phone, email, code, fullName) \<Rightarrow> on_db (verify_otp ae (rq_now rq) (to_otp_contact phone email) code fullName))))"

definition r_auth_agency_login :: route where
  "r_auth_agency_login = auth_route POST [Lit ''agency'', Lit ''login''] (Public plain)"

definition auth_agency_login ::
  "realtime_env \<Rightarrow> request \<Rightarrow> auth_env \<Rightarrow> (string \<times> string) body \<Rightarrow> (server, auth_tokens) act" where
  "auth_agency_login env rq ae dto =
     serve env rq r_auth_agency_login None no_view
       (\<lambda>_. piped dto (\<lambda>dto. on_db (validate_agency_or_admin ae (rq_now rq) (fst dto) (snd dto))))"

definition r_auth_forgot_password :: route where
  "r_auth_forgot_password = auth_route POST [Lit ''password'', Lit ''forgot''] (Public plain)"

definition auth_forgot_password ::
  "realtime_env \<Rightarrow> request \<Rightarrow> auth_env \<Rightarrow> bool \<Rightarrow> string \<Rightarrow> string body \<Rightarrow> (server, unit) act" where
  "auth_forgot_password env rq ae mailer token email =
     serve env rq r_auth_forgot_password None no_view
       (\<lambda>_. piped email (\<lambda>email. on_db (request_reset ae (rq_now rq) mailer token email)))"

definition r_auth_reset_password :: route where
  "r_auth_reset_password = auth_route POST [Lit ''password'', Lit ''reset''] (Public plain)"

definition auth_reset_password ::
  "realtime_env \<Rightarrow> request \<Rightarrow> auth_env \<Rightarrow> (string \<times> string) body \<Rightarrow> (server, unit) act" where
  "auth_reset_password env rq ae dto =
     serve env rq r_auth_reset_password None no_view
       (\<lambda>_. piped dto (\<lambda>dto. on_db (reset_password ae (rq_now rq) (fst dto) (snd dto))))"

definition r_auth_refresh :: route where
  "r_auth_refresh = auth_route POST [Lit ''refresh''] (Public plain)"

definition auth_refresh ::
  "realtime_env \<Rightarrow> request \<Rightarrow> auth_env \<Rightarrow> string body \<Rightarrow> (server, auth_tokens) act" where
  "auth_refresh env rq ae token =
     serve env rq r_auth_refresh None no_view
       (\<lambda>_. piped token (\<lambda>token. on_db (refresh ae (rq_now rq) token)))"

definition r_auth_logout :: route where
  "r_auth_logout = auth_route POST [Lit ''logout''] plain"

definition auth_logout ::
  "realtime_env \<Rightarrow> request \<Rightarrow> auth_env \<Rightarrow> string body \<Rightarrow> (server, unit) act" where
  "auth_logout env rq ae token =
     serve env rq r_auth_logout None no_view
       (with_user (\<lambda>user. piped token (\<lambda>token. bind (on_db (logout ae (rq_now rq) (jp_sub user) token)) (\<lambda>_. end_sessions user))))"

definition r_auth_realtime_ticket :: route where
  "r_auth_realtime_ticket = auth_route POST [Lit ''realtime-ticket''] plain"

definition auth_realtime_ticket ::
  "realtime_env \<Rightarrow> request \<Rightarrow> string \<Rightarrow> (server, (string \<times> time)) act" where
  "auth_realtime_ticket env rq jti =
     serve env rq r_auth_realtime_ticket None no_view
       (with_user (\<lambda>user. on_rt (issue_ticket env (rq_now rq) jti user)))"

definition auth_routes :: "route list" where
  "auth_routes =
     [r_auth_request_otp, r_auth_verify_otp, r_auth_agency_login, r_auth_forgot_password,
     r_auth_reset_password, r_auth_refresh, r_auth_logout, r_auth_realtime_ticket]"

section \<open>\<open>users.controller.ts\<close>\<close>

definition users_route :: "http_method \<Rightarrow> segment list \<Rightarrow> decorators \<Rightarrow> route" where
  "users_route = route plain [Lit ''users'']"

definition r_users_get_profile :: route where
  "r_users_get_profile = users_route GET [Lit ''me''] plain"

definition users_get_profile ::
  "realtime_env \<Rightarrow> request \<Rightarrow> (server, user_shape) act" where
  "users_get_profile env rq =
     serve env rq r_users_get_profile None no_view
       (with_user (\<lambda>user. on_db (find_user_by_id_or_fail (jp_sub user))))"

definition r_users_update_profile :: route where
  "r_users_update_profile = users_route PATCH [Lit ''me''] plain"

definition users_update_profile ::
  "realtime_env \<Rightarrow> request \<Rightarrow> update_profile_dto body \<Rightarrow> (server, user_shape) act" where
  "users_update_profile env rq dto =
     serve env rq r_users_update_profile None no_view
       (with_user (\<lambda>user. piped dto (\<lambda>dto. on_db (update_profile (rq_now rq) (jp_sub user) dto))))"

definition r_users_get_special_needs :: route where
  "r_users_get_special_needs = users_route GET [Lit ''me'', Lit ''special-needs''] (Roles [PILGRIM] plain)"

definition users_get_special_needs ::
  "realtime_env \<Rightarrow> request \<Rightarrow> (server, special_needs_shape) act" where
  "users_get_special_needs env rq =
     serve env rq r_users_get_special_needs None no_view
       (with_user (\<lambda>user. on_db (get_special_needs (jp_sub user))))"

definition r_users_replace_special_needs :: route where
  "r_users_replace_special_needs =
     users_route PUT [Lit ''me'', Lit ''special-needs''] (Roles [PILGRIM] plain)"

definition users_replace_special_needs ::
  "realtime_env \<Rightarrow> request \<Rightarrow> special_needs_dto body \<Rightarrow> (server, special_needs_shape) act" where
  "users_replace_special_needs env rq dto =
     serve env rq r_users_replace_special_needs None no_view
       (with_user (\<lambda>user. piped dto (\<lambda>dto. on_db (replace_special_needs (rq_now rq) (jp_sub user) dto))))"

definition r_users_list_by_role :: route where
  "r_users_list_by_role = users_route GET [] (Roles [ADMIN] plain)"

definition users_list_by_role ::
  "realtime_env \<Rightarrow> request \<Rightarrow> role \<Rightarrow> uid option \<Rightarrow> (server, user_summary list) act" where
  "users_list_by_role env rq r agencyId =
     serve env rq r_users_list_by_role None no_view
       (\<lambda>_. on_db (list_for_admin r agencyId))"

definition r_users_suspend :: route where
  "r_users_suspend =
     users_route PATCH [Par ''id'', Lit ''suspend''] (Roles [ADMIN] (Audited ''user.suspend'' ''user'' plain))"

definition users_suspend ::
  "realtime_env \<Rightarrow> request \<Rightarrow> uid \<Rightarrow> (server, user_summary) act" where
  "users_suspend env rq i =
     serve env rq r_users_suspend (Some i) (id_view um_id)
       (\<lambda>_. on_db (set_active_for_admin (rq_now rq) i False))"

definition r_users_reactivate :: route where
  "r_users_reactivate =
     users_route PATCH [Par ''id'', Lit ''reactivate''] (Roles [ADMIN] (Audited ''user.reactivate'' ''user'' plain))"

definition users_reactivate ::
  "realtime_env \<Rightarrow> request \<Rightarrow> uid \<Rightarrow> (server, user_summary) act" where
  "users_reactivate env rq i =
     serve env rq r_users_reactivate (Some i) (id_view um_id)
       (\<lambda>_. on_db (set_active_for_admin (rq_now rq) i True))"

definition users_routes :: "route list" where
  "users_routes =
     [r_users_get_profile, r_users_update_profile, r_users_get_special_needs,
     r_users_replace_special_needs, r_users_list_by_role, r_users_suspend, r_users_reactivate]"

section \<open>\<open>notifications.controller.ts\<close>\<close>

definition notifications_route :: "http_method \<Rightarrow> segment list \<Rightarrow> decorators \<Rightarrow> route" where
  "notifications_route = route plain [Lit ''notifications'']"

definition r_notifications_list :: route where
  "r_notifications_list = notifications_route GET [] plain"

definition notifications_list ::
  "realtime_env \<Rightarrow> request \<Rightarrow> string option \<Rightarrow> (server, notification list) act" where
  "notifications_list env rq unreadOnly =
     serve env rq r_notifications_list None no_view
       (with_user (\<lambda>user. on_db (list_for_user (jp_sub user) (unreadOnly = Some ''true''))))"

definition r_notifications_mark_read :: route where
  "r_notifications_mark_read = notifications_route PATCH [Par ''id'', Lit ''read''] plain"

definition notifications_mark_read ::
  "realtime_env \<Rightarrow> request \<Rightarrow> uid \<Rightarrow> (server, notification) act" where
  "notifications_mark_read env rq i =
     serve env rq r_notifications_mark_read (Some i) no_view
       (with_user (\<lambda>user. on_db (mark_read (rq_now rq) (jp_sub user) i)))"

definition notifications_routes :: "route list" where
  "notifications_routes =
     [r_notifications_list, r_notifications_mark_read]"

section \<open>\<open>messaging.controller.ts\<close>\<close>

definition messaging_route :: "http_method \<Rightarrow> segment list \<Rightarrow> decorators \<Rightarrow> route" where
  "messaging_route = route (Roles [PILGRIM, AGENCY, GUIDE] plain) [Lit ''messaging'']"

definition r_messaging_list_inbox :: route where
  "r_messaging_list_inbox = messaging_route GET [Lit ''conversations''] plain"

definition messaging_list_inbox ::
  "realtime_env \<Rightarrow> request \<Rightarrow> (server, inbox_conversation list) act" where
  "messaging_list_inbox env rq =
     serve env rq r_messaging_list_inbox None no_view
       (with_user (\<lambda>user. on_db (list_inbox (jp_sub user))))"

definition r_messaging_mark_as_read :: route where
  "r_messaging_mark_as_read = messaging_route POST [Lit ''conversations'', Par ''id'', Lit ''read''] plain"

definition messaging_mark_as_read ::
  "realtime_env \<Rightarrow> request \<Rightarrow> uid \<Rightarrow> (server, unit) act" where
  "messaging_mark_as_read env rq conversationId =
     serve env rq r_messaging_mark_as_read (Some conversationId) no_view
       (with_user (\<lambda>user. on_db (mark_as_read (rq_now rq) conversationId (jp_sub user))))"

definition r_messaging_get_or_create_conversation :: route where
  "r_messaging_get_or_create_conversation =
     messaging_route GET [Lit ''bookings'', Par ''bookingId'', Lit ''conversations'', Par ''channel''] plain"

definition messaging_get_or_create_conversation ::
  "realtime_env \<Rightarrow> request \<Rightarrow> uid \<Rightarrow> messaging_channel body \<Rightarrow> (server, conversation) act" where
  "messaging_get_or_create_conversation env rq bookingId channel =
     serve env rq r_messaging_get_or_create_conversation None no_view
       (with_user (\<lambda>user. piped channel (\<lambda>channel. on_db (get_or_create_conversation bookingId channel (jp_sub user)))))"

definition r_messaging_list_messages :: route where
  "r_messaging_list_messages =
     messaging_route GET [Lit ''conversations'', Par ''id'', Lit ''messages''] plain"

definition messaging_list_messages ::
  "realtime_env \<Rightarrow> request \<Rightarrow> uid \<Rightarrow> (server, message list) act" where
  "messaging_list_messages env rq conversationId =
     serve env rq r_messaging_list_messages (Some conversationId) no_view
       (with_user (\<lambda>user. on_db (list_messages conversationId (jp_sub user))))"

definition r_messaging_send_message :: route where
  "r_messaging_send_message =
     messaging_route POST [Lit ''conversations'', Par ''id'', Lit ''messages''] plain"

definition messaging_send_message ::
  "realtime_env \<Rightarrow> request \<Rightarrow> uid \<Rightarrow> (string \<times> time) body \<Rightarrow> (server, message) act" where
  "messaging_send_message env rq conversationId dto =
     serve env rq r_messaging_send_message (Some conversationId) no_view
       (with_user (\<lambda>user. piped dto (\<lambda>dto. post_message (rq_now rq) user conversationId (fst dto) (snd dto))))"

definition messaging_routes :: "route list" where
  "messaging_routes =
     [r_messaging_list_inbox, r_messaging_mark_as_read, r_messaging_get_or_create_conversation,
     r_messaging_list_messages, r_messaging_send_message]"

section \<open>\<open>community.controller.ts\<close>\<close>

definition community_route :: "http_method \<Rightarrow> segment list \<Rightarrow> decorators \<Rightarrow> route" where
  "community_route = route plain [Lit ''community'']"

definition r_community_list_messages :: route where
  "r_community_list_messages = community_route GET [Lit ''groups'', Par ''groupId'', Lit ''messages''] plain"

definition community_list_messages ::
  "realtime_env \<Rightarrow> request \<Rightarrow> uid \<Rightarrow> (server, community_shape list) act" where
  "community_list_messages env rq groupId =
     serve env rq r_community_list_messages None no_view
       (with_user (\<lambda>user. on_db (list_community_messages groupId (jp_sub user) (jp_role user))))"

definition r_community_send_message :: route where
  "r_community_send_message = community_route POST [Lit ''groups'', Par ''groupId'', Lit ''messages''] plain"

definition community_send_message ::
  "realtime_env \<Rightarrow> request \<Rightarrow> uid \<Rightarrow> (string \<times> time) body \<Rightarrow> (server, community_shape) act" where
  "community_send_message env rq groupId dto =
     serve env rq r_community_send_message None no_view
       (with_user (\<lambda>user. piped dto (\<lambda>dto. post_group_message (rq_now rq) user groupId (fst dto) (snd dto))))"

definition community_routes :: "route list" where
  "community_routes =
     [r_community_list_messages, r_community_send_message]"

section \<open>\<open>rites.controller.ts\<close>\<close>

definition rites_route :: "http_method \<Rightarrow> segment list \<Rightarrow> decorators \<Rightarrow> route" where
  "rites_route = route plain [Lit ''rites'']"

definition r_rites_list_published :: route where
  "r_rites_list_published = rites_route GET [Lit ''sheets''] (Public plain)"

definition rites_list_published ::
  "realtime_env \<Rightarrow> request \<Rightarrow> rite_pilgrimage_type option \<Rightarrow> string option \<Rightarrow> (server, rite_sheet list) act" where
  "rites_list_published env rq pilgrimageType language =
     serve env rq r_rites_list_published None no_view
       (\<lambda>_. on_db (list_published pilgrimageType language))"

definition r_rites_list_all :: route where
  "r_rites_list_all = rites_route GET [Lit ''sheets'', Lit ''admin''] (Roles [ADMIN] plain)"

definition rites_list_all ::
  "realtime_env \<Rightarrow> request \<Rightarrow> (server, rite_sheet list) act" where
  "rites_list_all env rq =
     serve env rq r_rites_list_all None no_view
       (\<lambda>_. on_db list_all_sheets)"

definition r_rites_create_sheet :: route where
  "r_rites_create_sheet = rites_route POST [Lit ''sheets''] (Roles [ADMIN] plain)"

definition rites_create_sheet ::
  "realtime_env \<Rightarrow> request \<Rightarrow> sheet_dto body \<Rightarrow> (server, rite_sheet) act" where
  "rites_create_sheet env rq dto =
     serve env rq r_rites_create_sheet None no_view
       (\<lambda>_. piped dto (\<lambda>dto. on_db (create_sheet dto)))"

definition r_rites_update_sheet :: route where
  "r_rites_update_sheet = rites_route PATCH [Lit ''sheets'', Par ''id''] (Roles [ADMIN] plain)"

definition rites_update_sheet ::
  "realtime_env \<Rightarrow> request \<Rightarrow> uid \<Rightarrow> update_sheet_dto body \<Rightarrow> (server, rite_sheet) act" where
  "rites_update_sheet env rq i dto =
     serve env rq r_rites_update_sheet (Some i) no_view
       (\<lambda>_. piped dto (\<lambda>dto. on_db (update_sheet i dto)))"

definition r_rites_validate_sheet :: route where
  "r_rites_validate_sheet =
     rites_route PATCH [Lit ''sheets'', Par ''id'', Lit ''validate''] (Roles [ADMIN] (Audited ''rite_sheet.validate'' ''rite_sheet'' plain))"

definition rites_validate_sheet ::
  "realtime_env \<Rightarrow> request \<Rightarrow> uid \<Rightarrow> (server, rite_sheet) act" where
  "rites_validate_sheet env rq i =
     serve env rq r_rites_validate_sheet (Some i) (id_view ri_id)
       (with_user (\<lambda>user. on_db (validate_sheet (rq_now rq) i (jp_sub user))))"

definition r_rites_get_my_progress :: route where
  "r_rites_get_my_progress = rites_route GET [Lit ''progress''] (Roles [PILGRIM] plain)"

definition rites_get_my_progress ::
  "realtime_env \<Rightarrow> request \<Rightarrow> (server, rite_progress list) act" where
  "rites_get_my_progress env rq =
     serve env rq r_rites_get_my_progress None no_view
       (with_user (\<lambda>user. on_db (find_my_rites (jp_sub user))))"

definition r_rites_sync_progress :: route where
  "r_rites_sync_progress = rites_route POST [Lit ''progress'', Lit ''sync''] (Roles [PILGRIM] plain)"

definition rites_sync_progress ::
  "realtime_env \<Rightarrow> request \<Rightarrow> rite_item list body \<Rightarrow> (server, rite_progress list) act" where
  "rites_sync_progress env rq items =
     serve env rq r_rites_sync_progress None no_view
       (with_user (\<lambda>user. piped items (\<lambda>items. on_db (sync_rites (jp_sub user) items))))"

definition r_rites_reset_counter :: route where
  "r_rites_reset_counter =
     rites_route PATCH [Lit ''progress'', Par ''riteKey'', Lit ''reset-counter''] (Roles [PILGRIM] plain)"

definition rites_reset_counter ::
  "realtime_env \<Rightarrow> request \<Rightarrow> string \<Rightarrow> (server, rite_progress) act" where
  "rites_reset_counter env rq riteKey =
     serve env rq r_rites_reset_counter None no_view
       (with_user (\<lambda>user. on_db (reset_counter (rq_now rq) (jp_sub user) riteKey)))"

definition rites_routes :: "route list" where
  "rites_routes =
     [r_rites_list_published, r_rites_list_all, r_rites_create_sheet, r_rites_update_sheet,
     r_rites_validate_sheet, r_rites_get_my_progress, r_rites_sync_progress, r_rites_reset_counter]"

section \<open>\<open>quiz.controller.ts\<close>\<close>

definition quiz_route :: "http_method \<Rightarrow> segment list \<Rightarrow> decorators \<Rightarrow> route" where
  "quiz_route = route plain [Lit ''quiz'']"

definition r_quiz_create_question :: route where
  "r_quiz_create_question = quiz_route POST [Lit ''questions''] (Roles [ADMIN, GUIDE] plain)"

definition quiz_create_question ::
  "realtime_env \<Rightarrow> request \<Rightarrow> question_dto body \<Rightarrow> (server, admin_question_shape) act" where
  "quiz_create_question env rq dto =
     serve env rq r_quiz_create_question None no_view
       (\<lambda>_. piped dto (\<lambda>dto. on_db (create_question (rq_now rq) dto)))"

definition r_quiz_validate_question :: route where
  "r_quiz_validate_question =
     quiz_route PATCH [Lit ''questions'', Par ''id'', Lit ''validate''] (Roles [ADMIN] (Audited ''quiz_question.validate'' ''quiz_question'' plain))"

definition quiz_validate_question ::
  "realtime_env \<Rightarrow> request \<Rightarrow> uid \<Rightarrow> (server, admin_question_shape) act" where
  "quiz_validate_question env rq i =
     serve env rq r_quiz_validate_question (Some i) (id_view qs_id)
       (with_user (\<lambda>user. on_db (validate_question (rq_now rq) i (jp_sub user))))"

definition r_quiz_list_pending :: route where
  "r_quiz_list_pending = quiz_route GET [Lit ''questions'', Lit ''pending''] (Roles [ADMIN] plain)"

definition quiz_list_pending ::
  "realtime_env \<Rightarrow> request \<Rightarrow> (server, admin_question_shape list) act" where
  "quiz_list_pending env rq =
     serve env rq r_quiz_list_pending None no_view
       (\<lambda>_. on_db list_pending)"

definition r_quiz_reject_question :: route where
  "r_quiz_reject_question =
     quiz_route DELETE [Lit ''questions'', Par ''id''] (Roles [ADMIN] (Audited ''quiz_question.reject'' ''quiz_question'' plain))"

definition quiz_reject_question ::
  "realtime_env \<Rightarrow> request \<Rightarrow> uid \<Rightarrow> (server, unit) act" where
  "quiz_reject_question env rq i =
     serve env rq r_quiz_reject_question (Some i) no_view
       (\<lambda>_. on_db (reject_question i))"

definition r_quiz_get_questions_for_rite :: route where
  "r_quiz_get_questions_for_rite =
     quiz_route GET [Lit ''questions'', Par ''riteSheetId''] (Roles [PILGRIM, GUIDE, ADMIN] plain)"

definition quiz_get_questions_for_rite ::
  "realtime_env \<Rightarrow> request \<Rightarrow> uid \<Rightarrow> (server, question_shape list) act" where
  "quiz_get_questions_for_rite env rq riteSheetId =
     serve env rq r_quiz_get_questions_for_rite None no_view
       (\<lambda>_. on_db (get_questions_for_rite riteSheetId))"

definition r_quiz_submit_attempt :: route where
  "r_quiz_submit_attempt =
     quiz_route POST [Lit ''questions'', Par ''id'', Lit ''attempts''] (Roles [PILGRIM] plain)"

definition quiz_submit_attempt ::
  "realtime_env \<Rightarrow> request \<Rightarrow> uid \<Rightarrow> int body \<Rightarrow> (server, attempt_result) act" where
  "quiz_submit_attempt env rq questionId selectedOption =
     serve env rq r_quiz_submit_attempt (Some questionId) no_view
       (with_user (\<lambda>user. piped selectedOption (\<lambda>selectedOption. on_db (submit_attempt (rq_now rq) questionId (jp_sub user) selectedOption))))"

definition r_quiz_get_my_stats :: route where
  "r_quiz_get_my_stats = quiz_route GET [Lit ''attempts'', Lit ''my-stats''] (Roles [PILGRIM] plain)"

definition quiz_get_my_stats ::
  "realtime_env \<Rightarrow> request \<Rightarrow> (server, quiz_stats) act" where
  "quiz_get_my_stats env rq =
     serve env rq r_quiz_get_my_stats None no_view
       (with_user (\<lambda>user. on_db (get_my_stats (jp_sub user))))"

definition quiz_routes :: "route list" where
  "quiz_routes =
     [r_quiz_create_question, r_quiz_validate_question, r_quiz_list_pending, r_quiz_reject_question,
     r_quiz_get_questions_for_rite, r_quiz_submit_attempt, r_quiz_get_my_stats]"

section \<open>\<open>micro-courses.controller.ts\<close>\<close>

definition micro_courses_route :: "http_method \<Rightarrow> segment list \<Rightarrow> decorators \<Rightarrow> route" where
  "micro_courses_route = route plain [Lit ''micro-courses'']"

definition r_micro_courses_list_all :: route where
  "r_micro_courses_list_all = micro_courses_route GET [] (Public plain)"

definition micro_courses_list_all ::
  "realtime_env \<Rightarrow> request \<Rightarrow> string option \<Rightarrow> (server, micro_course list) act" where
  "micro_courses_list_all env rq category =
     serve env rq r_micro_courses_list_all None no_view
       (\<lambda>_. on_db (list_courses category))"

definition r_micro_courses_find_by_id :: route where
  "r_micro_courses_find_by_id = micro_courses_route GET [Par ''id''] (Public plain)"

definition micro_courses_find_by_id ::
  "realtime_env \<Rightarrow> request \<Rightarrow> uid \<Rightarrow> (server, micro_course) act" where
  "micro_courses_find_by_id env rq i =
     serve env rq r_micro_courses_find_by_id (Some i) no_view
       (\<lambda>_. on_db (find_course i))"

definition r_micro_courses_create :: route where
  "r_micro_courses_create = micro_courses_route POST [] (Roles [ADMIN] plain)"

definition micro_courses_create ::
  "realtime_env \<Rightarrow> request \<Rightarrow> course_dto body \<Rightarrow> (server, micro_course) act" where
  "micro_courses_create env rq dto =
     serve env rq r_micro_courses_create None no_view
       (\<lambda>_. piped dto (\<lambda>dto. on_db (create_course (rq_now rq) dto)))"

definition r_micro_courses_update :: route where
  "r_micro_courses_update = micro_courses_route PATCH [Par ''id''] (Roles [ADMIN] plain)"

definition micro_courses_update ::
  "realtime_env \<Rightarrow> request \<Rightarrow> uid \<Rightarrow> update_course_dto body \<Rightarrow> (server, micro_course) act" where
  "micro_courses_update env rq i dto =
     serve env rq r_micro_courses_update (Some i) no_view
       (\<lambda>_. piped dto (\<lambda>dto. on_db (update_course i dto)))"

definition r_micro_courses_delete :: route where
  "r_micro_courses_delete = micro_courses_route DELETE [Par ''id''] (Roles [ADMIN] plain)"

definition micro_courses_delete ::
  "realtime_env \<Rightarrow> request \<Rightarrow> uid \<Rightarrow> (server, unit) act" where
  "micro_courses_delete env rq i =
     serve env rq r_micro_courses_delete (Some i) no_view
       (\<lambda>_. on_db (delete_course i))"

definition r_micro_courses_get_my_progress :: route where
  "r_micro_courses_get_my_progress =
     micro_courses_route GET [Lit ''progress'', Lit ''mine''] (Roles [PILGRIM] plain)"

definition micro_courses_get_my_progress ::
  "realtime_env \<Rightarrow> request \<Rightarrow> (server, micro_course_progress list) act" where
  "micro_courses_get_my_progress env rq =
     serve env rq r_micro_courses_get_my_progress None no_view
       (with_user (\<lambda>user. on_db (find_my_course_progress (jp_sub user))))"

definition r_micro_courses_sync_progress :: route where
  "r_micro_courses_sync_progress =
     micro_courses_route POST [Lit ''progress'', Lit ''sync''] (Roles [PILGRIM] plain)"

definition micro_courses_sync_progress ::
  "realtime_env \<Rightarrow> request \<Rightarrow> course_item list body \<Rightarrow> (server, micro_course_progress list) act" where
  "micro_courses_sync_progress env rq items =
     serve env rq r_micro_courses_sync_progress None no_view
       (with_user (\<lambda>user. piped items (\<lambda>items. on_db (sync_courses (jp_sub user) items))))"

definition micro_courses_routes :: "route list" where
  "micro_courses_routes =
     [r_micro_courses_list_all, r_micro_courses_find_by_id, r_micro_courses_create,
     r_micro_courses_update, r_micro_courses_delete, r_micro_courses_get_my_progress,
     r_micro_courses_sync_progress]"

section \<open>\<open>emergency.controller.ts\<close>\<close>

definition emergency_route :: "http_method \<Rightarrow> segment list \<Rightarrow> decorators \<Rightarrow> route" where
  "emergency_route = route plain [Lit ''emergency'']"

definition r_emergency_list_numbers :: route where
  "r_emergency_list_numbers = emergency_route GET [Lit ''numbers''] (Public plain)"

definition emergency_list_numbers ::
  "realtime_env \<Rightarrow> request \<Rightarrow> (string \<Rightarrow> 'k::linorder) \<Rightarrow> (server, emergency_number list) act" where
  "emergency_list_numbers env rq collation =
     serve env rq r_emergency_list_numbers None no_view
       (\<lambda>_. on_db (list_numbers collation))"

definition r_emergency_create_number :: route where
  "r_emergency_create_number =
     emergency_route POST [Lit ''numbers''] (Roles [ADMIN] (Audited ''emergency_number.create'' ''emergency_number'' plain))"

definition emergency_create_number ::
  "realtime_env \<Rightarrow> request \<Rightarrow> number_dto body \<Rightarrow> (server, emergency_number) act" where
  "emergency_create_number env rq dto =
     serve env rq r_emergency_create_number None (id_view en_id)
       (\<lambda>_. piped dto (\<lambda>dto. on_db (create_number dto)))"

definition r_emergency_update_number :: route where
  "r_emergency_update_number =
     emergency_route PATCH [Lit ''numbers'', Par ''id''] (Roles [ADMIN] (Audited ''emergency_number.update'' ''emergency_number'' plain))"

definition emergency_update_number ::
  "realtime_env \<Rightarrow> request \<Rightarrow> uid \<Rightarrow> number_dto body \<Rightarrow> (server, emergency_number) act" where
  "emergency_update_number env rq i dto =
     serve env rq r_emergency_update_number (Some i) (id_view en_id)
       (\<lambda>_. piped dto (\<lambda>dto. on_db (update_number i dto)))"

definition r_emergency_delete_number :: route where
  "r_emergency_delete_number =
     emergency_route DELETE [Lit ''numbers'', Par ''id''] (Roles [ADMIN] (Audited ''emergency_number.delete'' ''emergency_number'' plain))"

definition emergency_delete_number ::
  "realtime_env \<Rightarrow> request \<Rightarrow> uid \<Rightarrow> (server, unit) act" where
  "emergency_delete_number env rq i =
     serve env rq r_emergency_delete_number (Some i) no_view
       (\<lambda>_. on_db (delete_number i))"

definition r_emergency_find_my_contacts :: route where
  "r_emergency_find_my_contacts =
     emergency_route GET [Lit ''contacts'', Lit ''mine''] (Roles [PILGRIM, GUIDE] plain)"

definition emergency_find_my_contacts ::
  "realtime_env \<Rightarrow> request \<Rightarrow> (server, (agency_contact list \<times> guide_contact list)) act" where
  "emergency_find_my_contacts env rq =
     serve env rq r_emergency_find_my_contacts None no_view
       (with_user (\<lambda>user. on_db (find_my_contacts (jp_sub user))))"

definition emergency_routes :: "route list" where
  "emergency_routes =
     [r_emergency_list_numbers, r_emergency_create_number, r_emergency_update_number,
     r_emergency_delete_number, r_emergency_find_my_contacts]"

section \<open>\<open>directory.controller.ts\<close>\<close>

definition directory_route :: "http_method \<Rightarrow> segment list \<Rightarrow> decorators \<Rightarrow> route" where
  "directory_route = route plain [Lit ''directory'']"

definition r_directory_list_agencies :: route where
  "r_directory_list_agencies = directory_route GET [Lit ''agencies''] (Public plain)"

definition directory_list_agencies ::
  "realtime_env \<Rightarrow> request \<Rightarrow> (string \<Rightarrow> 'k::linorder) \<Rightarrow> (server, directory_entry list) act" where
  "directory_list_agencies env rq collation =
     serve env rq r_directory_list_agencies None no_view
       (\<lambda>_. on_db (list_approved_agencies collation))"

definition directory_routes :: "route list" where
  "directory_routes =
     [r_directory_list_agencies]"

section \<open>\<open>calendar.controller.ts\<close>\<close>

definition calendar_route :: "http_method \<Rightarrow> segment list \<Rightarrow> decorators \<Rightarrow> route" where
  "calendar_route = route plain [Lit ''calendar'']"

definition r_calendar_get_agency_feed :: route where
  "r_calendar_get_agency_feed =
     calendar_route GET [Lit ''agency'', Par ''token'', Lit ''calendar.ics''] (Public plain)"

definition calendar_get_agency_feed ::
  "realtime_env \<Rightarrow> request \<Rightarrow> string \<Rightarrow> (server, string) act" where
  "calendar_get_agency_feed env rq token =
     serve env rq r_calendar_get_agency_feed None no_view
       (\<lambda>_. on_db (get_agency_feed (rq_now rq) token))"

definition calendar_routes :: "route list" where
  "calendar_routes =
     [r_calendar_get_agency_feed]"

section \<open>\<open>local-files.controller.ts\<close>\<close>

definition files_route :: "http_method \<Rightarrow> segment list \<Rightarrow> decorators \<Rightarrow> route" where
  "files_route = route plain [Lit ''documents'', Lit ''files'']"

definition r_files_get_file :: route where
  "r_files_get_file = files_route GET [Par ''token''] (Public plain)"

definition files_get_file ::
  "realtime_env \<Rightarrow> request \<Rightarrow> storage_env \<Rightarrow> string \<Rightarrow> (server, string) act" where
  "files_get_file env rq se token =
     serve env rq r_files_get_file None no_view
       (\<lambda>_. from_result (get_file se (rq_now rq) token))"

definition files_routes :: "route list" where
  "files_routes =
     [r_files_get_file]"

section \<open>\<open>admin.controller.ts\<close>\<close>

definition admin_route :: "http_method \<Rightarrow> segment list \<Rightarrow> decorators \<Rightarrow> route" where
  "admin_route = route (Roles [ADMIN] plain) [Lit ''admin'']"

definition r_admin_get_stats :: route where
  "r_admin_get_stats = admin_route GET [Lit ''stats''] plain"

definition admin_get_stats ::
  "realtime_env \<Rightarrow> request \<Rightarrow> (server, platform_stats) act" where
  "admin_get_stats env rq =
     serve env rq r_admin_get_stats None no_view
       (\<lambda>_. on_db get_platform_stats)"

definition admin_routes :: "route list" where
  "admin_routes =
     [r_admin_get_stats]"

section \<open>\<open>audit.controller.ts\<close>\<close>

definition audit_route :: "http_method \<Rightarrow> segment list \<Rightarrow> decorators \<Rightarrow> route" where
  "audit_route = route (Roles [ADMIN] plain) [Lit ''admin'', Lit ''audit'']"

definition r_audit_list :: route where
  "r_audit_list = audit_route GET [] plain"

definition audit_list ::
  "realtime_env \<Rightarrow> request \<Rightarrow> audit_query body \<Rightarrow> (server, audit_shape list) act" where
  "audit_list env rq q =
     serve env rq r_audit_list None no_view
       (\<lambda>_. piped q (\<lambda>q. on_db (list_audit (rq_now rq) q)))"

definition r_audit_export_csv :: route where
  "r_audit_export_csv = audit_route GET [Lit ''csv''] (Audited ''audit.export'' ''audit'' plain)"

definition audit_export_csv ::
  "realtime_env \<Rightarrow> request \<Rightarrow> (json \<Rightarrow> string) \<Rightarrow> audit_query body \<Rightarrow> (server, string) act" where
  "audit_export_csv env rq stringify q =
     serve env rq r_audit_export_csv None no_view
       (\<lambda>_. piped q (\<lambda>q. on_db (export_audit_csv stringify (rq_now rq) q)))"

definition audit_routes :: "route list" where
  "audit_routes =
     [r_audit_list, r_audit_export_csv]"

section \<open>\<open>health.controller.ts\<close>\<close>

definition health_route :: "http_method \<Rightarrow> segment list \<Rightarrow> decorators \<Rightarrow> route" where
  "health_route = route plain [Lit ''health'']"

definition r_health_check :: route where
  "r_health_check = health_route GET [] (Public plain)"

definition health_check ::
  "realtime_env \<Rightarrow> request \<Rightarrow> (server, (string \<times> string)) act" where
  "health_check env rq =
     serve env rq r_health_check None no_view
       (\<lambda>_. ret (''ok'', iso_string (rq_now rq)))"

definition health_routes :: "route list" where
  "health_routes =
     [r_health_check]"

end
