(* ===== verification/Routes.thy ===== *)
theory Routes
  imports ApiAgency ApiTraveller ApiShared
begin

text \<open>
  The whole table of the routes.  Nest registers the controllers module by module, each module
  before the modules it imports, in the order of \<open>src/src/app.module.ts\<close>, and Express answers with the
  first route that matches: a parameter declared too early would hide the routes after it.
\<close>

definition app_routes :: "route list" where
  "app_routes = concat
     [health_routes, auth_routes, users_routes, agencies_routes, files_routes, packages_routes,
      groups_routes, notifications_routes, bookings_routes, checklist_routes, payments_routes,
      refund_policies_routes, documents_routes, rites_routes, reviews_routes, messaging_routes,
      admin_routes, trip_summary_routes, calendar_routes, family_view_routes, budget_routes,
      micro_courses_routes, community_routes, emergency_routes, directory_routes, quiz_routes,
      rooms_routes, disputes_routes, audit_routes, billing_routes, guide_planning_routes,
      on_call_routes, capacity_routes, profitability_routes]"

section \<open>Shadowed routes\<close>

text \<open>The path of a request for a route, with a value for each parameter.\<close>

fun fill :: "(string \<Rightarrow> string) \<Rightarrow> segment list \<Rightarrow> string list" where
  "fill v [] = []"
| "fill v (Lit l # ps) = l # fill v ps"
| "fill v (Par n # ps) = v n # fill v ps"

text \<open>A pattern that matches every such path of another one.\<close>

fun hides_path :: "segment list \<Rightarrow> segment list \<Rightarrow> bool" where
  "hides_path [] [] \<longleftrightarrow> True"
| "hides_path (Par n # ps) (q # qs) \<longleftrightarrow> hides_path ps qs"
| "hides_path (Lit l # ps) (Lit l' # qs) \<longleftrightarrow> l = l' \<and> hides_path ps qs"
| "hides_path _ _ \<longleftrightarrow> False"

definition literals :: "route list \<Rightarrow> string list" where
  "literals rts = concat (map (\<lambda>rt. concat (map (\<lambda>p. case p of Lit l \<Rightarrow> [l] | Par n \<Rightarrow> []) (rt_path rt))) rts)"

definition shadows :: "route \<Rightarrow> route \<Rightarrow> bool" where
  "shadows a b \<longleftrightarrow> rt_method a = rt_method b \<and> hides_path (rt_path a) (rt_path b)"

lemma matches_nothing: "matches_path [] (fill v qs) \<longleftrightarrow> qs = []"
proof (cases qs)
  case (Cons q qs)
  then show ?thesis by (cases q) simp_all
qed simp

lemma matches_fill:
  assumes "\<forall>l. Lit l \<in> set ps \<longrightarrow> (\<forall>n. l \<noteq> v n)"
  shows "matches_path ps (fill v qs) \<longleftrightarrow> hides_path ps qs"
  using assms
proof (induction ps qs rule: hides_path.induct)
  case (2 n ps q qs)
  then show ?case by (cases q) simp_all
qed (simp_all add: matches_nothing del: fill.simps(2,3), simp_all)

lemma literals_member: "rt \<in> set rts \<Longrightarrow> Lit l \<in> set (rt_path rt) \<Longrightarrow> l \<in> set (literals rts)"
  by (fastforce simp: literals_def)

lemma hides_path_refl: "hides_path ps ps"
proof (induction ps)
  case (Cons p ps)
  then show ?case by (cases p) simp_all
qed simp

lemma resolve_unshadowed:
  assumes "sorted_wrt (\<lambda>a b. \<not> shadows a b) rts" and "rt \<in> set rts"
    and "\<And>n. v n \<notin> set (literals all)" and "set rts \<subseteq> set all"
  shows "resolve rts (rt_method rt) (fill v (rt_path rt)) = Some rt"
  using assms(1,2,4)
proof (induction rts)
  case (Cons a rts)
  have matches: "matches_path (rt_path a) (fill v qs) \<longleftrightarrow> hides_path (rt_path a) qs" for qs
    using Cons.prems(3) assms(3) literals_member by (intro matches_fill) (metis insert_subset list.set(2))
  show ?case
  proof (cases "rt \<in> set rts")
    case True
    then have "\<not> shadows a rt" using Cons.prems(1) by auto
    moreover have "resolve rts (rt_method rt) (fill v (rt_path rt)) = Some rt"
      using Cons True by auto
    ultimately show ?thesis by (auto simp: resolve_def matches shadows_def)
  next
    case False
    then have "rt = a" using Cons.prems(2) by simp
    then show ?thesis by (simp add: resolve_def matches hides_path_refl)
  qed
qed simp

text \<open>The routes of a controller begin with its prefix, so that only the controllers that share a
  first word have to be compared.\<close>

definition headed :: "string \<Rightarrow> route list \<Rightarrow> bool" where
  "headed w rts \<longleftrightarrow> (\<forall>rt \<in> set rts. \<exists>ps. rt_path rt = Lit w # ps)"

lemma apart_heads:
  "headed w rts \<Longrightarrow> headed w' rts' \<Longrightarrow> w \<noteq> w' \<Longrightarrow> a \<in> set rts \<Longrightarrow> b \<in> set rts' \<Longrightarrow> \<not> shadows a b"
  by (fastforce simp: headed_def shadows_def)

lemma groups_unshadowed:
  assumes "\<forall>g \<in> set gs. headed (fst g) (snd g) \<and> sorted_wrt (\<lambda>a b. \<not> shadows a b) (snd g)"
    and "sorted_wrt (\<lambda>g h. fst g = fst h \<longrightarrow> (\<forall>a \<in> set (snd g). \<forall>b \<in> set (snd h). \<not> shadows a b)) gs"
  shows "sorted_wrt (\<lambda>a b. \<not> shadows a b) (concat (map snd gs))"
  using assms
proof (induction gs)
  case (Cons g gs)
  have "\<not> shadows a b" if a: "a \<in> set (snd g)" and b: "b \<in> set (concat (map snd gs))" for a b
  proof -
    obtain h where h: "h \<in> set gs" "b \<in> set (snd h)" using b by auto
    show ?thesis
    proof (cases "fst g = fst h")
      case True
      then show ?thesis using Cons.prems(2) h a by auto
    next
      case False
      moreover have "headed (fst g) (snd g)" and "headed (fst h) (snd h)" using Cons.prems(1) h by auto
      ultimately show ?thesis using a h(2) apart_heads by blast
    qed
  qed
  then show ?case using Cons by (simp add: sorted_wrt_append)
qed simp

lemma health_order:
  "headed ''health'' health_routes" "sorted_wrt (\<lambda>a b. \<not> shadows a b) health_routes"
  by (simp_all add: headed_def shadows_def health_route_def health_routes_def
      r_health_check_def)

lemma auth_order:
  "headed ''auth'' auth_routes" "sorted_wrt (\<lambda>a b. \<not> shadows a b) auth_routes"
  by (simp_all add: headed_def shadows_def auth_route_def auth_routes_def
      r_auth_request_otp_def r_auth_verify_otp_def r_auth_agency_login_def r_auth_forgot_password_def
      r_auth_reset_password_def r_auth_refresh_def r_auth_logout_def r_auth_realtime_ticket_def)

lemma users_order:
  "headed ''users'' users_routes" "sorted_wrt (\<lambda>a b. \<not> shadows a b) users_routes"
  by (simp_all add: headed_def shadows_def users_route_def users_routes_def
      r_users_get_profile_def r_users_update_profile_def r_users_get_special_needs_def
      r_users_replace_special_needs_def r_users_list_by_role_def r_users_suspend_def
      r_users_reactivate_def)

lemma agencies_order:
  "headed ''agencies'' agencies_routes" "sorted_wrt (\<lambda>a b. \<not> shadows a b) agencies_routes"
  by (simp_all add: headed_def shadows_def agencies_route_def agencies_routes_def
      r_agencies_register_def r_agencies_get_own_def r_agencies_update_own_def
      r_agencies_list_own_guides_def r_agencies_add_guide_def r_agencies_add_legal_document_def
      r_agencies_get_compliance_alerts_def r_agencies_get_legal_document_access_url_def
      r_agencies_get_calendar_subscription_def r_agencies_regenerate_calendar_subscription_def
      r_agencies_list_def r_agencies_get_by_id_def
      r_agencies_get_legal_document_access_url_for_admin_def r_agencies_approve_def
      r_agencies_reject_def)

lemma files_order:
  "headed ''documents'' files_routes" "sorted_wrt (\<lambda>a b. \<not> shadows a b) files_routes"
  by (simp_all add: headed_def shadows_def files_route_def files_routes_def
      r_files_get_file_def)

lemma packages_order:
  "headed ''packages'' packages_routes" "sorted_wrt (\<lambda>a b. \<not> shadows a b) packages_routes"
  by (simp_all add: headed_def shadows_def packages_route_def packages_routes_def
      r_packages_list_public_def r_packages_list_mine_def r_packages_get_by_id_def
      r_packages_create_def r_packages_update_def r_packages_close_def)

lemma groups_order:
  "headed ''groups'' groups_routes" "sorted_wrt (\<lambda>a b. \<not> shadows a b) groups_routes"
  by (simp_all add: headed_def shadows_def groups_route_def groups_routes_def
      r_groups_create_def r_groups_list_mine_def r_groups_list_assigned_def r_groups_list_joined_def
      r_groups_get_by_id_def r_groups_get_roster_def r_groups_get_roster_csv_def
      r_groups_assign_guide_def r_groups_add_itinerary_step_def r_groups_update_location_def
      r_groups_clear_location_def r_groups_sos_def r_groups_lost_def)

lemma notifications_order:
  "headed ''notifications'' notifications_routes" "sorted_wrt (\<lambda>a b. \<not> shadows a b) notifications_routes"
  by (simp_all add: headed_def shadows_def notifications_route_def notifications_routes_def
      r_notifications_list_def r_notifications_mark_read_def)

lemma bookings_order:
  "headed ''bookings'' bookings_routes" "sorted_wrt (\<lambda>a b. \<not> shadows a b) bookings_routes"
  by (simp_all add: headed_def shadows_def bookings_route_def bookings_routes_def
      r_bookings_create_def r_bookings_list_mine_def r_bookings_list_for_agency_def
      r_bookings_get_by_id_def r_bookings_update_step_def r_bookings_assign_group_def
      r_bookings_cancel_def r_bookings_get_family_view_link_def
      r_bookings_regenerate_family_view_link_def)

lemma checklist_order:
  "headed ''checklist'' checklist_routes" "sorted_wrt (\<lambda>a b. \<not> shadows a b) checklist_routes"
  by (simp_all add: headed_def shadows_def checklist_route_def checklist_routes_def
      r_checklist_get_by_booking_def r_checklist_update_status_def)

lemma payments_order:
  "headed ''payments'' payments_routes" "sorted_wrt (\<lambda>a b. \<not> shadows a b) payments_routes"
  by (simp_all add: headed_def shadows_def payments_route_def payments_routes_def
      r_payments_initiate_def r_payments_list_mine_def r_payments_list_for_agency_def
      r_payments_treasury_def r_payments_accounting_journal_def r_payments_accounting_journal_csv_def
      r_payments_webhook_def r_payments_get_by_id_def r_payments_refund_preview_def
      r_payments_request_refund_def r_payments_get_savings_plan_def r_payments_setup_savings_plan_def)

lemma refund_policies_order:
  "headed ''refund-policies'' refund_policies_routes" "sorted_wrt (\<lambda>a b. \<not> shadows a b) refund_policies_routes"
  by (simp_all add: headed_def shadows_def refund_policies_route_def refund_policies_routes_def
      r_refund_policies_get_mine_def r_refund_policies_replace_mine_def
      r_refund_policies_get_for_agency_def)

lemma documents_order:
  "headed ''documents'' documents_routes" "sorted_wrt (\<lambda>a b. \<not> shadows a b) documents_routes"
  by (simp_all add: headed_def shadows_def documents_route_def documents_routes_def
      r_documents_upload_def r_documents_list_mine_def r_documents_list_by_booking_def
      r_documents_get_expiry_alerts_def r_documents_get_access_url_def r_documents_validate_def
      r_documents_reject_def)

lemma rites_order:
  "headed ''rites'' rites_routes" "sorted_wrt (\<lambda>a b. \<not> shadows a b) rites_routes"
  by (simp_all add: headed_def shadows_def rites_route_def rites_routes_def
      r_rites_list_published_def r_rites_list_all_def r_rites_create_sheet_def
      r_rites_update_sheet_def r_rites_validate_sheet_def r_rites_get_my_progress_def
      r_rites_sync_progress_def r_rites_reset_counter_def)

lemma reviews_order:
  "headed ''reviews'' reviews_routes" "sorted_wrt (\<lambda>a b. \<not> shadows a b) reviews_routes"
  by (simp_all add: headed_def shadows_def reviews_route_def reviews_routes_def
      r_reviews_create_def r_reviews_list_mine_def r_reviews_get_satisfaction_report_def
      r_reviews_get_satisfaction_report_csv_def r_reviews_list_by_agency_def
      r_reviews_get_trust_score_def)

lemma messaging_order:
  "headed ''messaging'' messaging_routes" "sorted_wrt (\<lambda>a b. \<not> shadows a b) messaging_routes"
  by (simp_all add: headed_def shadows_def messaging_route_def messaging_routes_def
      r_messaging_list_inbox_def r_messaging_mark_as_read_def
      r_messaging_get_or_create_conversation_def r_messaging_list_messages_def
      r_messaging_send_message_def)

lemma admin_order:
  "headed ''admin'' admin_routes" "sorted_wrt (\<lambda>a b. \<not> shadows a b) admin_routes"
  by (simp_all add: headed_def shadows_def admin_route_def admin_routes_def
      r_admin_get_stats_def)

lemma trip_summary_order:
  "headed ''trip-summary'' trip_summary_routes" "sorted_wrt (\<lambda>a b. \<not> shadows a b) trip_summary_routes"
  by (simp_all add: headed_def shadows_def trip_summary_route_def trip_summary_routes_def
      r_trip_summary_get_for_booking_def)

lemma calendar_order:
  "headed ''calendar'' calendar_routes" "sorted_wrt (\<lambda>a b. \<not> shadows a b) calendar_routes"
  by (simp_all add: headed_def shadows_def calendar_route_def calendar_routes_def
      r_calendar_get_agency_feed_def)

lemma family_view_order:
  "headed ''family-view'' family_view_routes" "sorted_wrt (\<lambda>a b. \<not> shadows a b) family_view_routes"
  by (simp_all add: headed_def shadows_def family_view_route_def family_view_routes_def
      r_family_view_get_view_def)

lemma budget_order:
  "headed ''budget'' budget_routes" "sorted_wrt (\<lambda>a b. \<not> shadows a b) budget_routes"
  by (simp_all add: headed_def shadows_def budget_route_def budget_routes_def
      r_budget_list_mine_def r_budget_create_def r_budget_update_def r_budget_remove_def)

lemma micro_courses_order:
  "headed ''micro-courses'' micro_courses_routes" "sorted_wrt (\<lambda>a b. \<not> shadows a b) micro_courses_routes"
  by (simp_all add: headed_def shadows_def micro_courses_route_def micro_courses_routes_def
      r_micro_courses_list_all_def r_micro_courses_find_by_id_def r_micro_courses_create_def
      r_micro_courses_update_def r_micro_courses_delete_def r_micro_courses_get_my_progress_def
      r_micro_courses_sync_progress_def)

lemma community_order:
  "headed ''community'' community_routes" "sorted_wrt (\<lambda>a b. \<not> shadows a b) community_routes"
  by (simp_all add: headed_def shadows_def community_route_def community_routes_def
      r_community_list_messages_def r_community_send_message_def)

lemma emergency_order:
  "headed ''emergency'' emergency_routes" "sorted_wrt (\<lambda>a b. \<not> shadows a b) emergency_routes"
  by (simp_all add: headed_def shadows_def emergency_route_def emergency_routes_def
      r_emergency_list_numbers_def r_emergency_create_number_def r_emergency_update_number_def
      r_emergency_delete_number_def r_emergency_find_my_contacts_def)

lemma directory_order:
  "headed ''directory'' directory_routes" "sorted_wrt (\<lambda>a b. \<not> shadows a b) directory_routes"
  by (simp_all add: headed_def shadows_def directory_route_def directory_routes_def
      r_directory_list_agencies_def)

lemma quiz_order:
  "headed ''quiz'' quiz_routes" "sorted_wrt (\<lambda>a b. \<not> shadows a b) quiz_routes"
  by (simp_all add: headed_def shadows_def quiz_route_def quiz_routes_def
      r_quiz_create_question_def r_quiz_validate_question_def r_quiz_list_pending_def
      r_quiz_reject_question_def r_quiz_get_questions_for_rite_def r_quiz_submit_attempt_def
      r_quiz_get_my_stats_def)

lemma rooms_order:
  "headed ''rooms'' rooms_routes" "sorted_wrt (\<lambda>a b. \<not> shadows a b) rooms_routes"
  by (simp_all add: headed_def shadows_def rooms_route_def rooms_routes_def
      r_rooms_find_mine_def r_rooms_list_blocks_def r_rooms_create_block_def r_rooms_get_block_def
      r_rooms_update_block_def r_rooms_delete_block_def r_rooms_assign_def r_rooms_unassign_def
      r_rooms_rooming_list_def)

lemma disputes_order:
  "headed ''disputes'' disputes_routes" "sorted_wrt (\<lambda>a b. \<not> shadows a b) disputes_routes"
  by (simp_all add: headed_def shadows_def disputes_route_def disputes_routes_def
      r_disputes_create_def r_disputes_list_def r_disputes_find_one_def r_disputes_add_message_def
      r_disputes_resolve_def r_disputes_escalate_def r_disputes_decide_def)

lemma audit_order:
  "headed ''admin'' audit_routes" "sorted_wrt (\<lambda>a b. \<not> shadows a b) audit_routes"
  by (simp_all add: headed_def shadows_def audit_route_def audit_routes_def
      r_audit_list_def r_audit_export_csv_def)

lemma billing_order:
  "headed ''bookings'' billing_routes" "sorted_wrt (\<lambda>a b. \<not> shadows a b) billing_routes"
  by (simp_all add: headed_def shadows_def billing_route_def billing_routes_def
      r_billing_get_invoice_def r_billing_get_contract_def)

lemma guide_planning_order:
  "headed ''guide-planning'' guide_planning_routes" "sorted_wrt (\<lambda>a b. \<not> shadows a b) guide_planning_routes"
  by (simp_all add: headed_def shadows_def guide_planning_route_def guide_planning_routes_def
      r_guide_planning_get_agency_schedule_def r_guide_planning_get_mine_def
      r_guide_planning_add_unavailability_def r_guide_planning_delete_unavailability_def)

lemma on_call_order:
  "headed ''on-call'' on_call_routes" "sorted_wrt (\<lambda>a b. \<not> shadows a b) on_call_routes"
  by (simp_all add: headed_def shadows_def on_call_route_def on_call_routes_def
      r_on_call_find_for_booking_def r_on_call_list_shifts_def r_on_call_create_shift_def
      r_on_call_update_shift_def r_on_call_delete_shift_def r_on_call_coverage_def)

lemma capacity_order:
  "headed ''capacity'' capacity_routes" "sorted_wrt (\<lambda>a b. \<not> shadows a b) capacity_routes"
  by (simp_all add: headed_def shadows_def capacity_route_def capacity_routes_def
      r_capacity_simulate_def)

lemma profitability_order:
  "headed ''profitability'' profitability_routes" "sorted_wrt (\<lambda>a b. \<not> shadows a b) profitability_routes"
  by (simp_all add: headed_def shadows_def profitability_route_def profitability_routes_def
      r_profitability_simulate_def)

lemma shared_prefixes:
  "\<forall>a \<in> set files_routes. \<forall>b \<in> set documents_routes. \<not> shadows a b"
  "\<forall>a \<in> set bookings_routes. \<forall>b \<in> set billing_routes. \<not> shadows a b"
  "\<forall>a \<in> set admin_routes. \<forall>b \<in> set audit_routes. \<not> shadows a b"
  by (simp_all add: shadows_def
      files_route_def files_routes_def r_files_get_file_def documents_route_def documents_routes_def
      r_documents_upload_def r_documents_list_mine_def r_documents_list_by_booking_def
      r_documents_get_expiry_alerts_def r_documents_get_access_url_def r_documents_validate_def
      r_documents_reject_def bookings_route_def bookings_routes_def r_bookings_create_def
      r_bookings_list_mine_def r_bookings_list_for_agency_def r_bookings_get_by_id_def
      r_bookings_update_step_def r_bookings_assign_group_def r_bookings_cancel_def
      r_bookings_get_family_view_link_def r_bookings_regenerate_family_view_link_def
      billing_route_def billing_routes_def r_billing_get_invoice_def r_billing_get_contract_def
      admin_route_def admin_routes_def r_admin_get_stats_def audit_route_def audit_routes_def
      r_audit_list_def r_audit_export_csv_def)

lemma no_route_shadowed: "sorted_wrt (\<lambda>a b. \<not> shadows a b) app_routes"
proof -
  let ?gs = "[(''health'', health_routes), (''auth'', auth_routes), (''users'', users_routes),
      (''agencies'', agencies_routes), (''documents'', files_routes), (''packages'',
      packages_routes), (''groups'', groups_routes), (''notifications'', notifications_routes),
      (''bookings'', bookings_routes), (''checklist'', checklist_routes), (''payments'',
      payments_routes), (''refund-policies'', refund_policies_routes), (''documents'',
      documents_routes), (''rites'', rites_routes), (''reviews'', reviews_routes), (''messaging'',
      messaging_routes), (''admin'', admin_routes), (''trip-summary'', trip_summary_routes),
      (''calendar'', calendar_routes), (''family-view'', family_view_routes), (''budget'',
      budget_routes), (''micro-courses'', micro_courses_routes), (''community'', community_routes),
      (''emergency'', emergency_routes), (''directory'', directory_routes), (''quiz'', quiz_routes),
      (''rooms'', rooms_routes), (''disputes'', disputes_routes), (''admin'', audit_routes),
      (''bookings'', billing_routes), (''guide-planning'', guide_planning_routes), (''on-call'',
      on_call_routes), (''capacity'', capacity_routes), (''profitability'', profitability_routes)]"
  have "sorted_wrt (\<lambda>a b. \<not> shadows a b) (concat (map snd ?gs))"
  proof (rule groups_unshadowed)
    show "\<forall>g \<in> set ?gs. headed (fst g) (snd g) \<and> sorted_wrt (\<lambda>a b. \<not> shadows a b) (snd g)"
      by (simp add: health_order auth_order users_order agencies_order files_order packages_order groups_order
        notifications_order bookings_order checklist_order payments_order refund_policies_order
        documents_order rites_order reviews_order messaging_order admin_order trip_summary_order
        calendar_order family_view_order budget_order micro_courses_order community_order
        emergency_order directory_order quiz_order rooms_order disputes_order audit_order
        billing_order guide_planning_order on_call_order capacity_order profitability_order)
    show "sorted_wrt (\<lambda>g h. fst g = fst h \<longrightarrow> (\<forall>a \<in> set (snd g). \<forall>b \<in> set (snd h). \<not> shadows a b)) ?gs"
      by (simp add: shared_prefixes)
  qed
  then show ?thesis by (simp add: app_routes_def)
qed

text \<open>C6: Every route of the application can be reached: a request for it, whose parameters are
  not words of the paths, is answered by that route and by no earlier one.\<close>

theorem every_route_answers:
  assumes "rt \<in> set app_routes" and "\<And>n. v n \<notin> set (literals app_routes)"
  shows "resolve app_routes (rt_method rt) (fill v (rt_path rt)) = Some rt"
  using resolve_unshadowed [OF no_route_shadowed assms] by simp

theorem every_route_answers_witness:
  "resolve app_routes GET [''documents'', ''8f14'', ''access-url''] = Some r_documents_get_access_url"
proof -
  have "r_documents_get_access_url \<in> set app_routes"
    by (simp add: app_routes_def documents_routes_def)
  moreover have "''8f14'' \<notin> set (literals app_routes)" by code_simp
  ultimately have "resolve app_routes (rt_method r_documents_get_access_url)
      (fill (\<lambda>_. ''8f14'') (rt_path r_documents_get_access_url)) = Some r_documents_get_access_url"
    by (rule every_route_answers)
  then show ?thesis
    by (simp add: r_documents_get_access_url_def documents_route_def)
qed

end
