(* ===== verification/Effects.thy ===== *)
theory Effects
  imports Accounting Accounts Billing Calendar Capacity Disputes Documents GuidePlanning Learning Messaging OnCall
    Payments Profitability Reviews Rooms Savings Support "HOL-Library.Sublist"
begin

text \<open>
  Which tables an action may write.  An action \<open>touches T\<close> when, whatever its outcome, it leaves
  every table outside \<open>T\<close> as it was and never takes back an identifier.  Every service method
  that writes has its tables here, so that an invariant of a few tables (the locale \<open>framed\<close>)
  survives every call that does not touch them.
\<close>

section \<open>Tables\<close>

datatype table =
    T_users
  | T_specialNeeds
  | T_otps
  | T_refreshTokens
  | T_resetTokens
  | T_agencies
  | T_packages
  | T_checklistItems
  | T_groups
  | T_bookings
  | T_payments
  | T_savingsPlans
  | T_documents
  | T_notifications
  | T_roomBlocks
  | T_roomAssignments
  | T_disputes
  | T_refundTiers
  | T_invoices
  | T_unavailabilities
  | T_shifts
  | T_reviews
  | T_riteSheets
  | T_riteProgress
  | T_microCourses
  | T_courseProgress
  | T_quizQuestions
  | T_quizAttempts
  | T_conversations
  | T_messages
  | T_communityMessages
  | T_emergencyNumbers
  | T_budgets
  | T_auditLogs
  | T_sms
  | T_push
  | T_refunds

definition agree_off :: "table set \<Rightarrow> db \<Rightarrow> db \<Rightarrow> bool" where
  "agree_off T s t \<longleftrightarrow> db_next s \<le> db_next t \<and>
     (T_users \<notin> T \<longrightarrow> db_users t = db_users s) \<and>
     (T_specialNeeds \<notin> T \<longrightarrow> db_specialNeeds t = db_specialNeeds s) \<and>
     (T_otps \<notin> T \<longrightarrow> db_otps t = db_otps s) \<and>
     (T_refreshTokens \<notin> T \<longrightarrow> db_refreshTokens t = db_refreshTokens s) \<and>
     (T_resetTokens \<notin> T \<longrightarrow> db_resetTokens t = db_resetTokens s) \<and>
     (T_agencies \<notin> T \<longrightarrow> db_agencies t = db_agencies s) \<and>
     (T_packages \<notin> T \<longrightarrow> db_packages t = db_packages s) \<and>
     (T_checklistItems \<notin> T \<longrightarrow> db_checklistItems t = db_checklistItems s) \<and>
     (T_groups \<notin> T \<longrightarrow> db_groups t = db_groups s) \<and>
     (T_bookings \<notin> T \<longrightarrow> db_bookings t = db_bookings s) \<and>
     (T_payments \<notin> T \<longrightarrow> db_payments t = db_payments s) \<and>
     (T_savingsPlans \<notin> T \<longrightarrow> db_savingsPlans t = db_savingsPlans s) \<and>
     (T_documents \<notin> T \<longrightarrow> db_documents t = db_documents s) \<and>
     (T_notifications \<notin> T \<longrightarrow> db_notifications t = db_notifications s) \<and>
     (T_roomBlocks \<notin> T \<longrightarrow> db_roomBlocks t = db_roomBlocks s) \<and>
     (T_roomAssignments \<notin> T \<longrightarrow> db_roomAssignments t = db_roomAssignments s) \<and>
     (T_disputes \<notin> T \<longrightarrow> db_disputes t = db_disputes s) \<and>
     (T_refundTiers \<notin> T \<longrightarrow> db_refundTiers t = db_refundTiers s) \<and>
     (T_invoices \<notin> T \<longrightarrow> db_invoices t = db_invoices s) \<and>
     (T_unavailabilities \<notin> T \<longrightarrow> db_unavailabilities t = db_unavailabilities s) \<and>
     (T_shifts \<notin> T \<longrightarrow> db_shifts t = db_shifts s) \<and>
     (T_reviews \<notin> T \<longrightarrow> db_reviews t = db_reviews s) \<and>
     (T_riteSheets \<notin> T \<longrightarrow> db_riteSheets t = db_riteSheets s) \<and>
     (T_riteProgress \<notin> T \<longrightarrow> db_riteProgress t = db_riteProgress s) \<and>
     (T_microCourses \<notin> T \<longrightarrow> db_microCourses t = db_microCourses s) \<and>
     (T_courseProgress \<notin> T \<longrightarrow> db_courseProgress t = db_courseProgress s) \<and>
     (T_quizQuestions \<notin> T \<longrightarrow> db_quizQuestions t = db_quizQuestions s) \<and>
     (T_quizAttempts \<notin> T \<longrightarrow> db_quizAttempts t = db_quizAttempts s) \<and>
     (T_conversations \<notin> T \<longrightarrow> db_conversations t = db_conversations s) \<and>
     (T_messages \<notin> T \<longrightarrow> db_messages t = db_messages s) \<and>
     (T_communityMessages \<notin> T \<longrightarrow> db_communityMessages t = db_communityMessages s) \<and>
     (T_emergencyNumbers \<notin> T \<longrightarrow> db_emergencyNumbers t = db_emergencyNumbers s) \<and>
     (T_budgets \<notin> T \<longrightarrow> db_budgets t = db_budgets s) \<and>
     (T_auditLogs \<notin> T \<longrightarrow> db_auditLogs t = db_auditLogs s) \<and>
     (T_sms \<notin> T \<longrightarrow> db_sms t = db_sms s) \<and>
     (T_push \<notin> T \<longrightarrow> db_push t = db_push s) \<and>
     (T_refunds \<notin> T \<longrightarrow> db_refunds t = db_refunds s)"

definition touches :: "table set \<Rightarrow> (db, 'a) act \<Rightarrow> bool" where
  "touches T m \<longleftrightarrow> (\<forall>s. agree_off T s (snd (m s)))"

named_theorems touches_intro "which tables an action writes"

lemma agree_off_refl [simp]: "agree_off T s s"
  by (simp add: agree_off_def)

lemma agree_off_trans: "agree_off T s t \<Longrightarrow> agree_off T t u \<Longrightarrow> agree_off T s u"
  unfolding agree_off_def by simp

lemma agree_off_mono:
  assumes "agree_off T s t" and "T \<subseteq> T'"
  shows "agree_off T' s t"
proof -
  have n: "x \<notin> T' \<Longrightarrow> x \<notin> T" for x using assms(2) by blast
  show ?thesis
    using assms(1) unfolding agree_off_def
    by (elim conjE, intro conjI impI) (assumption | erule mp, erule n)+
qed

lemma agree_off_next [simp]: "agree_off T s (s\<lparr>db_next := db_next s + n\<rparr>)" "agree_off T s (s\<lparr>db_next := Suc (db_next s)\<rparr>)"
  by (simp_all add: agree_off_def)

lemma touchesD: "touches T m \<Longrightarrow> m s = (r, t) \<Longrightarrow> agree_off T s t"
  unfolding touches_def by (metis snd_conv)

lemma touches_reads: "reads_only m \<Longrightarrow> touches T m"
  by (simp add: touches_def reads_only_def)

lemma touches_basic [touches_intro]:
  "touches T (ret x)" "touches T (throw e)" "touches T (query q)" "touches T (require b e)"
  "touches T (or_fail e x')" "touches T (from_result r)" "touches T (find_first rows p)"
  "touches T (find_many rows' p')"
  by (rule touches_reads, rule reads_basic reads_tables)+

lemma touches_bind [touches_intro]:
  assumes "touches T m" and "\<And>x. touches T (f x)"
  shows "touches T (bind m f)"
  unfolding touches_def
proof
  fix s
  obtain r t where m: "m s = (r, t)" by fastforce
  then have "agree_off T s t" using assms(1) by (rule touchesD [rotated])
  moreover have "agree_off T t (snd (f x t))" for x using assms(2) by (simp add: touches_def)
  ultimately show "agree_off T s (snd (bind m f s))"
    using m by (cases r) (auto intro: agree_off_trans)
qed

lemma touches_catch [touches_intro]:
  assumes "touches T m" and "\<And>e. touches T (h e)"
  shows "touches T (catch m h)"
  unfolding touches_def
proof
  fix s
  obtain r t where m: "m s = (r, t)" by fastforce
  then have "agree_off T s t" using assms(1) by (rule touchesD [rotated])
  moreover have "agree_off T t (snd (h e t))" for e using assms(2) by (simp add: touches_def)
  ultimately show "agree_off T s (snd (catch m h s))"
    using m by (cases r) (auto simp: catch_def intro: agree_off_trans)
qed

lemma touches_transaction [touches_intro]:
  assumes "touches T m"
  shows "touches T (transaction m)"
  unfolding touches_def
proof
  fix s
  obtain r t where m: "m s = (r, t)" by fastforce
  then have "agree_off T s t" using assms by (rule touchesD [rotated])
  then show "agree_off T s (snd (transaction m s))" using m by (cases r) (auto simp: transaction_def)
qed

lemma touches_cases [touches_intro]:
  "(b \<Longrightarrow> touches T m) \<Longrightarrow> (\<not> b \<Longrightarrow> touches T n) \<Longrightarrow> touches T (if b then m else n)"
  "touches T m' \<Longrightarrow> (\<And>x. touches T (f x)) \<Longrightarrow> touches T (case o' of None \<Rightarrow> m' | Some x \<Rightarrow> f x)"
  "(\<And>a b. touches T (g a b)) \<Longrightarrow> touches T (case p of (a, b) \<Rightarrow> g a b)"
  "touches T k \<Longrightarrow> touches T (whenever c k)"
  by (simp_all add: whenever_def touches_basic split: option.split prod.split)

lemma touches_for_each [touches_intro]: "(\<And>x. touches T (f x)) \<Longrightarrow> touches T (for_each xs f)"
  by (induction xs) (auto intro: touches_intro)

lemma touches_map_act [touches_intro]: "(\<And>x. touches T (f x)) \<Longrightarrow> touches T (map_act f xs)"
  by (induction xs) (auto intro: touches_intro)

lemma touches_fresh_ids [touches_intro]: "touches T (fresh_ids n)"
  by (simp add: touches_def)

section \<open>The contract of a stored table\<close>

locale stored_table =
  fixes rows :: "db \<Rightarrow> 'r list" and put :: "('r list \<Rightarrow> 'r list) \<Rightarrow> db \<Rightarrow> db" and tbl :: table
  assumes put_agrees: "tbl \<in> T \<Longrightarrow> agree_off T s (put f s)"
begin

lemma touches_put: "tbl \<in> T \<Longrightarrow> touches T (exec (put f))"
  by (simp add: touches_def put_agrees)

lemma touches_create: "tbl \<in> T \<Longrightarrow> touches T (create_row put mk)"
  unfolding touches_def create_row_def Let_def
  by (auto intro: agree_off_trans [OF agree_off_next(2)] put_agrees)

lemma touches_creates: "tbl \<in> T \<Longrightarrow> touches T (create_rows put mks)"
  by (induction mks) (auto intro: touches_intro touches_create)

lemma touches_update: "tbl \<in> T \<Longrightarrow> touches T (update_row rows put p f)"
  by (auto simp: touches_def update_row_def put_agrees split: option.split)

lemma touches_update_many: "tbl \<in> T \<Longrightarrow> touches T (update_many put p f)"
  unfolding update_many_def by (rule touches_put)

lemma touches_delete: "tbl \<in> T \<Longrightarrow> touches T (delete_many rows put p)"
  by (simp add: touches_def delete_many_def put_agrees)

lemmas writes = touches_put touches_create touches_creates touches_update touches_update_many touches_delete

end

interpretation tbl_users: stored_table db_users db_users_update T_users
  by unfold_locales (simp add: agree_off_def)

interpretation tbl_specialNeeds: stored_table db_specialNeeds db_specialNeeds_update T_specialNeeds
  by unfold_locales (simp add: agree_off_def)

interpretation tbl_otps: stored_table db_otps db_otps_update T_otps
  by unfold_locales (simp add: agree_off_def)

interpretation tbl_refreshTokens: stored_table db_refreshTokens db_refreshTokens_update T_refreshTokens
  by unfold_locales (simp add: agree_off_def)

interpretation tbl_resetTokens: stored_table db_resetTokens db_resetTokens_update T_resetTokens
  by unfold_locales (simp add: agree_off_def)

interpretation tbl_agencies: stored_table db_agencies db_agencies_update T_agencies
  by unfold_locales (simp add: agree_off_def)

interpretation tbl_packages: stored_table db_packages db_packages_update T_packages
  by unfold_locales (simp add: agree_off_def)

interpretation tbl_checklistItems: stored_table db_checklistItems db_checklistItems_update T_checklistItems
  by unfold_locales (simp add: agree_off_def)

interpretation tbl_groups: stored_table db_groups db_groups_update T_groups
  by unfold_locales (simp add: agree_off_def)

interpretation tbl_bookings: stored_table db_bookings db_bookings_update T_bookings
  by unfold_locales (simp add: agree_off_def)

interpretation tbl_payments: stored_table db_payments db_payments_update T_payments
  by unfold_locales (simp add: agree_off_def)

interpretation tbl_savingsPlans: stored_table db_savingsPlans db_savingsPlans_update T_savingsPlans
  by unfold_locales (simp add: agree_off_def)

interpretation tbl_documents: stored_table db_documents db_documents_update T_documents
  by unfold_locales (simp add: agree_off_def)

interpretation tbl_notifications: stored_table db_notifications db_notifications_update T_notifications
  by unfold_locales (simp add: agree_off_def)

interpretation tbl_roomBlocks: stored_table db_roomBlocks db_roomBlocks_update T_roomBlocks
  by unfold_locales (simp add: agree_off_def)

interpretation tbl_roomAssignments: stored_table db_roomAssignments db_roomAssignments_update T_roomAssignments
  by unfold_locales (simp add: agree_off_def)

interpretation tbl_disputes: stored_table db_disputes db_disputes_update T_disputes
  by unfold_locales (simp add: agree_off_def)

interpretation tbl_refundTiers: stored_table db_refundTiers db_refundTiers_update T_refundTiers
  by unfold_locales (simp add: agree_off_def)

interpretation tbl_invoices: stored_table db_invoices db_invoices_update T_invoices
  by unfold_locales (simp add: agree_off_def)

interpretation tbl_unavailabilities: stored_table db_unavailabilities db_unavailabilities_update T_unavailabilities
  by unfold_locales (simp add: agree_off_def)

interpretation tbl_shifts: stored_table db_shifts db_shifts_update T_shifts
  by unfold_locales (simp add: agree_off_def)

interpretation tbl_reviews: stored_table db_reviews db_reviews_update T_reviews
  by unfold_locales (simp add: agree_off_def)

interpretation tbl_riteSheets: stored_table db_riteSheets db_riteSheets_update T_riteSheets
  by unfold_locales (simp add: agree_off_def)

interpretation tbl_riteProgress: stored_table db_riteProgress db_riteProgress_update T_riteProgress
  by unfold_locales (simp add: agree_off_def)

interpretation tbl_microCourses: stored_table db_microCourses db_microCourses_update T_microCourses
  by unfold_locales (simp add: agree_off_def)

interpretation tbl_courseProgress: stored_table db_courseProgress db_courseProgress_update T_courseProgress
  by unfold_locales (simp add: agree_off_def)

interpretation tbl_quizQuestions: stored_table db_quizQuestions db_quizQuestions_update T_quizQuestions
  by unfold_locales (simp add: agree_off_def)

interpretation tbl_quizAttempts: stored_table db_quizAttempts db_quizAttempts_update T_quizAttempts
  by unfold_locales (simp add: agree_off_def)

interpretation tbl_conversations: stored_table db_conversations db_conversations_update T_conversations
  by unfold_locales (simp add: agree_off_def)

interpretation tbl_messages: stored_table db_messages db_messages_update T_messages
  by unfold_locales (simp add: agree_off_def)

interpretation tbl_communityMessages: stored_table db_communityMessages db_communityMessages_update T_communityMessages
  by unfold_locales (simp add: agree_off_def)

interpretation tbl_emergencyNumbers: stored_table db_emergencyNumbers db_emergencyNumbers_update T_emergencyNumbers
  by unfold_locales (simp add: agree_off_def)

interpretation tbl_budgets: stored_table db_budgets db_budgets_update T_budgets
  by unfold_locales (simp add: agree_off_def)

interpretation tbl_auditLogs: stored_table db_auditLogs db_auditLogs_update T_auditLogs
  by unfold_locales (simp add: agree_off_def)

interpretation tbl_sms: stored_table db_sms db_sms_update T_sms
  by unfold_locales (simp add: agree_off_def)

interpretation tbl_push: stored_table db_push db_push_update T_push
  by unfold_locales (simp add: agree_off_def)

interpretation tbl_refunds: stored_table db_refunds db_refunds_update T_refunds
  by unfold_locales (simp add: agree_off_def)

lemmas touches_tables [touches_intro] =
  tbl_users.writes tbl_specialNeeds.writes tbl_otps.writes tbl_refreshTokens.writes
  tbl_resetTokens.writes tbl_agencies.writes tbl_packages.writes tbl_checklistItems.writes
  tbl_groups.writes tbl_bookings.writes tbl_payments.writes tbl_savingsPlans.writes
  tbl_documents.writes tbl_notifications.writes tbl_roomBlocks.writes tbl_roomAssignments.writes
  tbl_disputes.writes tbl_refundTiers.writes tbl_invoices.writes tbl_unavailabilities.writes
  tbl_shifts.writes tbl_reviews.writes tbl_riteSheets.writes tbl_riteProgress.writes
  tbl_microCourses.writes tbl_courseProgress.writes tbl_quizQuestions.writes tbl_quizAttempts.writes
  tbl_conversations.writes tbl_messages.writes tbl_communityMessages.writes tbl_emergencyNumbers.writes
  tbl_budgets.writes tbl_auditLogs.writes tbl_sms.writes tbl_push.writes
  tbl_refunds.writes

end
