(* ===== verification/Footprints.thy ===== *)
theory Footprints
  imports Effects
begin

text \<open>
  The tables each service method writes: none for those that only read, the ones listed in the
  assumptions for the others.
\<close>

section \<open>Methods that only read\<close>

lemma reads_map_act: "(\<And>x. reads_only (f x)) \<Longrightarrow> reads_only (map_act f xs)"
  by (induction xs) (auto intro: reads_intro)

lemma reads_rest:
  "reads_only (get_special_needs i)" "reads_only (find_agency p msg)" "reads_only (list_blocks i k)"
  "reads_only (otp_allowed_for_email e)" "reads_only (latest_otp c)"
  "reads_only (find_matching_refresh_token env now i raw)" "reads_only (assert_otp_usable now o')"
  unfolding get_special_needs_def find_agency_def list_blocks_def otp_allowed_for_email_def latest_otp_def
    find_matching_refresh_token_def assert_otp_usable_def Let_def
  by (intro reads_intro reads_map_act)+

lemma reads_views:
  "reads_only (list_disputes i r st)" "reads_only (get_platform_stats)" "reads_only (get_agency_feed now token)"
  "reads_only (get_trip_summary i r j)" "reads_only (list_approved_agencies collation)"
proof -
  have "reads_only (load_details ds)" for ds
    by (induction ds) (simp_all only: load_details.simps, (intro reads_intro | assumption)+)
  then show "reads_only (list_disputes i r st)"
    unfolding list_disputes_def by (intro reads_intro | simp)+
  show "reads_only (get_platform_stats)" "reads_only (get_agency_feed now token)" "reads_only (get_trip_summary i r j)"
    unfolding get_platform_stats_def get_agency_feed_def get_trip_summary_def Let_def
    by (intro reads_intro reads_rest | simp)+
  show "reads_only (list_approved_agencies collation)"
    unfolding list_approved_agencies_def directory_entry_of_def by (intro reads_intro reads_map_act | simp)+
qed

lemma touches_contact [touches_intro]:
  "(\<And>p. touches T (f p)) \<Longrightarrow> (\<And>e. touches T (g e)) \<Longrightarrow>
     touches T (case contact of Phone p \<Rightarrow> f p | Email e \<Rightarrow> g e)"
  by (simp split: otp_contact.split)

lemmas touches_read_ops [touches_intro] =
  reads_users [THEN touches_reads] reads_notifications [THEN touches_reads] reads_agencies [THEN touches_reads]
  reads_packages [THEN touches_reads] reads_refund [THEN touches_reads] reads_groups [THEN touches_reads]
  reads_checklists [THEN touches_reads] reads_bookings [THEN touches_reads] reads_payments [THEN touches_reads]
  reads_savings [THEN touches_reads] reads_rooms [THEN touches_reads] reads_disputes [THEN touches_reads]
  reads_accounting [THEN touches_reads] reads_shifts [THEN touches_reads] reads_planning [THEN touches_reads]
  reads_capacity [THEN touches_reads] reads_audit [THEN touches_reads] reads_billing [THEN touches_reads]
  reads_documents [THEN touches_reads] reads_learning [THEN touches_reads] reads_messaging [THEN touches_reads]
  reads_reviews [THEN touches_reads] reads_profitability [THEN touches_reads] reads_support [THEN touches_reads]
  reads_rest [THEN touches_reads] reads_views [THEN touches_reads]

section \<open>Methods that write\<close>

lemma users_touch [touches_intro]:
  assumes "T_users \<in> T"
  shows "touches T (create_user now dto)"
    "touches T (update_user userId f)"
    "touches T (update_profile now userId dto')"
    "touches T (set_active now userId isActive)"
    "touches T (set_active_for_admin now userId isActive)"
  unfolding create_user_def update_user_def update_profile_def set_active_def
    set_active_for_admin_def Let_def
  by (intro touches_intro assms | clarsimp split: prod.split)+

lemma users_touch2 [touches_intro]:
  assumes "T_specialNeeds \<in> T"
  shows "touches T (replace_special_needs now userId dto)"
  unfolding replace_special_needs_def Let_def
  by (intro touches_intro assms | clarsimp split: prod.split)+

lemma notifications_touch [touches_intro]:
  assumes "T_push \<in> T"
  shows "touches T (push_send userId title content)"
  unfolding push_send_def Let_def
  by (intro touches_intro assms | clarsimp split: prod.split)+

lemma notifications_touch2 [touches_intro]:
  assumes "T_sms \<in> T"
  shows "touches T (sms_send phone content)"
    "touches T (send_raw_sms phone content)"
  unfolding sms_send_def send_raw_sms_def Let_def
  by (intro touches_intro assms | clarsimp split: prod.split)+

lemma notifications_touch3 [touches_intro]:
  assumes "T_push \<in> T" "T_sms \<in> T"
  shows "touches T (dispatch input recipientId)"
  unfolding dispatch_def Let_def
  by (intro touches_intro assms | clarsimp split: prod.split)+

lemma notifications_touch4 [touches_intro]:
  assumes "T_notifications \<in> T" "T_push \<in> T" "T_sms \<in> T"
  shows "touches T (send now input)"
  unfolding send_def Let_def
  by (intro touches_intro assms | clarsimp split: prod.split)+

lemma notifications_touch5 [touches_intro]:
  assumes "T_notifications \<in> T"
  shows "touches T (mark_read now userId notificationId)"
  unfolding mark_read_def Let_def
  by (intro touches_intro assms | clarsimp split: prod.split)+

lemma agencies_touch [touches_intro]:
  assumes "T_agencies \<in> T" "T_users \<in> T"
  shows "touches T (register_agency now passwordHash dto)"
  unfolding register_agency_def Let_def
  by (intro touches_intro assms | clarsimp split: prod.split)+

lemma agencies_touch2 [touches_intro]:
  assumes "T_agencies \<in> T"
  shows "touches T (update_own ownerId dto)"
    "touches T (validate_agency i f)"
    "touches T (approve_agency now i' adminId)"
    "touches T (reject_agency now i'' adminId reason)"
    "touches T (add_legal_document now ownerId label expiresAt store)"
    "touches T (regenerate_calendar_subscription token ownerId)"
    "touches T (get_or_create_calendar_subscription token ownerId)"
  unfolding update_own_def validate_agency_def approve_agency_def reject_agency_def
    add_legal_document_def regenerate_calendar_subscription_def
    get_or_create_calendar_subscription_def Let_def
  by (intro touches_intro assms | clarsimp split: prod.split)+

lemma agencies_touch3 [touches_intro]:
  assumes "T_users \<in> T"
  shows "touches T (add_guide now ownerId dto)"
  unfolding add_guide_def Let_def
  by (intro touches_intro assms | clarsimp split: prod.split)+

lemma packages_touch [touches_intro]:
  assumes "T_packages \<in> T"
  shows "touches T (create_package ownerId dto)"
    "touches T (update_package_row i f)"
    "touches T (update_package ownerId packageId dto')"
    "touches T (close_package ownerId packageId)"
    "touches T (reserve_seat packageId)"
    "touches T (release_seat packageId)"
  unfolding create_package_def update_package_row_def update_package_def close_package_def
    reserve_seat_def release_seat_def Let_def
  by (intro touches_intro assms | clarsimp split: prod.split)+

lemma refundpolicy_touch [touches_intro]:
  assumes "T_refundTiers \<in> T"
  shows "touches T (replace_for_owner ownerId tiers)"
  unfolding replace_for_owner_def Let_def
  by (intro touches_intro assms | clarsimp split: prod.split)+

lemma travelgroups_touch [touches_intro]:
  assumes "T_groups \<in> T"
  shows "touches T (create_group ownerId packageId title)"
    "touches T (update_group_row i f)"
    "touches T (assign_guide ownerId groupId guideUserId)"
    "touches T (add_member ownerId groupId pilgrimUserId)"
    "touches T (add_itinerary_step ownerId groupId step)"
    "touches T (update_location now userId groupId lat lng)"
    "touches T (clear_location userId groupId)"
  unfolding create_group_def update_group_row_def assign_guide_def add_member_def
    add_itinerary_step_def update_location_def clear_location_def Let_def
  by (intro touches_intro assms | clarsimp split: prod.split)+

lemma travelgroups_touch2 [touches_intro]:
  assumes "T_sms \<in> T"
  shows "touches T (emergency_sms pilgrim content)"
  unfolding emergency_sms_def Let_def
  by (intro touches_intro assms | clarsimp split: prod.split)+

lemma travelgroups_touch3 [touches_intro]:
  assumes "T_notifications \<in> T" "T_push \<in> T" "T_sms \<in> T"
  shows "touches T (trigger_sos now pilgrimUserId groupId)"
  unfolding trigger_sos_def Let_def
  by (intro touches_intro assms | clarsimp split: prod.split)+

lemma travelgroups_touch4 [touches_intro]:
  assumes "T_groups \<in> T" "T_notifications \<in> T" "T_push \<in> T" "T_sms \<in> T"
  shows "touches T (trigger_lost_alert now pilgrimUserId groupId lat lng)"
  unfolding trigger_lost_alert_def Let_def
  by (intro touches_intro assms | clarsimp split: prod.split)+

lemma checklists_touch [touches_intro]:
  assumes "T_checklistItems \<in> T"
  shows "touches T (update_checklist_status pilgrimId i isCompleted)"
    "touches T (generate_standard_checklist now bookingId)"
    "touches T (mark_reminded i')"
  unfolding update_checklist_status_def generate_standard_checklist_def mark_reminded_def Let_def
  by (intro touches_intro assms | clarsimp split: prod.split)+

lemma checklists_touch2 [touches_intro]:
  assumes "T_checklistItems \<in> T" "T_notifications \<in> T" "T_push \<in> T" "T_sms \<in> T"
  shows "touches T (remind_one now ib)"
    "touches T (remind_checklist_items now)"
  unfolding remind_one_def remind_checklist_items_def Let_def
  by (intro touches_intro assms | clarsimp split: prod.split)+

lemma bookings_touch [touches_intro]:
  assumes "T_bookings \<in> T"
  shows "touches T (update_booking_row i f)"
    "touches T (update_booking_step now bookingId key status)"
    "touches T (regenerate_family_view_link token pilgrimId bookingId)"
    "touches T (get_or_create_family_view_link token pilgrimId bookingId)"
  unfolding update_booking_row_def update_booking_step_def regenerate_family_view_link_def
    get_or_create_family_view_link_def Let_def
  by (intro touches_intro assms | clarsimp split: prod.split)+

lemma bookings_touch2 [touches_intro]:
  assumes "T_bookings \<in> T" "T_packages \<in> T"
  shows "touches T (create_booking now pilgrimId packageId)"
    "touches T (cancel_booking pilgrimId bookingId)"
  unfolding create_booking_def cancel_booking_def Let_def
  by (intro touches_intro assms | clarsimp split: prod.split)+

lemma bookings_touch3 [touches_intro]:
  assumes "T_notifications \<in> T" "T_push \<in> T" "T_sms \<in> T"
  shows "touches T (notify_pilgrim_and_family now pilgrimId title content isCritical)"
    "touches T (notify_step_done now booking key)"
    "touches T (notify_confirmed now booking)"
  unfolding notify_pilgrim_and_family_def notify_step_done_def notify_confirmed_def Let_def
  by (intro touches_intro assms | clarsimp split: prod.split)+

lemma bookings_touch4 [touches_intro]:
  assumes "T_bookings \<in> T" "T_checklistItems \<in> T" "T_notifications \<in> T" "T_push \<in> T" "T_sms \<in> T"
  shows "touches T (maybe_confirm now bookingId)"
    "touches T (update_step now ownerId bookingId key status)"
    "touches T (mark_step_done now bookingId key)"
  unfolding maybe_confirm_def update_step_def mark_step_done_def Let_def
  by (intro touches_intro assms | clarsimp split: prod.split)+

lemma bookings_touch5 [touches_intro]:
  assumes "T_bookings \<in> T" "T_groups \<in> T"
  shows "touches T (assign_group ownerId bookingId groupId)"
  unfolding assign_group_def Let_def
  by (intro touches_intro assms | clarsimp split: prod.split)+

lemma payments_touch [touches_intro]:
  assumes "T_refunds \<in> T"
  shows "touches T (provider_refund providerReference amount)"
  unfolding provider_refund_def Let_def
  by (intro touches_intro assms | clarsimp split: prod.split)+

lemma payments_touch2 [touches_intro]:
  assumes "T_payments \<in> T"
  shows "touches T (initiate now ref pilgrimId dto)"
  unfolding initiate_def Let_def
  by (intro touches_intro assms | clarsimp split: prod.split)+

lemma payments_touch3 [touches_intro]:
  assumes "T_bookings \<in> T" "T_checklistItems \<in> T" "T_notifications \<in> T" "T_push \<in> T" "T_sms \<in> T"
  shows "touches T (reconcile_booking_payment_step now bookingId)"
  unfolding reconcile_booking_payment_step_def Let_def
  by (intro touches_intro assms | clarsimp split: prod.split)+

lemma payments_touch4 [touches_intro]:
  assumes "T_bookings \<in> T" "T_checklistItems \<in> T" "T_notifications \<in> T" "T_payments \<in> T" "T_push \<in> T" "T_sms \<in> T"
  shows "touches T (handle_webhook now ref status)"
  unfolding handle_webhook_def Let_def
  by (intro touches_intro assms | clarsimp split: prod.split)+

lemma payments_touch5 [touches_intro]:
  assumes "T_notifications \<in> T" "T_payments \<in> T" "T_push \<in> T" "T_refunds \<in> T" "T_sms \<in> T"
  shows "touches T (request_refund now requesterId requesterRole paymentId)"
  unfolding request_refund_def Let_def
  by (intro touches_intro assms | clarsimp split: prod.split)+

lemma savings_touch [touches_intro]:
  assumes "T_savingsPlans \<in> T"
  shows "touches T (upsert_plan bookingId upd mk)"
    "touches T (setup_savings_plan now pilgrimId bookingId dto)"
  unfolding upsert_plan_def setup_savings_plan_def Let_def
  by (intro touches_intro assms | clarsimp split: prod.split)+

lemma savings_touch2 [touches_intro]:
  assumes "T_notifications \<in> T" "T_payments \<in> T" "T_push \<in> T" "T_savingsPlans \<in> T" "T_sms \<in> T"
  shows "touches T (process_one now show_number refs pb)"
    "touches T (process_due_savings now show_number refs)"
  unfolding process_one_def process_due_savings_def Let_def
  by (intro touches_intro assms | clarsimp split: prod.split)+

lemma remind_balances_touch [touches_intro]:
  assumes "T_notifications \<in> T" "T_push \<in> T" "T_sms \<in> T"
  shows "touches T (remind_balances now fg fd ps bs sent)"
proof (induction ps bs sent rule: remind_balances.induct [of _ now fg fd])
  case (2 ps b p rest sent)
  show ?case
    unfolding remind_balances.simps Let_def
    by (intro touches_intro assms 2 refl | simp)+
qed (simp only: remind_balances.simps, rule touches_basic)

lemma send_preventive_reminders_touch [touches_intro]:
  assumes "T_notifications \<in> T" "T_push \<in> T" "T_sms \<in> T"
  shows "touches T (send_preventive_reminders now fg fd)"
  unfolding send_preventive_reminders_def by (intro touches_intro assms)

lemma rooms_touch [touches_intro]:
  assumes "T_roomBlocks \<in> T"
  shows "touches T (create_block ownerId dto)"
    "touches T (update_block ownerId i dto')"
    "touches T (delete_block ownerId i')"
  unfolding create_block_def update_block_def delete_block_def Let_def
  by (intro touches_intro assms | clarsimp split: prod.split)+

lemma rooms_touch2 [touches_intro]:
  assumes "T_roomAssignments \<in> T"
  shows "touches T (upsert_assignment blockId bookingId chambre)"
    "touches T (take_bed bloc dto)"
    "touches T (assign_room ownerId blockId dto')"
    "touches T (unassign_room ownerId blockId bookingId)"
  unfolding upsert_assignment_def take_bed_def assign_room_def unassign_room_def Let_def
  by (intro touches_intro assms | clarsimp split: prod.split)+

lemma disputes_touch [touches_intro]:
  assumes "T_notifications \<in> T" "T_push \<in> T" "T_sms \<in> T"
  shows "touches T (notifier now destinataires title content)"
  unfolding notifier_def Let_def
  by (intro touches_intro assms | clarsimp split: prod.split)+

lemma disputes_touch2 [touches_intro]:
  assumes "T_disputes \<in> T" "T_notifications \<in> T" "T_push \<in> T" "T_sms \<in> T"
  shows "touches T (create_dispute now pilgrimId dto)"
  unfolding create_dispute_def Let_def
  by (intro touches_intro assms | clarsimp split: prod.split)+

lemma disputes_touch3 [touches_intro]:
  assumes "T_disputes \<in> T"
  shows "touches T (update_dispute now i f)"
    "touches T (purge_closed_disputes now)"
  unfolding update_dispute_def purge_closed_disputes_def Let_def
  by (intro touches_intro assms | clarsimp split: prod.split)+

lemma disputes_touch4 [touches_intro]:
  assumes "T_disputes \<in> T" "T_notifications \<in> T" "T_push \<in> T" "T_sms \<in> T"
  shows "touches T (add_dispute_message now userId r i content)"
    "touches T (resolve_dispute now pilgrimId i')"
    "touches T (escalate_dispute now pilgrimId i'')"
    "touches T (decide_dispute now adminId i3 decision)"
  unfolding add_dispute_message_def resolve_dispute_def escalate_dispute_def decide_dispute_def
    Let_def
  by (intro touches_intro assms | clarsimp split: prod.split)+

lemma oncall_touch [touches_intro]:
  assumes "T_shifts \<in> T"
  shows "touches T (create_shift ownerId dto)"
    "touches T (update_shift ownerId i dto')"
    "touches T (delete_shift ownerId i')"
  unfolding create_shift_def update_shift_def delete_shift_def Let_def
  by (intro touches_intro assms | clarsimp split: prod.split)+

lemma guideplanning_touch [touches_intro]:
  assumes "T_unavailabilities \<in> T"
  shows "touches T (add_unavailability ownerId dto)"
    "touches T (delete_unavailability ownerId i)"
  unfolding add_unavailability_def delete_unavailability_def Let_def
  by (intro touches_intro assms | clarsimp split: prod.split)+

lemma audittrail_touch [touches_intro]:
  assumes "T_auditLogs \<in> T"
  shows "touches T (record_audit now e)"
  unfolding record_audit_def Let_def
  by (intro touches_intro assms | clarsimp split: prod.split)+

lemma billing_touch [touches_intro]:
  assumes "T_invoices \<in> T"
  shows "touches T (emettre now d)"
  unfolding emettre_def Let_def
  by (intro touches_intro assms | clarsimp split: prod.split)+

lemma billing_touch2 [touches_intro]:
  assumes "T_auditLogs \<in> T" "T_invoices \<in> T"
  shows "touches T (get_invoice now userId r bookingId)"
  unfolding get_invoice_def Let_def
  by (intro touches_intro assms | clarsimp split: prod.split)+

lemma documents_touch [touches_intro]:
  assumes "T_documents \<in> T"
  shows "touches T (upload_document pilgrimId dto storageRef)"
    "touches T (reject_document ownerId documentId reason)"
  unfolding upload_document_def reject_document_def Let_def
  by (intro touches_intro assms | clarsimp split: prod.split)+

lemma documents_touch2 [touches_intro]:
  assumes "T_bookings \<in> T" "T_checklistItems \<in> T" "T_notifications \<in> T" "T_push \<in> T" "T_sms \<in> T"
  shows "touches T (maybe_complete_documents_step now bookingId)"
  unfolding maybe_complete_documents_step_def Let_def
  by (intro touches_intro assms | clarsimp split: prod.split)+

lemma documents_touch3 [touches_intro]:
  assumes "T_bookings \<in> T" "T_checklistItems \<in> T" "T_documents \<in> T" "T_notifications \<in> T" "T_push \<in> T" "T_sms \<in> T"
  shows "touches T (validate_document now ownerId documentId)"
  unfolding validate_document_def Let_def
  by (intro touches_intro assms | clarsimp split: prod.split)+

lemma auth_touch [touches_intro]:
  assumes "T_otps \<in> T"
  shows "touches T (request_otp env now drawn contact)"
  unfolding request_otp_def Let_def
  by (intro touches_intro assms | clarsimp split: prod.split)+

lemma auth_touch2 [touches_intro]:
  assumes "T_refreshTokens \<in> T"
  shows "touches T (issue_tokens env now user)"
    "touches T (revoke i)"
    "touches T (validate_agency_or_admin env' now email password)"
    "touches T (refresh env'' now raw)"
    "touches T (logout env3 now userId raw)"
  unfolding issue_tokens_def revoke_def validate_agency_or_admin_def refresh_def logout_def Let_def
  by (intro touches_intro assms | clarsimp split: prod.split)+

lemma auth_touch3 [touches_intro]:
  assumes "T_users \<in> T"
  shows "touches T (user_of_contact now contact fullName)"
  unfolding user_of_contact_def Let_def
  by (intro touches_intro assms | clarsimp split: prod.split)+

lemma auth_touch4 [touches_intro]:
  assumes "T_otps \<in> T" "T_refreshTokens \<in> T" "T_users \<in> T"
  shows "touches T (verify_otp env now contact code fullName)"
  unfolding verify_otp_def Let_def
  by (intro touches_intro assms | clarsimp split: prod.split)+

lemma auth_touch5 [touches_intro]:
  assumes "T_resetTokens \<in> T"
  shows "touches T (request_reset env now mailer_available token email)"
  unfolding request_reset_def Let_def
  by (intro touches_intro assms | clarsimp split: prod.split)+

lemma auth_touch6 [touches_intro]:
  assumes "T_refreshTokens \<in> T" "T_resetTokens \<in> T" "T_users \<in> T"
  shows "touches T (reset_password env now token newPassword)"
  unfolding reset_password_def Let_def
  by (intro touches_intro assms | clarsimp split: prod.split)+

lemma learning_touch [touches_intro]:
  assumes "T_riteSheets \<in> T"
  shows "touches T (create_sheet dto)"
    "touches T (update_sheet_row i f)"
    "touches T (update_sheet i' dto')"
    "touches T (validate_sheet now i'' reviewerId)"
  unfolding create_sheet_def update_sheet_row_def update_sheet_def validate_sheet_def Let_def
  by (intro touches_intro assms | clarsimp split: prod.split)+

lemma learning_touch2 [touches_intro]:
  assumes "T_riteProgress \<in> T"
  shows "touches T (upsert_rite pilgrimId riteKey change mk)"
    "touches T (sync_rite_item pilgrimId item)"
    "touches T (sync_rites pilgrimId items)"
    "touches T (reset_counter now pilgrimId riteKey)"
  unfolding upsert_rite_def sync_rite_item_def sync_rites_def reset_counter_def Let_def
  by (intro touches_intro assms | clarsimp split: prod.split)+

lemma learning_touch3 [touches_intro]:
  assumes "T_microCourses \<in> T"
  shows "touches T (create_course now dto)"
    "touches T (update_course i dto')"
  unfolding create_course_def update_course_def Let_def
  by (intro touches_intro assms | clarsimp split: prod.split)+

lemma learning_touch4 [touches_intro]:
  assumes "T_courseProgress \<in> T" "T_microCourses \<in> T"
  shows "touches T (delete_course i)"
  unfolding delete_course_def Let_def
  by (intro touches_intro assms | clarsimp split: prod.split)+

lemma learning_touch5 [touches_intro]:
  assumes "T_courseProgress \<in> T"
  shows "touches T (upsert_course_progress pilgrimId item)"
    "touches T (sync_course_item pilgrimId item')"
    "touches T (sync_courses pilgrimId items)"
  unfolding upsert_course_progress_def sync_course_item_def sync_courses_def Let_def
  by (intro touches_intro assms | clarsimp split: prod.split)+

lemma learning_touch6 [touches_intro]:
  assumes "T_quizQuestions \<in> T"
  shows "touches T (create_question now dto)"
    "touches T (validate_question now i adminId)"
    "touches T (reject_question i')"
  unfolding create_question_def validate_question_def reject_question_def Let_def
  by (intro touches_intro assms | clarsimp split: prod.split)+

lemma learning_touch7 [touches_intro]:
  assumes "T_quizAttempts \<in> T"
  shows "touches T (submit_attempt now questionId pilgrimId selectedOption)"
  unfolding submit_attempt_def Let_def
  by (intro touches_intro assms | clarsimp split: prod.split)+

lemma messaging_touch [touches_intro]:
  assumes "T_conversations \<in> T"
  shows "touches T (upsert_conversation bookingId channel)"
    "touches T (get_or_create_conversation bookingId channel requesterId)"
  unfolding upsert_conversation_def get_or_create_conversation_def Let_def
  by (intro touches_intro assms | clarsimp split: prod.split)+

lemma messaging_touch2 [touches_intro]:
  assumes "T_messages \<in> T" "T_notifications \<in> T" "T_push \<in> T" "T_sms \<in> T"
  shows "touches T (send_message now conversationId senderId content clientSentAt)"
  unfolding send_message_def Let_def
  by (intro touches_intro assms | clarsimp split: prod.split)+

lemma messaging_touch3 [touches_intro]:
  assumes "T_messages \<in> T"
  shows "touches T (mark_as_read now conversationId userId)"
  unfolding mark_as_read_def Let_def
  by (intro touches_intro assms | clarsimp split: prod.split)+

lemma messaging_touch4 [touches_intro]:
  assumes "T_communityMessages \<in> T"
  shows "touches T (send_community_message now groupId userId r content clientSentAt)"
  unfolding send_community_message_def Let_def
  by (intro touches_intro assms | clarsimp split: prod.split)+

lemma reviews_touch [touches_intro]:
  assumes "T_reviews \<in> T"
  shows "touches T (create_review now pilgrimId dto)"
  unfolding create_review_def Let_def
  by (intro touches_intro assms | clarsimp split: prod.split)+

lemma support_touch [touches_intro]:
  assumes "T_emergencyNumbers \<in> T"
  shows "touches T (create_number dto)"
    "touches T (update_number i dto')"
    "touches T (delete_number i')"
  unfolding create_number_def update_number_def delete_number_def Let_def
  by (intro touches_intro assms | clarsimp split: prod.split)+

lemma support_touch2 [touches_intro]:
  assumes "T_budgets \<in> T"
  shows "touches T (create_budget pilgrimId dto)"
    "touches T (update_budget pilgrimId i dto')"
    "touches T (remove_budget pilgrimId i')"
  unfolding create_budget_def update_budget_def remove_budget_def Let_def
  by (intro touches_intro assms | clarsimp split: prod.split)+

end
