(* ===== verification/Platform.thy ===== *)
theory Platform
  imports Routes Footprints
begin

text \<open>
  The whole backend as one machine: a step is a request to one of the routes, an event of a
  websocket or a run of a scheduled job.  An invariant of the database that every service
  method keeps (the locale \<open>platform_invariant\<close>, which asks only about the methods that write
  the tables it is about) holds after any number of steps, in any order.  The bodies of the
  requests are any the validation lets through; where an invariant needs a rule of the
  validation (the beds of a room, the stars of a review), the step states it.
\<close>

section \<open>Steps\<close>

inductive api_step :: "realtime_env \<Rightarrow> server \<Rightarrow> server \<Rightarrow> bool" for env where
  "health_check env rq s = (outcome, t) \<Longrightarrow> api_step env s t"
| "auth_request_otp env rq ae drawn dto s = (outcome, t) \<Longrightarrow> api_step env s t"
| "auth_verify_otp env rq ae dto s = (outcome, t) \<Longrightarrow> api_step env s t"
| "auth_agency_login env rq ae dto s = (outcome, t) \<Longrightarrow> api_step env s t"
| "auth_forgot_password env rq ae mailer token email s = (outcome, t) \<Longrightarrow> api_step env s t"
| "auth_reset_password env rq ae dto s = (outcome, t) \<Longrightarrow> api_step env s t"
| "auth_refresh env rq ae token s = (outcome, t) \<Longrightarrow> api_step env s t"
| "auth_logout env rq ae token s = (outcome, t) \<Longrightarrow> api_step env s t"
| "auth_realtime_ticket env rq jti s = (outcome, t) \<Longrightarrow> api_step env s t"
| "users_get_profile env rq s = (outcome, t) \<Longrightarrow> api_step env s t"
| "users_update_profile env rq dto s = (outcome, t) \<Longrightarrow> api_step env s t"
| "users_get_special_needs env rq s = (outcome, t) \<Longrightarrow> api_step env s t"
| "users_replace_special_needs env rq dto s = (outcome, t) \<Longrightarrow> api_step env s t"
| "users_list_by_role env rq r agencyId s = (outcome, t) \<Longrightarrow> api_step env s t"
| "agencies_register env rq passwordHash dto s = (outcome, t) \<Longrightarrow> api_step env s t"
| "agencies_get_own env rq s = (outcome, t) \<Longrightarrow> api_step env s t"
| "agencies_update_own env rq dto s = (outcome, t) \<Longrightarrow> api_step env s t"
| "agencies_list_own_guides env rq s = (outcome, t) \<Longrightarrow> api_step env s t"
| "agencies_add_guide env rq dto s = (outcome, t) \<Longrightarrow> api_step env s t"
| "agencies_add_legal_document env rq store dto s = (outcome, t) \<Longrightarrow> api_step env s t"
| "agencies_get_compliance_alerts env rq s = (outcome, t) \<Longrightarrow> api_step env s t"
| "agencies_get_legal_document_access_url env rq se i s = (outcome, t) \<Longrightarrow> api_step env s t"
| "agencies_get_calendar_subscription env rq token s = (outcome, t) \<Longrightarrow> api_step env s t"
| "agencies_regenerate_calendar_subscription env rq token s = (outcome, t) \<Longrightarrow> api_step env s t"
| "agencies_list env rq status s = (outcome, t) \<Longrightarrow> api_step env s t"
| "agencies_get_by_id env rq i s = (outcome, t) \<Longrightarrow> api_step env s t"
| "agencies_get_legal_document_access_url_for_admin env rq se i documentId s = (outcome, t) \<Longrightarrow> api_step env s t"
| "files_get_file env rq se token s = (outcome, t) \<Longrightarrow> api_step env s t"
| "packages_list_public env rq q s = (outcome, t) \<Longrightarrow> api_step env s t"
| "packages_list_mine env rq s = (outcome, t) \<Longrightarrow> api_step env s t"
| "packages_get_by_id env rq i s = (outcome, t) \<Longrightarrow> api_step env s t"
| "packages_create env rq dto s = (outcome, t) \<Longrightarrow> api_step env s t"
| "packages_update env rq i dto s = (outcome, t) \<Longrightarrow> api_step env s t"
| "packages_close env rq i s = (outcome, t) \<Longrightarrow> api_step env s t"
| "groups_create env rq dto s = (outcome, t) \<Longrightarrow> api_step env s t"
| "groups_list_mine env rq s = (outcome, t) \<Longrightarrow> api_step env s t"
| "groups_list_assigned env rq s = (outcome, t) \<Longrightarrow> api_step env s t"
| "groups_list_joined env rq s = (outcome, t) \<Longrightarrow> api_step env s t"
| "groups_get_by_id env rq i s = (outcome, t) \<Longrightarrow> api_step env s t"
| "groups_get_roster env rq (collation :: string \<Rightarrow> rat) i s = (outcome, t) \<Longrightarrow> api_step env s t"
| "groups_get_roster_csv env rq (collation :: string \<Rightarrow> rat) i s = (outcome, t) \<Longrightarrow> api_step env s t"
| "groups_assign_guide env rq i guideUserId s = (outcome, t) \<Longrightarrow> api_step env s t"
| "groups_add_itinerary_step env rq i dto s = (outcome, t) \<Longrightarrow> api_step env s t"
| "groups_update_location env rq i dto s = (outcome, t) \<Longrightarrow> api_step env s t"
| "groups_clear_location env rq i s = (outcome, t) \<Longrightarrow> api_step env s t"
| "groups_sos env rq i s = (outcome, t) \<Longrightarrow> api_step env s t"
| "groups_lost env rq i dto s = (outcome, t) \<Longrightarrow> api_step env s t"
| "notifications_list env rq unreadOnly s = (outcome, t) \<Longrightarrow> api_step env s t"
| "notifications_mark_read env rq i s = (outcome, t) \<Longrightarrow> api_step env s t"
| "bookings_create env rq packageId s = (outcome, t) \<Longrightarrow> api_step env s t"
| "bookings_list_mine env rq s = (outcome, t) \<Longrightarrow> api_step env s t"
| "bookings_list_for_agency env rq s = (outcome, t) \<Longrightarrow> api_step env s t"
| "bookings_get_by_id env rq i s = (outcome, t) \<Longrightarrow> api_step env s t"
| "bookings_update_step env rq i dto s = (outcome, t) \<Longrightarrow> api_step env s t"
| "bookings_assign_group env rq i groupId s = (outcome, t) \<Longrightarrow> api_step env s t"
| "bookings_cancel env rq i s = (outcome, t) \<Longrightarrow> api_step env s t"
| "bookings_get_family_view_link env rq token i s = (outcome, t) \<Longrightarrow> api_step env s t"
| "bookings_regenerate_family_view_link env rq token i s = (outcome, t) \<Longrightarrow> api_step env s t"
| "checklist_get_by_booking env rq bookingId s = (outcome, t) \<Longrightarrow> api_step env s t"
| "checklist_update_status env rq i isCompleted s = (outcome, t) \<Longrightarrow> api_step env s t"
| "(\<And>d. dto = Inr d \<Longrightarrow> valid_initiate_payment d) \<Longrightarrow> payments_initiate env rq ref dto s = (outcome, t) \<Longrightarrow> api_step env s t"
| "payments_list_mine env rq s = (outcome, t) \<Longrightarrow> api_step env s t"
| "payments_list_for_agency env rq s = (outcome, t) \<Longrightarrow> api_step env s t"
| "payments_treasury env rq s = (outcome, t) \<Longrightarrow> api_step env s t"
| "payments_accounting_journal env rq q s = (outcome, t) \<Longrightarrow> api_step env s t"
| "payments_accounting_journal_csv env rq q s = (outcome, t) \<Longrightarrow> api_step env s t"
| "payments_webhook env rq dto s = (outcome, t) \<Longrightarrow> api_step env s t"
| "payments_get_by_id env rq i s = (outcome, t) \<Longrightarrow> api_step env s t"
| "payments_refund_preview env rq i s = (outcome, t) \<Longrightarrow> api_step env s t"
| "payments_request_refund env rq i s = (outcome, t) \<Longrightarrow> api_step env s t"
| "payments_get_savings_plan env rq bookingId s = (outcome, t) \<Longrightarrow> api_step env s t"
| "(\<And>d. dto = Inr d \<Longrightarrow> valid_setup_savings_plan d) \<Longrightarrow> payments_setup_savings_plan env rq bookingId dto s = (outcome, t) \<Longrightarrow>
     api_step env s t"
| "refund_policies_get_mine env rq s = (outcome, t) \<Longrightarrow> api_step env s t"
| "refund_policies_replace_mine env rq stringify tiers s = (outcome, t) \<Longrightarrow> api_step env s t"
| "refund_policies_get_for_agency env rq agencyId s = (outcome, t) \<Longrightarrow> api_step env s t"
| "documents_upload env rq storageRef dto s = (outcome, t) \<Longrightarrow> api_step env s t"
| "documents_list_mine env rq s = (outcome, t) \<Longrightarrow> api_step env s t"
| "documents_list_by_booking env rq bookingId s = (outcome, t) \<Longrightarrow> api_step env s t"
| "documents_get_expiry_alerts env rq bookingId s = (outcome, t) \<Longrightarrow> api_step env s t"
| "documents_get_access_url env rq se i s = (outcome, t) \<Longrightarrow> api_step env s t"
| "documents_validate env rq i s = (outcome, t) \<Longrightarrow> api_step env s t"
| "documents_reject env rq i reason s = (outcome, t) \<Longrightarrow> api_step env s t"
| "rites_list_published env rq pilgrimageType language s = (outcome, t) \<Longrightarrow> api_step env s t"
| "rites_list_all env rq s = (outcome, t) \<Longrightarrow> api_step env s t"
| "rites_create_sheet env rq dto s = (outcome, t) \<Longrightarrow> api_step env s t"
| "rites_update_sheet env rq i dto s = (outcome, t) \<Longrightarrow> api_step env s t"
| "rites_validate_sheet env rq i s = (outcome, t) \<Longrightarrow> api_step env s t"
| "rites_get_my_progress env rq s = (outcome, t) \<Longrightarrow> api_step env s t"
| "rites_sync_progress env rq items s = (outcome, t) \<Longrightarrow> api_step env s t"
| "rites_reset_counter env rq riteKey s = (outcome, t) \<Longrightarrow> api_step env s t"
| "(\<And>d. dto = Inr d \<Longrightarrow> valid_review_dto d) \<Longrightarrow> reviews_create env rq dto s = (outcome, t) \<Longrightarrow> api_step env s t"
| "reviews_list_mine env rq s = (outcome, t) \<Longrightarrow> api_step env s t"
| "reviews_get_satisfaction_report env rq s = (outcome, t) \<Longrightarrow> api_step env s t"
| "reviews_get_satisfaction_report_csv env rq s = (outcome, t) \<Longrightarrow> api_step env s t"
| "reviews_list_by_agency env rq agencyId s = (outcome, t) \<Longrightarrow> api_step env s t"
| "reviews_get_trust_score env rq agencyId s = (outcome, t) \<Longrightarrow> api_step env s t"
| "messaging_list_inbox env rq s = (outcome, t) \<Longrightarrow> api_step env s t"
| "messaging_mark_as_read env rq conversationId s = (outcome, t) \<Longrightarrow> api_step env s t"
| "messaging_get_or_create_conversation env rq bookingId channel s = (outcome, t) \<Longrightarrow> api_step env s t"
| "messaging_list_messages env rq conversationId s = (outcome, t) \<Longrightarrow> api_step env s t"
| "messaging_send_message env rq conversationId dto s = (outcome, t) \<Longrightarrow> api_step env s t"
| "admin_get_stats env rq s = (outcome, t) \<Longrightarrow> api_step env s t"
| "trip_summary_get_for_booking env rq bookingId s = (outcome, t) \<Longrightarrow> api_step env s t"
| "calendar_get_agency_feed env rq token s = (outcome, t) \<Longrightarrow> api_step env s t"
| "family_view_get_view env rq token s = (outcome, t) \<Longrightarrow> api_step env s t"
| "budget_list_mine env rq s = (outcome, t) \<Longrightarrow> api_step env s t"
| "budget_create env rq dto s = (outcome, t) \<Longrightarrow> api_step env s t"
| "budget_update env rq i dto s = (outcome, t) \<Longrightarrow> api_step env s t"
| "budget_remove env rq i s = (outcome, t) \<Longrightarrow> api_step env s t"
| "micro_courses_list_all env rq category s = (outcome, t) \<Longrightarrow> api_step env s t"
| "micro_courses_find_by_id env rq i s = (outcome, t) \<Longrightarrow> api_step env s t"
| "micro_courses_create env rq dto s = (outcome, t) \<Longrightarrow> api_step env s t"
| "micro_courses_update env rq i dto s = (outcome, t) \<Longrightarrow> api_step env s t"
| "micro_courses_delete env rq i s = (outcome, t) \<Longrightarrow> api_step env s t"
| "micro_courses_get_my_progress env rq s = (outcome, t) \<Longrightarrow> api_step env s t"
| "micro_courses_sync_progress env rq items s = (outcome, t) \<Longrightarrow> api_step env s t"
| "community_list_messages env rq groupId s = (outcome, t) \<Longrightarrow> api_step env s t"
| "community_send_message env rq groupId dto s = (outcome, t) \<Longrightarrow> api_step env s t"
| "emergency_list_numbers env rq (collation :: string \<Rightarrow> rat) s = (outcome, t) \<Longrightarrow> api_step env s t"
| "emergency_create_number env rq dto s = (outcome, t) \<Longrightarrow> api_step env s t"
| "emergency_update_number env rq i dto s = (outcome, t) \<Longrightarrow> api_step env s t"
| "emergency_delete_number env rq i s = (outcome, t) \<Longrightarrow> api_step env s t"
| "emergency_find_my_contacts env rq s = (outcome, t) \<Longrightarrow> api_step env s t"
| "directory_list_agencies env rq (collation :: string \<Rightarrow> rat) s = (outcome, t) \<Longrightarrow> api_step env s t"
| "quiz_create_question env rq dto s = (outcome, t) \<Longrightarrow> api_step env s t"
| "quiz_validate_question env rq i s = (outcome, t) \<Longrightarrow> api_step env s t"
| "quiz_list_pending env rq s = (outcome, t) \<Longrightarrow> api_step env s t"
| "quiz_reject_question env rq i s = (outcome, t) \<Longrightarrow> api_step env s t"
| "quiz_get_questions_for_rite env rq riteSheetId s = (outcome, t) \<Longrightarrow> api_step env s t"
| "quiz_submit_attempt env rq questionId selectedOption s = (outcome, t) \<Longrightarrow> api_step env s t"
| "quiz_get_my_stats env rq s = (outcome, t) \<Longrightarrow> api_step env s t"
| "rooms_find_mine env rq s = (outcome, t) \<Longrightarrow> api_step env s t"
| "rooms_list_blocks env rq packageId s = (outcome, t) \<Longrightarrow> api_step env s t"
| "rooms_create_block env rq dto s = (outcome, t) \<Longrightarrow> api_step env s t"
| "rooms_get_block env rq i s = (outcome, t) \<Longrightarrow> api_step env s t"
| "rooms_update_block env rq i dto s = (outcome, t) \<Longrightarrow> api_step env s t"
| "rooms_delete_block env rq i s = (outcome, t) \<Longrightarrow> api_step env s t"
| "(\<And>d. dto = Inr d \<Longrightarrow> valid_assign_room d) \<Longrightarrow> rooms_assign env rq i dto s = (outcome, t) \<Longrightarrow> api_step env s t"
| "rooms_unassign env rq i bookingId s = (outcome, t) \<Longrightarrow> api_step env s t"
| "rooms_rooming_list env rq i s = (outcome, t) \<Longrightarrow> api_step env s t"
| "disputes_create env rq dto s = (outcome, t) \<Longrightarrow> api_step env s t"
| "disputes_list env rq status s = (outcome, t) \<Longrightarrow> api_step env s t"
| "disputes_find_one env rq i s = (outcome, t) \<Longrightarrow> api_step env s t"
| "disputes_add_message env rq i content s = (outcome, t) \<Longrightarrow> api_step env s t"
| "disputes_resolve env rq i s = (outcome, t) \<Longrightarrow> api_step env s t"
| "disputes_escalate env rq p i s = (outcome, t) \<Longrightarrow> api_step env s t"
| "disputes_decide env rq p i decision s = (outcome, t) \<Longrightarrow> api_step env s t"
| "audit_list env rq q s = (outcome, t) \<Longrightarrow> api_step env s t"
| "audit_export_csv env rq stringify q s = (outcome, t) \<Longrightarrow> api_step env s t"
| "billing_get_invoice env rq i s = (outcome, t) \<Longrightarrow> api_step env s t"
| "billing_get_contract env rq i s = (outcome, t) \<Longrightarrow> api_step env s t"
| "guide_planning_get_agency_schedule env rq collation q s = (outcome, t) \<Longrightarrow> api_step env s t"
| "guide_planning_get_mine env rq q s = (outcome, t) \<Longrightarrow> api_step env s t"
| "guide_planning_add_unavailability env rq dto s = (outcome, t) \<Longrightarrow> api_step env s t"
| "guide_planning_delete_unavailability env rq p i s = (outcome, t) \<Longrightarrow> api_step env s t"
| "on_call_find_for_booking env rq bookingId s = (outcome, t) \<Longrightarrow> api_step env s t"
| "on_call_list_shifts env rq q s = (outcome, t) \<Longrightarrow> api_step env s t"
| "on_call_create_shift env rq dto s = (outcome, t) \<Longrightarrow> api_step env s t"
| "on_call_update_shift env rq i dto s = (outcome, t) \<Longrightarrow> api_step env s t"
| "on_call_delete_shift env rq i s = (outcome, t) \<Longrightarrow> api_step env s t"
| "on_call_coverage env rq packageId s = (outcome, t) \<Longrightarrow> api_step env s t"
| "capacity_simulate env rq q s = (outcome, t) \<Longrightarrow> api_step env s t"
| "profitability_simulate env rq dto s = (outcome, t) \<Longrightarrow> api_step env s t"

inductive job_step :: "db \<Rightarrow> db \<Rightarrow> bool" where
  savings: "process_due_savings now show_number refs s = (r, t) \<Longrightarrow> job_step s t"
| balances: "send_preventive_reminders now fg fd s = (r, t) \<Longrightarrow> job_step s t"
| checklists: "remind_checklist_items now s = (r, t) \<Longrightarrow> job_step s t"
| purge: "purge_closed_disputes now s = (r, t) \<Longrightarrow> job_step s t"

text \<open>The decisions of the administrators on agencies and accounts.\<close>

inductive admin_step :: "realtime_env \<Rightarrow> server \<Rightarrow> server \<Rightarrow> bool" for env where
  "agencies_approve env rq i s = (outcome, t) \<Longrightarrow> admin_step env s t"
| "agencies_reject env rq i reason s = (outcome, t) \<Longrightarrow> admin_step env s t"
| "users_suspend env rq i s = (outcome', t) \<Longrightarrow> admin_step env s t"
| "users_reactivate env rq i s = (outcome', t) \<Longrightarrow> admin_step env s t"

inductive platform_step :: "realtime_env \<Rightarrow> server \<Rightarrow> server \<Rightarrow> bool" for env where
  request: "api_step env s t \<Longrightarrow> platform_step env s t"
| decision: "admin_step env s t \<Longrightarrow> platform_step env s t"
| websocket: "platform_step env s (gateway_step env c s)"
| job: "job_step (sv_db s) d \<Longrightarrow> platform_step env s (s\<lparr>sv_db := d\<rparr>)"

section \<open>The tables the invariants are about\<close>

definition guarded :: "table set" where
  "guarded = {T_users, T_resetTokens, T_agencies, T_bookings, T_payments, T_savingsPlans, T_roomBlocks, T_roomAssignments,
     T_disputes, T_invoices, T_reviews, T_auditLogs}"

definition unguarded :: "table set" where
  "unguarded = - guarded"

lemma unguarded_tables [simp]:
  "T_specialNeeds \<in> unguarded" "T_otps \<in> unguarded" "T_refreshTokens \<in> unguarded"
  "T_packages \<in> unguarded" "T_checklistItems \<in> unguarded" "T_groups \<in> unguarded"
  "T_documents \<in> unguarded" "T_notifications \<in> unguarded"
  "T_refundTiers \<in> unguarded" "T_unavailabilities \<in> unguarded"
  "T_shifts \<in> unguarded" "T_riteSheets \<in> unguarded" "T_riteProgress \<in> unguarded"
  "T_microCourses \<in> unguarded" "T_courseProgress \<in> unguarded" "T_quizQuestions \<in> unguarded"
  "T_quizAttempts \<in> unguarded" "T_conversations \<in> unguarded" "T_messages \<in> unguarded"
  "T_communityMessages \<in> unguarded" "T_emergencyNumbers \<in> unguarded" "T_budgets \<in> unguarded"
  "T_sms \<in> unguarded" "T_push \<in> unguarded" "T_refunds \<in> unguarded"
  by (simp_all add: unguarded_def guarded_def)

section \<open>The contract of an invariant\<close>

text \<open>
  An invariant of some tables, unmoved by what leaves them alone.
\<close>

locale framed =
  fixes inv :: "db \<Rightarrow> bool" and tables :: "table set"
  assumes framed: "inv s \<Longrightarrow> agree_off (- tables) s t \<Longrightarrow> inv t"
begin

lemma keeps_apart:
  assumes "touches T m" and "T \<inter> tables = {}"
  shows "keeps inv m"
proof (rule keepsI)
  fix s r t
  assume "inv s" and "m s = (r, t)"
  moreover then have "agree_off T s t" using assms(1) touchesD by blast
  ultimately show "inv t" using assms(2) framed agree_off_mono [of T s t "- tables"] by blast
qed

lemma keeps_off: "touches (- tables) m \<Longrightarrow> keeps inv m"
  by (erule keeps_apart) simp

lemma elsewhere: "tables \<subseteq> guarded \<Longrightarrow> inv s \<Longrightarrow> agree_off unguarded s t \<Longrightarrow> inv t"
  by (rule framed) (auto intro: agree_off_mono simp: unguarded_def)

end

text \<open>What the methods that write the guarded tables must keep, apart from the decisions of the
  administrators.\<close>

locale standing_invariant =
  fixes inv :: "db \<Rightarrow> bool"
  assumes elsewhere: "inv s \<Longrightarrow> agree_off unguarded s t \<Longrightarrow> inv t"
    and register_agency: "keeps inv (register_agency now h ra)"
    and add_guide: "keeps inv (add_guide now i cg)"
    and update_profile: "keeps inv (update_profile now i up)"
    and update_own: "keeps inv (update_own i ua)"
    and add_legal_document: "keeps inv (add_legal_document now i label expiry store)"
    and calendar_link: "keeps inv (regenerate_calendar_subscription token i)"
    and verify_otp: "keeps inv (verify_otp ae now contact code name)"
    and request_reset: "keeps inv (request_reset ae now b token email)"
    and reset_password: "keeps inv (reset_password ae now token pw)"
    and create_booking: "keeps inv (create_booking now i j)"
    and cancel_booking: "keeps inv (cancel_booking i j)"
    and update_step: "keeps inv (update_step now i j key st)"
    and mark_step_done: "keeps inv (mark_step_done now i key)"
    and assign_group: "keeps inv (assign_group i j g)"
    and family_link: "keeps inv (regenerate_family_view_link token i j)"
    and initiate: "valid_initiate_payment ip \<Longrightarrow> keeps inv (initiate now ref i ip)"
    and settle_payment:
      "keeps inv (update_row db_payments db_payments_update (\<lambda>p. pay_id p = i) (apply_webhook now status))"
    and request_refund: "keeps inv (request_refund now i r j)"
    and setup_savings_plan: "valid_setup_savings_plan sp \<Longrightarrow> keeps inv (setup_savings_plan now i j sp)"
    and due_savings: "keeps inv (process_due_savings now show_number refs)"
    and create_dispute: "keeps inv (create_dispute now i cd)"
    and dispute_message: "keeps inv (add_dispute_message now i r j content)"
    and resolve_dispute: "keeps inv (resolve_dispute now i j)"
    and escalate_dispute: "keeps inv (escalate_dispute now i j)"
    and decide_dispute: "keeps inv (decide_dispute now i j content)"
    and purge_disputes: "keeps inv (purge_closed_disputes now)"
    and create_block: "keeps inv (create_block i cb)"
    and update_block: "keeps inv (update_block i j ub)"
    and delete_block: "keeps inv (delete_block i j)"
    and assign_room: "valid_assign_room ar \<Longrightarrow> keeps inv (assign_room i j ar)"
    and unassign_room: "keeps inv (unassign_room i j k)"
    and get_invoice: "keeps inv (get_invoice now i r j)"
    and create_review: "valid_review_dto cr \<Longrightarrow> keeps inv (create_review now i cr)"
    and record_audit: "keeps inv (record_audit now e)"
begin

definition server_inv :: "server \<Rightarrow> bool" where
  "server_inv s \<longleftrightarrow> inv (sv_db s)"

lemma keeps_elsewhere:
  assumes "touches unguarded m"
  shows "keeps inv m"
proof (rule keepsI)
  fix s r t
  assume "inv s" and "m s = (r, t)"
  then show "inv t" using assms touchesD elsewhere by blast
qed

lemma family_view_link: "keeps inv (get_or_create_family_view_link token i j)"
  unfolding get_or_create_family_view_link_def
  by (rule keeps_bind keeps_if keeps_option keeps_basic family_link
      | rule keeps_elsewhere, (intro touches_intro; simp; fail))+

lemma calendar_subscription: "keeps inv (get_or_create_calendar_subscription token i)"
  unfolding get_or_create_calendar_subscription_def
  by (rule keeps_bind keeps_if keeps_option keeps_basic calendar_link
      | rule keeps_elsewhere, (intro touches_intro; simp; fail))+

lemma keeps_steps:
  "keeps inv (reconcile_booking_payment_step now i)" "keeps inv (maybe_complete_documents_step now i)"
  unfolding reconcile_booking_payment_step_def maybe_complete_documents_step_def Let_def
  by (rule keeps_bind keeps_whenever keeps_basic mark_step_done keeps_elsewhere touches_intro)+

lemma handle_webhook: "keeps inv (handle_webhook now ref st)"
  unfolding handle_webhook_def
  by (rule keeps_bind keeps_whenever keeps_steps settle_payment keeps_basic keeps_elsewhere touches_intro | simp)+

lemma validate_document: "keeps inv (validate_document now i j)"
  unfolding validate_document_def
  by (rule keeps_bind keeps_whenever keeps_steps keeps_basic keeps_elsewhere touches_intro | simp)+

lemmas guarded_methods =
  register_agency add_guide update_profile update_own add_legal_document
  calendar_link calendar_subscription verify_otp request_reset reset_password
  create_booking cancel_booking update_step mark_step_done assign_group family_link
  family_view_link create_block update_block delete_block assign_room unassign_room get_invoice
  create_review record_audit handle_webhook validate_document initiate request_refund
  setup_savings_plan create_dispute dispute_message resolve_dispute escalate_dispute decide_dispute

lemma keeps_on_db: "keeps inv m \<Longrightarrow> keeps server_inv (on_db m)"
  by (auto simp: keeps_def server_inv_def on_db_def split: prod.split)

lemma keeps_on_rt: "keeps server_inv (on_rt m)"
  by (auto simp: keeps_def server_inv_def on_rt_def split: prod.split)

lemma keeps_piped: "(\<And>x. b = Inr x \<Longrightarrow> keeps server_inv (f x)) \<Longrightarrow> keeps server_inv (piped b f)"
  by (cases b) (auto simp: piped_def keeps_def bind_def)

lemma keeps_user: "(\<And>u. keeps server_inv (f u)) \<Longrightarrow> keeps server_inv (with_user f user)"
  by (auto simp: with_user_def keeps_def split: option.split)

lemma keeps_served:
  "(\<And>user. keeps server_inv (handler user)) \<Longrightarrow> keeps server_inv (serve env rq rt p view handler)"
  by (rule serve_keeps) (rule keeps_on_db record_audit | assumption)+

lemma keeps_split: "(\<And>a b. keeps I (f a b)) \<Longrightarrow> keeps I (case p of (a, b) \<Rightarrow> f a b)"
  by (simp split: prod.split)

lemma keeps_messages:
  "keeps server_inv (post_message now user i content sentAt)"
  "keeps server_inv (post_group_message now user i content sentAt)"
  "keeps server_inv (end_sessions user)"
  unfolding post_message_def post_group_message_def emit_new_message_def emit_new_community_message_def
    emit_to_def end_sessions_def
  by (intro keeps_bind keeps_on_rt keeps_basic keeps_on_db keeps_elsewhere touches_intro | simp)+

lemmas server_intro =
  keeps_served keeps_split keeps_user keeps_piped keeps_messages keeps_on_rt keeps_bind keeps_basic keeps_on_db
  guarded_methods

lemma health_keep:
  "keeps server_inv (health_check env rq)"
  unfolding
    health_check_def
  by (intro server_intro | rule keeps_elsewhere, intro touches_intro | simp | blast)+

lemma auth_keep:
  "keeps server_inv (auth_request_otp env rq ae drawn dto)"
  "keeps server_inv (auth_verify_otp env rq ae dto')"
  "keeps server_inv (auth_agency_login env rq ae dto'')"
  "keeps server_inv (auth_forgot_password env rq ae mailer token email)"
  "keeps server_inv (auth_reset_password env rq ae dto'')"
  "keeps server_inv (auth_refresh env rq ae token')"
  "keeps server_inv (auth_logout env rq ae token')"
  "keeps server_inv (auth_realtime_ticket env rq jti)"
  unfolding
    auth_request_otp_def auth_verify_otp_def auth_agency_login_def auth_forgot_password_def
    auth_reset_password_def auth_refresh_def auth_logout_def auth_realtime_ticket_def
  by (intro server_intro | rule keeps_elsewhere, intro touches_intro | simp | blast)+

lemma users_keep:
  "keeps server_inv (users_get_profile env rq)"
  "keeps server_inv (users_update_profile env rq dto)"
  "keeps server_inv (users_get_special_needs env rq)"
  "keeps server_inv (users_replace_special_needs env rq dto')"
  "keeps server_inv (users_list_by_role env rq r agencyId)"
  unfolding
    users_get_profile_def users_update_profile_def users_get_special_needs_def
    users_replace_special_needs_def users_list_by_role_def
  by (intro server_intro | rule keeps_elsewhere, intro touches_intro | simp | blast)+

lemma agencies_keep:
  "keeps server_inv (agencies_register env rq passwordHash dto)"
  "keeps server_inv (agencies_get_own env rq)"
  "keeps server_inv (agencies_update_own env rq dto')"
  "keeps server_inv (agencies_list_own_guides env rq)"
  "keeps server_inv (agencies_add_guide env rq dto'')"
  "keeps server_inv (agencies_add_legal_document env rq store dto''')"
  "keeps server_inv (agencies_get_compliance_alerts env rq)"
  "keeps server_inv (agencies_get_legal_document_access_url env rq se i)"
  "keeps server_inv (agencies_get_calendar_subscription env rq token)"
  "keeps server_inv (agencies_regenerate_calendar_subscription env rq token)"
  "keeps server_inv (agencies_list env rq status)"
  "keeps server_inv (agencies_get_by_id env rq i)"
  "keeps server_inv (agencies_get_legal_document_access_url_for_admin env rq se i documentId)"
  unfolding
    agencies_register_def agencies_get_own_def agencies_update_own_def agencies_list_own_guides_def
    agencies_add_guide_def agencies_add_legal_document_def agencies_get_compliance_alerts_def
    agencies_get_legal_document_access_url_def agencies_get_calendar_subscription_def
    agencies_regenerate_calendar_subscription_def agencies_list_def agencies_get_by_id_def
    agencies_get_legal_document_access_url_for_admin_def
  by (intro server_intro | rule keeps_elsewhere, intro touches_intro | simp | blast)+

lemma files_keep:
  "keeps server_inv (files_get_file env rq se token)"
  unfolding
    files_get_file_def
  by (intro server_intro | rule keeps_elsewhere, intro touches_intro | simp | blast)+

lemma packages_keep:
  "keeps server_inv (packages_list_public env rq q)"
  "keeps server_inv (packages_list_mine env rq)"
  "keeps server_inv (packages_get_by_id env rq i)"
  "keeps server_inv (packages_create env rq dto)"
  "keeps server_inv (packages_update env rq i dto')"
  "keeps server_inv (packages_close env rq i)"
  unfolding
    packages_list_public_def packages_list_mine_def packages_get_by_id_def packages_create_def
    packages_update_def packages_close_def
  by (intro server_intro | rule keeps_elsewhere, intro touches_intro | simp | blast)+

lemma groups_keep:
  "keeps server_inv (groups_create env rq dto)"
  "keeps server_inv (groups_list_mine env rq)"
  "keeps server_inv (groups_list_assigned env rq)"
  "keeps server_inv (groups_list_joined env rq)"
  "keeps server_inv (groups_get_by_id env rq i)"
  "keeps server_inv (groups_get_roster env rq (collation :: string \<Rightarrow> rat) i)"
  "keeps server_inv (groups_get_roster_csv env rq (collation :: string \<Rightarrow> rat) i)"
  "keeps server_inv (groups_assign_guide env rq i guideUserId)"
  "keeps server_inv (groups_add_itinerary_step env rq i dto')"
  "keeps server_inv (groups_update_location env rq i dto'')"
  "keeps server_inv (groups_clear_location env rq i)"
  "keeps server_inv (groups_sos env rq i)"
  "keeps server_inv (groups_lost env rq i dto'')"
  unfolding
    groups_create_def groups_list_mine_def groups_list_assigned_def groups_list_joined_def
    groups_get_by_id_def groups_get_roster_def groups_get_roster_csv_def groups_assign_guide_def
    groups_add_itinerary_step_def groups_update_location_def groups_clear_location_def
    groups_sos_def groups_lost_def
  by (intro server_intro | rule keeps_elsewhere, intro touches_intro | simp | blast)+

lemma notifications_keep:
  "keeps server_inv (notifications_list env rq unreadOnly)"
  "keeps server_inv (notifications_mark_read env rq i)"
  unfolding
    notifications_list_def notifications_mark_read_def
  by (intro server_intro | rule keeps_elsewhere, intro touches_intro | simp | blast)+

lemma bookings_keep:
  "keeps server_inv (bookings_create env rq packageId)"
  "keeps server_inv (bookings_list_mine env rq)"
  "keeps server_inv (bookings_list_for_agency env rq)"
  "keeps server_inv (bookings_get_by_id env rq i)"
  "keeps server_inv (bookings_update_step env rq i dto)"
  "keeps server_inv (bookings_assign_group env rq i groupId)"
  "keeps server_inv (bookings_cancel env rq i)"
  "keeps server_inv (bookings_get_family_view_link env rq token i)"
  "keeps server_inv (bookings_regenerate_family_view_link env rq token i)"
  unfolding
    bookings_create_def bookings_list_mine_def bookings_list_for_agency_def bookings_get_by_id_def
    bookings_update_step_def bookings_assign_group_def bookings_cancel_def
    bookings_get_family_view_link_def bookings_regenerate_family_view_link_def
  by (intro server_intro | rule keeps_elsewhere, intro touches_intro | simp | blast)+

lemma checklist_keep:
  "keeps server_inv (checklist_get_by_booking env rq bookingId)"
  "keeps server_inv (checklist_update_status env rq i isCompleted)"
  unfolding
    checklist_get_by_booking_def checklist_update_status_def
  by (intro server_intro | rule keeps_elsewhere, intro touches_intro | simp | blast)+

lemma payments_keep:
  "(\<And>d. dto = Inr d \<Longrightarrow> valid_initiate_payment d) \<Longrightarrow> keeps server_inv (payments_initiate env rq ref dto)"
  "keeps server_inv (payments_list_mine env rq)"
  "keeps server_inv (payments_list_for_agency env rq)"
  "keeps server_inv (payments_treasury env rq)"
  "keeps server_inv (payments_accounting_journal env rq q)"
  "keeps server_inv (payments_accounting_journal_csv env rq q)"
  "keeps server_inv (payments_webhook env rq dto')"
  "keeps server_inv (payments_get_by_id env rq i)"
  "keeps server_inv (payments_refund_preview env rq i)"
  "keeps server_inv (payments_request_refund env rq i)"
  "keeps server_inv (payments_get_savings_plan env rq bookingId)"
  "(\<And>d. dto'' = Inr d \<Longrightarrow> valid_setup_savings_plan d) \<Longrightarrow>
     keeps server_inv (payments_setup_savings_plan env rq bookingId dto'')"
  unfolding
    payments_initiate_def payments_list_mine_def payments_list_for_agency_def payments_treasury_def
    payments_accounting_journal_def payments_accounting_journal_csv_def payments_webhook_def
    payments_get_by_id_def payments_refund_preview_def payments_request_refund_def
    payments_get_savings_plan_def payments_setup_savings_plan_def
  by (intro server_intro | rule keeps_elsewhere, intro touches_intro | simp | blast)+

lemma refund_policies_keep:
  "keeps server_inv (refund_policies_get_mine env rq)"
  "keeps server_inv (refund_policies_replace_mine env rq stringify tiers)"
  "keeps server_inv (refund_policies_get_for_agency env rq agencyId)"
  unfolding
    refund_policies_get_mine_def refund_policies_replace_mine_def refund_policies_get_for_agency_def
  by (intro server_intro | rule keeps_elsewhere, intro touches_intro | simp | blast)+

lemma documents_keep:
  "keeps server_inv (documents_upload env rq storageRef dto)"
  "keeps server_inv (documents_list_mine env rq)"
  "keeps server_inv (documents_list_by_booking env rq bookingId)"
  "keeps server_inv (documents_get_expiry_alerts env rq bookingId)"
  "keeps server_inv (documents_get_access_url env rq se i)"
  "keeps server_inv (documents_validate env rq i)"
  "keeps server_inv (documents_reject env rq i reason)"
  unfolding
    documents_upload_def documents_list_mine_def documents_list_by_booking_def
    documents_get_expiry_alerts_def documents_get_access_url_def documents_validate_def
    documents_reject_def
  by (intro server_intro | rule keeps_elsewhere, intro touches_intro | simp | blast)+

lemma rites_keep:
  "keeps server_inv (rites_list_published env rq pilgrimageType language)"
  "keeps server_inv (rites_list_all env rq)"
  "keeps server_inv (rites_create_sheet env rq dto)"
  "keeps server_inv (rites_update_sheet env rq i dto')"
  "keeps server_inv (rites_validate_sheet env rq i)"
  "keeps server_inv (rites_get_my_progress env rq)"
  "keeps server_inv (rites_sync_progress env rq items)"
  "keeps server_inv (rites_reset_counter env rq riteKey)"
  unfolding
    rites_list_published_def rites_list_all_def rites_create_sheet_def rites_update_sheet_def
    rites_validate_sheet_def rites_get_my_progress_def rites_sync_progress_def
    rites_reset_counter_def
  by (intro server_intro | rule keeps_elsewhere, intro touches_intro | simp | blast)+

lemma reviews_keep:
  "(\<And>d. dto = Inr d \<Longrightarrow> valid_review_dto d) \<Longrightarrow> keeps server_inv (reviews_create env rq dto)"
  "keeps server_inv (reviews_list_mine env rq)"
  "keeps server_inv (reviews_get_satisfaction_report env rq)"
  "keeps server_inv (reviews_get_satisfaction_report_csv env rq)"
  "keeps server_inv (reviews_list_by_agency env rq agencyId)"
  "keeps server_inv (reviews_get_trust_score env rq agencyId)"
  unfolding
    reviews_create_def reviews_list_mine_def reviews_get_satisfaction_report_def
    reviews_get_satisfaction_report_csv_def reviews_list_by_agency_def reviews_get_trust_score_def
  by (intro server_intro | rule keeps_elsewhere, intro touches_intro | simp | blast)+

lemma messaging_keep:
  "keeps server_inv (messaging_list_inbox env rq)"
  "keeps server_inv (messaging_mark_as_read env rq conversationId)"
  "keeps server_inv (messaging_get_or_create_conversation env rq bookingId channel)"
  "keeps server_inv (messaging_list_messages env rq conversationId)"
  "keeps server_inv (messaging_send_message env rq conversationId dto)"
  unfolding
    messaging_list_inbox_def messaging_mark_as_read_def messaging_get_or_create_conversation_def
    messaging_list_messages_def messaging_send_message_def
  by (intro server_intro | rule keeps_elsewhere, intro touches_intro | simp | blast)+

lemma admin_keep:
  "keeps server_inv (admin_get_stats env rq)"
  unfolding
    admin_get_stats_def
  by (intro server_intro | rule keeps_elsewhere, intro touches_intro | simp | blast)+

lemma trip_summary_keep:
  "keeps server_inv (trip_summary_get_for_booking env rq bookingId)"
  unfolding
    trip_summary_get_for_booking_def
  by (intro server_intro | rule keeps_elsewhere, intro touches_intro | simp | blast)+

lemma calendar_keep:
  "keeps server_inv (calendar_get_agency_feed env rq token)"
  unfolding
    calendar_get_agency_feed_def
  by (intro server_intro | rule keeps_elsewhere, intro touches_intro | simp | blast)+

lemma family_view_keep:
  "keeps server_inv (family_view_get_view env rq token)"
  unfolding
    family_view_get_view_def
  by (intro server_intro | rule keeps_elsewhere, intro touches_intro | simp | blast)+

lemma budget_keep:
  "keeps server_inv (budget_list_mine env rq)"
  "keeps server_inv (budget_create env rq dto)"
  "keeps server_inv (budget_update env rq i dto)"
  "keeps server_inv (budget_remove env rq i)"
  unfolding
    budget_list_mine_def budget_create_def budget_update_def budget_remove_def
  by (intro server_intro | rule keeps_elsewhere, intro touches_intro | simp | blast)+

lemma micro_courses_keep:
  "keeps server_inv (micro_courses_list_all env rq category)"
  "keeps server_inv (micro_courses_find_by_id env rq i)"
  "keeps server_inv (micro_courses_create env rq dto)"
  "keeps server_inv (micro_courses_update env rq i dto')"
  "keeps server_inv (micro_courses_delete env rq i)"
  "keeps server_inv (micro_courses_get_my_progress env rq)"
  "keeps server_inv (micro_courses_sync_progress env rq items)"
  unfolding
    micro_courses_list_all_def micro_courses_find_by_id_def micro_courses_create_def
    micro_courses_update_def micro_courses_delete_def micro_courses_get_my_progress_def
    micro_courses_sync_progress_def
  by (intro server_intro | rule keeps_elsewhere, intro touches_intro | simp | blast)+

lemma community_keep:
  "keeps server_inv (community_list_messages env rq groupId)"
  "keeps server_inv (community_send_message env rq groupId dto)"
  unfolding
    community_list_messages_def community_send_message_def
  by (intro server_intro | rule keeps_elsewhere, intro touches_intro | simp | blast)+

lemma emergency_keep:
  "keeps server_inv (emergency_list_numbers env rq (collation :: string \<Rightarrow> rat))"
  "keeps server_inv (emergency_create_number env rq dto)"
  "keeps server_inv (emergency_update_number env rq i dto)"
  "keeps server_inv (emergency_delete_number env rq i)"
  "keeps server_inv (emergency_find_my_contacts env rq)"
  unfolding
    emergency_list_numbers_def emergency_create_number_def emergency_update_number_def
    emergency_delete_number_def emergency_find_my_contacts_def
  by (intro server_intro | rule keeps_elsewhere, intro touches_intro | simp | blast)+

lemma directory_keep:
  "keeps server_inv (directory_list_agencies env rq (collation :: string \<Rightarrow> rat))"
  unfolding
    directory_list_agencies_def
  by (intro server_intro | rule keeps_elsewhere, intro touches_intro | simp | blast)+

lemma quiz_keep:
  "keeps server_inv (quiz_create_question env rq dto)"
  "keeps server_inv (quiz_validate_question env rq i)"
  "keeps server_inv (quiz_list_pending env rq)"
  "keeps server_inv (quiz_reject_question env rq i)"
  "keeps server_inv (quiz_get_questions_for_rite env rq riteSheetId)"
  "keeps server_inv (quiz_submit_attempt env rq questionId selectedOption)"
  "keeps server_inv (quiz_get_my_stats env rq)"
  unfolding
    quiz_create_question_def quiz_validate_question_def quiz_list_pending_def
    quiz_reject_question_def quiz_get_questions_for_rite_def quiz_submit_attempt_def
    quiz_get_my_stats_def
  by (intro server_intro | rule keeps_elsewhere, intro touches_intro | simp | blast)+

lemma rooms_keep:
  "keeps server_inv (rooms_find_mine env rq)"
  "keeps server_inv (rooms_list_blocks env rq packageId)"
  "keeps server_inv (rooms_create_block env rq dto)"
  "keeps server_inv (rooms_get_block env rq i)"
  "keeps server_inv (rooms_update_block env rq i dto')"
  "keeps server_inv (rooms_delete_block env rq i)"
  "(\<And>d. dto'' = Inr d \<Longrightarrow> valid_assign_room d) \<Longrightarrow> keeps server_inv (rooms_assign env rq i dto'')"
  "keeps server_inv (rooms_unassign env rq i bookingId)"
  "keeps server_inv (rooms_rooming_list env rq i)"
  unfolding
    rooms_find_mine_def rooms_list_blocks_def rooms_create_block_def rooms_get_block_def
    rooms_update_block_def rooms_delete_block_def rooms_assign_def rooms_unassign_def
    rooms_rooming_list_def
  by (intro server_intro | rule keeps_elsewhere, intro touches_intro | simp | blast)+

lemma disputes_keep:
  "keeps server_inv (disputes_create env rq dto)"
  "keeps server_inv (disputes_list env rq status)"
  "keeps server_inv (disputes_find_one env rq i)"
  "keeps server_inv (disputes_add_message env rq i content)"
  "keeps server_inv (disputes_resolve env rq i)"
  "keeps server_inv (disputes_escalate env rq p i)"
  "keeps server_inv (disputes_decide env rq p i decision)"
  unfolding
    disputes_create_def disputes_list_def disputes_find_one_def disputes_add_message_def
    disputes_resolve_def disputes_escalate_def disputes_decide_def
  by (intro server_intro | rule keeps_elsewhere, intro touches_intro | simp | blast)+

lemma audit_keep:
  "keeps server_inv (audit_list env rq q)"
  "keeps server_inv (audit_export_csv env rq stringify q)"
  unfolding
    audit_list_def audit_export_csv_def
  by (intro server_intro | rule keeps_elsewhere, intro touches_intro | simp | blast)+

lemma billing_keep:
  "keeps server_inv (billing_get_invoice env rq i)"
  "keeps server_inv (billing_get_contract env rq i)"
  unfolding
    billing_get_invoice_def billing_get_contract_def
  by (intro server_intro | rule keeps_elsewhere, intro touches_intro | simp | blast)+

lemma guide_planning_keep:
  "keeps server_inv (guide_planning_get_agency_schedule env rq collation q)"
  "keeps server_inv (guide_planning_get_mine env rq q)"
  "keeps server_inv (guide_planning_add_unavailability env rq dto)"
  "keeps server_inv (guide_planning_delete_unavailability env rq p i)"
  unfolding
    guide_planning_get_agency_schedule_def guide_planning_get_mine_def
    guide_planning_add_unavailability_def guide_planning_delete_unavailability_def
  by (intro server_intro | rule keeps_elsewhere, intro touches_intro | simp | blast)+

lemma on_call_keep:
  "keeps server_inv (on_call_find_for_booking env rq bookingId)"
  "keeps server_inv (on_call_list_shifts env rq q)"
  "keeps server_inv (on_call_create_shift env rq dto)"
  "keeps server_inv (on_call_update_shift env rq i dto')"
  "keeps server_inv (on_call_delete_shift env rq i)"
  "keeps server_inv (on_call_coverage env rq packageId)"
  unfolding
    on_call_find_for_booking_def on_call_list_shifts_def on_call_create_shift_def
    on_call_update_shift_def on_call_delete_shift_def on_call_coverage_def
  by (intro server_intro | rule keeps_elsewhere, intro touches_intro | simp | blast)+

lemma capacity_keep:
  "keeps server_inv (capacity_simulate env rq q)"
  unfolding
    capacity_simulate_def
  by (intro server_intro | rule keeps_elsewhere, intro touches_intro | simp | blast)+

lemma profitability_keep:
  "keeps server_inv (profitability_simulate env rq dto)"
  unfolding
    profitability_simulate_def
  by (intro server_intro | rule keeps_elsewhere, intro touches_intro | simp | blast)+

lemmas endpoints_keep =
  health_keep auth_keep users_keep agencies_keep files_keep packages_keep groups_keep
  notifications_keep bookings_keep checklist_keep payments_keep refund_policies_keep
  documents_keep rites_keep reviews_keep messaging_keep admin_keep trip_summary_keep
  calendar_keep family_view_keep budget_keep micro_courses_keep community_keep emergency_keep
  directory_keep quiz_keep rooms_keep disputes_keep audit_keep billing_keep guide_planning_keep
  on_call_keep capacity_keep profitability_keep

lemma keeps_run: "m s = (r, t) \<Longrightarrow> server_inv s \<Longrightarrow> keeps server_inv m \<Longrightarrow> server_inv t"
  by (rule keepsD)

lemma api_step_keeps: "api_step env s t \<Longrightarrow> server_inv s \<Longrightarrow> server_inv t"
  by (induction rule: api_step.induct)
    (rule keeps_run, assumption, assumption, (rule endpoints_keep; blast))+

lemma gateway_keeps: "server_inv s \<Longrightarrow> server_inv (gateway_step env c s)"
proof -
  have ok: "keeps server_inv (on_db m)" if "touches unguarded m" for m :: "(db, 'z) act"
    by (rule keeps_on_db, rule keeps_elsewhere, rule that)
  have "keeps server_inv (socket_user k)" for k
    unfolding socket_user_def by (intro keeps_bind keeps_basic)
  then have "keeps server_inv (handle_join k i)" "keeps server_inv (handle_group_join k i)"
    "keeps server_inv (handle_send now k i content sentAt)"
    "keeps server_inv (handle_group_send now k i content sentAt)"
    "keeps server_inv (handle_connection env now k hs)" for k i now content sentAt hs
    unfolding handle_join_def handle_group_join_def handle_send_def handle_group_send_def
      handle_connection_def join_room_def emit_to_def
    by (intro keeps_bind keeps_catch keeps_basic keeps_on_rt ok touches_intro | simp)+
  moreover have "server_inv (s\<lparr>sv_rt := rt\<rparr>) \<longleftrightarrow> server_inv s" for rt s by (simp add: server_inv_def)
  moreover assume "server_inv s"
  ultimately show ?thesis using keeps_messages by (cases c) (simp_all add: keeps_def)
qed

lemma job_methods:
  "keeps inv (process_due_savings now show_number refs)" "keeps inv (send_preventive_reminders now fg fd)"
  "keeps inv (remind_checklist_items now)" "keeps inv (purge_closed_disputes now)"
  by (rule due_savings purge_disputes | rule keeps_elsewhere, (intro touches_intro; simp))+

lemma job_keeps: "job_step s t \<Longrightarrow> inv s \<Longrightarrow> inv t"
  by (induction rule: job_step.induct) (rule keepsD, rule job_methods, assumption, assumption)+

lemma keeps_event:
  assumes "platform_step env s t" and "inv (sv_db s)"
  shows "admin_step env s t \<or> inv (sv_db t)"
  using assms
proof (induction rule: platform_step.induct)
  case (request s t)
  then show ?case using api_step_keeps by (simp add: server_inv_def)
next
  case (websocket s c)
  then show ?case using gateway_keeps by (simp add: server_inv_def)
next
  case (job s d)
  then show ?case using job_keeps by simp
qed simp

end

text \<open>An invariant that the decisions of the administrators keep too holds along every run.\<close>

locale platform_invariant = standing_invariant +
  assumes approve: "keeps inv (approve_agency now i j)"
    and reject: "keeps inv (reject_agency now i j reason)"
    and set_active: "keeps inv (set_active_for_admin now i b)"
begin

lemma admin_step_keeps: "admin_step env s t \<Longrightarrow> server_inv s \<Longrightarrow> server_inv t"
proof (induction rule: admin_step.induct)
  have "keeps server_inv (agencies_approve env rq i)" "keeps server_inv (agencies_reject env rq i reason)"
    "keeps server_inv (users_suspend env rq i)" "keeps server_inv (users_reactivate env rq i)" for rq i reason
    unfolding agencies_approve_def agencies_reject_def users_suspend_def users_reactivate_def
    by (intro server_intro approve reject set_active)+
  then show "agencies_approve env rq i s = (a, t) \<Longrightarrow> server_inv s \<Longrightarrow> server_inv t"
    "agencies_reject env rq i reason s = (b, t) \<Longrightarrow> server_inv s \<Longrightarrow> server_inv t"
    "users_suspend env rq i s = (c, t) \<Longrightarrow> server_inv s \<Longrightarrow> server_inv t"
    "users_reactivate env rq i s = (d, t) \<Longrightarrow> server_inv s \<Longrightarrow> server_inv t" for rq i reason s t a b c d
    by (metis keepsD)+
qed

lemma run_keeps: "(platform_step env)\<^sup>*\<^sup>* s t \<Longrightarrow> inv (sv_db s) \<Longrightarrow> inv (sv_db t)"
proof (induction rule: rtranclp_induct)
  case (step t u)
  then show ?case using keeps_event admin_step_keeps by (fastforce simp: server_inv_def)
qed simp

end

end
