(* ===== verification/Invariants.thy ===== *)
theory Invariants
  imports Platform
begin

text \<open>
  The invariants of the platform: each is an instance of the contract of the theory
  Platform, with the proofs of the components for the methods that write its tables.
\<close>

section \<open>The invariants of the platform\<close>

interpretation accounts_frame: framed accounts_ok "{T_users, T_resetTokens}"
  by unfold_locales (rule accounts_ok_cong, auto simp: agree_off_def)

interpretation rooms_frame: framed rooms_ok "{T_roomBlocks, T_roomAssignments}"
  by unfold_locales (rule rooms_ok_cong, auto simp: agree_off_def)

interpretation invoices_frame: framed invoices_ok "{T_invoices}"
  by unfold_locales (simp add: agree_off_def invoices_ok_def issued_def)

interpretation reviews_frame: framed reviews_ok "{T_reviews, T_bookings}"
  by unfold_locales (simp add: agree_off_def reviews_ok_def about_def)

definition trail_extends :: "audit_log list \<Rightarrow> db \<Rightarrow> bool" where
  "trail_extends logs s \<longleftrightarrow> prefix logs (db_auditLogs s)"

interpretation trail_frame: framed "trail_extends logs" "{T_auditLogs}"
  by unfold_locales (simp add: agree_off_def trail_extends_def)

interpretation accounts_platform: platform_invariant accounts_ok
  by unfold_locales
    (erule accounts_frame.elsewhere [rotated], assumption, simp add: guarded_def
      | rule account_calls_keep
      | rule accounts_frame.keeps_off, (intro touches_intro; simp))+

interpretation rooms_platform: platform_invariant rooms_ok
  by unfold_locales
    (erule rooms_frame.elsewhere [rotated], assumption, simp add: guarded_def
      | rule create_block_keeps update_block_keeps delete_block_keeps unassign_room_keeps
      | erule assign_room_keeps
      | rule rooms_frame.keeps_off, (intro touches_intro; simp))+

interpretation invoices_platform: platform_invariant invoices_ok
  by unfold_locales
    (erule invoices_frame.elsewhere [rotated], assumption, simp add: guarded_def
      | rule get_invoice_keeps
      | rule invoices_frame.keeps_off, (intro touches_intro; simp))+

lemma dossier_keeps_reviews:
  "keeps reviews_ok (create_booking now i j)" "keeps reviews_ok (cancel_booking i j)"
  "keeps reviews_ok (update_step now i j key st)" "keeps reviews_ok (mark_step_done now i key)"
  "keeps reviews_ok (assign_group i j g)"
  unfolding keeps_def dossier_step.simps [symmetric]
  by (intro allI impI reviews_ok_dossier; assumption)+

lemma keeps_known:
  assumes "\<And>K rs. keeps (known K rs) m"
  shows "keeps reviews_ok m"
proof (rule keepsI)
  fix s t :: db and r
  let ?K = "(\<lambda>b. (b_id b, b_pilgrimId b, b_agencyId b)) ` set (db_bookings s)"
  assume ok: "reviews_ok s" and run: "m s = (r, t)"
  have "known ?K (db_reviews s) s" by (simp add: known_def)
  then have k: "known ?K (db_reviews s) t" using run by (rule keepsD [OF assms])
  then have "about s r \<Longrightarrow> about t r" for r by (fastforce simp: known_def about_def)
  then show "reviews_ok t" using ok k by (auto simp: reviews_ok_def known_def)
qed

lemma family_link_keeps_reviews: "keeps reviews_ok (regenerate_family_view_link token i j)"
proof (rule keeps_known)
  show "keeps (known K rs) (regenerate_family_view_link token i j)" for K rs
    unfolding regenerate_family_view_link_def by (intro keeps_intro known_update) simp_all
qed

interpretation reviews_platform: platform_invariant reviews_ok
  by unfold_locales
    (erule reviews_frame.elsewhere [rotated], assumption, simp add: guarded_def
      | rule dossier_keeps_reviews family_link_keeps_reviews | erule create_review_keeps
      | rule reviews_frame.keeps_off, (intro touches_intro; simp))+

lemma trail_grows: "keeps (trail_extends logs) (record_audit now e)"
  by (simp add: keeps_def trail_extends_def record_audit_run)

lemma invoice_extends_trail: "keeps (trail_extends logs) (get_invoice now i r j)"
  unfolding get_invoice_def
  by (rule keeps_bind keeps_if keeps_basic trail_grows keeps_reads [OF reads_billing(1)]
      | rule trail_frame.keeps_off, (intro touches_intro; simp; fail))+

interpretation trail_platform: platform_invariant "trail_extends logs"
  by unfold_locales
    (erule trail_frame.elsewhere [rotated], assumption, simp add: guarded_def
      | rule trail_grows invoice_extends_trail
      | rule trail_frame.keeps_off, (intro touches_intro; simp))+

section \<open>Agencies and accounts that only an administrator decides on\<close>

text \<open>
  The validation status of the agencies, and the role and activity of the accounts, by
  identifier: rows may come after them, none of them changes.
\<close>

definition statuses :: "db \<Rightarrow> (uid \<times> agency_validation_status) list" where
  "statuses s = map (\<lambda>a. (a_id a, a_validationStatus a)) (db_agencies s)"

definition accesses :: "db \<Rightarrow> (uid \<times> role \<times> bool) list" where
  "accesses s = map (\<lambda>u. (u_id u, u_role u, u_isActive u)) (db_users s)"

definition standing :: "(uid \<times> agency_validation_status) list \<Rightarrow> (uid \<times> role \<times> bool) list \<Rightarrow> db \<Rightarrow> bool" where
  "standing as us s \<longleftrightarrow> prefix as (statuses s) \<and> prefix us (accesses s)"

interpretation standing_frame: framed "standing as us" "{T_agencies, T_users}"
  by unfold_locales (simp add: agree_off_def standing_def statuses_def accesses_def)

lemma standing_appends:
  "standing as us s \<Longrightarrow> standing as us (db_users_update (\<lambda>rs. rs @ xs) (s\<lparr>db_next := n\<rparr>))"
  "standing as us s \<Longrightarrow> standing as us (db_agencies_update (\<lambda>rs. rs @ ys) (s\<lparr>db_next := n\<rparr>))"
  by (simp_all add: standing_def statuses_def accesses_def)

lemma standing_updates:
  assumes "standing as us s"
  shows "(\<And>u. (u_id (f u), u_role (f u), u_isActive (f u)) = (u_id u, u_role u, u_isActive u)) \<Longrightarrow>
      standing as us (db_users_update (map (\<lambda>x. if P x then f x else x)) s)"
    and "(\<And>a. (a_id (g a), a_validationStatus (g a)) = (a_id a, a_validationStatus a)) \<Longrightarrow>
      standing as us (db_agencies_update (map (\<lambda>x. if Q x then g x else x)) s)"
proof -
  assume f: "\<And>u. (u_id (f u), u_role (f u), u_isActive (f u)) = (u_id u, u_role u, u_isActive u)"
  have "accesses (db_users_update (map (\<lambda>x. if P x then f x else x)) s) = accesses s"
    unfolding accesses_def users.rows_put by (rule map_key_update) (rule f)
  then show "standing as us (db_users_update (map (\<lambda>x. if P x then f x else x)) s)"
    using assms by (simp add: standing_def statuses_def)
next
  assume g: "\<And>a. (a_id (g a), a_validationStatus (g a)) = (a_id a, a_validationStatus a)"
  have "statuses (db_agencies_update (map (\<lambda>x. if Q x then g x else x)) s) = statuses s"
    unfolding statuses_def agencies.rows_put by (rule map_key_update) (rule g)
  then show "standing as us (db_agencies_update (map (\<lambda>x. if Q x then g x else x)) s)"
    using assms by (simp add: standing_def accesses_def)
qed

lemma create_user_standing: "keeps (standing as us) (create_user now dto)"
  unfolding create_user_def Let_def
  by (rule keeps_bind keeps_basic keeps_create_row standing_appends, assumption?
      | rule standing_frame.keeps_off, (intro touches_intro; simp; fail))+

lemma accounts_standing:
  "keeps (standing as us) (register_agency now h ra)" "keeps (standing as us) (add_guide now i cg)"
  "keeps (standing as us) (verify_otp ae now contact code name)"
  unfolding register_agency_def add_guide_def verify_otp_def user_of_contact_def
  by (rule create_user_standing keeps_bind keeps_if keeps_option keeps_basic keeps_create_row standing_appends, assumption?
      | rule standing_frame.keeps_off, (intro touches_intro; simp; fail))+

lemma profiles_standing:
  "keeps (standing as us) (update_profile now i up)" "keeps (standing as us) (update_own i ua)"
  "keeps (standing as us) (add_legal_document now i label e store)"
  "keeps (standing as us) (regenerate_calendar_subscription token i)"
  "keeps (standing as us) (reset_password ae now token pw)"
  unfolding update_profile_def update_user_def update_own_def add_legal_document_def
    regenerate_calendar_subscription_def reset_password_def
  by (rule keeps_bind keeps_catch keeps_transaction keeps_basic keeps_update_row standing_updates, assumption?
      | rule standing_frame.keeps_off, (intro touches_intro; simp; fail)
      | simp add: apply_profile_def apply_agency_update_def Let_def split: option.split)+

interpretation standing_platform: standing_invariant "standing as us"
  by unfold_locales
    (erule standing_frame.elsewhere [rotated], assumption, simp add: guarded_def
      | rule accounts_standing profiles_standing
      | rule standing_frame.keeps_off, (intro touches_intro; simp))+

text \<open>What a decision of an administrator leaves behind.\<close>

definition by_admin :: "realtime_env \<Rightarrow> request \<Rightarrow> server \<Rightarrow> jwt_payload \<Rightarrow> bool" where
  "by_admin env rq s p \<longleftrightarrow>
     (\<exists>token. rq_token rq = Some token \<and> re_verifyAccess env token (rq_now rq) = Some p) \<and>
     active_account (sv_db s) (jp_sub p) \<and> jp_role p = ADMIN"

lemma admin_served:
  assumes run: "serve env rq rt (Some i) view handler s = (outcome, t)"
    and handler: "\<And>p. handler (Some p) = on_db (f p)"
    and rt: "get_all_and_override de_roles rt = Some [ADMIN]" "\<not> is_public rt" "de_audited (rt_handler rt) = Some opts"
    and quiet: "\<And>u e d d'. f u d = (Inl e, d') \<Longrightarrow> d' = d"
  shows "t = s \<or> (\<exists>p x d log. by_admin env rq s p \<and> f p (sv_db s) = (Inr x, d) \<and>
    sv_db t = d\<lparr>db_next := Suc (db_next d), db_auditLogs := db_auditLogs d @ [log]\<rparr> \<and>
    al_actorId log = Some (jp_sub p) \<and> al_action log = ao_action opts \<and> al_entityId log = Some i)"
proof (cases "let_through env rt rq (sv_db s)")
  case False
  then show ?thesis using run by (simp add: serve_run)
next
  case True
  then obtain p where p: "caller env rt rq = Some p" "active_account (sv_db s) (jp_sub p)" "jp_role p = ADMIN"
    using rt by (auto simp: let_through_def roles_allowed_def split: option.splits)
  then have admin: "by_admin env rq s p"
    using rt by (auto simp: by_admin_def caller_def bind_eq_Some_conv split: if_splits)
  obtain x d where f: "f p (sv_db s) = (x, d)" by fastforce
  show ?thesis
  proof (cases x)
    case (Inl e)
    then have "d = sv_db s" using f quiet by blast
    then show ?thesis using run True p f Inl rt handler
      by (simp add: serve_run intercept_def on_db_at bind_def)
  next
    case (Inr y)
    define log where "log = new_audit (rq_now rq) (audit_entry_for opts (Some i) view (Some p) y) (db_next d)"
    have "sv_db t = d\<lparr>db_next := Suc (db_next d), db_auditLogs := db_auditLogs d @ [log]\<rparr>"
      using run True p f rt Inr handler unfolding log_def
      by (auto simp: serve_run intercept_def on_db_at bind_def record_audit_run)
    moreover have "al_actorId log = Some (jp_sub p)" "al_action log = ao_action opts" "al_entityId log = Some i"
      by (simp_all add: log_def new_audit_def audit_entry_for_def)
    ultimately show ?thesis using admin f Inr by blast
  qed
qed

lemma decisions_quiet:
  "approve_agency now i j d = (Inl e, d') \<Longrightarrow> d' = d"
  "reject_agency now i j reason d = (Inl e, d') \<Longrightarrow> d' = d"
  "set_active_for_admin now i b d = (Inl e, d') \<Longrightarrow> d' = d"
  by (auto simp: approve_agency_def reject_agency_def validate_agency_def set_active_for_admin_def
      set_active_def update_user_def catch_def bind_def update_row_def split: sum.splits prod.splits option.splits if_splits)

lemmas admin_routes_defs =
  r_agencies_approve_def r_agencies_reject_def r_users_suspend_def r_users_reactivate_def
  agencies_route_def users_route_def is_public_def

lemma approve_served:
  assumes "agencies_approve env rq i s = (outcome, t)"
  shows "t = s \<or> (\<exists>p x d log. by_admin env rq s p \<and> approve_agency (rq_now rq) i (jp_sub p) (sv_db s) = (Inr x, d) \<and>
    sv_db t = d\<lparr>db_next := Suc (db_next d), db_auditLogs := db_auditLogs d @ [log]\<rparr> \<and>
    al_actorId log = Some (jp_sub p) \<and> al_action log = ''agency.approve'' \<and> al_entityId log = Some i)"
  using admin_served [OF assms [unfolded agencies_approve_def], of "\<lambda>p. approve_agency (rq_now rq) i (jp_sub p)"]
    decisions_quiet(1)
  by (simp add: admin_routes_defs with_user_def)

lemma reject_served:
  assumes "agencies_reject env rq i reason s = (outcome, t)"
  shows "t = s \<or> (\<exists>p x d log why. by_admin env rq s p \<and> reject_agency (rq_now rq) i (jp_sub p) why (sv_db s) = (Inr x, d) \<and>
    sv_db t = d\<lparr>db_next := Suc (db_next d), db_auditLogs := db_auditLogs d @ [log]\<rparr> \<and>
    al_actorId log = Some (jp_sub p) \<and> al_action log = ''agency.reject'' \<and> al_entityId log = Some i)"
proof (cases reason)
  case (Inr why)
  then have served: "serve env rq r_agencies_reject (Some i) (id_view as_id)
      (with_user (\<lambda>user. on_db (reject_agency (rq_now rq) i (jp_sub user) why))) s = (outcome, t)"
    using assms by (simp add: agencies_reject_def piped_def bind_def from_result_def)
  show ?thesis
    using admin_served [OF served, of "\<lambda>p. reject_agency (rq_now rq) i (jp_sub p) why"] decisions_quiet(2)
    by (simp add: admin_routes_defs with_user_def) blast
next
  case (Inl e)
  then show ?thesis using assms
    by (auto simp: agencies_reject_def serve_run intercept_def piped_def with_user_def bind_def from_result_def
        split: if_splits option.splits)
qed

lemma access_served:
  assumes "serve env rq rt (Some i) (id_view um_id)
      (\<lambda>_. on_db (set_active_for_admin (rq_now rq) i b)) s = (outcome, t)"
    and "rt = r_users_suspend \<and> action = ''user.suspend'' \<or> rt = r_users_reactivate \<and> action = ''user.reactivate''"
  shows "t = s \<or> (\<exists>p x d log. by_admin env rq s p \<and> set_active_for_admin (rq_now rq) i b (sv_db s) = (Inr x, d) \<and>
    sv_db t = d\<lparr>db_next := Suc (db_next d), db_auditLogs := db_auditLogs d @ [log]\<rparr> \<and>
    al_actorId log = Some (jp_sub p) \<and> al_action log = action \<and> al_entityId log = Some i)"
  using assms(2) admin_served [OF assms(1), of "\<lambda>_. set_active_for_admin (rq_now rq) i b"] decisions_quiet(3)
  by (elim disjE conjE) (simp_all add: admin_routes_defs)

text \<open>The rows a decision leaves alone.\<close>

lemma decision_elsewhere:
  assumes "approve_agency now i j s = (Inr x, d) \<or> reject_agency now i j why s = (Inr x, d)"
  shows "db_auditLogs d = db_auditLogs s" and "db_users d = db_users s"
    and "\<forall>a \<in> set (db_agencies s). a_id a \<noteq> i \<longrightarrow> a \<in> set (db_agencies d)"
  using assms by (auto simp: approve_agency_def reject_agency_def validate_agency_def ok_iff image_iff)

lemma access_elsewhere:
  assumes "set_active_for_admin now i b s = (Inr x, d)"
  shows "db_auditLogs d = db_auditLogs s" and "db_agencies d = db_agencies s"
    and "\<forall>u \<in> set (db_users s). u_id u \<noteq> i \<longrightarrow> u \<in> set (db_users d)"
  using assms by (auto simp: set_active_for_admin_def set_active_def update_user_def ok_iff image_iff)

text \<open>A decision, as the audit trail tells it.\<close>

definition decided :: "realtime_env \<Rightarrow> server \<Rightarrow> server \<Rightarrow> uid \<Rightarrow> string set \<Rightarrow> bool" where
  "decided env s t i actions \<longleftrightarrow> (\<exists>rq p log. by_admin env rq s p \<and>
     db_auditLogs (sv_db t) = db_auditLogs (sv_db s) @ [log] \<and> al_actorId log = Some (jp_sub p) \<and>
     al_action log \<in> actions \<and> al_entityId log = Some i)"

lemma agency_decided:
  assumes "approve_agency now i j (sv_db s) = (Inr x, d) \<or> reject_agency now i j why (sv_db s) = (Inr x, d)"
    and "by_admin env rq s p" and "sv_db t = d\<lparr>db_next := Suc (db_next d), db_auditLogs := db_auditLogs d @ [entry]\<rparr>"
    and "al_actorId entry = Some (jp_sub p)" "al_action entry \<in> {''agency.approve'', ''agency.reject''}" "al_entityId entry = Some i"
  shows "decided env s t i {''agency.approve'', ''agency.reject''} \<and> accesses (sv_db t) = accesses (sv_db s) \<and>
    (\<forall>a \<in> set (db_agencies (sv_db s)). a_id a \<noteq> i \<longrightarrow> a \<in> set (db_agencies (sv_db t)))"
  using decision_elsewhere [OF assms(1)] assms(2-) unfolding decided_def accesses_def by auto

lemma access_decided:
  assumes "set_active_for_admin now i b (sv_db s) = (Inr x, d)"
    and "by_admin env rq s p" and "sv_db t = d\<lparr>db_next := Suc (db_next d), db_auditLogs := db_auditLogs d @ [entry]\<rparr>"
    and "al_actorId entry = Some (jp_sub p)" "al_action entry \<in> {''user.suspend'', ''user.reactivate''}" "al_entityId entry = Some i"
  shows "decided env s t i {''user.suspend'', ''user.reactivate''} \<and> statuses (sv_db t) = statuses (sv_db s) \<and>
    (\<forall>u \<in> set (db_users (sv_db s)). u_id u \<noteq> i \<longrightarrow> u \<in> set (db_users (sv_db t)))"
  using access_elsewhere [OF assms(1)] assms(2-) unfolding decided_def statuses_def by auto

lemma admin_step_traced:
  assumes "admin_step env s t"
  shows "t = s \<or>
    (\<exists>i. decided env s t i {''agency.approve'', ''agency.reject''} \<and> accesses (sv_db t) = accesses (sv_db s) \<and>
      (\<forall>a \<in> set (db_agencies (sv_db s)). a_id a \<noteq> i \<longrightarrow> a \<in> set (db_agencies (sv_db t)))) \<or>
    (\<exists>i. decided env s t i {''user.suspend'', ''user.reactivate''} \<and> statuses (sv_db t) = statuses (sv_db s) \<and>
      (\<forall>u \<in> set (db_users (sv_db s)). u_id u \<noteq> i \<longrightarrow> u \<in> set (db_users (sv_db t))))"
  using assms
proof cases
  case (1 rq i outcome)
  then show ?thesis using approve_served [OF 1]
    by (elim disjE exE conjE)
      (simp, rule disjI2, rule disjI1, rule exI, erule agency_decided [OF disjI1], assumption, assumption, simp_all)
next
  case (2 rq i reason outcome)
  then show ?thesis using reject_served [OF 2]
    by (elim disjE exE conjE)
      (simp, rule disjI2, rule disjI1, rule exI, erule agency_decided [OF disjI2], assumption, assumption, simp_all)
next
  case (3 rq i outcome)
  then show ?thesis using access_served [OF 3 [unfolded users_suspend_def] disjI1 [OF conjI [OF refl refl]]]
    by (elim disjE exE conjE) (simp, (rule disjI2)+, rule exI, erule access_decided, assumption, assumption, simp_all)
next
  case (4 rq i outcome)
  then show ?thesis using access_served [OF 4 [unfolded users_reactivate_def] disjI2 [OF conjI [OF refl refl]]]
    by (elim disjE exE conjE) (simp, (rule disjI2)+, rule exI, erule access_decided, assumption, assumption, simp_all)
qed

lemma not_standing_is_decision:
  assumes "platform_step env s t"
    and "\<not> standing (statuses (sv_db s)) (accesses (sv_db s)) (sv_db t)"
  shows "admin_step env s t"
  using standing_platform.keeps_event [OF assms(1), of "statuses (sv_db s)" "accesses (sv_db s)"] assms(2)
  by (auto simp: standing_def)

end
