(* ===== verification/Records.thy ===== *)
theory Records
  imports Invariants
begin

text \<open>
  What the records of the platform keep whatever it does: the payments as they were initiated,
  the invoices, the sign of the amounts, and the disputes that are closed.
\<close>

section \<open>Payments and invoices are never taken back\<close>

text \<open>What no call may change of a payment.\<close>

definition initiated :: "payment \<Rightarrow> uid \<times> uid \<times> money \<times> string \<times> nat \<times> payment_method \<times> string \<times> time" where
  "initiated p = (pay_id p, pay_bookingId p, pay_amount p, pay_currency p, pay_installmentNumber p, pay_method p,
     pay_providerReference p, pay_createdAt p)"

definition ledger_extends ::
  "(uid \<times> uid \<times> money \<times> string \<times> nat \<times> payment_method \<times> string \<times> time) list \<Rightarrow> db \<Rightarrow> bool" where
  "ledger_extends ps s \<longleftrightarrow> prefix ps (map initiated (db_payments s))"

interpretation ledger_frame: framed "ledger_extends ps" "{T_payments}"
  by unfold_locales (simp add: agree_off_def ledger_extends_def)

lemma ledger_appends:
  "ledger_extends ps s \<Longrightarrow> ledger_extends ps (db_payments_update (\<lambda>rs. rs @ xs) (s\<lparr>db_next := n\<rparr>))"
  by (simp add: ledger_extends_def)

lemma ledger_updates:
  assumes "ledger_extends ps s" and "\<And>p. initiated (f p) = initiated p"
  shows "ledger_extends ps (db_payments_update (map (\<lambda>x. if P x then f x else x)) s)"
proof -
  have "map initiated (db_payments (db_payments_update (map (\<lambda>x. if P x then f x else x)) s)) =
      map initiated (db_payments s)"
    unfolding payments.rows_put by (rule map_key_update) (rule assms(2))
  then show ?thesis using assms(1) by (simp only: ledger_extends_def)
qed

lemma initiated_kept [simp]:
  "initiated (apply_webhook now st p) = initiated p" "initiated (apply_refund now a p) = initiated p"
  by (simp_all add: initiated_def apply_webhook_def apply_refund_def Let_def)

lemma initiate_ledger: "keeps (ledger_extends ps) (initiate now ref i dto)"
  unfolding initiate_def
  by (rule keeps_bind keeps_basic keeps_create_row ledger_appends, assumption?
      | rule ledger_frame.keeps_off, (intro touches_intro; simp; fail))+

lemma settle_ledger:
  "keeps (ledger_extends ps) (update_row db_payments db_payments_update p (apply_webhook now st))"
  "keeps (ledger_extends ps) (update_row db_payments db_payments_update p (apply_refund now a))"
  by (rule keeps_update_row, erule ledger_updates, simp)+

lemma refund_ledger: "keeps (ledger_extends ps) (request_refund now i r j)"
  unfolding request_refund_def Let_def
  by (rule keeps_bind keeps_basic settle_ledger
      | rule ledger_frame.keeps_off, (intro touches_intro; simp; fail))+

lemma process_one_keeps:
  assumes "\<And>i ref a. sp_deductAmount (fst pb) = Some a \<Longrightarrow> a \<noteq> 0 \<Longrightarrow>
      keeps I (initiate now ref i \<lparr>ip_bookingId = sp_bookingId (fst pb), ip_amount = a, ip_method = MOBILE_MONEY_ORANGE\<rparr>)"
    and "\<And>m. keeps I (send now m)"
    and "\<And>p plan. keeps I (update_row db_savingsPlans db_savingsPlans_update p (advance_plan now plan))"
  shows "keeps I (process_one now show_number refs pb)"
proof (cases pb)
  case (Pair plan b)
  then have "amount_given (sp_deductAmount plan) \<Longrightarrow> keeps I (initiate now ref i \<lparr>ip_bookingId = sp_bookingId plan,
      ip_amount = or_else (sp_deductAmount plan) 0, ip_method = MOBILE_MONEY_ORANGE\<rparr>)" for ref i
    using assms(1) by (auto simp: amount_given_def split: option.splits)
  then show ?thesis
    unfolding process_one_def Pair prod.case Let_def
    by (intro keeps_if keeps_catch keeps_bind keeps_basic assms(2,3)) simp
qed

lemma savings_ledger: "keeps (ledger_extends ps) (process_due_savings now show_number refs)"
  unfolding process_due_savings_def
  by (intro keeps_bind keeps_for_each keeps_basic process_one_keeps initiate_ledger)
    (rule ledger_frame.keeps_off, intro touches_intro, simp_all)+

interpretation ledger_platform: platform_invariant "ledger_extends ps"
  by unfold_locales
    (erule ledger_frame.elsewhere [rotated], assumption, simp add: guarded_def
      | rule initiate_ledger settle_ledger refund_ledger savings_ledger
      | rule ledger_frame.keeps_off, (intro touches_intro; simp))+

interpretation archive_frame: framed "extends is" "{T_invoices}"
  by unfold_locales (simp add: agree_off_def extends_def)

interpretation archive_platform: platform_invariant "extends is"
  by unfold_locales
    (erule archive_frame.elsewhere [rotated], assumption, simp add: guarded_def
      | rule extends_keeps
      | rule archive_frame.keeps_off, (intro touches_intro; simp))+

section \<open>Amounts are positive\<close>

definition amounts_ok :: "db \<Rightarrow> bool" where
  "amounts_ok s \<longleftrightarrow>
     (\<forall>p \<in> set (db_payments s). 0 < pay_amount p) \<and>
     (\<forall>p \<in> set (db_savingsPlans s). \<forall>a. sp_deductAmount p = Some a \<longrightarrow> 1 \<le> a)"

interpretation amounts_frame: framed amounts_ok "{T_payments, T_savingsPlans}"
  by unfold_locales (simp add: agree_off_def amounts_ok_def)

lemma initiate_amounts: "0 < ip_amount dto \<Longrightarrow> keeps amounts_ok (initiate now ref i dto)"
  unfolding initiate_def
  by (rule keeps_bind keeps_basic keeps_create_row
      | rule amounts_frame.keeps_off, (intro touches_intro; simp; fail)
      | simp add: amounts_ok_def new_payment_def)+

lemma settle_amounts:
  "keeps amounts_ok (update_row db_payments db_payments_update p (apply_webhook now st))"
  "keeps amounts_ok (update_row db_payments db_payments_update p (apply_refund now a))"
  by (rule keeps_update_row, auto simp: amounts_ok_def apply_webhook_def apply_refund_def Let_def)+

lemma refund_amounts: "keeps amounts_ok (request_refund now i r j)"
  unfolding request_refund_def Let_def
  by (rule keeps_bind keeps_basic settle_amounts
      | rule amounts_frame.keeps_off, (intro touches_intro; simp; fail))+

lemma plan_amounts:
  assumes "valid_setup_savings_plan dto"
  shows "keeps amounts_ok (setup_savings_plan now i j dto)"
proof -
  have upsert: "keeps amounts_ok (upsert_plan j (updated_plan dto d) (created_plan j price dto d))" for d price
    unfolding upsert_plan_def using assms
    by (intro keeps_bind keeps_option keeps_update_row keeps_create_row)
      (rule amounts_frame.keeps_off, (intro touches_intro; simp)
        | auto simp: amounts_ok_def updated_plan_def created_plan_def valid_setup_savings_plan_def or_keep_def
            split: option.splits)+
  show ?thesis
    unfolding setup_savings_plan_def Let_def
    by (rule keeps_bind keeps_basic upsert
        | rule amounts_frame.keeps_off, (intro touches_intro; simp; fail))+
qed

lemma process_one_amounts:
  assumes "\<And>a. sp_deductAmount (fst pb) = Some a \<Longrightarrow> 1 \<le> a"
  shows "keeps amounts_ok (process_one now show_number refs pb)"
proof (rule process_one_keeps)
  show "keeps amounts_ok (update_row db_savingsPlans db_savingsPlans_update p (advance_plan now plan))" for p plan
    by (rule keeps_update_row) (auto simp: amounts_ok_def advance_plan_def Let_def)
  show "keeps amounts_ok (send now m)" for m by (rule amounts_frame.keeps_off) (intro touches_intro; simp)
qed (rule initiate_amounts, use assms in force)

lemma for_each_keeps:
  "(\<And>x. x \<in> set xs \<Longrightarrow> keeps I (f x)) \<Longrightarrow> keeps I (for_each xs f)"
  by (induction xs) (auto intro: keeps_intro)

lemma savings_amounts: "keeps amounts_ok (process_due_savings now show_number refs)"
  unfolding process_due_savings_def
proof (rule keeps_after_read)
  fix s :: db and plans
  assume ok: "amounts_ok s" and "query (due_plans now) s = (Inr plans, s)"
  then have "set (map fst plans) \<subseteq> set (db_savingsPlans s)"
    by (auto simp: due_plans_def map_filter_def)
  then have "keeps amounts_ok (for_each plans (process_one now show_number refs))"
    using ok by (intro for_each_keeps process_one_amounts) (auto simp: amounts_ok_def subset_iff)
  then show "amounts_ok (snd (for_each plans (process_one now show_number refs) s))"
    using ok by (simp add: keeps_def)
qed (rule reads_basic)

interpretation amounts_platform: platform_invariant amounts_ok
  by unfold_locales
    (erule amounts_frame.elsewhere [rotated], assumption, simp add: guarded_def
      | rule settle_amounts refund_amounts savings_amounts | erule plan_amounts
      | rule initiate_amounts, simp add: valid_initiate_payment_def
      | rule amounts_frame.keeps_off, (intro touches_intro; simp))+

section \<open>A closed dispute stays closed\<close>

text \<open>A dispute with the identifier of a closed one is this one, as it was closed.\<close>

definition closed_as :: "dispute \<Rightarrow> db \<Rightarrow> bool" where
  "closed_as d s \<longleftrightarrow> dispute_active (di_status d) \<or>
     di_id d < db_next s \<and> (\<forall>d' \<in> set (db_disputes s). di_id d' = di_id d \<longrightarrow> d' = d)"

interpretation dispute_frame: framed "closed_as d" "{T_disputes}"
  by unfold_locales (auto simp: agree_off_def closed_as_def)

lemma update_other_dispute: "i \<noteq> di_id d \<Longrightarrow> same_links f \<Longrightarrow> keeps (closed_as d) (update_dispute now i f)"
  unfolding update_dispute_def
  by (intro keeps_bind keeps_basic keeps_update_row)
    (auto simp: closed_as_def same_links_def dispute_links_def)

lemma dispute_call_keeps:
  assumes "i \<noteq> di_id d \<Longrightarrow> (\<And>l. keeps (closed_as d) (f l))"
    and "\<And>l s. dd_row l = d \<Longrightarrow> \<not> dispute_active (di_status d) \<Longrightarrow> snd (f l s) = s"
  shows "keeps (closed_as d) (bind (find_dispute_authorized u r i) f)"
proof (rule keeps_after_read)
  fix s :: db and l
  assume ok: "closed_as d s" and run: "find_dispute_authorized u r i s = (Inr l, s)"
  show "closed_as d (snd (f l s))"
  proof (cases "dispute_active (di_status d) \<or> i \<noteq> di_id d")
    case True
    then show ?thesis using assms(1) ok by (auto simp: closed_as_def keeps_def)
  next
    case False
    then have "dd_row l = d"
      using ok find_dispute_authorizedD(2) [OF run] by (auto simp: closed_as_def dest!: find_Some_set)
    then show ?thesis using False assms(2) ok by simp
  qed
qed (rule reads_disputes)

lemma dispute_calls_keep:
  "keeps (closed_as d) (add_dispute_message now u r i content)" "keeps (closed_as d) (resolve_dispute now u i)"
  "keeps (closed_as d) (escalate_dispute now u i)" "keeps (closed_as d) (decide_dispute now u i content)"
  unfolding add_dispute_message_def resolve_dispute_def escalate_dispute_def decide_dispute_def Let_def
  by (rule dispute_call_keeps
      | rule keeps_bind keeps_basic update_other_dispute, assumption?
      | rule dispute_frame.keeps_off, (intro touches_intro; simp; fail)
      | simp add: same_links_def dispute_links_def dispute_active_def; fail)+

lemma create_dispute_closed: "keeps (closed_as d) (create_dispute now i cd)"
  unfolding create_dispute_def
  by (rule keeps_bind keeps_basic keeps_create_row
      | rule dispute_frame.keeps_off, (intro touches_intro; simp; fail)
      | auto simp: closed_as_def new_dispute_def; fail)+

lemma purge_closed: "keeps (closed_as d) (purge_closed_disputes now)"
  unfolding purge_closed_disputes_def Let_def
  by (rule keeps_delete_many) (auto simp: closed_as_def)

interpretation disputes_platform: platform_invariant "closed_as d"
  by unfold_locales
    (erule dispute_frame.elsewhere [rotated], assumption, simp add: guarded_def
      | rule dispute_calls_keep create_dispute_closed purge_closed
      | rule dispute_frame.keeps_off, (intro touches_intro; simp))+

end
