(* ===== verification/Spec2Isabelle.thy ===== *)
theory Spec2Isabelle
  imports Savings Rooms Disputes Accounting OnCall GuidePlanning Calendar Capacity Billing Documents
    Accounts Learning Messaging Reviews Profitability Realtime Storage Support Delivery Validation Records
begin

text \<open>
  The backend of a marketplace for the Oumra and the Hajj (\<open>src/src\<close>, NestJS over a PostgreSQL
  database): agencies sell packages, pilgrims book them, pay them by instalments or savings, hand in
  documents and travel in groups with a guide; administrators validate agencies and settle disputes.

  \<^bold>\<open>Model.\<close>  A service method is an action \<open>'s \<Rightarrow> (http_error + 'a) \<times> 's\<close> (theory Prelude): it
  returns a value or raises, and leaves a state; what was written before an exception stays, unless
  the code opens a \<open>$transaction\<close>, which rolls back.  The state of the services is the record \<open>db\<close>
  of Schema, one list of rows per table of \<open>prisma/schema.prisma\<close> with child rows inside their
  parents, the next identifier, and the messages handed to the senders; the state of the server
  adds the open sockets, their rooms and the tickets consumed (Realtime).  Identifiers are natural
  numbers, money is rational, a time is a whole number of milliseconds since 1970, \<open>null\<close> and
  \<open>undefined\<close> are \<open>None\<close>.  Texts are transliterated to ASCII.

  \<^bold>\<open>Theories and code.\<close>
  \<^item> Prelude: actions, tables, \<open>keeps\<close>, \<open>reads_only\<close>, runs of a machine (locale \<open>machine\<close>).
  \<^item> JsText, JsDate: texts, rounding and calendar of JavaScript, \<open>common/utils/csv.ts\<close>.
  \<^item> Schema: rows and enumerations (\<open>prisma/schema.prisma\<close>, \<open>common/enums\<close>); locale \<open>keyed_table\<close>.
  \<^item> Users, Auth, Accounts: \<open>modules/users\<close>, \<open>modules/auth\<close>, and the table of accounts over both.
  \<^item> Agencies, Packages, TravelGroups, Rooms, OnCall, GuidePlanning, Capacity, Profitability,
    Calendar: the modules of the agencies.
  \<^item> Bookings, Checklists, Documents, Payments, RefundPolicy, Savings, Accounting, Billing, Disputes,
    Reviews: the dossier of a pilgrim and the money around it.
  \<^item> Learning (\<open>rites\<close>, \<open>micro-courses\<close>, \<open>quiz\<close>), Messaging (\<open>messaging\<close>, \<open>community\<close>),
    Notifications, Realtime (tickets, sockets, gateways), Storage (signed links), Support
    (\<open>emergency\<close>, \<open>budget\<close>, \<open>trip-summary\<close>, \<open>admin\<close>), AuditTrail.
  \<^item> Validation: the rules of the bodies and queries (the \<open>dto\<close> directories).
  \<^item> Http: decorators, guards, audit interceptor, exception filter; ApiAgency, ApiTraveller,
    ApiShared: the controllers, one route \<open>r_x\<close> and one definition \<open>x\<close> for each of their methods;
    Routes: \<open>app.module.ts\<close>, all of them in the order they are tried.
  \<^item> Effects, Footprints: the tables each service method may write; Platform: requests, websocket
    events and scheduled jobs as the steps of one machine; Invariants and Records: what all of them
    keep.  Delivery: \<open>config/configuration.ts\<close>, the senders of codes and links, the payment stand-in.

  \<^bold>\<open>What the lemmas show.\<close>  Each component has the lemmas of its operations (\<open>x_run\<close>: the outcome on
  every branch; \<open>reads_x\<close>: what only reads; \<open>x_keeps\<close>: the invariant kept) and its properties.
  The locale \<open>machine\<close> turns \<open>x_keeps\<close> into invariants of runs; its instances are the accounts,
  seats, dossiers, rooms, invoices, shifts, reviews, budgets and gateways.  \<open>offline_sync\<close> is the
  synchronisation by client timestamps, for the rites and the courses.  \<open>stored_table\<close> and
  \<open>touches\<close> give the footprint of a method, \<open>framed\<close> the tables an invariant reads, and
  \<open>platform_invariant\<close> asks an invariant only about the methods that write those tables; its
  instances hold after any run of the platform, of which this theory states the properties.

  \<^bold>\<open>Arguments.\<close>  What the code takes from elsewhere is an argument: the moment of a call, random texts,
  bcrypt, signatures and their verification, SHA-256 and HMAC, JSON texts, the collation and number
  formats of the runtime, references of the payment provider and of the storage, what the
  validation pipes make of a body (the rules themselves are in Validation and beside the services).
  Where a property relies on them, their documented law is an assumption (\<open>ticket_contract\<close>, the
  contracts of Auth and Storage).  Of the frameworks only the documented order of a request is
  written out: the first route that matches answers, the guards run before the pipes, the metadata
  of a handler overrides that of its class, and the interceptor sees what the handler returns.

  \<^bold>\<open>Bounds.\<close>  No fuel: the recursions are structural or have a measure.  The loop over the planned
  deductions of a savings plan is a \<open>function\<close> that ends because the date advances, after at most
  one pass a week until the departure (\<open>projection_terminates\<close>).

  \<^bold>\<open>Not modelled.\<close>  Overlapping execution: each call runs to its end, so that row locks do not show.
  The rate limiter, bootstrap, the OpenAPI document and the scripts (the seed of the demonstration):
  wiring of packages.  Logging, but for the lines of the senders, which may hold secrets (Delivery).
  Foreign keys and unique indexes show as \<open>DbError\<close> where the code reads their errors.
\<close>

section \<open>A small platform\<close>

text \<open>
  One agency that waits for its validation, its owner and an administrator, whose access token
  is \<open>admin\<close>.
\<close>

definition admin_env :: realtime_env where
  "admin_env = sample_env\<lparr>re_verifyAccess := (\<lambda>tk now. if tk = ''admin''
     then Some \<lparr>jp_sub = 7, jp_role = ADMIN, jp_phone = None, jp_email = None\<rparr> else None)\<rparr>"

definition sample_admin :: user where
  "sample_admin = sample_owner\<lparr>u_id := 7, u_fullName := ''Admin'', u_email := Some ''c@d'', u_role := ADMIN\<rparr>"

definition waiting_agency :: agency where
  "waiting_agency = sample_agency\<lparr>a_validationStatus := AVS_PENDING\<rparr>"

definition small_platform :: server where
  "small_platform = \<lparr>sv_db = empty_db\<lparr>db_next := 10, db_users := [sample_owner, sample_admin],
     db_agencies := [waiting_agency]\<rparr>, sv_rt = no_realtime\<rparr>"

definition admin_request :: request where
  "admin_request = \<lparr>rq_token = Some ''admin'', rq_now = 1000\<rparr>"

definition after_approval :: server where
  "after_approval = snd (agencies_approve admin_env admin_request 2 small_platform)"

definition after_suspension :: server where
  "after_suspension = snd (users_suspend admin_env admin_request 1 small_platform)"

lemmas small_defs = admin_env_def sample_admin_def waiting_agency_def small_platform_def admin_request_def
  sample_owner_def sample_agency_def empty_db_def

lemma small_steps:
  "platform_step admin_env small_platform after_approval"
  "platform_step admin_env small_platform after_suspension"
  unfolding after_approval_def after_suspension_def
  by (rule platform_step.decision, rule admin_step.intros(1), rule surjective_pairing)
    (rule platform_step.decision, rule admin_step.intros(3), rule surjective_pairing)

lemma small_served:
  "let_through admin_env r_agencies_approve admin_request (sv_db small_platform)"
  "caller admin_env r_agencies_approve admin_request =
     Some \<lparr>jp_sub = 7, jp_role = ADMIN, jp_phone = None, jp_email = None\<rparr>"
  "let_through admin_env r_users_suspend admin_request (sv_db small_platform)"
  "caller admin_env r_users_suspend admin_request =
     Some \<lparr>jp_sub = 7, jp_role = ADMIN, jp_phone = None, jp_email = None\<rparr>"
  by (simp_all add: let_through_def caller_def roles_allowed_def active_account_def admin_routes_defs small_defs)

lemma after_approval:
  "db_agencies (sv_db after_approval) = [waiting_agency\<lparr>a_validationStatus := AVS_APPROVED,
     a_validatedById := Some 7, a_validatedAt := Some 1000\<rparr>]"
  "length (db_auditLogs (sv_db after_approval)) = 1"
  by (simp_all add: after_approval_def agencies_approve_def serve_run small_served)
    (simp_all add: small_defs admin_routes_defs intercept_def with_user_def on_db_at bind_def record_audit_run
      approve_agency_def validate_agency_def catch_def update_row_def)

lemma after_suspension:
  "db_users (sv_db after_suspension) = [sample_owner\<lparr>u_isActive := False, u_updatedAt := 1000\<rparr>, sample_admin]"
  by (simp add: after_suspension_def users_suspend_def serve_run small_served)
    (simp add: small_defs admin_routes_defs intercept_def with_user_def on_db_at bind_def record_audit_run
      set_active_for_admin_def set_active_def update_user_def catch_def update_row_def)

section \<open>Properties\<close>

text \<open>C4: Nothing the backend does (requests, events of the websockets, scheduled jobs, in any
  order) removes or rewrites a record that counts: the audit trail and the invoices only grow at
  their end, and so do the payments, whose booking, amount, currency, rank, means, reference and
  date never change.\<close>

theorem records_append_only:
  assumes "(platform_step env)\<^sup>*\<^sup>* s t"
  shows "prefix (db_auditLogs (sv_db s)) (db_auditLogs (sv_db t)) \<and>
    prefix (db_invoices (sv_db s)) (db_invoices (sv_db t)) \<and>
    prefix (map initiated (db_payments (sv_db s))) (map initiated (db_payments (sv_db t)))"
proof (intro conjI)
  show "prefix (db_auditLogs (sv_db s)) (db_auditLogs (sv_db t))"
    using trail_platform.run_keeps [OF assms, of "db_auditLogs (sv_db s)"] by (simp add: trail_extends_def)
  show "prefix (db_invoices (sv_db s)) (db_invoices (sv_db t))"
    using archive_platform.run_keeps [OF assms, of "db_invoices (sv_db s)"] by (auto simp: extends_def prefix_def)
  show "prefix (map initiated (db_payments (sv_db s))) (map initiated (db_payments (sv_db t)))"
    using ledger_platform.run_keeps [OF assms, of "map initiated (db_payments (sv_db s))"]
    by (simp add: ledger_extends_def)
qed

theorem records_append_only_witness:
  "\<exists>entry. db_auditLogs (sv_db after_approval) = db_auditLogs (sv_db small_platform) @ [entry]"
  using records_append_only [OF r_into_rtranclp [of "platform_step admin_env", OF small_steps(1)]] after_approval(2)
  by (auto simp: small_platform_def empty_db_def length_Suc_conv)

text \<open>C5: A dispute that is resolved or decided stays as it was closed, with its messages and its
  decision, whatever the backend does afterwards, until it is purged.\<close>

theorem closed_disputes_stay_closed:
  assumes "(platform_step env)\<^sup>*\<^sup>* s t" and "well_keyed di_id db_disputes (sv_db s)"
    and "d \<in> set (db_disputes (sv_db s))" and "\<not> dispute_active (di_status d)"
    and "d' \<in> set (db_disputes (sv_db t))" and "di_id d' = di_id d"
  shows "d' = d"
proof -
  have "closed_as d (sv_db s)"
    using assms(2,3) by (auto simp: closed_as_def well_keyed_def list_all_iff distinct_map inj_on_def)
  then have "closed_as d (sv_db t)" by (rule disputes_platform.run_keeps [OF assms(1)])
  then show ?thesis using assms(4-6) by (simp add: closed_as_def)
qed

definition closed_dispute :: dispute where
  "closed_dispute = \<lparr>di_id = 3, di_bookingId = 4, di_pilgrimId = 7, di_agencyId = 2, di_category = ''other'',
     di_subject = ''Hotel'', di_status = DS_RESOLVED, di_decision = None, di_decidedById = None,
     di_escalatedAt = None, di_closedAt = Some 500, di_createdAt = 0, di_updatedAt = 500, di_messages = []\<rparr>"

definition settled_platform :: server where
  "settled_platform = small_platform\<lparr>sv_db := (sv_db small_platform)\<lparr>db_disputes := [closed_dispute]\<rparr>\<rparr>"

theorem closed_disputes_stay_closed_witness:
  "set (filter (\<lambda>d. di_id d = 3) (db_disputes (sv_db (snd (disputes_add_message admin_env admin_request (Inr 3)
     (Inr ''Encore'') settled_platform))))) \<subseteq> {closed_dispute}"
proof
  fix d'
  let ?t = "snd (disputes_add_message admin_env admin_request (Inr 3) (Inr ''Encore'') settled_platform)"
  assume "d' \<in> set (filter (\<lambda>d. di_id d = 3) (db_disputes (sv_db ?t)))"
  then have d': "d' \<in> set (db_disputes (sv_db ?t))" "di_id d' = 3" by simp_all
  have "api_step admin_env settled_platform ?t" by (rule api_step.intros, rule surjective_pairing)
  then have run: "(platform_step admin_env)\<^sup>*\<^sup>* settled_platform ?t"
    by (intro r_into_rtranclp) (rule platform_step.request)
  have "d' = closed_dispute"
    by (rule closed_disputes_stay_closed [OF run _ _ _ d'(1)])
      (simp_all add: d'(2) settled_platform_def small_platform_def empty_db_def well_keyed_def closed_dispute_def
        dispute_active_def)
  then show "d' \<in> {closed_dispute}" by simp
qed

text \<open>C3: Whatever the backend does, in any order, the accounts keep their form (one per contact,
  passwords for agencies and administrators only), no room holds more travellers than it has beds,
  the invoices of each agency and year are numbered without a gap, a booking has one review at most,
  and the amounts of the payments and of the planned deductions are positive.\<close>

theorem platform_stays_in_order:
  assumes "(platform_step env)\<^sup>*\<^sup>* s t"
    and "accounts_ok (sv_db s)" and "rooms_ok (sv_db s)" and "invoices_ok (sv_db s)" and "reviews_ok (sv_db s)"
    and "amounts_ok (sv_db s)"
  shows "accounts_ok (sv_db t) \<and> rooms_ok (sv_db t) \<and> invoices_ok (sv_db t) \<and> reviews_ok (sv_db t) \<and>
    amounts_ok (sv_db t)"
  using assms accounts_platform.run_keeps rooms_platform.run_keeps invoices_platform.run_keeps
    reviews_platform.run_keeps amounts_platform.run_keeps by blast

theorem platform_stays_in_order_witness:
  "accounts_ok (sv_db after_approval) \<and> rooms_ok (sv_db after_approval) \<and>
   invoices_ok (sv_db after_approval) \<and> reviews_ok (sv_db after_approval) \<and> amounts_ok (sv_db after_approval)"
proof (rule platform_stays_in_order [OF r_into_rtranclp [of "platform_step admin_env", OF small_steps(1)]])
  show "accounts_ok (sv_db small_platform)"
    by (simp add: small_defs accounts_ok_def well_keyed_def contacts_unique_def account_ok_def reset_role_def
        less_Suc_eq contact_taken_def to_lower_case_def lower_char_def)
  show "rooms_ok (sv_db small_platform)"
    by (simp add: small_platform_def empty_db_def rooms_ok_def well_keyed_def placed_once_def)
  show "invoices_ok (sv_db small_platform)"
    by (simp add: small_platform_def empty_db_def invoices_ok_def issued_def)
  show "reviews_ok (sv_db small_platform)"
    by (simp add: small_platform_def empty_db_def reviews_ok_def)
  show "amounts_ok (sv_db small_platform)"
    by (simp add: small_platform_def empty_db_def amounts_ok_def)
qed


text \<open>C1: The validation status of an agency changes only by a request of an active administrator to
  approve or reject that very agency, and the audit trail says who it was.\<close>

theorem agencies_decided_by_admins:
  assumes "platform_step env s t" and "a \<in> set (db_agencies (sv_db s))"
    and "\<forall>a' \<in> set (db_agencies (sv_db t)). a_id a' = a_id a \<longrightarrow> a_validationStatus a' \<noteq> a_validationStatus a"
  shows "decided env s t (a_id a) {''agency.approve'', ''agency.reject''}"
proof -
  have gone: "(a_id a, a_validationStatus a) \<notin> set (statuses (sv_db t))"
    using assms(3) by (auto simp: statuses_def)
  moreover have here: "(a_id a, a_validationStatus a) \<in> set (statuses (sv_db s))"
    using assms(2) by (auto simp: statuses_def)
  ultimately have "admin_step env s t"
    using not_standing_is_decision [OF assms(1)] set_mono_prefix by (fastforce simp: standing_def)
  from admin_step_traced [OF this] show ?thesis
  proof (elim disjE exE conjE)
    fix i
    assume "decided env s t i {''agency.approve'', ''agency.reject''}"
      and "\<forall>a \<in> set (db_agencies (sv_db s)). a_id a \<noteq> i \<longrightarrow> a \<in> set (db_agencies (sv_db t))"
    then show ?thesis using assms(2,3) by (cases "a_id a = i") auto
  qed (use gone here in simp_all)
qed

theorem agencies_decided_by_admins_witness:
  "decided admin_env small_platform after_approval 2 {''agency.approve'', ''agency.reject''}"
  using agencies_decided_by_admins [OF small_steps(1), of waiting_agency] after_approval(1)
  by (simp add: small_defs)


text \<open>C2: An account loses or regains its access, or changes its role, only by a request of an active
  administrator to suspend or reactivate that very account, and the audit trail says who it was.\<close>

theorem access_decided_by_admins:
  assumes "platform_step env s t" and "u \<in> set (db_users (sv_db s))"
    and "\<forall>u' \<in> set (db_users (sv_db t)). u_id u' = u_id u \<longrightarrow>
      (u_role u', u_isActive u') \<noteq> (u_role u, u_isActive u)"
  shows "decided env s t (u_id u) {''user.suspend'', ''user.reactivate''}"
proof -
  have gone: "(u_id u, u_role u, u_isActive u) \<notin> set (accesses (sv_db t))"
    using assms(3) by (auto simp: accesses_def)
  moreover have here: "(u_id u, u_role u, u_isActive u) \<in> set (accesses (sv_db s))"
    using assms(2) by (auto simp: accesses_def)
  ultimately have "admin_step env s t"
    using not_standing_is_decision [OF assms(1)] set_mono_prefix by (fastforce simp: standing_def)
  from admin_step_traced [OF this] show ?thesis
  proof (elim disjE exE conjE)
    fix i
    assume "decided env s t i {''user.suspend'', ''user.reactivate''}"
      and "\<forall>u \<in> set (db_users (sv_db s)). u_id u \<noteq> i \<longrightarrow> u \<in> set (db_users (sv_db t))"
    then show ?thesis using assms(2,3) by (cases "u_id u = i") auto
  qed (use gone here in simp_all)
qed

theorem access_decided_by_admins_witness:
  "decided admin_env small_platform after_suspension 1 {''user.suspend'', ''user.reactivate''}"
  using access_decided_by_admins [OF small_steps(2), of sample_owner] after_suspension
  by (simp add: small_defs)

end
